(* ===== verification/Prelude.thy ===== *)
theory Prelude
  imports Main "HOL-Library.Word" "HOL-Library.Sublist"
begin

text \<open>
  The shared ground of the development: the Go standard-library functions on strings and
  numbers that the operator uses (package \<^verbatim>\<open>strings\<close>, \<^verbatim>\<open>strconv\<close>, \<^verbatim>\<open>fmt\<close>), the conversion of
  an integer to \<^verbatim>\<open>int32\<close> with its wrap-around, the search of a list for the first element
  that satisfies a predicate, and the named collections of facts the component theories
  extend. Strings are byte strings (\<^typ>\<open>string\<close>); the names, tags and versions the
  operator handles are ASCII.
\<close>

named_theorems go_defs "definitions of the Go standard-library functions"
named_theorems const_defs "definitions of the operator's string and number constants"

section \<open>Results\<close>

text \<open>A Go call that returns a value and an error: \<open>Inl\<close> is the error.\<close>

type_synonym ('e, 'a) result = "'e + 'a"

fun is_ok :: "('e, 'a) result \<Rightarrow> bool" where
  "is_ok (Inl e) = False"
| "is_ok (Inr a) = True"

section \<open>Package strings\<close>

text \<open>
  \<^verbatim>\<open>strings.HasPrefix\<close>, \<^verbatim>\<open>strings.HasSuffix\<close> and \<^verbatim>\<open>strings.Contains\<close> are the library's
  \<^const>\<open>prefix\<close>, \<^const>\<open>suffix\<close> and \<^const>\<open>sublist\<close>.
\<close>

definition has_prefix :: "string \<Rightarrow> string \<Rightarrow> bool" where
  "has_prefix s p = prefix p s"

definition has_suffix :: "string \<Rightarrow> string \<Rightarrow> bool" where
  "has_suffix s p = suffix p s"

definition contains :: "string \<Rightarrow> string \<Rightarrow> bool" where
  "contains s sub = sublist sub s"

text \<open>\<^verbatim>\<open>strings.Index\<close> for a one-character pattern; \<open>None\<close> is Go's \<open>-1\<close>.\<close>

fun index_char :: "char \<Rightarrow> string \<Rightarrow> nat option" where
  "index_char c [] = None"
| "index_char c (x # xs) = (if x = c then Some 0 else map_option Suc (index_char c xs))"

text \<open>\<^verbatim>\<open>strings.LastIndex\<close> for a one-character pattern.\<close>

fun last_index_char :: "char \<Rightarrow> string \<Rightarrow> nat option" where
  "last_index_char c [] = None"
| "last_index_char c (x # xs) =
     (case last_index_char c xs of
        Some i \<Rightarrow> Some (Suc i)
      | None \<Rightarrow> if x = c then Some 0 else None)"

definition is_space :: "char \<Rightarrow> bool" where
  "is_space c = (c \<in> set [CHR 0x09, CHR 0x0A, CHR 0x0B, CHR 0x0C, CHR 0x0D, CHR 0x20])"

definition trim_left :: "string \<Rightarrow> string" where
  "trim_left s = dropWhile is_space s"

definition trim_space :: "string \<Rightarrow> string" where
  "trim_space s = rev (trim_left (rev (trim_left s)))"

definition NL :: string where
  "NL = [CHR 0x0A]"

definition TAB :: string where
  "TAB = [CHR 0x09]"

definition BACKSLASH :: string where
  "BACKSLASH = [CHR 0x5C]"

text \<open>\<^verbatim>\<open>strings.Join\<close>.\<close>

fun join :: "string \<Rightarrow> string list \<Rightarrow> string" where
  "join sep [] = []"
| "join sep [x] = x"
| "join sep (x # y # xs) = x @ sep @ join sep (y # xs)"

text \<open>A string cut at the characters of a kind; \<^verbatim>\<open>strings.Split\<close> for a separator of one character.\<close>

fun split_by :: "(char \<Rightarrow> bool) \<Rightarrow> string \<Rightarrow> string list" where
  "split_by p [] = [[]]"
| "split_by p (x # xs) = (if p x then [] # split_by p xs else (x # hd (split_by p xs)) # tl (split_by p xs))"

definition split_char :: "char \<Rightarrow> string \<Rightarrow> string list" where
  "split_char c s = split_by (\<lambda>x. x = c) s"

lemma index_char_None [simp]: "index_char c s = None \<longleftrightarrow> c \<notin> set s"
  by (induction s) auto

lemma index_char_Some:
  "index_char c s = Some i \<Longrightarrow> i < length s \<and> s ! i = c \<and> c \<notin> set (take i s)"
  by (induction s arbitrary: i) (auto split: if_splits)

lemma index_char_append:
  "c \<notin> set xs \<Longrightarrow> index_char c (xs @ c # ys) = Some (length xs)"
  by (induction xs) auto

lemma last_index_char_None [simp]: "last_index_char c s = None \<longleftrightarrow> c \<notin> set s"
  by (induction s) (auto split: option.splits)

lemma index_char_absent [simp]: "c \<notin> set s \<Longrightarrow> index_char c s = None"
  by simp

lemma last_index_char_absent [simp]: "c \<notin> set s \<Longrightarrow> last_index_char c s = None"
  by simp

lemma last_index_char_Some:
  "last_index_char c s = Some i \<Longrightarrow> i < length s \<and> s ! i = c \<and> c \<notin> set (drop (Suc i) s)"
proof (induction s arbitrary: i)
  case Nil
  then show ?case by simp
next
  case (Cons x xs)
  show ?case
  proof (cases "last_index_char c xs")
    case None
    with Cons.prems show ?thesis by (auto split: if_splits)
  next
    case (Some j)
    with Cons.prems have "i = Suc j" by simp
    with Cons.IH [OF Some] show ?thesis by simp
  qed
qed

lemma last_index_char_append:
  "c \<notin> set ys \<Longrightarrow> last_index_char c (xs @ c # ys) = Some (length xs)"
proof (induction xs)
  case Nil
  then show ?case by (simp add: last_index_char_None [THEN iffD2])
next
  case (Cons x xs)
  then show ?case by simp
qed

lemma contains_append [simp]: "contains (xs @ sub @ ys) sub"
  by (simp add: contains_def)

lemma trim_left_id: "s = [] \<or> \<not> is_space (hd s) \<Longrightarrow> trim_left s = s"
  by (cases s) (auto simp: trim_left_def)

lemma trim_space_id:
  assumes "s = [] \<or> (\<not> is_space (hd s) \<and> \<not> is_space (last s))"
  shows "trim_space s = s"
  using assms by (cases "s = []") (auto simp: trim_space_def trim_left_id hd_rev)

lemma split_by_word: "\<forall>c \<in> set w. \<not> p c \<Longrightarrow> split_by p w = [w]"
  by (induction w) auto

lemma split_by_nonempty [simp]: "split_by p s \<noteq> []"
  by (induction s) auto

lemma split_by_append: "\<forall>c \<in> set w. \<not> p c \<Longrightarrow> p x \<Longrightarrow> split_by p (w @ x # s) = w # split_by p s"
  by (induction w) auto

lemma split_char_Cons:
  "split_char c (x # s) = (if x = c then [] # split_char c s else (x # hd (split_char c s)) # tl (split_char c s))"
  by (simp add: split_char_def)

lemma split_char_Nil [simp]: "split_char c [] = [[]]"
  by (simp add: split_char_def)

lemma split_char_nonempty [simp]: "split_char c s \<noteq> []"
  by (induction s) (simp_all add: split_char_Cons)

lemma length_split_char: "length (split_char c s) = Suc (length (filter (\<lambda>x. x = c) s))"
proof (induction s)
  case Nil
  then show ?case by simp
next
  case (Cons x s)
  then show ?case by (cases "split_char c s") (auto simp: split_char_Cons)
qed

lemma split_char_absent: "c \<notin> set s \<Longrightarrow> split_char c s = [s]"
  by (induction s) (auto simp: split_char_Cons)

lemma split_char_append: "c \<notin> set s \<Longrightarrow> split_char c (s @ c # t) = s # split_char c t"
  by (induction s) (auto simp: split_char_Cons)

section \<open>Package strconv\<close>

definition digit_char :: "nat \<Rightarrow> char" where
  "digit_char d = char_of (48 + d)"

definition is_digit :: "char \<Rightarrow> bool" where
  "is_digit c = (48 \<le> (of_char c :: nat) \<and> (of_char c :: nat) \<le> 57)"

definition digit_val :: "char \<Rightarrow> nat" where
  "digit_val c = of_char c - 48"

text \<open>The decimal digits of a natural number, as \<^verbatim>\<open>fmt\<close>'s \<^verbatim>\<open>%d\<close> prints them.\<close>

fun utoa :: "nat \<Rightarrow> string" where
  "utoa n = (if n < 10 then [digit_char n] else utoa (n div 10) @ [digit_char (n mod 10)])"

declare utoa.simps [simp del]

definition itoa :: "int \<Rightarrow> string" where
  "itoa i = (if i < 0 then CHR ''-'' # utoa (nat (- i)) else utoa (nat i))"

fun digits_val :: "nat \<Rightarrow> string \<Rightarrow> nat" where
  "digits_val acc [] = acc"
| "digits_val acc (c # cs) = digits_val (10 * acc + digit_val c) cs"

definition min_int64 :: int where
  "min_int64 = - (2 ^ 63)"

definition max_int64 :: int where
  "max_int64 = 2 ^ 63 - 1"

text \<open>
  \<^verbatim>\<open>strconv.Atoi\<close> on a 64-bit platform: an optional sign, at least one decimal digit and
  nothing else, and a value in the range of \<^verbatim>\<open>int64\<close>; anything else is an error.
\<close>

definition atoi :: "string \<Rightarrow> int option" where
  "atoi s =
     (let (neg, ds) = (case s of
            [] \<Rightarrow> (False, [])
          | c # cs \<Rightarrow> if c = CHR ''-'' then (True, cs)
                      else if c = CHR ''+'' then (False, cs) else (False, s))
      in if ds = [] \<or> \<not> list_all is_digit ds then None
         else let v = (if neg then - int (digits_val 0 ds) else int (digits_val 0 ds))
              in if min_int64 \<le> v \<and> v \<le> max_int64 then Some v else None)"

lemma of_char_digit_char: "d < 10 \<Longrightarrow> of_char (digit_char d) = 48 + d"
  by (simp add: digit_char_def)

lemma is_digit_digit_char [simp]: "d < 10 \<Longrightarrow> is_digit (digit_char d)"
  by (simp add: is_digit_def of_char_digit_char)

lemma digit_val_digit_char [simp]: "d < 10 \<Longrightarrow> digit_val (digit_char d) = d"
  by (simp add: digit_val_def of_char_digit_char)

lemma digits_val_append: "digits_val acc (xs @ ys) = digits_val (digits_val acc xs) ys"
  by (induction xs arbitrary: acc) auto

lemma utoa_digits: "list_all is_digit (utoa n)"
proof (induction n rule: utoa.induct)
  case (1 n)
  then show ?case by (cases "n < 10") (simp_all add: utoa.simps [of n])
qed

lemma utoa_nonempty [simp]: "utoa n \<noteq> []"
  by (subst utoa.simps) simp

lemma digits_val_utoa [simp]: "digits_val 0 (utoa n) = n"
proof (induction n rule: utoa.induct)
  case (1 n)
  then show ?case
    by (cases "n < 10") (simp_all add: utoa.simps [of n] digits_val_append)
qed

lemma utoa_inj [simp]: "utoa m = utoa n \<longleftrightarrow> m = n"
  by (metis digits_val_utoa)

lemma utoa_hd_digit [simp]: "is_digit (hd (utoa n))"
  using utoa_digits [of n] by (cases "utoa n") auto

lemma digit_not [simp]:
  "\<not> is_digit (CHR ''-'')" "\<not> is_digit (CHR ''+'')" "\<not> is_digit (CHR ''.'')"
  "\<not> is_digit (CHR '':'')" "\<not> is_digit (CHR ''@'')" "\<not> is_digit (CHR ''l'')"
  by (simp_all add: is_digit_def)

lemma digit_not_space [simp]: "is_digit c \<Longrightarrow> \<not> is_space c"
  by (auto simp: is_digit_def is_space_def)

lemma utoa_chars: "c \<in> set (utoa n) \<Longrightarrow> is_digit c"
  using utoa_digits [of n] by (auto simp: list_all_iff)

lemma utoa_no_sep [simp]:
  "CHR ''-'' \<notin> set (utoa n)" "CHR ''.'' \<notin> set (utoa n)" "CHR ''+'' \<notin> set (utoa n)"
  "CHR '':'' \<notin> set (utoa n)" "CHR ''@'' \<notin> set (utoa n)"
  using utoa_chars digit_not by blast+

lemma atoi_digits:
  assumes "ds \<noteq> []" and "list_all is_digit ds" and "int (digits_val 0 ds) \<le> max_int64"
  shows "atoi ds = Some (int (digits_val 0 ds))"
proof -
  obtain c cs where ds: "ds = c # cs" using assms(1) by (cases ds) auto
  with assms(2) have "c \<noteq> CHR ''-''" "c \<noteq> CHR ''+''" by auto
  moreover have "min_int64 \<le> int (digits_val 0 ds)" by (simp add: min_int64_def)
  ultimately show ?thesis using assms ds by (simp add: atoi_def)
qed

lemma atoi_utoa: "int n \<le> max_int64 \<Longrightarrow> atoi (utoa n) = Some (int n)"
  by (simp add: atoi_digits utoa_digits)

lemma atoi_Nil [simp]: "atoi [] = None"
  by (simp add: atoi_def)

text \<open>The conversion \<^verbatim>\<open>int32(i)\<close>: two's complement truncation to 32 bits.\<close>

definition to_int32 :: "int \<Rightarrow> int" where
  "to_int32 i = (i + 2 ^ 31) mod 2 ^ 32 - 2 ^ 31"

lemma to_int32_range: "- (2 ^ 31) \<le> to_int32 i \<and> to_int32 i < 2 ^ 31"
proof -
  have "0 \<le> (i + 2 ^ 31) mod 2 ^ 32" "(i + 2 ^ 31) mod 2 ^ 32 < (2 ^ 32 :: int)"
    by simp_all
  then show ?thesis by (auto simp: to_int32_def)
qed

lemma to_int32_id: "- (2 ^ 31) \<le> i \<Longrightarrow> i < 2 ^ 31 \<Longrightarrow> to_int32 i = i"
  by (simp add: to_int32_def)

text \<open>A 64-bit signed result: two's complement truncation to 64 bits.\<close>

definition to_int64 :: "int \<Rightarrow> int" where
  "to_int64 i = (i + 2 ^ 63) mod 2 ^ 64 - 2 ^ 63"

lemma to_int64_id: "- (2 ^ 63) \<le> i \<Longrightarrow> i < 2 ^ 63 \<Longrightarrow> to_int64 i = i"
  by (simp add: to_int64_def)

section \<open>Search in a list\<close>

text \<open>The Go loop \<^verbatim>\<open>for i, x := range xs { if p(x) { return i, true } }\<close>.\<close>

fun find_index :: "('a \<Rightarrow> bool) \<Rightarrow> 'a list \<Rightarrow> nat option" where
  "find_index p [] = None"
| "find_index p (x # xs) = (if p x then Some 0 else map_option Suc (find_index p xs))"

lemma find_index_None: "find_index p xs = None \<longleftrightarrow> (\<forall>x \<in> set xs. \<not> p x)"
  by (induction xs) auto

lemma find_index_Some:
  "find_index p xs = Some i \<Longrightarrow> i < length xs \<and> p (xs ! i) \<and> (\<forall>j < i. \<not> p (xs ! j))"
proof (induction xs arbitrary: i)
  case Nil
  then show ?case by simp
next
  case (Cons x xs)
  show ?case
  proof (cases "p x")
    case True
    with Cons.prems show ?thesis by simp
  next
    case False
    with Cons.prems obtain j where j: "find_index p xs = Some j" "i = Suc j" by auto
    with Cons.IH [OF j(1)] False show ?thesis by (auto simp: less_Suc_eq_0_disj)
  qed
qed

lemma find_index_take: "find_index p xs = Some i \<Longrightarrow> \<forall>x \<in> set (take i xs). \<not> p x"
  by (induction xs arbitrary: i) (auto split: if_splits)

lemma find_index_append:
  "find_index p (xs @ ys) =
     (case find_index p xs of
        Some i \<Rightarrow> Some i
      | None \<Rightarrow> map_option (\<lambda>j. length xs + j) (find_index p ys))"
proof (induction xs)
  case Nil
  then show ?case by (cases "find_index p ys") auto
next
  case (Cons x xs)
  then show ?case by (cases "find_index p ys") (auto split: option.splits)
qed

lemma find_index_eq_find:
  "find p xs = map_option (nth xs) (find_index p xs)"
  by (induction xs) (auto simp: option.map_comp o_def)

end
