(* ===== verification/ApiTypes.thy ===== *)
theory ApiTypes
  imports Prelude
begin

text \<open>
  The data of the operator: the custom resource \<^verbatim>\<open>MysqlCluster\<close> with its spec and status
  (\<^verbatim>\<open>pkg/apis/mysql/v1alpha1\<close>), the identifiers of \<^verbatim>\<open>pkg/apis/domain\<close>, the operator's options,
  and the fields of the Kubernetes objects (pods, stateful sets, claims) the code reads.

  Conventions. A Go pointer that may be nil is an \<open>option\<close>. A Go map read only by key is a
  map \<open>'k \<rightharpoonup> 'v\<close> (a nil map and an empty map read alike); \<open>mysqlConf\<close>, which the code writes,
  keeps nil apart as \<open>None\<close>, because a write to a nil map panics. A resource quantity is its
  serialised text (\<^verbatim>\<open>1Gi\<close>), and the arithmetic of \<^verbatim>\<open>k8s.io/apimachinery\<close> on it is a parameter
  of the definitions that use it. A Kubernetes value the operator only copies is its serialised form
  (\<open>k8s_raw\<close>). Times are nanoseconds since the epoch.
\<close>

type_synonym k8s_raw = string
type_synonym time = int
type_synonym quantity = string
type_synonym str_map = "string \<rightharpoonup> string"
type_synonym resource_list = "string \<rightharpoonup> quantity"

datatype condition_status = ConditionTrue | ConditionFalse | ConditionUnknown

datatype int_or_string = IntVal int | StrVal string

record resource_requirements =
  rr_Requests :: resource_list
  rr_Limits :: resource_list

section \<open>Kubernetes objects\<close>

text \<open>The value of a variable that is taken from a field of the pod, or from a key of a secret (which may be optional).\<close>

datatype env_source = FieldRef string string | SecretKeyRef string string bool

record env_var =
  ev_Name :: string
  ev_Value :: string
  ev_ValueFrom :: "env_source option"

record container_port =
  cp_Name :: string
  cp_ContainerPort :: int
  cp_Protocol :: string

record volume_mount =
  vm_Name :: string
  vm_MountPath :: string
  vm_ReadOnly :: bool

datatype volume_source =
    NoVolumeSource
  | EmptyDirVolume string "quantity option" \<comment> \<open>medium and size limit\<close>
  | ConfigMapVolume string int \<comment> \<open>name and file mode\<close>
  | ClaimVolume string
  | UserVolume k8s_raw

record volume =
  vol_Name :: string
  vol_Source :: volume_source

datatype handler = ExecAction "string list" | HTTPGetAction string int_or_string string

record probe =
  pr_InitialDelaySeconds :: int
  pr_TimeoutSeconds :: int
  pr_PeriodSeconds :: int
  pr_SuccessThreshold :: int
  pr_FailureThreshold :: int
  pr_Handler :: handler

datatype lifecycle = UserLifecycle k8s_raw | PreStopHook handler

record security_context =
  sc_RunAsUser :: "int option"
  sc_RunAsGroup :: "int option"
  sc_AllowPrivilegeEscalation :: "bool option"

text \<open>
  A container. The slices that the operator replaces when they are nil keep nil apart as \<open>None\<close>. The sources in
  \<open>ct_EnvFrom\<close> are names of secrets.
\<close>

record container =
  ct_Name :: string
  ct_Image :: string
  ct_ImagePullPolicy :: string
  ct_Command :: "string list"
  ct_Args :: "string list option"
  ct_EnvFrom :: "string list option"
  ct_Env :: "env_var list option"
  ct_VolumeMounts :: "volume_mount list option"
  ct_Ports :: "container_port list option"
  ct_Resources :: resource_requirements
  ct_LivenessProbe :: "probe option"
  ct_ReadinessProbe :: "probe option"
  ct_Lifecycle :: "lifecycle option"
  ct_SecurityContext :: "security_context option"
  ct_TerminationMessagePath :: string
  ct_TerminationMessagePolicy :: string

text \<open>The elements of a slice, and the container with a name and nothing else.\<close>

definition slice :: "'a list option \<Rightarrow> 'a list" where
  "slice xs = (case xs of None \<Rightarrow> [] | Some ys \<Rightarrow> ys)"

lemma slice_simps [simp]: "slice None = []" "slice (Some ys) = ys"
  by (simp_all add: slice_def)

definition bare_container :: "string \<Rightarrow> container" where
  "bare_container name =
     \<lparr>ct_Name = name, ct_Image = [], ct_ImagePullPolicy = [], ct_Command = [], ct_Args = None, ct_EnvFrom = None, ct_Env = None,
      ct_VolumeMounts = None, ct_Ports = None, ct_Resources = \<lparr>rr_Requests = Map.empty, rr_Limits = Map.empty\<rparr>,
      ct_LivenessProbe = None, ct_ReadinessProbe = None, ct_Lifecycle = None, ct_SecurityContext = None,
      ct_TerminationMessagePath = [], ct_TerminationMessagePolicy = []\<rparr>"

lemma bare_container_sel [simp]:
  "ct_Name (bare_container name) = name" "ct_Image (bare_container name) = []" "ct_Env (bare_container name) = None"
  by (simp_all add: bare_container_def)

record pod_condition =
  pc_Type :: string
  pc_Status :: condition_status
  pc_LastTransitionTime :: time
  pc_Reason :: string
  pc_Message :: string

record container_status =
  cst_Name :: string
  cst_Terminated :: "int option" \<comment> \<open>the exit code, when the container has terminated\<close>

record pod =
  pod_Name :: string
  pod_Namespace :: string
  pod_Labels :: str_map
  pod_Hostname :: string
  pod_Containers :: "container list"
  pod_InitContainers :: "container list"
  pod_Phase :: string
  pod_Conditions :: "pod_condition list"
  pod_InitContainerStatuses :: "container_status list"

record stateful_set =
  sts_Containers :: "container list"
  sts_InitContainers :: "container list"
  sts_ReadyReplicas :: int
  sts_Replicas :: "int option"

record pvc_spec =
  pvs_AccessModes :: "string list"
  pvs_Resources :: resource_requirements
  pvs_StorageClassName :: "string option"
  pvs_VolumeMode :: "string option"

text \<open>
  The affinity of a pod: a value the user wrote, or the preferred anti-affinity the operator
  sets (weight, topology key and the labels of the pods to stay away from).
\<close>

datatype affinity =
    UserAffinity k8s_raw
  | PreferredPodAntiAffinity int string str_map

section \<open>The MysqlCluster resource\<close>

datatype cluster_condition_type =
    ClusterConditionReady
  | ClusterConditionFailoverAck
  | ClusterConditionReadOnly
  | ClusterConditionFailoverInProgress
  | ClusterConditionUpgradeBlocked

datatype node_condition_type =
    NodeConditionLagged
  | NodeConditionReplicating
  | NodeConditionMaster
  | NodeConditionReadOnly

record cluster_condition =
  cc_Type :: cluster_condition_type
  cc_Status :: condition_status
  cc_LastTransitionTime :: time
  cc_Reason :: string
  cc_Message :: string

record node_condition =
  nc_Type :: node_condition_type
  nc_Status :: condition_status
  nc_LastTransitionTime :: time

record node_status =
  ns_Name :: string
  ns_Conditions :: "node_condition list"

record query_limits =
  ql_MaxIdleTime :: "int option"
  ql_MaxQueryTime :: int
  ql_Kill :: string
  ql_KillMode :: string
  ql_IgnoreDb :: "string list"
  ql_IgnoreCommand :: "string list"
  ql_IgnoreUser :: "string list"

record volume_spec =
  vs_EmptyDir :: "k8s_raw option"
  vs_HostPath :: "k8s_raw option"
  vs_PersistentVolumeClaim :: "pvc_spec option"
  vs_KeepAfterDelete :: bool

record pod_spec =
  ps_ImagePullPolicy :: string
  ps_ImagePullSecrets :: "string list"
  ps_Labels :: str_map
  ps_Annotations :: str_map
  ps_Resources :: resource_requirements
  ps_Affinity :: "affinity option"
  ps_MysqlLifecycle :: "k8s_raw option"
  ps_NodeSelector :: str_map
  ps_PriorityClassName :: string
  ps_Tolerations :: "k8s_raw list"
  ps_ServiceAccountName :: string
  ps_BackupAffinity :: "affinity option"
  ps_BackupNodeSelector :: "str_map option"
  ps_BackupPriorityClassName :: string
  ps_BackupTolerations :: "k8s_raw list option"
  ps_Volumes :: "volume list"
  ps_VolumeMounts :: "volume_mount list"
  ps_InitContainers :: "container list"
  ps_Containers :: "container list"
  ps_MetricsExporterResources :: resource_requirements
  ps_MySQLOperatorSidecarResources :: resource_requirements
  ps_PtHeartbeatResources :: resource_requirements

type_synonym mysql_conf = "(string \<rightharpoonup> int_or_string) option"

record mysql_cluster_spec =
  cs_Replicas :: "int option"
  cs_SecretName :: string
  cs_MysqlVersion :: string
  cs_Image :: string
  cs_SidecarImage :: string
  cs_InitBucketURL :: string
  cs_InitBucketURI :: string
  cs_InitBucketSecretName :: string
  cs_MinAvailable :: string
  cs_BackupSchedule :: string
  cs_BackupURL :: string
  cs_BackupRemoteDeletePolicy :: string
  cs_BackupSecretName :: string
  cs_BackupScheduleJobsHistoryLimit :: "int option"
  cs_MysqlConf :: mysql_conf
  cs_PodSpec :: pod_spec
  cs_VolumeSpec :: volume_spec
  cs_TmpfsSize :: "quantity option"
  cs_MaxSlaveLatency :: "int option"
  cs_QueryLimits :: "query_limits option"
  cs_ReadOnly :: bool
  cs_ServerIDOffset :: "int option"
  cs_BackupCompressCommand :: "string list"
  cs_BackupDecompressCommand :: "string list"
  cs_MetricsExporterExtraArgs :: "string list"
  cs_RcloneExtraArgs :: "string list"
  cs_XbstreamExtraArgs :: "string list"
  cs_XtrabackupExtraArgs :: "string list"
  cs_XtrabackupPrepareExtraArgs :: "string list"
  cs_XtrabackupTargetDir :: string
  cs_InitFileExtraSQL :: "string list"

record mysql_cluster_status =
  st_AppliedMysqlVersion :: string
  st_ReadyNodes :: int
  st_Conditions :: "cluster_condition list"
  st_Nodes :: "node_status list"

record mysql_cluster =
  mc_Name :: string
  mc_Namespace :: string
  mc_UID :: string
  mc_Annotations :: str_map
  mc_Finalizers :: "string list"
  mc_DeletionTimestamp :: "time option"
  mc_Spec :: mysql_cluster_spec
  mc_Status :: mysql_cluster_status

section \<open>Operator options\<close>

record options =
  opt_SidecarMysql57Image :: string
  opt_SidecarMysql8Image :: string
  opt_SidecarMysql84Image :: string
  opt_MetricsExporterImage :: string
  opt_ImagePullSecretName :: string
  opt_ImagePullPolicy :: string
  opt_OrchestratorURI :: string
  opt_OrchestratorTopologyPassword :: string
  opt_OrchestratorTopologyUser :: string
  opt_LeaderElectionNamespace :: string
  opt_LeaderElectionID :: string
  opt_Namespace :: string
  opt_MySQLVersionImageOverride :: str_map
  opt_MySQLVersionCatalogFile :: string
  opt_mysqlVersionCatalog :: str_map
  opt_OrchestratorConcurrentReconciles :: int
  opt_FailoverBeforeShutdownEnabled :: bool
  opt_ClusterRestrictPrivilegeEscalation :: bool
  opt_AllowCrossNamespaceUsers :: bool
  opt_AllowCrossNamespaceDatabases :: bool
  opt_MetricsBindAddress :: string
  opt_HealthProbeBindAddress :: string

text \<open>\<^verbatim>\<open>Options.MysqlImageFromCatalog\<close>: the image and whether the key is present.\<close>

definition MysqlImageFromCatalog :: "options \<Rightarrow> string \<Rightarrow> string option" where
  "MysqlImageFromCatalog o' versionKey = opt_mysqlVersionCatalog o' versionKey"

section \<open>Identifiers of package domain\<close>

definition APIGroup :: string where
  [const_defs]: "APIGroup = ''mysql'' @ ''.'' @ ''presslabs.org''"

definition ManagedBy :: string where
  [const_defs]: "ManagedBy = APIGroup"

definition LabelCluster :: string where
  [const_defs]: "LabelCluster = APIGroup @ ''/cluster''"

definition AnnotationVersion :: string where
  [const_defs]: "AnnotationVersion = APIGroup @ ''/version''"

definition AnnotationSkipGTIDPurged :: string where
  [const_defs]: "AnnotationSkipGTIDPurged = APIGroup @ ''/skip-gtid-purged''"

definition FinalizerOrchestrator :: string where
  [const_defs]: "FinalizerOrchestrator = APIGroup @ ''/registered-in-orchestrator''"

definition NodeInitializedConditionType :: string where
  [const_defs]: "NodeInitializedConditionType = APIGroup @ ''/NodeInitialized''"

definition IsManagedByMySQL :: "str_map \<Rightarrow> bool" where
  "IsManagedByMySQL ls = (ls ''app.kubernetes.io/managed-by'' = Some ManagedBy)"

section \<open>A concrete cluster\<close>

text \<open>A cluster with three replicas and no status, used where a theorem is applied at concrete values.\<close>

definition ref_resources :: resource_requirements where
  "ref_resources = \<lparr>rr_Requests = Map.empty, rr_Limits = Map.empty\<rparr>"

definition ref_pod_spec :: pod_spec where
  "ref_pod_spec =
     \<lparr>ps_ImagePullPolicy = [], ps_ImagePullSecrets = [], ps_Labels = Map.empty,
      ps_Annotations = Map.empty, ps_Resources = ref_resources, ps_Affinity = None,
      ps_MysqlLifecycle = None, ps_NodeSelector = Map.empty, ps_PriorityClassName = [],
      ps_Tolerations = [], ps_ServiceAccountName = [], ps_BackupAffinity = None,
      ps_BackupNodeSelector = None, ps_BackupPriorityClassName = [],
      ps_BackupTolerations = None, ps_Volumes = [], ps_VolumeMounts = [], ps_InitContainers = [],
      ps_Containers = [], ps_MetricsExporterResources = ref_resources,
      ps_MySQLOperatorSidecarResources = ref_resources, ps_PtHeartbeatResources = ref_resources\<rparr>"

definition ref_pvc_spec :: pvc_spec where
  "ref_pvc_spec =
     \<lparr>pvs_AccessModes = [''ReadWriteOnce''],
      pvs_Resources = \<lparr>rr_Requests = [''storage'' \<mapsto> ''1Gi''], rr_Limits = Map.empty\<rparr>,
      pvs_StorageClassName = None, pvs_VolumeMode = None\<rparr>"

definition ref_spec :: mysql_cluster_spec where
  "ref_spec =
     \<lparr>cs_Replicas = Some 3, cs_SecretName = ''sec'', cs_MysqlVersion = ''8.4'', cs_Image = [],
      cs_SidecarImage = [], cs_InitBucketURL = [], cs_InitBucketURI = [],
      cs_InitBucketSecretName = [], cs_MinAvailable = [], cs_BackupSchedule = [],
      cs_BackupURL = [], cs_BackupRemoteDeletePolicy = [], cs_BackupSecretName = [],
      cs_BackupScheduleJobsHistoryLimit = None, cs_MysqlConf = None, cs_PodSpec = ref_pod_spec,
      cs_VolumeSpec = \<lparr>vs_EmptyDir = None, vs_HostPath = None,
        vs_PersistentVolumeClaim = Some ref_pvc_spec, vs_KeepAfterDelete = False\<rparr>,
      cs_TmpfsSize = None, cs_MaxSlaveLatency = None, cs_QueryLimits = None, cs_ReadOnly = False,
      cs_ServerIDOffset = None, cs_BackupCompressCommand = [], cs_BackupDecompressCommand = [],
      cs_MetricsExporterExtraArgs = [], cs_RcloneExtraArgs = [], cs_XbstreamExtraArgs = [],
      cs_XtrabackupExtraArgs = [], cs_XtrabackupPrepareExtraArgs = [],
      cs_XtrabackupTargetDir = [], cs_InitFileExtraSQL = []\<rparr>"

definition ref_cluster :: mysql_cluster where
  "ref_cluster =
     \<lparr>mc_Name = ''db'', mc_Namespace = ''ns'', mc_UID = ''u1'', mc_Annotations = Map.empty, mc_Finalizers = [],
      mc_DeletionTimestamp = None, mc_Spec = ref_spec,
      mc_Status = \<lparr>st_AppliedMysqlVersion = [], st_ReadyNodes = 0, st_Conditions = [], st_Nodes = []\<rparr>\<rparr>"

lemmas ref_defs = ref_cluster_def ref_spec_def ref_pvc_spec_def ref_pod_spec_def ref_resources_def

end
