(* ===== verification/Semver.thy ===== *)
theory Semver
  imports ApiTypes
begin

text \<open>
  Packages \<^verbatim>\<open>pkg/util/semver\<close> and \<^verbatim>\<open>pkg/util/mysqlversion\<close>: the operator's version type, its
  wrapper around the third-party package \<^verbatim>\<open>github.com/blang/semver\<close>, and the version gates.

  The third-party package is not part of the repository. It is the parameter \<open>bl\<close> of every
  definition that calls it, a record of the functions the wrapper uses. What its documentation
  promises of them is the predicate \<open>blang_ok\<close>, a hypothesis of the theorems that need it;
  \<open>ref_blang\<close> is a concrete instance that satisfies it.
\<close>

section \<open>The third-party package as a parameter\<close>

record blang_version =
  bv_Major :: "64 word"
  bv_Minor :: "64 word"
  bv_Patch :: "64 word"
  bv_Pre :: "string list"
  bv_Build :: "string list"

record blang =
  bl_Parse :: "string \<Rightarrow> blang_version option"
  bl_ParseTolerant :: "string \<Rightarrow> blang_version option"
  bl_EQ :: "blang_version \<Rightarrow> blang_version \<Rightarrow> bool"
  bl_LT :: "blang_version \<Rightarrow> blang_version \<Rightarrow> bool"
  bl_GT :: "blang_version \<Rightarrow> blang_version \<Rightarrow> bool"
  bl_String :: "blang_version \<Rightarrow> string"
  bl_ParseRange :: "string \<Rightarrow> (blang_version \<Rightarrow> bool)"

section \<open>Package semver\<close>

record version =
  Major :: "64 word"
  Minor :: "64 word"
  Patch :: "64 word"

definition Zero :: version where
  "Zero = \<lparr>Major = 0, Minor = 0, Patch = 0\<rparr>"

definition fromBlang :: "blang_version \<Rightarrow> version" where
  "fromBlang v = \<lparr>Major = bv_Major v, Minor = bv_Minor v, Patch = bv_Patch v\<rparr>"

definition toBlang :: "version \<Rightarrow> blang_version" where
  "toBlang v = \<lparr>bv_Major = Major v, bv_Minor = Minor v, bv_Patch = Patch v, bv_Pre = [], bv_Build = []\<rparr>"

definition Parse :: "blang \<Rightarrow> string \<Rightarrow> version option" where
  "Parse bl s = map_option fromBlang (bl_Parse bl s)"

definition Make :: "blang \<Rightarrow> string \<Rightarrow> version option" where
  "Make bl s = map_option fromBlang (bl_ParseTolerant bl s)"

definition EQ :: "blang \<Rightarrow> version \<Rightarrow> version \<Rightarrow> bool" where
  "EQ bl v other = bl_EQ bl (toBlang v) (toBlang other)"

definition LT :: "blang \<Rightarrow> version \<Rightarrow> version \<Rightarrow> bool" where
  "LT bl v other = bl_LT bl (toBlang v) (toBlang other)"

definition GT :: "blang \<Rightarrow> version \<Rightarrow> version \<Rightarrow> bool" where
  "GT bl v other = bl_GT bl (toBlang v) (toBlang other)"

definition IsZero :: "blang \<Rightarrow> version \<Rightarrow> bool" where
  "IsZero bl v = EQ bl v Zero"

definition version_String :: "blang \<Rightarrow> version \<Rightarrow> string" where
  "version_String bl v = bl_String bl (toBlang v)"

definition MustParseRange :: "blang \<Rightarrow> string \<Rightarrow> version \<Rightarrow> bool" where
  "MustParseRange bl expr v = bl_ParseRange bl expr (toBlang v)"

section \<open>Package mysqlversion\<close>

definition AtLeastMySQL8 :: "version \<Rightarrow> bool" where
  "AtLeastMySQL8 v = (Major v \<ge> 8)"

definition AtLeastMySQL8030 :: "version \<Rightarrow> bool" where
  "AtLeastMySQL8030 v =
     (if Major v > 8 then True
      else if Major v = 8 \<and> Minor v > 0 then True
      else if Major v = 8 \<and> Minor v = 0 \<and> Patch v \<ge> 30 then True
      else False)"

definition AtLeastMySQL84 :: "version \<Rightarrow> bool" where
  "AtLeastMySQL84 v =
     (if Major v > 8 then True
      else if Major v = 8 \<and> Minor v \<ge> 4 then True
      else False)"

section \<open>The version order\<close>

text \<open>
  The mathematical reference for the comparisons: versions ordered lexicographically by major,
  minor and patch number.
\<close>

definition vkey :: "version \<Rightarrow> nat \<times> nat \<times> nat" where
  "vkey v = (unat (Major v), unat (Minor v), unat (Patch v))"

fun key_less :: "nat \<times> nat \<times> nat \<Rightarrow> nat \<times> nat \<times> nat \<Rightarrow> bool" where
  "key_less (a, b, c) (a', b', c') =
     (a < a' \<or> a = a' \<and> (b < b' \<or> b = b' \<and> c < c'))"

definition v_less :: "version \<Rightarrow> version \<Rightarrow> bool" where
  "v_less v w = key_less (vkey v) (vkey w)"

lemma vkey_inj [simp]: "vkey v = vkey w \<longleftrightarrow> v = w"
  by (cases v, cases w) (auto simp: vkey_def word_unat_eq_iff)

lemma v_less_irrefl [simp]: "\<not> v_less v v"
  by (simp add: v_less_def vkey_def)

lemma v_less_trans: "v_less u v \<Longrightarrow> v_less v w \<Longrightarrow> v_less u w"
  by (auto simp: v_less_def vkey_def)

lemma v_less_linear: "v_less v w \<or> v = w \<or> v_less w v"
proof -
  have "key_less (vkey v) (vkey w) \<or> vkey v = vkey w \<or> key_less (vkey w) (vkey v)"
    by (cases "vkey v"; cases "vkey w") auto
  then show ?thesis by (simp add: v_less_def)
qed

lemma v_less_asym: "v_less v w \<Longrightarrow> \<not> v_less w v"
  using v_less_trans v_less_irrefl by blast

section \<open>What the third-party package promises\<close>

definition dotted :: "version \<Rightarrow> string" where
  "dotted v = utoa (unat (Major v)) @ ''.'' @ utoa (unat (Minor v)) @ ''.'' @ utoa (unat (Patch v))"

definition percona_init_expr :: string where
  "percona_init_expr = ''>=5.7.26 <8.0.0 || >=8.0.15''"

text \<open>
  The documented behaviour the operator relies on, for versions without pre-release and build
  parts: equality and the two comparisons follow the numbers; the text form is
  \<open>major.minor.patch\<close>; strict parsing reads that text back; tolerant parsing accepts what
  strict parsing accepts, with the same value; the range expression of the operator means
  what it says.
\<close>

definition blang_ok :: "blang \<Rightarrow> bool" where
  "blang_ok bl \<longleftrightarrow>
     (\<forall>v w. bl_EQ bl (toBlang v) (toBlang w) \<longleftrightarrow> v = w) \<and>
     (\<forall>v w. bl_LT bl (toBlang v) (toBlang w) \<longleftrightarrow> v_less v w) \<and>
     (\<forall>v w. bl_GT bl (toBlang v) (toBlang w) \<longleftrightarrow> v_less w v) \<and>
     (\<forall>v. bl_String bl (toBlang v) = dotted v) \<and>
     (\<forall>v. bl_Parse bl (dotted v) = Some (toBlang v)) \<and>
     (\<forall>s v. bl_Parse bl s = Some v \<longrightarrow> bl_ParseTolerant bl s = Some v) \<and>
     (\<forall>v. bl_ParseRange bl percona_init_expr (toBlang v) \<longleftrightarrow>
            (\<not> v_less v \<lparr>Major = 5, Minor = 7, Patch = 26\<rparr> \<and> v_less v \<lparr>Major = 8, Minor = 0, Patch = 0\<rparr>) \<or>
            \<not> v_less v \<lparr>Major = 8, Minor = 0, Patch = 15\<rparr>)"

lemma fromBlang_toBlang [simp]: "fromBlang (toBlang v) = v"
  by (simp add: fromBlang_def toBlang_def)

lemma blang_EQ [simp]: "blang_ok bl \<Longrightarrow> EQ bl v w \<longleftrightarrow> v = w"
  by (simp add: blang_ok_def EQ_def)

lemma blang_LT [simp]: "blang_ok bl \<Longrightarrow> LT bl v w \<longleftrightarrow> v_less v w"
  by (simp add: blang_ok_def LT_def)

lemma blang_GT [simp]: "blang_ok bl \<Longrightarrow> GT bl v w \<longleftrightarrow> v_less w v"
  by (simp add: blang_ok_def GT_def)

lemma blang_IsZero [simp]: "blang_ok bl \<Longrightarrow> IsZero bl v \<longleftrightarrow> v = Zero"
  by (simp add: IsZero_def)

lemma blang_String [simp]: "blang_ok bl \<Longrightarrow> version_String bl v = dotted v"
  by (simp add: blang_ok_def version_String_def)

lemma blang_Parse [simp]: "blang_ok bl \<Longrightarrow> Parse bl (dotted v) = Some v"
  by (simp add: blang_ok_def Parse_def)

lemma blang_Make: "blang_ok bl \<Longrightarrow> Parse bl s = Some v \<Longrightarrow> Make bl s = Some v"
  by (auto simp: blang_ok_def Parse_def Make_def)

lemma blang_range:
  "blang_ok bl \<Longrightarrow> MustParseRange bl percona_init_expr v \<longleftrightarrow>
     (\<not> v_less v \<lparr>Major = 5, Minor = 7, Patch = 26\<rparr> \<and> v_less v \<lparr>Major = 8, Minor = 0, Patch = 0\<rparr>) \<or>
     \<not> v_less v \<lparr>Major = 8, Minor = 0, Patch = 15\<rparr>"
  by (simp add: blang_ok_def MustParseRange_def)

lemma dotted_nonempty [simp]: "dotted v \<noteq> []"
  by (simp add: dotted_def)

lemma dotted_no_dash [simp]: "CHR ''-'' \<notin> set (dotted v)"
  by (simp add: dotted_def)

lemma dotted_hd_digit [simp]: "is_digit (hd (dotted v))"
  by (simp add: dotted_def)

section \<open>A concrete instance of the package\<close>

text \<open>
  A small parser for the text \<open>major.minor.patch\<close> with numbers below \<open>2 ^ 64\<close>: enough to
  show that \<open>blang_ok\<close> can hold and to evaluate the operator's functions on concrete
  version strings. It is not a model of the third-party package.
\<close>

fun split_dot :: "string \<Rightarrow> string list" where
  "split_dot [] = [[]]"
| "split_dot (c # cs) =
     (if c = CHR ''.'' then [] # split_dot cs
      else (case split_dot cs of [] \<Rightarrow> [[c]] | p # ps \<Rightarrow> (c # p) # ps))"

definition ref_number :: "string \<Rightarrow> (64 word) option" where
  "ref_number s =
     (if s = [] \<or> \<not> list_all is_digit s \<or> digits_val 0 s \<ge> 2 ^ 64 then None
      else Some (of_nat (digits_val 0 s)))"

definition ref_Parse :: "string \<Rightarrow> blang_version option" where
  "ref_Parse s =
     (case map ref_number (split_dot s) of
        [Some a, Some b, Some c] \<Rightarrow> Some (toBlang \<lparr>Major = a, Minor = b, Patch = c\<rparr>)
      | _ \<Rightarrow> None)"

definition ref_ParseTolerant :: "string \<Rightarrow> blang_version option" where
  "ref_ParseTolerant s =
     (case map ref_number (split_dot s) of
        [Some a, Some b, Some c] \<Rightarrow> Some (toBlang \<lparr>Major = a, Minor = b, Patch = c\<rparr>)
      | [Some a, Some b] \<Rightarrow> Some (toBlang \<lparr>Major = a, Minor = b, Patch = 0\<rparr>)
      | [Some a] \<Rightarrow> Some (toBlang \<lparr>Major = a, Minor = 0, Patch = 0\<rparr>)
      | _ \<Rightarrow> None)"

definition ref_blang :: blang where
  "ref_blang =
     \<lparr>bl_Parse = ref_Parse, bl_ParseTolerant = ref_ParseTolerant,
      bl_EQ = (\<lambda>v w. fromBlang v = fromBlang w),
      bl_LT = (\<lambda>v w. v_less (fromBlang v) (fromBlang w)),
      bl_GT = (\<lambda>v w. v_less (fromBlang w) (fromBlang v)),
      bl_String = (\<lambda>v. dotted (fromBlang v)),
      bl_ParseRange = (\<lambda>e v.
        e = percona_init_expr \<and>
        ((\<not> v_less (fromBlang v) \<lparr>Major = 5, Minor = 7, Patch = 26\<rparr> \<and>
          v_less (fromBlang v) \<lparr>Major = 8, Minor = 0, Patch = 0\<rparr>) \<or>
         \<not> v_less (fromBlang v) \<lparr>Major = 8, Minor = 0, Patch = 15\<rparr>))\<rparr>"

lemma split_dot_no_dot: "CHR ''.'' \<notin> set s \<Longrightarrow> split_dot s = [s]"
  by (induction s) auto

lemma split_dot_append:
  "CHR ''.'' \<notin> set s \<Longrightarrow> split_dot (s @ CHR ''.'' # t) = s # split_dot t"
  by (induction s) auto

lemma ref_number_utoa [simp]: "ref_number (utoa (unat (w :: 64 word))) = Some w"
proof -
  have "unat w < 2 ^ 64" using unsigned_less [of w, where ?'a = nat] by simp
  then show ?thesis by (simp add: ref_number_def utoa_digits)
qed

lemma ref_Parse_dotted [simp]: "ref_Parse (dotted v) = Some (toBlang v)"
  by (cases v) (simp add: ref_Parse_def dotted_def split_dot_append split_dot_no_dot)

lemma ref_Parse_tolerant: "ref_Parse s = Some v \<Longrightarrow> ref_ParseTolerant s = Some v"
  by (auto simp: ref_Parse_def ref_ParseTolerant_def split: list.splits option.splits)

lemma ref_blang_ok: "blang_ok ref_blang"
  by (auto simp: blang_ok_def ref_blang_def ref_Parse_tolerant)

lemma ref_blang_sel [simp]:
  "bl_Parse ref_blang = ref_Parse" "bl_ParseTolerant ref_blang = ref_ParseTolerant"
  by (simp_all add: ref_blang_def)

section \<open>The version gates\<close>

text \<open>Each gate is the comparison with the version its name gives.\<close>

lemma AtLeastMySQL8030_order:
  "AtLeastMySQL8030 v \<longleftrightarrow> \<not> v_less v \<lparr>Major = 8, Minor = 0, Patch = 30\<rparr>"
  by (auto simp: AtLeastMySQL8030_def v_less_def vkey_def word_less_nat_alt word_le_nat_alt
      word_unat_eq_iff)

lemma AtLeastMySQL84_order:
  "AtLeastMySQL84 v \<longleftrightarrow> \<not> v_less v \<lparr>Major = 8, Minor = 4, Patch = 0\<rparr>"
  by (auto simp: AtLeastMySQL84_def v_less_def vkey_def word_less_nat_alt word_le_nat_alt
      word_unat_eq_iff)

lemma AtLeastMySQL8_order:
  "AtLeastMySQL8 v \<longleftrightarrow> \<not> v_less v \<lparr>Major = 8, Minor = 0, Patch = 0\<rparr>"
  by (auto simp: AtLeastMySQL8_def v_less_def vkey_def word_less_nat_alt word_le_nat_alt
      word_unat_eq_iff)

lemma AtLeastMySQL84_8: "AtLeastMySQL84 v \<Longrightarrow> AtLeastMySQL8 v"
  by (auto simp: AtLeastMySQL84_def AtLeastMySQL8_def split: if_splits)

end
