(* ===== verification/Versioning.thy ===== *)
theory Versioning
  imports Semver
begin

text \<open>
  Package \<^verbatim>\<open>pkg/mysqlversioning\<close> with the version tables of \<^verbatim>\<open>pkg/util/constants\<close>: the version
  profiles, their registry, the images, the version read from specs, statuses, pods and image
  tags, and the rule for upgrades.

  The \<^verbatim>\<open>Profile\<close> interface and its four implementations are one datatype, a table of methods per
  implementation and one function per method. The process-wide state the package reads (the runtime that \<^verbatim>\<open>InitDefault\<close> stores and
  the operator's options) and the third-party version package are the fields of \<open>env\<close>.
\<close>

section \<open>Version tables\<close>

definition MySQLDefaultVersion :: string where
  "MySQLDefaultVersion = ''5.7.35''"

definition MySQLTagsToSemVer :: str_map where
  "MySQLTagsToSemVer = map_of [(''5.7'', ''5.7.35''), (''8.0'', ''8.0.20''), (''8.4'', ''8.4.8'')]"

definition MysqlImageVersions :: str_map where
  "MysqlImageVersions = map_of
     [(''5.7.35'', ''percona@sha256:caab4e854bd75040d07802bf1862bfef1d2b4db0acbc9c4aaf5c21c698fdd393''),
      (''5.7.31'', ''percona@sha256:68dad5e2efeb6893e2d7d116a1eae144f2c641c17d00e7869397395590c91651''),
      (''5.7.29'', ''percona@sha256:d801123bbfaf750924f993f5c59189d144a93feb928b8aef95e541dd61c62881''),
      (''5.7.26'', ''percona@sha256:713c1817615b333b17d0fbd252b0ccc53c48a665d4cfcb42178167435a957322''),
      (''5.7.24'', ''percona@sha256:b3b7fb177b416563c46fe012298e042ec1607cc0539ce6014146380b0d27b08c''),
      (''8.0.20'', ''percona@sha256:6d4524eccd26af7bd7fb623c567159dfbd7f3d9a0e2f7bebd54af1e9ca9903dc''),
      (''8.4.8'', ''docker.io/percona/percona-server@sha256:eaa4cf955f8a01a43faa6ef656bf8fb69a17c17c278a3b0514212291ca0448b1'')]"

section \<open>Server configuration defaults\<close>

definition Mysqld5xConfigs :: str_map where
  "Mysqld5xConfigs = map_of
     [(''query-cache-type'', ''0''),
      (''query-cache-size'', ''0''),
      (''sql-mode'', ''STRICT_TRANS_TABLES,ERROR_FOR_DIVISION_BY_ZERO,NO_AUTO_CREATE_USER,'' @
         ''NO_AUTO_VALUE_ON_ZERO,NO_ENGINE_SUBSTITUTION,NO_ZERO_DATE,NO_ZERO_IN_DATE,ONLY_FULL_GROUP_BY''),
      (''expire-logs-days'', ''14'')]"

definition Mysqld8xConfigs :: str_map where
  "Mysqld8xConfigs = map_of
     [(''sql-mode'', ''STRICT_TRANS_TABLES,ERROR_FOR_DIVISION_BY_ZERO,NO_AUTO_VALUE_ON_ZERO,NO_ENGINE_SUBSTITUTION,'' @
         ''NO_ZERO_DATE,NO_ZERO_IN_DATE,ONLY_FULL_GROUP_BY''),
      (''binlog_expire_logs_seconds'', ''1209600'')]"

definition Mysqld80AuthPluginConfig :: str_map where
  "Mysqld80AuthPluginConfig = map_of [(''default-authentication-plugin'', ''mysql_native_password'')]"

definition MysqldBooleanConfigs :: "version \<Rightarrow> string list" where
  "MysqldBooleanConfigs v =
     [''skip-name-resolve''] @ (if \<not> AtLeastMySQL8030 v then [''skip-host-cache''] else [])"

definition OperatorKVCommon :: "version \<Rightarrow> bool \<Rightarrow> str_map" where
  "OperatorKVCommon v useSourceReplicaTerminology =
     (let out = map_of
       [(''log-bin'', ''/var/lib/mysql/mysql-bin''),
        (''relay-log-recovery'', ''on''),
        (''default-storage-engine'', ''InnoDB''),
        (''gtid-mode'', ''on''),
        (''enforce-gtid-consistency'', ''on''),
        (''key-buffer-size'', ''32M''),
        (''myisam-recover-options'', ''FORCE,BACKUP''),
        (''max-allowed-packet'', ''16M''),
        (''max-connect-errors'', ''1000000''),
        (''sysdate-is-now'', ''1''),
        (''sync-binlog'', ''1''),
        (''binlog-format'', ''ROW''),
        (''tmp-table-size'', ''32M''),
        (''max-heap-table-size'', ''32M''),
        (''max-connections'', ''500''),
        (''thread-cache-size'', ''50''),
        (''open-files-limit'', ''65535''),
        (''table-definition-cache'', ''4096''),
        (''table-open-cache'', ''4096''),
        (''innodb-flush-method'', ''O_DIRECT''),
        (''innodb-flush-log-at-trx-commit'', ''2''),
        (''innodb-file-per-table'', ''1''),
        (''character-set-server'', ''utf8mb4''),
        (''collation-server'', ''utf8mb4_unicode_ci'')];
      out = (if \<not> AtLeastMySQL8030 v then out(''innodb-log-files-in-group'' \<mapsto> ''2'') else out)
      in if useSourceReplicaTerminology
         then out(''log-replica-updates'' \<mapsto> ''on'', ''skip-replica-start'' \<mapsto> ''on'')
         else out(''log-slave-updates'' \<mapsto> ''on'', ''skip-slave-start'' \<mapsto> ''on'',
                  ''relay-log-info-repository'' \<mapsto> ''TABLE'', ''master-info-repository'' \<mapsto> ''TABLE''))"

section \<open>Replication dialect and grants\<close>

record replication_dialect =
  rd_StopReplication :: string
  rd_ChangeSourceSQL :: string
  rd_StartReplication :: string
  rd_FallbackStartSQL :: string
  rd_ResetBinaryLogsForGTID :: string
  rd_ResetMaster :: string
  rd_ShowReplicaStatusCmd :: string
  rd_ShowReplicasCmd :: string
  rd_LogLabelPreStop :: string

definition MasterSlaveReplication :: replication_dialect where
  "MasterSlaveReplication =
     \<lparr>rd_StopReplication = ''STOP SLAVE;'',
      rd_ChangeSourceSQL =
        NL @ TAB @ ''  CHANGE MASTER TO MASTER_AUTO_POSITION=1,'' @ NL @
        TAB @ TAB @ ''MASTER_HOST=?,'' @ NL @
        TAB @ TAB @ ''MASTER_USER=?,'' @ NL @
        TAB @ TAB @ ''MASTER_PASSWORD=?,'' @ NL @
        TAB @ TAB @ ''MASTER_CONNECT_RETRY=?;'' @ NL @ TAB,
      rd_StartReplication = ''START SLAVE;'',
      rd_FallbackStartSQL =
        NL @ TAB @ TAB @ ''  reset slave;'' @ NL @
        TAB @ TAB @ ''  start slave IO_THREAD;'' @ NL @
        TAB @ TAB @ ''  stop slave IO_THREAD;'' @ NL @
        TAB @ TAB @ ''  reset slave;'' @ NL @
        TAB @ TAB @ ''  start slave;'' @ NL @ TAB @ TAB,
      rd_ResetBinaryLogsForGTID = [],
      rd_ResetMaster = ''RESET MASTER;'',
      rd_ShowReplicaStatusCmd = ''SHOW SLAVE STATUS'' @ BACKSLASH @ ''G'',
      rd_ShowReplicasCmd = ''SHOW SLAVE HOSTS'' @ BACKSLASH @ ''G'',
      rd_LogLabelPreStop = ''show_slave_status''\<rparr>"

definition SourceReplicaReplication :: replication_dialect where
  "SourceReplicaReplication =
     \<lparr>rd_StopReplication = ''STOP REPLICA;'',
      rd_ChangeSourceSQL =
        NL @ TAB @ ''  CHANGE REPLICATION SOURCE TO SOURCE_AUTO_POSITION=1,'' @ NL @
        TAB @ TAB @ ''SOURCE_HOST=?,'' @ NL @
        TAB @ TAB @ ''SOURCE_USER=?,'' @ NL @
        TAB @ TAB @ ''SOURCE_PASSWORD=?,'' @ NL @
        TAB @ TAB @ ''SOURCE_CONNECT_RETRY=?,'' @ NL @
        TAB @ TAB @ ''GET_SOURCE_PUBLIC_KEY=1;'' @ NL @ TAB,
      rd_StartReplication = ''START REPLICA;'',
      rd_FallbackStartSQL =
        NL @ TAB @ TAB @ ''  RESET REPLICA;'' @ NL @
        TAB @ TAB @ ''  START REPLICA IO_THREAD;'' @ NL @
        TAB @ TAB @ ''  STOP REPLICA IO_THREAD;'' @ NL @
        TAB @ TAB @ ''  RESET REPLICA;'' @ NL @
        TAB @ TAB @ ''  START REPLICA;'' @ NL @ TAB @ TAB,
      rd_ResetBinaryLogsForGTID = ''RESET BINARY LOGS AND GTIDS;'',
      rd_ResetMaster = [],
      rd_ShowReplicaStatusCmd = ''SHOW REPLICA STATUS'' @ BACKSLASH @ ''G'',
      rd_ShowReplicasCmd = ''SHOW REPLICAS'' @ BACKSLASH @ ''G'',
      rd_LogLabelPreStop = ''show_replica_status''\<rparr>"

definition ResetBinaryLogsStatement :: "replication_dialect \<Rightarrow> string" where
  "ResetBinaryLogsStatement d =
     (if rd_ResetBinaryLogsForGTID d \<noteq> [] then rd_ResetBinaryLogsForGTID d else rd_ResetMaster d)"

record grant_hints =
  gh_OrchestratorMetadataTable :: string
  gh_ReplicationUserPrivileges :: "string list"
  gh_ResetReplicationAll :: string

definition masterSlaveGrantHintsMySQL57 :: grant_hints where
  "masterSlaveGrantHintsMySQL57 =
     \<lparr>gh_OrchestratorMetadataTable = ''mysql.slave_master_info'',
      gh_ReplicationUserPrivileges =
        [''SELECT'', ''PROCESS'', ''RELOAD'', ''LOCK TABLES'', ''REPLICATION CLIENT'', ''REPLICATION SLAVE''],
      gh_ResetReplicationAll = ''RESET SLAVE ALL''\<rparr>"

definition masterSlaveGrantHintsMySQL8 :: grant_hints where
  "masterSlaveGrantHintsMySQL8 =
     (let h = masterSlaveGrantHintsMySQL57
      in h\<lparr>gh_ReplicationUserPrivileges := gh_ReplicationUserPrivileges h @ [''BACKUP_ADMIN'']\<rparr>)"

definition sourceReplicaGrantHints :: grant_hints where
  "sourceReplicaGrantHints =
     (let h = masterSlaveGrantHintsMySQL8
      in h\<lparr>gh_OrchestratorMetadataTable := ''mysql.slave_master_info'',
           gh_ResetReplicationAll := ''RESET REPLICA ALL''\<rparr>)"

record pod_security_hints =
  psh_FSGroup :: int
  psh_RunAsUser :: "int option"
  psh_MysqlRunAsUser :: "int option"
  psh_MysqlRunAsGroup :: "int option"

definition PodSecurityLegacy999 :: pod_security_hints where
  "PodSecurityLegacy999 =
     \<lparr>psh_FSGroup = 999, psh_RunAsUser = Some 999, psh_MysqlRunAsUser = None, psh_MysqlRunAsGroup = None\<rparr>"

definition PodSecurityPerconaUID1001VolumeGroup :: pod_security_hints where
  "PodSecurityPerconaUID1001VolumeGroup =
     \<lparr>psh_FSGroup = 1001, psh_RunAsUser = None, psh_MysqlRunAsUser = Some 1001,
      psh_MysqlRunAsGroup = Some 1001\<rparr>"

section \<open>Profiles\<close>

datatype mysql_profile = profilePercona57 | profilePercona80 | profilePercona84 | profileFallback

datatype sidecar_key = SidecarPercona57 | SidecarPercona80 | SidecarPercona84

text \<open>\<open>DefaultValidate\<close> is \<open>True\<close> when the spec is accepted.\<close>

definition DefaultValidate :: "mysql_cluster_spec \<Rightarrow> bool" where
  "DefaultValidate spec = (cs_SecretName spec \<noteq> [])"

text \<open>
  The interface \<^verbatim>\<open>Profile\<close> as the table of its methods, and the table of each implementation.
  \<^verbatim>\<open>pm_WantsPerconaInitContainer\<close> has the version library as its first argument.
\<close>

record profile_methods =
  pm_Name :: string
  pm_Matches :: "version \<Rightarrow> bool"
  pm_MySQLOperatorKV :: "version \<Rightarrow> str_map"
  pm_UseMySQL5xConfigs :: bool
  pm_UseMySQL8xConfigs :: bool
  pm_UseMySQL80AuthPlugin :: bool
  pm_Replication :: replication_dialect
  pm_GrantHints :: grant_hints
  pm_SidecarProfileKey :: sidecar_key
  pm_WantsPerconaInitContainer :: "blang \<Rightarrow> version \<Rightarrow> bool"
  pm_PodSecurityHints :: "bool \<Rightarrow> pod_security_hints"
  pm_Validate :: "mysql_cluster_spec \<Rightarrow> bool"
  pm_InnoDBOperatorLogSizing :: "version \<Rightarrow> int \<Rightarrow> string \<times> int"

definition percona57_methods :: profile_methods where
  [simp]: "percona57_methods =
     \<lparr>pm_Name = ''percona-5.7'',
      pm_Matches = (\<lambda>v. Major v = 5),
      pm_MySQLOperatorKV = (\<lambda>v. OperatorKVCommon v False),
      pm_UseMySQL5xConfigs = True,
      pm_UseMySQL8xConfigs = False,
      pm_UseMySQL80AuthPlugin = False,
      pm_Replication = MasterSlaveReplication,
      pm_GrantHints = masterSlaveGrantHintsMySQL57,
      pm_SidecarProfileKey = SidecarPercona57,
      pm_WantsPerconaInitContainer = (\<lambda>bl v. MustParseRange bl percona_init_expr v),
      pm_PodSecurityHints = (\<lambda>perconaServerImage. PodSecurityLegacy999),
      pm_Validate = DefaultValidate,
      pm_InnoDBOperatorLogSizing = (\<lambda>v perFileBytes. (''innodb-log-file-size'', perFileBytes))\<rparr>"

definition percona80_methods :: profile_methods where
  [simp]: "percona80_methods =
     \<lparr>pm_Name = ''percona-8.0'',
      pm_Matches = (\<lambda>v. AtLeastMySQL8 v \<and> \<not> AtLeastMySQL84 v),
      pm_MySQLOperatorKV = (\<lambda>v. OperatorKVCommon v False),
      pm_UseMySQL5xConfigs = False,
      pm_UseMySQL8xConfigs = True,
      pm_UseMySQL80AuthPlugin = True,
      pm_Replication = MasterSlaveReplication,
      pm_GrantHints = masterSlaveGrantHintsMySQL8,
      pm_SidecarProfileKey = SidecarPercona80,
      pm_WantsPerconaInitContainer = (\<lambda>bl v. MustParseRange bl percona_init_expr v),
      pm_PodSecurityHints = (\<lambda>perconaServerImage. PodSecurityLegacy999),
      pm_Validate = DefaultValidate,
      pm_InnoDBOperatorLogSizing =
        (\<lambda>v perFileBytes.
           if AtLeastMySQL8030 v then (''innodb-redo-log-capacity'', to_int64 (2 * perFileBytes))
           else (''innodb-log-file-size'', perFileBytes))\<rparr>"

definition percona84_methods :: profile_methods where
  [simp]: "percona84_methods =
     \<lparr>pm_Name = ''percona-8.4'',
      pm_Matches = AtLeastMySQL84,
      pm_MySQLOperatorKV = (\<lambda>v. OperatorKVCommon v True),
      pm_UseMySQL5xConfigs = False,
      pm_UseMySQL8xConfigs = True,
      pm_UseMySQL80AuthPlugin = False,
      pm_Replication = SourceReplicaReplication,
      pm_GrantHints = sourceReplicaGrantHints,
      pm_SidecarProfileKey = SidecarPercona84,
      pm_WantsPerconaInitContainer = (\<lambda>bl v. MustParseRange bl percona_init_expr v),
      pm_PodSecurityHints =
        (\<lambda>perconaServerImage.
           if perconaServerImage then PodSecurityPerconaUID1001VolumeGroup else PodSecurityLegacy999),
      pm_Validate = DefaultValidate,
      pm_InnoDBOperatorLogSizing =
        (\<lambda>v perFileBytes. (''innodb-redo-log-capacity'', to_int64 (2 * perFileBytes)))\<rparr>"

definition fallback_methods :: profile_methods where
  [simp]: "fallback_methods =
     \<lparr>pm_Name = ''fallback-unknown'',
      pm_Matches = (\<lambda>v. True),
      pm_MySQLOperatorKV = (\<lambda>v. OperatorKVCommon v False),
      pm_UseMySQL5xConfigs = True,
      pm_UseMySQL8xConfigs = False,
      pm_UseMySQL80AuthPlugin = False,
      pm_Replication = MasterSlaveReplication,
      pm_GrantHints = masterSlaveGrantHintsMySQL57,
      pm_SidecarProfileKey = SidecarPercona57,
      pm_WantsPerconaInitContainer = (\<lambda>bl v. False),
      pm_PodSecurityHints = (\<lambda>perconaServerImage. PodSecurityLegacy999),
      pm_Validate = DefaultValidate,
      pm_InnoDBOperatorLogSizing =
        (\<lambda>v perFileBytes.
           if AtLeastMySQL8030 v then (''innodb-redo-log-capacity'', to_int64 (2 * perFileBytes))
           else (''innodb-log-file-size'', perFileBytes))\<rparr>"

text \<open>The call of a method through the interface.\<close>

fun Name :: "mysql_profile \<Rightarrow> string" where
  "Name profilePercona57 = pm_Name percona57_methods"
| "Name profilePercona80 = pm_Name percona80_methods"
| "Name profilePercona84 = pm_Name percona84_methods"
| "Name profileFallback = pm_Name fallback_methods"

fun Matches :: "mysql_profile \<Rightarrow> version \<Rightarrow> bool" where
  "Matches profilePercona57 v = pm_Matches percona57_methods v"
| "Matches profilePercona80 v = pm_Matches percona80_methods v"
| "Matches profilePercona84 v = pm_Matches percona84_methods v"
| "Matches profileFallback v = pm_Matches fallback_methods v"

fun MySQLOperatorKV :: "mysql_profile \<Rightarrow> version \<Rightarrow> str_map" where
  "MySQLOperatorKV profilePercona57 v = pm_MySQLOperatorKV percona57_methods v"
| "MySQLOperatorKV profilePercona80 v = pm_MySQLOperatorKV percona80_methods v"
| "MySQLOperatorKV profilePercona84 v = pm_MySQLOperatorKV percona84_methods v"
| "MySQLOperatorKV profileFallback v = pm_MySQLOperatorKV fallback_methods v"

fun UseMySQL5xConfigs :: "mysql_profile \<Rightarrow> bool" where
  "UseMySQL5xConfigs profilePercona57 = pm_UseMySQL5xConfigs percona57_methods"
| "UseMySQL5xConfigs profilePercona80 = pm_UseMySQL5xConfigs percona80_methods"
| "UseMySQL5xConfigs profilePercona84 = pm_UseMySQL5xConfigs percona84_methods"
| "UseMySQL5xConfigs profileFallback = pm_UseMySQL5xConfigs fallback_methods"

fun UseMySQL8xConfigs :: "mysql_profile \<Rightarrow> bool" where
  "UseMySQL8xConfigs profilePercona57 = pm_UseMySQL8xConfigs percona57_methods"
| "UseMySQL8xConfigs profilePercona80 = pm_UseMySQL8xConfigs percona80_methods"
| "UseMySQL8xConfigs profilePercona84 = pm_UseMySQL8xConfigs percona84_methods"
| "UseMySQL8xConfigs profileFallback = pm_UseMySQL8xConfigs fallback_methods"

fun UseMySQL80AuthPlugin :: "mysql_profile \<Rightarrow> bool" where
  "UseMySQL80AuthPlugin profilePercona57 = pm_UseMySQL80AuthPlugin percona57_methods"
| "UseMySQL80AuthPlugin profilePercona80 = pm_UseMySQL80AuthPlugin percona80_methods"
| "UseMySQL80AuthPlugin profilePercona84 = pm_UseMySQL80AuthPlugin percona84_methods"
| "UseMySQL80AuthPlugin profileFallback = pm_UseMySQL80AuthPlugin fallback_methods"

fun Replication :: "mysql_profile \<Rightarrow> replication_dialect" where
  "Replication profilePercona57 = pm_Replication percona57_methods"
| "Replication profilePercona80 = pm_Replication percona80_methods"
| "Replication profilePercona84 = pm_Replication percona84_methods"
| "Replication profileFallback = pm_Replication fallback_methods"

fun GrantHints :: "mysql_profile \<Rightarrow> grant_hints" where
  "GrantHints profilePercona57 = pm_GrantHints percona57_methods"
| "GrantHints profilePercona80 = pm_GrantHints percona80_methods"
| "GrantHints profilePercona84 = pm_GrantHints percona84_methods"
| "GrantHints profileFallback = pm_GrantHints fallback_methods"

fun SidecarProfileKey :: "mysql_profile \<Rightarrow> sidecar_key" where
  "SidecarProfileKey profilePercona57 = pm_SidecarProfileKey percona57_methods"
| "SidecarProfileKey profilePercona80 = pm_SidecarProfileKey percona80_methods"
| "SidecarProfileKey profilePercona84 = pm_SidecarProfileKey percona84_methods"
| "SidecarProfileKey profileFallback = pm_SidecarProfileKey fallback_methods"

fun WantsPerconaInitContainer :: "blang \<Rightarrow> mysql_profile \<Rightarrow> version \<Rightarrow> bool" where
  "WantsPerconaInitContainer bl profilePercona57 v = pm_WantsPerconaInitContainer percona57_methods bl v"
| "WantsPerconaInitContainer bl profilePercona80 v = pm_WantsPerconaInitContainer percona80_methods bl v"
| "WantsPerconaInitContainer bl profilePercona84 v = pm_WantsPerconaInitContainer percona84_methods bl v"
| "WantsPerconaInitContainer bl profileFallback v = pm_WantsPerconaInitContainer fallback_methods bl v"

fun ProfilePodSecurityHints :: "mysql_profile \<Rightarrow> bool \<Rightarrow> pod_security_hints" where
  "ProfilePodSecurityHints profilePercona57 perconaServerImage = pm_PodSecurityHints percona57_methods perconaServerImage"
| "ProfilePodSecurityHints profilePercona80 perconaServerImage = pm_PodSecurityHints percona80_methods perconaServerImage"
| "ProfilePodSecurityHints profilePercona84 perconaServerImage = pm_PodSecurityHints percona84_methods perconaServerImage"
| "ProfilePodSecurityHints profileFallback perconaServerImage = pm_PodSecurityHints fallback_methods perconaServerImage"

fun ProfileValidate :: "mysql_profile \<Rightarrow> mysql_cluster_spec \<Rightarrow> bool" where
  "ProfileValidate profilePercona57 spec = pm_Validate percona57_methods spec"
| "ProfileValidate profilePercona80 spec = pm_Validate percona80_methods spec"
| "ProfileValidate profilePercona84 spec = pm_Validate percona84_methods spec"
| "ProfileValidate profileFallback spec = pm_Validate fallback_methods spec"

lemma ProfileValidate_eq [simp]: "ProfileValidate p spec = DefaultValidate spec"
  by (cases p) simp_all

fun InnoDBOperatorLogSizing :: "mysql_profile \<Rightarrow> version \<Rightarrow> int \<Rightarrow> string \<times> int" where
  "InnoDBOperatorLogSizing profilePercona57 v perFileBytes = pm_InnoDBOperatorLogSizing percona57_methods v perFileBytes"
| "InnoDBOperatorLogSizing profilePercona80 v perFileBytes = pm_InnoDBOperatorLogSizing percona80_methods v perFileBytes"
| "InnoDBOperatorLogSizing profilePercona84 v perFileBytes = pm_InnoDBOperatorLogSizing percona84_methods v perFileBytes"
| "InnoDBOperatorLogSizing profileFallback v perFileBytes = pm_InnoDBOperatorLogSizing fallback_methods v perFileBytes"

section \<open>Registry and runtime\<close>

definition BuiltinProfiles :: "mysql_profile list" where
  "BuiltinProfiles = [profilePercona84, profilePercona80, profilePercona57, profileFallback]"

fun Resolve :: "mysql_profile list \<Rightarrow> version \<Rightarrow> mysql_profile option" where
  "Resolve [] v = None"
| "Resolve (p # ps) v = (if Matches p v then Some p else Resolve ps v)"

definition MustResolve :: "mysql_profile list \<Rightarrow> version \<Rightarrow> mysql_profile" where
  "MustResolve r v = (case Resolve r v of None \<Rightarrow> profileFallback | Some p \<Rightarrow> p)"

record runtime =
  rt_Registry :: "mysql_profile list"
  rt_Resolver :: options

record env =
  e_blang :: blang
  e_runtime :: "runtime option"
  e_options :: options

definition InitDefault :: "options \<Rightarrow> env \<Rightarrow> env" where
  "InitDefault opt e = e\<lparr>e_runtime := Some \<lparr>rt_Registry = BuiltinProfiles, rt_Resolver = opt\<rparr>\<rparr>"

definition ProfileFor :: "env \<Rightarrow> version \<Rightarrow> mysql_profile" where
  "ProfileFor e v =
     (case e_runtime e of
        Some rt \<Rightarrow> MustResolve (rt_Registry rt) v
      | None \<Rightarrow> MustResolve BuiltinProfiles v)"

definition OperatorKVForVersion :: "env \<Rightarrow> version \<Rightarrow> str_map" where
  "OperatorKVForVersion e v = MySQLOperatorKV (ProfileFor e v) v"

section \<open>Images\<close>

text \<open>
  The switch of \<^verbatim>\<open>SidecarImage\<close> has a default branch for other keys; every key that reaches it
  is one of the three profile keys.
\<close>

datatype image_error = NilSpec | NoServerImage string

definition ResolverServerImage ::
    "blang \<Rightarrow> options \<Rightarrow> version \<Rightarrow> mysql_cluster_spec option \<Rightarrow> (image_error, string) result" where
  "ResolverServerImage bl opt ver spec =
     (case spec of
        None \<Rightarrow> Inl NilSpec
      | Some sp \<Rightarrow>
          if cs_Image sp \<noteq> [] then Inr (cs_Image sp)
          else let key = version_String bl ver in
            (case opt_MySQLVersionImageOverride opt key of
               Some img \<Rightarrow> Inr img
             | None \<Rightarrow>
                 (case MysqlImageFromCatalog opt key of
                    Some img \<Rightarrow> Inr img
                  | None \<Rightarrow>
                      (case MysqlImageVersions key of
                         Some img \<Rightarrow> Inr img
                       | None \<Rightarrow> Inl (NoServerImage key)))))"

fun ResolverSidecarImage :: "options \<Rightarrow> sidecar_key \<Rightarrow> string" where
  "ResolverSidecarImage opt SidecarPercona57 = opt_SidecarMysql57Image opt"
| "ResolverSidecarImage opt SidecarPercona80 = opt_SidecarMysql8Image opt"
| "ResolverSidecarImage opt SidecarPercona84 = opt_SidecarMysql84Image opt"

definition ServerImage ::
    "env \<Rightarrow> options \<Rightarrow> version \<Rightarrow> mysql_cluster_spec option \<Rightarrow> (image_error, string) result" where
  "ServerImage e opt ver spec =
     (case e_runtime e of
        Some rt \<Rightarrow> ResolverServerImage (e_blang e) (rt_Resolver rt) ver spec
      | None \<Rightarrow> ResolverServerImage (e_blang e) opt ver spec)"

definition SidecarImageFor :: "env \<Rightarrow> version \<Rightarrow> string \<Rightarrow> string" where
  "SidecarImageFor e ver sidecarOverride =
     (if sidecarOverride \<noteq> [] then sidecarOverride
      else (case e_runtime e of
              Some rt \<Rightarrow> ResolverSidecarImage (rt_Resolver rt)
                          (SidecarProfileKey (MustResolve (rt_Registry rt) ver))
            | None \<Rightarrow> ResolverSidecarImage (e_options e)
                          (SidecarProfileKey (MustResolve BuiltinProfiles ver))))"

section \<open>Version resolution\<close>

definition MySQLVersionEnv :: string where
  "MySQLVersionEnv = ''MY_MYSQL_VERSION''"

definition DesiredVersionOf :: "blang \<Rightarrow> string \<Rightarrow> version" where
  "DesiredVersionOf bl specVersion =
     (let version = (if specVersion = [] then MySQLDefaultVersion else specVersion);
          version = (case MySQLTagsToSemVer version of Some v \<Rightarrow> v | None \<Rightarrow> version)
      in case Make bl version of Some sv \<Rightarrow> sv | None \<Rightarrow> Zero)"

definition AppliedVersionOf :: "blang \<Rightarrow> string \<Rightarrow> version" where
  "AppliedVersionOf bl statusApplied =
     (if statusApplied = [] then Zero
      else case Parse bl statusApplied of None \<Rightarrow> Zero | Some v \<Rightarrow> v)"

definition imageTag :: "string \<Rightarrow> string" where
  "imageTag img =
     (if (case last_index_char (CHR ''@'') img of
            Some at \<Rightarrow> contains (drop at img) ''sha256:''
          | None \<Rightarrow> False)
      then []
      else (case last_index_char (CHR '':'') img of
              Some idx \<Rightarrow> drop (idx + 1) img
            | None \<Rightarrow> []))"

text \<open>The prefix before the first dash, when there is a dash after the first character.\<close>

definition before_dash :: "string \<Rightarrow> string option" where
  "before_dash s =
     (case index_char (CHR ''-'') s of
        Some d \<Rightarrow> if d > 0 then Some (take d s) else None
      | None \<Rightarrow> None)"

definition semVerFromImageRef :: "blang \<Rightarrow> string \<Rightarrow> version" where
  "semVerFromImageRef bl img =
     (if img = [] then Zero
      else let tag = imageTag img in
        if tag = [] \<or> tag = ''latest'' then Zero
        else (case Option.bind (MySQLTagsToSemVer tag) (Parse bl) of
                Some v \<Rightarrow> v
              | None \<Rightarrow>
                 (case Option.bind (before_dash tag) (Parse bl) of
                    Some v \<Rightarrow> v
                  | None \<Rightarrow>
                     (case Parse bl tag of
                        Some v \<Rightarrow> v
                      | None \<Rightarrow> (case Make bl tag of Some v \<Rightarrow> v | None \<Rightarrow> Zero)))))"

fun semVerFromEnv :: "blang \<Rightarrow> env_var list \<Rightarrow> version option" where
  "semVerFromEnv bl [] = None"
| "semVerFromEnv bl (x # xs) =
     (if ev_Name x = MySQLVersionEnv \<and> ev_Value x \<noteq> []
      then (case Parse bl (ev_Value x) of Some v \<Rightarrow> Some v | None \<Rightarrow> semVerFromEnv bl xs)
      else semVerFromEnv bl xs)"

definition semVerFromMysqlContainer :: "blang \<Rightarrow> container \<Rightarrow> version" where
  "semVerFromMysqlContainer bl c =
     (case semVerFromEnv bl (slice (ct_Env c)) of
        Some v \<Rightarrow> v
      | None \<Rightarrow> semVerFromImageRef bl (ct_Image c))"

definition SemVerFromStatefulSet :: "blang \<Rightarrow> stateful_set option \<Rightarrow> version" where
  "SemVerFromStatefulSet bl sts =
     (case sts of
        None \<Rightarrow> Zero
      | Some s \<Rightarrow>
          (case find (\<lambda>c. ct_Name c = ''mysql'') (sts_Containers s) of
             Some c \<Rightarrow> semVerFromMysqlContainer bl c
           | None \<Rightarrow>
               (case find (\<lambda>c. ct_Name c = ''mysql-init-only'') (sts_InitContainers s) of
                  Some c \<Rightarrow> semVerFromMysqlContainer bl c
                | None \<Rightarrow> Zero)))"

definition SemVerFromPod :: "blang \<Rightarrow> pod option \<Rightarrow> version" where
  "SemVerFromPod bl p =
     (case p of
        None \<Rightarrow> Zero
      | Some q \<Rightarrow>
          (case find (\<lambda>c. ct_Name c = ''mysql'') (pod_Containers q) of
             Some c \<Rightarrow> semVerFromMysqlContainer bl c
           | None \<Rightarrow> Zero))"

datatype parse_error = EmptyServerVersion | UnrecognizedServerVersion string

definition ParseServerVersion :: "blang \<Rightarrow> string \<Rightarrow> (parse_error, version) result" where
  "ParseServerVersion bl raw =
     (let version = trim_space raw in
      if version = [] then Inl EmptyServerVersion
      else (case Option.bind (before_dash version) (Parse bl) of
              Some v \<Rightarrow> Inr v
            | None \<Rightarrow>
               (case Parse bl version of
                  Some v \<Rightarrow> Inr v
                | None \<Rightarrow>
                    let v = semVerFromImageRef bl version in
                    if IsZero bl v then Inl (UnrecognizedServerVersion version) else Inr v)))"

section \<open>Upgrade path and pending change\<close>

definition profileUpgradeOrder :: "string list" where
  "profileUpgradeOrder =
     map Name [profilePercona57, profilePercona80, profilePercona84, profileFallback]"

definition profileUpgradeIndex :: "string \<Rightarrow> nat option" where
  "profileUpgradeIndex name = find_index (\<lambda>n. n = name) profileUpgradeOrder"

datatype upgrade_path_error =
    DowngradeUnsupported version version
  | CannotValidatePath string string
  | SkipsLTSLine version string version string

definition ValidateUpgradePath :: "env \<Rightarrow> version \<Rightarrow> version \<Rightarrow> upgrade_path_error option" where
  "ValidateUpgradePath e current target =
     (if LT (e_blang e) target current then Some (DowngradeUnsupported current target)
      else if EQ (e_blang e) target current then None
      else let fromName = Name (ProfileFor e current);
               toName = Name (ProfileFor e target)
           in case (profileUpgradeIndex fromName, profileUpgradeIndex toName) of
                (Some fromIdx, Some toIdx) \<Rightarrow>
                  if toIdx > fromIdx + 1 then Some (SkipsLTSLine current fromName target toName)
                  else None
              | _ \<Rightarrow> Some (CannotValidatePath fromName toName))"

definition ProfilesMatch :: "env \<Rightarrow> version \<Rightarrow> version \<Rightarrow> bool" where
  "ProfilesMatch e a b = (Name (ProfileFor e a) = Name (ProfileFor e b))"

definition VersionChangePending :: "env \<Rightarrow> version \<Rightarrow> version \<Rightarrow> bool \<Rightarrow> bool" where
  "VersionChangePending e desired applied hasData =
     (if IsZero (e_blang e) applied then (if \<not> hasData then False else True)
      else if \<not> ProfilesMatch e applied desired then True
      else LT (e_blang e) applied desired)"

section \<open>First-match registries\<close>

locale first_match_registry =
  fixes matches :: "'p \<Rightarrow> 'v \<Rightarrow> bool"
    and profiles :: "'p list"
    and resolve :: "'v \<Rightarrow> 'p option"
    and default :: 'p
  assumes resolve_first: "resolve v = find (\<lambda>p. matches p v) profiles"
    and default_in: "default \<in> set profiles"
    and default_all: "matches default v"
begin

lemma resolve_total: "\<exists>p. resolve v = Some p"
proof -
  have "find (\<lambda>p. matches p v) profiles \<noteq> None"
    using default_in default_all by (auto simp: find_None_iff)
  then show ?thesis by (simp add: resolve_first)
qed

lemma resolve_sound:
  assumes "resolve v = Some p"
  shows "p \<in> set profiles \<and> matches p v"
  using assms by (auto simp: resolve_first find_Some_iff)

lemma resolve_earliest:
  assumes "profiles = xs @ p # ys" and "matches p v" and "\<forall>q \<in> set xs. \<not> matches q v"
  shows "resolve v = Some p"
proof -
  have "find (\<lambda>p. matches p v) xs = None" using assms(3) by (simp add: find_None_iff)
  then have "find (\<lambda>p. matches p v) (xs @ p # ys) = Some p"
    using assms(2) by (induction xs) (auto split: if_splits)
  then show ?thesis by (simp add: resolve_first assms(1))
qed

end

lemma Resolve_find: "Resolve r v = find (\<lambda>p. Matches p v) r"
  by (induction r) auto

interpretation builtin: first_match_registry Matches BuiltinProfiles "Resolve BuiltinProfiles" profileFallback
  by unfold_locales (simp_all add: Resolve_find BuiltinProfiles_def)

section \<open>The profile of a version\<close>

text \<open>
  The state of the process in which the package runs: the third-party package behaves as
  documented, and the runtime is unset or the one \<^verbatim>\<open>InitDefault\<close> stores.
\<close>

definition env_ok :: "env \<Rightarrow> bool" where
  "env_ok e \<longleftrightarrow> blang_ok (e_blang e) \<and>
     (e_runtime e = None \<or>
      e_runtime e = Some \<lparr>rt_Registry = BuiltinProfiles, rt_Resolver = e_options e\<rparr>)"

lemma env_ok_blang [simp]: "env_ok e \<Longrightarrow> blang_ok (e_blang e)"
  by (simp add: env_ok_def)

lemma env_ok_InitDefault: "env_ok e \<Longrightarrow> env_ok (InitDefault (e_options e) e)"
  by (simp add: env_ok_def InitDefault_def)

lemma MustResolve_builtin_Some: "Resolve BuiltinProfiles v = Some (MustResolve BuiltinProfiles v)"
  using builtin.resolve_total [of v] by (auto simp: MustResolve_def)

lemma ProfileFor_builtin: "env_ok e \<Longrightarrow> ProfileFor e v = MustResolve BuiltinProfiles v"
  by (auto simp: env_ok_def ProfileFor_def split: option.splits)

lemma ProfileFor_eq:
  assumes "env_ok e"
  shows "ProfileFor e v =
    (if AtLeastMySQL84 v then profilePercona84
     else if AtLeastMySQL8 v then profilePercona80
     else if Major v = 5 then profilePercona57
     else profileFallback)"
  by (simp add: ProfileFor_builtin [OF assms] MustResolve_def BuiltinProfiles_def)

lemma Name_inj [simp]: "Name p = Name q \<longleftrightarrow> p = q"
  by (cases p; cases q) simp_all

lemma ProfilesMatch_iff [simp]: "ProfilesMatch e a b \<longleftrightarrow> ProfileFor e a = ProfileFor e b"
  by (simp add: ProfilesMatch_def)

section \<open>A concrete environment\<close>

text \<open>Used where a theorem is applied at concrete values.\<close>

abbreviation ver :: "64 word \<Rightarrow> 64 word \<Rightarrow> 64 word \<Rightarrow> version" where
  "ver a b c \<equiv> \<lparr>Major = a, Minor = b, Patch = c\<rparr>"

definition ref_options :: options where
  "ref_options =
     \<lparr>opt_SidecarMysql57Image = ''side57'', opt_SidecarMysql8Image = ''side80'',
      opt_SidecarMysql84Image = ''side84'', opt_MetricsExporterImage = ''exporter'',
      opt_ImagePullSecretName = [], opt_ImagePullPolicy = ''IfNotPresent'',
      opt_OrchestratorURI = [], opt_OrchestratorTopologyPassword = [],
      opt_OrchestratorTopologyUser = [], opt_LeaderElectionNamespace = [],
      opt_LeaderElectionID = [], opt_Namespace = [],
      opt_MySQLVersionImageOverride = Map.empty, opt_MySQLVersionCatalogFile = [],
      opt_mysqlVersionCatalog = Map.empty, opt_OrchestratorConcurrentReconciles = 10,
      opt_FailoverBeforeShutdownEnabled = True, opt_ClusterRestrictPrivilegeEscalation = False,
      opt_AllowCrossNamespaceUsers = False, opt_AllowCrossNamespaceDatabases = False,
      opt_MetricsBindAddress = [], opt_HealthProbeBindAddress = []\<rparr>"

definition ref_env :: env where
  "ref_env = \<lparr>e_blang = ref_blang, e_runtime = None, e_options = ref_options\<rparr>"

lemma ref_env_ok: "env_ok ref_env"
  by (simp add: env_ok_def ref_env_def ref_blang_ok)

section \<open>The upgrade rule\<close>

text \<open>Profiles in upgrade order.\<close>

fun profile_rank :: "mysql_profile \<Rightarrow> nat" where
  "profile_rank profilePercona57 = 0"
| "profile_rank profilePercona80 = 1"
| "profile_rank profilePercona84 = 2"
| "profile_rank profileFallback = 3"

instantiation mysql_profile :: linorder
begin

definition less_eq_mysql_profile :: "mysql_profile \<Rightarrow> mysql_profile \<Rightarrow> bool" where
  "less_eq_mysql_profile p q = (profile_rank p \<le> profile_rank q)"

definition less_mysql_profile :: "mysql_profile \<Rightarrow> mysql_profile \<Rightarrow> bool" where
  "less_mysql_profile p q = (profile_rank p < profile_rank q)"

instance
proof
  fix p q r :: mysql_profile
  show "p \<le> q \<Longrightarrow> q \<le> p \<Longrightarrow> p = q"
    by (cases p; cases q) (simp_all add: less_eq_mysql_profile_def)
qed (auto simp: less_eq_mysql_profile_def less_mysql_profile_def)

end

lemma profileUpgradeIndex_Name [simp]: "profileUpgradeIndex (Name p) = Some (profile_rank p)"
  by (cases p) (simp_all add: profileUpgradeIndex_def profileUpgradeOrder_def)

lemma ValidateUpgradePath_iff:
  assumes "env_ok e"
  shows "ValidateUpgradePath e cur tgt = None \<longleftrightarrow>
    cur = tgt \<or>
    v_less cur tgt \<and> profile_rank (ProfileFor e tgt) \<le> profile_rank (ProfileFor e cur) + 1"
  using assms v_less_linear [of cur tgt] v_less_asym [of cur tgt]
  by (auto simp: ValidateUpgradePath_def Let_def)

lemma ProfileFor_major5: "env_ok e \<Longrightarrow> Major v = 5 \<Longrightarrow> ProfileFor e v = profilePercona57"
  by (simp add: ProfileFor_eq AtLeastMySQL84_def AtLeastMySQL8_def)

lemma ProfileFor_at_least_8:
  "env_ok e \<Longrightarrow> AtLeastMySQL8 v \<Longrightarrow>
     ProfileFor e v = (if AtLeastMySQL84 v then profilePercona84 else profilePercona80)"
  by (simp add: ProfileFor_eq)

lemma line_80_iff:
  "AtLeastMySQL8 v \<and> \<not> AtLeastMySQL84 v \<longleftrightarrow> Major v = 8 \<and> Minor v < 4"
  by (auto simp: AtLeastMySQL8_def AtLeastMySQL84_def)

lemma v_less_major: "v_less v w \<Longrightarrow> Major v \<le> Major w"
  by (auto simp: v_less_def vkey_def word_le_nat_alt)

lemma v_less_AtLeast8: "v_less v w \<Longrightarrow> AtLeastMySQL8 v \<Longrightarrow> AtLeastMySQL8 w"
  using v_less_major [of v w] by (auto simp: AtLeastMySQL8_def)

lemma profile_rank_le_1:
  "env_ok e \<Longrightarrow> profile_rank (ProfileFor e v) \<le> 1 \<longleftrightarrow> Major v = 5 \<or> Major v = 8 \<and> Minor v < 4"
  using line_80_iff [of v] by (auto simp: ProfileFor_eq AtLeastMySQL84_def AtLeastMySQL8_def)

text \<open>
  Property C38. An upgrade is accepted exactly when it does not go down and stays within one LTS
  line: from 5.x to 5.x or to the 8.0 to 8.3 line, never past it; from 8.0 on to every later
  version.
\<close>

theorem upgrade_path_one_lts_line:
  assumes "env_ok e"
  shows "(Major cur = 5 \<longrightarrow>
            (ValidateUpgradePath e cur tgt = None \<longleftrightarrow>
               \<not> v_less tgt cur \<and> (Major tgt = 5 \<or> Major tgt = 8 \<and> Minor tgt < 4))) \<and>
         (AtLeastMySQL8 cur \<longrightarrow>
            (ValidateUpgradePath e cur tgt = None \<longleftrightarrow> \<not> v_less tgt cur))"
proof -
  note order = v_less_linear [of cur tgt] v_less_asym [of cur tgt]
  have "ValidateUpgradePath e cur tgt = None \<longleftrightarrow>
          \<not> v_less tgt cur \<and> (Major tgt = 5 \<or> Major tgt = 8 \<and> Minor tgt < 4)"
    if "Major cur = 5"
    using that order profile_rank_le_1 [OF assms, of tgt]
    by (auto simp: ValidateUpgradePath_iff [OF assms] ProfileFor_major5 [OF assms])
  moreover have "ValidateUpgradePath e cur tgt = None \<longleftrightarrow> \<not> v_less tgt cur"
    if "AtLeastMySQL8 cur"
    using that order v_less_AtLeast8 [of cur tgt]
    by (auto simp: ValidateUpgradePath_iff [OF assms] ProfileFor_at_least_8 [OF assms])
  ultimately show ?thesis by blast
qed

theorem upgrade_path_one_lts_line_witness:
  "ValidateUpgradePath ref_env (ver 5 7 35) (ver 8 0 20) = None \<and>
   ValidateUpgradePath ref_env (ver 5 7 35) (ver 8 4 8) \<noteq> None \<and>
   ValidateUpgradePath ref_env (ver 8 0 20) (ver 8 4 8) = None"
  using upgrade_path_one_lts_line [OF ref_env_ok, of "ver 5 7 35" "ver 8 0 20"]
    upgrade_path_one_lts_line [OF ref_env_ok, of "ver 5 7 35" "ver 8 4 8"]
    upgrade_path_one_lts_line [OF ref_env_ok, of "ver 8 0 20" "ver 8 4 8"]
  by (simp add: v_less_def vkey_def AtLeastMySQL8_def)

text \<open>
  The error of a refused upgrade: a downgrade is reported as such, every other refusal
  is the skipped LTS line with the two profile names, and the branch for an unknown profile is
  never taken.
\<close>

theorem upgrade_path_error_values:
  assumes "env_ok e"
  shows "ValidateUpgradePath e cur tgt = Some err \<longleftrightarrow>
    (if v_less tgt cur then err = DowngradeUnsupported cur tgt
     else cur \<noteq> tgt \<and> profile_rank (ProfileFor e cur) + 1 < profile_rank (ProfileFor e tgt) \<and>
          err = SkipsLTSLine cur (Name (ProfileFor e cur)) tgt (Name (ProfileFor e tgt)))"
  using assms by (auto simp: ValidateUpgradePath_def Let_def)

theorem upgrade_path_error_values_witness:
  "ValidateUpgradePath ref_env (ver 8 0 20) (ver 5 7 35) =
     Some (DowngradeUnsupported (ver 8 0 20) (ver 5 7 35))"
  using upgrade_path_error_values [OF ref_env_ok, of "ver 8 0 20" "ver 5 7 35"]
  by (simp add: v_less_def vkey_def)

lemma index_dash_dotted [simp]:
  "index_char (CHR ''-'') (dotted v @ CHR ''-'' # r) = Some (length (dotted v))"
  by (simp add: index_char_append)

lemma before_dash_dotted [simp]: "before_dash (dotted v @ CHR ''-'' # r) = Some (dotted v)"
  by (simp add: before_dash_def)

lemma before_dash_none [simp]: "CHR ''-'' \<notin> set s \<Longrightarrow> before_dash s = None"
  by (simp add: before_dash_def index_char_None [THEN iffD2])

definition server_suffix :: "string \<Rightarrow> bool" where
  "server_suffix s = (s = [] \<or> hd s = CHR ''-'' \<and> \<not> is_space (last s))"

lemma server_suffix_cases:
  assumes "server_suffix s"
  obtains "s = []" | r where "s = CHR ''-'' # r"
  using assms by (cases s) (auto simp: server_suffix_def)

lemma trim_left_spaces:
  "list_all is_space w \<Longrightarrow> trim_left (w @ s) = trim_left s"
  by (induction w) (auto simp: trim_left_def)

lemma trim_space_padded:
  assumes "list_all is_space w1" and "list_all is_space w2"
    and "s \<noteq> []" and "\<not> is_space (hd s)" and "\<not> is_space (last s)"
  shows "trim_space (w1 @ s @ w2) = s"
proof -
  have "trim_left (w1 @ s @ w2) = s @ w2"
    using assms by (simp add: trim_left_spaces trim_left_id)
  moreover have "trim_left (rev w2 @ rev s) = rev s"
    using assms by (simp add: trim_left_spaces trim_left_id hd_rev)
  ultimately show ?thesis by (simp add: trim_space_def)
qed

lemma last_dotted_digit [simp]: "is_digit (last (dotted v))"
proof -
  have "last (dotted v) = last (utoa (unat (Patch v)))" by (simp add: dotted_def)
  then show ?thesis using utoa_chars last_in_set utoa_nonempty by metis
qed

text \<open>
  The text a server reports for \<^verbatim>\<open>SELECT VERSION()\<close> (the printed version, with or
  without a vendor suffix after a dash, with white space around it) is parsed back to the version.
\<close>

theorem parse_server_version_roundtrip:
  assumes "blang_ok bl" and "server_suffix sfx"
    and "list_all is_space w1" and "list_all is_space w2"
  shows "ParseServerVersion bl (w1 @ (version_String bl v @ sfx) @ w2) = Inr v"
proof -
  have "\<not> is_space (last (dotted v @ sfx))"
    using assms(2) by (cases "sfx = []") (auto simp: server_suffix_def)
  then have "trim_space (w1 @ (dotted v @ sfx) @ w2) = dotted v @ sfx"
    using assms by (intro trim_space_padded) auto
  moreover from assms(2) have "before_dash (dotted v @ sfx) = (if sfx = [] then None else Some (dotted v))"
    by (cases sfx rule: server_suffix_cases) auto
  ultimately show ?thesis using assms(1) by (simp add: ParseServerVersion_def)
qed

theorem parse_server_version_roundtrip_witness:
  "ParseServerVersion ref_blang ('' '' @ (version_String ref_blang (ver 8 0 34) @ ''-26'') @ []) =
     Inr (ver 8 0 34)"
  by (rule parse_server_version_roundtrip [OF ref_blang_ok])
    (simp_all add: server_suffix_def is_space_def)

text \<open>
  The redo log of every version line is \<open>2 * perFile\<close>: where the operator's defaults set
  two log files in a group, the option is the size of one file, and elsewhere it is the
  capacity of twice that size.
\<close>

theorem redo_log_capacity:
  assumes "env_ok e" and "0 \<le> perFile" and "perFile < 2 ^ 62"
  shows "InnoDBOperatorLogSizing (ProfileFor e v) v perFile =
     (case OperatorKVForVersion e v ''innodb-log-files-in-group'' of
        Some n \<Rightarrow> (''innodb-log-file-size'', perFile)
      | None \<Rightarrow> (''innodb-redo-log-capacity'', 2 * perFile))
    \<and> OperatorKVForVersion e v ''innodb-log-files-in-group'' \<in> {None, Some ''2''}"
proof -
  have "AtLeastMySQL84 v \<Longrightarrow> AtLeastMySQL8030 v"
    by (auto simp: AtLeastMySQL84_def AtLeastMySQL8030_def word_less_nat_alt word_le_nat_alt
        split: if_splits)
  moreover have "Major v = 5 \<Longrightarrow> \<not> AtLeastMySQL8030 v"
    by (simp add: AtLeastMySQL8030_def)
  moreover have "to_int64 (2 * perFile) = 2 * perFile" using assms by (intro to_int64_id) auto
  ultimately show ?thesis
    by (auto simp: OperatorKVForVersion_def ProfileFor_eq [OF assms(1)] OperatorKVCommon_def Let_def)
qed

theorem redo_log_capacity_witness:
  "InnoDBOperatorLogSizing (ProfileFor ref_env (ver 8 4 8)) (ver 8 4 8) 50331648 =
     (''innodb-redo-log-capacity'', 100663296)"
  using redo_log_capacity [OF ref_env_ok, of 50331648 "ver 8 4 8"]
  by (simp add: OperatorKVForVersion_def ProfileFor_eq [OF ref_env_ok] AtLeastMySQL84_def
      AtLeastMySQL8030_def OperatorKVCommon_def)

lemma dots_dotted: "count_list (dotted v) (CHR ''.'') = 2"
proof -
  have "count_list (utoa n) (CHR ''.'') = 0" for n by (simp add: count_list_0_iff)
  then show ?thesis by (simp add: dotted_def)
qed

lemma tag_not_short:
  "MySQLTagsToSemVer (dotted v @ sfx) = None"
proof -
  have "count_list (dotted v @ sfx) (CHR ''.'') \<ge> 2" by (simp add: dots_dotted)
  moreover have "count_list t (CHR ''.'') \<le> 1" if "MySQLTagsToSemVer t \<noteq> None" for t
    using that by (auto simp: MySQLTagsToSemVer_def split: if_splits)
  ultimately show ?thesis by force
qed

lemma imageTag_tagged:
  assumes "CHR ''@'' \<notin> set img" and "CHR '':'' \<notin> set tag" and "CHR ''@'' \<notin> set tag"
  shows "imageTag (img @ '':'' @ tag) = tag"
proof -
  have "last_index_char (CHR ''@'') (img @ CHR '':'' # tag) = None" using assms by simp
  moreover have "last_index_char (CHR '':'') (img @ CHR '':'' # tag) = Some (length img)"
    using assms by (simp add: last_index_char_append)
  ultimately show ?thesis by (simp add: imageTag_def)
qed

lemma dotted_no_colon [simp]: "CHR '':'' \<notin> set (dotted v)" "CHR ''@'' \<notin> set (dotted v)"
  by (simp_all add: dotted_def)

text \<open>
  A tagged image reference (\<^verbatim>\<open>repository:8.0.34\<close>, with or without a suffix after a dash)
  gives the version of its tag.
\<close>

theorem image_tag_version:
  assumes "blang_ok bl" and "CHR ''@'' \<notin> set repo"
    and "sfx = [] \<or> hd sfx = CHR ''-''" and "CHR '':'' \<notin> set sfx" and "CHR ''@'' \<notin> set sfx"
  shows "semVerFromImageRef bl (repo @ '':'' @ version_String bl v @ sfx) = v"
proof -
  have tag: "imageTag (repo @ '':'' @ (dotted v @ sfx)) = dotted v @ sfx"
    using assms by (intro imageTag_tagged) auto
  have "hd (dotted v @ sfx) \<noteq> CHR ''l''"
    by (metis digit_not(6) dotted_hd_digit dotted_nonempty hd_append2)
  then have nolatest: "dotted v @ sfx \<noteq> ''latest''" by (metis list.sel(1))
  show ?thesis
  proof (cases sfx)
    case Nil
    with assms(1) tag nolatest tag_not_short [of v "[]"] show ?thesis
      by (simp add: semVerFromImageRef_def Let_def)
  next
    case (Cons c r)
    with assms(3) have "sfx = CHR ''-'' # r" by simp
    with assms(1) tag nolatest tag_not_short [of v sfx] show ?thesis
      by (simp add: semVerFromImageRef_def Let_def)
  qed
qed

theorem image_tag_version_witness:
  "semVerFromImageRef ref_blang (''percona'' @ '':'' @ version_String ref_blang (ver 8 0 34) @ ''-26'') =
     ver 8 0 34"
  by (rule image_tag_version [OF ref_blang_ok]) simp_all

text \<open>
  The server image is the first one set of: the image in the spec, the operator's
  override for the exact version, the catalog file, the built-in table; with none of them the
  version has no image.
\<close>

theorem server_image_precedence:
  assumes "env_ok e"
  shows "ServerImage e (e_options e) v (Some spec) =
    (let opt' = e_options e;
         sources = [if cs_Image spec = [] then None else Some (cs_Image spec),
                    opt_MySQLVersionImageOverride opt' (dotted v),
                    opt_mysqlVersionCatalog opt' (dotted v),
                    MysqlImageVersions (dotted v)]
     in case find (\<lambda>x. x \<noteq> None) sources of
          Some (Some img) \<Rightarrow> Inr img
        | _ \<Rightarrow> Inl (NoServerImage (dotted v)))"
  using assms
  by (auto simp: ServerImage_def env_ok_def ResolverServerImage_def MysqlImageFromCatalog_def Let_def
      split: option.splits)

theorem server_image_precedence_witness:
  "ServerImage ref_env (e_options ref_env) (ver 9 9 9) (Some ref_spec) = Inl (NoServerImage ''9.9.9'')"
proof -
  have "dotted (ver 9 9 9) = ''9.9.9''" by code_simp
  then show ?thesis
    using server_image_precedence [OF ref_env_ok, of "ver 9 9 9" ref_spec]
    by (simp add: ref_env_def ref_options_def ref_spec_def MysqlImageVersions_def)
qed

text \<open>
  The sidecar image is the override of the cluster or the image configured for the
  profile of the version; a missing image of one profile is never replaced by that of another.
\<close>

theorem sidecar_no_cross_profile:
  assumes "env_ok e"
  shows "SidecarImageFor e v override =
    (if override \<noteq> [] then override
     else if AtLeastMySQL84 v then opt_SidecarMysql84Image (e_options e)
     else if AtLeastMySQL8 v then opt_SidecarMysql8Image (e_options e)
     else opt_SidecarMysql57Image (e_options e))"
  using assms
  using AtLeastMySQL84_8 [of v]
  by (auto simp: SidecarImageFor_def env_ok_def MustResolve_def BuiltinProfiles_def)

theorem sidecar_no_cross_profile_witness:
  "SidecarImageFor ref_env (ver 8 4 8) [] = ''side84''"
  using sidecar_no_cross_profile [OF ref_env_ok, of "ver 8 4 8" "[]"]
  by (simp add: AtLeastMySQL84_def ref_env_def ref_options_def)

end
