(* ===== verification/Conditions.thy ===== *)
theory Conditions
  imports ApiTypes
begin

text \<open>
  The contract of a list of status conditions. Four places of the operator keep such a list
  (the cluster status, the status of a node, the conditions of a pod, those of a backup) and update it with the
  same algorithm: replace the condition of the given type, keeping its transition time when the
  status does not change, or append a new one. The locale states that algorithm as two laws and
  derives what a reader of the list may rely on. Each of the four update functions is an
  instance, in the theory that defines it.
\<close>

locale condition_store =
  fixes ctype :: "'c \<Rightarrow> 't"
    and cstatus :: "'c \<Rightarrow> condition_status"
    and ctime :: "'c \<Rightarrow> time"
    and mk :: "time \<Rightarrow> 't \<Rightarrow> condition_status \<Rightarrow> 'p \<Rightarrow> 'c"
    and upd :: "time \<Rightarrow> 't \<Rightarrow> condition_status \<Rightarrow> 'p \<Rightarrow> 'c list \<Rightarrow> 'c list"
  assumes ctype_mk [simp]: "ctype (mk t ty s p) = ty"
    and cstatus_mk [simp]: "cstatus (mk t ty s p) = s"
    and ctime_mk [simp]: "ctime (mk t ty s p) = t"
    and upd_hit: "find_index (\<lambda>c. ctype c = ty) cs = Some i \<Longrightarrow>
      upd t ty s p cs = cs[i := mk (if cstatus (cs ! i) = s then ctime (cs ! i) else t) ty s p]"
    and upd_miss: "find_index (\<lambda>c. ctype c = ty) cs = None \<Longrightarrow> upd t ty s p cs = cs @ [mk t ty s p]"
begin

text \<open>The transition time an update records.\<close>

definition new_time :: "time \<Rightarrow> 't \<Rightarrow> condition_status \<Rightarrow> 'c list \<Rightarrow> time" where
  "new_time t ty s cs =
     (case find (\<lambda>c. ctype c = ty) cs of
        Some c \<Rightarrow> if cstatus c = s then ctime c else t
      | None \<Rightarrow> t)"

lemma find_cons_update:
  assumes "find_index (\<lambda>c. ctype c = ty) cs = Some i" and "ctype x = ty"
  shows "find (\<lambda>c. ctype c = ty') (cs[i := x]) =
           (if ty' = ty then Some x else find (\<lambda>c. ctype c = ty') cs)"
  using assms
proof (induction cs arbitrary: i)
  case Nil
  then show ?case by simp
next
  case (Cons c cs)
  then show ?case by (cases "ctype c = ty") auto
qed

lemma find_append:
  "find P (xs @ ys) = (case find P xs of Some x \<Rightarrow> Some x | None \<Rightarrow> find P ys)"
  by (induction xs) auto

lemma find_update:
  "find (\<lambda>c. ctype c = ty') (upd t ty s p cs) =
     (if ty' = ty then Some (mk (new_time t ty s cs) ty s p) else find (\<lambda>c. ctype c = ty') cs)"
proof (cases "find_index (\<lambda>c. ctype c = ty) cs")
  case None
  then have "find (\<lambda>c. ctype c = ty) cs = None"
    by (simp add: find_index_eq_find)
  then show ?thesis
    by (auto simp: upd_miss [OF None] find_append new_time_def split: option.splits)
next
  case (Some i)
  then have "find (\<lambda>c. ctype c = ty) cs = Some (cs ! i)"
    by (simp add: find_index_eq_find)
  then show ?thesis
    by (simp add: upd_hit [OF Some] find_cons_update [OF Some] new_time_def)
qed

lemma types_update: "set (map ctype (upd t ty s p cs)) = insert ty (set (map ctype cs))"
proof (cases "find_index (\<lambda>c. ctype c = ty) cs")
  case None
  then show ?thesis by (simp add: upd_miss)
next
  case (Some i)
  then have "i < length cs" "ctype (cs ! i) = ty" using find_index_Some by fastforce+
  then have "map ctype (upd t ty s p cs) = map ctype cs" and "ty \<in> set (map ctype cs)"
    by (auto simp: upd_hit [OF Some] map_update intro: list_update_same_conv [THEN iffD2])
  then show ?thesis by auto
qed

lemma distinct_update:
  assumes "distinct (map ctype cs)"
  shows "distinct (map ctype (upd t ty s p cs))"
proof (cases "find_index (\<lambda>c. ctype c = ty) cs")
  case None
  with assms show ?thesis by (auto simp: upd_miss find_index_None)
next
  case (Some i)
  then have "i < length cs" "ctype (cs ! i) = ty" using find_index_Some by fastforce+
  then have "map ctype (upd t ty s p cs) = map ctype cs"
    by (auto simp: upd_hit [OF Some] map_update intro: list_update_same_conv [THEN iffD2])
  with assms show ?thesis by simp
qed

lemma update_idem:
  "upd t' ty s p (upd t ty s p cs) = upd t ty s p cs"
proof (cases "find_index (\<lambda>c. ctype c = ty) cs")
  case None
  then have hit: "find_index (\<lambda>c. ctype c = ty) (cs @ [mk t ty s p]) = Some (length cs)"
    by (simp add: find_index_append)
  show ?thesis by (simp add: upd_miss [OF None] upd_hit [OF hit])
next
  case (Some i)
  let ?x = "mk (if cstatus (cs ! i) = s then ctime (cs ! i) else t) ty s p"
  have i: "i < length cs" using find_index_Some [OF Some] by simp
  have "find_index (\<lambda>c. ctype c = ty) (cs[i := ?x]) = Some i"
    using Some by (induction cs arbitrary: i) (auto split: if_splits nat.splits)
  with i show ?thesis by (simp add: upd_hit [OF Some] upd_hit)
qed

end

end
