(* ===== verification/Cluster.thy ===== *)
theory Cluster
  imports Versioning Conditions
begin

text \<open>
  Package \<^verbatim>\<open>pkg/internal/mysqlcluster\<close>: the wrapper around the custom resource. Names and labels of
  the resources the operator owns, the lists of conditions in the status, the three versions of
  a cluster (desired, applied, effective), and the validation of the spec. The operations that
  change the wrapped object return the changed cluster.
\<close>

section \<open>Names\<close>

datatype resource_name =
    OldHeadlessSVC
  | HeadlessSVC
  | StatefulSet
  | ConfigMap
  | MasterService
  | HealthyReplicasService
  | HealthyNodesService
  | PodDisruptionBudget
  | Secret

definition HeadlessSVCName :: string where
  "HeadlessSVCName = ''mysql''"

fun NameForResource :: "resource_name \<Rightarrow> string \<Rightarrow> string" where
  "NameForResource StatefulSet clusterName = clusterName @ ''-mysql''"
| "NameForResource ConfigMap clusterName = clusterName @ ''-mysql''"
| "NameForResource HealthyNodesService clusterName = clusterName @ ''-mysql''"
| "NameForResource PodDisruptionBudget clusterName = clusterName @ ''-mysql''"
| "NameForResource MasterService clusterName = clusterName @ ''-mysql-master''"
| "NameForResource HealthyReplicasService clusterName = clusterName @ ''-mysql-replicas''"
| "NameForResource HeadlessSVC clusterName = HeadlessSVCName"
| "NameForResource OldHeadlessSVC clusterName = clusterName @ ''-mysql-nodes''"
| "NameForResource Secret clusterName = clusterName @ ''-mysql-operated''"

definition GetNameForResource :: "mysql_cluster \<Rightarrow> resource_name \<Rightarrow> string" where
  "GetNameForResource c name = NameForResource name (mc_Name c)"

definition GetPodHostname :: "mysql_cluster \<Rightarrow> int \<Rightarrow> string" where
  "GetPodHostname c p =
     GetNameForResource c StatefulSet @ ''-'' @ itoa p @ ''.'' @
     GetNameForResource c HeadlessSVC @ ''.'' @ mc_Namespace c"

definition GetClusterAlias :: "mysql_cluster \<Rightarrow> string" where
  "GetClusterAlias c = mc_Name c @ ''.'' @ mc_Namespace c"

definition GetMasterServiceHost :: "mysql_cluster \<Rightarrow> string" where
  "GetMasterServiceHost c = GetNameForResource c MasterService @ ''.'' @ mc_Namespace c @ ''.svc''"

definition DataPVCName :: "mysql_cluster \<Rightarrow> int \<Rightarrow> string" where
  "DataPVCName c ordinal = ''data-'' @ GetNameForResource c StatefulSet @ ''-'' @ itoa ordinal"

definition DataPVCNamePrefix :: "mysql_cluster \<Rightarrow> string" where
  "DataPVCNamePrefix c = ''data-'' @ GetNameForResource c StatefulSet @ ''-''"

definition DesiredDataVolumeStorage :: "mysql_cluster \<Rightarrow> quantity option" where
  "DesiredDataVolumeStorage c =
     (case vs_PersistentVolumeClaim (cs_VolumeSpec (mc_Spec c)) of
        None \<Rightarrow> None
      | Some pvc \<Rightarrow> rr_Requests (pvs_Resources pvc) ''storage'')"

definition IsMysqlClusterKind :: "string \<Rightarrow> bool" where
  "IsMysqlClusterKind kind = (kind \<in> set [''MysqlCluster'', ''mysqlcluster'', ''mysqlclusters''])"

section \<open>Versions\<close>

definition DesiredVersion :: "env \<Rightarrow> mysql_cluster \<Rightarrow> version" where
  "DesiredVersion e c = DesiredVersionOf (e_blang e) (cs_MysqlVersion (mc_Spec c))"

definition AppliedDataPlaneVersion :: "env \<Rightarrow> mysql_cluster \<Rightarrow> version" where
  "AppliedDataPlaneVersion e c = AppliedVersionOf (e_blang e) (st_AppliedMysqlVersion (mc_Status c))"

definition LaggingStatefulSetVersion :: "env \<Rightarrow> mysql_cluster \<Rightarrow> stateful_set option \<Rightarrow> version" where
  "LaggingStatefulSetVersion e c sts =
     (case sts of
        None \<Rightarrow> Zero
      | Some _ \<Rightarrow>
          let desired = DesiredVersion e c; v = SemVerFromStatefulSet (e_blang e) sts
          in if \<not> IsZero (e_blang e) v \<and> \<not> EQ (e_blang e) v desired then v else Zero)"

definition SourceVersionForUpgrade :: "env \<Rightarrow> mysql_cluster \<Rightarrow> version" where
  "SourceVersionForUpgrade e c = AppliedDataPlaneVersion e c"

definition EffectiveVersion :: "env \<Rightarrow> mysql_cluster \<Rightarrow> stateful_set option \<Rightarrow> version" where
  "EffectiveVersion e c sts =
     (let v = AppliedDataPlaneVersion e c in
      if \<not> IsZero (e_blang e) v then v
      else let v = LaggingStatefulSetVersion e c sts in
        if \<not> IsZero (e_blang e) v then v
        else DesiredVersion e c)"

section \<open>Images\<close>

definition GetMysqlImage :: "env \<Rightarrow> mysql_cluster \<Rightarrow> string" where
  "GetMysqlImage e c =
     (case ServerImage e (e_options e) (DesiredVersion e c) (Some (mc_Spec c)) of
        Inl err \<Rightarrow> []
      | Inr img \<Rightarrow> img)"

definition IsPerconaImage :: "env \<Rightarrow> mysql_cluster \<Rightarrow> bool" where
  "IsPerconaImage e c = contains (GetMysqlImage e c) ''percona''"

definition WantsPerconaInitContainerFor :: "env \<Rightarrow> mysql_cluster \<Rightarrow> version \<Rightarrow> bool" where
  "WantsPerconaInitContainerFor e c v =
     (IsPerconaImage e c \<and> WantsPerconaInitContainer (e_blang e) (ProfileFor e v) v)"

definition ShouldHaveInitContainerForMysql :: "env \<Rightarrow> mysql_cluster \<Rightarrow> bool" where
  "ShouldHaveInitContainerForMysql e c = WantsPerconaInitContainerFor e c (DesiredVersion e c)"

definition GetSidecarImage :: "env \<Rightarrow> mysql_cluster \<Rightarrow> string" where
  "GetSidecarImage e c = SidecarImageFor e (DesiredVersion e c) (cs_SidecarImage (mc_Spec c))"

section \<open>Labels\<close>

definition GetLabels :: "env \<Rightarrow> mysql_cluster \<Rightarrow> str_map" where
  "GetLabels e c =
     (let instance' = (case mc_Annotations c ''app.kubernetes.io/instance'' of
                         Some inst \<Rightarrow> inst | None \<Rightarrow> mc_Name c);
          component = (case mc_Annotations c ''app.kubernetes.io/component'' of
                         Some cmp' \<Rightarrow> cmp' | None \<Rightarrow> ''database'');
          labels = [LabelCluster \<mapsto> mc_Name c,
                    ''app.kubernetes.io/name'' \<mapsto> ''mysql'',
                    ''app.kubernetes.io/instance'' \<mapsto> instance',
                    ''app.kubernetes.io/version'' \<mapsto> version_String (e_blang e) (DesiredVersion e c),
                    ''app.kubernetes.io/component'' \<mapsto> component,
                    ''app.kubernetes.io/managed-by'' \<mapsto> ManagedBy]
      in case mc_Annotations c ''app.kubernetes.io/part-of'' of
           Some part \<Rightarrow> labels(''app.kubernetes.io/part-of'' \<mapsto> part)
         | None \<Rightarrow> labels)"

definition GetSelectorLabels :: "mysql_cluster \<Rightarrow> str_map" where
  "GetSelectorLabels c =
     [LabelCluster \<mapsto> mc_Name c,
      ''app.kubernetes.io/name'' \<mapsto> ''mysql'',
      ''app.kubernetes.io/managed-by'' \<mapsto> ManagedBy]"

section \<open>Cluster conditions\<close>

definition condIndex :: "cluster_condition list \<Rightarrow> cluster_condition_type \<Rightarrow> nat option" where
  "condIndex conds condType = find_index (\<lambda>cond. cc_Type cond = condType) conds"

definition mk_cluster_condition ::
    "time \<Rightarrow> cluster_condition_type \<Rightarrow> condition_status \<Rightarrow> string \<times> string \<Rightarrow> cluster_condition" where
  "mk_cluster_condition t ty s rm =
     \<lparr>cc_Type = ty, cc_Status = s, cc_LastTransitionTime = t, cc_Reason = fst rm, cc_Message = snd rm\<rparr>"

definition update_cluster_conditions ::
    "time \<Rightarrow> cluster_condition_type \<Rightarrow> condition_status \<Rightarrow> string \<times> string \<Rightarrow>
     cluster_condition list \<Rightarrow> cluster_condition list" where
  "update_cluster_conditions t condType status rm conds =
     (if conds = [] then [mk_cluster_condition t condType status rm]
      else (case condIndex conds condType of
              Some i \<Rightarrow>
                let cond = conds ! i;
                    lt = (if cc_Status cond \<noteq> status then t else cc_LastTransitionTime cond)
                in conds[i := mk_cluster_condition lt condType status rm]
            | None \<Rightarrow> conds @ [mk_cluster_condition t condType status rm]))"

definition UpdateStatusCondition ::
    "time \<Rightarrow> mysql_cluster \<Rightarrow> cluster_condition_type \<Rightarrow> condition_status \<Rightarrow> string \<Rightarrow> string \<Rightarrow>
     mysql_cluster" where
  "UpdateStatusCondition t c condType status reason msg =
     c\<lparr>mc_Status := (mc_Status c)\<lparr>st_Conditions :=
         update_cluster_conditions t condType status (reason, msg) (st_Conditions (mc_Status c))\<rparr>\<rparr>"

definition GetClusterCondition :: "mysql_cluster \<Rightarrow> cluster_condition_type \<Rightarrow> cluster_condition option" where
  "GetClusterCondition c condType =
     (case condIndex (st_Conditions (mc_Status c)) condType of
        Some i \<Rightarrow> Some (st_Conditions (mc_Status c) ! i)
      | None \<Rightarrow> None)"

definition IsClusterReady :: "mysql_cluster \<Rightarrow> bool" where
  "IsClusterReady c =
     list_ex (\<lambda>cond. cc_Type cond = ClusterConditionReady \<and> cc_Status cond = ConditionTrue)
       (st_Conditions (mc_Status c))"

section \<open>Node conditions\<close>

definition GetNodeConditionIndex :: "node_status \<Rightarrow> node_condition_type \<Rightarrow> nat option" where
  "GetNodeConditionIndex ns condType = find_index (\<lambda>cond. nc_Type cond = condType) (ns_Conditions ns)"

definition mk_node_condition ::
    "time \<Rightarrow> node_condition_type \<Rightarrow> condition_status \<Rightarrow> unit \<Rightarrow> node_condition" where
  "mk_node_condition t ty s u = \<lparr>nc_Type = ty, nc_Status = s, nc_LastTransitionTime = t\<rparr>"

definition updateNodeCondition ::
    "time \<Rightarrow> node_status \<Rightarrow> node_condition_type \<Rightarrow> condition_status \<Rightarrow> node_status \<times> bool" where
  "updateNodeCondition t ns cType cStatus =
     (if ns_Conditions ns = []
      then (ns\<lparr>ns_Conditions := [mk_node_condition t cType cStatus ()]\<rparr>, True)
      else (case GetNodeConditionIndex ns cType of
              Some i \<Rightarrow>
                let cond = ns_Conditions ns ! i in
                if nc_Status cond \<noteq> cStatus
                then (ns\<lparr>ns_Conditions := (ns_Conditions ns)[i := mk_node_condition t cType cStatus ()]\<rparr>, True)
                else (ns\<lparr>ns_Conditions := (ns_Conditions ns)
                          [i := mk_node_condition (nc_LastTransitionTime cond) cType cStatus ()]\<rparr>, False)
            | None \<Rightarrow>
                (ns\<lparr>ns_Conditions := ns_Conditions ns @ [mk_node_condition t cType cStatus ()]\<rparr>, True)))"

abbreviation nodes_of :: "mysql_cluster \<Rightarrow> node_status list" where
  "nodes_of c \<equiv> st_Nodes (mc_Status c)"

definition set_nodes :: "node_status list \<Rightarrow> mysql_cluster \<Rightarrow> mysql_cluster" where
  "set_nodes ns c = c\<lparr>mc_Status := (mc_Status c)\<lparr>st_Nodes := ns\<rparr>\<rparr>"

lemma nodes_of_set_nodes [simp]: "nodes_of (set_nodes ns c) = ns"
  by (simp add: set_nodes_def)

text \<open>
  The recursion of \<^verbatim>\<open>GetNodeStatusIndex\<close>: the name is looked up, and appended when it is missing,
  after which the function calls itself. It calls itself at most once.
\<close>

function GetNodeStatusIndex :: "mysql_cluster \<Rightarrow> string \<Rightarrow> mysql_cluster \<times> nat" where
  "GetNodeStatusIndex c name =
     (case find_index (\<lambda>ns. ns_Name ns = name) (nodes_of c) of
        Some i \<Rightarrow> (c, i)
      | None \<Rightarrow>
          GetNodeStatusIndex (set_nodes (nodes_of c @ [\<lparr>ns_Name = name, ns_Conditions = []\<rparr>]) c) name)"
  by pat_completeness auto
termination
  by (relation "measure (\<lambda>(c, name). if name \<in> ns_Name ` set (nodes_of c) then 0 else 1)")
    (auto simp: find_index_None)

declare GetNodeStatusIndex.simps [simp del]

definition GetNodeCondition ::
    "mysql_cluster \<Rightarrow> string \<Rightarrow> node_condition_type \<Rightarrow> mysql_cluster \<times> node_condition option" where
  "GetNodeCondition c name condType =
     (let (c', i) = GetNodeStatusIndex c name;
          ns = nodes_of c' ! i
      in case GetNodeConditionIndex ns condType of
           Some j \<Rightarrow> (c', Some (ns_Conditions ns ! j))
         | None \<Rightarrow> (c', None))"

definition GetNodeStatusFor :: "mysql_cluster \<Rightarrow> string \<Rightarrow> mysql_cluster \<times> node_status" where
  "GetNodeStatusFor c name = (let (c', i) = GetNodeStatusIndex c name in (c', nodes_of c' ! i))"

definition UpdateNodeConditionStatus ::
    "time \<Rightarrow> mysql_cluster \<Rightarrow> string \<Rightarrow> node_condition_type \<Rightarrow> condition_status \<Rightarrow>
     mysql_cluster \<times> bool" where
  "UpdateNodeConditionStatus t c nodeName condType status =
     (let (c', i) = GetNodeStatusIndex c nodeName;
          (ns, changed) = updateNodeCondition t (nodes_of c' ! i) condType status
      in (set_nodes ((nodes_of c')[i := ns]) c', changed))"

text \<open>\<^verbatim>\<open>GetMasterHost\<close>: the last node marked as master wins; the default is the first pod.\<close>

fun master_host_loop :: "mysql_cluster \<Rightarrow> node_status list \<Rightarrow> string \<Rightarrow> string" where
  "master_host_loop c [] masterHost = masterHost"
| "master_host_loop c (ns # nss) masterHost =
     (case GetNodeCondition c (ns_Name ns) NodeConditionMaster of
        (c', Some cond) \<Rightarrow>
          master_host_loop c' nss (if nc_Status cond = ConditionTrue then ns_Name ns else masterHost)
      | (c', None) \<Rightarrow> master_host_loop c' nss masterHost)"

definition GetMasterHost :: "mysql_cluster \<Rightarrow> string" where
  "GetMasterHost c = master_host_loop c (nodes_of c) (GetPodHostname c 0)"

section \<open>Spec updates and validation\<close>

definition UpdateSpec :: "mysql_cluster \<Rightarrow> mysql_cluster" where
  "UpdateSpec c =
     (if cs_InitBucketURL (mc_Spec c) = []
      then c\<lparr>mc_Spec := (mc_Spec c)\<lparr>cs_InitBucketURL := cs_InitBucketURI (mc_Spec c)\<rparr>\<rparr>
      else c)"

text \<open>
  \<^verbatim>\<open>ExporterDataSourcePort\<close>; \<open>intValue\<close> is \<^verbatim>\<open>IntOrString.IntValue\<close> of \<^verbatim>\<open>k8s.io/apimachinery\<close>.
\<close>

fun extra_conns_ok :: "(int_or_string \<Rightarrow> int) \<Rightarrow> (string \<rightharpoonup> int_or_string) \<Rightarrow> string list \<Rightarrow> bool" where
  "extra_conns_ok intValue conf [] = False"
| "extra_conns_ok intValue conf (s # ss) =
     (case conf s of
        Some conns \<Rightarrow> if intValue conns > 1 then True else extra_conns_ok intValue conf ss
      | None \<Rightarrow> extra_conns_ok intValue conf ss)"

fun extra_port_loop ::
    "(int_or_string \<Rightarrow> int) \<Rightarrow> (string \<rightharpoonup> int_or_string) \<Rightarrow> string list \<Rightarrow> int" where
  "extra_port_loop intValue conf [] = 3306"
| "extra_port_loop intValue conf (s # ss) =
     (case conf s of
        Some port \<Rightarrow>
          if extra_conns_ok intValue conf [''extra_max_connections'', ''extra-max-connections'']
          then intValue port else extra_port_loop intValue conf ss
      | None \<Rightarrow> extra_port_loop intValue conf ss)"

definition ExporterDataSourcePort :: "(int_or_string \<Rightarrow> int) \<Rightarrow> mysql_cluster \<Rightarrow> int" where
  "ExporterDataSourcePort intValue c =
     extra_port_loop intValue
       (case cs_MysqlConf (mc_Spec c) of Some m \<Rightarrow> m | None \<Rightarrow> Map.empty)
       [''extra_port'', ''extra-port'']"

text \<open>
  A Go value of type \<^verbatim>\<open>interface{}\<close>: the nil interface, or a value with its dynamic type, here a
  pointer that may itself be nil. The comparison \<^verbatim>\<open>v == nil\<close> holds for the nil interface only.
\<close>

datatype iface = IfaceNil | IfacePointer bool

definition iface_of_pointer :: "'a option \<Rightarrow> iface" where
  "iface_of_pointer p = IfacePointer (p = None)"

fun anyIsNull :: "iface list \<Rightarrow> bool" where
  "anyIsNull [] = False"
| "anyIsNull (v # vs) = ((v = IfaceNil) \<or> anyIsNull vs)"

datatype validate_error =
    SecretNameMissing
  | InvalidMysqlVersion string
  | NoSidecarImage string
  | ProfileRejects
  | NoVolumeSpec

definition Validate :: "env \<Rightarrow> mysql_cluster \<Rightarrow> validate_error option" where
  "Validate e c =
     (if cs_SecretName (mc_Spec c) = [] then Some SecretNameMissing
      else if GetMysqlImage e c = [] then Some (InvalidMysqlVersion (cs_MysqlVersion (mc_Spec c)))
      else if GetSidecarImage e c = [] then Some (NoSidecarImage (cs_MysqlVersion (mc_Spec c)))
      else if \<not> ProfileValidate (ProfileFor e (DesiredVersion e c)) (mc_Spec c) then Some ProfileRejects
      else let vs = cs_VolumeSpec (mc_Spec c) in
        if anyIsNull [iface_of_pointer (vs_PersistentVolumeClaim vs),
                      iface_of_pointer (vs_HostPath vs), iface_of_pointer (vs_EmptyDir vs)]
        then Some NoVolumeSpec
        else None)"

section \<open>The condition lists are condition stores\<close>

interpretation cluster_conds: condition_store cc_Type cc_Status cc_LastTransitionTime
    mk_cluster_condition update_cluster_conditions
proof
  fix ty :: cluster_condition_type and cs :: "cluster_condition list" and i t s and p :: "string \<times> string"
  assume hit: "find_index (\<lambda>c. cc_Type c = ty) cs = Some i"
  then show "update_cluster_conditions t ty s p cs =
      cs[i := mk_cluster_condition (if cc_Status (cs ! i) = s then cc_LastTransitionTime (cs ! i) else t) ty s p]"
    by (auto simp: update_cluster_conditions_def condIndex_def Let_def)
qed (auto simp: mk_cluster_condition_def update_cluster_conditions_def condIndex_def)

definition update_node_conditions ::
    "time \<Rightarrow> node_condition_type \<Rightarrow> condition_status \<Rightarrow> unit \<Rightarrow> node_condition list \<Rightarrow> node_condition list" where
  "update_node_conditions t ty s u conds =
     ns_Conditions (fst (updateNodeCondition t \<lparr>ns_Name = [], ns_Conditions = conds\<rparr> ty s))"

interpretation node_conds: condition_store nc_Type nc_Status nc_LastTransitionTime
    mk_node_condition update_node_conditions
proof
  fix ty :: node_condition_type and cs :: "node_condition list" and i t s and p :: unit
  assume hit: "find_index (\<lambda>c. nc_Type c = ty) cs = Some i"
  then show "update_node_conditions t ty s p cs =
      cs[i := mk_node_condition (if nc_Status (cs ! i) = s then nc_LastTransitionTime (cs ! i) else t) ty s p]"
    by (auto simp: update_node_conditions_def updateNodeCondition_def GetNodeConditionIndex_def Let_def)
qed (auto simp: mk_node_condition_def update_node_conditions_def updateNodeCondition_def
      GetNodeConditionIndex_def)

lemma updateNodeCondition_eq:
  "fst (updateNodeCondition t ns ty s) = ns\<lparr>ns_Conditions := update_node_conditions t ty s () (ns_Conditions ns)\<rparr>"
  by (auto simp: update_node_conditions_def updateNodeCondition_def GetNodeConditionIndex_def Let_def
      split: option.splits)

lemma updateNodeCondition_changed:
  "snd (updateNodeCondition t ns ty s) \<longleftrightarrow>
     (\<forall>cond. find (\<lambda>c. nc_Type c = ty) (ns_Conditions ns) = Some cond \<longrightarrow> nc_Status cond \<noteq> s)"
  by (auto simp: updateNodeCondition_def GetNodeConditionIndex_def find_index_eq_find Let_def
      split: option.splits)

lemma GetClusterCondition_find:
  "GetClusterCondition c ty = find (\<lambda>cond. cc_Type cond = ty) (st_Conditions (mc_Status c))"
  by (auto simp: GetClusterCondition_def condIndex_def find_index_eq_find split: option.splits)

lemma UpdateStatusCondition_frame [simp]:
  "nodes_of (UpdateStatusCondition t c ty s r m) = nodes_of c"
  "st_ReadyNodes (mc_Status (UpdateStatusCondition t c ty s r m)) = st_ReadyNodes (mc_Status c)"
  "st_AppliedMysqlVersion (mc_Status (UpdateStatusCondition t c ty s r m)) = st_AppliedMysqlVersion (mc_Status c)"
  "mc_Spec (UpdateStatusCondition t c ty s r m) = mc_Spec c"
  "mc_Name (UpdateStatusCondition t c ty s r m) = mc_Name c"
  "mc_Namespace (UpdateStatusCondition t c ty s r m) = mc_Namespace c"
  "mc_Annotations (UpdateStatusCondition t c ty s r m) = mc_Annotations c"
  "mc_Finalizers (UpdateStatusCondition t c ty s r m) = mc_Finalizers c"
  "mc_DeletionTimestamp (UpdateStatusCondition t c ty s r m) = mc_DeletionTimestamp c"
  by (simp_all add: UpdateStatusCondition_def)

lemma GetClusterCondition_update:
  "GetClusterCondition (UpdateStatusCondition t c ty s r m) ty' =
     (if ty' = ty
      then Some \<lparr>cc_Type = ty, cc_Status = s,
             cc_LastTransitionTime =
               (case GetClusterCondition c ty of
                  Some old \<Rightarrow> if cc_Status old = s then cc_LastTransitionTime old else t
                | None \<Rightarrow> t),
             cc_Reason = r, cc_Message = m\<rparr>
      else GetClusterCondition c ty')"
  by (simp add: GetClusterCondition_find UpdateStatusCondition_def cluster_conds.find_update
      cluster_conds.new_time_def mk_cluster_condition_def)

lemma UpdateStatusCondition_idem:
  "UpdateStatusCondition t' (UpdateStatusCondition t c ty s r m) ty s r m =
   UpdateStatusCondition t c ty s r m"
  by (simp add: UpdateStatusCondition_def cluster_conds.update_idem)

section \<open>Node status\<close>

lemma GetNodeStatusIndex_eq:
  "GetNodeStatusIndex c name =
     (case find_index (\<lambda>ns. ns_Name ns = name) (nodes_of c) of
        Some i \<Rightarrow> (c, i)
      | None \<Rightarrow> (set_nodes (nodes_of c @ [\<lparr>ns_Name = name, ns_Conditions = []\<rparr>]) c, length (nodes_of c)))"
proof (cases "find_index (\<lambda>ns. ns_Name ns = name) (nodes_of c)")
  case None
  then have "find_index (\<lambda>ns. ns_Name ns = name)
      (nodes_of (set_nodes (nodes_of c @ [\<lparr>ns_Name = name, ns_Conditions = []\<rparr>]) c)) = Some (length (nodes_of c))"
    by (simp add: find_index_append)
  with None show ?thesis by (simp add: GetNodeStatusIndex.simps [of c] GetNodeStatusIndex.simps)
next
  case (Some i)
  then show ?thesis by (simp add: GetNodeStatusIndex.simps [of c])
qed

text \<open>The node with a given name, as the code finds it, and its condition of a type.\<close>

definition node_named :: "mysql_cluster \<Rightarrow> string \<Rightarrow> node_status option" where
  "node_named c name = find (\<lambda>ns. ns_Name ns = name) (nodes_of c)"

definition node_cond :: "mysql_cluster \<Rightarrow> string \<Rightarrow> node_condition_type \<Rightarrow> node_condition option" where
  "node_cond c name ty =
     (case node_named c name of
        Some ns \<Rightarrow> find (\<lambda>cond. nc_Type cond = ty) (ns_Conditions ns)
      | None \<Rightarrow> None)"

lemma GetNodeCondition_eq: "snd (GetNodeCondition c name ty) = node_cond c name ty"
  by (auto simp: GetNodeCondition_def GetNodeStatusIndex_eq node_cond_def node_named_def
      GetNodeConditionIndex_def find_index_eq_find Let_def split: option.splits)

lemma GetNodeCondition_present:
  "name \<in> ns_Name ` set (nodes_of c) \<Longrightarrow> fst (GetNodeCondition c name ty) = c"
  by (auto simp: GetNodeCondition_def GetNodeStatusIndex_eq find_index_None Let_def split: option.splits)

lemma UpdateNodeConditionStatus_nodes:
  "fst (UpdateNodeConditionStatus t c name ty s) =
     (case find_index (\<lambda>ns. ns_Name ns = name) (nodes_of c) of
        Some i \<Rightarrow> set_nodes ((nodes_of c)[i := (nodes_of c ! i)
                    \<lparr>ns_Conditions := update_node_conditions t ty s () (ns_Conditions (nodes_of c ! i))\<rparr>]) c
      | None \<Rightarrow> set_nodes (nodes_of c @
                   [\<lparr>ns_Name = name, ns_Conditions = update_node_conditions t ty s () []\<rparr>]) c)"
  by (auto simp: UpdateNodeConditionStatus_def GetNodeStatusIndex_eq Let_def set_nodes_def
      case_prod_beta updateNodeCondition_eq split: option.splits)


lemma find_list_update_named:
  assumes "find_index (\<lambda>ns. ns_Name ns = name) nodes = Some i" and "ns_Name x = name"
  shows "find (\<lambda>ns. ns_Name ns = n) (nodes[i := x]) =
           (if n = name then Some x else find (\<lambda>ns. ns_Name ns = n) nodes)"
  using assms
proof (induction nodes arbitrary: i)
  case Nil
  then show ?case by simp
next
  case (Cons y ys)
  then show ?case by (cases "ns_Name y = name") auto
qed

lemma node_named_update:
  "node_named (fst (UpdateNodeConditionStatus t c name ty s)) n =
     (if n = name
      then Some \<lparr>ns_Name = name, ns_Conditions = update_node_conditions t ty s ()
             (case node_named c name of Some ns \<Rightarrow> ns_Conditions ns | None \<Rightarrow> [])\<rparr>
      else node_named c n)"
proof (cases "find_index (\<lambda>ns. ns_Name ns = name) (nodes_of c)")
  case None
  then have "node_named c name = None" by (simp add: node_named_def find_index_eq_find)
  with None show ?thesis
    by (auto simp: UpdateNodeConditionStatus_nodes node_named_def cluster_conds.find_append
        split: option.splits)
next
  case (Some i)
  then have nm: "ns_Name (nodes_of c ! i) = name" using find_index_Some by fastforce
  from Some have "node_named c name = Some (nodes_of c ! i)"
    by (simp add: node_named_def find_index_eq_find)
  with Some nm show ?thesis
    by (cases "nodes_of c ! i")
      (simp add: UpdateNodeConditionStatus_nodes node_named_def find_list_update_named)
qed

lemma node_cond_update:
  "node_cond (fst (UpdateNodeConditionStatus t c name ty s)) n ty' =
     (if n = name \<and> ty' = ty
      then Some \<lparr>nc_Type = ty, nc_Status = s,
             nc_LastTransitionTime =
               (case node_cond c name ty of
                  Some old \<Rightarrow> if nc_Status old = s then nc_LastTransitionTime old else t
                | None \<Rightarrow> t)\<rparr>
      else node_cond c n ty')"
  by (auto simp: node_cond_def node_named_update node_conds.find_update node_conds.new_time_def
      mk_node_condition_def split: option.splits)

lemma UpdateNodeConditionStatus_frame [simp]:
  "mc_Spec (fst (UpdateNodeConditionStatus t c n ty s)) = mc_Spec c"
  "mc_Name (fst (UpdateNodeConditionStatus t c n ty s)) = mc_Name c"
  "mc_Namespace (fst (UpdateNodeConditionStatus t c n ty s)) = mc_Namespace c"
  "mc_Annotations (fst (UpdateNodeConditionStatus t c n ty s)) = mc_Annotations c"
  "mc_Finalizers (fst (UpdateNodeConditionStatus t c n ty s)) = mc_Finalizers c"
  "mc_DeletionTimestamp (fst (UpdateNodeConditionStatus t c n ty s)) = mc_DeletionTimestamp c"
  "st_ReadyNodes (mc_Status (fst (UpdateNodeConditionStatus t c n ty s))) = st_ReadyNodes (mc_Status c)"
  "st_AppliedMysqlVersion (mc_Status (fst (UpdateNodeConditionStatus t c n ty s))) =
     st_AppliedMysqlVersion (mc_Status c)"
  "st_Conditions (mc_Status (fst (UpdateNodeConditionStatus t c n ty s))) = st_Conditions (mc_Status c)"
  by (simp_all add: UpdateNodeConditionStatus_nodes set_nodes_def split: option.splits)

lemma UpdateNodeConditionStatus_names:
  "map ns_Name (nodes_of (fst (UpdateNodeConditionStatus t c n ty s))) =
     (if n \<in> ns_Name ` set (nodes_of c) then map ns_Name (nodes_of c)
      else map ns_Name (nodes_of c) @ [n])"
proof (cases "find_index (\<lambda>ns. ns_Name ns = n) (nodes_of c)")
  case None
  then have "n \<notin> ns_Name ` set (nodes_of c)" by (auto simp: find_index_None)
  with None show ?thesis by (simp add: UpdateNodeConditionStatus_nodes)
next
  case (Some i)
  then have "i < length (nodes_of c)" "ns_Name (nodes_of c ! i) = n"
    using find_index_Some by fastforce+
  then have "n \<in> ns_Name ` set (nodes_of c)" by (auto intro: rev_image_eqI)
  moreover have "map ns_Name ((nodes_of c)[i := (nodes_of c ! i)\<lparr>ns_Conditions := x\<rparr>]) = map ns_Name (nodes_of c)" for x
    by (metis list_update_id map_update node_status.select_convs(1) node_status.surjective node_status.update_convs(2))
  ultimately show ?thesis
    using Some by (simp add: UpdateNodeConditionStatus_nodes)
qed

section \<open>The status invariant\<close>

text \<open>
  A status is well formed when it has at most one condition of each type and at most one entry
  per node, and each node has at most one condition of each type.
\<close>

definition status_wf :: "mysql_cluster \<Rightarrow> bool" where
  "status_wf c \<longleftrightarrow>
     distinct (map cc_Type (st_Conditions (mc_Status c))) \<and>
     distinct (map ns_Name (nodes_of c)) \<and>
     (\<forall>ns \<in> set (nodes_of c). distinct (map nc_Type (ns_Conditions ns)))"

lemma status_wf_UpdateStatusCondition:
  "status_wf c \<Longrightarrow> status_wf (UpdateStatusCondition t c ty s r m)"
  by (simp add: status_wf_def UpdateStatusCondition_def cluster_conds.distinct_update)

lemma status_wf_UpdateNodeConditionStatus:
  assumes "status_wf c"
  shows "status_wf (fst (UpdateNodeConditionStatus t c n ty s))"
proof -
  let ?c = "fst (UpdateNodeConditionStatus t c n ty s)"
  have "distinct (map ns_Name (nodes_of ?c))"
    using assms by (auto simp: UpdateNodeConditionStatus_names status_wf_def)
  moreover have "\<forall>ns \<in> set (nodes_of ?c). distinct (map nc_Type (ns_Conditions ns))"
  proof (cases "find_index (\<lambda>ns. ns_Name ns = n) (nodes_of c)")
    case None
    with assms node_conds.distinct_update [of "[]" t ty s "()"] show ?thesis
      by (auto simp: UpdateNodeConditionStatus_nodes status_wf_def)
  next
    case (Some i)
    then have "i < length (nodes_of c)" using find_index_Some by fastforce
    with assms have "distinct (map nc_Type (ns_Conditions (nodes_of c ! i)))"
      by (simp add: status_wf_def)
    with assms Some show ?thesis
      by (auto simp: UpdateNodeConditionStatus_nodes status_wf_def node_conds.distinct_update
          dest!: set_update_subset_insert [THEN subsetD])
  qed
  ultimately show ?thesis using assms by (simp add: status_wf_def)
qed

section \<open>The master host\<close>

definition is_master :: "mysql_cluster \<Rightarrow> string \<Rightarrow> bool" where
  "is_master c n = (case node_cond c n NodeConditionMaster of
      Some cond \<Rightarrow> nc_Status cond = ConditionTrue | None \<Rightarrow> False)"

lemma master_host_loop_eq:
  "set nss \<subseteq> set (nodes_of c) \<Longrightarrow>
   master_host_loop c nss h =
     (case rev (filter (is_master c) (map ns_Name nss)) of [] \<Rightarrow> h | n # _ \<Rightarrow> n)"
proof (induction nss arbitrary: h)
  case Nil
  then show ?case by simp
next
  case (Cons ns nss)
  then have "ns_Name ns \<in> ns_Name ` set (nodes_of c)" by auto
  then have "GetNodeCondition c (ns_Name ns) NodeConditionMaster = (c, node_cond c (ns_Name ns) NodeConditionMaster)"
    by (metis GetNodeCondition_eq GetNodeCondition_present prod.collapse)
  then have "master_host_loop c (ns # nss) h =
      master_host_loop c nss (if is_master c (ns_Name ns) then ns_Name ns else h)"
    by (simp add: is_master_def split: option.splits)
  with Cons show ?case by (auto split: list.splits)
qed

text \<open>
  After \<^verbatim>\<open>UpdateStatusCondition\<close> the cluster has the condition with the given status,
  reason and message; its transition time is the old one when the status did not change and the
  current time otherwise; the conditions of the other types are what they were; a second update
  with the same values changes nothing, at whatever time it runs.
\<close>

theorem cluster_condition_contract:
  "GetClusterCondition (UpdateStatusCondition t c ty s r m) ty' =
     (if ty' = ty
      then Some \<lparr>cc_Type = ty, cc_Status = s,
             cc_LastTransitionTime =
               (case GetClusterCondition c ty of
                  Some old \<Rightarrow> if cc_Status old = s then cc_LastTransitionTime old else t
                | None \<Rightarrow> t),
             cc_Reason = r, cc_Message = m\<rparr>
      else GetClusterCondition c ty') \<and>
   UpdateStatusCondition t' (UpdateStatusCondition t c ty s r m) ty s r m =
     UpdateStatusCondition t c ty s r m"
  using GetClusterCondition_update UpdateStatusCondition_idem by simp

text \<open>
  After \<^verbatim>\<open>UpdateNodeConditionStatus\<close> the named node has the condition with the given
  status (the node is added when it is missing), with the same rule for the transition time,
  and every other condition of every node reads as before; the call reports a change exactly
  when the node had no such condition or had it with another status.
\<close>

theorem node_condition_contract:
  "snd (GetNodeCondition (fst (UpdateNodeConditionStatus t c name ty s)) n ty') =
     (if n = name \<and> ty' = ty
      then Some \<lparr>nc_Type = ty, nc_Status = s,
             nc_LastTransitionTime =
               (case snd (GetNodeCondition c name ty) of
                  Some old \<Rightarrow> if nc_Status old = s then nc_LastTransitionTime old else t
                | None \<Rightarrow> t)\<rparr>
      else snd (GetNodeCondition c n ty')) \<and>
   (snd (UpdateNodeConditionStatus t c name ty s) \<longleftrightarrow>
      map_option nc_Status (snd (GetNodeCondition c name ty)) \<noteq> Some s)"
proof -
  have "snd (UpdateNodeConditionStatus t c name ty s) \<longleftrightarrow>
      map_option nc_Status (node_cond c name ty) \<noteq> Some s"
    by (auto simp: UpdateNodeConditionStatus_def GetNodeStatusIndex_eq updateNodeCondition_changed
        node_cond_def node_named_def find_index_eq_find case_prod_beta Let_def split: option.splits)
  then show ?thesis by (simp add: GetNodeCondition_eq node_cond_update)
qed

text \<open>
  The status invariant (one condition per type, one entry per node, one condition
  per type on each node) is kept by every operation that writes the status lists.
\<close>

theorem status_wf_preserved:
  assumes "status_wf c"
  shows "status_wf (UpdateStatusCondition t c ty s r m) \<and>
         status_wf (fst (UpdateNodeConditionStatus t c n nty s)) \<and>
         status_wf (fst (GetNodeStatusIndex c n)) \<and>
         status_wf (fst (GetNodeCondition c n nty))"
proof -
  have "status_wf (fst (GetNodeStatusIndex c n))"
    using assms by (auto simp: GetNodeStatusIndex_eq status_wf_def set_nodes_def find_index_None
        split: option.splits)
  moreover have "fst (GetNodeCondition c n nty) = fst (GetNodeStatusIndex c n)"
    by (simp add: GetNodeCondition_def case_prod_beta Let_def split: option.splits)
  ultimately show ?thesis
    using assms status_wf_UpdateStatusCondition status_wf_UpdateNodeConditionStatus by simp
qed

theorem status_wf_preserved_witness:
  "status_wf (UpdateStatusCondition 7 ref_cluster ClusterConditionReady ConditionTrue ''r'' ''m'') \<and>
   status_wf (fst (UpdateNodeConditionStatus 7 ref_cluster ''db-mysql-0'' NodeConditionMaster ConditionTrue))"
proof -
  have "status_wf ref_cluster" by (simp add: status_wf_def ref_defs)
  from status_wf_preserved [OF this, of 7 ClusterConditionReady ConditionTrue "''r''" "''m''"
      "''db-mysql-0''" NodeConditionMaster]
  show ?thesis by simp
qed

text \<open>
  \<^verbatim>\<open>GetNodeStatusIndex\<close> returns for every name: the index it gives is in range and
  is the first entry with that name, and the list only grows by the missing entry.
\<close>

theorem node_status_index_spec:
  "case GetNodeStatusIndex c name of
     (c', i) \<Rightarrow>
       i < length (nodes_of c') \<and> ns_Name (nodes_of c' ! i) = name \<and>
       name \<notin> set (map ns_Name (take i (nodes_of c'))) \<and>
       nodes_of c' = nodes_of c @
         (if name \<in> ns_Name ` set (nodes_of c) then [] else [\<lparr>ns_Name = name, ns_Conditions = []\<rparr>])"
proof (cases "find_index (\<lambda>ns. ns_Name ns = name) (nodes_of c)")
  case None
  then have "name \<notin> ns_Name ` set (nodes_of c)" by (auto simp: find_index_None)
  then show ?thesis using None by (simp add: GetNodeStatusIndex_eq nth_append)
next
  case (Some i)
  then have i: "i < length (nodes_of c)" "ns_Name (nodes_of c ! i) = name"
    using find_index_Some [OF Some] by auto
  then have "name \<in> ns_Name ` set (nodes_of c)" by (auto intro: rev_image_eqI)
  moreover have "name \<notin> set (map ns_Name (take i (nodes_of c)))"
    using find_index_take [OF Some] by auto
  ultimately show ?thesis using i Some by (simp add: GetNodeStatusIndex_eq)
qed

text \<open>
  The master host is the last node of the status whose Master condition is true,
  and the first pod of the stateful set when there is none.
\<close>

theorem master_host_spec:
  "GetMasterHost c =
     (case rev (filter (is_master c) (map ns_Name (nodes_of c))) of
        [] \<Rightarrow> GetPodHostname c 0
      | n # _ \<Rightarrow> n)"
  by (simp add: GetMasterHost_def master_host_loop_eq)

text \<open>
  Which specs \<^verbatim>\<open>Validate\<close> accepts: a secret name, a server image and a sidecar image
  are required, and nothing else. The check of the volume spec never rejects anything: its
  arguments are typed pointers, which are not equal to the nil interface even when they are nil,
  so a cluster with no volume at all is accepted.
\<close>

theorem validate_accepts:
  "(Validate e c = None \<longleftrightarrow>
     cs_SecretName (mc_Spec c) \<noteq> [] \<and> GetMysqlImage e c \<noteq> [] \<and> GetSidecarImage e c \<noteq> []) \<and>
   Validate e c \<noteq> Some NoVolumeSpec"
  by (auto simp: Validate_def DefaultValidate_def iface_of_pointer_def Let_def)

definition service_kinds :: "resource_name set" where
  "service_kinds = {MasterService, HealthyReplicasService, HealthyNodesService, OldHeadlessSVC}"

text \<open>
  The per-cluster services never collide: two services with the same name are the
  same kind of service of clusters with the same name.
\<close>

theorem service_names_injective:
  assumes "r \<in> service_kinds" and "r' \<in> service_kinds"
    and "GetNameForResource c r = GetNameForResource c' r'"
  shows "r = r' \<and> mc_Name c = mc_Name c'"
proof -
  from assms(3) have "rev (GetNameForResource c r) = rev (GetNameForResource c' r')" by simp
  with assms(1,2) show ?thesis by (auto simp: service_kinds_def GetNameForResource_def)
qed

theorem service_names_injective_witness:
  "GetNameForResource ref_cluster MasterService = GetNameForResource ref_cluster MasterService \<and>
   mc_Name ref_cluster = mc_Name ref_cluster"
  using service_names_injective [of MasterService MasterService ref_cluster ref_cluster]
  by (simp add: service_kinds_def)

end
