(* ===== verification/VersionUpgrade.thy ===== *)
theory VersionUpgrade
  imports Cluster
begin

text \<open>
  Package \<^verbatim>\<open>pkg/controller/mysqlcluster/internal/versionupgrade\<close>: the orchestration of a change of
  the MySQL server version. Which version the stateful set must run while a change is pending,
  when the change is held or blocked, which init steps the rollout needs, and when the version
  recorded in the status advances.

  The environment of the package is a parameter: \<open>get_secret\<close> answers the read of a secret
  from the API server (by name and namespace), \<open>query\<close> is the package variable
  \<^verbatim>\<open>queryMysqldVersion\<close>, the answer of one server to \<^verbatim>\<open>SELECT VERSION()\<close>.
\<close>

type_synonym secret_reader = "string \<Rightarrow> string \<Rightarrow> (string, str_map) result"
type_synonym version_query = "string \<Rightarrow> string \<Rightarrow> string \<Rightarrow> (string, string) result"

datatype hold_reason =
    NoReadyPods
  | CredentialsNotReady
  | QueryFailed string string
  | ParseFailed string string
  | PodsDisagree version version
  | DataPlaneVersionUnknown

datatype upgrade_error =
    HoldRolloutError hold_reason
  | UpgradeBlockedError upgrade_path_error
  | LoadSecretError string

fun IsHoldRollout :: "upgrade_error \<Rightarrow> bool" where
  "IsHoldRollout (HoldRolloutError r) = True"
| "IsHoldRollout _ = False"

fun IsUpgradeBlocked :: "upgrade_error \<Rightarrow> bool" where
  "IsUpgradeBlocked (UpgradeBlockedError r) = True"
| "IsUpgradeBlocked _ = False"

section \<open>Data on the cluster\<close>

definition HasPersistentDataVolume :: "mysql_cluster \<Rightarrow> bool" where
  "HasPersistentDataVolume c = (vs_PersistentVolumeClaim (cs_VolumeSpec (mc_Spec c)) \<noteq> None)"

definition ClusterHasMySQLData :: "mysql_cluster \<Rightarrow> bool" where
  "ClusterHasMySQLData c =
     (if \<not> HasPersistentDataVolume c then False else st_ReadyNodes (mc_Status c) > 0)"

definition MarkAppliedVersion :: "env \<Rightarrow> mysql_cluster \<Rightarrow> version \<Rightarrow> mysql_cluster" where
  "MarkAppliedVersion e c v =
     c\<lparr>mc_Status := (mc_Status c)\<lparr>st_AppliedMysqlVersion := version_String (e_blang e) v\<rparr>\<rparr>"

section \<open>Observation of the running version\<close>

definition podMysqlReady :: "pod \<Rightarrow> bool" where
  "podMysqlReady p =
     (if \<not> list_ex (\<lambda>c. ct_Name c = ''mysql'') (pod_Containers p) then False
      else list_ex (\<lambda>cond. pc_Type cond = ''Ready'' \<and> pc_Status cond = ConditionTrue) (pod_Conditions p))"

definition readyMysqlPods :: "pod list \<Rightarrow> pod list" where
  "readyMysqlPods pods = filter podMysqlReady pods"

definition mysqldHost :: "pod \<Rightarrow> string \<Rightarrow> string \<Rightarrow> string" where
  "mysqldHost p headlessSVC namespace =
     (if pod_Hostname p = [] then pod_Name p else pod_Hostname p) @ ''.'' @ headlessSVC @ ''.'' @ namespace"

definition operatorSQLCredentials ::
    "secret_reader \<Rightarrow> mysql_cluster \<Rightarrow> (upgrade_error, string \<times> string) result" where
  "operatorSQLCredentials get_secret c =
     (case get_secret (GetNameForResource c Secret) (mc_Namespace c) of
        Inl err \<Rightarrow> Inl (LoadSecretError err)
      | Inr data \<Rightarrow>
          let user = (case data ''OPERATOR_USER'' of Some u \<Rightarrow> u | None \<Rightarrow> []);
              password = (case data ''OPERATOR_PASSWORD'' of Some u \<Rightarrow> u | None \<Rightarrow> [])
          in if user = [] \<or> password = [] then Inl (HoldRolloutError CredentialsNotReady)
             else Inr (user, password))"

text \<open>The loop over the ready pods; \<open>observed\<close> is the version seen so far.\<close>

fun observe_loop ::
    "blang \<Rightarrow> (string \<Rightarrow> (string, string) result) \<Rightarrow> (pod \<Rightarrow> string) \<Rightarrow> pod list \<Rightarrow> version \<Rightarrow>
     (upgrade_error, version) result" where
  "observe_loop bl ask host [] observed = Inr observed"
| "observe_loop bl ask host (p # ps) observed =
     (case ask (host p) of
        Inl err \<Rightarrow> Inl (HoldRolloutError (QueryFailed (pod_Name p) err))
      | Inr raw \<Rightarrow>
          (case ParseServerVersion bl raw of
             Inl err \<Rightarrow> Inl (HoldRolloutError (ParseFailed raw (pod_Name p)))
           | Inr v \<Rightarrow>
               if IsZero bl observed then observe_loop bl ask host ps v
               else if \<not> EQ bl observed v then Inl (HoldRolloutError (PodsDisagree observed v))
               else observe_loop bl ask host ps observed))"

definition ObserveDataPlaneVersionSQL ::
    "env \<Rightarrow> secret_reader \<Rightarrow> version_query \<Rightarrow> mysql_cluster \<Rightarrow> pod list \<Rightarrow>
     (upgrade_error, version) result" where
  "ObserveDataPlaneVersionSQL e get_secret query c pods =
     (let ready = readyMysqlPods pods in
      if ready = [] then Inl (HoldRolloutError NoReadyPods)
      else (case operatorSQLCredentials get_secret c of
              Inl err \<Rightarrow> Inl err
            | Inr (user, password) \<Rightarrow>
                observe_loop (e_blang e) (query user password)
                  (\<lambda>p. mysqldHost p (GetNameForResource c HeadlessSVC) (mc_Namespace c)) ready Zero))"

section \<open>Backfill of the applied version\<close>

definition NeedsAppliedBackfill :: "env \<Rightarrow> mysql_cluster \<Rightarrow> bool" where
  "NeedsAppliedBackfill e c =
     (if \<not> IsZero (e_blang e) (AppliedDataPlaneVersion e c) then False else ClusterHasMySQLData c)"

text \<open>The cluster as it is left, and whether it was updated or the error.\<close>

definition BackfillAppliedVersion ::
    "env \<Rightarrow> secret_reader \<Rightarrow> version_query \<Rightarrow> mysql_cluster \<Rightarrow> pod list \<Rightarrow>
     mysql_cluster \<times> (upgrade_error, bool) result" where
  "BackfillAppliedVersion e get_secret query c pods =
     (if \<not> NeedsAppliedBackfill e c then (c, Inr False)
      else (case ObserveDataPlaneVersionSQL e get_secret query c pods of
              Inl err \<Rightarrow> (c, Inl err)
            | Inr observed \<Rightarrow> (MarkAppliedVersion e c observed, Inr True)))"

section \<open>Check of a pending change\<close>

definition EnsureChecked :: "env \<Rightarrow> mysql_cluster \<Rightarrow> upgrade_error option" where
  "EnsureChecked e c =
     (if \<not> VersionChangePending e (DesiredVersion e c) (AppliedDataPlaneVersion e c) (ClusterHasMySQLData c)
      then None
      else let source = SourceVersionForUpgrade e c in
        if IsZero (e_blang e) source
        then (if \<not> ClusterHasMySQLData c then None
              else Some (HoldRolloutError DataPlaneVersionUnknown))
        else (case ValidateUpgradePath e source (DesiredVersion e c) of
                Some err \<Rightarrow> Some (UpgradeBlockedError err)
              | None \<Rightarrow> None))"

section \<open>The version of the rollout\<close>

definition RolloutMySQLVersion ::
    "env \<Rightarrow> mysql_cluster \<Rightarrow> stateful_set option \<Rightarrow> pod list \<Rightarrow> version" where
  "RolloutMySQLVersion e c sts pods =
     (let bl = e_blang e; desired = DesiredVersion e c; applied = AppliedDataPlaneVersion e c in
      if \<not> IsZero bl applied \<and> GT bl applied desired then applied
      else if \<not> VersionChangePending e desired applied (ClusterHasMySQLData c) then desired
      else if IsZero bl applied \<and> ClusterHasMySQLData c \<and>
              \<not> IsZero bl (LaggingStatefulSetVersion e c sts)
           then LaggingStatefulSetVersion e c sts
      else if IsZero bl applied \<and> ClusterHasMySQLData c \<and> sts \<noteq> None \<and>
              \<not> IsZero bl (SemVerFromStatefulSet bl sts) \<and> \<not> EQ bl (SemVerFromStatefulSet bl sts) desired
           then SemVerFromStatefulSet bl sts
      else let source = SourceVersionForUpgrade e c in
        if \<not> IsZero bl source \<and> ValidateUpgradePath e source desired \<noteq> None then source
        else desired)"

section \<open>Completion of the rollout\<close>

definition rolloutCompleteOnVersion ::
    "env \<Rightarrow> mysql_cluster \<Rightarrow> stateful_set option \<Rightarrow> version \<Rightarrow> bool" where
  "rolloutCompleteOnVersion e c sts v =
     (case (sts, cs_Replicas (mc_Spec c)) of
        (Some s, Some replicas) \<Rightarrow>
          if replicas = 0 then False
          else if \<not> EQ (e_blang e) (SemVerFromStatefulSet (e_blang e) sts) v then False
          else sts_ReadyReplicas s \<ge> replicas
      | _ \<Rightarrow> False)"

fun initContainerSucceeded :: "container_status list \<Rightarrow> string \<Rightarrow> bool" where
  "initContainerSucceeded [] name = False"
| "initContainerSucceeded (s # ss) name =
     (if cst_Name s \<noteq> name then initContainerSucceeded ss name
      else (case cst_Terminated s of Some code \<Rightarrow> code = 0 | None \<Rightarrow> False))"

fun allInitContainersSucceeded :: "pod \<Rightarrow> container list \<Rightarrow> bool" where
  "allInitContainersSucceeded p [] = True"
| "allInitContainersSucceeded p (ic # ics) =
     (if \<not> initContainerSucceeded (pod_InitContainerStatuses p) (ct_Name ic) then False
      else allInitContainersSucceeded p ics)"

fun podHasTemplateInitContainers :: "pod \<Rightarrow> container list \<Rightarrow> bool" where
  "podHasTemplateInitContainers p [] = True"
| "podHasTemplateInitContainers p (want # wants) =
     (if list_ex (\<lambda>have. ct_Name have = ct_Name want) (pod_InitContainers p)
      then podHasTemplateInitContainers p wants else False)"

fun count_ready_inits :: "container list \<Rightarrow> pod list \<Rightarrow> int \<Rightarrow> int" where
  "count_ready_inits templateInits [] ready = ready"
| "count_ready_inits templateInits (p # ps) ready =
     (if \<not> podHasTemplateInitContainers p templateInits then count_ready_inits templateInits ps ready
      else if \<not> allInitContainersSucceeded p templateInits then count_ready_inits templateInits ps ready
      else count_ready_inits templateInits ps (to_int32 (ready + 1)))"

definition podTemplateInitContainersSucceeded :: "stateful_set \<Rightarrow> pod list \<Rightarrow> int \<Rightarrow> bool" where
  "podTemplateInitContainersSucceeded s pods replicas =
     (let templateInits = sts_InitContainers s in
      if templateInits = [] then to_int32 (int (length pods)) \<ge> replicas
      else count_ready_inits templateInits pods 0 \<ge> replicas)"

definition RolloutComplete :: "env \<Rightarrow> mysql_cluster \<Rightarrow> stateful_set option \<Rightarrow> pod list \<Rightarrow> bool" where
  "RolloutComplete e c sts pods =
     (case (sts, cs_Replicas (mc_Spec c)) of
        (Some s, Some replicas) \<Rightarrow>
          if replicas = 0 then False
          else if \<not> rolloutCompleteOnVersion e c sts (DesiredVersion e c) then False
          else podTemplateInitContainersSucceeded s pods replicas
      | _ \<Rightarrow> False)"

definition SyncAppliedVersion ::
    "env \<Rightarrow> secret_reader \<Rightarrow> version_query \<Rightarrow> mysql_cluster \<Rightarrow> stateful_set option \<Rightarrow> pod list \<Rightarrow>
     version option" where
  "SyncAppliedVersion e get_secret query c sts pods =
     (let desired = DesiredVersion e c; applied = AppliedDataPlaneVersion e c in
      if ProfilesMatch e applied desired \<and> \<not> LT (e_blang e) applied desired then None
      else if \<not> RolloutComplete e c sts pods then None
      else (case ObserveDataPlaneVersionSQL e get_secret query c pods of
              Inl err \<Rightarrow> None
            | Inr observed \<Rightarrow>
                if \<not> ProfilesMatch e observed desired then None else Some observed))"

section \<open>Steps of an upgrade\<close>

datatype phase = PhaseRolloutInit

datatype step_strategy = DatadirChownStrategy

definition StepDatadirChown :: string where
  "StepDatadirChown = ''datadir-chown''"

definition DatadirChownInitContainerName :: string where
  "DatadirChownInitContainerName = ''mysql-datadir-chown''"

record upgrade_step =
  us_ID :: string
  us_Phase :: phase
  us_Strategy :: "step_strategy option"
  us_Init :: "string option"

record upgrade_context =
  uc_Cluster :: mysql_cluster
  uc_Source :: version
  uc_Target :: version

definition newUpgradeContext :: "env \<Rightarrow> mysql_cluster \<Rightarrow> upgrade_context" where
  "newUpgradeContext e c =
     \<lparr>uc_Cluster = c, uc_Source = SourceVersionForUpgrade e c, uc_Target = DesiredVersion e c\<rparr>"

definition datadirChownStep :: upgrade_step where
  "datadirChownStep =
     \<lparr>us_ID = StepDatadirChown, us_Phase = PhaseRolloutInit, us_Strategy = Some DatadirChownStrategy,
      us_Init = Some DatadirChownInitContainerName\<rparr>"

definition builtinUpgradeSteps :: "upgrade_step list" where
  "builtinUpgradeSteps = [datadirChownStep]"

definition StepByID :: "string \<Rightarrow> upgrade_step option" where
  "StepByID sid = find (\<lambda>s. us_ID s = sid) builtinUpgradeSteps"

fun strategy_SourceVersion :: "step_strategy \<Rightarrow> upgrade_context \<Rightarrow> version" where
  "strategy_SourceVersion DatadirChownStrategy uctx = uc_Source uctx"

fun strategy_Applicable :: "env \<Rightarrow> step_strategy \<Rightarrow> upgrade_context \<Rightarrow> bool" where
  "strategy_Applicable e DatadirChownStrategy uctx =
     (let from = strategy_SourceVersion DatadirChownStrategy uctx in
      if IsZero (e_blang e) from \<or> EQ (e_blang e) from (uc_Target uctx) then False
      else if \<not> HasPersistentDataVolume (uc_Cluster uctx) then False
      else IsPerconaImage e (uc_Cluster uctx))"

definition upgradePathSteps :: "string \<times> string \<rightharpoonup> string list" where
  "upgradePathSteps =
     [(Name profilePercona80, Name profilePercona84) \<mapsto> [StepDatadirChown]]"

definition stepIDsOnPath :: "env \<Rightarrow> version \<Rightarrow> version \<Rightarrow> string list" where
  "stepIDsOnPath e from to =
     (let fromProfile = Name (ProfileFor e from); toProfile = Name (ProfileFor e to) in
      if fromProfile = toProfile then []
      else (case upgradePathSteps (fromProfile, toProfile) of Some ids \<Rightarrow> ids | None \<Rightarrow> []))"

definition sourceVersionForStep :: "upgrade_context \<Rightarrow> string \<Rightarrow> version" where
  "sourceVersionForStep uctx stepID =
     (case StepByID stepID of
        None \<Rightarrow> Zero
      | Some step \<Rightarrow> (case us_Strategy step of None \<Rightarrow> Zero | Some st \<Rightarrow> strategy_SourceVersion st uctx))"

definition stepScheduled :: "env \<Rightarrow> upgrade_context \<Rightarrow> string \<Rightarrow> bool" where
  "stepScheduled e uctx stepID =
     (let from = sourceVersionForStep uctx stepID in
      if IsZero (e_blang e) from then False
      else stepID \<in> set (stepIDsOnPath e from (uc_Target uctx)))"

definition stepApplicable :: "env \<Rightarrow> upgrade_context \<Rightarrow> string \<Rightarrow> bool" where
  "stepApplicable e uctx stepID =
     (case StepByID stepID of
        None \<Rightarrow> False
      | Some step \<Rightarrow> (case us_Strategy step of None \<Rightarrow> False | Some st \<Rightarrow> strategy_Applicable e st uctx))"

definition stepRequired :: "env \<Rightarrow> upgrade_context \<Rightarrow> string \<Rightarrow> bool" where
  "stepRequired e uctx stepID = (stepScheduled e uctx stepID \<and> stepApplicable e uctx stepID)"

definition RolloutInitStepRequired :: "env \<Rightarrow> upgrade_context \<Rightarrow> string \<Rightarrow> bool" where
  "RolloutInitStepRequired e uctx stepID =
     (case StepByID stepID of
        None \<Rightarrow> False
      | Some step \<Rightarrow> if us_Init step = None \<or> \<not> stepRequired e uctx stepID then False else True)"

definition NeedsRolloutInit :: "env \<Rightarrow> mysql_cluster \<Rightarrow> string \<Rightarrow> bool" where
  "NeedsRolloutInit e c stepID = RolloutInitStepRequired e (newUpgradeContext e c) stepID"

definition NeedsDatadirChownInit :: "env \<Rightarrow> mysql_cluster \<Rightarrow> bool" where
  "NeedsDatadirChownInit e c = NeedsRolloutInit e c StepDatadirChown"

section \<open>Lemmas\<close>

lemma VersionChangePending_applied:
  assumes "env_ok e" and "applied \<noteq> Zero"
  shows "VersionChangePending e desired applied hasData \<longleftrightarrow>
    ProfileFor e applied \<noteq> ProfileFor e desired \<or> v_less applied desired"
  using assms by (auto simp: VersionChangePending_def)

lemma RolloutMySQLVersion_applied:
  assumes "env_ok e" and "AppliedDataPlaneVersion e c \<noteq> Zero"
  shows "RolloutMySQLVersion e c sts pods =
    (if ValidateUpgradePath e (AppliedDataPlaneVersion e c) (DesiredVersion e c) = None
     then DesiredVersion e c else AppliedDataPlaneVersion e c)"
proof -
  let ?a = "AppliedDataPlaneVersion e c" and ?d = "DesiredVersion e c"
  consider (down) "v_less ?d ?a" "\<not> v_less ?a ?d" | (same) "?a = ?d" | (up) "v_less ?a ?d" "\<not> v_less ?d ?a"
    using v_less_linear [of ?a ?d] v_less_asym by blast
  then show ?thesis
  proof cases
    case down
    then obtain why where "ValidateUpgradePath e ?a ?d = Some why"
      using assms ValidateUpgradePath_iff [of e ?a ?d] by fastforce
    with down show ?thesis using assms by (simp add: RolloutMySQLVersion_def Let_def)
  next
    case same
    then show ?thesis using assms
      by (simp add: RolloutMySQLVersion_def VersionChangePending_applied Let_def)
  next
    case up
    then show ?thesis using assms
      by (simp add: RolloutMySQLVersion_def VersionChangePending_applied SourceVersionForUpgrade_def Let_def)
  qed
qed

lemma observe_loop_sound:
  assumes "blang_ok bl" and "observe_loop bl ask host ps observed = Inr v"
  shows "(observed = Zero \<or> observed = v) \<and>
    (\<forall>p \<in> set ps. \<exists>raw w. ask (host p) = Inr raw \<and> ParseServerVersion bl raw = Inr w \<and> (w = v \<or> w = Zero))"
  using assms(2)
proof (induction ps arbitrary: observed)
  case Nil
  then show ?case by simp
next
  case (Cons p ps)
  from Cons.prems assms(1) obtain raw w where rw: "ask (host p) = Inr raw" "ParseServerVersion bl raw = Inr w"
    and cont: "observe_loop bl ask host ps (if observed = Zero then w else observed) = Inr v"
    and eq: "observed \<noteq> Zero \<Longrightarrow> observed = w"
    by (auto split: sum.splits if_splits)
  from Cons.IH [OF cont] rw eq show ?case by (cases "observed = Zero") auto
qed

lemma observe_loop_seen:
  assumes "blang_ok bl" and "observe_loop bl ask host ps observed = Inr v"
  shows "v = observed \<or> (\<exists>p \<in> set ps. \<exists>raw. ask (host p) = Inr raw \<and> ParseServerVersion bl raw = Inr v)"
  using assms(2)
proof (induction ps arbitrary: observed)
  case Nil
  then show ?case by simp
next
  case (Cons p ps)
  then show ?case using assms(1) by (fastforce split: sum.splits if_splits)
qed

lemma Observe_sound:
  assumes "env_ok e" and "ObserveDataPlaneVersionSQL e get_secret query c pods = Inr v"
  shows "readyMysqlPods pods \<noteq> [] \<and>
    (\<exists>user password. operatorSQLCredentials get_secret c = Inr (user, password) \<and>
      (\<forall>p \<in> set (readyMysqlPods pods).
        \<exists>raw w. query user password (mysqldHost p (GetNameForResource c HeadlessSVC) (mc_Namespace c)) = Inr raw \<and>
              ParseServerVersion (e_blang e) raw = Inr w \<and> (w = v \<or> w = Zero)))"
  using assms observe_loop_sound [OF env_ok_blang [OF assms(1)]]
  by (fastforce simp: ObserveDataPlaneVersionSQL_def Let_def split: if_splits sum.splits)

lemma Observe_seen:
  assumes "env_ok e" and "ObserveDataPlaneVersionSQL e get_secret query c pods = Inr v"
  shows "v = Zero \<or> (\<exists>p \<in> set (readyMysqlPods pods). \<exists>user password raw.
    query user password (mysqldHost p (GetNameForResource c HeadlessSVC) (mc_Namespace c)) = Inr raw \<and>
    ParseServerVersion (e_blang e) raw = Inr v)"
  using assms observe_loop_seen [OF env_ok_blang [OF assms(1)]]
  by (fastforce simp: ObserveDataPlaneVersionSQL_def Let_def split: if_splits sum.splits)

lemma Applied_Mark [simp]:
  "env_ok e \<Longrightarrow> AppliedDataPlaneVersion e (MarkAppliedVersion e c v) = v"
  by (simp add: AppliedDataPlaneVersion_def AppliedVersionOf_def MarkAppliedVersion_def)

lemma Mark_sel [simp]:
  "mc_Spec (MarkAppliedVersion e c v) = mc_Spec c"
  "st_Conditions (mc_Status (MarkAppliedVersion e c v)) = st_Conditions (mc_Status c)"
  "st_Nodes (mc_Status (MarkAppliedVersion e c v)) = st_Nodes (mc_Status c)"
  by (simp_all add: MarkAppliedVersion_def)

lemma StepByID_chown [simp]: "StepByID StepDatadirChown = Some datadirChownStep"
  by (simp add: StepByID_def builtinUpgradeSteps_def datadirChownStep_def)

section \<open>Runs of an upgrade\<close>

text \<open>
  The cluster and its stateful set over time. The user edits the spec, pods become ready or
  not, the controller writes the pod template at the version \<^verbatim>\<open>RolloutMySQLVersion\<close> gives, and it
  records the applied version after a complete rollout or by the backfill. The backfill is taken
  while the ready servers run the profile of the template.
\<close>

definition pods_run_template ::
    "env \<Rightarrow> version_query \<Rightarrow> mysql_cluster \<Rightarrow> stateful_set \<Rightarrow> pod list \<Rightarrow> bool" where
  "pods_run_template e query c s pods \<longleftrightarrow>
     (\<forall>p \<in> set (readyMysqlPods pods). \<forall>user password raw v.
        query user password (mysqldHost p (GetNameForResource c HeadlessSVC) (mc_Namespace c)) = Inr raw \<longrightarrow>
        ParseServerVersion (e_blang e) raw = Inr v \<longrightarrow>
        ProfilesMatch e v (SemVerFromStatefulSet (e_blang e) (Some s)))"

inductive upgrade_trans ::
    "env \<Rightarrow> mysql_cluster \<times> stateful_set \<Rightarrow> mysql_cluster \<times> stateful_set \<Rightarrow> bool"
  for e :: env where
  edit_spec: "upgrade_trans e (c, s) (c\<lparr>mc_Spec := spec\<rparr>, s)"
| ready_nodes: "upgrade_trans e (c, s) (c\<lparr>mc_Status := (mc_Status c)\<lparr>st_ReadyNodes := n\<rparr>\<rparr>, s)"
| sync_template: "SemVerFromStatefulSet (e_blang e) (Some s') = RolloutMySQLVersion e c (Some s) pods \<Longrightarrow>
    upgrade_trans e (c, s) (c, s')"
| advance: "SyncAppliedVersion e get_secret query c (Some s) pods = Some v \<Longrightarrow>
    upgrade_trans e (c, s) (MarkAppliedVersion e c v, s)"
| backfill: "BackfillAppliedVersion e get_secret query c pods = (c', Inr True) \<Longrightarrow>
    pods_run_template e query c s pods \<Longrightarrow> upgrade_trans e (c, s) (c', s)"

text \<open>\<open>w\<close> is on the LTS line of \<open>v\<close> or on the next one, when \<open>v\<close> is on a supported line.\<close>

definition same_or_next_line :: "env \<Rightarrow> version \<Rightarrow> version \<Rightarrow> bool" where
  "same_or_next_line e v w \<longleftrightarrow> ProfileFor e v = profileFallback \<or>
     ProfileFor e v \<le> ProfileFor e w \<and> profile_rank (ProfileFor e w) \<le> profile_rank (ProfileFor e v) + 1"

lemma same_or_next_line_refl: "ProfileFor e v = ProfileFor e w \<Longrightarrow> same_or_next_line e v w"
  by (simp add: same_or_next_line_def)

lemma ValidateUpgradePath_line:
  assumes "env_ok e" and "ValidateUpgradePath e v w = None"
  shows "same_or_next_line e v w"
proof (cases "v = w")
  case True
  then show ?thesis by (simp add: same_or_next_line_refl)
next
  case False
  with assms have le: "v_less v w" "profile_rank (ProfileFor e w) \<le> profile_rank (ProfileFor e v) + 1"
    by (auto simp: ValidateUpgradePath_iff)
  then have "Major v \<le> Major w" "AtLeastMySQL84 v \<Longrightarrow> AtLeastMySQL84 w"
    using v_less_major v_less_trans by (auto simp: AtLeastMySQL84_order dest: v_less_asym)
  with le show ?thesis
    by (auto simp: same_or_next_line_def less_eq_mysql_profile_def ProfileFor_eq [OF assms(1)] AtLeastMySQL8_def
        word_le_nat_alt split: if_splits)
qed

definition upgrade_inv :: "env \<Rightarrow> mysql_cluster \<times> stateful_set \<Rightarrow> bool" where
  "upgrade_inv e st \<longleftrightarrow> (case st of (c, s) \<Rightarrow>
     AppliedDataPlaneVersion e c = Zero \<or>
     same_or_next_line e (AppliedDataPlaneVersion e c) (SemVerFromStatefulSet (e_blang e) (Some s)))"

lemma SyncApplied_template:
  assumes "env_ok e" and "SyncAppliedVersion e gs q c (Some s) pods = Some v"
  shows "ProfileFor e v = ProfileFor e (SemVerFromStatefulSet (e_blang e) (Some s))"
  using assms
  by (auto simp: SyncAppliedVersion_def RolloutComplete_def rolloutCompleteOnVersion_def Let_def
      split: if_splits option.splits sum.splits)

lemma Backfill_template:
  assumes "env_ok e" and "BackfillAppliedVersion e gs q c pods = (c', Inr True)"
    and "pods_run_template e q c s pods"
  shows "AppliedDataPlaneVersion e c = Zero \<and>
    (AppliedDataPlaneVersion e c' = Zero \<or>
     ProfileFor e (AppliedDataPlaneVersion e c') = ProfileFor e (SemVerFromStatefulSet (e_blang e) (Some s)))"
proof -
  from assms obtain v where v: "ObserveDataPlaneVersionSQL e gs q c pods = Inr v"
    "c' = MarkAppliedVersion e c v" "AppliedDataPlaneVersion e c = Zero"
    by (auto simp: BackfillAppliedVersion_def NeedsAppliedBackfill_def split: if_splits sum.splits)
  have "v = Zero \<or> ProfileFor e v = ProfileFor e (SemVerFromStatefulSet (e_blang e) (Some s))"
    using Observe_seen [OF assms(1) v(1)] assms(3) by (fastforce simp: pods_run_template_def)
  with v assms(1) show ?thesis by simp
qed

lemma upgrade_inv_step:
  assumes "env_ok e" and "upgrade_trans e (c, s) (c', s')" and "upgrade_inv e (c, s)"
  shows "upgrade_inv e (c', s')"
  using assms(2)
proof (cases rule: upgrade_trans.cases)
  case (sync_template pods)
  show ?thesis
  proof (cases "AppliedDataPlaneVersion e c = Zero")
    case False
    with assms(1) sync_template ValidateUpgradePath_line [OF assms(1)] show ?thesis
      by (auto simp: upgrade_inv_def RolloutMySQLVersion_applied same_or_next_line_refl split: if_splits)
  qed (simp add: upgrade_inv_def sync_template)
next
  case (advance get_secret query pods v)
  with assms(1) show ?thesis by (simp add: upgrade_inv_def SyncApplied_template same_or_next_line_refl)
next
  case (backfill get_secret query pods)
  from Backfill_template [OF assms(1) backfill(2,3)] backfill(1) show ?thesis
    by (auto simp: upgrade_inv_def intro: same_or_next_line_refl)
qed (use assms(3) in \<open>auto simp: upgrade_inv_def AppliedDataPlaneVersion_def\<close>)


lemma upgrade_inv_reachable:
  assumes "env_ok e" and "(upgrade_trans e)\<^sup>*\<^sup>* st st'" and "upgrade_inv e st"
  shows "upgrade_inv e st'"
  using assms(2,3)
proof (induction rule: rtranclp_induct)
  case (step y z)
  then show ?case using upgrade_inv_step [OF assms(1)] by (cases y; cases z) blast
qed

lemma applied_step_line:
  assumes "env_ok e" and "upgrade_trans e (c, s) (c', s')" and "upgrade_inv e (c, s)"
    and "AppliedDataPlaneVersion e c \<noteq> Zero"
  shows "same_or_next_line e (AppliedDataPlaneVersion e c) (AppliedDataPlaneVersion e c')"
  using assms(2)
proof (cases rule: upgrade_trans.cases)
  case (advance get_secret query pods v)
  with assms show ?thesis
    by (simp add: upgrade_inv_def same_or_next_line_def SyncApplied_template)
next
  case (backfill get_secret query pods)
  with Backfill_template [OF assms(1)] assms(4) show ?thesis by blast
qed (auto simp: AppliedDataPlaneVersion_def same_or_next_line_refl)

lemma count_ready_inits_eq:
  "r + int (length ps) < 2^31 \<Longrightarrow> 0 \<le> r \<Longrightarrow> count_ready_inits ts ps r =
    r + int (length (filter (\<lambda>p. podHasTemplateInitContainers p ts \<and> allInitContainersSucceeded p ts) ps))"
  by (induction ts ps r rule: count_ready_inits.induct) (auto simp: to_int32_id)

section \<open>A concrete cluster\<close>

definition ref_at :: "version \<Rightarrow> version \<Rightarrow> mysql_cluster" where
  "ref_at applied desired =
     ref_cluster\<lparr>mc_Spec := ref_spec\<lparr>cs_MysqlVersion := dotted desired\<rparr>,
       mc_Status := (mc_Status ref_cluster)\<lparr>st_AppliedMysqlVersion := dotted applied, st_ReadyNodes := 3\<rparr>\<rparr>"

definition ref_sts :: "version \<Rightarrow> stateful_set" where
  "ref_sts v =
     \<lparr>sts_Containers = [(bare_container ''mysql'')\<lparr>ct_Image := ''percona'',
         ct_Env := Some [\<lparr>ev_Name = MySQLVersionEnv, ev_Value = dotted v, ev_ValueFrom = None\<rparr>]\<rparr>],
      sts_InitContainers = [], sts_ReadyReplicas = 3, sts_Replicas = Some 3\<rparr>"

definition ref_pod :: "string \<Rightarrow> pod" where
  "ref_pod name =
     \<lparr>pod_Name = name, pod_Namespace = ''ns'', pod_Labels = Map.empty, pod_Hostname = name,
      pod_Containers = [(bare_container ''mysql'')\<lparr>ct_Image := ''percona''\<rparr>],
      pod_InitContainers = [], pod_Phase = ''Running'',
      pod_Conditions = [\<lparr>pc_Type = ''Ready'', pc_Status = ConditionTrue, pc_LastTransitionTime = 0,
         pc_Reason = [], pc_Message = []\<rparr>],
      pod_InitContainerStatuses = []\<rparr>"

definition ref_secret :: secret_reader where
  "ref_secret name ns = Inr [''OPERATOR_USER'' \<mapsto> ''op'', ''OPERATOR_PASSWORD'' \<mapsto> ''pw'']"

definition ref_query :: "version \<Rightarrow> version_query" where
  "ref_query v user password host = Inr (dotted v)"

lemma ref_env_blang [simp]: "e_blang ref_env = ref_blang" "blang_ok ref_blang" "env_ok ref_env"
  by (simp_all add: ref_env_ok ref_blang_ok) (simp add: ref_env_def)

lemma ref_at_versions [simp]:
  "AppliedDataPlaneVersion ref_env (ref_at a d) = a" "DesiredVersion ref_env (ref_at a d) = d"
  using tag_not_short [of d "[]"] blang_Make [of ref_blang "dotted d" d]
  by (simp_all add: AppliedDataPlaneVersion_def AppliedVersionOf_def DesiredVersion_def DesiredVersionOf_def
      ref_at_def Let_def)

definition ref_at_image :: "version \<Rightarrow> version \<Rightarrow> string \<Rightarrow> mysql_cluster" where
  "ref_at_image a d img =
     (ref_at a d)\<lparr>mc_Spec := (mc_Spec (ref_at a d))\<lparr>cs_Image := img\<rparr>\<rparr>"

lemma ServerImage_spec:
  "env_ok e \<Longrightarrow> cs_Image spec \<noteq> [] \<Longrightarrow> ServerImage e (e_options e) v (Some spec) = Inr (cs_Image spec)"
  by (auto simp: ServerImage_def env_ok_def ResolverServerImage_def split: option.splits)

lemma ref_at_image_sel [simp]:
  "AppliedDataPlaneVersion ref_env (ref_at_image a d img) = a"
  "DesiredVersion ref_env (ref_at_image a d img) = d"
  using ref_at_versions [of a d]
  by (simp_all add: ref_at_image_def AppliedDataPlaneVersion_def DesiredVersion_def)

lemma ref_at_image_volume [simp]: "HasPersistentDataVolume (ref_at_image a d img)"
  by (simp add: ref_at_image_def HasPersistentDataVolume_def ref_at_def ref_defs)

lemma ref_at_image_percona [simp]: "IsPerconaImage ref_env (ref_at_image a d (''percona'' @ tag))"
  using contains_append [of "[]" "''percona''" tag]
  by (simp add: IsPerconaImage_def GetMysqlImage_def ServerImage_spec ref_at_image_def)

lemma ref_at_data [simp]: "ClusterHasMySQLData (ref_at a d)"
  by (simp add: ref_at_def ClusterHasMySQLData_def HasPersistentDataVolume_def ref_defs)

lemma ref_sts_version [simp]: "SemVerFromStatefulSet ref_blang (Some (ref_sts v)) = v"
  by (simp add: ref_sts_def SemVerFromStatefulSet_def semVerFromMysqlContainer_def)

lemma ref_sel [simp]:
  "cs_Replicas (mc_Spec (ref_at a d)) = Some 3"
  "sts_ReadyReplicas (ref_sts v) = 3" "sts_InitContainers (ref_sts v) = []"
  by (simp_all add: ref_at_def ref_sts_def ref_spec_def)

lemma ref_ready [simp]: "readyMysqlPods (map ref_pod ns) = map ref_pod ns"
  by (simp add: readyMysqlPods_def podMysqlReady_def ref_pod_def filter_id_conv)

lemma ref_parse [simp]: "ParseServerVersion ref_blang (dotted v) = Inr v"
proof -
  have "trim_space (dotted v) = dotted v" using trim_space_padded [of "[]" "[]" "dotted v"] by simp
  then show ?thesis by (simp add: ParseServerVersion_def)
qed

lemma ref_observe_loop [simp]:
  "observe_loop ref_blang (ref_query v user password) host ps v = Inr v"
  by (induction ps) (auto simp: ref_query_def)

lemma ref_observe_first:
  "ps \<noteq> [] \<Longrightarrow> observe_loop ref_blang (ref_query v user password) host ps Zero = Inr v"
  by (cases ps) (simp_all, simp add: ref_query_def [of v user password "host _"])

lemma ref_observe [simp]:
  "ns \<noteq> [] \<Longrightarrow> ObserveDataPlaneVersionSQL ref_env ref_secret (ref_query v) c (map ref_pod ns) = Inr v"
  by (simp add: ObserveDataPlaneVersionSQL_def operatorSQLCredentials_def ref_secret_def ref_observe_first Let_def)

section \<open>Properties\<close>

text \<open>
  Property C2. With a recorded version, the version the stateful set is given is always an
  accepted upgrade of the recorded one (one LTS line at most, never down), whatever the spec asks
  for, and it leaves the recorded version only for the desired one.
\<close>

theorem rollout_version_safe:
  assumes "env_ok e" and "AppliedDataPlaneVersion e c \<noteq> Zero"
  shows "ValidateUpgradePath e (AppliedDataPlaneVersion e c) (RolloutMySQLVersion e c sts pods) = None \<and>
         (RolloutMySQLVersion e c sts pods \<noteq> AppliedDataPlaneVersion e c \<longrightarrow>
            RolloutMySQLVersion e c sts pods = DesiredVersion e c)"
  using assms by (auto simp: RolloutMySQLVersion_applied ValidateUpgradePath_iff)

theorem rollout_version_safe_witness:
  "RolloutMySQLVersion ref_env (ref_at (ver 5 7 35) (ver 8 0 20)) None [] = ver 8 0 20 \<and>
   ValidateUpgradePath ref_env (ver 5 7 35) (ver 8 0 20) = None"
proof -
  have "RolloutMySQLVersion ref_env (ref_at (ver 5 7 35) (ver 8 0 20)) None [] = ver 8 0 20"
    by (simp add: RolloutMySQLVersion_applied Zero_def ValidateUpgradePath_iff ProfileFor_eq
        AtLeastMySQL84_def AtLeastMySQL8_def v_less_def vkey_def)
  with rollout_version_safe [of ref_env "ref_at (ver 5 7 35) (ver 8 0 20)" None "[]"] show ?thesis
    by (simp add: Zero_def)
qed


lemma ref_path_blocked:
  obtains why where "ValidateUpgradePath ref_env (ver 5 7 35) (ver 8 4 8) = Some why"
    "EnsureChecked ref_env (ref_at (ver 5 7 35) (ver 8 4 8)) = Some (UpgradeBlockedError why)"
proof -
  obtain why where "ValidateUpgradePath ref_env (ver 5 7 35) (ver 8 4 8) = Some why"
    using ValidateUpgradePath_iff [of ref_env "ver 5 7 35" "ver 8 4 8"]
    by (fastforce simp: ProfileFor_eq AtLeastMySQL84_def AtLeastMySQL8_def)
  moreover from this have "EnsureChecked ref_env (ref_at (ver 5 7 35) (ver 8 4 8)) = Some (UpgradeBlockedError why)"
    by (simp add: EnsureChecked_def VersionChangePending_applied SourceVersionForUpgrade_def Zero_def
        v_less_def vkey_def)
  ultimately show ?thesis using that by blast
qed

text \<open>
  When the check of a pending change reports that the upgrade is blocked, the
  reason is the one the upgrade rule gives, and the stateful set is held at the recorded version.
\<close>

theorem blocked_upgrade_is_held:
  assumes "env_ok e" and "EnsureChecked e c = Some err" and "IsUpgradeBlocked err"
  shows "RolloutMySQLVersion e c sts pods = AppliedDataPlaneVersion e c \<and>
         AppliedDataPlaneVersion e c \<noteq> Zero \<and>
         (\<exists>why. ValidateUpgradePath e (AppliedDataPlaneVersion e c) (DesiredVersion e c) = Some why \<and>
                err = UpgradeBlockedError why)"
proof -
  let ?a = "AppliedDataPlaneVersion e c"
  from assms have nz: "?a \<noteq> Zero"
    and ex: "\<exists>why. ValidateUpgradePath e ?a (DesiredVersion e c) = Some why \<and> err = UpgradeBlockedError why"
    by (auto simp: EnsureChecked_def SourceVersionForUpgrade_def Let_def split: if_splits option.splits)
  then show ?thesis using assms(1) by (auto simp: RolloutMySQLVersion_applied)
qed

theorem blocked_upgrade_is_held_witness:
  "RolloutMySQLVersion ref_env (ref_at (ver 5 7 35) (ver 8 4 8)) None [] = ver 5 7 35"
proof (rule ref_path_blocked)
  fix why assume "EnsureChecked ref_env (ref_at (ver 5 7 35) (ver 8 4 8)) = Some (UpgradeBlockedError why)"
  from blocked_upgrade_is_held [OF _ this, of None "[]"] show ?thesis by simp
qed


text \<open>
  While the cluster has data but no recorded version, the stateful set keeps the
  version of its own template and the controller is told to wait.
\<close>

theorem unknown_data_plane_is_held:
  assumes "env_ok e" and "AppliedDataPlaneVersion e c = Zero" and "ClusterHasMySQLData c"
    and "SemVerFromStatefulSet (e_blang e) (Some s) \<noteq> Zero"
  shows "RolloutMySQLVersion e c (Some s) pods = SemVerFromStatefulSet (e_blang e) (Some s) \<and>
         EnsureChecked e c = Some (HoldRolloutError DataPlaneVersionUnknown)"
  using assms
  by (auto simp: RolloutMySQLVersion_def EnsureChecked_def VersionChangePending_def
      LaggingStatefulSetVersion_def SourceVersionForUpgrade_def Let_def)

theorem unknown_data_plane_is_held_witness:
  "RolloutMySQLVersion ref_env (ref_at Zero (ver 8 4 8)) (Some (ref_sts (ver 5 7 35))) [] = ver 5 7 35 \<and>
   EnsureChecked ref_env (ref_at Zero (ver 8 4 8)) = Some (HoldRolloutError DataPlaneVersionUnknown)"
  using unknown_data_plane_is_held [of ref_env "ref_at Zero (ver 8 4 8)" "ref_sts (ver 5 7 35)" "[]"]
  by (simp add: Zero_def)


text \<open>
  A downgrade within one LTS line is rejected by the upgrade rule and the
  stateful set is held, but the check of the pending change reports nothing, so the condition
  \<^verbatim>\<open>UpgradeBlocked\<close> is not set for it.
\<close>

theorem same_line_downgrade_not_reported:
  assumes "env_ok e" and "AppliedDataPlaneVersion e c \<noteq> Zero"
    and "ProfilesMatch e (AppliedDataPlaneVersion e c) (DesiredVersion e c)"
    and "v_less (DesiredVersion e c) (AppliedDataPlaneVersion e c)"
  shows "ValidateUpgradePath e (AppliedDataPlaneVersion e c) (DesiredVersion e c) =
           Some (DowngradeUnsupported (AppliedDataPlaneVersion e c) (DesiredVersion e c)) \<and>
         EnsureChecked e c = None \<and>
         RolloutMySQLVersion e c sts pods = AppliedDataPlaneVersion e c"
  using assms v_less_asym [OF assms(4)]
  by (simp add: EnsureChecked_def VersionChangePending_applied RolloutMySQLVersion_applied ValidateUpgradePath_def)

theorem same_line_downgrade_not_reported_witness:
  "EnsureChecked ref_env (ref_at (ver 8 4 8) (ver 8 4 3)) = None \<and>
   RolloutMySQLVersion ref_env (ref_at (ver 8 4 8) (ver 8 4 3)) None [] = ver 8 4 8"
  using same_line_downgrade_not_reported [of ref_env "ref_at (ver 8 4 8) (ver 8 4 3)" None "[]"]
  by (simp add: Zero_def ProfileFor_eq AtLeastMySQL84_def v_less_def vkey_def)


text \<open>
  Property C5. The recorded version advances only after the whole rollout: the template is at
  the desired version, at least the wanted number of replicas is ready, the init containers of
  the template have succeeded, at least one ready server answered, and every ready server
  answered with the version that is recorded (an answer \<^verbatim>\<open>0.0.0\<close> is skipped), of the desired line.
\<close>

theorem sync_applied_sound:
  assumes "env_ok e" and "SyncAppliedVersion e get_secret query c sts pods = Some v"
  shows "\<exists>s replicas. sts = Some s \<and> cs_Replicas (mc_Spec c) = Some replicas \<and> replicas \<noteq> 0 \<and>
      sts_ReadyReplicas s \<ge> replicas \<and> SemVerFromStatefulSet (e_blang e) sts = DesiredVersion e c \<and>
      podTemplateInitContainersSucceeded s pods replicas \<and>
      ProfilesMatch e v (DesiredVersion e c) \<and>
      readyMysqlPods pods \<noteq> [] \<and>
      (\<forall>p \<in> set (readyMysqlPods pods). \<exists>user password raw w.
         query user password (mysqldHost p (GetNameForResource c HeadlessSVC) (mc_Namespace c)) = Inr raw \<and>
         ParseServerVersion (e_blang e) raw = Inr w \<and> (w = v \<or> w = Zero))"
proof -
  from assms obtain s replicas where "sts = Some s" "cs_Replicas (mc_Spec c) = Some replicas" "replicas \<noteq> 0"
      "sts_ReadyReplicas s \<ge> replicas" "SemVerFromStatefulSet (e_blang e) sts = DesiredVersion e c"
      "podTemplateInitContainersSucceeded s pods replicas" "ProfilesMatch e v (DesiredVersion e c)"
      and obs: "ObserveDataPlaneVersionSQL e get_secret query c pods = Inr v"
    by (auto simp: SyncAppliedVersion_def RolloutComplete_def rolloutCompleteOnVersion_def Let_def
        split: if_splits option.splits sum.splits)
  with Observe_sound [OF assms(1) obs] show ?thesis by fastforce
qed

theorem sync_applied_sound_witness:
  "ProfilesMatch ref_env (ver 8 4 8) (DesiredVersion ref_env (ref_at (ver 8 0 20) (ver 8 4 8)))"
proof -
  have "SyncAppliedVersion ref_env ref_secret (ref_query (ver 8 4 8)) (ref_at (ver 8 0 20) (ver 8 4 8))
          (Some (ref_sts (ver 8 4 8))) (map ref_pod [''a'', ''b'', ''c'']) = Some (ver 8 4 8)"
    by (simp add: SyncAppliedVersion_def RolloutComplete_def rolloutCompleteOnVersion_def Let_def
        podTemplateInitContainersSucceeded_def to_int32_def ProfileFor_eq AtLeastMySQL84_def
        AtLeastMySQL8_def del: list.map)
  from sync_applied_sound [OF _ this] show ?thesis by auto
qed


text \<open>
  The backfill of the recorded version writes only when nothing is recorded, and
  then records what the ready servers agree on; on every other path the cluster is unchanged.
\<close>

theorem backfill_once:
  assumes "env_ok e" and "BackfillAppliedVersion e get_secret query c pods = (c', r)"
  shows "(r \<noteq> Inr True \<longrightarrow> c' = c) \<and>
    (AppliedDataPlaneVersion e c \<noteq> Zero \<longrightarrow> r = Inr False) \<and>
    (r = Inr True \<longrightarrow> (\<exists>v. ObserveDataPlaneVersionSQL e get_secret query c pods = Inr v \<and>
        AppliedDataPlaneVersion e c' = v \<and>
        mc_Spec c' = mc_Spec c \<and> st_Conditions (mc_Status c') = st_Conditions (mc_Status c)))"
  using assms
  by (auto simp: BackfillAppliedVersion_def NeedsAppliedBackfill_def split: if_splits sum.splits)

theorem backfill_once_witness:
  "AppliedDataPlaneVersion ref_env (fst (BackfillAppliedVersion ref_env ref_secret (ref_query (ver 8 0 20))
     (ref_at Zero (ver 8 4 8)) (map ref_pod [''a'']))) = ver 8 0 20"
proof -
  have "BackfillAppliedVersion ref_env ref_secret (ref_query (ver 8 0 20)) (ref_at Zero (ver 8 4 8)) (map ref_pod [''a'']) =
     (MarkAppliedVersion ref_env (ref_at Zero (ver 8 4 8)) (ver 8 0 20), Inr True)"
    by (simp add: BackfillAppliedVersion_def NeedsAppliedBackfill_def del: list.map)
  from backfill_once [OF _ this] this show ?thesis by simp
qed


text \<open>
  The init container that changes the owner of the data directory is added exactly
  for the move from the 8.0 to 8.3 line to 8.4 or later, on a persistent volume, with a Percona
  image.
\<close>

theorem datadir_chown_iff:
  assumes "env_ok e"
  shows "NeedsDatadirChownInit e c \<longleftrightarrow>
    Major (AppliedDataPlaneVersion e c) = 8 \<and> Minor (AppliedDataPlaneVersion e c) < 4 \<and>
    AtLeastMySQL84 (DesiredVersion e c) \<and> HasPersistentDataVolume c \<and> IsPerconaImage e c"
proof -
  let ?a = "AppliedDataPlaneVersion e c"
  have nz: "Major ?a = 8 \<Longrightarrow> ?a \<noteq> Zero" by (auto simp: Zero_def)
  have p80: "ProfileFor e ?a = profilePercona80 \<longleftrightarrow> Major ?a = 8 \<and> Minor ?a < 4"
    using line_80_iff [of ?a] by (auto simp: ProfileFor_eq [OF assms])
  have p84: "ProfileFor e (DesiredVersion e c) = profilePercona84 \<longleftrightarrow> AtLeastMySQL84 (DesiredVersion e c)"
    by (auto simp: ProfileFor_eq [OF assms])
  have path: "StepDatadirChown \<in> set (stepIDsOnPath e ?a (DesiredVersion e c)) \<longleftrightarrow>
      ProfileFor e ?a = profilePercona80 \<and> ProfileFor e (DesiredVersion e c) = profilePercona84"
    by (cases "ProfileFor e ?a"; cases "ProfileFor e (DesiredVersion e c)")
      (auto simp: stepIDsOnPath_def upgradePathSteps_def Let_def)
  have ne: "ProfileFor e ?a = profilePercona80 \<and> ProfileFor e (DesiredVersion e c) = profilePercona84 \<Longrightarrow>
      ?a \<noteq> DesiredVersion e c" by auto
  show ?thesis
    using assms nz p80 p84 path ne
    by (auto simp: NeedsDatadirChownInit_def NeedsRolloutInit_def RolloutInitStepRequired_def
        stepRequired_def stepScheduled_def stepApplicable_def sourceVersionForStep_def
        newUpgradeContext_def SourceVersionForUpgrade_def datadirChownStep_def Let_def)
qed

theorem datadir_chown_iff_witness:
  "NeedsDatadirChownInit ref_env (ref_at_image (ver 8 0 20) (ver 8 4 8) (''percona'' @ '':8.4.8''))"
  using datadir_chown_iff [of ref_env "ref_at_image (ver 8 0 20) (ver 8 4 8) (''percona'' @ '':8.4.8'')"]
  by (simp add: AtLeastMySQL84_def del: append.simps)



end
