(* ===== verification/Orchestrator.thy ===== *)
theory Orchestrator
  imports Cluster
begin

text \<open>
  Package \<^verbatim>\<open>pkg/orchestrator\<close>: what the operator exchanges with the Orchestrator service. The data
  types with the fields the operator reads, the calls of the client interface, and the errors. The
  service is a parameter: a record of its answers. The theory also has the parser of time stamps
  (\<^verbatim>\<open>time.Parse\<close> with the layout \<^verbatim>\<open>RFC3339\<close>), which the operator applies to the start of a
  recovery; it follows Go 1.22, the version the build uses.
\<close>

section \<open>Instances and recoveries\<close>

record instance_key =
  ik_Hostname :: string
  ik_Port :: int

text \<open>\<^verbatim>\<open>sql.NullInt64\<close>: None is a value that is not valid.\<close>

type_synonym null_int64 = "int option"

record orc_instance =
  oi_Key :: instance_key
  oi_Uptime :: nat
  oi_ReadOnly :: bool
  oi_MasterKey :: instance_key
  oi_IsDetachedMaster :: bool
  oi_Slave_SQL_Running :: bool
  oi_Slave_IO_Running :: bool
  oi_SecondsBehindMaster :: null_int64
  oi_SlaveLagSeconds :: null_int64
  oi_IsCoMaster :: bool
  oi_IsLastCheckValid :: bool
  oi_IsUpToDate :: bool
  oi_IsRecentlyChecked :: bool
  oi_SecondsSinceLastSeen :: null_int64

record topology_recovery =
  tr_Id :: int
  tr_UID :: string
  tr_IsSuccessful :: bool
  tr_RecoveryStartTimestamp :: string
  tr_Acknowledged :: bool

abbreviation host_of :: "orc_instance \<Rightarrow> string" where
  "host_of i \<equiv> ik_Hostname (oi_Key i)"

section \<open>Errors\<close>

text \<open>An error of the package (with its message), or any other Go error.\<close>

datatype orc_error = OrcError string | OtherError string

fun IsNotFound :: "orc_error \<Rightarrow> bool" where
  "IsNotFound (OrcError msg) =
     (if contains msg ''Unable to determine cluster name'' then True
      else if contains msg ''Cannot read instance'' then True
      else if contains msg ''No masters found'' then True
      else False)"
| "IsNotFound (OtherError msg) = False"

section \<open>The client interface\<close>

text \<open>The calls that change the state of the service.\<close>

datatype orc_call =
    Discover string int
  | Forget string int
  | AckRecovery int string
  | SetHostWritable instance_key
  | SetHostReadOnly instance_key

text \<open>
  The answers of the service in one reconciliation. The queries are made once each; the answer
  to an acknowledgement may depend on the calls made before it. The errors of the other calls are
  only logged by the callers and have no field here.
\<close>

record orc_service =
  os_Cluster :: "string \<Rightarrow> (orc_error, orc_instance list) result"
  os_Master :: "string \<Rightarrow> (orc_error, orc_instance) result"
  os_AuditRecovery :: "string \<Rightarrow> (orc_error, topology_recovery list) result"
  os_AckRecovery :: "orc_call list \<Rightarrow> int \<Rightarrow> string \<Rightarrow> orc_error option"

section \<open>Time stamps\<close>

abbreviation second :: int where
  "second \<equiv> 1000000000"

fun take_digit :: "string \<Rightarrow> (nat \<times> string) option" where
  "take_digit [] = None"
| "take_digit (c # cs) = (if is_digit c then Some (digit_val c, cs) else None)"

text \<open>\<^verbatim>\<open>getnum\<close>: two digits, or one when \<open>fixed\<close> is false and no second digit follows.\<close>

definition getnum :: "bool \<Rightarrow> string \<Rightarrow> (nat \<times> string) option" where
  "getnum fixed s =
     (case take_digit s of
        None \<Rightarrow> None
      | Some (a, r) \<Rightarrow>
          (case take_digit r of
             None \<Rightarrow> if fixed then None else Some (a, r)
           | Some (b, r') \<Rightarrow> Some (10 * a + b, r')))"

definition get4 :: "string \<Rightarrow> (nat \<times> string) option" where
  "get4 s =
     (case getnum True s of
        None \<Rightarrow> None
      | Some (a, r) \<Rightarrow> (case getnum True r of None \<Rightarrow> None | Some (b, r') \<Rightarrow> Some (100 * a + b, r')))"

fun skip_char :: "char \<Rightarrow> string \<Rightarrow> string option" where
  "skip_char c [] = None"
| "skip_char c (d # s) = (if c = d then Some s else None)"

text \<open>The fraction of a second: at most nine digits count, the others are dropped.\<close>

definition nanoseconds :: "string \<Rightarrow> int \<times> string" where
  "nanoseconds s =
     (case s of
        c # d # r \<Rightarrow>
          if (c = CHR ''.'' \<or> c = CHR '','') \<and> is_digit d
          then let ds = takeWhile is_digit (d # r); ds9 = take 9 ds
               in (int (digits_val 0 ds9) * 10 ^ (9 - length ds9), dropWhile is_digit (d # r))
          else (0, s)
      | _ \<Rightarrow> (0, s))"

definition is_leap :: "nat \<Rightarrow> bool" where
  "is_leap y = (y mod 4 = 0 \<and> (y mod 100 \<noteq> 0 \<or> y mod 400 = 0))"

definition daysIn :: "nat \<Rightarrow> nat \<Rightarrow> nat" where
  "daysIn m y = (if m = 2 then (if is_leap y then 29 else 28) else if m \<in> {4, 6, 9, 11} then 30 else 31)"

text \<open>Days from 1970-01-01 to the given date.\<close>

definition epoch_days :: "nat \<Rightarrow> nat \<Rightarrow> nat \<Rightarrow> int" where
  "epoch_days y m d =
     (let y' = int y - 1 in
      365 * y' + y' div 4 - y' div 100 + y' div 400
      + int (sum_list (map (\<lambda>k. daysIn k y) [1..<m])) + int d - 1 - 719162)"

text \<open>The offset from UTC in seconds.\<close>

definition zone_offset :: "string \<Rightarrow> (int \<times> string) option" where
  "zone_offset s =
     (case s of
        [] \<Rightarrow> None
      | c # r \<Rightarrow>
          if c = CHR ''Z'' then Some (0, r)
          else Option.bind (getnum True r) (\<lambda>(h, r1).
               Option.bind (skip_char (CHR '':'') r1) (\<lambda>r2.
               Option.bind (getnum True r2) (\<lambda>(m, r3).
                 let off = 3600 * int h + 60 * int m in
                 if h > 24 \<or> m > 60 then None
                 else if c = CHR ''+'' then Some (off, r3)
                 else if c = CHR ''-'' then Some (- off, r3)
                 else None))))"

definition parse_rfc3339 :: "string \<Rightarrow> time option" where
  "parse_rfc3339 s =
     Option.bind (get4 s) (\<lambda>(y, s1).
     Option.bind (skip_char (CHR ''-'') s1) (\<lambda>s2.
     Option.bind (getnum True s2) (\<lambda>(mo, s3).
     Option.bind (skip_char (CHR ''-'') s3) (\<lambda>s4.
     Option.bind (getnum True s4) (\<lambda>(d, s5).
     Option.bind (skip_char (CHR ''T'') s5) (\<lambda>s6.
     Option.bind (getnum False s6) (\<lambda>(h, s7).
     Option.bind (skip_char (CHR '':'') s7) (\<lambda>s8.
     Option.bind (getnum True s8) (\<lambda>(mi, s9).
     Option.bind (skip_char (CHR '':'') s9) (\<lambda>s10.
     Option.bind (getnum True s10) (\<lambda>(sec, s11).
       let (nsec, s12) = nanoseconds s11 in
       Option.bind (zone_offset s12) (\<lambda>(off, rest).
         if mo < 1 \<or> mo > 12 \<or> h \<ge> 24 \<or> mi \<ge> 60 \<or> sec \<ge> 60 \<or> d < 1 \<or> d > daysIn mo y \<or> rest \<noteq> []
         then None
         else Some ((epoch_days y mo d * 86400 + 3600 * int h + 60 * int mi + int sec - off) * second
                    + nsec)))))))))))))"

end
