(* ===== verification/OrcReconcile.thy ===== *)
theory OrcReconcile
  imports Orchestrator
begin

text \<open>
  The orchestrator controller, \<^verbatim>\<open>pkg/controller/orchestrator\<close>: it reads the topology from the
  Orchestrator service, writes the conditions of the nodes and of the cluster, sets nodes writable
  or read-only, registers and forgets nodes, and acknowledges recoveries. It also keeps the
  finalizer of the cluster.

  The receiver \<^verbatim>\<open>orcUpdater\<close> is the state \<open>orc_updater\<close>: the cluster, the calls made to the service
  (in order) and the events recorded. All reads of the clock in one run give the time \<open>now\<close>. The
  argument \<open>replicas\<close> is \<^verbatim>\<open>int( *cluster.Spec.Replicas)\<close>; \<open>Sync\<close> dereferences the pointer.
\<close>

definition recoveryGraceTime :: int where
  "recoveryGraceTime = 600"

definition forgetGraceTime :: int where
  "forgetGraceTime = 30"

definition defaultMaxSlaveLatency :: int where
  "defaultMaxSlaveLatency = 30"

definition mysqlPort :: int where
  "mysqlPort = 3306"

definition uptimeGraceTime :: nat where
  "uptimeGraceTime = 15"

definition OldOrchestratorFinalizer :: string where
  "OldOrchestratorFinalizer = ''OrchestratorFinalizer''"

record orc_updater =
  ou_Cluster :: mysql_cluster
  ou_Calls :: "orc_call list"
  ou_Events :: "string list"

section \<open>Sets of instances\<close>

definition GetInstance :: "orc_instance list \<Rightarrow> string \<Rightarrow> orc_instance option" where
  "GetInstance is host = find (\<lambda>node. host = host_of node) is"

lemma GetInstance_Some: "GetInstance is h = Some m \<Longrightarrow> m \<in> set is \<and> host_of m = h"
  by (auto simp: GetInstance_def find_Some_iff)

text \<open>
  The walk towards the master stops at a node that was visited before, so every call of
  the walk adds a new key to the visited ones.
\<close>

function getMasterForNode ::
    "orc_instance list \<Rightarrow> orc_instance \<Rightarrow> orc_instance list \<Rightarrow> orc_instance option" where
  "getMasterForNode is node visited =
     (if \<exists>vn \<in> set visited. oi_Key vn = oi_Key node then None
      else if ik_Hostname (oi_MasterKey node) \<noteq> [] \<and> \<not> oi_IsCoMaster node \<and> \<not> oi_IsDetachedMaster node
      then (case GetInstance is (ik_Hostname (oi_MasterKey node)) of
              Some master \<Rightarrow> getMasterForNode is master (visited @ [node])
            | None \<Rightarrow> None)
      else if oi_IsCoMaster node then GetInstance is (ik_Hostname (oi_MasterKey node))
      else Some node)"
  by pat_completeness auto
termination
proof (relation "measure (\<lambda>(is, node, visited).
    card (insert (oi_Key node) (oi_Key ` set is) - oi_Key ` set visited))", goal_cases)
  case (2 "is" node visited master)
  then have "oi_Key node \<notin> oi_Key ` set visited" "oi_Key master \<in> oi_Key ` set is"
    by (auto dest: GetInstance_Some)
  then show ?case
    by (auto intro!: psubset_card_mono simp: insert_absorb)
qed simp

declare getMasterForNode.simps [simp del]

fun masters_of :: "orc_instance list \<Rightarrow> orc_instance list \<Rightarrow> orc_instance list option" where
  "masters_of is [] = Some []"
| "masters_of is (node # nodes) =
     (case getMasterForNode is node [] of
        None \<Rightarrow> None
      | Some master \<Rightarrow> map_option (Cons master) (masters_of is nodes))"

definition DetermineMaster :: "orc_instance list \<Rightarrow> orc_instance option" where
  "DetermineMaster is =
     (case masters_of is is of
        None \<Rightarrow> None
      | Some [] \<Rightarrow> None
      | Some (m # ms) \<Rightarrow> if list_ex (\<lambda>node. host_of node \<noteq> host_of m) (m # ms) then None else Some m)"

section \<open>Queries\<close>

definition getFromOrchestrator ::
    "orc_service \<Rightarrow> mysql_cluster \<Rightarrow> (orc_error, orc_instance list \<times> orc_instance option) result" where
  "getFromOrchestrator svc c =
     (case os_Cluster svc (GetClusterAlias c) of
        Inl err \<Rightarrow> if \<not> IsNotFound err then Inl err else Inr ([], None)
      | Inr instances \<Rightarrow>
          (case (case os_Master svc (GetClusterAlias c) of
                   Inl err \<Rightarrow> if \<not> IsNotFound err then Inl err else Inr None
                 | Inr m \<Rightarrow> Inr (Some m)) of
             Inl err \<Rightarrow> Inl err
           | Inr master \<Rightarrow>
               (case (master, DetermineMaster instances) of
                  (Some master', Some m) \<Rightarrow>
                    if host_of master' \<noteq> host_of m then Inr (instances, None)
                    else Inr (instances, Some master')
                | (Some master', None) \<Rightarrow> Inr (instances, Some master')
                | (None, m) \<Rightarrow> Inr (instances, m))))"

section \<open>Registration of nodes\<close>

definition hosts :: "mysql_cluster \<Rightarrow> int \<Rightarrow> string list" where
  "hosts c replicas = map (\<lambda>i. GetPodHostname c (int i)) [0..<nat replicas]"

fun discover_loop ::
    "mysql_cluster \<Rightarrow> orc_instance list \<Rightarrow> nat list \<Rightarrow> orc_instance list \<times> instance_key list" where
  "discover_loop c instances [] = ([], [])"
| "discover_loop c instances (i # is) =
     (let host = GetPodHostname c (int i); (readyInstances, shouldDiscover) = discover_loop c instances is in
      case GetInstance instances host of
        None \<Rightarrow>
          if int i < st_ReadyNodes (mc_Status c)
          then (readyInstances, \<lparr>ik_Hostname = host, ik_Port = mysqlPort\<rparr> # shouldDiscover)
          else (readyInstances, shouldDiscover)
      | Some inst \<Rightarrow> (inst # readyInstances, shouldDiscover))"

definition updateNodesInOrc ::
    "mysql_cluster \<Rightarrow> int \<Rightarrow> orc_instance list \<Rightarrow>
     orc_instance list \<times> instance_key list \<times> instance_key list" where
  "updateNodesInOrc c replicas instances =
     (let (readyInstances, shouldDiscover) = discover_loop c instances [0..<nat replicas];
          shouldForget = map oi_Key (filter (\<lambda>inst. GetInstance readyInstances (host_of inst) = None) instances)
      in if mc_DeletionTimestamp c = None then (readyInstances, shouldDiscover, shouldForget)
         else (readyInstances, [], map oi_Key instances))"

definition call :: "orc_call \<Rightarrow> orc_updater \<Rightarrow> orc_updater" where
  "call x ou = ou\<lparr>ou_Calls := ou_Calls ou @ [x]\<rparr>"

definition discoverNodesInOrc :: "instance_key list \<Rightarrow> orc_updater \<Rightarrow> orc_updater" where
  "discoverNodesInOrc keys ou = fold (\<lambda>key. call (Discover (ik_Hostname key) (ik_Port key))) keys ou"

text \<open>\<^verbatim>\<open>time.Since(cond.LastTransitionTime.Time).Seconds() > grace\<close> on the condition \<^verbatim>\<open>Ready\<close>.\<close>

definition ready_longer_than :: "time \<Rightarrow> mysql_cluster \<Rightarrow> int \<Rightarrow> bool" where
  "ready_longer_than now c grace =
     (case GetClusterCondition c ClusterConditionReady of
        None \<Rightarrow> False
      | Some ready \<Rightarrow> cc_Status ready = ConditionTrue \<and> now - cc_LastTransitionTime ready > grace * second)"

definition forgetNodesFromOrc :: "time \<Rightarrow> instance_key list \<Rightarrow> orc_updater \<Rightarrow> orc_updater" where
  "forgetNodesFromOrc now keys ou =
     (if ready_longer_than now (ou_Cluster ou) forgetGraceTime \<or>
         mc_DeletionTimestamp (ou_Cluster ou) \<noteq> None
      then fold (\<lambda>key. call (Forget (ik_Hostname key) (ik_Port key))) keys ou
      else ou)"

section \<open>Conditions of the nodes\<close>

definition setNode ::
    "time \<Rightarrow> string \<Rightarrow> node_condition_type \<Rightarrow> condition_status \<Rightarrow> mysql_cluster \<Rightarrow> mysql_cluster" where
  "setNode now host cType status c = fst (UpdateNodeConditionStatus now c host cType status)"

fun truth :: "bool \<Rightarrow> condition_status" where
  "truth True = ConditionTrue"
| "truth False = ConditionFalse"

definition updateNodeStatus ::
    "time \<Rightarrow> int \<Rightarrow> orc_instance option \<Rightarrow> orc_instance \<Rightarrow> mysql_cluster \<Rightarrow> mysql_cluster" where
  "updateNodeStatus now maxSlaveLatency master node c =
     (let host = host_of node;
          is_m = (case master of Some m \<Rightarrow> host = host_of m | None \<Rightarrow> False)
      in if \<not> oi_IsRecentlyChecked node
         then if \<not> oi_IsLastCheckValid node
              then setNode now host NodeConditionMaster ConditionUnknown
                    (setNode now host NodeConditionReplicating ConditionUnknown
                      (setNode now host NodeConditionLagged ConditionUnknown c))
              else c
         else
           let lagged = (if is_m then ConditionFalse
                         else case oi_SlaveLagSeconds node of
                                None \<Rightarrow> ConditionUnknown
                              | Some lag \<Rightarrow> if lag \<le> maxSlaveLatency then ConditionFalse else ConditionTrue);
               c1 = setNode now host NodeConditionLagged lagged c;
               c2 = setNode now host NodeConditionReplicating
                      (truth (oi_Slave_SQL_Running node \<and> oi_Slave_IO_Running node)) c1;
               c3 = setNode now host NodeConditionMaster (truth is_m) c2
           in setNode now host NodeConditionReadOnly (truth (oi_ReadOnly node)) c3)"

definition updateNodesStatus ::
    "time \<Rightarrow> orc_instance list \<Rightarrow> orc_instance option \<Rightarrow> mysql_cluster \<Rightarrow> mysql_cluster" where
  "updateNodesStatus now insts master c =
     (let maxSlaveLatency = (case cs_MaxSlaveLatency (mc_Spec c) of
                               Some l \<Rightarrow> l | None \<Rightarrow> defaultMaxSlaveLatency)
      in fold (updateNodeStatus now maxSlaveLatency master) insts c)"

text \<open>
  The characters \<^verbatim>\<open>[\w-]\<close>, and the host names matched by
  \<^verbatim>\<open>^[\w-]+-mysql-(\d*)\.[\w-]*mysql(?:-nodes)?\.[\w-]+$\<close>. No class of the expression has the dot, so the
  name is three parts between dots; the digits have no dash, so they are what follows the last dash
  of the first part.
\<close>

definition is_word_or_dash :: "char \<Rightarrow> bool" where
  "is_word_or_dash c = (is_digit c \<or> c \<in> set ''abcdefghijklmnopqrstuvwxyzABCDEFGHIJKLMNOPQRSTUVWXYZ_-'')"

definition ordinal_part :: "string \<Rightarrow> string option" where
  "ordinal_part s =
     (case last_index_char (CHR ''-'') s of
        None \<Rightarrow> None
      | Some i \<Rightarrow>
          let x = take (Suc i) s; d = drop (Suc i) s in
          if list_all is_digit d \<and> has_suffix x ''-mysql-'' \<and> length x > length ''-mysql-'' \<and>
             list_all is_word_or_dash x
          then Some d else None)"

definition indexInSts :: "string \<Rightarrow> int option" where
  "indexInSts name =
     (case split_dot name of
        [s1, s2, s3] \<Rightarrow>
          if list_all is_word_or_dash s2 \<and> (has_suffix s2 ''mysql'' \<or> has_suffix s2 ''mysql-nodes'') \<and>
             s3 \<noteq> [] \<and> list_all is_word_or_dash s3
          then map_option to_int32 (Option.bind (ordinal_part s1) atoi)
          else None
      | _ \<Rightarrow> None)"

definition shouldRemoveOldNode :: "node_status \<Rightarrow> mysql_cluster \<Rightarrow> bool" where
  "shouldRemoveOldNode node c =
     (if mc_Annotations c AnnotationVersion = Some ''300'' then contains (ns_Name node) ''-mysql-nodes''
      else False)"

definition keep_node :: "mysql_cluster \<Rightarrow> int \<Rightarrow> node_status \<Rightarrow> bool" where
  "keep_node c replicas ns =
     (case indexInSts (ns_Name ns) of
        None \<Rightarrow> True
      | Some index \<Rightarrow> \<not> shouldRemoveOldNode ns c \<and> index < replicas)"

text \<open>
  The loop that removes the entries in place: entry \<open>i\<close> is read from the array that the loop
  itself overwrites at \<open>validIndex\<close>.
\<close>

fun compact_loop :: "('a \<Rightarrow> bool) \<Rightarrow> nat list \<Rightarrow> 'a list \<Rightarrow> nat \<Rightarrow> 'a list \<times> nat" where
  "compact_loop keep [] nodes validIndex = (nodes, validIndex)"
| "compact_loop keep (i # is) nodes validIndex =
     (if keep (nodes ! i) then compact_loop keep is (nodes[validIndex := nodes ! i]) (Suc validIndex)
      else compact_loop keep is nodes validIndex)"

definition removeNodeConditionNotInOrc ::
    "time \<Rightarrow> int \<Rightarrow> orc_instance list \<Rightarrow> mysql_cluster \<Rightarrow> mysql_cluster" where
  "removeNodeConditionNotInOrc now replicas insts c =
     (let c1 = fold (\<lambda>name c.
                 if GetInstance insts name = None
                 then setNode now name NodeConditionReadOnly ConditionUnknown
                       (setNode now name NodeConditionMaster ConditionUnknown
                         (setNode now name NodeConditionReplicating ConditionUnknown
                           (setNode now name NodeConditionLagged ConditionUnknown c)))
                 else c) (map ns_Name (nodes_of c)) c;
          (nodes, validIndex) = compact_loop (keep_node c1 replicas) [0..<length (nodes_of c1)] (nodes_of c1) 0
      in set_nodes (take validIndex nodes) c1)"

section \<open>Read-only and writable nodes\<close>

definition setWritableNode :: "orc_instance \<Rightarrow> orc_updater \<Rightarrow> orc_updater" where
  "setWritableNode inst ou = (if oi_ReadOnly inst then call (SetHostWritable (oi_Key inst)) ou else ou)"

definition setReadOnlyNode :: "orc_instance \<Rightarrow> orc_updater \<Rightarrow> orc_updater" where
  "setReadOnlyNode inst ou = (if \<not> oi_ReadOnly inst then call (SetHostReadOnly (oi_Key inst)) ou else ou)"

definition failoverInProgress :: "mysql_cluster \<Rightarrow> bool" where
  "failoverInProgress c =
     (case GetClusterCondition c ClusterConditionFailoverInProgress of
        Some fip \<Rightarrow> cc_Status fip = ConditionTrue
      | None \<Rightarrow> False)"

definition unsettled :: "orc_instance \<Rightarrow> bool" where
  "unsettled inst = (\<not> oi_IsUpToDate inst \<or> oi_Uptime inst < uptimeGraceTime)"

definition markReadOnlyNodesInOrc ::
    "orc_instance list \<Rightarrow> orc_instance option \<Rightarrow> orc_updater \<Rightarrow> orc_updater" where
  "markReadOnlyNodesInOrc insts master ou =
     (if failoverInProgress (ou_Cluster ou) then ou
      else (case master of
        None \<Rightarrow> fold (\<lambda>inst ou. if unsettled inst then ou else setReadOnlyNode inst ou) insts ou
      | Some m \<Rightarrow>
          fold (\<lambda>inst ou.
            if unsettled inst then ou
            else if cs_ReadOnly (mc_Spec (ou_Cluster ou)) then setReadOnlyNode inst ou
            else if host_of inst = host_of m then setWritableNode inst ou
            else setReadOnlyNode inst ou) insts ou))"

section \<open>Conditions of the cluster\<close>

definition updateClusterFailoverInProgressStatus ::
    "time \<Rightarrow> orc_instance option \<Rightarrow> mysql_cluster \<Rightarrow> mysql_cluster" where
  "updateClusterFailoverInProgressStatus now master c =
     (case Option.bind master oi_SecondsSinceLastSeen of
        Some s \<Rightarrow>
          if s < 5
          then UpdateStatusCondition now c ClusterConditionFailoverInProgress ConditionFalse
                 ''ClusterMasterHealthy'' ''Master is healthy in orchestrator''
          else c
      | None \<Rightarrow> c)"

definition updateClusterReadOnlyStatus :: "time \<Rightarrow> orc_instance list \<Rightarrow> mysql_cluster \<Rightarrow> mysql_cluster" where
  "updateClusterReadOnlyStatus now insts c =
     (let readOnlyHosts = map host_of (filter oi_ReadOnly insts);
          writableHosts = map host_of (filter (\<lambda>i. \<not> oi_ReadOnly i) insts)
      in if writableHosts = []
         then UpdateStatusCondition now c ClusterConditionReadOnly ConditionTrue
                ''ClusterReadOnlyTrue'' (''read-only nodes: '' @ join '' '' readOnlyHosts)
         else UpdateStatusCondition now c ClusterConditionReadOnly ConditionFalse
                ''ClusterReadOnlyFalse'' (''writable nodes: '' @ join '' '' writableHosts))"

definition getCondAsBool :: "node_status \<Rightarrow> node_condition_type \<Rightarrow> bool" where
  "getCondAsBool ns cond =
     (case GetNodeConditionIndex ns cond of
        Some i \<Rightarrow> nc_Status (ns_Conditions ns ! i) = ConditionTrue
      | None \<Rightarrow> False)"

text \<open>The loop over the pods: the cluster, and the host that does not replicate or whether a master was seen.\<close>

fun ready_loop :: "mysql_cluster \<Rightarrow> nat list \<Rightarrow> bool \<Rightarrow> mysql_cluster \<times> (string, bool) result" where
  "ready_loop c [] hasMaster = (c, Inr hasMaster)"
| "ready_loop c (i # is) hasMaster =
     (let hostname = GetPodHostname c (int i);
          (c', ns) = GetNodeStatusFor c hostname
      in if getCondAsBool ns NodeConditionMaster then ready_loop c' is True
         else if \<not> getCondAsBool ns NodeConditionReplicating then (c', Inl hostname)
         else ready_loop c' is hasMaster)"

definition updateClusterReadyStatus :: "time \<Rightarrow> int \<Rightarrow> mysql_cluster \<Rightarrow> mysql_cluster" where
  "updateClusterReadyStatus now replicas c =
     (if st_ReadyNodes (mc_Status c) \<noteq> replicas
      then UpdateStatusCondition now c ClusterConditionReady ConditionFalse
             ''StatefulSetNotReady'' ''StatefulSet is not ready''
      else (case ready_loop c [0..<nat replicas] False of
              (c', Inl hostname) \<Rightarrow>
                UpdateStatusCondition now c' ClusterConditionReady ConditionFalse ''NotReplicating''
                  (''Node '' @ hostname @ '' is part of topology and not replicating'')
            | (c', Inr hasMaster) \<Rightarrow>
                if \<not> hasMaster \<and> \<not> cs_ReadOnly (mc_Spec c') \<and> replicas > 0
                then UpdateStatusCondition now c' ClusterConditionReady ConditionFalse ''NoMaster''
                       ''Cluster has no designated master''
                else UpdateStatusCondition now c' ClusterConditionReady ConditionTrue
                       ''ClusterReady'' ''Cluster is ready''))"

section \<open>Recoveries\<close>

definition makeRecoveryMessage :: "topology_recovery list \<Rightarrow> string" where
  "makeRecoveryMessage acks =
     join '' '' (map (\<lambda>a. ''{id: '' @ itoa (tr_Id a) @ '', uid: '' @ tr_UID a @ '', success: '' @
       (if tr_IsSuccessful a then ''true'' else ''false'') @ '', time: '' @ tr_RecoveryStartTimestamp a @ ''}'')
       acks)"

definition updateFailoverAckStatus :: "time \<Rightarrow> topology_recovery list \<Rightarrow> mysql_cluster \<Rightarrow> mysql_cluster" where
  "updateFailoverAckStatus now recoveries c =
     (let unack = filter (\<lambda>r. \<not> tr_Acknowledged r) recoveries in
      if length unack > 0
      then UpdateStatusCondition now c ClusterConditionFailoverAck ConditionTrue
             ''PendingFailoverAckExists'' (makeRecoveryMessage unack)
      else UpdateStatusCondition now c ClusterConditionFailoverAck ConditionFalse
             ''NoPendingFailoverAckExists'' ''no pending ack'')"

definition recovery_is_old :: "time \<Rightarrow> topology_recovery \<Rightarrow> bool" where
  "recovery_is_old now r =
     (case parse_rfc3339 (tr_RecoveryStartTimestamp r) of
        None \<Rightarrow> False
      | Some start \<Rightarrow> \<not> (now - start < recoveryGraceTime * second))"

definition getRecoveriesToAck :: "time \<Rightarrow> mysql_cluster \<Rightarrow> topology_recovery list \<Rightarrow> topology_recovery list" where
  "getRecoveriesToAck now c recoveries =
     (if recoveries = [] then []
      else if \<not> ready_longer_than now c recoveryGraceTime then []
      else filter (\<lambda>r. \<not> tr_Acknowledged r \<and> recovery_is_old now r) recoveries)"

fun ack_loop :: "orc_service \<Rightarrow> string \<Rightarrow> topology_recovery list \<Rightarrow> orc_updater \<Rightarrow> orc_updater" where
  "ack_loop svc comment [] ou = ou"
| "ack_loop svc comment (r # rs) ou =
     (case os_AckRecovery svc (ou_Calls ou) (tr_Id r) comment of
        Some err \<Rightarrow> call (AckRecovery (tr_Id r) comment) ou
      | None \<Rightarrow>
          ack_loop svc comment rs
            ((call (AckRecovery (tr_Id r) comment) ou)
               \<lparr>ou_Events := ou_Events ou @ [''Recovery with id '' @ itoa (tr_Id r) @ '' was acked.'']\<rparr>))"

definition acknowledgeRecoveries :: "orc_service \<Rightarrow> topology_recovery list \<Rightarrow> orc_updater \<Rightarrow> orc_updater" where
  "acknowledgeRecoveries svc toAck ou =
     ack_loop svc
       (''Statefulset '' @ [CHR 0x27] @ GetNameForResource (ou_Cluster ou) StatefulSet @ [CHR 0x27] @
        '' is healthy for more than '' @ itoa recoveryGraceTime @ '' seconds'') toAck ou"

section \<open>The updater\<close>

datatype sync_error = OrcFailed orc_error | NilReplicas

definition upd_cluster :: "(mysql_cluster \<Rightarrow> mysql_cluster) \<Rightarrow> orc_updater \<Rightarrow> orc_updater" where
  "upd_cluster f ou = ou\<lparr>ou_Cluster := f (ou_Cluster ou)\<rparr>"

definition Sync :: "orc_service \<Rightarrow> time \<Rightarrow> orc_updater \<Rightarrow> (sync_error, orc_updater) result" where
  "Sync svc now ou =
     (case getFromOrchestrator svc (ou_Cluster ou) of
        Inl err \<Rightarrow> Inl (OrcFailed err)
      | Inr (allInstances, master) \<Rightarrow>
          (case cs_Replicas (mc_Spec (ou_Cluster ou)) of
             None \<Rightarrow> Inl NilReplicas
           | Some replicas \<Rightarrow>
               let (instances, undiscovered, toRemove) = updateNodesInOrc (ou_Cluster ou) replicas allInstances;
                   ou = discoverNodesInOrc undiscovered ou;
                   ou = upd_cluster (removeNodeConditionNotInOrc now replicas instances) ou;
                   ou = markReadOnlyNodesInOrc instances master ou;
                   recoveries = (case os_AuditRecovery svc (GetClusterAlias (ou_Cluster ou)) of
                                   Inl err \<Rightarrow> [] | Inr rs \<Rightarrow> rs);
                   ou = upd_cluster (updateNodesStatus now instances master) ou;
                   ou = upd_cluster (updateClusterFailoverInProgressStatus now master) ou;
                   ou = upd_cluster (updateClusterReadOnlyStatus now instances) ou;
                   ou = upd_cluster (updateClusterReadyStatus now replicas) ou;
                   ou = upd_cluster (updateFailoverAckStatus now recoveries) ou;
                   ou = forgetNodesFromOrc now toRemove ou;
                   toAck = getRecoveriesToAck now (ou_Cluster ou) recoveries
               in Inr (acknowledgeRecoveries svc toAck ou)))"

section \<open>Finalizers\<close>

definition addFinalizer :: "string list \<Rightarrow> string \<Rightarrow> string list" where
  "addFinalizer fs finalizer = (if finalizer \<in> set fs then fs else fs @ [finalizer])"

text \<open>
  \<^verbatim>\<open>removeFinalizer\<close> ranges over the slice while it removes from it with \<^verbatim>\<open>append\<close>, which shifts the
  shared backing array. The loop reads the array \<open>arr\<close> of the original length at every index,
  while the field holds its first \<open>len\<close> elements; slicing past \<open>len\<close> panics (\<open>None\<close>).
\<close>

fun remove_loop :: "string \<Rightarrow> nat list \<Rightarrow> string list \<Rightarrow> nat \<Rightarrow> (string list \<times> nat) option" where
  "remove_loop finalizer [] arr len = Some (arr, len)"
| "remove_loop finalizer (i # is) arr len =
     (if arr ! i = finalizer
      then if i + 1 \<le> len
           then remove_loop finalizer is (take i arr @ drop (i + 1) (take len arr) @ drop (len - 1) arr) (len - 1)
           else None
      else remove_loop finalizer is arr len)"

definition removeFinalizer :: "string list \<Rightarrow> string \<Rightarrow> string list option" where
  "removeFinalizer fs finalizer =
     map_option (\<lambda>(arr, len). take len arr) (remove_loop finalizer [0..<length fs] fs (length fs))"

text \<open>The function that \<^verbatim>\<open>newFinalizerSyncer\<close> gives to the object syncer.\<close>

definition finalizer_mutate :: "orc_service \<Rightarrow> mysql_cluster \<Rightarrow> mysql_cluster option" where
  "finalizer_mutate svc out =
     (case removeFinalizer (addFinalizer (mc_Finalizers out) FinalizerOrchestrator) OldOrchestratorFinalizer of
        None \<Rightarrow> None
      | Some fs \<Rightarrow>
          if mc_DeletionTimestamp out \<noteq> None
          then let instances = (case os_Cluster svc (GetClusterAlias out) of Inl err \<Rightarrow> [] | Inr is \<Rightarrow> is)
               in if instances = []
                  then map_option (\<lambda>fs'. out\<lparr>mc_Finalizers := fs'\<rparr>) (removeFinalizer fs FinalizerOrchestrator)
                  else Some (out\<lparr>mc_Finalizers := fs\<rparr>)
          else Some (out\<lparr>mc_Finalizers := fs\<rparr>))"

section \<open>The walk to the master\<close>

text \<open>What the walk computes: the master reached from a node along the master keys.\<close>

inductive master_of :: "orc_instance list \<Rightarrow> orc_instance \<Rightarrow> orc_instance \<Rightarrow> bool"
  for insts :: "orc_instance list" where
  root: "ik_Hostname (oi_MasterKey n) = [] \<or> oi_IsDetachedMaster n \<Longrightarrow> \<not> oi_IsCoMaster n \<Longrightarrow>
    master_of insts n n"
| comaster: "oi_IsCoMaster n \<Longrightarrow> GetInstance insts (ik_Hostname (oi_MasterKey n)) = Some m \<Longrightarrow>
    master_of insts n m"
| chain: "ik_Hostname (oi_MasterKey n) \<noteq> [] \<Longrightarrow> \<not> oi_IsCoMaster n \<Longrightarrow> \<not> oi_IsDetachedMaster n \<Longrightarrow>
    GetInstance insts (ik_Hostname (oi_MasterKey n)) = Some n' \<Longrightarrow> master_of insts n' m \<Longrightarrow>
    master_of insts n m"

definition follows :: "orc_instance list \<Rightarrow> orc_instance \<Rightarrow> orc_instance \<Rightarrow> bool" where
  "follows insts n n' \<longleftrightarrow> ik_Hostname (oi_MasterKey n) \<noteq> [] \<and> \<not> oi_IsCoMaster n \<and> \<not> oi_IsDetachedMaster n \<and>
     GetInstance insts (ik_Hostname (oi_MasterKey n)) = Some n'"

lemma follows_unique: "follows insts n a \<Longrightarrow> follows insts n b \<Longrightarrow> a = b"
  by (simp add: follows_def)

lemma GetInstance_self:
  assumes "distinct (map host_of insts)" and "n \<in> set insts"
  shows "GetInstance insts (host_of n) = Some n"
  using assms by (induction insts) (auto simp: GetInstance_def rev_image_eqI)

lemma same_host:
  assumes "distinct (map host_of insts)" and "n \<in> set insts" and "m \<in> set insts" and "host_of n = host_of m"
  shows "n = m"
  using assms by (metis distinct_map inj_on_eq_iff)

lemma getMasterForNode_sound:
  "getMasterForNode insts n visited = Some m \<Longrightarrow> master_of insts n m"
proof (induction insts n visited rule: getMasterForNode.induct)
  case (1 insts n visited)
  let ?follow = "ik_Hostname (oi_MasterKey n) \<noteq> [] \<and> \<not> oi_IsCoMaster n \<and> \<not> oi_IsDetachedMaster n"
  have fresh: "\<not> (\<exists>vn \<in> set visited. oi_Key vn = oi_Key n)"
    using "1.prems" by (subst (asm) getMasterForNode.simps) (simp split: if_splits)
  show ?case
  proof (cases ?follow)
    case True
    with "1.prems" fresh obtain k where k: "GetInstance insts (ik_Hostname (oi_MasterKey n)) = Some k"
      "getMasterForNode insts k (visited @ [n]) = Some m"
      by (subst (asm) (2) getMasterForNode.simps) (auto split: option.splits)
    from "1.IH" [OF fresh True k] True k(1) show ?thesis by (blast intro: master_of.chain)
  next
    case False
    with "1.prems" fresh show ?thesis
      by (subst (asm) getMasterForNode.simps)
        (auto split: if_splits intro: master_of.root master_of.comaster)
  qed
qed

lemma master_of_acyclic: "master_of insts n m \<Longrightarrow> \<not> (follows insts)\<^sup>+\<^sup>+ n n"
proof (induction rule: master_of.induct)
  case (chain n n' m)
  then have step: "follows insts n n'" by (simp add: follows_def)
  show ?case
  proof
    assume "(follows insts)\<^sup>+\<^sup>+ n n"
    then obtain k where "follows insts n k" "(follows insts)\<^sup>*\<^sup>* k n"
      by (meson tranclpD)
    with step have "(follows insts)\<^sup>*\<^sup>* n' n" using follows_unique by blast
    with step have "(follows insts)\<^sup>+\<^sup>+ n' n'" by (meson rtranclp_into_tranclp1)
    with chain.IH show False by blast
  qed
qed (auto dest!: tranclpD simp: follows_def)

lemma getMasterForNode_complete:
  assumes "distinct (map host_of insts)" and "master_of insts n m" and "n \<in> set insts"
    and "\<forall>v \<in> set visited. v \<in> set insts \<and> (follows insts)\<^sup>+\<^sup>+ v n"
  shows "getMasterForNode insts n visited = Some m"
  using assms(2-)
proof (induction arbitrary: visited rule: master_of.induct)
  case (root n)
  have "oi_Key v \<noteq> oi_Key n" if "v \<in> set visited" for v
    using that root same_host [OF assms(1), of v n] master_of_acyclic [OF master_of.root [OF root(1,2), of insts]]
    by auto
  with root show ?case by (subst getMasterForNode.simps) auto
next
  case (comaster n m)
  have "oi_Key v \<noteq> oi_Key n" if "v \<in> set visited" for v
    using that comaster same_host [OF assms(1), of v n] master_of_acyclic [OF master_of.comaster [OF comaster(1,2)]]
    by auto
  with comaster show ?case by (subst getMasterForNode.simps) auto
next
  case (chain n n' m)
  have "oi_Key v \<noteq> oi_Key n" if "v \<in> set visited" for v
    using that chain.prems same_host [OF assms(1), of v n] master_of_acyclic [OF master_of.chain [OF chain(1-5)]]
    by auto
  moreover have "follows insts n n'" using chain by (simp add: follows_def)
  then have "getMasterForNode insts n' (visited @ [n]) = Some m"
    using chain GetInstance_Some by (intro chain.IH) (auto intro: tranclp.trancl_into_trancl)
  ultimately show ?case using chain by (subst getMasterForNode.simps) auto
qed

lemma getMasterForNode_iff:
  assumes "distinct (map host_of insts)" and "n \<in> set insts"
  shows "getMasterForNode insts n [] = Some m \<longleftrightarrow> master_of insts n m"
  using getMasterForNode_sound getMasterForNode_complete [OF assms(1) _ assms(2), of m "[]"] by fastforce

lemma master_of_in: "master_of insts n m \<Longrightarrow> n \<in> set insts \<Longrightarrow> m \<in> set insts"
  by (induction rule: master_of.induct) (auto dest: GetInstance_Some)

lemma masters_of_eq:
  "masters_of insts ns = Some ms \<longleftrightarrow> list_all2 (\<lambda>n m. getMasterForNode insts n [] = Some m) ns ms"
  by (induction ns arbitrary: ms) (auto simp: list_all2_Cons1 split: option.splits)

lemma DetermineMaster_iff:
  assumes "distinct (map host_of insts)"
  shows "DetermineMaster insts = Some m \<longleftrightarrow> insts \<noteq> [] \<and> (\<forall>n \<in> set insts. master_of insts n m)"
proof
  assume "DetermineMaster insts = Some m"
  then obtain ms where ms: "masters_of insts insts = Some (m # ms)" and same: "\<forall>k \<in> set (m # ms). host_of k = host_of m"
    by (auto simp: DetermineMaster_def list_ex_iff split: option.splits list.splits if_splits)
  from ms have rel: "list_all2 (\<lambda>n k. getMasterForNode insts n [] = Some k) insts (m # ms)"
    by (simp add: masters_of_eq)
  then have ne: "insts \<noteq> []" by auto
  have "master_of insts n m" if n: "n \<in> set insts" for n
  proof -
    from n obtain j where j: "j < length insts" "n = insts ! j" by (auto simp: in_set_conv_nth)
    define k where "k = (m # ms) ! j"
    have k: "k \<in> set (m # ms)" "getMasterForNode insts n [] = Some k"
      using list_all2_nthD [OF rel j(1)] list_all2_lengthD [OF rel] j unfolding k_def
      by (auto simp del: list.set intro: nth_mem)
    obtain n0 where "n0 \<in> set insts" "getMasterForNode insts n0 [] = Some m"
      using rel by (cases insts) auto
    then have "m \<in> set insts" using master_of_in getMasterForNode_sound by blast
    moreover have "k \<in> set insts" using k n master_of_in getMasterForNode_sound by blast
    ultimately have "k = m" using same k(1) same_host [OF assms] by blast
    with k show ?thesis using getMasterForNode_sound by blast
  qed
  with ne show "insts \<noteq> [] \<and> (\<forall>n \<in> set insts. master_of insts n m)" by blast
next
  assume r: "insts \<noteq> [] \<and> (\<forall>n \<in> set insts. master_of insts n m)"
  then have "list_all2 (\<lambda>n k. getMasterForNode insts n [] = Some k) insts (replicate (length insts) m)"
    by (auto simp: list_all2_conv_all_nth getMasterForNode_iff [OF assms])
  then have "masters_of insts insts = Some (replicate (length insts) m)" by (simp add: masters_of_eq)
  with r show "DetermineMaster insts = Some m"
    by (cases insts) (auto simp: DetermineMaster_def list_ex_iff)
qed

section \<open>In-place removal\<close>

lemma compact_loop_filter:
  assumes "nodes = done @ junk @ rest" and "length done = v" and "is = [v + length junk..<length nodes]"
  shows "case compact_loop keep is nodes v of (arr, k) \<Rightarrow> take k arr = done @ filter keep rest"
  using assms
proof (induction rest arbitrary: nodes "done" junk v "is")
  case Nil
  then show ?case by simp
next
  case (Cons x rest)
  let ?i = "v + length junk"
  have "is = ?i # [Suc ?i..<length nodes]" using Cons.prems by (simp add: upt_rec)
  moreover have x: "nodes ! ?i = x" using Cons.prems by (simp add: nth_append)
  moreover have "case compact_loop keep [Suc ?i..<length nodes] (nodes[v := x]) (Suc v) of
      (arr, k) \<Rightarrow> take k arr = (done @ [x]) @ filter keep rest" 
  proof (rule Cons.IH [where junk = "tl (junk @ [x])"])
    show "nodes[v := x] = (done @ [x]) @ tl (junk @ [x]) @ rest"
      using Cons.prems by (cases junk) (auto simp: list_update_append)
    show "[Suc ?i..<length nodes] = [Suc v + length (tl (junk @ [x]))..<length (nodes[v := x])]" by simp
  qed (use Cons.prems in simp)
  moreover have "case compact_loop keep [Suc ?i..<length nodes] nodes v of
      (arr, k) \<Rightarrow> take k arr = done @ filter keep rest"
    by (rule Cons.IH [where junk = "junk @ [x]"]) (use Cons.prems in auto)
  ultimately show ?case by simp
qed

lemma compact_all:
  "case compact_loop keep [0..<length nodes] nodes 0 of (arr, k) \<Rightarrow> take k arr = filter keep nodes"
  using compact_loop_filter [of nodes "[]" "[]" nodes 0 _ keep] by simp

section \<open>What each operation leaves alone\<close>

definition only_nodes :: "mysql_cluster \<Rightarrow> mysql_cluster \<Rightarrow> bool" where
  "only_nodes c c' \<longleftrightarrow> (\<exists>ns. c' = set_nodes ns c)"

lemma set_nodes_set_nodes [simp]: "set_nodes ns (set_nodes ns' c) = set_nodes ns c"
  by (simp add: set_nodes_def)

lemma only_nodes_refl [simp]: "only_nodes c c"
proof -
  have "c = set_nodes (nodes_of c) c" by (simp add: set_nodes_def)
  then show ?thesis unfolding only_nodes_def by blast
qed

lemma only_nodes_trans: "only_nodes a b \<Longrightarrow> only_nodes b c \<Longrightarrow> only_nodes a c"
  by (auto simp: only_nodes_def)

lemma only_nodes_set_nodes [simp]: "only_nodes c (set_nodes ns c)"
  by (auto simp: only_nodes_def)

lemma only_nodes_sel:
  assumes "only_nodes c c'"
  shows "mc_Spec c' = mc_Spec c" "mc_Name c' = mc_Name c" "mc_Namespace c' = mc_Namespace c"
    "mc_Annotations c' = mc_Annotations c" "mc_Finalizers c' = mc_Finalizers c"
    "mc_DeletionTimestamp c' = mc_DeletionTimestamp c"
    "st_ReadyNodes (mc_Status c') = st_ReadyNodes (mc_Status c)"
    "GetClusterCondition c' ty = GetClusterCondition c ty"
    "GetClusterAlias c' = GetClusterAlias c" "GetPodHostname c' i = GetPodHostname c i"
    "failoverInProgress c' = failoverInProgress c"
    "GetNameForResource c' r = GetNameForResource c r"
  using assms
  by (auto simp: only_nodes_def set_nodes_def GetClusterCondition_find GetClusterAlias_def
      GetPodHostname_def failoverInProgress_def GetNameForResource_def)

lemma only_nodes_setNode [simp]: "only_nodes c (setNode now h ty s c)"
  by (simp add: setNode_def UpdateNodeConditionStatus_nodes split: option.splits)

lemma only_nodes_fold:
  "(\<And>x c. only_nodes c (f x c)) \<Longrightarrow> only_nodes c (fold f xs c)"
  by (induction xs arbitrary: c) (auto intro: only_nodes_trans)

lemmas only_nodes_setNodeI = only_nodes_trans [OF _ only_nodes_setNode]

lemma only_nodes_updateNodeStatus: "only_nodes c (updateNodeStatus now l m i c)"
  by (auto simp: updateNodeStatus_def Let_def intro!: only_nodes_setNodeI)

lemma only_nodes_updateNodesStatus: "only_nodes c (updateNodesStatus now insts m c)"
  by (simp add: updateNodesStatus_def Let_def only_nodes_fold only_nodes_updateNodeStatus)

lemma only_nodes_removeNode: "only_nodes c (removeNodeConditionNotInOrc now r insts c)"
  unfolding removeNodeConditionNotInOrc_def Let_def case_prod_beta
  by (rule only_nodes_trans [OF only_nodes_fold only_nodes_set_nodes]) (auto intro!: only_nodes_setNodeI)

lemma only_nodes_GetNodeStatusFor: "only_nodes c (fst (GetNodeStatusFor c h))"
  by (auto simp: GetNodeStatusFor_def GetNodeStatusIndex_eq case_prod_beta Let_def split: option.splits)

lemma only_nodes_ready_loop: "only_nodes c (fst (ready_loop c is b))"
proof (induction "is" arbitrary: c b)
  case (Cons i "is")
  have "only_nodes c (fst (GetNodeStatusFor c (GetPodHostname c (int i))))"
    by (rule only_nodes_GetNodeStatusFor)
  with Cons show ?case by (auto simp: Let_def case_prod_beta intro: only_nodes_trans)
qed simp

section \<open>The ready condition\<close>

definition cond_true :: "mysql_cluster \<Rightarrow> string \<Rightarrow> node_condition_type \<Rightarrow> bool" where
  "cond_true c n ty \<longleftrightarrow> (\<exists>cond. node_cond c n ty = Some cond \<and> nc_Status cond = ConditionTrue)"

lemma GetNodeStatusFor_cond:
  "getCondAsBool (snd (GetNodeStatusFor c h)) ty = cond_true c h ty"
  by (auto simp: getCondAsBool_def GetNodeStatusFor_def GetNodeStatusIndex_eq cond_true_def node_cond_def
      node_named_def GetNodeConditionIndex_def find_index_eq_find case_prod_beta Let_def split: option.splits)

lemma GetNodeStatusFor_node_cond:
  "node_cond (fst (GetNodeStatusFor c h)) n ty = node_cond c n ty"
  by (auto simp: GetNodeStatusFor_def GetNodeStatusIndex_eq node_cond_def node_named_def
      cluster_conds.find_append case_prod_beta Let_def split: option.splits)

lemma ready_loop_result:
  "snd (ready_loop c is b) =
     (case find (\<lambda>i. \<not> cond_true c (GetPodHostname c (int i)) NodeConditionMaster \<and>
                      \<not> cond_true c (GetPodHostname c (int i)) NodeConditionReplicating) is of
        Some i \<Rightarrow> Inl (GetPodHostname c (int i))
      | None \<Rightarrow> Inr (b \<or> (\<exists>i \<in> set is. cond_true c (GetPodHostname c (int i)) NodeConditionMaster)))"
proof (induction "is" arbitrary: c b)
  case (Cons i "is")
  let ?c = "fst (GetNodeStatusFor c (GetPodHostname c (int i)))"
  have "only_nodes c ?c" by (rule only_nodes_GetNodeStatusFor)
  then have "cond_true ?c (GetPodHostname ?c (int j)) ty = cond_true c (GetPodHostname c (int j)) ty"
    and "GetPodHostname ?c (int j) = GetPodHostname c (int j)" for j ty
    by (simp_all add: cond_true_def GetNodeStatusFor_node_cond only_nodes_sel)
  with Cons show ?case
    by (auto simp: Let_def case_prod_beta GetNodeStatusFor_cond split: option.splits)
qed simp

lemma ready_loop_node_cond: "node_cond (fst (ready_loop c is b)) n ty = node_cond c n ty"
  by (induction "is" arbitrary: c b)
    (auto simp: Let_def case_prod_beta GetNodeStatusFor_node_cond)

lemma find_None_set: "find P xs = None \<longleftrightarrow> (\<forall>x \<in> set xs. \<not> P x)"
  by (auto simp: find_None_iff)

definition topology_ready :: "mysql_cluster \<Rightarrow> int \<Rightarrow> bool" where
  "topology_ready c replicas \<longleftrightarrow>
     (\<forall>h \<in> set (hosts c replicas). cond_true c h NodeConditionMaster \<or> cond_true c h NodeConditionReplicating) \<and>
     ((\<exists>h \<in> set (hosts c replicas). cond_true c h NodeConditionMaster) \<or>
      cs_ReadOnly (mc_Spec c) \<or> replicas \<le> 0)"

lemma updateClusterReadyStatus_eq:
  "\<exists>c' r m. only_nodes c c' \<and> (\<forall>n ty. node_cond c' n ty = node_cond c n ty) \<and>
     updateClusterReadyStatus now replicas c =
       UpdateStatusCondition now c' ClusterConditionReady
         (truth (st_ReadyNodes (mc_Status c) = replicas \<and> topology_ready c replicas)) r m"
proof (cases "st_ReadyNodes (mc_Status c) = replicas")
  case False
  then show ?thesis by (auto simp: updateClusterReadyStatus_def intro: only_nodes_refl)
next
  case True
  let ?l = "ready_loop c [0..<nat replicas] False"
  have on: "only_nodes c (fst ?l)" and nc: "\<forall>n ty. node_cond (fst ?l) n ty = node_cond c n ty"
    by (simp_all add: only_nodes_ready_loop ready_loop_node_cond)
  show ?thesis
  proof (cases "snd ?l")
    case (Inl h)
    then have "\<not> topology_ready c replicas"
      by (auto simp: ready_loop_result topology_ready_def hosts_def find_Some_iff split: option.splits)
    with True Inl on nc show ?thesis
      by (auto simp: updateClusterReadyStatus_def case_prod_beta)
  next
    case (Inr b)
    then have "topology_ready c replicas \<longleftrightarrow> b \<or> cs_ReadOnly (mc_Spec c) \<or> replicas \<le> 0"
      by (auto simp: ready_loop_result topology_ready_def hosts_def find_None_set split: option.splits)
    moreover have "updateClusterReadyStatus now replicas c =
      (if \<not> b \<and> \<not> cs_ReadOnly (mc_Spec c) \<and> replicas > 0
       then UpdateStatusCondition now (fst ?l) ClusterConditionReady ConditionFalse ''NoMaster''
              ''Cluster has no designated master''
       else UpdateStatusCondition now (fst ?l) ClusterConditionReady ConditionTrue
              ''ClusterReady'' ''Cluster is ready'')"
      using True Inr only_nodes_sel(1) [OF on] by (simp add: updateClusterReadyStatus_def case_prod_beta)
    ultimately show ?thesis
      using True on nc by (intro exI [of _ "fst ?l"]) (auto simp: not_le)
  qed
qed

section \<open>The calls\<close>

lemma fold_call: "fold (\<lambda>x. call (f x)) xs ou = ou\<lparr>ou_Calls := ou_Calls ou @ map f xs\<rparr>"
  by (induction xs arbitrary: ou) (simp_all add: call_def)

lemma fold_call_filter:
  assumes "\<And>x ou. g x ou = (if P x then call (f x) ou else ou)"
  shows "fold g xs ou = ou\<lparr>ou_Calls := ou_Calls ou @ map f (filter P xs)\<rparr>"
  by (induction xs arbitrary: ou) (simp_all add: assms call_def)

text \<open>The node that is to be writable.\<close>

definition to_write :: "mysql_cluster \<Rightarrow> orc_instance option \<Rightarrow> orc_instance \<Rightarrow> bool" where
  "to_write c master inst \<longleftrightarrow>
     \<not> cs_ReadOnly (mc_Spec c) \<and> (\<exists>m. master = Some m \<and> host_of inst = host_of m)"

definition mode_calls :: "mysql_cluster \<Rightarrow> orc_instance list \<Rightarrow> orc_instance option \<Rightarrow> orc_call list" where
  "mode_calls c insts master =
     (if failoverInProgress c then []
      else map (\<lambda>i. if to_write c master i then SetHostWritable (oi_Key i) else SetHostReadOnly (oi_Key i))
             (filter (\<lambda>i. \<not> unsettled i \<and> oi_ReadOnly i = to_write c master i) insts))"

lemma fold_mode:
  assumes "\<And>x ou. ou_Cluster ou = c \<Longrightarrow> g x ou = (if P x then call (f x) ou else ou)" and "ou_Cluster ou = c"
  shows "fold g xs ou = ou\<lparr>ou_Calls := ou_Calls ou @ map f (filter P xs)\<rparr>"
  using assms(2) by (induction xs arbitrary: ou) (simp_all add: assms(1) call_def)

lemma markReadOnlyNodesInOrc_eq:
  "markReadOnlyNodesInOrc insts master ou =
     ou\<lparr>ou_Calls := ou_Calls ou @ mode_calls (ou_Cluster ou) insts master\<rparr>"
proof (cases master)
  case None
  then show ?thesis
    by (auto simp: markReadOnlyNodesInOrc_def mode_calls_def to_write_def setReadOnlyNode_def
        intro!: fold_mode [where c = "ou_Cluster ou"])
next
  case (Some m)
  then show ?thesis
    by (auto simp: markReadOnlyNodesInOrc_def mode_calls_def to_write_def setReadOnlyNode_def setWritableNode_def
        intro!: fold_mode [where c = "ou_Cluster ou"])
qed

lemma discoverNodesInOrc_eq:
  "discoverNodesInOrc keys ou =
     ou\<lparr>ou_Calls := ou_Calls ou @ map (\<lambda>k. Discover (ik_Hostname k) (ik_Port k)) keys\<rparr>"
  by (simp add: discoverNodesInOrc_def fold_call)

lemma forgetNodesFromOrc_eq:
  "forgetNodesFromOrc now keys ou =
     ou\<lparr>ou_Calls := ou_Calls ou @
        (if ready_longer_than now (ou_Cluster ou) forgetGraceTime \<or> mc_DeletionTimestamp (ou_Cluster ou) \<noteq> None
         then map (\<lambda>k. Forget (ik_Hostname k) (ik_Port k)) keys else [])\<rparr>"
  by (simp add: forgetNodesFromOrc_def fold_call)

lemma ack_loop_calls:
  "\<exists>n. ou_Calls (ack_loop svc comment rs ou) =
         ou_Calls ou @ map (\<lambda>r. AckRecovery (tr_Id r) comment) (take n rs) \<and>
       ou_Cluster (ack_loop svc comment rs ou) = ou_Cluster ou \<and>
       (n < length rs \<longrightarrow> (\<exists>cs i err. os_AckRecovery svc cs i comment = Some err))"
proof (induction svc comment rs ou rule: ack_loop.induct)
  case (2 svc comment r rs ou)
  show ?case
  proof (cases "os_AckRecovery svc (ou_Calls ou) (tr_Id r) comment")
    case (Some err)
    then show ?thesis by (intro exI [of _ 1]) (auto simp: call_def)
  next
    case None
    from "2.IH" [OF None] obtain n where n:
      "ou_Calls (ack_loop svc comment (r # rs) ou) =
         (ou_Calls ou @ [AckRecovery (tr_Id r) comment]) @ map (\<lambda>r. AckRecovery (tr_Id r) comment) (take n rs)"
      "ou_Cluster (ack_loop svc comment (r # rs) ou) = ou_Cluster ou"
      "n < length rs \<longrightarrow> (\<exists>cs i err. os_AckRecovery svc cs i comment = Some err)"
      using None by (auto simp: call_def)
    then show ?thesis by (intro exI [of _ "Suc n"]) simp
  qed
qed simp

lemma mode_calls_only_nodes: "only_nodes c c' \<Longrightarrow> mode_calls c' insts m = mode_calls c insts m"
  by (simp add: mode_calls_def to_write_def only_nodes_sel)

text \<open>The cluster before the ready condition is computed, and the one \<open>Sync\<close> leaves.\<close>

definition sync_nodes ::
    "time \<Rightarrow> int \<Rightarrow> orc_instance list \<Rightarrow> orc_instance option \<Rightarrow> mysql_cluster \<Rightarrow> mysql_cluster" where
  "sync_nodes now replicas insts master c =
     updateNodesStatus now insts master (removeNodeConditionNotInOrc now replicas insts c)"

definition sync_cluster ::
    "time \<Rightarrow> int \<Rightarrow> orc_instance list \<Rightarrow> orc_instance option \<Rightarrow> topology_recovery list \<Rightarrow>
     mysql_cluster \<Rightarrow> mysql_cluster" where
  "sync_cluster now replicas insts master recoveries c =
     updateFailoverAckStatus now recoveries (updateClusterReadyStatus now replicas
       (updateClusterReadOnlyStatus now insts (updateClusterFailoverInProgressStatus now master
         (sync_nodes now replicas insts master c))))"

definition found_recoveries :: "orc_service \<Rightarrow> mysql_cluster \<Rightarrow> topology_recovery list" where
  "found_recoveries svc c = (case os_AuditRecovery svc (GetClusterAlias c) of Inl err \<Rightarrow> [] | Inr rs \<Rightarrow> rs)"

lemma only_nodes_sync_nodes: "only_nodes c (sync_nodes now r insts m c)"
  unfolding sync_nodes_def by (rule only_nodes_trans [OF only_nodes_removeNode only_nodes_updateNodesStatus])

lemma Sync_split:
  assumes "Sync svc now ou = Inr ou'"
  obtains allInstances master replicas insts und rem n comment where
    "getFromOrchestrator svc (ou_Cluster ou) = Inr (allInstances, master)"
    "cs_Replicas (mc_Spec (ou_Cluster ou)) = Some replicas"
    "updateNodesInOrc (ou_Cluster ou) replicas allInstances = (insts, und, rem)"
    "ou_Cluster ou' = sync_cluster now replicas insts master (found_recoveries svc (ou_Cluster ou)) (ou_Cluster ou)"
    "ou_Calls ou' = ou_Calls ou @ map (\<lambda>k. Discover (ik_Hostname k) (ik_Port k)) und @
       mode_calls (ou_Cluster ou) insts master @
       (if ready_longer_than now (ou_Cluster ou') forgetGraceTime \<or> mc_DeletionTimestamp (ou_Cluster ou') \<noteq> None
        then map (\<lambda>k. Forget (ik_Hostname k) (ik_Port k)) rem else []) @
       map (\<lambda>r. AckRecovery (tr_Id r) comment)
         (take n (getRecoveriesToAck now (ou_Cluster ou') (found_recoveries svc (ou_Cluster ou))))"
    "n < length (getRecoveriesToAck now (ou_Cluster ou') (found_recoveries svc (ou_Cluster ou))) \<longrightarrow>
       (\<exists>cs i err. os_AckRecovery svc cs i comment = Some err)"
proof -
  let ?c = "ou_Cluster ou"
  from assms obtain allInstances master replicas where
    q: "getFromOrchestrator svc ?c = Inr (allInstances, master)" "cs_Replicas (mc_Spec ?c) = Some replicas"
    by (auto simp: Sync_def split: sum.splits option.splits)
  obtain insts und rem where u: "updateNodesInOrc ?c replicas allInstances = (insts, und, rem)"
    by (cases "updateNodesInOrc ?c replicas allInstances")
  let ?rem = "removeNodeConditionNotInOrc now replicas insts ?c"
  let ?recs = "found_recoveries svc ?c" and ?c' = "sync_cluster now replicas insts master (found_recoveries svc ?c) ?c"
  have on: "only_nodes ?c ?rem" by (rule only_nodes_removeNode)
  have recs: "(case os_AuditRecovery svc (GetClusterAlias ?rem) of Inl err \<Rightarrow> [] | Inr rs \<Rightarrow> rs) = ?recs"
    by (simp add: found_recoveries_def only_nodes_sel [OF on])
  define ou2 where "ou2 = ou\<lparr>ou_Cluster := ?c', ou_Calls := ou_Calls ou @
      map (\<lambda>k. Discover (ik_Hostname k) (ik_Port k)) und @ mode_calls ?c insts master @
       (if ready_longer_than now ?c' forgetGraceTime \<or> mc_DeletionTimestamp ?c' \<noteq> None
        then map (\<lambda>k. Forget (ik_Hostname k) (ik_Port k)) rem else [])\<rparr>"
  have "Sync svc now ou = Inr (acknowledgeRecoveries svc (getRecoveriesToAck now ?c' ?recs) ou2)"
    by (simp add: Sync_def q u discoverNodesInOrc_eq markReadOnlyNodesInOrc_eq forgetNodesFromOrc_eq upd_cluster_def
        recs mode_calls_only_nodes [OF on] sync_cluster_def sync_nodes_def ou2_def Let_def)
  with assms have eq: "ou' = acknowledgeRecoveries svc (getRecoveriesToAck now ?c' ?recs) ou2" by simp
  define comment where "comment = ''Statefulset '' @ [CHR 0x27] @ GetNameForResource (ou_Cluster ou2) StatefulSet @ [CHR 0x27] @
        '' is healthy for more than '' @ itoa recoveryGraceTime @ '' seconds''"
  from ack_loop_calls [of svc comment "getRecoveriesToAck now ?c' ?recs" ou2] eq obtain n where n:
    "ou_Calls ou' = ou_Calls ou2 @ map (\<lambda>r. AckRecovery (tr_Id r) comment) (take n (getRecoveriesToAck now ?c' ?recs))"
    "ou_Cluster ou' = ?c'"
    "n < length (getRecoveriesToAck now ?c' ?recs) \<longrightarrow> (\<exists>cs i err. os_AckRecovery svc cs i comment = Some err)"
    by (auto simp: acknowledgeRecoveries_def comment_def ou2_def)
  show thesis
    using that [of allInstances master replicas insts und rem comment n] q u n by (simp add: ou2_def)
qed

section \<open>The instances of the cluster\<close>

lemma GetPodHostname_inj: "GetPodHostname c (int i) = GetPodHostname c (int j) \<longleftrightarrow> i = j"
proof
  assume "GetPodHostname c (int i) = GetPodHostname c (int j)"
  then have "utoa i @ (CHR ''.'' # GetNameForResource c HeadlessSVC @ ''.'' @ mc_Namespace c) =
             utoa j @ (CHR ''.'' # GetNameForResource c HeadlessSVC @ ''.'' @ mc_Namespace c)"
    by (simp add: GetPodHostname_def itoa_def)
  then show "i = j" by simp
qed simp

lemma distinct_hosts: "distinct (hosts c replicas)"
  by (simp add: hosts_def distinct_map inj_on_def GetPodHostname_inj)

lemma discover_loop_ready:
  "map host_of (fst (discover_loop c insts is)) =
     filter (\<lambda>h. GetInstance insts h \<noteq> None) (map (\<lambda>i. GetPodHostname c (int i)) is)"
  by (induction "is") (auto simp: Let_def case_prod_beta split: option.splits dest: GetInstance_Some)

lemma discover_loop_sub: "set (fst (discover_loop c insts is)) \<subseteq> set insts"
  by (induction "is") (auto simp: Let_def case_prod_beta split: option.splits dest: GetInstance_Some)

lemma GetInstance_None: "GetInstance insts h = None \<longleftrightarrow> h \<notin> host_of ` set insts"
  by (auto simp: GetInstance_def find_None_iff)

lemma updateNodesInOrc_insts:
  assumes "updateNodesInOrc c replicas allInstances = (insts, und, rem)"
  shows "map host_of insts = filter (\<lambda>h. h \<in> host_of ` set allInstances) (hosts c replicas)"
    and "distinct (map host_of insts)" and "set insts \<subseteq> set allInstances"
    and "rem = (if mc_DeletionTimestamp c = None
                then map oi_Key (filter (\<lambda>i. host_of i \<notin> set (hosts c replicas)) allInstances)
                else map oi_Key allInstances)"
proof -
  from assms have i: "insts = fst (discover_loop c allInstances [0..<nat replicas])"
    by (auto simp: updateNodesInOrc_def Let_def case_prod_beta split: if_splits)
  show m: "map host_of insts = filter (\<lambda>h. h \<in> host_of ` set allInstances) (hosts c replicas)"
    using discover_loop_ready [of c allInstances "[0..<nat replicas]"] i
    by (simp add: hosts_def GetInstance_None del: not_None_eq)
  show "distinct (map host_of insts)" using distinct_hosts [of c replicas] m by simp
  show "set insts \<subseteq> set allInstances" using i discover_loop_sub by blast
  have "GetInstance insts (host_of j) = None \<longleftrightarrow> host_of j \<notin> set (hosts c replicas)" if "j \<in> set allInstances" for j
  proof -
    have "host_of ` set insts = set (map host_of insts)" by simp
    also have "\<dots> = set (hosts c replicas) \<inter> host_of ` set allInstances" unfolding m by auto
    finally show ?thesis using that by (simp add: GetInstance_None)
  qed
  then have "filter (\<lambda>i. GetInstance insts (host_of i) = None) allInstances =
      filter (\<lambda>i. host_of i \<notin> set (hosts c replicas)) allInstances"
    by (auto intro: filter_cong)
  then show "rem = (if mc_DeletionTimestamp c = None
                then map oi_Key (filter (\<lambda>i. host_of i \<notin> set (hosts c replicas)) allInstances)
                else map oi_Key allInstances)"
    using assms i by (auto simp: updateNodesInOrc_def Let_def case_prod_beta split: if_splits)
qed


section \<open>Conditions of the cluster after a run\<close>

lemma ready_longer_after_update:
  assumes "ready_longer_than now (UpdateStatusCondition now c ClusterConditionReady s r m) g" and "0 \<le> g"
  shows "ready_longer_than now c g \<and> s = ConditionTrue"
  using assms
  by (auto simp: ready_longer_than_def GetClusterCondition_update split: option.splits if_splits)

lemma ready_longer_only_nodes: "only_nodes c c' \<Longrightarrow> ready_longer_than now c' g = ready_longer_than now c g"
  by (simp add: ready_longer_than_def only_nodes_sel)

lemma ready_longer_other:
  "ty \<noteq> ClusterConditionReady \<Longrightarrow>
     ready_longer_than now (UpdateStatusCondition t c ty s r m) g = ready_longer_than now c g"
  by (simp add: ready_longer_than_def GetClusterCondition_update)

lemma updateFailoverAckStatus_eq:
  "\<exists>r m. updateFailoverAckStatus now recs c = UpdateStatusCondition now c ClusterConditionFailoverAck
     (truth (\<exists>x \<in> set recs. \<not> tr_Acknowledged x)) r m"
  by (cases "\<exists>x \<in> set recs. \<not> tr_Acknowledged x")
    (auto simp: updateFailoverAckStatus_def Let_def filter_empty_conv)

lemma updateClusterReadOnlyStatus_eq:
  "\<exists>r m. updateClusterReadOnlyStatus now insts c = UpdateStatusCondition now c ClusterConditionReadOnly
     (truth (\<forall>i \<in> set insts. oi_ReadOnly i)) r m"
proof (cases "\<forall>i \<in> set insts. oi_ReadOnly i")
  case True
  then show ?thesis by (auto simp: updateClusterReadOnlyStatus_def Let_def filter_empty_conv)
next
  case False
  then have ne: "filter (\<lambda>i. \<not> oi_ReadOnly i) insts \<noteq> []" by (auto simp: filter_empty_conv)
  from False have "(\<forall>i \<in> set insts. oi_ReadOnly i) = False" by blast
  then have t: "truth (\<forall>i \<in> set insts. oi_ReadOnly i) = ConditionFalse" by (simp only: truth.simps)
  show ?thesis
    unfolding t updateClusterReadOnlyStatus_def Let_def using ne
    by (simp only: map_is_Nil_conv if_False) (intro exI, rule refl)
qed

lemma updateFip_eq:
  "updateClusterFailoverInProgressStatus now master c = c \<or>
   (\<exists>r m. updateClusterFailoverInProgressStatus now master c =
     UpdateStatusCondition now c ClusterConditionFailoverInProgress ConditionFalse r m)"
  by (auto simp: updateClusterFailoverInProgressStatus_def split: option.splits)

lemma node_cond_UpdateStatusCondition [simp]:
  "node_cond (UpdateStatusCondition t c ty s r m) n nty = node_cond c n nty"
  by (simp add: node_cond_def node_named_def)

lemma topology_ready_UpdateStatusCondition [simp]:
  "topology_ready (UpdateStatusCondition t c ty s r m) replicas = topology_ready c replicas"
  by (simp add: topology_ready_def hosts_def GetPodHostname_def GetNameForResource_def cond_true_def)

text \<open>The ready condition of the cluster that a run leaves.\<close>

lemma sync_cluster_ready:
  assumes "ready_longer_than now (sync_cluster now replicas insts master recs c) g" and "0 \<le> g"
  shows "ready_longer_than now c g"
proof -
  let ?n = "sync_nodes now replicas insts master c"
  let ?f = "updateClusterFailoverInProgressStatus now master ?n"
  let ?o = "updateClusterReadOnlyStatus now insts ?f"
  from assms have "ready_longer_than now (updateClusterReadyStatus now replicas ?o) g"
    using updateFailoverAckStatus_eq [of now recs "updateClusterReadyStatus now replicas ?o"]
    by (auto simp: sync_cluster_def ready_longer_other)
  then have "ready_longer_than now ?o g"
  proof -
    assume r: "ready_longer_than now (updateClusterReadyStatus now replicas ?o) g"
    obtain cr t rr mr where on: "only_nodes ?o cr" and "updateClusterReadyStatus now replicas ?o =
        UpdateStatusCondition now cr ClusterConditionReady t rr mr"
      using updateClusterReadyStatus_eq [of ?o now replicas] by blast
    with r have "ready_longer_than now cr g" using ready_longer_after_update [OF _ assms(2)] by simp
    then show ?thesis by (simp add: ready_longer_only_nodes [OF on])
  qed
  then have "ready_longer_than now ?f g"
    using updateClusterReadOnlyStatus_eq [of now insts ?f] by (auto simp: ready_longer_other)
  then have "ready_longer_than now ?n g"
    using updateFip_eq [of now master ?n] by (auto simp: ready_longer_other)
  then show ?thesis using ready_longer_only_nodes [OF only_nodes_sync_nodes] by simp
qed

lemma sync_cluster_status:
  fixes now replicas insts master recs c
  defines "c' \<equiv> sync_cluster now replicas insts master recs c"
    and "n \<equiv> sync_nodes now replicas insts master c"
  shows "map_option cc_Status (GetClusterCondition c' ClusterConditionReady) =
           Some (truth (st_ReadyNodes (mc_Status c) = replicas \<and> topology_ready n replicas))"
    and "map_option cc_Status (GetClusterCondition c' ClusterConditionReadOnly) =
           Some (truth (\<forall>i \<in> set insts. oi_ReadOnly i))"
    and "map_option cc_Status (GetClusterCondition c' ClusterConditionFailoverAck) =
           Some (truth (\<exists>x \<in> set recs. \<not> tr_Acknowledged x))"
    and "mc_DeletionTimestamp c' = mc_DeletionTimestamp c"
    and "mc_Spec c' = mc_Spec c"
    and "node_cond c' h ty = node_cond n h ty"
proof -
  let ?f = "updateClusterFailoverInProgressStatus now master n"
  let ?o = "updateClusterReadOnlyStatus now insts ?f"
  let ?r = "updateClusterReadyStatus now replicas ?o"
  have on: "only_nodes c n" unfolding n_def by (rule only_nodes_sync_nodes)
  obtain ra ma where a: "c' = UpdateStatusCondition now ?r ClusterConditionFailoverAck
      (truth (\<exists>x \<in> set recs. \<not> tr_Acknowledged x)) ra ma"
    using updateFailoverAckStatus_eq [of now recs ?r] unfolding c'_def sync_cluster_def n_def by blast
  obtain cr rr mr where nc: "\<forall>n ty. node_cond cr n ty = node_cond ?o n ty" and r: "only_nodes ?o cr" "?r = UpdateStatusCondition now cr ClusterConditionReady
      (truth (st_ReadyNodes (mc_Status ?o) = replicas \<and> topology_ready ?o replicas)) rr mr"
    using updateClusterReadyStatus_eq [of ?o now replicas] by blast
  obtain ro mo where o: "?o = UpdateStatusCondition now ?f ClusterConditionReadOnly
      (truth (\<forall>i \<in> set insts. oi_ReadOnly i)) ro mo"
    using updateClusterReadOnlyStatus_eq [of now insts ?f] by blast
  have f: "st_ReadyNodes (mc_Status ?f) = st_ReadyNodes (mc_Status n)" "topology_ready ?f replicas = topology_ready n replicas"
    "mc_DeletionTimestamp ?f = mc_DeletionTimestamp n" "mc_Spec ?f = mc_Spec n"
    using updateFip_eq [of now master n] by auto
  show "map_option cc_Status (GetClusterCondition c' ClusterConditionReady) =
           Some (truth (st_ReadyNodes (mc_Status c) = replicas \<and> topology_ready n replicas))"
    using f by (simp add: a r(2) GetClusterCondition_update) (simp add: o only_nodes_sel [OF on])
  show "map_option cc_Status (GetClusterCondition c' ClusterConditionReadOnly) =
           Some (truth (\<forall>i \<in> set insts. oi_ReadOnly i))"
    by (simp add: a r(2) GetClusterCondition_update only_nodes_sel [OF r(1)]) (simp add: o GetClusterCondition_update)
  show "map_option cc_Status (GetClusterCondition c' ClusterConditionFailoverAck) =
           Some (truth (\<exists>x \<in> set recs. \<not> tr_Acknowledged x))"
    by (simp add: a GetClusterCondition_update)
  show "mc_DeletionTimestamp c' = mc_DeletionTimestamp c" "mc_Spec c' = mc_Spec c"
    using f by (simp_all add: a r(2) only_nodes_sel [OF r(1)] only_nodes_sel [OF on])
      (simp_all add: o only_nodes_sel [OF on])
  have "node_cond ?f h ty = node_cond n h ty" using updateFip_eq [of now master n] by auto
  then show "node_cond c' h ty = node_cond n h ty" by (simp add: a r(2) nc) (simp add: o)
qed


section \<open>Conditions of the nodes after a run\<close>

definition status_of :: "mysql_cluster \<Rightarrow> string \<Rightarrow> node_condition_type \<Rightarrow> condition_status option" where
  "status_of c h ty = map_option nc_Status (node_cond c h ty)"

lemma cond_true_status: "cond_true c h ty \<longleftrightarrow> status_of c h ty = Some ConditionTrue"
  by (auto simp: cond_true_def status_of_def)

lemma status_of_setNode [simp]:
  "status_of (setNode now h ty s c) h' ty' = (if h' = h \<and> ty' = ty then Some s else status_of c h' ty')"
  by (simp add: status_of_def setNode_def node_cond_update)

text \<open>The status a reported instance gives to the conditions of its node.\<close>

definition reported ::
    "int \<Rightarrow> orc_instance option \<Rightarrow> orc_instance \<Rightarrow> node_condition_type \<Rightarrow> condition_status option \<Rightarrow>
     condition_status option" where
  "reported latency master inst ty old =
     (if \<not> oi_IsRecentlyChecked inst
      then if \<not> oi_IsLastCheckValid inst \<and> ty \<noteq> NodeConditionReadOnly then Some ConditionUnknown else old
      else let is_m = (\<exists>m. master = Some m \<and> host_of inst = host_of m) in
        Some (case ty of
            NodeConditionMaster \<Rightarrow> truth is_m
          | NodeConditionReplicating \<Rightarrow> truth (oi_Slave_SQL_Running inst \<and> oi_Slave_IO_Running inst)
          | NodeConditionReadOnly \<Rightarrow> truth (oi_ReadOnly inst)
          | NodeConditionLagged \<Rightarrow>
              if is_m then ConditionFalse
              else (case oi_SlaveLagSeconds inst of
                      None \<Rightarrow> ConditionUnknown
                    | Some lag \<Rightarrow> truth (lag > latency))))"

lemma updateNodeStatus_status:
  "status_of (updateNodeStatus now latency master inst c) h ty =
     (if h = host_of inst then reported latency master inst ty (status_of c h ty) else status_of c h ty)"
proof -
  have m: "(case master of None \<Rightarrow> False | Some m \<Rightarrow> host_of inst = host_of m) =
      (\<exists>m. master = Some m \<and> host_of inst = host_of m)"
    by (simp split: option.splits)
  show ?thesis
    unfolding updateNodeStatus_def reported_def Let_def m
    by (cases ty) (auto simp del: ex_simps split: option.splits)
qed

lemma fold_updateNodeStatus:
  assumes "distinct (map host_of insts)"
  shows "status_of (fold (updateNodeStatus now latency master) insts c) h ty =
     (case GetInstance insts h of
        None \<Rightarrow> status_of c h ty
      | Some inst \<Rightarrow> reported latency master inst ty (status_of c h ty))"
  using assms
proof (induction insts arbitrary: c)
  case (Cons i insts)
  show ?case
  proof (cases "host_of i = h")
    case True
    with Cons.prems have "GetInstance insts h = None" by (auto simp: GetInstance_None)
    with Cons True show ?thesis by (simp add: updateNodeStatus_status) (simp add: GetInstance_def)
  next
    case False
    then have "status_of (updateNodeStatus now latency master i c) h ty = status_of c h ty"
      by (auto simp: updateNodeStatus_status)
    with Cons False show ?thesis by (auto simp: GetInstance_def split: option.splits)
  qed
qed (simp add: GetInstance_def)

lemma find_filter_named:
  "(\<And>ns. P ns = Q (ns_Name ns)) \<Longrightarrow>
     find (\<lambda>ns. ns_Name ns = h) (filter P nodes) = (if Q h then find (\<lambda>ns. ns_Name ns = h) nodes else None)"
  by (induction nodes) auto

definition keep_host :: "mysql_cluster \<Rightarrow> int \<Rightarrow> string \<Rightarrow> bool" where
  "keep_host c replicas h = keep_node c replicas \<lparr>ns_Name = h, ns_Conditions = []\<rparr>"

lemma keep_node_name: "keep_node c replicas ns = keep_host c replicas (ns_Name ns)"
  by (simp add: keep_node_def keep_host_def shouldRemoveOldNode_def split: option.splits)

lemma keep_host_only_nodes: "only_nodes c c' \<Longrightarrow> keep_host c' r h = keep_host c r h"
  by (simp add: keep_host_def keep_node_def shouldRemoveOldNode_def only_nodes_sel split: option.splits)

definition all_unknown :: "time \<Rightarrow> string \<Rightarrow> mysql_cluster \<Rightarrow> mysql_cluster" where
  "all_unknown now name c =
     setNode now name NodeConditionReadOnly ConditionUnknown
       (setNode now name NodeConditionMaster ConditionUnknown
         (setNode now name NodeConditionReplicating ConditionUnknown
           (setNode now name NodeConditionLagged ConditionUnknown c)))"

lemma status_of_all_unknown [simp]:
  "status_of (all_unknown now name c) h ty = (if h = name then Some ConditionUnknown else status_of c h ty)"
  by (cases ty) (simp_all add: all_unknown_def)

lemma names_setNode:
  "name \<in> ns_Name ` set (nodes_of c) \<Longrightarrow>
     map ns_Name (nodes_of (setNode now name ty s c)) = map ns_Name (nodes_of c)"
  by (simp add: setNode_def UpdateNodeConditionStatus_names)

lemma names_all_unknown:
  assumes "name \<in> set (map ns_Name (nodes_of c))"
  shows "map ns_Name (nodes_of (all_unknown now name c)) = map ns_Name (nodes_of c)"
  using assms by (simp add: all_unknown_def names_setNode flip: set_map)

lemma fold_all_unknown:
  assumes "set names \<subseteq> set (map ns_Name (nodes_of c))"
  shows "map ns_Name (nodes_of (fold (\<lambda>n c. if P n then all_unknown now n c else c) names c)) =
           map ns_Name (nodes_of c) \<and>
         status_of (fold (\<lambda>n c. if P n then all_unknown now n c else c) names c) h ty =
           (if h \<in> set names \<and> P h then Some ConditionUnknown else status_of c h ty)"
  using assms
proof (induction names arbitrary: c)
  case (Cons n names)
  let ?c = "if P n then all_unknown now n c else c"
  have nm: "map ns_Name (nodes_of ?c) = map ns_Name (nodes_of c)" using Cons.prems names_all_unknown by simp
  from Cons.IH [of ?c] Cons.prems nm show ?case by auto
qed simp

lemma removeNode_fold:
  "removeNodeConditionNotInOrc now replicas insts c =
     (let c1 = fold (\<lambda>n c. if GetInstance insts n = None then all_unknown now n c else c) (map ns_Name (nodes_of c)) c
      in set_nodes (filter (\<lambda>ns. keep_host c replicas (ns_Name ns)) (nodes_of c1)) c1)"
proof -
  let ?c1 = "fold (\<lambda>n c. if GetInstance insts n = None then all_unknown now n c else c) (map ns_Name (nodes_of c)) c"
  have "only_nodes c ?c1" by (rule only_nodes_fold) (auto simp: all_unknown_def intro!: only_nodes_setNodeI)
  then have "keep_node ?c1 replicas = (\<lambda>ns. keep_host c replicas (ns_Name ns))"
    by (auto simp: keep_node_name keep_host_only_nodes fun_eq_iff)
  then show ?thesis
    using compact_all [of "keep_node ?c1 replicas" "nodes_of ?c1"]
    unfolding removeNodeConditionNotInOrc_def all_unknown_def [symmetric] Let_def case_prod_beta by simp
qed

lemma removeNode_names:
  "map ns_Name (nodes_of (removeNodeConditionNotInOrc now replicas insts c)) =
     filter (keep_host c replicas) (map ns_Name (nodes_of c))"
proof -
  let ?c1 = "fold (\<lambda>n c. if GetInstance insts n = None then all_unknown now n c else c) (map ns_Name (nodes_of c)) c"
  have "map ns_Name (filter (\<lambda>ns. keep_host c replicas (ns_Name ns)) (nodes_of ?c1)) =
      filter (keep_host c replicas) (map ns_Name (nodes_of ?c1))"
    by (simp add: filter_map o_def)
  then show ?thesis
    using fold_all_unknown [of "map ns_Name (nodes_of c)" c "\<lambda>n. GetInstance insts n = None" now]
    by (simp add: removeNode_fold Let_def)
qed

lemma removeNode_status:
  "status_of (removeNodeConditionNotInOrc now replicas insts c) h ty =
     (if h \<in> set (map ns_Name (nodes_of c)) \<and> keep_host c replicas h
      then if GetInstance insts h = None then Some ConditionUnknown else status_of c h ty
      else None)"
proof -
  let ?c1 = "fold (\<lambda>n c. if GetInstance insts n = None then all_unknown now n c else c) (map ns_Name (nodes_of c)) c"
  let ?r = "removeNodeConditionNotInOrc now replicas insts c"
  have "node_named ?r h = (if keep_host c replicas h then node_named ?c1 h else None)"
    by (simp add: removeNode_fold Let_def node_named_def find_filter_named)
  then have "status_of ?r h ty = (if keep_host c replicas h then status_of ?c1 h ty else None)"
    by (simp add: status_of_def node_cond_def)
  moreover have "status_of c h ty = None" if "h \<notin> set (map ns_Name (nodes_of c))"
  proof -
    from that have "node_named c h = None" by (auto simp: node_named_def find_None_iff)
    then show ?thesis by (simp add: status_of_def node_cond_def)
  qed
  ultimately show ?thesis
    using fold_all_unknown [of "map ns_Name (nodes_of c)" c "\<lambda>n. GetInstance insts n = None" now h ty] by auto
qed

section \<open>Host names\<close>

definition dns_name :: "string \<Rightarrow> bool" where
  "dns_name s \<longleftrightarrow> s \<noteq> [] \<and> list_all is_word_or_dash s"

lemma digit_word [simp]: "is_digit c \<Longrightarrow> is_word_or_dash c"
  by (simp add: is_word_or_dash_def)

lemma dot_not_word [simp]: "\<not> is_word_or_dash (CHR ''.'')"
  by (simp add: is_word_or_dash_def is_digit_def)

lemma dns_no_dot: "dns_name s \<Longrightarrow> CHR ''.'' \<notin> set s"
  by (auto simp: dns_name_def list_all_iff)

lemma ordinal_part_pod:
  assumes "dns_name n"
  shows "ordinal_part (n @ ''-mysql-'' @ utoa i) = Some (utoa i)"
proof -
  have "last_index_char (CHR ''-'') ((n @ ''-mysql'') @ CHR ''-'' # utoa i) = Some (length (n @ ''-mysql''))"
    by (rule last_index_char_append) simp
  then have li: "last_index_char (CHR ''-'') (n @ ''-mysql-'' @ utoa i) = Some (length n + 6)" by simp
  have t: "take (Suc (length n + 6)) (n @ ''-mysql-'' @ utoa i) = n @ ''-mysql-''"
    and d: "drop (Suc (length n + 6)) (n @ ''-mysql-'' @ utoa i) = utoa i" by simp_all
  have "list_all is_word_or_dash (n @ ''-mysql-'')"
    using assms by (simp add: dns_name_def is_word_or_dash_def)
  moreover have "has_suffix (n @ ''-mysql-'') ''-mysql-''"
    by (simp add: has_suffix_def suffix_def)
  ultimately show ?thesis
    unfolding ordinal_part_def li option.case Let_def t d
    using assms utoa_digits [of i] by (simp add: dns_name_def)
qed

lemma indexInSts_pod:
  assumes "dns_name (mc_Name c)" and "dns_name (mc_Namespace c)" and "int i < 2 ^ 31"
  shows "indexInSts (GetPodHostname c (int i)) = Some (int i)"
proof -
  let ?s1 = "mc_Name c @ ''-mysql-'' @ utoa i"
  have "GetPodHostname c (int i) = ?s1 @ CHR ''.'' # ''mysql'' @ CHR ''.'' # mc_Namespace c"
    by (simp add: GetPodHostname_def GetNameForResource_def HeadlessSVCName_def itoa_def)
  moreover have "CHR ''.'' \<notin> set ?s1" using dns_no_dot [OF assms(1)] by simp
  ultimately have sp: "split_dot (GetPodHostname c (int i)) = [?s1, ''mysql'', mc_Namespace c]"
    using dns_no_dot [OF assms(2)] by (simp add: split_dot_append split_dot_no_dot del: append_Cons append_assoc)
  have "atoi (utoa i) = Some (int i)" using assms(3) by (intro atoi_utoa) (simp add: max_int64_def)
  moreover have "to_int32 (int i) = int i" using assms(3) by (intro to_int32_id) auto
  moreover have "has_suffix ''mysql'' ''mysql''" by (simp add: has_suffix_def)
  moreover have "list_all is_word_or_dash ''mysql''" by (simp add: is_word_or_dash_def)
  ultimately show ?thesis
    using assms(2) ordinal_part_pod [OF assms(1), of i] unfolding indexInSts_def sp
    by (simp add: dns_name_def)
qed

section \<open>Finalizers\<close>

lemma remove_loop_append:
  "remove_loop f (xs @ ys) arr len =
     (case remove_loop f xs arr len of None \<Rightarrow> None | Some (a, l) \<Rightarrow> remove_loop f ys a l)"
  by (induction xs arbitrary: arr len) auto

lemma remove_loop_absent: "\<forall>i \<in> set is. arr ! i \<noteq> f \<Longrightarrow> remove_loop f is arr len = Some (arr, len)"
  by (induction "is") auto

lemma removeFinalizer_distinct:
  assumes "distinct fs"
  shows "removeFinalizer fs f = Some (filter (\<lambda>x. x \<noteq> f) fs)"
proof (cases "f \<in> set fs")
  case False
  then have "remove_loop f [0..<length fs] fs (length fs) = Some (fs, length fs)"
    by (intro remove_loop_absent) auto
  moreover have "filter (\<lambda>x. x \<noteq> f) fs = fs" using False by (simp add: filter_id_conv) blast
  ultimately show ?thesis by (simp add: removeFinalizer_def)
next
  case True
  then obtain as bs where fs: "fs = as @ f # bs" by (meson split_list)
  with assms have nin: "f \<notin> set as" "f \<notin> set bs" by auto
  let ?k = "length as" and ?n = "length fs"
  have "[0..<?n] = [0..<?k] @ [?k..<?n]"
    using fs upt_add_eq_append [of 0 ?k "Suc (length bs)"] by simp
  then have "[0..<?n] = [0..<?k] @ ?k # [Suc ?k..<?n]"
    using fs upt_conv_Cons [of ?k ?n] by simp
  moreover have "remove_loop f [0..<?k] fs ?n = Some (fs, ?n)"
    using nin fs by (intro remove_loop_absent) (auto simp: nth_append)
  moreover have "remove_loop f (?k # [Suc ?k..<?n]) fs ?n =
      remove_loop f [Suc ?k..<?n] (as @ bs @ drop (?n - 1) fs) (?n - 1)"
    using fs by simp
  moreover have "remove_loop f [Suc ?k..<?n] (as @ bs @ drop (?n - 1) fs) (?n - 1) =
      Some (as @ bs @ drop (?n - 1) fs, ?n - 1)"
  proof (intro remove_loop_absent ballI)
    fix i assume i: "i \<in> set [Suc ?k..<?n]"
    then have "bs \<noteq> []" using fs by auto
    then obtain cs x where bs: "bs = cs @ [x]" by (cases bs rule: rev_exhaust) auto
    have x: "drop (?n - 1) fs = [x]" by (simp add: fs bs)
    have "set (bs @ drop (?n - 1) fs) \<subseteq> set bs" unfolding x unfolding bs by auto
    moreover have "(as @ bs @ drop (?n - 1) fs) ! i \<in> set (bs @ drop (?n - 1) fs)"
    proof -
      have "(as @ bs @ drop (?n - 1) fs) ! i = (bs @ drop (?n - 1) fs) ! (i - ?k)"
        using i by (simp add: nth_append)
      moreover have "i - ?k < length (bs @ drop (?n - 1) fs)" unfolding x using i fs by auto
      ultimately show ?thesis using nth_mem by metis
    qed
    ultimately show "(as @ bs @ drop (?n - 1) fs) ! i \<noteq> f" using nin by auto
  qed
  ultimately have "removeFinalizer fs f = Some (take (?n - 1) (as @ bs @ drop (?n - 1) fs))"
    by (simp add: removeFinalizer_def remove_loop_append)
  also have "take (?n - 1) (as @ bs @ drop (?n - 1) fs) = as @ bs" using fs by simp
  also have "as @ bs = filter (\<lambda>x. x \<noteq> f) fs"
  proof -
    have "filter (\<lambda>x. x \<noteq> f) as = as" "filter (\<lambda>x. x \<noteq> f) bs = bs"
      using nin by (auto intro!: filter_True)
    then show ?thesis by (simp add: fs)
  qed
  finally show ?thesis .
qed


section \<open>More on the instances\<close>

lemma GetInstance_host: "GetInstance insts h = Some i \<Longrightarrow> GetInstance insts (host_of i) = Some i"
  using GetInstance_Some [of insts h i] by simp

lemma discover_loop_get:
  "i \<in> set (fst (discover_loop c insts is)) \<Longrightarrow> GetInstance insts (host_of i) = Some i"
  by (induction "is")
    (auto simp: Let_def case_prod_beta split: option.splits if_splits intro: GetInstance_host)

lemma GetInstance_insts:
  assumes "updateNodesInOrc c replicas allInstances = (insts, und, rem)" and "h \<in> set (hosts c replicas)"
  shows "GetInstance insts h = GetInstance allInstances h"
proof -
  have get: "GetInstance allInstances (host_of i) = Some i" if "i \<in> set insts" for i
    using assms(1) that discover_loop_get [of i c allInstances "[0..<nat replicas]"]
    by (auto simp: updateNodesInOrc_def Let_def case_prod_beta split: if_splits)
  have m: "map host_of insts = filter (\<lambda>h. h \<in> host_of ` set allInstances) (hosts c replicas)"
    by (rule updateNodesInOrc_insts [OF assms(1)])
  show ?thesis
  proof (cases "GetInstance allInstances h")
    case None
    then have "h \<notin> host_of ` set allInstances" by (simp add: GetInstance_None)
    then have "h \<notin> set (map host_of insts)" unfolding m by auto
    then have "GetInstance insts h = None" by (auto simp: GetInstance_None)
    with None show ?thesis by simp
  next
    case (Some i)
    then have "h \<in> set (map host_of insts)" unfolding m using assms(2) GetInstance_Some by fastforce
    then have "GetInstance insts h \<noteq> None" by (auto simp: GetInstance_None)
    then obtain j where j: "GetInstance insts h = Some j" by auto
    with get [of j] GetInstance_Some [OF j] show ?thesis by auto
  qed
qed

lemma Sync_total:
  assumes "getFromOrchestrator svc (ou_Cluster ou) = Inr x" and "cs_Replicas (mc_Spec (ou_Cluster ou)) = Some r"
  obtains ou' where "Sync svc now ou = Inr ou'"
proof -
  have "\<exists>ou'. Sync svc now ou = Inr ou'"
    using assms by (cases x) (simp add: Sync_def Let_def case_prod_beta)
  then show thesis using that by blast
qed

lemma mode_calls_write:
  assumes "SetHostWritable k \<in> set (mode_calls c insts master)"
  obtains i m where "master = Some m" "i \<in> set insts" "k = oi_Key i" "host_of i = host_of m"
    "oi_ReadOnly i" "\<not> unsettled i" "\<not> cs_ReadOnly (mc_Spec c)" "\<not> failoverInProgress c"
  using assms by (auto simp: mode_calls_def to_write_def split: if_splits)

fun is_write :: "orc_call \<Rightarrow> bool" where
  "is_write (SetHostWritable k) = True"
| "is_write _ = False"

lemma is_write_maps [simp]:
  "filter is_write (map (\<lambda>k. Discover (f k) (g k)) xs) = []"
  "filter is_write (map (\<lambda>k. Forget (f k) (g k)) xs) = []"
  "filter is_write (map (\<lambda>k. AckRecovery (h k) s) ys) = []"
  by (simp_all add: filter_empty_conv)

lemma mode_calls_one_write:
  assumes "distinct (map host_of insts)"
  shows "length (filter is_write (mode_calls c insts master)) \<le> 1"
proof -
  have w: "filter is_write (mode_calls c insts master) =
      (if failoverInProgress c then [] else map (\<lambda>i. SetHostWritable (oi_Key i))
        (filter (\<lambda>i. \<not> unsettled i \<and> oi_ReadOnly i \<and> to_write c master i) insts))"
    by (induction insts) (auto simp: mode_calls_def)
  let ?w = "filter (\<lambda>i. \<not> unsettled i \<and> oi_ReadOnly i \<and> to_write c master i) insts"
  have "distinct (map host_of ?w)" using assms by (simp add: distinct_map_filter)
  moreover have "set (map host_of ?w) \<subseteq> (case master of Some m \<Rightarrow> {host_of m} | None \<Rightarrow> {})"
    by (auto simp: to_write_def split: option.splits)
  then have "card (set (map host_of ?w)) \<le> 1"
  proof (cases master)
    case (Some m)
    assume "set (map host_of ?w) \<subseteq> (case master of Some m \<Rightarrow> {host_of m} | None \<Rightarrow> {})"
    with Some have "card (set (map host_of ?w)) \<le> card {host_of m}" by (intro card_mono) simp_all
    then show ?thesis by simp
  qed simp
  ultimately have "length (map host_of ?w) \<le> 1" using distinct_card by metis
  then have "length ?w \<le> 1" by simp
  then show ?thesis by (simp add: w)
qed

section \<open>The state after a run\<close>

lemma sync_nodes_status:
  assumes "distinct (map host_of insts)"
  shows "status_of (sync_nodes now replicas insts master c) h ty =
     (let old = status_of (removeNodeConditionNotInOrc now replicas insts c) h ty;
          latency = (case cs_MaxSlaveLatency (mc_Spec c) of Some l \<Rightarrow> l | None \<Rightarrow> defaultMaxSlaveLatency)
      in case GetInstance insts h of None \<Rightarrow> old | Some inst \<Rightarrow> reported latency master inst ty old)"
  using fold_updateNodeStatus [OF assms]
  by (simp add: sync_nodes_def updateNodesStatus_def Let_def only_nodes_sel(1) [OF only_nodes_removeNode])

lemma sync_cluster_ready_time:
  assumes "GetClusterCondition c ClusterConditionReady = Some old"
    and "cc_Status old = truth (st_ReadyNodes (mc_Status c) = replicas \<and>
           topology_ready (sync_nodes now replicas insts master c) replicas)"
  shows "ready_longer_than t (sync_cluster now replicas insts master recs c) g = ready_longer_than t c g"
proof -
  let ?n = "sync_nodes now replicas insts master c"
  let ?f = "updateClusterFailoverInProgressStatus now master ?n"
  let ?o = "updateClusterReadOnlyStatus now insts ?f"
  let ?r = "updateClusterReadyStatus now replicas ?o"
  have on: "only_nodes c ?n" by (rule only_nodes_sync_nodes)
  have f: "GetClusterCondition ?f ClusterConditionReady = Some old"
    "st_ReadyNodes (mc_Status ?f) = st_ReadyNodes (mc_Status c)" "topology_ready ?f replicas = topology_ready ?n replicas"
    using updateFip_eq [of now master ?n] assms(1) by (auto simp: GetClusterCondition_update only_nodes_sel [OF on])
  have o: "GetClusterCondition ?o ClusterConditionReady = Some old"
    "st_ReadyNodes (mc_Status ?o) = st_ReadyNodes (mc_Status c)" "topology_ready ?o replicas = topology_ready ?n replicas"
    using updateClusterReadOnlyStatus_eq [of now insts ?f] f by (auto simp: GetClusterCondition_update)
  obtain cr rr mr where cr: "only_nodes ?o cr" "?r = UpdateStatusCondition now cr ClusterConditionReady
      (truth (st_ReadyNodes (mc_Status ?o) = replicas \<and> topology_ready ?o replicas)) rr mr"
    using updateClusterReadyStatus_eq [of ?o now replicas] by blast
  have "ready_longer_than t ?r g = ready_longer_than t c g"
    unfolding cr(2) o
    using assms by (simp add: ready_longer_than_def GetClusterCondition_update only_nodes_sel [OF cr(1)] o)
  then show ?thesis
    using updateFailoverAckStatus_eq [of now recs ?r] by (auto simp: sync_cluster_def ready_longer_other)
qed

section \<open>A concrete topology\<close>

definition ref_inst :: "string \<Rightarrow> string \<Rightarrow> orc_instance" where
  "ref_inst h master =
     \<lparr>oi_Key = \<lparr>ik_Hostname = h, ik_Port = 3306\<rparr>, oi_Uptime = 100, oi_ReadOnly = True,
      oi_MasterKey = \<lparr>ik_Hostname = master, ik_Port = 3306\<rparr>, oi_IsDetachedMaster = False,
      oi_Slave_SQL_Running = True, oi_Slave_IO_Running = True, oi_SecondsBehindMaster = Some 0, oi_SlaveLagSeconds = Some 0,
      oi_IsCoMaster = False, oi_IsLastCheckValid = True, oi_IsUpToDate = True,
      oi_IsRecentlyChecked = True, oi_SecondsSinceLastSeen = Some 1\<rparr>"

definition ref_topology :: "orc_instance list" where
  "ref_topology = [ref_inst ''db-mysql-0.mysql.ns'' [], ref_inst ''db-mysql-1.mysql.ns'' ''db-mysql-0.mysql.ns'',
     ref_inst ''db-mysql-2.mysql.ns'' ''db-mysql-1.mysql.ns'', ref_inst ''db-mysql-7.mysql.ns'' ''db-mysql-0.mysql.ns'']"

definition ref_recovery :: topology_recovery where
  "ref_recovery = \<lparr>tr_Id = 5, tr_UID = ''u'', tr_IsSuccessful = True,
     tr_RecoveryStartTimestamp = ''1970-01-01T00:00:00Z'', tr_Acknowledged = False\<rparr>"

definition ref_service :: orc_service where
  "ref_service = \<lparr>os_Cluster = (\<lambda>_. Inr ref_topology), os_Master = (\<lambda>_. Inr (hd ref_topology)),
     os_AuditRecovery = (\<lambda>_. Inr [ref_recovery]), os_AckRecovery = (\<lambda>_ _ _. None)\<rparr>"

definition ref_updater :: orc_updater where
  "ref_updater =
     \<lparr>ou_Cluster = ref_cluster\<lparr>mc_Status :=
         \<lparr>st_AppliedMysqlVersion = [], st_ReadyNodes = 3,
          st_Conditions = [mk_cluster_condition 0 ClusterConditionReady ConditionTrue ([], [])], st_Nodes = []\<rparr>\<rparr>,
      ou_Calls = [], ou_Events = []\<rparr>"

lemma utoa_small: "utoa 0 = ''0''" "utoa (Suc 0) = ''1''" "utoa 2 = ''2''"
  by code_simp+

lemma ref_hosts [simp]:
  "GetPodHostname (ou_Cluster ref_updater) 0 = ''db-mysql-0.mysql.ns''"
  "GetPodHostname (ou_Cluster ref_updater) 1 = ''db-mysql-1.mysql.ns''"
  "GetPodHostname (ou_Cluster ref_updater) 2 = ''db-mysql-2.mysql.ns''"
  by (simp_all add: GetPodHostname_def GetNameForResource_def HeadlessSVCName_def ref_updater_def ref_cluster_def itoa_def utoa_small)

lemma ref_master: "DetermineMaster ref_topology = Some (hd ref_topology)"
  by (simp add: DetermineMaster_def ref_topology_def ref_inst_def getMasterForNode.simps GetInstance_def)

lemma ref_answers: "getFromOrchestrator ref_service (ou_Cluster ref_updater) = Inr (ref_topology, Some (hd ref_topology))"
  by (simp add: getFromOrchestrator_def ref_service_def ref_master)

lemma ref_registered: "updateNodesInOrc (ou_Cluster ref_updater) 3 ref_topology =
   (take 3 ref_topology, [], [\<lparr>ik_Hostname = ''db-mysql-7.mysql.ns'', ik_Port = 3306\<rparr>])"
  by (simp add: updateNodesInOrc_def upt_rec ref_topology_def GetInstance_def ref_inst_def Let_def)
   (simp add: ref_updater_def ref_cluster_def)

lemma ref_statuses:
  assumes "h \<in> set (hosts (ou_Cluster ref_updater) 3)"
  shows "status_of (sync_nodes now 3 (take 3 ref_topology) (Some (hd ref_topology)) (ou_Cluster ref_updater)) h
           NodeConditionReplicating = Some ConditionTrue"
    and "status_of (sync_nodes now 3 (take 3 ref_topology) (Some (hd ref_topology)) (ou_Cluster ref_updater)) h
           NodeConditionMaster = Some (truth (h = ''db-mysql-0.mysql.ns''))"
proof -
  from assms have "h \<in> {''db-mysql-0.mysql.ns'', ''db-mysql-1.mysql.ns'', ''db-mysql-2.mysql.ns''}"
    by (simp add: hosts_def upt_rec)
  then show "status_of (sync_nodes now 3 (take 3 ref_topology) (Some (hd ref_topology)) (ou_Cluster ref_updater)) h
           NodeConditionReplicating = Some ConditionTrue"
    "status_of (sync_nodes now 3 (take 3 ref_topology) (Some (hd ref_topology)) (ou_Cluster ref_updater)) h
           NodeConditionMaster = Some (truth (h = ''db-mysql-0.mysql.ns''))"
    by (auto simp: sync_nodes_status ref_topology_def ref_inst_def GetInstance_def reported_def Let_def)
qed

lemma ref_topology_ready:
  "topology_ready (sync_nodes now 3 (take 3 ref_topology) (Some (hd ref_topology)) (ou_Cluster ref_updater)) 3"
proof -
  let ?n = "sync_nodes now 3 (take 3 ref_topology) (Some (hd ref_topology)) (ou_Cluster ref_updater)"
  have h: "hosts ?n 3 = hosts (ou_Cluster ref_updater) 3"
    by (simp add: hosts_def only_nodes_sel [OF only_nodes_sync_nodes])
  have m: "''db-mysql-0.mysql.ns'' \<in> set (hosts (ou_Cluster ref_updater) 3)" by (simp add: hosts_def upt_rec)
  show ?thesis
    using ref_statuses(1) [of _ now] ref_statuses(2) [OF m, of now] m
    unfolding topology_ready_def cond_true_status h by fastforce
qed

lemma ref_run:
  obtains ou' where "Sync ref_service 1000000000000 ref_updater = Inr ou'"
    and "SetHostWritable \<lparr>ik_Hostname = ''db-mysql-0.mysql.ns'', ik_Port = 3306\<rparr> \<in> set (ou_Calls ou')"
    and "Forget ''db-mysql-7.mysql.ns'' 3306 \<in> set (ou_Calls ou')"
    and "ready_longer_than 1000000000000 (ou_Cluster ou') recoveryGraceTime"
    and "\<exists>comment. AckRecovery 5 comment \<in> set (ou_Calls ou')"
proof -
  let ?c = "ou_Cluster ref_updater" and ?now = "1000000000000 :: int"
  have r: "cs_Replicas (mc_Spec ?c) = Some 3" by (simp add: ref_updater_def ref_defs)
  obtain ou' where s: "Sync ref_service ?now ref_updater = Inr ou'"
    using Sync_total [OF ref_answers r] by blast
  from s obtain n comment where
    n: "n < length (getRecoveriesToAck ?now (ou_Cluster ou') (found_recoveries ref_service ?c)) \<longrightarrow>
       (\<exists>cs i err. os_AckRecovery ref_service cs i comment = Some err)" and cl: "ou_Cluster ou' = sync_cluster ?now 3 (take 3 ref_topology) (Some (hd ref_topology))
           (found_recoveries ref_service ?c) ?c"
    and calls: "ou_Calls ou' = ou_Calls ref_updater @ [] @
       mode_calls ?c (take 3 ref_topology) (Some (hd ref_topology)) @
       (if ready_longer_than ?now (ou_Cluster ou') forgetGraceTime \<or> mc_DeletionTimestamp (ou_Cluster ou') \<noteq> None
        then map (\<lambda>k. Forget (ik_Hostname k) (ik_Port k)) [\<lparr>ik_Hostname = ''db-mysql-7.mysql.ns'', ik_Port = 3306\<rparr>] else []) @
       map (\<lambda>r. AckRecovery (tr_Id r) comment)
         (take n (getRecoveriesToAck ?now (ou_Cluster ou') (found_recoveries ref_service ?c)))"
    by (rule Sync_split) (auto simp: ref_answers r ref_registered)
  have cond: "GetClusterCondition ?c ClusterConditionReady =
      Some (mk_cluster_condition 0 ClusterConditionReady ConditionTrue ([], []))"
    by (simp add: GetClusterCondition_find ref_updater_def mk_cluster_condition_def)
  have ready: "ready_longer_than ?now (ou_Cluster ou') g = ready_longer_than ?now ?c g" for g
    unfolding cl by (rule sync_cluster_ready_time [OF cond])
      (simp add: mk_cluster_condition_def ref_topology_ready, simp add: ref_updater_def)
  have long: "ready_longer_than ?now ?c g" if "g \<le> 600" for g
    using that by (simp add: ready_longer_than_def cond mk_cluster_condition_def)
  have "SetHostWritable \<lparr>ik_Hostname = ''db-mysql-0.mysql.ns'', ik_Port = 3306\<rparr> \<in>
      set (mode_calls ?c (take 3 ref_topology) (Some (hd ref_topology)))"
    by (simp add: mode_calls_def to_write_def unsettled_def ref_topology_def ref_inst_def uptimeGraceTime_def
        failoverInProgress_def GetClusterCondition_find ref_updater_def mk_cluster_condition_def ref_defs)
  moreover have "parse_rfc3339 ''1970-01-01T00:00:00Z'' = Some 0" by code_simp
  then have acks: "getRecoveriesToAck ?now (ou_Cluster ou') (found_recoveries ref_service ?c) = [ref_recovery]"
    using ready long [of 600] by (simp add: getRecoveriesToAck_def found_recoveries_def ref_service_def ref_recovery_def
        recovery_is_old_def recoveryGraceTime_def)
  moreover have "1 \<le> n" using n unfolding acks by (auto simp: ref_service_def)
  ultimately show thesis
    using that [OF s] ready long calls
    by (auto simp: forgetGraceTime_def recoveryGraceTime_def ref_recovery_def take_Cons')
qed

section \<open>Properties\<close>



text \<open>
  Property C8. A node is forgotten only when the cluster is deleted, or when the cluster has been
  ready for the grace time both before and after the run and the node is none of the pods the spec
  asks for.
\<close>

theorem sync_forget_safe:
  assumes "Sync svc now ou = Inr ou'" and "ou_Calls ou = []" and "Forget h p \<in> set (ou_Calls ou')"
    and "mc_DeletionTimestamp (ou_Cluster ou) = None"
  shows "\<exists>replicas. cs_Replicas (mc_Spec (ou_Cluster ou)) = Some replicas \<and>
    h \<notin> set (hosts (ou_Cluster ou) replicas) \<and>
    ready_longer_than now (ou_Cluster ou) forgetGraceTime \<and>
    ready_longer_than now (ou_Cluster ou') forgetGraceTime"
proof -
  from assms(1) obtain allInstances master replicas insts und rem n comment where
    r: "cs_Replicas (mc_Spec (ou_Cluster ou)) = Some replicas"
    and u: "updateNodesInOrc (ou_Cluster ou) replicas allInstances = (insts, und, rem)"
    and cl: "ou_Cluster ou' = sync_cluster now replicas insts master (found_recoveries svc (ou_Cluster ou)) (ou_Cluster ou)"
    and calls: "ou_Calls ou' = ou_Calls ou @ map (\<lambda>k. Discover (ik_Hostname k) (ik_Port k)) und @
       mode_calls (ou_Cluster ou) insts master @
       (if ready_longer_than now (ou_Cluster ou') forgetGraceTime \<or> mc_DeletionTimestamp (ou_Cluster ou') \<noteq> None
        then map (\<lambda>k. Forget (ik_Hostname k) (ik_Port k)) rem else []) @
       map (\<lambda>r. AckRecovery (tr_Id r) comment)
         (take n (getRecoveriesToAck now (ou_Cluster ou') (found_recoveries svc (ou_Cluster ou))))"
    by (rule Sync_split) blast
  have "mc_DeletionTimestamp (ou_Cluster ou') = None"
    using assms(4) by (simp add: cl sync_cluster_status)
  with assms(2,3) have "ready_longer_than now (ou_Cluster ou') forgetGraceTime"
    and "h \<in> ik_Hostname ` set rem"
    by (auto simp: calls mode_calls_def split: if_splits)
  moreover from this(1) have "ready_longer_than now (ou_Cluster ou) forgetGraceTime"
    unfolding cl by (rule sync_cluster_ready) (simp add: forgetGraceTime_def)
  ultimately show ?thesis
    using r updateNodesInOrc_insts(4) [OF u] assms(4) by (auto split: if_splits)
qed

theorem sync_forget_safe_witness:
  "ready_longer_than 1000000000000 (ou_Cluster ref_updater) forgetGraceTime \<and>
   ''db-mysql-7.mysql.ns'' \<notin> set (hosts (ou_Cluster ref_updater) 3)"
proof -
  obtain ou' where s: "Sync ref_service 1000000000000 ref_updater = Inr ou'"
    and f: "Forget ''db-mysql-7.mysql.ns'' 3306 \<in> set (ou_Calls ou')"
    by (rule ref_run)
  have "ou_Calls ref_updater = []" "mc_DeletionTimestamp (ou_Cluster ref_updater) = None"
    "cs_Replicas (mc_Spec (ou_Cluster ref_updater)) = Some 3" by (simp_all add: ref_updater_def ref_defs)
  with sync_forget_safe [OF s _ f] show ?thesis by auto
qed

text \<open>
  Property C30. After a run the cluster is ready exactly when the number of ready nodes is the
  number of replicas, every pod is marked as master or as replicating, and some pod is marked as
  master, unless the spec asks for a read-only cluster or for no replica.
\<close>

theorem sync_ready_iff:
  assumes "Sync svc now ou = Inr ou'" and "cs_Replicas (mc_Spec (ou_Cluster ou)) = Some replicas"
  shows "map_option cc_Status (GetClusterCondition (ou_Cluster ou') ClusterConditionReady) =
    Some (truth
     (st_ReadyNodes (mc_Status (ou_Cluster ou)) = replicas \<and>
      (\<forall>h \<in> set (hosts (ou_Cluster ou) replicas).
         cond_true (ou_Cluster ou') h NodeConditionMaster \<or> cond_true (ou_Cluster ou') h NodeConditionReplicating) \<and>
      ((\<exists>h \<in> set (hosts (ou_Cluster ou) replicas). cond_true (ou_Cluster ou') h NodeConditionMaster) \<or>
       cs_ReadOnly (mc_Spec (ou_Cluster ou)) \<or> replicas \<le> 0)))"
proof -
  from assms(1) obtain insts master where
    cl: "ou_Cluster ou' = sync_cluster now replicas insts master (found_recoveries svc (ou_Cluster ou)) (ou_Cluster ou)"
    using assms(2) by (auto elim!: Sync_split)
  let ?n = "sync_nodes now replicas insts master (ou_Cluster ou)"
  have on: "only_nodes (ou_Cluster ou) ?n" by (rule only_nodes_sync_nodes)
  have "cond_true (ou_Cluster ou') h ty = cond_true ?n h ty" for h ty
    by (simp add: cond_true_def cl sync_cluster_status(6))
  moreover have "hosts ?n replicas = hosts (ou_Cluster ou) replicas"
    by (simp add: hosts_def only_nodes_sel [OF on])
  ultimately show ?thesis
    unfolding cl using sync_cluster_status(1) [of now replicas insts master _ "ou_Cluster ou"]
    by (simp add: topology_ready_def only_nodes_sel [OF on] cl)
qed

theorem sync_ready_iff_witness:
  "\<exists>ou'. Sync ref_service 1000000000000 ref_updater = Inr ou' \<and>
     cond_true (ou_Cluster ou') ''db-mysql-0.mysql.ns'' NodeConditionMaster \<and>
     map_option cc_Status (GetClusterCondition (ou_Cluster ou') ClusterConditionReady) = Some ConditionTrue"
proof -
  have r: "cs_Replicas (mc_Spec (ou_Cluster ref_updater)) = Some 3" by (simp add: ref_updater_def ref_defs)
  obtain ou' where s: "Sync ref_service 1000000000000 ref_updater = Inr ou'"
    and "ready_longer_than 1000000000000 (ou_Cluster ou') recoveryGraceTime"
    by (rule ref_run)
  then have t: "map_option cc_Status (GetClusterCondition (ou_Cluster ou') ClusterConditionReady) = Some ConditionTrue"
    by (auto simp: ready_longer_than_def split: option.splits)
  from s have "ou_Cluster ou' = sync_cluster 1000000000000 3 (take 3 ref_topology) (Some (hd ref_topology))
      (found_recoveries ref_service (ou_Cluster ref_updater)) (ou_Cluster ref_updater)"
    by (rule Sync_split) (auto simp: ref_answers r ref_registered)
  moreover have m: "''db-mysql-0.mysql.ns'' \<in> set (hosts (ou_Cluster ref_updater) 3)" by (simp add: hosts_def upt_rec)
  ultimately have "cond_true (ou_Cluster ou') ''db-mysql-0.mysql.ns'' NodeConditionMaster"
    using ref_statuses(2) [OF m, of 1000000000000] by (simp add: cond_true_status status_of_def sync_cluster_status(6))
  with t s sync_ready_iff [OF s r] show ?thesis by blast
qed

text \<open>
  After a run, the conditions of a pod that the service has checked recently say what
  was reported: it is master exactly when it is the agreed master, replicating when both
  replication threads run, read-only as reported, and lagging when it is not the master and its lag
  is above the limit (unknown when no lag is reported).
\<close>

theorem sync_node_conditions:
  assumes "Sync svc now ou = Inr ou'" and "cs_Replicas (mc_Spec (ou_Cluster ou)) = Some replicas"
    and "getFromOrchestrator svc (ou_Cluster ou) = Inr (allInstances, master)"
    and "h \<in> set (hosts (ou_Cluster ou) replicas)" and "GetInstance allInstances h = Some inst"
    and "oi_IsRecentlyChecked inst"
  shows "status_of (ou_Cluster ou') h NodeConditionMaster =
           Some (truth (\<exists>m. master = Some m \<and> host_of m = h)) \<and>
         status_of (ou_Cluster ou') h NodeConditionReplicating =
           Some (truth (oi_Slave_SQL_Running inst \<and> oi_Slave_IO_Running inst)) \<and>
         status_of (ou_Cluster ou') h NodeConditionReadOnly = Some (truth (oi_ReadOnly inst)) \<and>
         status_of (ou_Cluster ou') h NodeConditionLagged =
           Some (if \<exists>m. master = Some m \<and> host_of m = h then ConditionFalse
                 else case oi_SlaveLagSeconds inst of
                        None \<Rightarrow> ConditionUnknown
                      | Some lag \<Rightarrow> truth (lag > (case cs_MaxSlaveLatency (mc_Spec (ou_Cluster ou)) of
                                                  Some l \<Rightarrow> l | None \<Rightarrow> defaultMaxSlaveLatency)))"
proof -
  from assms(1) obtain insts und rem where u: "updateNodesInOrc (ou_Cluster ou) replicas allInstances = (insts, und, rem)"
    and cl: "ou_Cluster ou' = sync_cluster now replicas insts master (found_recoveries svc (ou_Cluster ou)) (ou_Cluster ou)"
    using assms(2,3) by (auto elim!: Sync_split)
  have "GetInstance insts h = Some inst" using GetInstance_insts [OF u assms(4)] assms(5) by simp
  moreover have "host_of inst = h" using GetInstance_Some [OF assms(5)] by simp
  moreover have "(\<exists>m. master = Some m \<and> host_of inst = host_of m) \<longleftrightarrow> (\<exists>m. master = Some m \<and> host_of m = h)"
    using \<open>host_of inst = h\<close> by metis
  moreover have "status_of (ou_Cluster ou') h ty =
      status_of (sync_nodes now replicas insts master (ou_Cluster ou)) h ty" for ty
    by (simp add: status_of_def cl sync_cluster_status(6))
  ultimately show ?thesis
    using assms(6) by (simp add: sync_nodes_status [OF updateNodesInOrc_insts(2) [OF u]] reported_def Let_def)
qed

theorem sync_node_conditions_witness:
  "\<exists>ou'. Sync ref_service 1000000000000 ref_updater = Inr ou' \<and>
     status_of (ou_Cluster ou') ''db-mysql-1.mysql.ns'' NodeConditionMaster = Some ConditionFalse"
proof -
  obtain ou' where s: "Sync ref_service 1000000000000 ref_updater = Inr ou'" by (rule ref_run)
  have r: "cs_Replicas (mc_Spec (ou_Cluster ref_updater)) = Some 3" by (simp add: ref_updater_def ref_defs)
  have h: "''db-mysql-1.mysql.ns'' \<in> set (hosts (ou_Cluster ref_updater) 3)" by (simp add: hosts_def upt_rec)
  let ?i = "ref_inst ''db-mysql-1.mysql.ns'' ''db-mysql-0.mysql.ns''"
  have i: "GetInstance ref_topology ''db-mysql-1.mysql.ns'' = Some ?i" "oi_IsRecentlyChecked ?i"
    by (simp_all add: GetInstance_def ref_topology_def ref_inst_def)
  from sync_node_conditions [OF s r ref_answers h i] s show ?thesis
    by (auto simp: ref_topology_def ref_inst_def)
qed

text \<open>
  Property C24. The walk over the reported topology determines a master exactly when every instance
  leads to it along the master keys: it returns for every topology, cyclic ones included, and
  whenever the instances disagree or some chain does not end there is no master.
\<close>

theorem determine_master_iff:
  assumes "distinct (map host_of insts)"
  shows "DetermineMaster insts = Some m \<longleftrightarrow> insts \<noteq> [] \<and> (\<forall>n \<in> set insts. master_of insts n m)"
  by (rule DetermineMaster_iff [OF assms])

theorem determine_master_iff_witness:
  "DetermineMaster ref_topology = Some (hd ref_topology) \<and>
   (\<exists>n. n \<in> set ref_topology \<and> master_of ref_topology n (hd ref_topology))"
proof -
  have "distinct (map host_of ref_topology)" by (simp add: ref_topology_def ref_inst_def)
  from determine_master_iff [OF this, of "hd ref_topology"] ref_master show ?thesis
    by (auto intro!: exI [of _ "hd ref_topology"] hd_in_set)
qed

text \<open>
  A recovery is acknowledged only when it was not acknowledged before, started at
  least the grace time ago, and the cluster has been ready for more than the grace time both before
  and after the run.
\<close>

theorem sync_ack_safe:
  assumes "Sync svc now ou = Inr ou'" and "ou_Calls ou = []" and "AckRecovery i comment \<in> set (ou_Calls ou')"
  shows "ready_longer_than now (ou_Cluster ou) recoveryGraceTime \<and>
    ready_longer_than now (ou_Cluster ou') recoveryGraceTime \<and>
    (\<exists>rs r start. os_AuditRecovery svc (GetClusterAlias (ou_Cluster ou)) = Inr rs \<and> r \<in> set rs \<and> tr_Id r = i \<and>
       \<not> tr_Acknowledged r \<and> parse_rfc3339 (tr_RecoveryStartTimestamp r) = Some start \<and>
       now - start \<ge> recoveryGraceTime * second)"
proof -
  from assms(1) obtain allInstances master replicas insts und rem n comment' where
    u: "updateNodesInOrc (ou_Cluster ou) replicas allInstances = (insts, und, rem)"
    and cl: "ou_Cluster ou' = sync_cluster now replicas insts master (found_recoveries svc (ou_Cluster ou)) (ou_Cluster ou)"
    and calls: "ou_Calls ou' = ou_Calls ou @ map (\<lambda>k. Discover (ik_Hostname k) (ik_Port k)) und @
       mode_calls (ou_Cluster ou) insts master @
       (if ready_longer_than now (ou_Cluster ou') forgetGraceTime \<or> mc_DeletionTimestamp (ou_Cluster ou') \<noteq> None
        then map (\<lambda>k. Forget (ik_Hostname k) (ik_Port k)) rem else []) @
       map (\<lambda>r. AckRecovery (tr_Id r) comment')
         (take n (getRecoveriesToAck now (ou_Cluster ou') (found_recoveries svc (ou_Cluster ou))))"
    by (rule Sync_split) blast
  from assms(2,3) obtain r where
    r: "r \<in> set (getRecoveriesToAck now (ou_Cluster ou') (found_recoveries svc (ou_Cluster ou)))" "tr_Id r = i"
    by (auto simp: calls mode_calls_def split: if_splits dest: in_set_takeD)
  then have "ready_longer_than now (ou_Cluster ou') recoveryGraceTime"
    and r': "r \<in> set (found_recoveries svc (ou_Cluster ou))" "\<not> tr_Acknowledged r" "recovery_is_old now r"
    by (auto simp: getRecoveriesToAck_def split: if_splits)
  moreover from this(1) have "ready_longer_than now (ou_Cluster ou) recoveryGraceTime"
    unfolding cl by (rule sync_cluster_ready) (simp add: recoveryGraceTime_def)
  ultimately show ?thesis
    using r(2) by (cases "os_AuditRecovery svc (GetClusterAlias (ou_Cluster ou))";
        cases "parse_rfc3339 (tr_RecoveryStartTimestamp r)")
      (auto simp: found_recoveries_def recovery_is_old_def not_less)
qed

theorem sync_ack_safe_witness:
  "ready_longer_than 1000000000000 (ou_Cluster ref_updater) recoveryGraceTime"
proof -
  obtain ou' comment where s: "Sync ref_service 1000000000000 ref_updater = Inr ou'"
    and a: "AckRecovery 5 comment \<in> set (ou_Calls ou')"
    by (rule ref_run) blast
  have "ou_Calls ref_updater = []" by (simp add: ref_updater_def)
  from sync_ack_safe [OF s this a] show ?thesis by blast
qed

text \<open>
  The entries of the status that a run keeps are, in order, the ones whose ordinal is
  below the number of replicas or cannot be read; the in-place loop drops nothing else. The names
  of the pods are read back to their ordinals, so with fewer replicas exactly the entries of the
  removed pods go.
\<close>

theorem removed_pods_leave_status:
  assumes "dns_name (mc_Name c)" and "dns_name (mc_Namespace c)" and "mc_Annotations c AnnotationVersion \<noteq> Some ''300''"
    and "nodes_of c = map (\<lambda>i. \<lparr>ns_Name = GetPodHostname c (int i), ns_Conditions = cs i\<rparr>) [0..<k]"
    and "int k < 2 ^ 31"
  shows "map ns_Name (nodes_of (removeNodeConditionNotInOrc now replicas insts c)) =
         map (\<lambda>i. GetPodHostname c (int i)) [0..<min k (nat replicas)]"
proof -
  have keep: "keep_host c replicas (GetPodHostname c (int i)) \<longleftrightarrow> i < nat replicas" if "i < k" for i
    using that assms indexInSts_pod [OF assms(1,2), of i]
    by (auto simp: keep_host_def keep_node_def shouldRemoveOldNode_def)
  have "map ns_Name (nodes_of c) = map (\<lambda>i. GetPodHostname c (int i)) [0..<k]"
    unfolding assms(4) by (simp add: o_def)
  then have "map ns_Name (nodes_of (removeNodeConditionNotInOrc now replicas insts c)) =
      map (\<lambda>i. GetPodHostname c (int i)) (filter (\<lambda>i. i < nat replicas) [0..<k])"
    by (auto simp: removeNode_names filter_map o_def keep intro!: map_cong filter_cong)
  also have "filter (\<lambda>i. i < nat replicas) [0..<k] = [0..<min k (nat replicas)]"
    by (induction k) (auto simp: min_def le_Suc_eq not_less_eq_eq)
  finally show ?thesis .
qed

theorem removed_pods_leave_status_witness:
  "map ns_Name (nodes_of (removeNodeConditionNotInOrc 0 1 []
     (set_nodes (map (\<lambda>i. \<lparr>ns_Name = GetPodHostname ref_cluster (int i), ns_Conditions = []\<rparr>) [0..<2]) ref_cluster))) =
   [GetPodHostname ref_cluster 0]"
proof -
  let ?c = "set_nodes (map (\<lambda>i. \<lparr>ns_Name = GetPodHostname ref_cluster (int i), ns_Conditions = []\<rparr>) [0..<2]) ref_cluster"
  have on: "only_nodes ref_cluster ?c" by simp
  have "dns_name (mc_Name ?c)" "dns_name (mc_Namespace ?c)" "mc_Annotations ?c AnnotationVersion \<noteq> Some ''300''"
    unfolding only_nodes_sel [OF on] by (simp_all add: ref_cluster_def dns_name_def is_word_or_dash_def)
  moreover have "nodes_of ?c = map (\<lambda>i. \<lparr>ns_Name = GetPodHostname ?c (int i), ns_Conditions = []\<rparr>) [0..<2]"
    by (simp only: nodes_of_set_nodes only_nodes_sel [OF on])
  ultimately have "map ns_Name (nodes_of (removeNodeConditionNotInOrc 0 1 [] ?c)) =
      map (\<lambda>i. GetPodHostname ?c (int i)) [0..<min 2 (nat 1)]"
    by (rule removed_pods_leave_status) simp
  then show ?thesis by (simp add: only_nodes_sel [OF on] min_def)
qed

text \<open>
  With no duplicate in the list, the finalizer syncer leaves the finalizers of others
  alone, drops the old name, and has the orchestrator finalizer present unless the cluster is
  deleted and the service lists no instance. An error of the service counts as no instance: the
  finalizer is removed while the service cannot be reached.
\<close>

theorem finalizer_spec:
  assumes "distinct (mc_Finalizers c)"
  shows "\<exists>c'. finalizer_mutate svc c = Some c' \<and>
    (FinalizerOrchestrator \<in> set (mc_Finalizers c') \<longleftrightarrow>
       mc_DeletionTimestamp c = None \<or>
       (\<exists>insts. os_Cluster svc (GetClusterAlias c) = Inr insts \<and> insts \<noteq> [])) \<and>
    filter (\<lambda>f. f \<noteq> FinalizerOrchestrator) (mc_Finalizers c') =
      filter (\<lambda>f. f \<noteq> FinalizerOrchestrator \<and> f \<noteq> OldOrchestratorFinalizer) (mc_Finalizers c)"
proof -
  have ne: "FinalizerOrchestrator \<noteq> OldOrchestratorFinalizer"
    by (simp add: const_defs OldOrchestratorFinalizer_def)
  have d: "distinct (addFinalizer (mc_Finalizers c) FinalizerOrchestrator)"
    using assms by (simp add: addFinalizer_def)
  define A where "A = filter (\<lambda>x. x \<noteq> OldOrchestratorFinalizer) (addFinalizer (mc_Finalizers c) FinalizerOrchestrator)"
  have r: "removeFinalizer (addFinalizer (mc_Finalizers c) FinalizerOrchestrator) OldOrchestratorFinalizer = Some A"
    unfolding A_def by (rule removeFinalizer_distinct [OF d])
  have r': "removeFinalizer A FinalizerOrchestrator = Some (filter (\<lambda>x. x \<noteq> FinalizerOrchestrator) A)"
    by (rule removeFinalizer_distinct) (simp add: A_def d)
  have f: "filter (\<lambda>x. x \<noteq> FinalizerOrchestrator) A =
      filter (\<lambda>f. f \<noteq> FinalizerOrchestrator \<and> f \<noteq> OldOrchestratorFinalizer) (mc_Finalizers c)"
    by (auto simp: A_def addFinalizer_def intro: filter_cong)
  have m: "FinalizerOrchestrator \<in> set A" using ne by (simp add: A_def addFinalizer_def)
  define gone where "gone \<longleftrightarrow> mc_DeletionTimestamp c \<noteq> None \<and>
      \<not> (\<exists>insts. os_Cluster svc (GetClusterAlias c) = Inr insts \<and> insts \<noteq> [])"
  have "finalizer_mutate svc c = Some (c\<lparr>mc_Finalizers := if gone then filter (\<lambda>x. x \<noteq> FinalizerOrchestrator) A else A\<rparr>)"
    by (cases "os_Cluster svc (GetClusterAlias c)") (auto simp: finalizer_mutate_def r r' gone_def Let_def)
  with m f show ?thesis by (cases gone) (auto simp: gone_def intro: filter_cong)
qed

theorem finalizer_spec_witness:
  "\<exists>c'. finalizer_mutate ref_service ref_cluster = Some c' \<and> FinalizerOrchestrator \<in> set (mc_Finalizers c')"
proof -
  have "distinct (mc_Finalizers ref_cluster)" "mc_DeletionTimestamp ref_cluster = None"
    by (simp_all add: ref_cluster_def)
  with finalizer_spec [of ref_cluster ref_service] show ?thesis by auto
qed

end
