(* ===== verification/PvcCleaner.thy ===== *)
theory PvcCleaner
  imports Cluster
begin

text \<open>
  Package \<^verbatim>\<open>pkg/controller/mysqlcluster/internal/cleaner\<close>: the removal of the claims that a scale down
  leaves behind, and the expansion of the data claims. The answers of the API server are a
  parameter (\<open>pvc_api\<close>), the comparison of quantities (\<^verbatim>\<open>resource.Quantity.Cmp\<close>) is the argument
  \<open>qcmp\<close>, and \<open>replicas\<close> is \<^verbatim>\<open>*cluster.Spec.Replicas\<close>, which the defaults set. The effects are the deletions, the patches and the events, in order.
\<close>

section \<open>Claims and storage classes\<close>

record pvc =
  pvc_Name :: string
  pvc_Namespace :: string
  pvc_Owners :: "(string \<times> string) list" \<comment> \<open>kind and name of the owner references\<close>
  pvc_DeletionTimestamp :: "time option"
  pvc_Requests :: resource_list
  pvc_StorageClassName :: "string option"

record storage_class =
  sc_Name :: string
  sc_Annotations :: str_map
  sc_AllowVolumeExpansion :: "bool option"

text \<open>An error of the API server: the kinds the operator asks for, and its message.\<close>

record k8s_error =
  ke_Forbidden :: bool
  ke_NotFound :: bool
  ke_Message :: string

record pvc_api =
  pa_List :: "(k8s_error, pvc list) result"
  pa_Delete :: "pvc \<Rightarrow> k8s_error option"
  pa_Patch :: "pvc \<Rightarrow> k8s_error option"
  pa_ListStorageClasses :: "(k8s_error, storage_class list) result"
  pa_GetStorageClass :: "string \<Rightarrow> (k8s_error, storage_class) result"

datatype resize_reason =
    NoDefaultStorageClass
  | StorageClassNotFound string
  | ExpansionNotAllowed string
  | ResizeForbidden string

datatype pvc_effect =
    DeletePVC pvc
  | PatchPVC pvc pvc \<comment> \<open>the claim and its update\<close>
  | EventCleanup bool string
  | EventResized string quantity quantity
  | EventResizeFailed string quantity string
  | EventResizeUnsupported string resize_reason
  | EventNoTargets quantity

definition isClusterManagedPVC :: "pvc \<Rightarrow> mysql_cluster \<Rightarrow> bool" where
  "isClusterManagedPVC p c =
     (if pvc_Namespace p \<noteq> mc_Namespace c then False
      else let stsName = GetNameForResource c StatefulSet in
        list_ex (\<lambda>(kind, name). (kind = ''MysqlCluster'' \<and> name = mc_Name c) \<or>
                                (kind = ''StatefulSet'' \<and> name = stsName)) (pvc_Owners p))"

definition listOwnedClusterPVCs :: "pvc_api \<Rightarrow> mysql_cluster \<Rightarrow> (k8s_error, pvc list) result" where
  "listOwnedClusterPVCs api c =
     (case pa_List api of
        Inl err \<Rightarrow> Inl err
      | Inr items \<Rightarrow>
          Inr (filter (\<lambda>claim. isClusterManagedPVC claim c \<and> pvc_DeletionTimestamp claim = None) items))"

section \<open>The cleaner\<close>

definition getOrdinal :: "string \<Rightarrow> int option" where
  "getOrdinal name =
     (case last_index_char (CHR ''-'') name of
        None \<Rightarrow> None
      | Some idx \<Rightarrow> map_option to_int32 (atoi (drop (idx + 1) name)))"

definition deletePVC :: "pvc_api \<Rightarrow> pvc \<Rightarrow> pvc_effect list \<times> k8s_error option" where
  "deletePVC api p =
     (case pa_Delete api p of
        Some err \<Rightarrow> ([DeletePVC p, EventCleanup False (pvc_Name p)], Some err)
      | None \<Rightarrow> ([DeletePVC p, EventCleanup True (pvc_Name p)], None))"

text \<open>A loop that stops at the first error; the effects of each element are kept in order.\<close>

fun run_each :: "('a \<Rightarrow> pvc_effect list \<times> k8s_error option) \<Rightarrow> 'a list \<Rightarrow> pvc_effect list \<times> k8s_error option" where
  "run_each f [] = ([], None)"
| "run_each f (x # xs) =
     (case f x of
        (es, Some err) \<Rightarrow> (es, Some err)
      | (es, None) \<Rightarrow> (case run_each f xs of (es', r) \<Rightarrow> (es @ es', r)))"

definition clean_one :: "pvc_api \<Rightarrow> mysql_cluster \<Rightarrow> int \<Rightarrow> pvc \<Rightarrow> pvc_effect list \<times> k8s_error option" where
  "clean_one api c replicas p =
     (if \<not> has_prefix (pvc_Name p) (DataPVCNamePrefix c) then ([], None)
      else (case getOrdinal (pvc_Name p) of
              Some ord \<Rightarrow> if ord \<ge> replicas \<and> ord \<noteq> 0 then deletePVC api p else ([], None)
            | None \<Rightarrow> ([], None)))"

definition PVCCleaner_Run :: "pvc_api \<Rightarrow> mysql_cluster \<Rightarrow> int \<Rightarrow> pvc_effect list \<times> k8s_error option" where
  "PVCCleaner_Run api c replicas =
     (if mc_DeletionTimestamp c \<noteq> None then ([], None)
      else (case listOwnedClusterPVCs api c of
              Inl err \<Rightarrow> ([], Some err)
            | Inr pvcs \<Rightarrow> run_each (clean_one api c replicas) pvcs))"

section \<open>The resizer\<close>

definition defaultStorageClassAnnotation :: string where
  "defaultStorageClassAnnotation = ''storageclass.kubernetes.io/is-default-class''"

definition storageClassAllowsResize :: "storage_class option \<Rightarrow> bool" where
  "storageClassAllowsResize sc =
     (case sc of Some s \<Rightarrow> sc_AllowVolumeExpansion s = Some True | None \<Rightarrow> False)"

definition resolveStorageClassName :: "pvc_api \<Rightarrow> pvc \<Rightarrow> (k8s_error, string) result" where
  "resolveStorageClassName api p =
     (case pvc_StorageClassName p of
        Some (n # ns) \<Rightarrow> Inr (n # ns)
      | _ \<Rightarrow>
          (case pa_ListStorageClasses api of
             Inl err \<Rightarrow> Inl err
           | Inr items \<Rightarrow>
               (case find (\<lambda>sc. sc_Annotations sc defaultStorageClassAnnotation = Some ''true'') items of
                  Some sc \<Rightarrow> Inr (sc_Name sc)
                | None \<Rightarrow> Inr [])))"

definition storageClassForPVC :: "pvc_api \<Rightarrow> pvc \<Rightarrow> (k8s_error, storage_class option \<times> string) result" where
  "storageClassForPVC api p =
     (case resolveStorageClassName api p of
        Inl err \<Rightarrow> Inl err
      | Inr name \<Rightarrow>
          if name = [] then Inr (None, [])
          else (case pa_GetStorageClass api name of
                  Inl err \<Rightarrow> Inl err
                | Inr sc \<Rightarrow> Inr (Some sc, name)))"

definition resizeNotSupportedReason :: "string \<Rightarrow> storage_class option \<Rightarrow> resize_reason option" where
  "resizeNotSupportedReason scName sc =
     (if scName = [] then Some NoDefaultStorageClass
      else if sc = None then Some (StorageClassNotFound scName)
      else if \<not> storageClassAllowsResize sc then Some (ExpansionNotAllowed scName)
      else None)"

definition to_lower :: "string \<Rightarrow> string" where
  "to_lower = map (\<lambda>c. let n = (of_char c :: nat) in if 65 \<le> n \<and> n \<le> 90 then char_of (n + 32) else c)"

definition isPVCResizeForbidden :: "k8s_error \<Rightarrow> bool" where
  "isPVCResizeForbidden err =
     (if \<not> ke_Forbidden err then False
      else let msg = to_lower (ke_Message err) in contains msg ''resize'' \<or> contains msg ''resized'')"

definition resizePVCIfNeeded ::
    "(quantity \<Rightarrow> quantity \<Rightarrow> int) \<Rightarrow> pvc_api \<Rightarrow> pvc \<Rightarrow> quantity \<Rightarrow> pvc_effect list \<times> k8s_error option" where
  "resizePVCIfNeeded qcmp api p desired =
     (case pvc_Requests p ''storage'' of
        None \<Rightarrow> ([], None)
      | Some current \<Rightarrow>
          if qcmp desired current \<le> 0 then ([], None)
          else
            let updated = p\<lparr>pvc_Requests := (pvc_Requests p)(''storage'' \<mapsto> desired)\<rparr> in
            (case storageClassForPVC api p of
               Inl err \<Rightarrow> ([], Some err)
             | Inr (sc, scName) \<Rightarrow>
                 (case resizeNotSupportedReason scName sc of
                    Some reason \<Rightarrow> ([EventResizeUnsupported (pvc_Name p) reason], None)
                  | None \<Rightarrow>
                      (case pa_Patch api updated of
                         Some err \<Rightarrow>
                           if isPVCResizeForbidden err
                           then ([PatchPVC p updated,
                                  EventResizeUnsupported (pvc_Name p) (ResizeForbidden (ke_Message err))], None)
                           else ([PatchPVC p updated, EventResizeFailed (pvc_Name p) desired (ke_Message err)],
                                 Some err)
                       | None \<Rightarrow> ([PatchPVC p updated, EventResized (pvc_Name p) current desired], None)))))"

definition clusterHasRunningReplicas :: "mysql_cluster \<Rightarrow> bool" where
  "clusterHasRunningReplicas c = (case cs_Replicas (mc_Spec c) of Some r \<Rightarrow> r > 0 | None \<Rightarrow> False)"

definition PVCResizer_Run ::
    "(quantity \<Rightarrow> quantity \<Rightarrow> int) \<Rightarrow> pvc_api \<Rightarrow> mysql_cluster \<Rightarrow> pvc_effect list \<times> k8s_error option" where
  "PVCResizer_Run qcmp api c =
     (if mc_DeletionTimestamp c \<noteq> None then ([], None)
      else (case DesiredDataVolumeStorage c of
              None \<Rightarrow> ([], None)
            | Some desired \<Rightarrow>
                (case listOwnedClusterPVCs api c of
                   Inl err \<Rightarrow> ([], Some err)
                 | Inr pvcs \<Rightarrow>
                     let data = filter (\<lambda>p. has_prefix (pvc_Name p) (DataPVCNamePrefix c)) pvcs in
                     (case run_each (\<lambda>p. resizePVCIfNeeded qcmp api p desired) data of
                        (es, Some err) \<Rightarrow> (es, Some err)
                      | (es, None) \<Rightarrow>
                          if data = [] \<and> clusterHasRunningReplicas c
                          then (es @ [EventNoTargets desired], None) else (es, None)))))"

section \<open>Lemmas\<close>

lemma run_each_effects: "e \<in> set (fst (run_each f xs)) \<Longrightarrow> \<exists>x \<in> set xs. e \<in> set (fst (f x))"
  by (induction xs) (auto simp: case_prod_beta split: prod.splits option.splits)

lemma run_each_done:
  "snd (run_each f xs) = None \<Longrightarrow> fst (run_each f xs) = concat (map (\<lambda>x. fst (f x)) xs)"
  by (induction xs) (auto split: prod.splits option.splits)

lemma run_each_error:
  "snd (run_each f xs) = Some err \<Longrightarrow>
     \<exists>ys x zs. xs = ys @ x # zs \<and> snd (f x) = Some err \<and> fst (run_each f xs) = concat (map (\<lambda>x. fst (f x)) (ys @ [x]))"
proof (induction xs)
  case (Cons x xs)
  show ?case
  proof (cases "snd (f x)")
    case None
    with Cons obtain ys y zs where "xs = ys @ y # zs" "snd (f y) = Some err"
      "fst (run_each f xs) = concat (map (\<lambda>x. fst (f x)) (ys @ [y]))"
      by (auto split: prod.splits)
    with None have "x # xs = (x # ys) @ y # zs \<and> snd (f y) = Some err \<and>
        fst (run_each f (x # xs)) = concat (map (\<lambda>x. fst (f x)) ((x # ys) @ [y]))"
      by (auto split: prod.splits)
    then show ?thesis by blast
  next
    case (Some e)
    with Cons.prems have "x # xs = [] @ x # xs \<and> snd (f x) = Some err \<and>
        fst (run_each f (x # xs)) = concat (map (\<lambda>x. fst (f x)) ([] @ [x]))"
      by (auto split: prod.splits)
    then show ?thesis by blast
  qed
qed simp

text \<open>The claims that a cleaning run removes.\<close>

definition orphaned :: "mysql_cluster \<Rightarrow> int \<Rightarrow> pvc \<Rightarrow> bool" where
  "orphaned c replicas p \<longleftrightarrow>
     isClusterManagedPVC p c \<and> pvc_DeletionTimestamp p = None \<and>
     has_prefix (pvc_Name p) (DataPVCNamePrefix c) \<and>
     (\<exists>ord. getOrdinal (pvc_Name p) = Some ord \<and> ord \<ge> replicas \<and> ord \<noteq> 0)"

lemma clean_one_deletes: "DeletePVC q \<in> set (fst (clean_one api c r p)) \<longleftrightarrow>
    q = p \<and> has_prefix (pvc_Name p) (DataPVCNamePrefix c) \<and>
     (\<exists>ord. getOrdinal (pvc_Name p) = Some ord \<and> ord \<ge> r \<and> ord \<noteq> 0)"
  by (auto simp: clean_one_def deletePVC_def split: option.splits)

lemma getOrdinal_DataPVCName:
  assumes "int i < 2 ^ 31"
  shows "getOrdinal (DataPVCName c (int i)) = Some (int i)"
proof -
  have "DataPVCName c (int i) = (''data-'' @ GetNameForResource c StatefulSet) @ CHR ''-'' # utoa i"
    by (simp add: DataPVCName_def itoa_def)
  moreover have "last_index_char (CHR ''-'') ((''data-'' @ GetNameForResource c StatefulSet) @ CHR ''-'' # utoa i) =
      Some (length (''data-'' @ GetNameForResource c StatefulSet))"
    by (rule last_index_char_append) simp
  moreover have "atoi (utoa i) = Some (int i)" using assms by (intro atoi_utoa) (simp add: max_int64_def)
  ultimately show ?thesis using assms by (simp add: getOrdinal_def to_int32_id)
qed

definition ref_pvc :: "string \<Rightarrow> quantity \<Rightarrow> pvc" where
  "ref_pvc name storage =
     \<lparr>pvc_Name = name, pvc_Namespace = ''ns'', pvc_Owners = [(''MysqlCluster'', ''db'')], pvc_DeletionTimestamp = None,
      pvc_Requests = [''storage'' \<mapsto> storage], pvc_StorageClassName = Some ''ssd''\<rparr>"

definition ref_pvc_api :: "pvc list \<Rightarrow> pvc_api" where
  "ref_pvc_api items =
     \<lparr>pa_List = Inr items, pa_Delete = (\<lambda>_. None), pa_Patch = (\<lambda>_. None), pa_ListStorageClasses = Inr [],
      pa_GetStorageClass = (\<lambda>n. Inr \<lparr>sc_Name = n, sc_Annotations = Map.empty, sc_AllowVolumeExpansion = Some True\<rparr>)\<rparr>"

text \<open>
  A cleaning run deletes only orphaned claims: owned by the cluster or its stateful
  set, in its namespace, not being deleted, named as a data claim, with an ordinal that is not 0
  and not below the number of replicas. It deletes all of them when it ends without an error, and
  otherwise it stops at the claim whose deletion failed. A deleted cluster keeps its claims.
\<close>

theorem cleaner_deletes_orphans:
  "case PVCCleaner_Run api c replicas of
     (effects, err) \<Rightarrow>
       (\<forall>p. DeletePVC p \<in> set effects \<longrightarrow>
          mc_DeletionTimestamp c = None \<and> (\<exists>items. pa_List api = Inr items \<and> p \<in> set items) \<and> orphaned c replicas p) \<and>
       (err = None \<and> mc_DeletionTimestamp c = None \<longrightarrow>
          (\<forall>items p. pa_List api = Inr items \<and> p \<in> set items \<and> orphaned c replicas p \<longrightarrow> DeletePVC p \<in> set effects)) \<and>
       (\<forall>items e. pa_List api = Inr items \<and> err = Some e \<longrightarrow>
          (\<exists>p \<in> set items. pa_Delete api p = Some e \<and> DeletePVC p \<in> set effects))"
proof (cases "mc_DeletionTimestamp c = None \<and> (\<exists>items. pa_List api = Inr items)")
  case False
  then show ?thesis
    by (cases "pa_List api") (auto simp: PVCCleaner_Run_def listOwnedClusterPVCs_def)
next
  case True
  then obtain items where it: "pa_List api = Inr items" and d: "mc_DeletionTimestamp c = None" by blast
  let ?owned = "filter (\<lambda>claim. isClusterManagedPVC claim c \<and> pvc_DeletionTimestamp claim = None) items"
  let ?run = "run_each (clean_one api c replicas) ?owned"
  have run: "PVCCleaner_Run api c replicas = ?run" using it d by (simp add: PVCCleaner_Run_def listOwnedClusterPVCs_def)
  have sound: "p \<in> set items \<and> orphaned c replicas p" if "DeletePVC p \<in> set (fst ?run)" for p
    using run_each_effects [OF that] by (auto simp: clean_one_deletes orphaned_def)
  have complete: "DeletePVC p \<in> set (fst ?run)"
    if "snd ?run = None" "p \<in> set items" "orphaned c replicas p" for p
    using run_each_done [OF that(1)] that(2,3) clean_one_deletes [of p api c replicas p]
    by (auto simp: orphaned_def)
  have failed: "\<exists>p \<in> set items. pa_Delete api p = Some e \<and> DeletePVC p \<in> set (fst ?run)"
    if "snd ?run = Some e" for e
  proof -
    from run_each_error [OF that] obtain ys x zs where x: "?owned = ys @ x # zs"
      "snd (clean_one api c replicas x) = Some e"
      "fst ?run = concat (map (\<lambda>x. fst (clean_one api c replicas x)) (ys @ [x]))" by blast
    from x(1) have "x \<in> set ?owned" by (metis in_set_conv_decomp)
    moreover from x(2) have "pa_Delete api x = Some e" "DeletePVC x \<in> set (fst (clean_one api c replicas x))"
      by (auto simp: clean_one_def deletePVC_def split: option.splits if_splits)
    ultimately show ?thesis using x(3) by auto
  qed
  obtain es err where r: "?run = (es, err)" by fastforce
  show ?thesis
    unfolding run r prod.case
  proof (intro conjI allI impI)
    fix p assume "DeletePVC p \<in> set es"
    then show "mc_DeletionTimestamp c = None" "\<exists>items. pa_List api = Inr items \<and> p \<in> set items" "orphaned c replicas p"
      using sound [of p] it d r by auto
  next
    fix items' p assume "err = None \<and> mc_DeletionTimestamp c = None"
      "pa_List api = Inr items' \<and> p \<in> set items' \<and> orphaned c replicas p"
    then show "DeletePVC p \<in> set es" using complete [of p] it r by simp
  next
    fix items' e assume "pa_List api = Inr items' \<and> err = Some e"
    then show "\<exists>p\<in>set items'. pa_Delete api p = Some e \<and> DeletePVC p \<in> set es"
      using failed [of e] it r by simp
  qed
qed

theorem cleaner_deletes_orphans_witness:
  "DeletePVC (ref_pvc (DataPVCName ref_cluster (int 5)) ''1Gi'')
   \<in> set (fst (PVCCleaner_Run (ref_pvc_api [ref_pvc (DataPVCName ref_cluster (int 5)) ''1Gi'']) ref_cluster 3))"
proof -
  let ?p = "ref_pvc (DataPVCName ref_cluster (int 5)) ''1Gi''"
  have "has_prefix (DataPVCName ref_cluster (int 5)) (DataPVCNamePrefix ref_cluster)"
    by (simp add: has_prefix_def DataPVCName_def DataPVCNamePrefix_def)
  then have o: "orphaned ref_cluster 3 ?p"
    using getOrdinal_DataPVCName [of 5 ref_cluster]
    by (simp add: orphaned_def isClusterManagedPVC_def ref_pvc_def ref_cluster_def)
  have "snd (PVCCleaner_Run (ref_pvc_api [?p]) ref_cluster 3) = None"
    by (simp add: PVCCleaner_Run_def listOwnedClusterPVCs_def clean_one_def deletePVC_def ref_pvc_api_def
        split: option.splits prod.splits)
  moreover have "pa_List (ref_pvc_api [?p]) = Inr [?p]" "mc_DeletionTimestamp ref_cluster = None"
    by (simp_all add: ref_pvc_api_def ref_cluster_def)
  ultimately show ?thesis
    using cleaner_deletes_orphans [where api = "ref_pvc_api [?p]" and c = ref_cluster and replicas = 3] o by (auto split: prod.splits)
qed



text \<open>
  The resizer never shrinks a claim and changes nothing of it but the storage request:
  it patches only owned data claims of a cluster that is not deleted, to the storage the spec asks
  for, when that is larger than the current request and the storage class allows expansion.
\<close>

theorem resizer_only_expands:
  assumes "PatchPVC p q \<in> set (fst (PVCResizer_Run qcmp api c))"
  shows "mc_DeletionTimestamp c = None \<and> isClusterManagedPVC p c \<and>
    has_prefix (pvc_Name p) (DataPVCNamePrefix c) \<and>
    (\<exists>desired current scs sc.
       DesiredDataVolumeStorage c = Some desired \<and> pvc_Requests p ''storage'' = Some current \<and>
       qcmp desired current > 0 \<and> q = p\<lparr>pvc_Requests := (pvc_Requests p)(''storage'' \<mapsto> desired)\<rparr> \<and>
       storageClassForPVC api p = Inr (Some sc, scs) \<and> sc_AllowVolumeExpansion sc = Some True)"
proof -
  from assms obtain desired items where d: "mc_DeletionTimestamp c = None" "DesiredDataVolumeStorage c = Some desired"
    "listOwnedClusterPVCs api c = Inr items"
    by (auto simp: PVCResizer_Run_def split: if_splits option.splits sum.splits)
  let ?data = "filter (\<lambda>p. has_prefix (pvc_Name p) (DataPVCNamePrefix c)) items"
  have "PatchPVC p q \<in> set (fst (run_each (\<lambda>p. resizePVCIfNeeded qcmp api p desired) ?data))"
    using assms d by (auto simp: PVCResizer_Run_def Let_def split: prod.splits option.splits if_splits)
  then obtain x where x: "x \<in> set ?data" "PatchPVC p q \<in> set (fst (resizePVCIfNeeded qcmp api x desired))"
    using run_each_effects by blast
  then have "x = p" by (auto simp: resizePVCIfNeeded_def Let_def split: option.splits if_splits sum.splits prod.splits)
  moreover have "isClusterManagedPVC x c" using x(1) d(3) by (auto simp: listOwnedClusterPVCs_def split: sum.splits)
  ultimately show ?thesis
    using x d by (auto simp: resizePVCIfNeeded_def resizeNotSupportedReason_def storageClassAllowsResize_def Let_def
        split: option.splits if_splits sum.splits prod.splits)
qed

theorem resizer_only_expands_witness:
  "\<exists>q. PatchPVC (ref_pvc ''data-db-mysql-0'' ''x'') q \<in> set (fst (PVCResizer_Run (\<lambda>a b. 1)
      (ref_pvc_api [ref_pvc ''data-db-mysql-0'' ''x'']) ref_cluster)) \<and> pvc_Requests q ''storage'' = Some ''1Gi''"
proof -
  let ?p = "ref_pvc ''data-db-mysql-0'' ''x''"
  let ?q = "?p\<lparr>pvc_Requests := (pvc_Requests ?p)(''storage'' \<mapsto> ''1Gi'')\<rparr>"
  have m: "PatchPVC ?p ?q \<in> set (fst (PVCResizer_Run (\<lambda>a b. 1) (ref_pvc_api [?p]) ref_cluster))"
    by (simp add: PVCResizer_Run_def listOwnedClusterPVCs_def ref_pvc_api_def isClusterManagedPVC_def
        resizePVCIfNeeded_def storageClassForPVC_def resolveStorageClassName_def resizeNotSupportedReason_def
        storageClassAllowsResize_def DesiredDataVolumeStorage_def DataPVCNamePrefix_def GetNameForResource_def
        has_prefix_def ref_pvc_def ref_defs Let_def)
  from resizer_only_expands [OF m] m show ?thesis
    by (intro exI [of _ ?q]) (auto simp: DesiredDataVolumeStorage_def ref_defs)
qed

end
