(* ===== verification/NodeCtl.thy ===== *)
theory NodeCtl
  imports OrcReconcile
begin

text \<open>
  The node controller, \<^verbatim>\<open>pkg/controller/node\<close>: it waits for the server of a pod, configures its
  replication over SQL and marks the node as initialized.

  The server is a parameter, a record of its answers; an answer may depend on everything that was
  sent before (the \<open>sql_log\<close>), so the same question may be answered differently later. A
  function that talks to the server returns the longer log with its result. A wait loop gets the number
  of ticks of one second that are left before the deadline of its context.
\<close>

section \<open>The SQL connection\<close>

datatype sql_event = Exec string "string list" | ReadRow string

type_synonym sql_log = "sql_event list"

datatype row_answer = Row string | NoRows | RowError string

record sql_server =
  ss_Exec :: "sql_log \<Rightarrow> string \<Rightarrow> string list \<Rightarrow> string option"
  ss_Read :: "sql_log \<Rightarrow> string \<Rightarrow> row_answer"

datatype sql_error =
    QueryError string
  | WaitTimeout
  | InitFileTimeout
  | ConfigureSlaveError string
  | StartSlaveError string

definition OperatorDbName :: string where
  "OperatorDbName = ''sys_operator''"

definition OperatorStatusTableName :: string where
  "OperatorStatusTableName = ''status''"

definition OperatorConfiguredKey :: string where
  "OperatorConfiguredKey = ''configured''"

definition OperatorConfiguredDoneValue :: string where
  "OperatorConfiguredDoneValue = ''1''"

definition OperatorInitFileCompleteKey :: string where
  "OperatorInitFileCompleteKey = ''init_file_complete''"

definition OperatorInitFileCompleteValue :: string where
  "OperatorInitFileCompleteValue = ''1''"

definition connRetry :: int where
  "connRetry = 1"

definition QUOTE :: string where
  "QUOTE = [CHR 0x27]"

record node_sql_runner =
  nr_host :: string
  nr_rep :: replication_dialect

definition newNodeConn :: "env \<Rightarrow> string \<Rightarrow> version \<Rightarrow> node_sql_runner" where
  "newNodeConn e host mysqlVer = \<lparr>nr_host = host, nr_rep = Replication (ProfileFor e mysqlVer)\<rparr>"

text \<open>\<^verbatim>\<open>enableBinLog\<close> is false for every connection, so each query starts by switching the binary log off.\<close>

definition session_query :: "string \<Rightarrow> string" where
  "session_query q = ''SET @@SESSION.SQL_LOG_BIN = 0;'' @ NL @ q"

definition runQuery :: "sql_server \<Rightarrow> string \<Rightarrow> string list \<Rightarrow> sql_log \<Rightarrow> sql_log \<times> sql_error option" where
  "runQuery srv q args l =
     (l @ [Exec (session_query q) args], map_option QueryError (ss_Exec srv l (session_query q) args))"

definition status_select :: "string \<Rightarrow> string" where
  "status_select key =
     ''SELECT value FROM '' @ OperatorDbName @ ''.'' @ OperatorStatusTableName @ '' WHERE name='' @ QUOTE @ key @ QUOTE"

definition readStatusValue :: "sql_server \<Rightarrow> string \<Rightarrow> sql_log \<Rightarrow> sql_log \<times> (sql_error, string) result" where
  "readStatusValue srv key l =
     (l @ [ReadRow (status_select key)],
      case ss_Read srv l (status_select key) of
        Row value \<Rightarrow> Inr value
      | NoRows \<Rightarrow> Inr []
      | RowError err \<Rightarrow> Inl (QueryError err))"

definition status_replace :: "string \<Rightarrow> string \<Rightarrow> string" where
  "status_replace key value =
     ''REPLACE INTO '' @ OperatorDbName @ ''.'' @ OperatorStatusTableName @
     '' VALUES ('' @ QUOTE @ key @ QUOTE @ '', '' @ QUOTE @ value @ QUOTE @ '');''"

definition writeStatusValue :: "sql_server \<Rightarrow> string \<Rightarrow> string \<Rightarrow> sql_log \<Rightarrow> sql_log \<times> sql_error option" where
  "writeStatusValue srv key value l = runQuery srv (status_replace key value) [] l"

section \<open>Operations on a node\<close>

fun Wait :: "sql_server \<Rightarrow> nat \<Rightarrow> sql_log \<Rightarrow> sql_log \<times> sql_error option" where
  "Wait srv 0 l = (l, Some WaitTimeout)"
| "Wait srv (Suc ticks) l =
     (case runQuery srv ''SELECT 1'' [] l of
        (l', None) \<Rightarrow> (l', None)
      | (l', Some err) \<Rightarrow> Wait srv ticks l')"

definition isInitFileComplete :: "sql_server \<Rightarrow> sql_log \<Rightarrow> sql_log \<times> (sql_error, bool) result" where
  "isInitFileComplete srv l =
     (case readStatusValue srv OperatorInitFileCompleteKey l of
        (l1, Inl err) \<Rightarrow> (l1, Inl err)
      | (l1, Inr complete) \<Rightarrow>
          if complete = OperatorInitFileCompleteValue then (l1, Inr True)
          else (case readStatusValue srv OperatorConfiguredKey l1 of
                  (l2, Inl err) \<Rightarrow> (l2, Inl err)
                | (l2, Inr configured) \<Rightarrow> (l2, Inr (configured = OperatorConfiguredDoneValue))))"

fun WaitForOperatorStatusTable :: "sql_server \<Rightarrow> nat \<Rightarrow> sql_log \<Rightarrow> sql_log \<times> sql_error option" where
  "WaitForOperatorStatusTable srv 0 l = (l, Some InitFileTimeout)"
| "WaitForOperatorStatusTable srv (Suc ticks) l =
     (case isInitFileComplete srv l of
        (l', Inl err) \<Rightarrow> WaitForOperatorStatusTable srv ticks l'
      | (l', Inr done') \<Rightarrow> if done' then (l', None) else WaitForOperatorStatusTable srv ticks l')"

definition super_read_only_off :: string where
  "super_read_only_off = ''SET GLOBAL READ_ONLY = 1; SET GLOBAL SUPER_READ_ONLY = 0;''"

definition super_read_only_on :: string where
  "super_read_only_on = ''SET GLOBAL SUPER_READ_ONLY = 1;''"

definition DisableSuperReadOnly :: "sql_server \<Rightarrow> sql_log \<Rightarrow> sql_log \<times> sql_error option" where
  "DisableSuperReadOnly srv l = runQuery srv super_read_only_off [] l"

text \<open>The function that \<^verbatim>\<open>DisableSuperReadOnly\<close> returns; its error is only logged.\<close>

definition enableSuperReadOnly :: "sql_server \<Rightarrow> sql_log \<Rightarrow> sql_log" where
  "enableSuperReadOnly srv l = fst (runQuery srv super_read_only_on [] l)"

definition ChangeMasterTo ::
    "sql_server \<Rightarrow> node_sql_runner \<Rightarrow> string \<Rightarrow> string \<Rightarrow> string \<Rightarrow> sql_log \<Rightarrow> sql_log \<times> sql_error option" where
  "ChangeMasterTo srv r masterHost user pass l =
     (let d = nr_rep r in
      case runQuery srv (rd_StopReplication d @ NL @ rd_ChangeSourceSQL d)
             [masterHost, user, pass, itoa connRetry] l of
        (l1, Some (QueryError err)) \<Rightarrow> (l1, Some (ConfigureSlaveError err))
      | (l1, Some err) \<Rightarrow> (l1, Some err)
      | (l1, None) \<Rightarrow>
          (case runQuery srv (rd_StartReplication d) [] l1 of
             (l2, None) \<Rightarrow> (l2, None)
           | (l2, Some _) \<Rightarrow>
               (case runQuery srv (rd_FallbackStartSQL d) [] l2 of
                  (l3, Some (QueryError err)) \<Rightarrow> (l3, Some (StartSlaveError err))
                | (l3, Some err) \<Rightarrow> (l3, Some err)
                | (l3, None) \<Rightarrow> (l3, None))))"

definition MarkConfigurationDone :: "sql_server \<Rightarrow> sql_log \<Rightarrow> sql_log \<times> sql_error option" where
  "MarkConfigurationDone srv l = writeStatusValue srv OperatorConfiguredKey OperatorConfiguredDoneValue l"

definition IsConfigured :: "sql_server \<Rightarrow> sql_log \<Rightarrow> sql_log \<times> (sql_error, bool) result" where
  "IsConfigured srv l =
     (case readStatusValue srv OperatorConfiguredKey l of
        (l', Inl err) \<Rightarrow> (l', Inl err)
      | (l', Inr val) \<Rightarrow> (l', Inr (val = OperatorConfiguredDoneValue)))"

definition MarkSetGTIDPurged :: "sql_server \<Rightarrow> sql_log \<Rightarrow> sql_log \<times> sql_error option" where
  "MarkSetGTIDPurged srv l = writeStatusValue srv ''set_gtid_purged'' ''skipped'' l"

definition gtid_query :: "replication_dialect \<Rightarrow> string" where
  "gtid_query d =
     NL @ TAB @ ''  SET @@SESSION.SQL_LOG_BIN = 0;'' @
     NL @ TAB @ ''  START TRANSACTION;'' @
     NL @ TAB @ TAB @ ''SELECT value INTO @gtid FROM '' @ OperatorDbName @ ''.'' @ OperatorStatusTableName @
       '' WHERE name='' @ QUOTE @ ''backup_gtid_purged'' @ QUOTE @ '';'' @
     NL @ TAB @ TAB @ ResetBinaryLogsStatement d @
     NL @ TAB @ TAB @ ''SET @@GLOBAL.GTID_PURGED = @gtid;'' @
     NL @ TAB @ TAB @ ''REPLACE INTO '' @ OperatorDbName @ ''.'' @ OperatorStatusTableName @
       '' VALUES ('' @ QUOTE @ ''set_gtid_purged'' @ QUOTE @ '', @gtid);'' @
     NL @ TAB @ ''  COMMIT;'' @
     NL @ ''    ''"

definition SetPurgedGTID :: "sql_server \<Rightarrow> node_sql_runner \<Rightarrow> sql_log \<Rightarrow> sql_log \<times> sql_error option" where
  "SetPurgedGTID srv r l =
     (case readStatusValue srv ''set_gtid_purged'' l of
        (l1, Inl err) \<Rightarrow> (l1, Some err)
      | (l1, Inr setGTID) \<Rightarrow>
          if setGTID \<noteq> [] then (l1, None)
          else (case readStatusValue srv ''backup_gtid_purged'' l1 of
                  (l2, Inl err) \<Rightarrow> (l2, Some err)
                | (l2, Inr backupGTID) \<Rightarrow>
                    if backupGTID = [] then (l2, None)
                    else runQuery srv (gtid_query (nr_rep r)) [] l2))"

section \<open>Initialization of a node\<close>

record credentials =
  cr_User :: string
  cr_Password :: string
  cr_ReplicationUser :: string
  cr_ReplicationPassword :: string

definition anyIsEmpty :: "string list \<Rightarrow> bool" where
  "anyIsEmpty ss = list_ex (\<lambda>s. s = []) ss"

definition credentials_Validate :: "credentials \<Rightarrow> bool" where
  "credentials_Validate c =
     (\<not> anyIsEmpty [cr_User c, cr_Password c, cr_ReplicationUser c, cr_ReplicationPassword c])"

text \<open>The part of \<^verbatim>\<open>initializeMySQL\<close> that runs between the two changes of super read-only.\<close>

definition init_steps ::
    "sql_server \<Rightarrow> node_sql_runner \<Rightarrow> mysql_cluster \<Rightarrow> credentials \<Rightarrow> sql_log \<Rightarrow> sql_log \<times> sql_error option" where
  "init_steps srv r c creds l =
     (case (if mc_Annotations c AnnotationSkipGTIDPurged \<noteq> None then MarkSetGTIDPurged srv l else (l, None)) of
        (l1, Some err) \<Rightarrow> (l1, Some err)
      | (l1, None) \<Rightarrow>
          (case SetPurgedGTID srv r l1 of
             (l2, Some err) \<Rightarrow> (l2, Some err)
           | (l2, None) \<Rightarrow>
               (case (if GetMasterHost c \<noteq> nr_host r
                      then ChangeMasterTo srv r (GetMasterHost c) (cr_ReplicationUser creds)
                             (cr_ReplicationPassword creds) l2
                      else (l2, None)) of
                  (l3, Some err) \<Rightarrow> (l3, Some err)
                | (l3, None) \<Rightarrow> MarkConfigurationDone srv l3)))"

definition initializeMySQL ::
    "sql_server \<Rightarrow> node_sql_runner \<Rightarrow> mysql_cluster \<Rightarrow> credentials \<Rightarrow> sql_log \<Rightarrow> sql_log \<times> sql_error option" where
  "initializeMySQL srv r c creds l =
     (case IsConfigured srv l of
        (l1, Inl err) \<Rightarrow> (l1, Some err)
      | (l1, Inr configured) \<Rightarrow>
          if configured then (l1, None)
          else (case DisableSuperReadOnly srv l1 of
                  (l2, Some err) \<Rightarrow> (l2, Some err)
                | (l2, None) \<Rightarrow>
                    (case init_steps srv r c creds l2 of
                       (l3, res) \<Rightarrow> (enableSuperReadOnly srv l3, res))))"

section \<open>The pod condition\<close>

definition podCondIndex :: "pod_condition list \<Rightarrow> string \<Rightarrow> nat option" where
  "podCondIndex conds condType = find_index (\<lambda>cond. pc_Type cond = condType) conds"

definition mk_pod_condition :: "time \<Rightarrow> string \<Rightarrow> condition_status \<Rightarrow> string \<times> string \<Rightarrow> pod_condition" where
  "mk_pod_condition t ty s rm =
     \<lparr>pc_Type = ty, pc_Status = s, pc_LastTransitionTime = t, pc_Reason = fst rm, pc_Message = snd rm\<rparr>"

definition update_pod_conditions ::
    "time \<Rightarrow> string \<Rightarrow> condition_status \<Rightarrow> string \<times> string \<Rightarrow> pod_condition list \<Rightarrow> pod_condition list" where
  "update_pod_conditions t condType status rm conds =
     (if conds = [] then [mk_pod_condition t condType status rm]
      else (case podCondIndex conds condType of
              Some i \<Rightarrow>
                let cond = conds ! i;
                    lt = (if pc_Status cond \<noteq> status then t else pc_LastTransitionTime cond)
                in conds[i := mk_pod_condition lt condType status rm]
            | None \<Rightarrow> conds @ [mk_pod_condition t condType status rm]))"

definition updatePodStatusCondition ::
    "time \<Rightarrow> pod \<Rightarrow> string \<Rightarrow> condition_status \<Rightarrow> string \<Rightarrow> string \<Rightarrow> pod" where
  "updatePodStatusCondition t p condType status reason msg =
     p\<lparr>pod_Conditions := update_pod_conditions t condType status (reason, msg) (pod_Conditions p)\<rparr>"

interpretation pod_conds: condition_store pc_Type pc_Status pc_LastTransitionTime
    mk_pod_condition update_pod_conditions
proof
  fix ty :: string and cs :: "pod_condition list" and i t s and p :: "string \<times> string"
  assume hit: "find_index (\<lambda>c. pc_Type c = ty) cs = Some i"
  then show "update_pod_conditions t ty s p cs =
      cs[i := mk_pod_condition (if pc_Status (cs ! i) = s then pc_LastTransitionTime (cs ! i) else t) ty s p]"
    by (auto simp: update_pod_conditions_def podCondIndex_def Let_def)
qed (auto simp: mk_pod_condition_def update_pod_conditions_def podCondIndex_def)

section \<open>The predicates of the watch\<close>

definition isReady :: "pod \<Rightarrow> bool" where
  "isReady p =
     (case find (\<lambda>cond. pc_Type cond = ''Ready'') (pod_Conditions p) of
        Some cond \<Rightarrow> pc_Status cond = ConditionTrue
      | None \<Rightarrow> False)"

definition isRunning :: "pod \<Rightarrow> bool" where
  "isRunning p = (pod_Phase p = ''Running'')"

definition isOwnedByMySQL :: "pod \<Rightarrow> bool" where
  "isOwnedByMySQL p = IsManagedByMySQL (pod_Labels p)"

definition watch_pod :: "pod \<Rightarrow> bool" where
  "watch_pod p = (isOwnedByMySQL p \<and> isRunning p \<and> \<not> isReady p)"

section \<open>Reconciliation\<close>

text \<open>
  The name of the cluster of a pod, as matched by \<^verbatim>\<open>^([\w-]+)-mysql-\d*$\<close>: the digits have no dash, so
  they are what follows the last dash.
\<close>

definition cluster_of_pod :: "string \<Rightarrow> string option" where
  "cluster_of_pod name =
     (case ordinal_part name of
        None \<Rightarrow> None
      | Some d \<Rightarrow> Some (take (length name - length d - length ''-mysql-'') name))"

definition shouldUpdateToVersion :: "mysql_cluster \<Rightarrow> int \<Rightarrow> bool" where
  "shouldUpdateToVersion c targetVersion =
     (case mc_Annotations c AnnotationVersion of
        None \<Rightarrow> True
      | Some version \<Rightarrow>
          (case atoi version of
             None \<Rightarrow> True
           | Some n \<Rightarrow> if - (2 ^ 31) \<le> n \<and> n < 2 ^ 31 then n < targetVersion else True))"

definition replicationSQLVersion :: "env \<Rightarrow> mysql_cluster \<Rightarrow> pod \<Rightarrow> stateful_set option \<Rightarrow> version" where
  "replicationSQLVersion e c p sts =
     (let v = SemVerFromPod (e_blang e) (Some p) in
      if \<not> IsZero (e_blang e) v then v else EffectiveVersion e c sts)"

text \<open>The answers of the API server in one reconciliation; \<open>None\<close> is the error \<^verbatim>\<open>NotFound\<close>.\<close>

record node_api =
  na_GetPod :: "(string, pod option) result"
  na_GetCluster :: "string \<Rightarrow> string \<Rightarrow> (string, mysql_cluster option) result"
  na_UpdateCluster :: "mysql_cluster \<Rightarrow> string option"
  na_GetSecret :: "string \<Rightarrow> string \<Rightarrow> (string, str_map) result"
  na_GetStatefulSet :: "string \<Rightarrow> string \<Rightarrow> (string, stateful_set option) result"
  na_Refresh :: "mysql_cluster \<Rightarrow> (string, mysql_cluster) result"
  na_UpdatePod :: "pod \<Rightarrow> string option"

datatype node_error =
    ApiError string
  | PodNameError
  | ClusterNotFound
  | EmptyCredentials
  | NodeSqlError sql_error
  | FailoverDelay

datatype node_effect = UpdateCluster mysql_cluster | UpdatePodStatus pod

definition getCredsSecret :: "node_api \<Rightarrow> mysql_cluster \<Rightarrow> (node_error, credentials) result" where
  "getCredsSecret api c =
     (case na_GetSecret api (GetNameForResource c Secret) (mc_Namespace c) of
        Inl err \<Rightarrow> Inl (ApiError err)
      | Inr data \<Rightarrow>
          let field = (\<lambda>k. case data k of Some v \<Rightarrow> v | None \<Rightarrow> []);
              creds = \<lparr>cr_User = field ''OPERATOR_USER'', cr_Password = field ''OPERATOR_PASSWORD'',
                       cr_ReplicationUser = field ''REPLICATION_USER'',
                       cr_ReplicationPassword = field ''REPLICATION_PASSWORD''\<rparr>
          in if credentials_Validate creds then Inr creds else Inl EmptyCredentials)"

definition getNodeCluster :: "node_api \<Rightarrow> pod \<Rightarrow> (node_error, mysql_cluster) result" where
  "getNodeCluster api p =
     (case cluster_of_pod (pod_Name p) of
        None \<Rightarrow> Inl PodNameError
      | Some cName \<Rightarrow>
          (case na_GetCluster api cName (pod_Namespace p) of
             Inl err \<Rightarrow> Inl (ApiError err)
           | Inr None \<Rightarrow> Inl ClusterNotFound
           | Inr (Some c) \<Rightarrow> Inr c))"

definition getMySQLConnection :: "env \<Rightarrow> mysql_cluster \<Rightarrow> pod \<Rightarrow> stateful_set option \<Rightarrow> node_sql_runner" where
  "getMySQLConnection e c p sts =
     newNodeConn e (pod_Hostname p @ ''.'' @ GetNameForResource c HeadlessSVC @ ''.'' @ pod_Namespace p)
       (replicationSQLVersion e c p sts)"

definition finish_node ::
    "node_api \<Rightarrow> time \<Rightarrow> pod \<Rightarrow> sql_error option \<Rightarrow> (sql_error \<Rightarrow> string) \<Rightarrow>
     node_effect list \<times> node_error option" where
  "finish_node api now p res show_error =
     (case res of
        Some err \<Rightarrow>
          let p' = updatePodStatusCondition now p NodeInitializedConditionType ConditionFalse
                     ''mysqlInitializationFailed'' (show_error err)
          in ([UpdatePodStatus p'],
              Some (case na_UpdatePod api p' of Some uErr \<Rightarrow> ApiError uErr | None \<Rightarrow> NodeSqlError err))
      | None \<Rightarrow>
          let p' = updatePodStatusCondition now p NodeInitializedConditionType ConditionTrue
                     ''mysqlInitializationSucceeded'' ''success''
          in ([UpdatePodStatus p'], map_option ApiError (na_UpdatePod api p')))"

text \<open>
  \<^verbatim>\<open>Reconcile\<close>: the log of the connection, the writes to the API server and the error, if any. Each wait
  loop has its number of ticks; \<open>show_error\<close> is the text of an error.
\<close>

definition node_Reconcile ::
    "env \<Rightarrow> node_api \<Rightarrow> sql_server \<Rightarrow> nat \<Rightarrow> nat \<Rightarrow> time \<Rightarrow> (sql_error \<Rightarrow> string) \<Rightarrow>
     sql_log \<times> node_effect list \<times> node_error option" where
  "node_Reconcile e api srv ticks1 ticks2 now show_error =
     (case na_GetPod api of
        Inl err \<Rightarrow> ([], [], Some (ApiError err))
      | Inr None \<Rightarrow> ([], [], None)
      | Inr (Some p) \<Rightarrow>
     (case getNodeCluster api p of
        Inl err \<Rightarrow> ([], [], Some err)
      | Inr c \<Rightarrow>
     (if mc_DeletionTimestamp c \<noteq> None then ([], [], None)
      else if shouldUpdateToVersion c 300
      then let c' = c\<lparr>mc_Annotations := (mc_Annotations c)(AnnotationSkipGTIDPurged \<mapsto> ''true'')\<rparr>
           in ([], [UpdateCluster c'], map_option ApiError (na_UpdateCluster api c'))
      else (case getCredsSecret api c of
        Inl err \<Rightarrow> ([], [], Some err)
      | Inr creds \<Rightarrow>
     (case na_GetStatefulSet api (GetNameForResource c StatefulSet) (mc_Namespace c) of
        Inl err \<Rightarrow> ([], [], Some (ApiError err))
      | Inr sts \<Rightarrow>
          let r = getMySQLConnection e c p sts in
     (case Wait srv ticks1 [] of
        (l, Some err) \<Rightarrow> (l, [], Some (NodeSqlError err))
      | (l, None) \<Rightarrow>
     (case WaitForOperatorStatusTable srv ticks2 l of
        (l, Some err) \<Rightarrow> (l, [], Some (NodeSqlError err))
      | (l, None) \<Rightarrow>
     (case na_Refresh api c of
        Inl err \<Rightarrow> (l, [], Some (ApiError err))
      | Inr c' \<Rightarrow>
          if failoverInProgress c' then (l, [], Some FailoverDelay)
          else (case initializeMySQL srv r c' creds l of
                  (l', res) \<Rightarrow> (l', finish_node api now p res show_error))))))))))"


section \<open>The log only grows\<close>

lemmas sql_defs = runQuery_def readStatusValue_def writeStatusValue_def DisableSuperReadOnly_def
  enableSuperReadOnly_def MarkConfigurationDone_def MarkSetGTIDPurged_def

text \<open>The statements sent by an operation that started with the log \<open>l\<close> and ended with \<open>l'\<close>.\<close>

definition sent :: "sql_log \<Rightarrow> sql_log \<Rightarrow> sql_log" where
  "sent l l' = drop (length l) l'"

lemma sent_append [simp]: "sent l (l @ xs) = xs"
  by (simp add: sent_def)

definition stmt :: "string \<Rightarrow> sql_event" where
  "stmt q = Exec (session_query q) []"

definition mark_done :: sql_event where
  "mark_done = stmt (status_replace OperatorConfiguredKey OperatorConfiguredDoneValue)"

definition change_source :: "node_sql_runner \<Rightarrow> string \<Rightarrow> credentials \<Rightarrow> sql_event" where
  "change_source r master creds =
     Exec (session_query (rd_StopReplication (nr_rep r) @ NL @ rd_ChangeSourceSQL (nr_rep r)))
       [master, cr_ReplicationUser creds, cr_ReplicationPassword creds, itoa connRetry]"

lemma session_query_inj [simp]: "session_query p = session_query q \<longleftrightarrow> p = q"
  by (simp add: session_query_def)

definition gtid_events :: "sql_server \<Rightarrow> node_sql_runner \<Rightarrow> sql_log \<Rightarrow> sql_event list" where
  "gtid_events srv r l =
     (let e1 = ReadRow (status_select ''set_gtid_purged''); e2 = ReadRow (status_select ''backup_gtid_purged'') in
      if ss_Read srv l (status_select ''set_gtid_purged'') \<notin> {NoRows, Row []} then [e1]
      else if ss_Read srv (l @ [e1]) (status_select ''backup_gtid_purged'') \<in> {NoRows, Row []} \<union> range RowError
      then [e1, e2] else [e1, e2, stmt (gtid_query (nr_rep r))])"

lemma SetPurgedGTID_log: "fst (SetPurgedGTID srv r l) = l @ gtid_events srv r l"
proof (cases "ss_Read srv l (status_select ''set_gtid_purged'') \<in> {NoRows, Row []}")
  case True
  then show ?thesis
    by (cases "ss_Read srv (l @ [ReadRow (status_select ''set_gtid_purged'')]) (status_select ''backup_gtid_purged'')")
      (auto simp: SetPurgedGTID_def readStatusValue_def runQuery_def gtid_events_def stmt_def Let_def)
next
  case False
  then show ?thesis
    by (cases "ss_Read srv l (status_select ''set_gtid_purged'')")
      (auto simp: SetPurgedGTID_def readStatusValue_def gtid_events_def Let_def)
qed

definition start_events :: "sql_server \<Rightarrow> node_sql_runner \<Rightarrow> sql_log \<Rightarrow> sql_event list" where
  "start_events srv r l =
     (if ss_Exec srv l (session_query (rd_StartReplication (nr_rep r))) [] = None
      then [stmt (rd_StartReplication (nr_rep r))]
      else [stmt (rd_StartReplication (nr_rep r)), stmt (rd_FallbackStartSQL (nr_rep r))])"

definition exec_ok :: "sql_server \<Rightarrow> sql_log \<Rightarrow> sql_event \<Rightarrow> bool" where
  "exec_ok srv l ev = (case ev of Exec q args \<Rightarrow> ss_Exec srv l q args = None | ReadRow q \<Rightarrow> True)"

lemma ChangeMasterTo_ok:
  assumes "ChangeMasterTo srv r m (cr_ReplicationUser creds) (cr_ReplicationPassword creds) l = (l', None)"
  shows "l' = l @ change_source r m creds # start_events srv r (l @ [change_source r m creds]) \<and>
    exec_ok srv l (change_source r m creds)"
  using assms
  by (auto simp: ChangeMasterTo_def runQuery_def change_source_def start_events_def exec_ok_def stmt_def Let_def
      split: option.splits)

definition skip_events :: "mysql_cluster \<Rightarrow> sql_event list" where
  "skip_events c =
     (if mc_Annotations c AnnotationSkipGTIDPurged \<noteq> None
      then [stmt (status_replace ''set_gtid_purged'' ''skipped'')] else [])"

definition source_events :: "sql_server \<Rightarrow> node_sql_runner \<Rightarrow> mysql_cluster \<Rightarrow> credentials \<Rightarrow> sql_log \<Rightarrow> sql_event list" where
  "source_events srv r c creds l =
     (if GetMasterHost c = nr_host r then []
      else let ev = change_source r (GetMasterHost c) creds in ev # start_events srv r (l @ [ev]))"

lemma init_steps_ok:
  assumes "init_steps srv r c creds l = (l', None)"
  obtains l1 l2 l3 where "l1 = l @ skip_events c" "l2 = l1 @ gtid_events srv r l1"
    "l3 = l2 @ source_events srv r c creds l2" "l' = l3 @ [mark_done]"
    "GetMasterHost c \<noteq> nr_host r \<longrightarrow> exec_ok srv l2 (change_source r (GetMasterHost c) creds)"
    "exec_ok srv l3 mark_done"
proof -
  let ?skip = "if mc_Annotations c AnnotationSkipGTIDPurged \<noteq> None then MarkSetGTIDPurged srv l else (l, None)"
  have skip: "fst ?skip = l @ skip_events c"
    by (simp add: skip_events_def MarkSetGTIDPurged_def writeStatusValue_def runQuery_def stmt_def)
  let ?gtid = "SetPurgedGTID srv r (fst ?skip)"
  let ?src = "if GetMasterHost c \<noteq> nr_host r
      then ChangeMasterTo srv r (GetMasterHost c) (cr_ReplicationUser creds) (cr_ReplicationPassword creds) (fst ?gtid)
      else (fst ?gtid, None)"
  from assms have ok: "snd ?skip = None" "snd ?gtid = None" "snd ?src = None"
    and last: "MarkConfigurationDone srv (fst ?src) = (l', None)"
    unfolding init_steps_def by (auto split: prod.splits option.splits simp del: if_split_asm)
  have gtid: "fst ?gtid = fst ?skip @ gtid_events srv r (fst ?skip)" by (rule SetPurgedGTID_log)
  have src: "fst ?src = fst ?gtid @ source_events srv r c creds (fst ?gtid) \<and>
      (GetMasterHost c \<noteq> nr_host r \<longrightarrow> exec_ok srv (fst ?gtid) (change_source r (GetMasterHost c) creds))"
  proof (cases "GetMasterHost c = nr_host r")
    case False
    then have "ChangeMasterTo srv r (GetMasterHost c) (cr_ReplicationUser creds) (cr_ReplicationPassword creds) (fst ?gtid) =
        (fst ?src, None)"
      using ok(3) by (simp add: prod_eq_iff)
    from ChangeMasterTo_ok [OF this] False show ?thesis by (simp add: source_events_def Let_def)
  qed (simp add: source_events_def)
  from last have "l' = fst ?src @ [mark_done]" "exec_ok srv (fst ?src) mark_done"
    by (simp_all add: MarkConfigurationDone_def writeStatusValue_def runQuery_def mark_done_def stmt_def exec_ok_def)
  with skip gtid src show thesis by (intro that [of "fst ?skip" "fst ?gtid" "fst ?src"]) simp_all
qed


lemmas init_sql_simps = DisableSuperReadOnly_def enableSuperReadOnly_def runQuery_def stmt_def

lemma initializeMySQL_cases:
  "initializeMySQL srv r c creds l =
     (let q = ReadRow (status_select OperatorConfiguredKey); off = stmt super_read_only_off; l1 = l @ [q] in
      case ss_Read srv l (status_select OperatorConfiguredKey) of
        RowError err \<Rightarrow> (l1, Some (QueryError err))
      | ans \<Rightarrow>
          if ans = Row OperatorConfiguredDoneValue then (l1, None)
          else (case ss_Exec srv l1 (session_query super_read_only_off) [] of
                  Some err \<Rightarrow> (l1 @ [off], Some (QueryError err))
                | None \<Rightarrow> (fst (init_steps srv r c creds (l1 @ [off])) @ [stmt super_read_only_on],
                           snd (init_steps srv r c creds (l1 @ [off])))))"
proof (cases "ss_Read srv l (status_select OperatorConfiguredKey)")
  case (Row v)
  show ?thesis
  proof (cases "v = OperatorConfiguredDoneValue")
    case False
    with Row show ?thesis
      by (simp add: initializeMySQL_def IsConfigured_def readStatusValue_def init_sql_simps Let_def case_prod_beta split: option.split)
  qed (simp add: Row initializeMySQL_def IsConfigured_def readStatusValue_def)
next
  case NoRows
  have "OperatorConfiguredDoneValue \<noteq> []" by (simp add: OperatorConfiguredDoneValue_def)
  with NoRows show ?thesis
    by (simp add: initializeMySQL_def IsConfigured_def readStatusValue_def init_sql_simps Let_def case_prod_beta split: option.split)
qed (simp add: initializeMySQL_def IsConfigured_def readStatusValue_def)

text \<open>A sequence of steps that stops at the first error keeps what was sent before.\<close>

lemma prefix_then:
  assumes "prefix l (fst m)" and "\<And>l1. prefix l l1 \<Longrightarrow> prefix l (fst (k l1))"
  shows "prefix l (fst (case m of (l1, Some err) \<Rightarrow> (l1, Some err) | (l1, None) \<Rightarrow> k l1))"
  using assms by (cases m; cases "snd m") simp_all

lemma prefix_runQuery: "prefix l l0 \<Longrightarrow> prefix l (fst (runQuery srv q args l0))"
  by (simp add: runQuery_def)

lemma prefix_ChangeMasterTo: "prefix l l0 \<Longrightarrow> prefix l (fst (ChangeMasterTo srv r m u p l0))"
  by (auto simp: ChangeMasterTo_def runQuery_def Let_def split: option.split)

lemma prefix_SetPurgedGTID: "prefix l l0 \<Longrightarrow> prefix l (fst (SetPurgedGTID srv r l0))"
  by (simp add: SetPurgedGTID_log)

lemma init_steps_prefix: "prefix l (fst (init_steps srv r c creds l))"
  unfolding init_steps_def MarkSetGTIDPurged_def MarkConfigurationDone_def writeStatusValue_def
  by (intro prefix_then prefix_SetPurgedGTID prefix_runQuery)
    (simp_all add: prefix_runQuery prefix_ChangeMasterTo)

lemma cluster_of_pod_name:
  assumes "dns_name n"
  shows "cluster_of_pod (n @ ''-mysql-'' @ utoa i) = Some n"
  using ordinal_part_pod [OF assms, of i] by (simp add: cluster_of_pod_def)

section \<open>A concrete node\<close>

text \<open>A server that accepts every statement and whose status table is empty, and an API server with the cluster.\<close>

definition ref_server :: sql_server where
  "ref_server = \<lparr>ss_Exec = (\<lambda>l q args. None),
     ss_Read = (\<lambda>l q. if q = status_select OperatorInitFileCompleteKey then Row OperatorInitFileCompleteValue
       else if q = status_select ''set_gtid_purged'' \<and> stmt (status_replace ''set_gtid_purged'' ''skipped'') \<in> set l
            then Row ''skipped'' else NoRows)\<rparr>"

definition ref_node :: node_sql_runner where
  "ref_node = \<lparr>nr_host = ''db-mysql-1.mysql.ns'', nr_rep = MasterSlaveReplication\<rparr>"

definition ref_creds :: credentials where
  "ref_creds = \<lparr>cr_User = ''op'', cr_Password = ''pw'', cr_ReplicationUser = ''repl'', cr_ReplicationPassword = ''rpw''\<rparr>"

definition ref_node_cluster :: mysql_cluster where
  "ref_node_cluster = ref_cluster\<lparr>mc_Annotations := [AnnotationVersion \<mapsto> utoa 300]\<rparr>"

definition ref_node_pod :: pod where
  "ref_node_pod =
     \<lparr>pod_Name = ''db'' @ ''-mysql-'' @ utoa 1, pod_Namespace = ''ns'', pod_Labels = Map.empty, pod_Hostname = ''db-mysql-1'',
      pod_Containers = [], pod_InitContainers = [], pod_Phase = ''Running'', pod_Conditions = [],
      pod_InitContainerStatuses = []\<rparr>"

definition ref_node_api :: node_api where
  "ref_node_api =
     \<lparr>na_GetPod = Inr (Some ref_node_pod),
      na_GetCluster = (\<lambda>n ns. Inr (if n = ''db'' \<and> ns = ''ns'' then Some ref_node_cluster else None)),
      na_UpdateCluster = (\<lambda>c. None),
      na_GetSecret = (\<lambda>n ns. Inr [''OPERATOR_USER'' \<mapsto> ''op'', ''OPERATOR_PASSWORD'' \<mapsto> ''pw'',
        ''REPLICATION_USER'' \<mapsto> ''repl'', ''REPLICATION_PASSWORD'' \<mapsto> ''rpw'']),
      na_GetStatefulSet = (\<lambda>n ns. Inr None), na_Refresh = Inr, na_UpdatePod = (\<lambda>p. None)\<rparr>"

lemma ref_node_found: "getNodeCluster ref_node_api ref_node_pod = Inr ref_node_cluster"
proof -
  have "dns_name ''db''" by (simp add: dns_name_def is_word_or_dash_def)
  from cluster_of_pod_name [OF this, of 1] show ?thesis
    by (simp add: getNodeCluster_def ref_node_pod_def ref_node_api_def)
qed

lemma ref_node_creds: "getCredsSecret ref_node_api ref_node_cluster = Inr ref_creds"
  by (simp add: getCredsSecret_def ref_node_api_def ref_creds_def credentials_Validate_def anyIsEmpty_def)

lemma ref_node_current: "\<not> shouldUpdateToVersion ref_node_cluster 300"
  by (simp add: shouldUpdateToVersion_def ref_node_cluster_def atoi_utoa max_int64_def)

lemma ref_node_waits:
  "Wait ref_server 1 [] = ([stmt ''SELECT 1''], None)"
  "snd (WaitForOperatorStatusTable ref_server 1 l) = None"
  by (simp_all add: One_nat_def runQuery_def stmt_def isInitFileComplete_def readStatusValue_def ref_server_def)

section \<open>Properties\<close>


lemma init_ref: "snd (initializeMySQL ref_server ref_node ref_cluster ref_creds []) = None"
  by (simp add: initializeMySQL_cases init_steps_def SetPurgedGTID_def readStatusValue_def MarkConfigurationDone_def
      writeStatusValue_def ChangeMasterTo_def runQuery_def ref_server_def status_select_def stmt_def Let_def
      OperatorConfiguredKey_def OperatorInitFileCompleteKey_def ref_cluster_def)

lemma ref_not_configured:
  "ss_Read ref_server l (status_select OperatorConfiguredKey) = NoRows"
  by (simp add: ref_server_def status_select_def OperatorConfiguredKey_def OperatorInitFileCompleteKey_def)


text \<open>
  Super read-only is switched on again on every path: whatever fails after it was
  switched off, the last statement an initialization sends is the one that switches it on.
\<close>

theorem super_read_only_restored:
  assumes "initializeMySQL srv r c creds l = (l', res)"
    and "ss_Exec srv (l @ [ReadRow (status_select OperatorConfiguredKey)]) (session_query super_read_only_off) [] = None"
    and "length (sent l l') > 1"
  shows "last (sent l l') = stmt super_read_only_on \<and> prefix l l'"
proof -
  let ?l2 = "l @ [ReadRow (status_select OperatorConfiguredKey), stmt super_read_only_off]"
  obtain evs where evs: "fst (init_steps srv r c creds ?l2) = ?l2 @ evs" 
    using init_steps_prefix [of ?l2 srv r c creds] by (auto simp: prefix_def)
  from assms(1,2) have "l' = fst (init_steps srv r c creds ?l2) @ [stmt super_read_only_on] \<or>
      l' = l @ [ReadRow (status_select OperatorConfiguredKey)]"
    by (auto simp: initializeMySQL_cases Let_def split: row_answer.splits if_splits option.splits)
  with assms(3) evs have "l' = (?l2 @ evs) @ [stmt super_read_only_on]" by auto
  then show ?thesis by (simp add: sent_def)
qed

theorem super_read_only_restored_witness:
  "last (sent [] (fst (initializeMySQL ref_server ref_node ref_cluster ref_creds []))) = stmt super_read_only_on"
proof -
  let ?run = "initializeMySQL ref_server ref_node ref_cluster ref_creds []"
  have "ss_Exec ref_server ([] @ [ReadRow (status_select OperatorConfiguredKey)]) (session_query super_read_only_off) [] = None"
    by (simp add: ref_server_def)
  moreover from this have "length (sent [] (fst ?run)) > 1"
    using init_steps_prefix [of "[ReadRow (status_select OperatorConfiguredKey), stmt super_read_only_off]"
        ref_server ref_node ref_cluster ref_creds]
    by (auto simp: initializeMySQL_cases ref_not_configured sent_def Let_def prefix_def)
  moreover have "?run = (fst ?run, snd ?run)" by simp
  ultimately show ?thesis using super_read_only_restored by blast
qed

text \<open>
  The GTID set of a backup is applied exactly when none was set before and the backup
  has one, so never twice; and with the mark of an annotated cluster in place it is not applied at
  all, when the server reads back what was written.
\<close>

theorem gtid_purged_once:
  assumes "ss_Exec srv l (session_query (status_replace ''set_gtid_purged'' ''skipped'')) [] = None \<longrightarrow>
      ss_Read srv (l @ [stmt (status_replace ''set_gtid_purged'' ''skipped'')]) (status_select ''set_gtid_purged'') = Row ''skipped''"
  shows "(stmt (gtid_query (nr_rep r)) \<in> set (sent l (fst (SetPurgedGTID srv r l))) \<longleftrightarrow>
      ss_Read srv l (status_select ''set_gtid_purged'') \<in> {NoRows, Row []} \<and>
      (\<exists>gtid. gtid \<noteq> [] \<and> ss_Read srv (l @ [ReadRow (status_select ''set_gtid_purged'')])
         (status_select ''backup_gtid_purged'') = Row gtid)) \<and>
    (case MarkSetGTIDPurged srv l of
       (l1, None) \<Rightarrow> SetPurgedGTID srv r l1 = (l1 @ [ReadRow (status_select ''set_gtid_purged'')], None)
     | (l1, Some err) \<Rightarrow> True)"
proof -
  have "stmt (gtid_query (nr_rep r)) \<in> set (gtid_events srv r l) \<longleftrightarrow>
      ss_Read srv l (status_select ''set_gtid_purged'') \<in> {NoRows, Row []} \<and>
      (\<exists>gtid. gtid \<noteq> [] \<and> ss_Read srv (l @ [ReadRow (status_select ''set_gtid_purged'')])
         (status_select ''backup_gtid_purged'') = Row gtid)"
    by (cases "ss_Read srv (l @ [ReadRow (status_select ''set_gtid_purged'')]) (status_select ''backup_gtid_purged'')")
      (auto simp: gtid_events_def stmt_def Let_def)
  moreover have "case MarkSetGTIDPurged srv l of
       (l1, None) \<Rightarrow> SetPurgedGTID srv r l1 = (l1 @ [ReadRow (status_select ''set_gtid_purged'')], None)
     | (l1, Some err) \<Rightarrow> True"
    using assms
    by (auto simp: MarkSetGTIDPurged_def writeStatusValue_def runQuery_def stmt_def SetPurgedGTID_def readStatusValue_def
        split: option.splits)
  ultimately show ?thesis by (simp add: SetPurgedGTID_log)
qed

theorem gtid_purged_once_witness:
  "stmt (gtid_query (nr_rep ref_node)) \<notin> set (sent [] (fst (SetPurgedGTID ref_server ref_node [])))"
proof -
  have "ss_Exec ref_server [] (session_query (status_replace ''set_gtid_purged'' ''skipped'')) [] = None \<longrightarrow>
      ss_Read ref_server ([] @ [stmt (status_replace ''set_gtid_purged'' ''skipped'')])
        (status_select ''set_gtid_purged'') = Row ''skipped''"
    by (simp add: ref_server_def status_select_def OperatorInitFileCompleteKey_def)
  moreover have "ss_Read ref_server [ReadRow (status_select ''set_gtid_purged'')] (status_select ''backup_gtid_purged'') = NoRows"
    by (simp add: ref_server_def status_select_def OperatorInitFileCompleteKey_def)
  ultimately show ?thesis using gtid_purged_once [of ref_server "[]" ref_node] by simp
qed

lemma finish_node_status:
  assumes "finish_node api now p res show_error = (effs, err)"
  obtains p' cond where "effs = [UpdatePodStatus p']" "pod_Name p' = pod_Name p"
    "find (\<lambda>cond. pc_Type cond = NodeInitializedConditionType) (pod_Conditions p') = Some cond"
    "pc_Status cond = ConditionTrue \<longleftrightarrow> res = None" "err = None \<longrightarrow> res = None"
  using assms
  by (cases res)
    (auto simp: finish_node_def Let_def updatePodStatusCondition_def pod_conds.find_update mk_pod_condition_def intro: that)

text \<open>
  Property C25. The status of a pod is written only for a cluster that exists, is not being deleted
  and is not of an old version, with complete credentials, and when the refreshed cluster has no
  failover in progress; the condition that marks the node as initialized is then true exactly when
  the initialization of its server, for the refreshed cluster, has succeeded.
\<close>

theorem node_marked_initialized:
  assumes "node_Reconcile e api srv ticks1 ticks2 now show_error = (l', effs, err)"
    and "UpdatePodStatus p' \<in> set effs"
  shows "\<exists>p c c' creds sts l res cond.
    na_GetPod api = Inr (Some p) \<and> getNodeCluster api p = Inr c \<and> mc_DeletionTimestamp c = None \<and>
    \<not> shouldUpdateToVersion c 300 \<and> getCredsSecret api c = Inr creds \<and> credentials_Validate creds \<and>
    na_Refresh api c = Inr c' \<and> \<not> failoverInProgress c' \<and>
    initializeMySQL srv (getMySQLConnection e c p sts) c' creds l = (l', res) \<and>
    pod_Name p' = pod_Name p \<and> (err = None \<longrightarrow> res = None) \<and>
    find (\<lambda>cond. pc_Type cond = NodeInitializedConditionType) (pod_Conditions p') = Some cond \<and>
    (pc_Status cond = ConditionTrue \<longleftrightarrow> res = None)"
proof -
  let ?r = "\<lambda>c p sts. getMySQLConnection e c p sts"
  obtain p c c' creds sts l res where run:
    "na_GetPod api = Inr (Some p)" "getNodeCluster api p = Inr c" "mc_DeletionTimestamp c = None"
    "\<not> shouldUpdateToVersion c 300" "getCredsSecret api c = Inr creds" "na_Refresh api c = Inr c'"
    "\<not> failoverInProgress c'" "initializeMySQL srv (?r c p sts) c' creds l = (l', res)"
    "finish_node api now p res show_error = (effs, err)"
    using assms unfolding node_Reconcile_def Let_def
    by (auto split: sum.splits option.splits prod.splits if_split_asm)
  have "credentials_Validate creds"
    using run(5) by (auto simp: getCredsSecret_def Let_def split: sum.splits if_split_asm)
  moreover from run(9) obtain p'' cond where "effs = [UpdatePodStatus p'']" "pod_Name p'' = pod_Name p"
    "find (\<lambda>cond. pc_Type cond = NodeInitializedConditionType) (pod_Conditions p'') = Some cond"
    "pc_Status cond = ConditionTrue \<longleftrightarrow> res = None" "err = None \<longrightarrow> res = None"
    by (rule finish_node_status)
  ultimately show ?thesis using run assms(2) by auto
qed

theorem node_marked_initialized_witness:
  "\<exists>p'. fst (snd (node_Reconcile ref_env ref_node_api ref_server 1 1 7 (\<lambda>err. ''err''))) = [UpdatePodStatus p'] \<and>
     pod_Name p' = pod_Name ref_node_pod"
proof -
  let ?run = "node_Reconcile ref_env ref_node_api ref_server 1 1 7 (\<lambda>err. ''err'')"
  have sel: "na_GetPod ref_node_api = Inr (Some ref_node_pod)" "na_GetStatefulSet ref_node_api n ns = Inr None"
    "na_Refresh ref_node_api c = Inr c" "mc_DeletionTimestamp ref_node_cluster = None" for n ns c
    by (simp_all add: ref_node_api_def ref_node_cluster_def ref_cluster_def)
  have nofail: "\<not> failoverInProgress ref_node_cluster"
    by (simp add: failoverInProgress_def GetClusterCondition_def condIndex_def ref_node_cluster_def ref_cluster_def)
  obtain l where w: "WaitForOperatorStatusTable ref_server 1 [stmt ''SELECT 1''] = (l, None)"
    using ref_node_waits(2) [of "[stmt ''SELECT 1'']"] by (metis prod.collapse)
  let ?init = "initializeMySQL ref_server (getMySQLConnection ref_env ref_node_cluster ref_node_pod None) ref_node_cluster ref_creds l"
  let ?fin = "finish_node ref_node_api 7 ref_node_pod (snd ?init) (\<lambda>err. ''err'')"
  have run: "?run = (fst ?init, fst ?fin, snd ?fin)"
    unfolding node_Reconcile_def
    by (simp add: sel ref_node_found ref_node_creds ref_node_current ref_node_waits(1) w nofail case_prod_beta Let_def
        del: One_nat_def)
  obtain p' cond where fin: "fst ?fin = [UpdatePodStatus p']"
    by (rule finish_node_status [of ref_node_api 7 ref_node_pod "snd ?init" "\<lambda>err. ''err''" "fst ?fin" "snd ?fin"]) simp
  then have "UpdatePodStatus p' \<in> set (fst ?fin)" by simp
  from node_marked_initialized [OF run this] have "pod_Name p' = pod_Name ref_node_pod" by (auto simp: sel)
  with run fin show ?thesis by simp
qed

text \<open>
  The controller finds the cluster a pod belongs to: for a cluster with a DNS name, the
  name the stateful set gives to a pod leads back to the name of the cluster.
\<close>

theorem pod_leads_to_cluster:
  assumes "dns_name (mc_Name c)" and "pod_Name p = GetNameForResource c StatefulSet @ ''-'' @ utoa i"
    and "pod_Namespace p = mc_Namespace c" and "na_GetCluster api (mc_Name c) (mc_Namespace c) = Inr (Some c)"
  shows "getNodeCluster api p = Inr c"
  using assms cluster_of_pod_name [OF assms(1), of i]
  by (simp add: getNodeCluster_def GetNameForResource_def)

theorem pod_leads_to_cluster_witness: "getNodeCluster ref_node_api ref_node_pod = Inr ref_node_cluster"
  using pod_leads_to_cluster [of ref_node_cluster ref_node_pod 1 ref_node_api]
  by (simp add: ref_node_api_def ref_node_pod_def ref_node_cluster_def ref_cluster_def dns_name_def is_word_or_dash_def
      GetNameForResource_def)

end
