(* ===== verification/Defaults.thy ===== *)
theory Defaults
  imports Cluster "HOL-Library.Log_Nat" "HOL-Library.Monad_Syntax" "HOL-Library.Signed_Division"
begin

text \<open>
  The defaults of a cluster: \<^verbatim>\<open>pkg/apis/mysql/v1alpha1/mysqlcluster_defaults.go\<close> (the scheme defaults,
  which run first) and \<^verbatim>\<open>pkg/internal/mysqlcluster/defaults.go\<close> (the defaults that depend on the options
  and on the requested resources).

  The arithmetic of \<^verbatim>\<open>resource.Quantity\<close> is a parameter, the record \<open>quantity_api\<close>; \<open>quantity_ok\<close>
  states what the code relies on. A write to a nil \<^verbatim>\<open>mysqlConf\<close> panics, which is the value \<open>None\<close>.
  The type \<^verbatim>\<open>float64\<close> is the set of rationals that \<open>f64\<close> rounds to: the operations of the code stay far below
  the range where a float overflows.
\<close>

section \<open>Floating point numbers\<close>

text \<open>Rounding to the nearest integer, ties to the even one.\<close>

definition round_half_even :: "rat \<Rightarrow> int" where
  "round_half_even x =
     (let n = \<lfloor>x\<rfloor>; d = x - of_int n in
      if d < 1 / 2 then n else if d > 1 / 2 then n + 1 else if even n then n else n + 1)"

text \<open>
  IEEE binary64: the numbers are multiples of \<open>2 ^ -1074\<close> (the smallest subnormal number), rounded to 53
  significant bits.
\<close>

definition f64_scale :: rat where
  "f64_scale = 2 ^ 1074"

definition f64 :: "rat \<Rightarrow> rat" where
  "f64 x =
     (let y = \<bar>x\<bar> * f64_scale; k = nat (bitlen \<lfloor>y\<rfloor> - 53)
      in sgn x * (of_int (round_half_even (y / 2 ^ k)) * 2 ^ k / f64_scale))"

definition float64 :: "int \<Rightarrow> rat" where
  "float64 i = f64 (of_int i)"

text \<open>The conversion of a float to an integer truncates.\<close>

definition int64_of_f64 :: "rat \<Rightarrow> int" where
  "int64_of_f64 x = (if x < 0 then \<lceil>x\<rceil> else \<lfloor>x\<rfloor>)"

section \<open>Quantities\<close>

record quantity_api =
  q_Value :: "quantity \<Rightarrow> int"
  q_MilliValue :: "quantity \<Rightarrow> int"
  q_IsZero :: "quantity \<Rightarrow> bool"
  q_Sub :: "quantity \<Rightarrow> quantity \<Rightarrow> quantity"

definition kb :: int where
  "kb = 2 ^ 10"

definition mb :: int where
  "mb = 2 ^ 20"

definition gb :: int where
  "gb = 2 ^ 30"

text \<open>\<^verbatim>\<open>ResourceList.Memory\<close> and \<^verbatim>\<open>ResourceList.Cpu\<close> return the zero quantity for a missing entry.\<close>

definition resource_of :: "resource_list \<Rightarrow> string \<Rightarrow> quantity" where
  "resource_of rl name = (case rl name of Some q \<Rightarrow> q | None \<Rightarrow> ''0'')"

section \<open>Sizes\<close>

definition tryUnit :: "int \<Rightarrow> int \<Rightarrow> string \<Rightarrow> string option" where
  "tryUnit value scale unitStr =
     (let allow = (value * 1) sdiv 1000 in
      if value \<ge> scale \<and> value smod scale \<le> allow then Some (itoa (value sdiv scale) @ unitStr) else None)"

definition humanizeSize :: "int \<Rightarrow> int_or_string" where
  "humanizeSize value =
     (case tryUnit value gb ''G'' of
        Some r \<Rightarrow> StrVal r
      | None \<Rightarrow>
     (case tryUnit value mb ''M'' of
        Some r \<Rightarrow> StrVal r
      | None \<Rightarrow>
     (case tryUnit value kb ''K'' of
        Some r \<Rightarrow> StrVal r
      | None \<Rightarrow> StrVal (itoa value))))"

definition computeInnodbLogFileSize :: "quantity_api \<Rightarrow> quantity \<Rightarrow> int" where
  "computeInnodbLogFileSize q mem =
     (if q_Value q mem < gb then 48 * mb
      else if q_Value q mem \<le> 4 * gb then 128 * mb
      else if q_Value q mem \<le> 8 * gb then 512 * mb
      else if q_Value q mem \<le> 16 * gb then 1 * gb
      else 2 * gb)"

text \<open>\<^verbatim>\<open>computeInnodbBufferPoolSize\<close>; \<open>None\<close> is its error.\<close>

definition computeInnodbBufferPoolSize :: "quantity_api \<Rightarrow> quantity \<Rightarrow> int option" where
  "computeInnodbBufferPoolSize q mem =
     (if q_Value q mem \<le> 512 * mb then None
      else
        let (availableMem, percentRAM) =
          (if q_Value q mem \<le> 1 * gb then (q_Sub q mem ''256Mi'', f64 (1 / 2))
           else if q_Value q mem \<le> 4 * gb then (q_Sub q mem ''256Mi'', f64 (3 / 4))
           else (q_Sub q mem ''512Mi'', f64 (4 / 5)))
        in Some (int64_of_f64 (f64 (float64 (q_Value q availableMem) * percentRAM))))"

section \<open>The scheme defaults\<close>

definition defaultMinAvailable :: string where
  "defaultMinAvailable = ''50%''"

definition or_default :: "resource_list \<Rightarrow> resource_list \<Rightarrow> resource_list" where
  "or_default rl d = (if rl = Map.empty then d else rl)"

definition setPodSpecDefaults :: "pod_spec \<Rightarrow> pod_spec" where
  "setPodSpecDefaults spec =
     (let res = (if rr_Requests (ps_Resources spec) = Map.empty
                 then \<lparr>rr_Requests = [''cpu'' \<mapsto> ''200m'', ''memory'' \<mapsto> ''1Gi''], rr_Limits = Map.empty\<rparr>
                 else ps_Resources spec);
          exporter = ps_MetricsExporterResources spec;
          sidecar = ps_MySQLOperatorSidecarResources spec;
          heartbeat = ps_PtHeartbeatResources spec
      in spec\<lparr>ps_Resources := res,
          ps_MetricsExporterResources :=
            \<lparr>rr_Requests = or_default (rr_Requests exporter) [''cpu'' \<mapsto> ''10m'', ''memory'' \<mapsto> ''32Mi''],
             rr_Limits = or_default (rr_Limits exporter) [''cpu'' \<mapsto> ''100m'', ''memory'' \<mapsto> ''128Mi'']\<rparr>,
          ps_MySQLOperatorSidecarResources :=
            \<lparr>rr_Requests = or_default (rr_Requests sidecar) [''cpu'' \<mapsto> ''10m'', ''memory'' \<mapsto> ''64Mi''],
             rr_Limits = or_default (rr_Limits sidecar) (rr_Limits res)\<rparr>,
          ps_PtHeartbeatResources :=
            \<lparr>rr_Requests = or_default (rr_Requests heartbeat) [''cpu'' \<mapsto> ''10m'', ''memory'' \<mapsto> ''32Mi''],
             rr_Limits = or_default (rr_Limits heartbeat) [''cpu'' \<mapsto> ''100m'', ''memory'' \<mapsto> ''64Mi'']\<rparr>\<rparr>)"

definition setVolumeSpecDefaults :: "pvc_spec \<Rightarrow> pvc_spec" where
  "setVolumeSpecDefaults spec =
     spec\<lparr>pvs_AccessModes := (if pvs_AccessModes spec = [] then [''ReadWriteOnce''] else pvs_AccessModes spec),
          pvs_Resources := (if rr_Requests (pvs_Resources spec) = Map.empty
                            then \<lparr>rr_Requests = [''storage'' \<mapsto> ''1Gi''], rr_Limits = Map.empty\<rparr>
                            else pvs_Resources spec)\<rparr>"

definition SetDefaults_MysqlCluster :: "mysql_cluster \<Rightarrow> mysql_cluster" where
  "SetDefaults_MysqlCluster c =
     (let spec = mc_Spec c;
          vol = cs_VolumeSpec spec;
          replicas = (case cs_Replicas spec of None \<Rightarrow> 1 | Some r \<Rightarrow> r);
          conf = (case cs_MysqlConf spec of None \<Rightarrow> Map.empty | Some m \<Rightarrow> m)
      in c\<lparr>mc_Spec := spec\<lparr>
          cs_PodSpec := setPodSpecDefaults (cs_PodSpec spec),
          cs_VolumeSpec := vol\<lparr>vs_PersistentVolumeClaim :=
            map_option setVolumeSpecDefaults (vs_PersistentVolumeClaim vol)\<rparr>,
          cs_Replicas := Some replicas,
          cs_MysqlConf := Some conf,
          cs_MinAvailable := (if cs_MinAvailable spec = [] \<and> replicas > 1 then defaultMinAvailable
                              else cs_MinAvailable spec)\<rparr>\<rparr>)"

section \<open>The defaults from the options\<close>

definition setConfigIfNotSet :: "mysql_conf \<Rightarrow> string \<Rightarrow> int_or_string \<Rightarrow> mysql_conf option" where
  "setConfigIfNotSet conf option' value =
     (case conf of
        None \<Rightarrow> None
      | Some m \<Rightarrow> Some (Some (if m option' = None then m(option' \<mapsto> value) else m)))"

text \<open>The same on the configuration of a cluster.\<close>

definition set_conf :: "string \<Rightarrow> int_or_string \<Rightarrow> mysql_cluster \<Rightarrow> mysql_cluster option" where
  "set_conf k v c =
     map_option (\<lambda>conf. c\<lparr>mc_Spec := (mc_Spec c)\<lparr>cs_MysqlConf := conf\<rparr>\<rparr>)
       (setConfigIfNotSet (cs_MysqlConf (mc_Spec c)) k v)"

definition getRequestedStorage :: "pvc_spec \<Rightarrow> quantity option" where
  "getRequestedStorage p = rr_Requests (pvs_Resources p) ''storage''"

definition default_pod :: "env \<Rightarrow> options \<Rightarrow> mysql_cluster \<Rightarrow> mysql_cluster" where
  "default_pod e opt c =
     (let spec = mc_Spec c;
          ps = cs_PodSpec spec;
          c1 = c\<lparr>mc_Spec := spec\<lparr>
            cs_PodSpec := ps\<lparr>
              ps_ImagePullPolicy := (if ps_ImagePullPolicy ps = [] then opt_ImagePullPolicy opt else ps_ImagePullPolicy ps),
              ps_ImagePullSecrets := (if ps_ImagePullSecrets ps = [] \<and> opt_ImagePullSecretName opt \<noteq> []
                then [opt_ImagePullSecretName opt] else ps_ImagePullSecrets ps)\<rparr>,
            cs_MysqlVersion := (if cs_MysqlVersion spec = [] then MySQLDefaultVersion else cs_MysqlVersion spec)\<rparr>\<rparr>;
          ps1 = cs_PodSpec (mc_Spec c1)
      in if ps_Affinity ps1 \<noteq> None then c1
         else c1\<lparr>mc_Spec := (mc_Spec c1)\<lparr>cs_PodSpec := ps1\<lparr>
           ps_Affinity := Some (PreferredPodAntiAffinity 100 ''kubernetes.io/hostname'' (GetLabels e c1))\<rparr>\<rparr>\<rparr>)"

definition default_buffer_pool :: "quantity_api \<Rightarrow> mysql_cluster \<Rightarrow> (int \<times> mysql_cluster) option" where
  "default_buffer_pool q c =
     (let mem = resource_of (rr_Requests (ps_Resources (cs_PodSpec (mc_Spec c)))) ''memory'' in
      if q_IsZero q mem then Some (128 * mb, c)
      else (case computeInnodbBufferPoolSize q mem of
              None \<Rightarrow> Some (0, c)
            | Some s \<Rightarrow> map_option (Pair s) (set_conf ''innodb-buffer-pool-size'' (humanizeSize s) c)))"

definition default_redo_log :: "env \<Rightarrow> quantity_api \<Rightarrow> mysql_cluster \<Rightarrow> mysql_cluster option" where
  "default_redo_log e q c =
     (let perFile = computeInnodbLogFileSize q
            (resource_of (rr_Requests (ps_Resources (cs_PodSpec (mc_Spec c)))) ''memory'');
          v = DesiredVersion e c;
          (key, sizeBytes) = InnoDBOperatorLogSizing (ProfileFor e v) v perFile
      in set_conf key (humanizeSize sizeBytes) c)"

definition binlog_sizes :: "int \<Rightarrow> int \<times> int" where
  "binlog_sizes space =
     (if space < 2 * gb then (space sdiv 3, min ((space sdiv 3) sdiv 3) (1 * gb))
      else (space sdiv 2, min ((space sdiv 2) sdiv 4) (1 * gb)))"

definition default_binlog :: "env \<Rightarrow> quantity_api \<Rightarrow> mysql_cluster \<Rightarrow> mysql_cluster option" where
  "default_binlog e q c =
     (case Option.bind (vs_PersistentVolumeClaim (cs_VolumeSpec (mc_Spec c))) getRequestedStorage of
        None \<Rightarrow> Some c
      | Some space \<Rightarrow>
          let (binlogSpaceLimit, maxBinlogSize) = binlog_sizes (q_Value q space) in
          do {
            c \<leftarrow> (if IsPerconaImage e c then set_conf ''binlog-space-limit'' (humanizeSize binlogSpaceLimit) c else Some c);
            set_conf ''max-binlog-size'' (humanizeSize maxBinlogSize) c
          })"

definition default_pool_instances :: "quantity_api \<Rightarrow> int \<Rightarrow> mysql_cluster \<Rightarrow> mysql_cluster option" where
  "default_pool_instances q innodbBufferPoolSize c =
     (let cpu = resource_of (rr_Limits (ps_Resources (cs_PodSpec (mc_Spec c)))) ''cpu'' in
      if q_IsZero q cpu then Some c
      else let cpuRounded = \<lceil>f64 (float64 (q_MilliValue q cpu) / float64 1000)\<rceil>;
               instances = max (min cpuRounded \<lfloor>f64 (float64 innodbBufferPoolSize / float64 gb)\<rfloor>) 1
           in set_conf ''innodb-buffer-pool-instances'' (IntVal instances) c)"

definition SetDefaults :: "env \<Rightarrow> quantity_api \<Rightarrow> options \<Rightarrow> mysql_cluster \<Rightarrow> mysql_cluster option" where
  "SetDefaults e q opt c =
     do {
       (innodbBufferPoolSize, c) \<leftarrow> default_buffer_pool q (default_pod e opt c);
       c \<leftarrow> default_redo_log e q c;
       c \<leftarrow> default_binlog e q c;
       c \<leftarrow> default_pool_instances q innodbBufferPoolSize c;
       Some (c\<lparr>mc_Spec := (mc_Spec c)\<lparr>cs_XtrabackupTargetDir :=
         (if cs_XtrabackupTargetDir (mc_Spec c) = [] then ''/tmp/xtrabackup_backupfiles/''
          else cs_XtrabackupTargetDir (mc_Spec c))\<rparr>\<rparr>)
     }"

section \<open>Rounding\<close>

lemma round_half_even_error: "\<bar>of_int (round_half_even x) - x\<bar> \<le> 1 / 2"
proof -
  have "of_int \<lfloor>x\<rfloor> \<le> x" "x < of_int \<lfloor>x\<rfloor> + 1" by linarith+
  then show ?thesis by (simp add: round_half_even_def Let_def)
qed

lemma round_half_even_int [simp]: "round_half_even (of_int n) = n"
  by (simp add: round_half_even_def)

lemma f64_scale_pos [simp]: "f64_scale > 0" "f64_scale \<noteq> 0"
  by (simp_all add: f64_scale_def)

lemma f64_error:
  assumes "1 / 2 \<le> x"
  shows "\<bar>f64 x - x\<bar> \<le> x / 2 ^ 53"
proof -
  define y where "y = x * f64_scale"
  define b where "b = bitlen \<lfloor>y\<rfloor>"
  define k where "k = nat (b - 53)"
  have "1 / 2 * f64_scale \<le> y" unfolding y_def using assms f64_scale_pos(1) by (intro mult_right_mono) linarith+
  moreover have "1 / 2 * f64_scale = 2 ^ 1073" by (simp add: f64_scale_def)
  ultimately have fl: "2 ^ 1073 \<le> \<lfloor>y\<rfloor>" by (simp add: le_floor_iff)
  then have pos: "0 < \<lfloor>y\<rfloor>" by (rule less_le_trans [rotated]) simp
  from fl have "b \<ge> 1074" by (simp add: b_def bitlen_ge_iff_power)
  then have kb: "nat (b - 1) = k + 52" by (simp add: k_def)
  have "2 ^ (k + 52) \<le> \<lfloor>y\<rfloor>" using bitlen_bounds [OF pos] kb by (simp add: b_def)
  then have pow: "2 ^ k * 2 ^ 52 \<le> y" by (simp add: le_floor_iff power_add)
  define r where "r = of_int (round_half_even (y / 2 ^ k)) - y / 2 ^ k"
  have r: "\<bar>r\<bar> \<le> 1 / 2" unfolding r_def by (rule round_half_even_error)
  have "sgn x = 1" "\<bar>x\<bar> = x" using assms by simp_all
  then have f: "f64 x = of_int (round_half_even (y / 2 ^ k)) * 2 ^ k / f64_scale"
    by (simp add: f64_def Let_def y_def b_def k_def)
  have "x = y / f64_scale" using f64_scale_pos by (simp add: y_def)
  then have "f64 x - x = r * 2 ^ k / f64_scale"
    using f by (simp add: r_def left_diff_distrib diff_divide_distrib)
  then have "\<bar>f64 x - x\<bar> = \<bar>r\<bar> * 2 ^ k / f64_scale"
    by (simp add: abs_mult abs_of_pos [OF f64_scale_pos(1)])
  also have "\<dots> \<le> (1 / 2 * 2 ^ k) / f64_scale"
    using r f64_scale_pos(1) by (intro divide_right_mono mult_right_mono) (simp_all add: less_imp_le)
  also have "\<dots> \<le> (y / 2 ^ 53) / f64_scale"
    using pow f64_scale_pos(1) by (intro divide_right_mono) (simp_all add: less_imp_le)
  also have "\<dots> = x / 2 ^ 53" using f64_scale_pos by (simp add: y_def)
  finally show ?thesis .
qed

lemma f64_exact:
  assumes "0 \<le> m" and "m < 2 ^ 53" and "j \<le> 1074"
  shows "f64 (of_int m / 2 ^ j) = of_int m / 2 ^ j"
proof (cases "m = 0")
  case False
  define d where "d = 1074 - j"
  have S: "f64_scale = 2 ^ d * 2 ^ j" using assms(3) by (simp add: f64_scale_def d_def flip: power_add)
  define x :: rat where "x = of_int m / 2 ^ j"
  have y: "x * f64_scale = of_int (m * 2 ^ d)" by (simp add: S x_def)
  define k where "k = nat (bitlen (m * 2 ^ d) - 53)"
  have "bitlen m \<le> 53" using assms(2) by (simp add: bitlen_le_iff_power)
  then have kd: "k \<le> d" using False assms(1) by (simp add: k_def)
  then have dk: "(2 :: rat) ^ d = 2 ^ (d - k) * 2 ^ k" by (simp flip: power_add)
  then have quot: "of_int (m * 2 ^ d) / 2 ^ k = (of_int (m * 2 ^ (d - k)) :: rat)"
    by (simp add: dk)
  have x0: "x > 0" using False assms(1) by (simp add: x_def)
  then have "f64 x = of_int (round_half_even (of_int (m * 2 ^ d) / 2 ^ k)) * 2 ^ k / f64_scale"
    unfolding f64_def by (simp only: abs_of_pos sgn_pos y floor_of_int Let_def k_def mult_1_left)
  also have "\<dots> = of_int (m * 2 ^ d) / f64_scale"
    unfolding quot round_half_even_int by (simp add: dk)
  also have "\<dots> = x" using y f64_scale_pos by (simp add: field_simps)
  finally show ?thesis by (simp add: x_def)
qed (simp add: f64_def)

lemma float64_exact: "0 \<le> i \<Longrightarrow> i < 2 ^ 53 \<Longrightarrow> float64 i = of_int i"
  using f64_exact [of i 0] by (simp add: float64_def)


section \<open>Lemmas\<close>

text \<open>What the code relies on of \<^verbatim>\<open>resource.Quantity\<close>: the value of a difference, and of a zero quantity.\<close>

definition quantity_ok :: "quantity_api \<Rightarrow> bool" where
  "quantity_ok q \<longleftrightarrow>
     (\<forall>a. q_Value q (q_Sub q a ''256Mi'') = q_Value q a - 256 * mb) \<and>
     (\<forall>a. q_Value q (q_Sub q a ''512Mi'') = q_Value q a - 512 * mb) \<and>
     (\<forall>a. q_IsZero q a \<longrightarrow> q_Value q a = 0) \<and> q_IsZero q ''0''"

lemma int64_of_f64_quot:
  assumes "0 \<le> m" "m < 2 ^ 53" "j \<le> 1074"
  shows "int64_of_f64 (f64 (of_int m / 2 ^ j)) = m div 2 ^ j"
proof -
  have "\<lfloor>of_int m / (2 ^ j :: rat)\<rfloor> = m div 2 ^ j"
    using floor_divide_of_int_eq [of m "2 ^ j"] by simp
  moreover have "(0 :: rat) \<le> of_int m / 2 ^ j" using assms(1) by simp
  ultimately show ?thesis using f64_exact [OF assms] by (simp add: int64_of_f64_def not_less)
qed

lemma f64_quarters: "f64 (1 / 2) = 1 / 2" "f64 (3 / 4) = 3 / 4"
  using f64_exact [of 1 1] f64_exact [of 3 2] by simp_all

lemma pool_size_small:
  assumes "0 \<le> v" "v \<le> 4 * gb"
  shows "int64_of_f64 (f64 (float64 v * f64 (1 / 2))) = v div 2"
    and "int64_of_f64 (f64 (float64 v * f64 (3 / 4))) = 3 * v div 4"
  using int64_of_f64_quot [of v 1] int64_of_f64_quot [of "3 * v" 2] assms
  by (simp_all add: f64_quarters float64_exact gb_def mult.commute)

lemma pool_size_large:
  assumes "gb \<le> v" "v < 2 ^ 50"
  defines "s \<equiv> int64_of_f64 (f64 (float64 v * f64 (4 / 5)))"
  shows "4 * v - 6 \<le> 5 * s \<and> 5 * s \<le> 4 * v + 1"
proof -
  define p :: rat where "p = f64 (4 / 5)"
  define x :: rat where "x = of_int v * p"
  define w :: rat where "w = of_int v"
  have w: "2 ^ 30 \<le> w" "w < 2 ^ 50"
    using assms(1,2) unfolding w_def gb_def by (metis of_int_le_iff of_int_less_iff of_int_power of_int_numeral)+
  have "\<bar>p - 4 / 5\<bar> \<le> (4 / 5) / 2 ^ 53" unfolding p_def by (rule f64_error) simp
  then have p: "\<bar>p - 4 / 5\<bar> \<le> 1 / 2 ^ 53" by simp
  have "x - 4 / 5 * w = w * (p - 4 / 5)" by (simp add: x_def w_def algebra_simps)
  then have "\<bar>x - 4 / 5 * w\<bar> = w * \<bar>p - 4 / 5\<bar>" using w(1) by (simp add: abs_mult)
  also have "\<dots> \<le> 2 ^ 50 * (1 / 2 ^ 53)" using w p by (intro mult_mono) simp_all
  finally have x: "\<bar>x - 4 / 5 * w\<bar> \<le> 1 / 8" by simp
  then have "x \<le> 4 / 5 * w + 1 / 8" "4 / 5 * w - 1 / 8 \<le> x" by linarith+
  moreover have "(2 :: rat) ^ 30 = 1073741824" "(2 :: rat) ^ 50 = 1125899906842624" by simp_all
  ultimately have x1: "1 / 2 \<le> x" "x < 2 ^ 50" using w by linarith+
  have "\<bar>f64 x - x\<bar> \<le> x / 2 ^ 53" by (rule f64_error [OF x1(1)])
  also have "\<dots> \<le> 1 / 8" using x1(2) by simp
  finally have f: "\<bar>f64 x - 4 / 5 * w\<bar> \<le> 1 / 4" using x by linarith
  then have "f64 x \<ge> 4 / 5 * w - 1 / 4" by linarith
  moreover have "1 \<le> w" using w(1) by (rule order_trans [rotated]) simp
  ultimately have "f64 x \<ge> 0" by linarith
  moreover have "float64 v = of_int v" using assms(1,2) by (intro float64_exact) (simp_all add: gb_def)
  ultimately have "s = \<lfloor>f64 x\<rfloor>" by (simp add: s_def int64_of_f64_def x_def p_def)
  then have "of_int s \<le> f64 x" "f64 x < of_int s + 1" by linarith+
  then have "5 * of_int s \<le> 4 * w + 5 / 4" "4 * w - 25 / 4 < 5 * of_int s" using f by linarith+
  then have "(of_int (5 * s) :: rat) < of_int (4 * v + 2)" "(of_int (4 * v - 7) :: rat) < of_int (5 * s)"
    by (simp_all add: w_def)
  then show ?thesis unfolding of_int_less_iff by simp
qed

text \<open>The size of the buffer pool, as an exact function of the memory up to 4 GiB.\<close>

lemma buffer_pool_small:
  assumes "quantity_ok q" and "q_Value q mem = m" and "512 * mb < m" and "m \<le> 4 * gb"
  shows "computeInnodbBufferPoolSize q mem =
    Some (if m \<le> gb then (m - 256 * mb) div 2 else 3 * (m - 256 * mb) div 4)"
  using assms pool_size_small [of "m - 256 * mb"]
  by (simp add: computeInnodbBufferPoolSize_def quantity_ok_def Let_def mb_def gb_def)

lemma buffer_pool_large:
  assumes "quantity_ok q" and "q_Value q mem = m" and "4 * gb < m" and "m < 2 ^ 50"
  obtains s where "computeInnodbBufferPoolSize q mem = Some s"
    "4 * (m - 512 * mb) - 6 \<le> 5 * s" "5 * s \<le> 4 * (m - 512 * mb) + 1"
  using assms pool_size_large [of "m - 512 * mb"]
  by (simp add: computeInnodbBufferPoolSize_def quantity_ok_def Let_def mb_def gb_def)

subsection \<open>Human-readable sizes\<close>

text \<open>The number of bytes a server reads from a size: digits and an optional unit.\<close>

definition unit_value :: "string \<Rightarrow> int option" where
  "unit_value u = (if u = ''G'' then Some gb else if u = ''M'' then Some mb else if u = ''K'' then Some kb
     else if u = [] then Some 1 else None)"

definition size_value :: "string \<Rightarrow> int option" where
  "size_value s =
     (let ds = takeWhile is_digit s in
      if ds = [] then None
      else map_option (\<lambda>u. int (digits_val 0 ds) * u) (unit_value (dropWhile is_digit s)))"

lemma size_value_print:
  assumes "0 \<le> n" and "u \<in> {''G'', ''M'', ''K'', []}"
  shows "size_value (itoa n @ u) = map_option (\<lambda>k. n * k) (unit_value u)"
proof -
  have all: "\<forall>c \<in> set (utoa (nat n)). is_digit c" using utoa_chars by blast
  have "takeWhile is_digit (utoa (nat n) @ u) = utoa (nat n) @ takeWhile is_digit u"
    "dropWhile is_digit (utoa (nat n) @ u) = dropWhile is_digit u"
    using all by (auto simp: takeWhile_append2 dropWhile_append2)
  moreover have "takeWhile is_digit u = [] \<and> dropWhile is_digit u = u"
    using assms(2) by (auto simp: is_digit_def)
  moreover have "itoa n = utoa (nat n)" using assms(1) by (simp add: itoa_def)
  ultimately show ?thesis using assms(1) by (simp add: size_value_def)
qed

lemma tryUnit_value:
  assumes "0 \<le> v" and "0 < scale" and "u \<in> {''G'', ''M'', ''K''}" and "unit_value u = Some scale"
    and "tryUnit v scale u = Some r"
  obtains w where "size_value r = Some w" "w \<le> v" "v - w \<le> v div 1000"
proof -
  from assms(5) have "r = itoa (v sdiv scale) @ u" and rest: "v smod scale \<le> v sdiv 1000"
    by (simp_all add: tryUnit_def Let_def split: if_splits)
  moreover have sd: "v sdiv scale = v div scale" "v smod scale = v mod scale" "v sdiv 1000 = v div 1000"
    using assms(1,2) by (cases "v = 0"; simp add: signed_divide_int_def signed_modulo_int_def)+
  ultimately have "size_value r = Some (v div scale * scale)"
    using size_value_print [of "v div scale" u] assms by (auto simp: pos_imp_zdiv_nonneg_iff)
  moreover have "v = v div scale * scale + v mod scale" by simp
  moreover have "0 \<le> v mod scale" using assms(2) by simp
  ultimately show thesis using that rest sd by (metis add_diff_cancel_left' le_add_same_cancel1)
qed


lemma humanizeSize_value:
  assumes "0 \<le> v"
  obtains r w where "humanizeSize v = StrVal r" "size_value r = Some w" "w \<le> v" "v - w \<le> v div 1000"
proof (cases "tryUnit v gb ''G''")
  case (Some r)
  with tryUnit_value [OF assms _ _ _ Some] that show thesis
    by (force simp: unit_value_def gb_def humanizeSize_def)
next
  case g: None
  show thesis
  proof (cases "tryUnit v mb ''M''")
    case (Some r)
    with tryUnit_value [OF assms _ _ _ Some] that g show thesis
      by (force simp: unit_value_def mb_def humanizeSize_def)
  next
    case m: None
    show thesis
    proof (cases "tryUnit v kb ''K''")
      case (Some r)
      with tryUnit_value [OF assms _ _ _ Some] that g m show thesis
        by (force simp: unit_value_def kb_def humanizeSize_def)
    next
      case None
      have "size_value (itoa v) = Some v" using size_value_print [OF assms, of "[]"] by (simp add: unit_value_def)
      moreover have "humanizeSize v = StrVal (itoa v)" using g m None by (simp add: humanizeSize_def)
      moreover have "0 \<le> v div 1000" using assms by simp
      ultimately show thesis using that [of "itoa v" v] by simp
    qed
  qed
qed

subsection \<open>The defaults keep what the user wrote\<close>

text \<open>The configuration of a cluster, when it is not nil.\<close>

abbreviation conf_of :: "mysql_cluster \<Rightarrow> mysql_conf" where
  "conf_of c \<equiv> cs_MysqlConf (mc_Spec c)"

definition conf_le :: "mysql_conf \<Rightarrow> mysql_conf \<Rightarrow> bool" where
  "conf_le a b = (case (a, b) of (Some m, Some m') \<Rightarrow> m \<subseteq>\<^sub>m m' | _ \<Rightarrow> False)"

lemma conf_le_trans: "conf_le a b \<Longrightarrow> conf_le b c \<Longrightarrow> conf_le a c"
  by (auto simp: conf_le_def split: option.splits intro: map_le_trans)

lemma conf_le_refl: "a \<noteq> None \<Longrightarrow> conf_le a a"
  by (auto simp: conf_le_def)

text \<open>Everything but the configuration is the same.\<close>

definition put_conf :: "mysql_conf \<Rightarrow> mysql_cluster \<Rightarrow> mysql_cluster" where
  "put_conf m c = c\<lparr>mc_Spec := (mc_Spec c)\<lparr>cs_MysqlConf := m\<rparr>\<rparr>"

lemma put_conf_simps [simp]:
  "conf_of (put_conf m c) = m" "put_conf m (put_conf m' c) = put_conf m c" "put_conf (conf_of c) c = c"
  "cs_PodSpec (mc_Spec (put_conf m c)) = cs_PodSpec (mc_Spec c)"
  "cs_VolumeSpec (mc_Spec (put_conf m c)) = cs_VolumeSpec (mc_Spec c)"
  "cs_XtrabackupTargetDir (mc_Spec (put_conf m c)) = cs_XtrabackupTargetDir (mc_Spec c)"
  "DesiredVersion e (put_conf m c) = DesiredVersion e c"
  by (simp_all add: put_conf_def DesiredVersion_def)

lemma IsPerconaImage_cong:
  assumes "cs_MysqlVersion (mc_Spec c') = cs_MysqlVersion (mc_Spec c)" and "cs_Image (mc_Spec c') = cs_Image (mc_Spec c)"
  shows "IsPerconaImage e c' = IsPerconaImage e c"
proof -
  have "ResolverServerImage bl opt v (Some (mc_Spec c')) = ResolverServerImage bl opt v (Some (mc_Spec c))" for bl opt v
    using assms by (simp add: ResolverServerImage_def)
  then show ?thesis
    using assms by (cases "e_runtime e") (simp_all add: IsPerconaImage_def GetMysqlImage_def ServerImage_def DesiredVersion_def)
qed

definition only_conf :: "mysql_cluster \<Rightarrow> mysql_cluster \<Rightarrow> bool" where
  "only_conf c c' \<longleftrightarrow> conf_le (conf_of c) (conf_of c') \<and> c' = put_conf (conf_of c') c"

lemma only_conf_refl: "conf_of c \<noteq> None \<Longrightarrow> only_conf c c"
  by (simp add: only_conf_def conf_le_refl)

lemma only_conf_trans: "only_conf a b \<Longrightarrow> only_conf b c \<Longrightarrow> only_conf a c"
  unfolding only_conf_def by (metis conf_le_trans put_conf_simps(2))

lemma only_conf_conf: "only_conf c c' \<Longrightarrow> conf_of c' \<noteq> None"
  by (auto simp: only_conf_def conf_le_def split: option.splits)

text \<open>A key is set.\<close>

definition has_key :: "string \<Rightarrow> mysql_cluster \<Rightarrow> bool" where
  "has_key k c = (case conf_of c of Some m \<Rightarrow> m k \<noteq> None | None \<Rightarrow> False)"

lemma has_key_mono: "only_conf c c' \<Longrightarrow> has_key k c \<Longrightarrow> has_key k c'"
  by (auto simp: only_conf_def conf_le_def has_key_def map_le_def dom_def split: option.splits)

lemma set_conf_only:
  assumes "conf_of c \<noteq> None"
  obtains c' where "set_conf k v c = Some c'" "only_conf c c'" "has_key k c'"
proof -
  from assms obtain m where m: "conf_of c = Some m" by auto
  let ?m = "if m k = None then m(k \<mapsto> v) else m"
  have "set_conf k v c = Some (put_conf (Some ?m) c)"
    by (simp add: set_conf_def setConfigIfNotSet_def put_conf_def m)
  moreover have "only_conf c (put_conf (Some ?m) c)"
    by (auto simp: only_conf_def conf_le_def m map_le_def)
  moreover have "has_key k (put_conf (Some ?m) c)" by (simp add: has_key_def)
  ultimately show thesis by (rule that)
qed

lemma set_conf_again: "has_key k c \<Longrightarrow> set_conf k v c = Some c"
  by (auto simp: set_conf_def setConfigIfNotSet_def has_key_def split: option.splits)

text \<open>What the steps read is the same, and the configuration has grown.\<close>

definition agree :: "mysql_cluster \<Rightarrow> mysql_cluster \<Rightarrow> bool" where
  "agree c c' \<longleftrightarrow> conf_le (conf_of c) (conf_of c') \<and>
     cs_PodSpec (mc_Spec c') = cs_PodSpec (mc_Spec c) \<and> cs_VolumeSpec (mc_Spec c') = cs_VolumeSpec (mc_Spec c) \<and>
     cs_MysqlVersion (mc_Spec c') = cs_MysqlVersion (mc_Spec c) \<and> cs_Image (mc_Spec c') = cs_Image (mc_Spec c)"

lemma only_conf_agree: "only_conf c c' \<Longrightarrow> agree c c'"
proof -
  assume o: "only_conf c c'"
  then obtain m where m: "c' = put_conf m c" unfolding only_conf_def by blast
  show ?thesis using o unfolding m by (simp add: agree_def only_conf_def) (simp add: put_conf_def)
qed

lemma agree_trans: "agree a b \<Longrightarrow> agree b c \<Longrightarrow> agree a c"
  by (auto simp: agree_def intro: conf_le_trans)

lemma agree_key: "agree c c' \<Longrightarrow> has_key k c \<Longrightarrow> has_key k c'"
  by (auto simp: agree_def conf_le_def has_key_def map_le_def dom_def split: option.splits)

lemma agree_fields:
  assumes "agree c c'"
  shows "cs_PodSpec (mc_Spec c') = cs_PodSpec (mc_Spec c)" "cs_VolumeSpec (mc_Spec c') = cs_VolumeSpec (mc_Spec c)"
    "DesiredVersion e c' = DesiredVersion e c" "IsPerconaImage e c' = IsPerconaImage e c"
  using assms IsPerconaImage_cong [of c' c e] by (simp_all add: agree_def DesiredVersion_def)

text \<open>
  A step settles: it does not panic, it only adds configuration, and it changes nothing any more on a
  cluster that agrees with its result.
\<close>

definition settles :: "(mysql_cluster \<Rightarrow> mysql_cluster option) \<Rightarrow> bool" where
  "settles f \<longleftrightarrow> (\<forall>c. conf_of c \<noteq> None \<longrightarrow>
     (\<exists>c'. f c = Some c' \<and> only_conf c c' \<and> (\<forall>d. agree c' d \<longrightarrow> f d = Some d)))"

lemma settlesD:
  assumes "settles f" and "conf_of c \<noteq> None"
  obtains c' where "f c = Some c'" "only_conf c c'" "\<forall>d. agree c' d \<longrightarrow> f d = Some d"
  using assms unfolding settles_def by metis

text \<open>The shape of every step: the key and the value depend on what the steps read only.\<close>

lemma settles_set_conf:
  assumes "\<And>c c'. agree c c' \<Longrightarrow> g c' = g c"
  shows "settles (\<lambda>c. case g c of None \<Rightarrow> Some c | Some (k, v) \<Rightarrow> set_conf k v c)"
  unfolding settles_def
proof (intro allI impI)
  fix c assume c: "conf_of c \<noteq> None"
  let ?f = "\<lambda>c. case g c of None \<Rightarrow> Some c | Some (k, v) \<Rightarrow> set_conf k v c"
  show "\<exists>c'. ?f c = Some c' \<and> only_conf c c' \<and> (\<forall>d. agree c' d \<longrightarrow> ?f d = Some d)"
  proof (cases "g c")
    case None
    then have "?f d = Some d" if "agree c d" for d using assms [OF that] by simp
    with None c show ?thesis by (auto intro: only_conf_refl)
  next
    case (Some kv)
    obtain k v where kv: "g c = Some (k, v)" using Some by (cases kv) auto
    obtain c' where c': "set_conf k v c = Some c'" "only_conf c c'" "has_key k c'" using set_conf_only [OF c] by metis
    have "?f d = Some d" if "agree c' d" for d
    proof -
      have "agree c d" using only_conf_agree [OF c'(2)] that by (rule agree_trans)
      then show ?thesis using assms kv agree_key [OF that c'(3)] by (simp add: set_conf_again)
    qed
    with c' kv show ?thesis by auto
  qed
qed

lemma settles_comp:
  assumes "settles f" and "settles g"
  shows "settles (\<lambda>c. Option.bind (f c) g)"
  unfolding settles_def
proof (intro allI impI)
  fix c assume "conf_of c \<noteq> None"
  from assms(1) this obtain c1 where c1: "f c = Some c1" "only_conf c c1" "\<forall>d. agree c1 d \<longrightarrow> f d = Some d" by (rule settlesD)
  from assms(2) only_conf_conf [OF c1(2)] obtain c2 where c2: "g c1 = Some c2" "only_conf c1 c2" "\<forall>d. agree c2 d \<longrightarrow> g d = Some d"
    by (rule settlesD)
  have "Option.bind (f d) g = Some d" if "agree c2 d" for d
    using that c1(3) c2(3) only_conf_agree [OF c2(2)] by (simp add: agree_trans)
  with c1 c2 show "\<exists>c'. Option.bind (f c) g = Some c' \<and> only_conf c c' \<and> (\<forall>d. agree c' d \<longrightarrow> Option.bind (f d) g = Some d)"
    by (auto intro: only_conf_trans)
qed

lemma settles_cong: "settles g \<Longrightarrow> (\<And>c. f c = g c) \<Longrightarrow> settles f"
  by (simp add: settles_def)

lemma default_redo_log_settles: "settles (default_redo_log e q)"
proof -
  let ?g = "\<lambda>c. case InnoDBOperatorLogSizing (ProfileFor e (DesiredVersion e c)) (DesiredVersion e c)
      (computeInnodbLogFileSize q (resource_of (rr_Requests (ps_Resources (cs_PodSpec (mc_Spec c)))) ''memory''))
    of (key, size') \<Rightarrow> Some (key, humanizeSize size')"
  have "settles (\<lambda>c. case ?g c of None \<Rightarrow> Some c | Some (k, v) \<Rightarrow> set_conf k v c)"
    by (rule settles_set_conf) (simp add: agree_fields)
  then show ?thesis
    by (rule settles_cong) (simp add: default_redo_log_def Let_def case_prod_beta)
qed

lemma default_binlog_settles: "settles (default_binlog e q)"
proof -
  let ?sp = "\<lambda>c. Option.bind (vs_PersistentVolumeClaim (cs_VolumeSpec (mc_Spec c))) getRequestedStorage"
  let ?g1 = "\<lambda>c. case ?sp c of Some space \<Rightarrow> if IsPerconaImage e c
      then Some (''binlog-space-limit'', humanizeSize (fst (binlog_sizes (q_Value q space)))) else None | None \<Rightarrow> None"
  let ?g2 = "\<lambda>c. case ?sp c of Some space \<Rightarrow> Some (''max-binlog-size'', humanizeSize (snd (binlog_sizes (q_Value q space))))
      | None \<Rightarrow> None"
  let ?f1 = "\<lambda>c. case ?g1 c of None \<Rightarrow> Some c | Some (k, v) \<Rightarrow> set_conf k v c"
  let ?f2 = "\<lambda>c. case ?g2 c of None \<Rightarrow> Some c | Some (k, v) \<Rightarrow> set_conf k v c"
  have "settles ?f1" by (rule settles_set_conf) (simp add: agree_fields split: option.split)
  moreover have "settles ?f2" by (rule settles_set_conf) (simp add: agree_fields split: option.split)
  ultimately have "settles (\<lambda>c. Option.bind (?f1 c) ?f2)" by (rule settles_comp)
  then show ?thesis
  proof (rule settles_cong)
    fix c
    show "default_binlog e q c = Option.bind (?f1 c) ?f2"
    proof (cases "?sp c")
      case (Some space)
      have sp: "?sp c' = Some space" if "set_conf k v c = Some c'" for k v c'
        using that Some by (auto simp: set_conf_def)
      show ?thesis
      proof (cases "IsPerconaImage e c")
        case True
        then show ?thesis using Some sp
          by (cases "set_conf ''binlog-space-limit'' (humanizeSize (fst (binlog_sizes (q_Value q space)))) c")
            (simp_all add: default_binlog_def Let_def case_prod_beta)
      qed (simp add: Some default_binlog_def Let_def case_prod_beta)
    qed (simp add: default_binlog_def)
  qed
qed

lemma default_pool_instances_settles: "settles (default_pool_instances q n)"
proof -
  let ?cpu = "\<lambda>c. resource_of (rr_Limits (ps_Resources (cs_PodSpec (mc_Spec c)))) ''cpu''"
  let ?g = "\<lambda>c. if q_IsZero q (?cpu c) then None else Some (''innodb-buffer-pool-instances'',
      IntVal (max (min \<lceil>f64 (float64 (q_MilliValue q (?cpu c)) / float64 1000)\<rceil> \<lfloor>f64 (float64 n / float64 gb)\<rfloor>) 1))"
  have "settles (\<lambda>c. case ?g c of None \<Rightarrow> Some c | Some (k, v) \<Rightarrow> set_conf k v c)"
    by (rule settles_set_conf) (simp add: agree_fields)
  then show ?thesis by (rule settles_cong) (simp add: default_pool_instances_def Let_def)
qed

text \<open>The size of the buffer pool that the first step computes depends on the requested memory only.\<close>

definition pool_size :: "quantity_api \<Rightarrow> pod_spec \<Rightarrow> int" where
  "pool_size q ps =
     (let mem = resource_of (rr_Requests (ps_Resources ps)) ''memory'' in
      if q_IsZero q mem then 128 * mb
      else case computeInnodbBufferPoolSize q mem of None \<Rightarrow> 0 | Some s \<Rightarrow> s)"

lemma default_buffer_pool_settles:
  obtains f where "settles f" "\<forall>c. default_buffer_pool q c = map_option (Pair (pool_size q (cs_PodSpec (mc_Spec c)))) (f c)"
proof -
  let ?mem = "\<lambda>c. resource_of (rr_Requests (ps_Resources (cs_PodSpec (mc_Spec c)))) ''memory''"
  let ?g = "\<lambda>c. if q_IsZero q (?mem c) then None
      else map_option (\<lambda>s. (''innodb-buffer-pool-size'', humanizeSize s)) (computeInnodbBufferPoolSize q (?mem c))"
  let ?f = "\<lambda>c. case ?g c of None \<Rightarrow> Some c | Some (k, v) \<Rightarrow> set_conf k v c"
  have "settles ?f" by (rule settles_set_conf) (simp add: agree_fields)
  moreover have "default_buffer_pool q c = map_option (Pair (pool_size q (cs_PodSpec (mc_Spec c)))) (?f c)" for c
    by (cases "computeInnodbBufferPoolSize q (?mem c)") (simp_all add: default_buffer_pool_def pool_size_def Let_def)
  ultimately show thesis using that [of ?f] by blast
qed

lemma default_pod_again:
  assumes "cs_PodSpec (mc_Spec d) = cs_PodSpec (mc_Spec (default_pod e opt c))"
    and "cs_MysqlVersion (mc_Spec d) = cs_MysqlVersion (mc_Spec (default_pod e opt c))"
  shows "default_pod e opt d = d"
proof -
  have "ps_Affinity (cs_PodSpec (mc_Spec d)) \<noteq> None" using assms(1) by (simp add: default_pod_def Let_def)
  moreover have "ps_ImagePullPolicy (cs_PodSpec (mc_Spec d)) = [] \<Longrightarrow> opt_ImagePullPolicy opt = []"
    using assms(1) by (simp add: default_pod_def Let_def split: if_splits)
  moreover have "ps_ImagePullSecrets (cs_PodSpec (mc_Spec d)) = [] \<Longrightarrow> opt_ImagePullSecretName opt = []"
    using assms(1) by (simp add: default_pod_def Let_def split: if_splits)
  moreover have "cs_MysqlVersion (mc_Spec d) \<noteq> []"
    using assms(2) by (simp add: default_pod_def Let_def MySQLDefaultVersion_def split: if_splits)
  ultimately show ?thesis by (auto simp: default_pod_def Let_def)
qed

lemma default_pod_conf [simp]: "conf_of (default_pod e opt c) = conf_of c"
  by (simp add: default_pod_def Let_def)

text \<open>The last step.\<close>

definition default_target_dir :: "mysql_cluster \<Rightarrow> mysql_cluster" where
  "default_target_dir c = c\<lparr>mc_Spec := (mc_Spec c)\<lparr>cs_XtrabackupTargetDir :=
     (if cs_XtrabackupTargetDir (mc_Spec c) = [] then ''/tmp/xtrabackup_backupfiles/''
      else cs_XtrabackupTargetDir (mc_Spec c))\<rparr>\<rparr>"

lemma default_target_dir_again [simp]: "default_target_dir (default_target_dir c) = default_target_dir c"
  by (simp add: default_target_dir_def)

lemma agree_target_dir: "conf_of c \<noteq> None \<Longrightarrow> agree c (default_target_dir c)"
  by (simp add: agree_def default_target_dir_def conf_le_refl)

lemma SetDefaults_settles:
  assumes "conf_of c \<noteq> None"
  obtains c' where "only_conf (default_pod e opt c) c'" "SetDefaults e q opt c = Some (default_target_dir c')"
    "SetDefaults e q opt (default_target_dir c') = Some (default_target_dir c')"
proof -
  let ?c0 = "default_pod e opt c"
  obtain f where f: "settles f"
    "\<forall>c. default_buffer_pool q c = map_option (Pair (pool_size q (cs_PodSpec (mc_Spec c)))) (f c)"
    by (rule default_buffer_pool_settles)
  let ?n = "pool_size q (cs_PodSpec (mc_Spec ?c0))"
  let ?g = "\<lambda>c. Option.bind (Option.bind (Option.bind (f c) (default_redo_log e q)) (default_binlog e q))
      (default_pool_instances q ?n)"
  have "settles ?g"
    by (intro settles_comp f default_redo_log_settles default_binlog_settles default_pool_instances_settles)
  with assms obtain c' where c': "?g ?c0 = Some c'" "only_conf ?c0 c'" "\<forall>d. agree c' d \<longrightarrow> ?g d = Some d"
    using settlesD [of ?g ?c0] by (metis default_pod_conf)
  have run: "SetDefaults e q opt d = map_option default_target_dir (?g (default_pod e opt d))"
    if "pool_size q (cs_PodSpec (mc_Spec (default_pod e opt d))) = ?n" for d
    using that by (cases "f (default_pod e opt d)")
      (simp_all add: SetDefaults_def f(2) default_target_dir_def [abs_def] case_prod_beta map_conv_bind_option comp_def)
  have first: "SetDefaults e q opt c = Some (default_target_dir c')" using run [of c] c'(1) by simp
  let ?d = "default_target_dir c'"
  have cd: "agree c' ?d" using only_conf_conf [OF c'(2)] by (rule agree_target_dir)
  with only_conf_agree [OF c'(2)] have "agree ?c0 ?d" by (rule agree_trans)
  then have d: "default_pod e opt ?d = ?d" by (intro default_pod_again [where c = c]) (simp_all add: agree_def)
  have "pool_size q (cs_PodSpec (mc_Spec ?d)) = ?n" using agree_fields(1) [OF \<open>agree ?c0 ?d\<close>] by simp
  then have "SetDefaults e q opt ?d = Some ?d" using run [of ?d] d c'(3) cd by simp
  with c'(2) first show thesis by (rule that)
qed

lemma setPodSpecDefaults_again [simp]: "setPodSpecDefaults (setPodSpecDefaults ps) = setPodSpecDefaults ps"
  by (simp add: setPodSpecDefaults_def or_default_def Let_def)

lemma setPodSpecDefaults_upd:
  "setPodSpecDefaults (ps\<lparr>ps_ImagePullPolicy := a, ps_ImagePullSecrets := b\<rparr>) =
     (setPodSpecDefaults ps)\<lparr>ps_ImagePullPolicy := a, ps_ImagePullSecrets := b\<rparr>"
  "setPodSpecDefaults (ps\<lparr>ps_Affinity := f\<rparr>) = (setPodSpecDefaults ps)\<lparr>ps_Affinity := f\<rparr>"
  by (simp_all add: setPodSpecDefaults_def Let_def)

lemma setVolumeSpecDefaults_again [simp]: "setVolumeSpecDefaults (setVolumeSpecDefaults p) = setVolumeSpecDefaults p"
  by (simp add: setVolumeSpecDefaults_def)

text \<open>The scheme defaults have nothing left to do.\<close>

definition scheme_done :: "mysql_cluster \<Rightarrow> bool" where
  "scheme_done c \<longleftrightarrow> SetDefaults_MysqlCluster c = c"

lemma scheme_done_conf: "scheme_done c \<Longrightarrow> conf_of c \<noteq> None"
proof
  assume "scheme_done c" "conf_of c = None"
  moreover have "conf_of (SetDefaults_MysqlCluster c) \<noteq> None" by (simp add: SetDefaults_MysqlCluster_def Let_def)
  ultimately show False by (simp add: scheme_done_def)
qed

lemma scheme_done_iff:
  "scheme_done c \<longleftrightarrow>
     setPodSpecDefaults (cs_PodSpec (mc_Spec c)) = cs_PodSpec (mc_Spec c) \<and>
     map_option setVolumeSpecDefaults (vs_PersistentVolumeClaim (cs_VolumeSpec (mc_Spec c))) =
       vs_PersistentVolumeClaim (cs_VolumeSpec (mc_Spec c)) \<and>
     (case cs_Replicas (mc_Spec c) of None \<Rightarrow> False
      | Some r \<Rightarrow> \<not> (cs_MinAvailable (mc_Spec c) = [] \<and> r > 1)) \<and> conf_of c \<noteq> None" (is "_ \<longleftrightarrow> ?ok")
proof
  assume d: "scheme_done c"
  let ?s = "SetDefaults_MysqlCluster c"
  have eq: "cs_PodSpec (mc_Spec c) = cs_PodSpec (mc_Spec ?s)" "cs_VolumeSpec (mc_Spec c) = cs_VolumeSpec (mc_Spec ?s)"
    "cs_Replicas (mc_Spec c) = cs_Replicas (mc_Spec ?s)" "cs_MinAvailable (mc_Spec c) = cs_MinAvailable (mc_Spec ?s)"
    using d by (simp_all add: scheme_done_def)
  have pod: "setPodSpecDefaults (cs_PodSpec (mc_Spec c)) = cs_PodSpec (mc_Spec c)"
    using eq(1) by (simp add: SetDefaults_MysqlCluster_def Let_def)
  have vol: "map_option setVolumeSpecDefaults (vs_PersistentVolumeClaim (cs_VolumeSpec (mc_Spec c))) =
      vs_PersistentVolumeClaim (cs_VolumeSpec (mc_Spec c))"
    using arg_cong [OF eq(2), of vs_PersistentVolumeClaim] by (simp add: SetDefaults_MysqlCluster_def Let_def)
  have "cs_Replicas (mc_Spec c) \<noteq> None" using eq(3) by (auto simp: SetDefaults_MysqlCluster_def Let_def)
  moreover have "cs_MinAvailable (mc_Spec c) \<noteq> []" if "cs_Replicas (mc_Spec c) = Some r" "r > 1" for r
    using eq(4) that by (auto simp: SetDefaults_MysqlCluster_def Let_def defaultMinAvailable_def split: if_splits)
  ultimately show ?ok using pod vol scheme_done_conf [OF d] by (auto split: option.split)
next
  assume ?ok
  then show "scheme_done c"
    by (auto simp: scheme_done_def SetDefaults_MysqlCluster_def Let_def split: option.splits)
qed

lemma scheme_done_default: "scheme_done (SetDefaults_MysqlCluster c)"
  unfolding scheme_done_iff
  by (auto simp: SetDefaults_MysqlCluster_def Let_def option.map_comp comp_def defaultMinAvailable_def split: option.split)

lemma scheme_done_defaults:
  assumes "scheme_done c" and "only_conf (default_pod e opt c) c'"
  shows "scheme_done (default_target_dir c')"
proof -
  obtain m where m: "c' = put_conf m (default_pod e opt c)" using assms(2) unfolding only_conf_def by blast
  have "conf_of c' \<noteq> None" using only_conf_conf [OF assms(2)] .
  with assms(1) show ?thesis unfolding scheme_done_iff m
    by (auto simp: default_target_dir_def put_conf_def default_pod_def Let_def setPodSpecDefaults_upd split: option.splits)
qed

section \<open>Concrete quantities\<close>

text \<open>Quantities with a binary suffix, enough for the memory sizes the code compares.\<close>

definition ref_unsigned :: "quantity \<Rightarrow> int" where
  "ref_unsigned s = (case size_value (filter (\<lambda>c. c \<noteq> CHR ''i'') s) of Some n \<Rightarrow> n | None \<Rightarrow> 0)"

definition ref_bytes :: "quantity \<Rightarrow> int" where
  "ref_bytes s = (if s \<noteq> [] \<and> hd s = CHR ''-'' then - ref_unsigned (tl s) else ref_unsigned s)"

definition ref_quantities :: quantity_api where
  "ref_quantities = \<lparr>q_Value = ref_bytes, q_MilliValue = (\<lambda>a. 1000 * ref_bytes a), q_IsZero = (\<lambda>a. ref_bytes a = 0),
     q_Sub = (\<lambda>a b. itoa (ref_bytes a - ref_bytes b))\<rparr>"

lemma ref_unsigned_utoa: "ref_unsigned (utoa n) = int n"
proof -
  have "filter (\<lambda>c. c \<noteq> CHR ''i'') (utoa n) = utoa n"
    using utoa_chars [of "CHR ''i''" n] by (auto simp: filter_id_conv is_digit_def)
  moreover have "size_value (utoa n) = Some (int n)"
    using size_value_print [of "int n" "[]"] by (simp add: unit_value_def itoa_def)
  ultimately show ?thesis by (simp add: ref_unsigned_def)
qed

lemma ref_bytes_itoa [simp]: "ref_bytes (itoa i) = i"
proof (cases "i < 0")
  case False
  have "hd (utoa (nat i)) \<noteq> CHR ''-''" using utoa_hd_digit [of "nat i"] digit_not(1) by metis
  with False show ?thesis by (simp add: ref_bytes_def itoa_def ref_unsigned_utoa)
qed (simp add: ref_bytes_def itoa_def ref_unsigned_utoa)

lemma ref_quantities_ok: "quantity_ok ref_quantities"
proof -
  have "ref_bytes ''256Mi'' = 256 * mb" "ref_bytes ''512Mi'' = 512 * mb" "ref_bytes ''0'' = 0"
    by (simp_all add: ref_bytes_def ref_unsigned_def size_value_def is_digit_def digit_val_def unit_value_def)
  then show ?thesis by (simp add: quantity_ok_def ref_quantities_def)
qed

section \<open>Properties\<close>

text \<open>
  Property C39. The defaults never panic and settle at once: for every cluster the scheme defaults
  followed by the operator's defaults return a cluster, a second run changes nothing, and no
  configuration key of the user is changed, only keys are added.
\<close>

theorem defaults_settle:
  "\<exists>c' m m'. SetDefaults e q opt (SetDefaults_MysqlCluster c) = Some c' \<and>
     SetDefaults_MysqlCluster c' = c' \<and> SetDefaults e q opt c' = Some c' \<and>
     cs_MysqlConf (mc_Spec c') = Some m' \<and> m = (case cs_MysqlConf (mc_Spec c) of None \<Rightarrow> Map.empty | Some m \<Rightarrow> m) \<and>
     m \<subseteq>\<^sub>m m'"
proof -
  let ?s = "SetDefaults_MysqlCluster c"
  obtain d where d: "only_conf (default_pod e opt ?s) d" "SetDefaults e q opt ?s = Some (default_target_dir d)"
    "SetDefaults e q opt (default_target_dir d) = Some (default_target_dir d)"
    using SetDefaults_settles [OF scheme_done_conf [OF scheme_done_default]] by metis
  have "scheme_done (default_target_dir d)" by (rule scheme_done_defaults [OF scheme_done_default d(1)])
  moreover have "conf_le (conf_of ?s) (conf_of d)" using d(1) by (simp add: only_conf_def)
  moreover have "conf_of (default_target_dir d) = conf_of d" by (simp add: default_target_dir_def)
  moreover have "conf_of ?s = Some (case conf_of c of None \<Rightarrow> Map.empty | Some m \<Rightarrow> m)"
    by (simp add: SetDefaults_MysqlCluster_def Let_def)
  ultimately show ?thesis using d by (auto simp: scheme_done_def conf_le_def split: option.splits)
qed



text \<open>
  A size written with a unit is read back by the server as a size that is not larger and
  at most a thousandth smaller, for every size, so no configured limit exceeds what was computed.
\<close>

theorem humanize_size_accurate:
  assumes "0 \<le> v"
  shows "\<exists>r w. humanizeSize v = StrVal r \<and> size_value r = Some w \<and> w \<le> v \<and> v - w \<le> v div 1000"
  using humanizeSize_value [OF assms] by metis

theorem humanize_size_accurate_witness:
  "\<exists>r w. humanizeSize 1073800000 = StrVal r \<and> size_value r = Some w \<and> w \<le> 1073800000 \<and> 1072726200 \<le> w"
  using humanize_size_accurate [of 1073800000] by auto

end
