(* ===== verification/Upgrades.thy ===== *)
theory Upgrades
  imports VersionUpgrade OrcReconcile PvcCleaner Defaults
begin

text \<open>
  The state and the effects of the cluster controller, and the upgrader of clusters older than version
  0.3 of the operator (\<^verbatim>\<open>pkg/controller/mysqlcluster/internal/upgrades\<close>), which the controller
  runs first.

  A run of the controller has the cluster in memory and the list of its effects so far: the writes to
  the API server, the objects it synced and its calls of Orchestrator, in order. The API server is a
  parameter, \<open>cluster_api\<close>; an answer may depend on the effects before it. A write of the cluster
  returns the object the client decodes from the response, which replaces the cluster in memory. An
  operation leaves a new state and an outcome: go on, return (with the time to requeue after), or
  fail. A nil pointer that is dereferenced is the failure \<open>NilDereference\<close>.
\<close>

section \<open>Runs of a controller\<close>

datatype sync_kind =
    ConfigMapSync
  | OperatedSecretSync
  | SecretSync
  | HeadlessSVCSync
  | MasterSVCSync
  | HealthySVCSync
  | HealthyReplicasSVCSync
  | StatefulSetSync
  | PDBSync

datatype ctl_event =
    Update mysql_cluster
  | UpdateStatus mysql_cluster
  | SyncObject sync_kind mysql_cluster
  | SyncPod string str_map
  | ScaleStatefulSet int
  | DeleteStatefulSet
  | DeleteService string
  | OrcCall orc_call
  | PvcEvent pvc_effect
  | RecordEvent string string

type_synonym ctl_log = "ctl_event list"

record cluster_api =
  ca_Get :: "(string, mysql_cluster option) result"
  ca_Update :: "ctl_log \<Rightarrow> mysql_cluster \<Rightarrow> (string, mysql_cluster) result"
  ca_UpdateStatus :: "ctl_log \<Rightarrow> mysql_cluster \<Rightarrow> (string, mysql_cluster) result"
  ca_ListPods :: "ctl_log \<Rightarrow> (string, pod list) result"
  ca_GetSts :: "ctl_log \<Rightarrow> (string, stateful_set option) result"
  ca_UpdateSts :: "ctl_log \<Rightarrow> stateful_set \<Rightarrow> (string, stateful_set) result"
  ca_DeleteSts :: "ctl_log \<Rightarrow> string option"
  ca_DeleteService :: "ctl_log \<Rightarrow> string \<Rightarrow> string option"
  ca_Sync :: "ctl_log \<Rightarrow> sync_kind \<Rightarrow> mysql_cluster \<Rightarrow> string option"
  ca_StsReady :: "ctl_log \<Rightarrow> int option"
  ca_GetPod :: "ctl_log \<Rightarrow> string \<Rightarrow> (string, str_map option) result"
  ca_SavePod :: "ctl_log \<Rightarrow> string \<Rightarrow> str_map \<Rightarrow> string option"
  ca_Pvc :: "ctl_log \<Rightarrow> pvc_api"
  ca_OrcCluster :: "ctl_log \<Rightarrow> string \<Rightarrow> (orc_error, orc_instance list) result"
  ca_OrcForget :: "ctl_log \<Rightarrow> string \<Rightarrow> orc_error option"
  ca_Secret :: secret_reader
  ca_Version :: version_query

datatype ctl_error =
    ApiFailure string
  | PvcFailure k8s_error
  | OrcFailure orc_error
  | UpgradeFailure upgrade_error
  | Invalid validate_error
  | NilDereference
  | ManyRunningPods
  | Node0NotFound
  | Node0NotMaster
  | Node0Lagged
  | MasterConditionNotSet

datatype outcome = Continue | Return "int option" | Fail ctl_error

record ctl =
  cl_Cluster :: mysql_cluster
  cl_Log :: ctl_log

type_synonym ctl_run = "ctl \<times> outcome"

definition seq :: "ctl_run \<Rightarrow> (ctl \<Rightarrow> ctl_run) \<Rightarrow> ctl_run" where
  "seq r k = (case r of (s, Continue) \<Rightarrow> k s | _ \<Rightarrow> r)"

definition emit :: "ctl_event \<Rightarrow> ctl \<Rightarrow> ctl" where
  "emit ev s = s\<lparr>cl_Log := cl_Log s @ [ev]\<rparr>"

definition r_Update :: "cluster_api \<Rightarrow> ctl \<Rightarrow> ctl_run" where
  "r_Update api s =
     (case ca_Update api (cl_Log s) (cl_Cluster s) of
        Inl err \<Rightarrow> (emit (Update (cl_Cluster s)) s, Fail (ApiFailure err))
      | Inr c \<Rightarrow> ((emit (Update (cl_Cluster s)) s)\<lparr>cl_Cluster := c\<rparr>, Continue))"

definition r_UpdateStatus :: "cluster_api \<Rightarrow> ctl \<Rightarrow> ctl_run" where
  "r_UpdateStatus api s =
     (case ca_UpdateStatus api (cl_Log s) (cl_Cluster s) of
        Inl err \<Rightarrow> (emit (UpdateStatus (cl_Cluster s)) s, Fail (ApiFailure err))
      | Inr c \<Rightarrow> ((emit (UpdateStatus (cl_Cluster s)) s)\<lparr>cl_Cluster := c\<rparr>, Continue))"

section \<open>The upgrader\<close>

definition upgrader_version :: int where
  "upgrader_version = 300"

definition ShouldUpdate :: "mysql_cluster \<Rightarrow> bool" where
  "ShouldUpdate c =
     (case mc_Annotations c AnnotationVersion of
        None \<Rightarrow> True
      | Some version \<Rightarrow>
          (case atoi version of
             None \<Rightarrow> True
           | Some n \<Rightarrow> if - (2 ^ 31) \<le> n \<and> n < 2 ^ 31 then n < upgrader_version else True))"

definition markUpgradeComplete :: "cluster_api \<Rightarrow> ctl \<Rightarrow> ctl_run" where
  "markUpgradeComplete api s =
     (let c = cl_Cluster s in
      r_Update api (s\<lparr>cl_Cluster := c\<lparr>mc_Annotations := (mc_Annotations c)(AnnotationVersion \<mapsto> itoa upgrader_version)\<rparr>\<rparr>))"

definition instancesFromOrc :: "cluster_api \<Rightarrow> ctl \<Rightarrow> (ctl_error, orc_instance list) result" where
  "instancesFromOrc api s =
     (case ca_OrcCluster api (cl_Log s) (GetClusterAlias (cl_Cluster s)) of
        Inl err \<Rightarrow> if IsNotFound err then Inr [] else Inl (OrcFailure err)
      | Inr insts \<Rightarrow> Inr insts)"

definition getPodOldHostname :: "mysql_cluster \<Rightarrow> int \<Rightarrow> string" where
  "getPodOldHostname c node =
     GetNameForResource c StatefulSet @ ''-'' @ itoa node @ ''.'' @ GetNameForResource c OldHeadlessSVC @ ''.'' @ mc_Namespace c"

definition getNodeFrom :: "mysql_cluster \<Rightarrow> orc_instance list \<Rightarrow> int \<Rightarrow> orc_instance option" where
  "getNodeFrom c insts node = find (\<lambda>inst. host_of inst = getPodOldHostname c node) insts"

definition checkNode0Ok :: "mysql_cluster \<Rightarrow> orc_instance list \<Rightarrow> ctl_error option" where
  "checkNode0Ok c insts =
     (case getNodeFrom c insts 0 of
        None \<Rightarrow> Some Node0NotFound
      | Some node0 \<Rightarrow>
          if ik_Hostname (oi_MasterKey node0) \<noteq> [] \<and> \<not> oi_IsDetachedMaster node0 then Some Node0NotMaster
          else (case oi_SecondsBehindMaster node0 of
                  Some lag \<Rightarrow> if lag > 3 then Some Node0Lagged else None
                | None \<Rightarrow> None))"

fun forget_loop :: "cluster_api \<Rightarrow> string list \<Rightarrow> ctl \<Rightarrow> ctl_run" where
  "forget_loop api [] s = (s, Continue)"
| "forget_loop api (h # hs) s =
     (let s' = emit (OrcCall (Forget h 3306)) s in
      case ca_OrcForget api (cl_Log s) h of
        Some err \<Rightarrow> (s', Fail (OrcFailure err))
      | None \<Rightarrow> forget_loop api hs s')"

definition forgetFromOrc :: "cluster_api \<Rightarrow> ctl \<Rightarrow> ctl_run" where
  "forgetFromOrc api s =
     (case cs_Replicas (mc_Spec (cl_Cluster s)) of
        None \<Rightarrow> (s, Fail NilDereference)
      | Some replicas \<Rightarrow>
          forget_loop api (map (\<lambda>node. getPodOldHostname (cl_Cluster s) (int node)) [0..<nat replicas]) s)"

text \<open>The scale down to one pod; the cluster is reported as not ready.\<close>

definition scale_down :: "cluster_api \<Rightarrow> stateful_set \<Rightarrow> ctl \<Rightarrow> (ctl \<times> stateful_set) \<times> outcome" where
  "scale_down api sts s =
     (case sts_Replicas sts of
        None \<Rightarrow> ((s, sts), Fail NilDereference)
      | Some n \<Rightarrow>
          if n > 1
          then let s' = emit (ScaleStatefulSet 1) s in
            (case ca_UpdateSts api (cl_Log s) (sts\<lparr>sts_Replicas := Some 1\<rparr>) of
               Inl err \<Rightarrow> ((s', sts), Fail (ApiFailure err))
             | Inr sts' \<Rightarrow>
                 let c = cl_Cluster s';
                     (s'', out) = r_UpdateStatus api
                       (s'\<lparr>cl_Cluster := c\<lparr>mc_Status := (mc_Status c)\<lparr>st_ReadyNodes := 0\<rparr>\<rparr>\<rparr>)
                 in ((s'', sts'), out))
          else ((s, sts), Continue))"

text \<open>The part of \<^verbatim>\<open>Run\<close> after the scale down: check of the first node, and the deletions.\<close>

definition replace_objects :: "cluster_api \<Rightarrow> orc_instance list \<Rightarrow> stateful_set \<Rightarrow> ctl \<Rightarrow> ctl_run" where
  "replace_objects api insts sts s =
     (if sts_ReadyReplicas sts > 1 then (s, Fail ManyRunningPods)
      else (case checkNode0Ok (cl_Cluster s) insts of
        Some err \<Rightarrow> (s, Fail err)
      | None \<Rightarrow>
          seq (forgetFromOrc api s) (\<lambda>s.
          case ca_DeleteSts api (cl_Log s) of
            Some err \<Rightarrow> (emit DeleteStatefulSet s, Fail (ApiFailure err))
          | None \<Rightarrow>
              let s = emit DeleteStatefulSet s;
                  svc = GetNameForResource (cl_Cluster s) OldHeadlessSVC
              in (case ca_DeleteService api (cl_Log s) svc of
                    Some err \<Rightarrow> (emit (DeleteService svc) s, Fail (ApiFailure err))
                  | None \<Rightarrow> markUpgradeComplete api (emit (DeleteService svc) s)))))"

definition Upgrader_Run :: "cluster_api \<Rightarrow> ctl \<Rightarrow> ctl_run" where
  "Upgrader_Run api s =
     (case ca_GetSts api (cl_Log s) of
        Inl err \<Rightarrow> (s, Fail (ApiFailure err))
      | Inr None \<Rightarrow> markUpgradeComplete api s
      | Inr (Some sts) \<Rightarrow>
          let s = fold (\<lambda>ns. emit (OrcCall (Discover (ns_Name ns) 3306))) (st_Nodes (mc_Status (cl_Cluster s))) s in
          (case instancesFromOrc api s of
             Inl err \<Rightarrow> (s, Fail err)
           | Inr insts \<Rightarrow>
               (case scale_down api sts s of
                  ((s, sts), Continue) \<Rightarrow> replace_objects api insts sts s
                | ((s, sts), out) \<Rightarrow> (s, out))))"

section \<open>Lemmas\<close>

lemma seq_simps [simp]:
  "seq (s, Continue) k = k s" "seq (s, Return r) k = (s, Return r)" "seq (s, Fail e) k = (s, Fail e)"
  by (simp_all add: seq_def)

lemma seq_cases:
  obtains (stop) "seq r k = r" "snd r \<noteq> Continue" | (go) s where "r = (s, Continue)" "seq r k = k s"
  by (cases r; cases "snd r") (auto simp: seq_def)

lemma emit_simps [simp]:
  "cl_Log (emit ev s) = cl_Log s @ [ev]" "cl_Cluster (emit ev s) = cl_Cluster s"
  by (simp_all add: emit_def)

text \<open>The effects an operation adds to a run: a predicate on each of them.\<close>

definition adds :: "(ctl_event \<Rightarrow> bool) \<Rightarrow> ctl \<Rightarrow> ctl_run \<Rightarrow> bool" where
  "adds P s r \<longleftrightarrow> (\<exists>evs. cl_Log (fst r) = cl_Log s @ evs \<and> (\<forall>ev \<in> set evs. P ev))"

named_theorems adds_intros

lemma adds_refl [adds_intros, simp]: "adds P s (s, out)"
  by (simp add: adds_def)

lemma adds_cluster [simp]: "adds P (s\<lparr>cl_Cluster := c\<rparr>) r \<longleftrightarrow> adds P s r"
  by (simp add: adds_def)

lemma adds_result [simp]: "adds P s (s'\<lparr>cl_Cluster := c\<rparr>, out) \<longleftrightarrow> adds P s (s', out)"
  by (simp add: adds_def)

lemma adds_out: "adds P s (s', out) \<Longrightarrow> adds P s (s', out')"
  by (simp add: adds_def)

lemma adds_emit: "P ev \<Longrightarrow> adds P s (emit ev s, out)"
  by (simp add: adds_def)

lemma adds_trans: "adds P s (s', out) \<Longrightarrow> adds P s' r \<Longrightarrow> adds P s r"
  by (fastforce simp: adds_def)

lemma adds_mono: "adds P s r \<Longrightarrow> (\<And>ev. P ev \<Longrightarrow> Q ev) \<Longrightarrow> adds Q s r"
  by (fastforce simp: adds_def)

lemma adds_seq:
  assumes "adds P s r" and "\<And>s'. r = (s', Continue) \<Longrightarrow> adds P s' (k s')"
  shows "adds P s (seq r k)"
  using assms(1)
proof (cases rule: seq_cases [of r k])
  case (go s')
  with assms show ?thesis by (metis adds_trans)
qed simp

lemma adds_r_Update: "P (Update (cl_Cluster s)) \<Longrightarrow> adds P s (r_Update api s)"
  by (auto simp: r_Update_def adds_emit split: sum.split)

lemma adds_r_UpdateStatus: "P (UpdateStatus (cl_Cluster s)) \<Longrightarrow> adds P s (r_UpdateStatus api s)"
  by (auto simp: r_UpdateStatus_def adds_emit split: sum.split)

lemma adds_fold: "(\<And>x. x \<in> set xs \<Longrightarrow> P (f x)) \<Longrightarrow> adds P s (fold (\<lambda>x. emit (f x)) xs s, out)"
proof (induction xs arbitrary: s)
  case (Cons x xs)
  have "adds P s (emit (f x) s, out)" using Cons.prems by (simp add: adds_emit)
  with Cons.IH Cons.prems show ?case by (auto intro: adds_trans)
qed simp

lemma adds_forget_loop: "(\<And>h. P (OrcCall (Forget h 3306))) \<Longrightarrow> adds P s (forget_loop api hs s)"
  by (induction api hs s rule: forget_loop.induct)
    (auto simp: Let_def split: option.split intro: adds_emit adds_trans)

lemma adds_mem: "adds P s r \<Longrightarrow> ev \<in> set (cl_Log (fst r)) \<Longrightarrow> ev \<in> set (cl_Log s) \<or> P ev"
  by (auto simp: adds_def)

lemma forget_loop_ok:
  assumes "forget_loop api hs s = (s', Continue)"
  shows "cl_Log s' = cl_Log s @ map (\<lambda>h. OrcCall (Forget h 3306)) hs \<and> cl_Cluster s' = cl_Cluster s"
  using assms by (induction api hs s rule: forget_loop.induct) (auto simp: Let_def split: option.splits)

lemma forget_loop_stop:
  "\<exists>hs'. cl_Log (fst (forget_loop api hs s)) = cl_Log s @ map (\<lambda>h. OrcCall (Forget h 3306)) hs'"
proof (induction api hs s rule: forget_loop.induct)
  case (2 api h hs s)
  show ?case
  proof (cases "ca_OrcForget api (cl_Log s) h")
    case None
    with 2 obtain hs' where "cl_Log (fst (forget_loop api (h # hs) s)) =
        cl_Log s @ map (\<lambda>h. OrcCall (Forget h 3306)) (h # hs')" by (auto simp: Let_def)
    then show ?thesis by blast
  next
    case (Some err)
    then show ?thesis by (auto simp: Let_def intro: exI [of _ "[h]"])
  qed
qed simp

lemma markUpgradeComplete_run:
  obtains c where "c = cl_Cluster s\<lparr>mc_Annotations := (mc_Annotations (cl_Cluster s))(AnnotationVersion \<mapsto> itoa 300)\<rparr>"
    "cl_Log (fst (markUpgradeComplete api s)) = cl_Log s @ [Update c]"
  using that by (auto simp: markUpgradeComplete_def r_Update_def upgrader_version_def Let_def split: sum.split)

lemma not_ShouldUpdate_marked: "mc_Annotations c AnnotationVersion = Some (itoa 300) \<Longrightarrow> \<not> ShouldUpdate c"
  using atoi_utoa [of 300] by (simp add: ShouldUpdate_def upgrader_version_def itoa_def max_int64_def)

text \<open>The first node is the master and is not behind.\<close>

definition node0_ok :: "mysql_cluster \<Rightarrow> orc_instance list \<Rightarrow> bool" where
  "node0_ok c insts \<longleftrightarrow> (\<exists>node0 \<in> set insts. host_of node0 = getPodOldHostname c 0 \<and>
     (ik_Hostname (oi_MasterKey node0) = [] \<or> oi_IsDetachedMaster node0) \<and>
     (\<forall>lag. oi_SecondsBehindMaster node0 = Some lag \<longrightarrow> lag \<le> 3))"

lemma checkNode0Ok_None: "checkNode0Ok c insts = None \<Longrightarrow> node0_ok c insts"
  by (auto simp: checkNode0Ok_def node0_ok_def getNodeFrom_def find_Some_iff not_less split: option.splits if_splits)

text \<open>What a run that deletes the stateful set has sent before and sends after it.\<close>

definition forget_calls :: "mysql_cluster \<Rightarrow> int \<Rightarrow> ctl_log" where
  "forget_calls c replicas =
     map (\<lambda>node. OrcCall (Forget (getPodOldHostname c (int node)) 3306)) [0..<nat replicas]"

lemma replace_objects_log:
  "(\<exists>hs. cl_Log (fst (replace_objects api insts sts s)) = cl_Log s @ map (\<lambda>h. OrcCall (Forget h 3306)) hs \<and>
      snd (replace_objects api insts sts s) \<noteq> Continue) \<or>
   (\<exists>replicas tail. sts_ReadyReplicas sts \<le> 1 \<and> node0_ok (cl_Cluster s) insts \<and>
      cs_Replicas (mc_Spec (cl_Cluster s)) = Some replicas \<and>
      cl_Log (fst (replace_objects api insts sts s)) =
        cl_Log s @ forget_calls (cl_Cluster s) replicas @ DeleteStatefulSet # tail \<and>
      DeleteStatefulSet \<notin> set tail \<and>
      (snd (replace_objects api insts sts s) = Continue \<longrightarrow>
        (\<exists>c. last tail = Update c \<and> tail \<noteq> [] \<and> \<not> ShouldUpdate c)))"
proof (cases "sts_ReadyReplicas sts > 1 \<or> checkNode0Ok (cl_Cluster s) insts \<noteq> None")
  case True
  then have "cl_Log (fst (replace_objects api insts sts s)) = cl_Log s \<and>
      snd (replace_objects api insts sts s) \<noteq> Continue"
    by (auto simp: replace_objects_def split: option.split)
  then show ?thesis by (intro disjI1 exI [of _ "[]"]) simp
next
  case ok: False
  let ?f = "forgetFromOrc api s"
  show ?thesis
  proof (cases "snd ?f = Continue")
    case False
    then have run: "replace_objects api insts sts s = ?f"
      using ok by (cases ?f; cases "snd ?f") (auto simp: replace_objects_def)
    show ?thesis
    proof (cases "cs_Replicas (mc_Spec (cl_Cluster s))")
      case None
      then have "cl_Log (fst ?f) = cl_Log s" by (simp add: forgetFromOrc_def)
      with run False show ?thesis by (intro disjI1 exI [of _ "[]"]) simp
    next
      case (Some replicas)
      then show ?thesis using run False forget_loop_stop by (auto simp: forgetFromOrc_def)
    qed
  next
    case True
    obtain s1 where f: "?f = (s1, Continue)" using True by (cases ?f) simp
    then obtain replicas where replicas: "cs_Replicas (mc_Spec (cl_Cluster s)) = Some replicas"
      and s1: "cl_Log s1 = cl_Log s @ forget_calls (cl_Cluster s) replicas" "cl_Cluster s1 = cl_Cluster s"
      using forget_loop_ok by (fastforce simp: forgetFromOrc_def forget_calls_def comp_def split: option.splits)
    let ?svc = "GetNameForResource (cl_Cluster s1) OldHeadlessSVC"
    let ?s2 = "emit DeleteStatefulSet s1"
    obtain c where c: "c = cl_Cluster s1\<lparr>mc_Annotations := (mc_Annotations (cl_Cluster s1))(AnnotationVersion \<mapsto> itoa 300)\<rparr>"
      "cl_Log (fst (markUpgradeComplete api (emit (DeleteService ?svc) ?s2))) =
        cl_Log ?s2 @ [DeleteService ?svc, Update c]"
      using markUpgradeComplete_run [of "emit (DeleteService ?svc) ?s2" api] by fastforce
    have "\<not> ShouldUpdate c" using c(1) by (intro not_ShouldUpdate_marked) simp
    then have "\<exists>tail. cl_Log (fst (replace_objects api insts sts s)) = cl_Log ?s2 @ tail \<and>
        DeleteStatefulSet \<notin> set tail \<and> (snd (replace_objects api insts sts s) = Continue \<longrightarrow>
          (\<exists>c. last tail = Update c \<and> tail \<noteq> [] \<and> \<not> ShouldUpdate c))"
      using ok f c(2)
      by (cases "ca_DeleteSts api (cl_Log s1)"; cases "ca_DeleteService api (cl_Log ?s2) ?svc")
        (auto simp: replace_objects_def Let_def)
    with ok s1 replicas checkNode0Ok_None show ?thesis by (fastforce simp: not_less)
  qed
qed

lemma adds_scale_down:
  assumes "scale_down api sts s = ((s', sts'), out)" and "P (ScaleStatefulSet 1)" and "\<And>c. P (UpdateStatus c)"
  shows "adds P s (s', out)"
proof (cases "sts_Replicas sts")
  case (Some n)
  show ?thesis
  proof (cases "n > 1")
    case True
    let ?s1 = "emit (ScaleStatefulSet 1) s"
    let ?s2 = "?s1\<lparr>cl_Cluster := cl_Cluster s\<lparr>mc_Status := (mc_Status (cl_Cluster s))\<lparr>st_ReadyNodes := 0\<rparr>\<rparr>\<rparr>"
    have 1: "adds P s (?s1, out)" using assms(2) by (rule adds_emit)
    have "adds P ?s1 (r_UpdateStatus api ?s2)" using adds_r_UpdateStatus [of P ?s2 api] assms(3) by simp
    with 1 have 2: "adds P s (r_UpdateStatus api ?s2)" by (rule adds_trans)
    from assms(1) Some True 1 2 show ?thesis
      by (auto simp: scale_down_def Let_def case_prod_beta split: sum.splits)
  qed (use assms(1) Some in \<open>simp add: scale_down_def\<close>)
qed (use assms(1) in \<open>simp add: scale_down_def\<close>)

text \<open>The run with a stateful set: its log before the objects are replaced has no deletion.\<close>

lemma Upgrader_Run_cases:
  fixes api s
  defines "keep \<equiv> \<lambda>ev. ev \<noteq> DeleteStatefulSet"
  obtains (no_sts) "ca_GetSts api (cl_Log s) = Inr None" "Upgrader_Run api s = markUpgradeComplete api s"
  | (stopped) "adds keep s (Upgrader_Run api s)" "snd (Upgrader_Run api s) \<noteq> Continue"
  | (replace) insts sts s0 s1 where "instancesFromOrc api s0 = Inr insts" "cl_Cluster s0 = cl_Cluster s"
      "adds keep s (s1, Continue)" "Upgrader_Run api s = replace_objects api insts sts s1"
proof (cases "ca_GetSts api (cl_Log s)")
  case (Inl err)
  then show thesis by (intro stopped) (simp_all add: Upgrader_Run_def)
next
  case (Inr o')
  show thesis
  proof (cases o')
    case None
    with Inr show thesis by (intro no_sts) (simp_all add: Upgrader_Run_def)
  next
    case sts: (Some sts)
    let ?d = "\<lambda>ns. emit (OrcCall (Discover (ns_Name ns) 3306))"
    let ?s0 = "fold ?d (st_Nodes (mc_Status (cl_Cluster s))) s"
    have d: "adds keep s (?s0, out)" for out by (rule adds_fold) (simp add: keep_def)
    have c0: "cl_Cluster (fold ?d xs t) = cl_Cluster t" for xs t by (induction xs arbitrary: t) simp_all
    show thesis
    proof (cases "instancesFromOrc api ?s0")
      case (Inl err)
      with Inr sts d show thesis by (intro stopped) (simp_all add: Upgrader_Run_def Let_def)
    next
      case insts: (Inr insts)
      obtain s1 sts1 out where sd: "scale_down api sts ?s0 = ((s1, sts1), out)" by (metis prod.exhaust)
      have "adds keep ?s0 (s1, out)" by (rule adds_scale_down [OF sd]) (simp_all add: keep_def)
      with d have a: "adds keep s (s1, out')" for out' by (metis adds_trans adds_out)
      show thesis
      proof (cases out)
        case Continue
        with Inr sts insts sd have "Upgrader_Run api s = replace_objects api insts sts1 s1"
          by (simp add: Upgrader_Run_def Let_def)
        with insts c0 a show thesis by (intro replace [of ?s0 insts s1 sts1]) simp_all
      qed (use Inr sts insts sd a stopped in \<open>simp_all add: Upgrader_Run_def Let_def\<close>)
    qed
  qed
qed

section \<open>A concrete API server\<close>

text \<open>Every write succeeds; the stateful set has one ready pod, which Orchestrator knows as a master.\<close>

definition ref_old_master :: orc_instance where
  "ref_old_master = ref_inst (getPodOldHostname ref_cluster 0) []"

definition ref_cluster_api :: cluster_api where
  "ref_cluster_api =
     \<lparr>ca_Get = Inr (Some ref_cluster), ca_Update = (\<lambda>l c. Inr c), ca_UpdateStatus = (\<lambda>l c. Inr c),
      ca_ListPods = (\<lambda>l. Inr []),
      ca_GetSts = (\<lambda>l. Inr (Some (ref_sts (ver 8 4 8)\<lparr>sts_Replicas := Some 1, sts_ReadyReplicas := 1\<rparr>))),
      ca_UpdateSts = (\<lambda>l sts. Inr sts), ca_DeleteSts = (\<lambda>l. None), ca_DeleteService = (\<lambda>l n. None),
      ca_Sync = (\<lambda>l k c. None), ca_StsReady = (\<lambda>l. Some 0), ca_GetPod = (\<lambda>l n. Inr None),
      ca_SavePod = (\<lambda>l n m. None), ca_Pvc = (\<lambda>l. ref_pvc_api []),
      ca_OrcCluster = (\<lambda>l alias'. Inr [ref_old_master]), ca_OrcForget = (\<lambda>l h. None),
      ca_Secret = ref_secret, ca_Version = ref_query (ver 8 4 8)\<rparr>"

definition ref_ctl :: ctl where
  "ref_ctl = \<lparr>cl_Cluster = ref_cluster, cl_Log = []\<rparr>"

section \<open>Properties\<close>



end
