(* ===== verification/ClusterCtl.thy ===== *)
theory ClusterCtl
  imports Upgrades
begin

text \<open>
  The cluster controller, \<^verbatim>\<open>pkg/controller/mysqlcluster/mysqlcluster_controller.go\<close>, with the syncer of
  the pod labels (\<^verbatim>\<open>internal/syncer/pod.go\<close>). The syncers of the other objects appear as the event
  \<open>SyncObject\<close> with the cluster they read; their errors are answers of \<open>ca_Sync\<close>. The syncer of the stateful set
  copies the number of ready replicas of the object it reads (\<open>ca_StsReady\<close>) to the status.
\<close>

section \<open>The syncer of a pod\<close>

definition labelMaster :: string where
  "labelMaster = ''master''"

definition labelReplica :: string where
  "labelReplica = ''replica''"

definition labelHealthy :: string where
  "labelHealthy = ''yes''"

definition labelNotHealthy :: string where
  "labelNotHealthy = ''no''"

definition getPodNameForHost :: "string \<Rightarrow> string" where
  "getPodNameForHost host = takeWhile (\<lambda>ch. ch \<noteq> CHR ''.'') host"

definition is_true :: "node_condition option \<Rightarrow> bool" where
  "is_true nc = (case nc of Some n \<Rightarrow> nc_Status n = ConditionTrue | None \<Rightarrow> False)"

datatype sync_error = PodNotFound | MasterNotSet | SyncFailure string

fun IsPodNotFound :: "sync_error \<Rightarrow> bool" where
  "IsPodNotFound PodNotFound = True"
| "IsPodNotFound _ = False"

text \<open>
  \<^verbatim>\<open>podSyncer.SyncFn\<close> on the labels of the pod (\<open>None\<close> when it is not created): the cluster, whose status
  may get an entry for the host, and the new labels.
\<close>

definition podSyncFn ::
    "mysql_cluster \<Rightarrow> string \<Rightarrow> str_map option \<Rightarrow> mysql_cluster \<times> (sync_error, str_map) result" where
  "podSyncFn c hostname existing =
     (case existing of
        None \<Rightarrow> (c, Inl PodNotFound)
      | Some labels \<Rightarrow>
          let (c1, master) = GetNodeCondition c hostname NodeConditionMaster;
              (c2, replicating) = GetNodeCondition c1 hostname NodeConditionReplicating;
              (c3, lagged) = GetNodeCondition c2 hostname NodeConditionLagged
          in case master of
               None \<Rightarrow> (c3, Inl MasterNotSet)
             | Some m \<Rightarrow>
                 let isMaster = (nc_Status m = ConditionTrue);
                     isLagged = is_true lagged;
                     isReplicating = is_true replicating;
                     role = (if isMaster then labelMaster else labelReplica);
                     healthy = (if isMaster \<or> \<not> isMaster \<and> isReplicating \<and> \<not> isLagged
                                then labelHealthy else labelNotHealthy)
                 in (c3, Inr (labels(''role'' \<mapsto> role, ''healthy'' \<mapsto> healthy))))"

text \<open>\<^verbatim>\<open>syncer.Sync\<close> of a pod: read, change the labels, save.\<close>

definition sync_pod :: "cluster_api \<Rightarrow> string \<Rightarrow> ctl \<Rightarrow> ctl \<times> sync_error option" where
  "sync_pod api host s =
     (let name = getPodNameForHost host in
      case ca_GetPod api (cl_Log s) name of
        Inl err \<Rightarrow> (s, Some (SyncFailure err))
      | Inr existing \<Rightarrow>
          (case podSyncFn (cl_Cluster s) host existing of
             (c, Inl err) \<Rightarrow> (s\<lparr>cl_Cluster := c\<rparr>, Some err)
           | (c, Inr labels) \<Rightarrow>
               ((emit (SyncPod name labels) s)\<lparr>cl_Cluster := c\<rparr>,
                map_option SyncFailure (ca_SavePod api (cl_Log s) name labels))))"

definition getPodSyncers :: "mysql_cluster \<Rightarrow> string list" where
  "getPodSyncers c =
     map ns_Name (filter (\<lambda>ns. \<not> getCondAsBool ns NodeConditionMaster) (st_Nodes (mc_Status c))) @
     map ns_Name (filter (\<lambda>ns. getCondAsBool ns NodeConditionMaster) (st_Nodes (mc_Status c)))"

definition sync_failure :: "sync_error \<Rightarrow> ctl_error" where
  "sync_failure err = (case err of SyncFailure e \<Rightarrow> ApiFailure e | _ \<Rightarrow> MasterConditionNotSet)"

fun sync_pods :: "cluster_api \<Rightarrow> string list \<Rightarrow> ctl \<Rightarrow> ctl_run" where
  "sync_pods api [] s = (s, Continue)"
| "sync_pods api (host # hs) s =
     (case sync_pod api host s of
        (s', Some err) \<Rightarrow> if \<not> IsPodNotFound err then (s', Fail (sync_failure err)) else sync_pods api hs s'
      | (s', None) \<Rightarrow> sync_pods api hs s')"

section \<open>The other syncers\<close>

definition sync_object :: "cluster_api \<Rightarrow> sync_kind \<Rightarrow> ctl \<Rightarrow> ctl_run" where
  "sync_object api k s =
     (let c = cl_Cluster s;
          c' = (case (k, ca_StsReady api (cl_Log s)) of
                  (StatefulSetSync, Some ready) \<Rightarrow> c\<lparr>mc_Status := (mc_Status c)\<lparr>st_ReadyNodes := ready\<rparr>\<rparr>
                | _ \<Rightarrow> c);
          s' = (emit (SyncObject k c) s)\<lparr>cl_Cluster := c'\<rparr>
      in case ca_Sync api (cl_Log s) k c of
           Some err \<Rightarrow> (s', Fail (ApiFailure err))
         | None \<Rightarrow> (s', Continue))"

fun sync_objects :: "cluster_api \<Rightarrow> sync_kind list \<Rightarrow> ctl \<Rightarrow> ctl_run" where
  "sync_objects api [] s = (s, Continue)"
| "sync_objects api (k # ks) s = seq (sync_object api k s) (sync_objects api ks)"

definition cluster_syncers :: "mysql_cluster \<Rightarrow> sync_kind list" where
  "cluster_syncers c =
     [SecretSync, HeadlessSVCSync, MasterSVCSync, HealthySVCSync, HealthyReplicasSVCSync, StatefulSetSync] @
     (if cs_MinAvailable (mc_Spec c) \<noteq> [] then [PDBSync] else [])"

definition get_sts :: "cluster_api \<Rightarrow> ctl \<Rightarrow> (stateful_set option \<Rightarrow> ctl_run) \<Rightarrow> ctl_run" where
  "get_sts api s k =
     (case ca_GetSts api (cl_Log s) of
        Inl err \<Rightarrow> (s, Fail (ApiFailure err))
      | Inr sts \<Rightarrow> k sts)"

definition list_pods :: "cluster_api \<Rightarrow> ctl \<Rightarrow> (pod list \<Rightarrow> ctl_run) \<Rightarrow> ctl_run" where
  "list_pods api s k =
     (case ca_ListPods api (cl_Log s) of
        Inl err \<Rightarrow> (s, Fail (ApiFailure err))
      | Inr pods \<Rightarrow> k pods)"

definition syncRolloutHold :: "cluster_api \<Rightarrow> ctl \<Rightarrow> ctl_run" where
  "syncRolloutHold api s =
     get_sts api s (\<lambda>sts. sync_objects api [ConfigMapSync, OperatedSecretSync, StatefulSetSync] s)"

definition persistClusterAnnotations :: "cluster_api \<Rightarrow> str_map \<Rightarrow> ctl \<Rightarrow> ctl_run" where
  "persistClusterAnnotations api before s =
     (if mc_Annotations (cl_Cluster s) = before then (s, Continue) else r_Update api s)"

text \<open>The end of a run that holds the rollout.\<close>

definition hold :: "cluster_api \<Rightarrow> str_map \<Rightarrow> int \<Rightarrow> ctl \<Rightarrow> ctl_run" where
  "hold api annBefore requeueAfter s =
     seq (syncRolloutHold api s) (\<lambda>s.
     seq (persistClusterAnnotations api annBefore s) (\<lambda>s. (s, Return (Some requeueAfter))))"

section \<open>Reconciliation\<close>

definition save_spec :: "cluster_api \<Rightarrow> ctl \<Rightarrow> ctl_run" where
  "save_spec api s =
     (let c = cl_Cluster s; c' = UpdateSpec c in
      if mc_Spec c' \<noteq> mc_Spec c
      then seq (r_Update api (s\<lparr>cl_Cluster := c'\<rparr>)) (\<lambda>s. (s, Return None))
      else (s\<lparr>cl_Cluster := c'\<rparr>, Continue))"

definition end_failover :: "cluster_api \<Rightarrow> time \<Rightarrow> ctl \<Rightarrow> ctl_run" where
  "end_failover api now s =
     (let c = cl_Cluster s in
      if failoverInProgress c
      then (case cs_Replicas (mc_Spec c) of
              None \<Rightarrow> (s, Fail NilDereference)
            | Some replicas \<Rightarrow>
                if replicas = 0 \<and> st_ReadyNodes (mc_Status c) = 0
                then seq (r_UpdateStatus api (s\<lparr>cl_Cluster :=
                       UpdateStatusCondition now c ClusterConditionFailoverInProgress ConditionFalse
                         ''ClusterNotRunning'' ''cluster is not running''\<rparr>)) (\<lambda>s. (s, Return None))
                else (s, Continue))
      else (s, Continue))"

definition set_defaults :: "env \<Rightarrow> quantity_api \<Rightarrow> options \<Rightarrow> ctl \<Rightarrow> ctl_run" where
  "set_defaults e q opt s =
     (case SetDefaults e q opt (SetDefaults_MysqlCluster (cl_Cluster s)) of
        None \<Rightarrow> (s, Fail NilDereference)
      | Some c \<Rightarrow>
          (case Validate e c of
             Some err \<Rightarrow> (s\<lparr>cl_Cluster := c\<rparr>, Fail (Invalid err))
           | None \<Rightarrow> (s\<lparr>cl_Cluster := c\<rparr>, Continue)))"

definition backfill :: "env \<Rightarrow> cluster_api \<Rightarrow> str_map \<Rightarrow> pod list \<Rightarrow> ctl \<Rightarrow> ctl_run" where
  "backfill e api annBefore pods s =
     (if NeedsAppliedBackfill e (cl_Cluster s)
      then (case BackfillAppliedVersion e (ca_Secret api) (ca_Version api) (cl_Cluster s) pods of
              (c, Inl err) \<Rightarrow>
                if IsHoldRollout err then hold api annBefore 15 (s\<lparr>cl_Cluster := c\<rparr>)
                else (s\<lparr>cl_Cluster := c\<rparr>, Fail (UpgradeFailure err))
            | (c, Inr updated) \<Rightarrow>
                if updated then r_UpdateStatus api (s\<lparr>cl_Cluster := c\<rparr>) else (s\<lparr>cl_Cluster := c\<rparr>, Continue))
      else (s, Continue))"

definition upgradeBlocked :: "mysql_cluster \<Rightarrow> bool" where
  "upgradeBlocked c =
     (case GetClusterCondition c ClusterConditionUpgradeBlocked of
        Some cond \<Rightarrow> cc_Status cond = ConditionTrue
      | None \<Rightarrow> False)"

definition clear_blocked :: "time \<Rightarrow> mysql_cluster \<Rightarrow> mysql_cluster" where
  "clear_blocked now c =
     UpdateStatusCondition now c ClusterConditionUpgradeBlocked ConditionFalse ''NoUpgradePending'' []"

definition check_upgrade ::
    "env \<Rightarrow> cluster_api \<Rightarrow> time \<Rightarrow> (upgrade_error \<Rightarrow> string) \<Rightarrow> str_map \<Rightarrow> ctl \<Rightarrow> ctl_run" where
  "check_upgrade e api now show_error annBefore s =
     (case EnsureChecked e (cl_Cluster s) of
        None \<Rightarrow> (s, Continue)
      | Some err \<Rightarrow>
          if IsHoldRollout err
          then seq (if upgradeBlocked (cl_Cluster s)
                    then r_UpdateStatus api (s\<lparr>cl_Cluster := clear_blocked now (cl_Cluster s)\<rparr>)
                    else (s, Continue)) (hold api annBefore 15)
          else
            let s1 = emit (RecordEvent ''MySQLVersionUpgradeBlocked'' (show_error err)) s;
                s2 = s1\<lparr>cl_Cluster := UpdateStatusCondition now (cl_Cluster s1) ClusterConditionUpgradeBlocked
                       ConditionTrue ''MySQLVersionUpgradeBlocked'' (show_error err)\<rparr>
            in seq (r_UpdateStatus api s2) (\<lambda>s.
                 if IsUpgradeBlocked err then hold api annBefore 30 s else (s, Fail (UpgradeFailure err))))"

definition run_pvc :: "(pvc_api \<Rightarrow> mysql_cluster \<Rightarrow> pvc_effect list \<times> k8s_error option) \<Rightarrow> cluster_api \<Rightarrow> ctl \<Rightarrow> ctl_run" where
  "run_pvc f api s =
     (case f (ca_Pvc api (cl_Log s)) (cl_Cluster s) of
        (effs, err) \<Rightarrow>
          (s\<lparr>cl_Log := cl_Log s @ map PvcEvent effs\<rparr>,
           case err of Some er \<Rightarrow> Fail (PvcFailure er) | None \<Rightarrow> Continue))"

text \<open>The number of replicas is set by the defaults.\<close>

definition clean_pvcs :: "cluster_api \<Rightarrow> ctl \<Rightarrow> ctl_run" where
  "clean_pvcs api s =
     (case cs_Replicas (mc_Spec (cl_Cluster s)) of
        None \<Rightarrow> (s, Fail NilDereference)
      | Some replicas \<Rightarrow> run_pvc (\<lambda>p c. PVCCleaner_Run p c replicas) api s)"

definition record_applied :: "env \<Rightarrow> cluster_api \<Rightarrow> ctl \<Rightarrow> ctl_run" where
  "record_applied e api s =
     get_sts api s (\<lambda>sts.
       case sts of
         None \<Rightarrow> (s, Continue)
       | Some _ \<Rightarrow>
           list_pods api s (\<lambda>pods.
             case SyncAppliedVersion e (ca_Secret api) (ca_Version api) (cl_Cluster s) sts pods of
               Some advance \<Rightarrow> r_UpdateStatus api (s\<lparr>cl_Cluster := MarkAppliedVersion e (cl_Cluster s) advance\<rparr>)
             | None \<Rightarrow> (s, Continue)))"

definition sync_all :: "env \<Rightarrow> (quantity \<Rightarrow> quantity \<Rightarrow> int) \<Rightarrow> cluster_api \<Rightarrow> ctl \<Rightarrow> ctl_run" where
  "sync_all e qcmp api s =
     get_sts api s (\<lambda>sts.
     seq (sync_objects api ([ConfigMapSync, OperatedSecretSync] @ cluster_syncers (cl_Cluster s)) s) (\<lambda>s.
     seq (sync_pods api (getPodSyncers (cl_Cluster s)) s) (\<lambda>s.
     seq (run_pvc (PVCResizer_Run qcmp) api s) (\<lambda>s.
     seq (clean_pvcs api s) (\<lambda>s.
     seq (record_applied e api s) (\<lambda>s. (s, Return None)))))))"

text \<open>The deferred save of the status, which runs when it differs from the copy taken before; its error is logged.\<close>

definition defer_status :: "mysql_cluster_status \<Rightarrow> ctl_run \<Rightarrow> ctl_run" where
  "defer_status status r =
     (case r of (s, out) \<Rightarrow>
        if mc_Status (cl_Cluster s) \<noteq> status then (emit (UpdateStatus (cl_Cluster s)) s, out) else (s, out))"

text \<open>The part of \<^verbatim>\<open>Reconcile\<close> after the version check has passed.\<close>

definition reconcile_checked ::
    "env \<Rightarrow> (quantity \<Rightarrow> quantity \<Rightarrow> int) \<Rightarrow> cluster_api \<Rightarrow> time \<Rightarrow> str_map \<Rightarrow> ctl \<Rightarrow> ctl_run" where
  "reconcile_checked e qcmp api now annBefore s =
     seq (persistClusterAnnotations api annBefore (s\<lparr>cl_Cluster := clear_blocked now (cl_Cluster s)\<rparr>)) (\<lambda>s.
       defer_status (mc_Status (cl_Cluster s)) (sync_all e qcmp api s))"

definition reconcile_defaulted ::
    "env \<Rightarrow> (quantity \<Rightarrow> quantity \<Rightarrow> int) \<Rightarrow> cluster_api \<Rightarrow> time \<Rightarrow> (upgrade_error \<Rightarrow> string) \<Rightarrow> ctl \<Rightarrow> ctl_run" where
  "reconcile_defaulted e qcmp api now show_error s =
     (let annBefore = mc_Annotations (cl_Cluster s) in
      list_pods api s (\<lambda>pods.
      seq (backfill e api annBefore pods s) (\<lambda>s.
      seq (check_upgrade e api now show_error annBefore s)
          (reconcile_checked e qcmp api now annBefore))))"

definition cluster_Reconcile ::
    "env \<Rightarrow> quantity_api \<Rightarrow> (quantity \<Rightarrow> quantity \<Rightarrow> int) \<Rightarrow> options \<Rightarrow> cluster_api \<Rightarrow> time \<Rightarrow> (upgrade_error \<Rightarrow> string) \<Rightarrow>
     ctl_log \<times> outcome" where
  "cluster_Reconcile e q qcmp opt api now show_error =
     (case ca_Get api of
        Inl err \<Rightarrow> ([], Fail (ApiFailure err))
      | Inr None \<Rightarrow> ([], Return None)
      | Inr (Some c) \<Rightarrow>
          let s = \<lparr>cl_Cluster = c, cl_Log = []\<rparr>;
              (s', out) =
                seq (if ShouldUpdate c then Upgrader_Run api s else (s, Continue)) (\<lambda>s.
                seq (save_spec api s) (\<lambda>s.
                seq (end_failover api now s) (\<lambda>s.
                seq (set_defaults e q opt s)
                    (reconcile_defaulted e qcmp api now show_error))))
          in (cl_Log s', out))"

section \<open>What the steps keep\<close>

text \<open>
  A step of the second half of a run adds only events that satisfy a predicate, and keeps everything of the
  cluster but its status.
\<close>

definition same_object :: "mysql_cluster \<Rightarrow> mysql_cluster \<Rightarrow> bool" where
  "same_object c c' \<longleftrightarrow> mc_Spec c' = mc_Spec c \<and> mc_Name c' = mc_Name c \<and> mc_Namespace c' = mc_Namespace c \<and>
     mc_DeletionTimestamp c' = mc_DeletionTimestamp c \<and> mc_Annotations c' = mc_Annotations c"

lemma same_object_refl [simp]: "same_object c c"
  by (simp add: same_object_def)

lemma same_object_trans: "same_object a b \<Longrightarrow> same_object b c \<Longrightarrow> same_object a c"
  by (simp add: same_object_def)

lemma same_object_status [simp]: "same_object c (d\<lparr>mc_Status := st\<rparr>) \<longleftrightarrow> same_object c d"
  by (simp add: same_object_def)

locale status_step =
  fixes f :: "ctl \<Rightarrow> ctl_run" and P :: "ctl_event \<Rightarrow> bool"
  assumes adds_events: "adds P s (f s)"
    and same: "same_object (cl_Cluster s) (cl_Cluster (fst (f s)))"
begin

lemma compose:
  assumes "status_step g P"
  shows "status_step (\<lambda>s. seq (f s) g) P"
proof
  fix s
  show "adds P s (seq (f s) g)"
    using adds_events by (rule adds_seq) (use assms in \<open>simp add: status_step_def\<close>)
  show "same_object (cl_Cluster s) (cl_Cluster (fst (seq (f s) g)))"
  proof (cases rule: seq_cases [of "f s" g])
    case (go s')
    then show ?thesis using same [of s] assms by (auto simp: status_step_def intro: same_object_trans)
  qed (simp add: same)
qed

lemma events: "ev \<in> set (cl_Log (fst (f s))) \<Longrightarrow> ev \<in> set (cl_Log s) \<or> P ev"
  using adds_mem [OF adds_events] by blast

end

lemma GetNodeCondition_only_status: "same_object c (fst (GetNodeCondition c h ty))"
  by (auto simp: GetNodeCondition_def GetNodeStatusIndex_eq Let_def same_object_def set_nodes_def split: option.splits)

lemma podSyncFn_only_status: "same_object c (fst (podSyncFn c h ex))"
proof (cases ex)
  case (Some labels)
  let ?c1 = "fst (GetNodeCondition c h NodeConditionMaster)"
  let ?c2 = "fst (GetNodeCondition ?c1 h NodeConditionReplicating)"
  have "same_object c ?c2" by (rule same_object_trans [OF GetNodeCondition_only_status GetNodeCondition_only_status])
  then have "same_object c (fst (GetNodeCondition ?c2 h NodeConditionLagged))"
    by (rule same_object_trans [OF _ GetNodeCondition_only_status])
  then show ?thesis using Some by (simp add: podSyncFn_def case_prod_beta Let_def split: option.split)
qed (simp add: podSyncFn_def)

definition is_sync_pod :: "ctl_event \<Rightarrow> bool" where
  "is_sync_pod ev = (case ev of SyncPod n l \<Rightarrow> True | _ \<Rightarrow> False)"

interpretation sync_pod_step: status_step "\<lambda>s. (fst (sync_pod api host s), Continue)" is_sync_pod
  for api host
proof
  fix s
  show "adds is_sync_pod s (fst (sync_pod api host s), Continue)"
    by (auto simp: sync_pod_def adds_def is_sync_pod_def Let_def split: sum.split prod.split)
  show "same_object (cl_Cluster s) (cl_Cluster (fst (fst (sync_pod api host s), Continue)))"
    using podSyncFn_only_status [of "cl_Cluster s" host]
    by (auto simp: sync_pod_def Let_def split: sum.split prod.split) (metis fst_conv)+
qed

interpretation sync_pods_step: status_step "sync_pods api hs" is_sync_pod for api hs
proof
  show "adds is_sync_pod s (sync_pods api hs s)" for s
  proof (induction api hs s rule: sync_pods.induct)
    case (2 api host hs s)
    have 1: "adds is_sync_pod s (fst (sync_pod api host s), out)" for out
      using sync_pod_step.adds_events by (rule adds_out)
    obtain s' r where sp: "sync_pod api host s = (s', r)" by (cases "sync_pod api host s")
    show ?case
    proof (cases "\<exists>err. r = Some err \<and> \<not> IsPodNotFound err")
      case True
      with sp 1 show ?thesis by auto
    next
      case False
      then have "sync_pods api (host # hs) s = sync_pods api hs s'" using sp by (auto split: option.split)
      moreover have "adds is_sync_pod s' (sync_pods api hs s')"
        using "2.IH" sp False by (cases r) auto
      ultimately show ?thesis using 1 sp by (metis adds_trans fst_conv)
    qed
  qed simp
  show "same_object (cl_Cluster s) (cl_Cluster (fst (sync_pods api hs s)))" for s
  proof (induction api hs s rule: sync_pods.induct)
    case (2 api host hs s)
    have 1: "same_object (cl_Cluster s) (cl_Cluster (fst (sync_pod api host s)))"
      using sync_pod_step.same [of s] by simp
    obtain s' r where sp: "sync_pod api host s = (s', r)" by (cases "sync_pod api host s")
    show ?case
    proof (cases "\<exists>err. r = Some err \<and> \<not> IsPodNotFound err")
      case True
      with sp 1 show ?thesis by auto
    next
      case False
      then have "sync_pods api (host # hs) s = sync_pods api hs s'" using sp by (auto split: option.split)
      moreover have "same_object (cl_Cluster s') (cl_Cluster (fst (sync_pods api hs s')))"
        using "2.IH" sp False by (cases r) auto
      ultimately show ?thesis using 1 sp by (metis same_object_trans fst_conv)
    qed
  qed simp
qed

definition is_sync :: "sync_kind list \<Rightarrow> ctl_event \<Rightarrow> bool" where
  "is_sync ks ev = (case ev of SyncObject k c \<Rightarrow> k \<in> set ks | _ \<Rightarrow> False)"

lemma sync_object_run:
  "cl_Log (fst (sync_object api k s)) = cl_Log s @ [SyncObject k (cl_Cluster s)]"
  "same_object (cl_Cluster s) (cl_Cluster (fst (sync_object api k s)))"
  by (cases k; simp add: sync_object_def Let_def split: option.split)+

interpretation sync_objects_step: status_step "sync_objects api ks" "is_sync ks" for api ks
proof
  show "adds (is_sync ks) s (sync_objects api ks s)" for s
  proof (induction api ks s rule: sync_objects.induct)
    case (2 api k ks s)
    have "adds (is_sync (k # ks)) s (sync_object api k s)"
      using sync_object_run(1) [of api k s] by (simp add: adds_def is_sync_def)
    moreover have "adds (is_sync (k # ks)) s' (sync_objects api ks s')"
      if "sync_object api k s = (s', Continue)" for s'
      using "2.IH" [of s'] by (rule adds_mono) (auto simp: is_sync_def split: ctl_event.splits)
    ultimately show ?case by (simp add: adds_seq)
  qed simp
  show "same_object (cl_Cluster s) (cl_Cluster (fst (sync_objects api ks s)))" for s
  proof (induction api ks s rule: sync_objects.induct)
    case (2 api k ks s)
    show ?case
    proof (cases rule: seq_cases [of "sync_object api k s" "sync_objects api ks"])
      case stop
      then show ?thesis by (simp add: sync_object_run)
    next
      case (go s')
      then show ?thesis using sync_object_run(2) [of s api k] "2.IH" [of s'] by (simp add: same_object_trans)
    qed
  qed simp
qed

text \<open>The deletion of a claim, which only the cleaner emits.\<close>

definition is_delete :: "ctl_event \<Rightarrow> bool" where
  "is_delete ev = (case ev of PvcEvent (DeletePVC p) \<Rightarrow> True | _ \<Rightarrow> False)"

lemma is_delete_simps [simp]:
  "\<not> is_delete (Update c)" "\<not> is_delete (UpdateStatus c)" "\<not> is_delete (SyncObject k c)" "\<not> is_delete (SyncPod n l)"
  "\<not> is_delete (ScaleStatefulSet i)" "\<not> is_delete DeleteStatefulSet" "\<not> is_delete (DeleteService n)"
  "\<not> is_delete (OrcCall x)" "\<not> is_delete (RecordEvent a b)" "is_delete (PvcEvent (DeletePVC p))"
  by (simp_all add: is_delete_def)

abbreviation no_delete :: "ctl \<Rightarrow> ctl_run \<Rightarrow> bool" where
  "no_delete \<equiv> adds (\<lambda>ev. \<not> is_delete ev)"

lemma no_delete_r_Update [simp]: "no_delete s (r_Update api (s\<lparr>cl_Cluster := c\<rparr>))" "no_delete s (r_Update api s)"
  using adds_r_Update [of "\<lambda>ev. \<not> is_delete ev" "s\<lparr>cl_Cluster := c\<rparr>"] by (simp_all add: adds_r_Update)

lemma no_delete_r_UpdateStatus [simp]:
  "no_delete s (r_UpdateStatus api (s\<lparr>cl_Cluster := c\<rparr>))" "no_delete s (r_UpdateStatus api s)"
  using adds_r_UpdateStatus [of "\<lambda>ev. \<not> is_delete ev" "s\<lparr>cl_Cluster := c\<rparr>"] by (simp_all add: adds_r_UpdateStatus)

lemma no_delete_sync_objects [simp]: "no_delete s (sync_objects api ks s)"
  using sync_objects_step.adds_events by (rule adds_mono) (auto simp: is_sync_def split: ctl_event.splits)

lemma no_delete_sync_pods [simp]: "no_delete s (sync_pods api hs s)"
  using sync_pods_step.adds_events by (rule adds_mono) (auto simp: is_sync_pod_def split: ctl_event.splits)

lemma no_delete_markUpgradeComplete: "no_delete s (markUpgradeComplete api s)"
  by (simp add: markUpgradeComplete_def Let_def)

lemma no_delete_forget: "no_delete s (forgetFromOrc api s)"
  by (auto simp: forgetFromOrc_def intro: adds_forget_loop split: option.split)

lemma adds_after_emit: "adds P (emit ev s) r \<Longrightarrow> P ev \<Longrightarrow> adds P s r"
  by (rule adds_trans [OF adds_emit])

lemma no_delete_replace: "no_delete s (replace_objects api insts sts s)"
proof -
  let ?k = "\<lambda>s. case ca_DeleteSts api (cl_Log s) of
            Some err \<Rightarrow> (emit DeleteStatefulSet s, Fail (ApiFailure err))
          | None \<Rightarrow>
              let s = emit DeleteStatefulSet s;
                  svc = GetNameForResource (cl_Cluster s) OldHeadlessSVC
              in (case ca_DeleteService api (cl_Log s) svc of
                    Some err \<Rightarrow> (emit (DeleteService svc) s, Fail (ApiFailure err))
                  | None \<Rightarrow> markUpgradeComplete api (emit (DeleteService svc) s))"
  have svc: "no_delete t (emit (DeleteService n) t, out)" "no_delete t (markUpgradeComplete api (emit (DeleteService n) t))" for t n out
    by (rule adds_emit, simp) (rule adds_after_emit [OF no_delete_markUpgradeComplete], simp)
  have "no_delete t (?k t)" for t
  proof (cases "ca_DeleteSts api (cl_Log t)")
    case None
    have "no_delete (emit DeleteStatefulSet t) (?k t)"
      using None svc by (cases "ca_DeleteService api (cl_Log (emit DeleteStatefulSet t))
          (GetNameForResource (cl_Cluster (emit DeleteStatefulSet t)) OldHeadlessSVC)") (simp_all only: Let_def option.case)
    then show ?thesis by (rule adds_after_emit) simp
  qed (simp add: adds_emit)
  then show ?thesis unfolding replace_objects_def
    by (cases "checkNode0Ok (cl_Cluster s) insts") (simp_all add: adds_seq no_delete_forget)
qed

lemma no_delete_Upgrader: "no_delete s (Upgrader_Run api s)"
proof (cases "ca_GetSts api (cl_Log s)")
  case (Inr o')
  show ?thesis
  proof (cases o')
    case (Some sts)
    let ?s0 = "fold (\<lambda>ns. emit (OrcCall (Discover (ns_Name ns) 3306))) (st_Nodes (mc_Status (cl_Cluster s))) s"
    have d: "no_delete s (?s0, out)" for out by (rule adds_fold) simp
    obtain s1 sts1 out where sd: "scale_down api sts ?s0 = ((s1, sts1), out)" by (metis prod.exhaust)
    have "no_delete ?s0 (s1, out)" by (rule adds_scale_down [OF sd]) simp_all
    with d [of Continue] have "no_delete s (s1, out)" by (rule adds_trans)
    then have s1: "no_delete s (s1, out')" for out' by (rule adds_out)
    have "no_delete s (replace_objects api insts sts1 s1)" for insts
      using s1 no_delete_replace by (rule adds_trans)
    then show ?thesis using Inr Some sd d s1
      by (cases "instancesFromOrc api ?s0"; cases out) (simp_all add: Upgrader_Run_def Let_def)
  qed (use Inr in \<open>simp add: Upgrader_Run_def no_delete_markUpgradeComplete\<close>)
qed (simp add: Upgrader_Run_def)

lemma no_delete_persist [simp]: "no_delete s (persistClusterAnnotations api b s)"
  by (simp add: persistClusterAnnotations_def)

lemma no_delete_hold [simp]: "no_delete s (hold api b n s)"
  unfolding hold_def
  by (intro adds_seq) (simp_all add: syncRolloutHold_def get_sts_def del: sync_objects.simps split: sum.split)

lemma no_delete_before:
  "no_delete s (save_spec api s)" "no_delete s (end_failover api now s)" "no_delete s (set_defaults e q opt s)"
  "no_delete s (backfill e api b pods s)" "no_delete s (check_upgrade e api now show_error b s)"
proof -
  show "no_delete s (save_spec api s)"
    by (auto simp: save_spec_def Let_def intro!: adds_seq)
  show "no_delete s (end_failover api now s)"
    by (auto simp: end_failover_def Let_def split: option.split intro!: adds_seq)
  show "no_delete s (set_defaults e q opt s)"
    by (auto simp: set_defaults_def split: option.split)
  have hold: "no_delete s (hold api b n (s\<lparr>cl_Cluster := c\<rparr>))" for n c
    by (subst adds_cluster [symmetric], rule no_delete_hold)
  then show "no_delete s (backfill e api b pods s)"
    by (auto simp: backfill_def split: prod.split sum.split)
  let ?s1 = "\<lambda>err. emit (RecordEvent ''MySQLVersionUpgradeBlocked'' (show_error err)) s"
  have "no_delete s (seq (r_UpdateStatus api (?s1 err\<lparr>cl_Cluster := c\<rparr>)) k)" if "\<And>t. no_delete t (k t)" for err c k
    by (rule adds_after_emit [of _ "RecordEvent ''MySQLVersionUpgradeBlocked'' (show_error err)"], rule adds_seq)
      (simp_all add: that)
  then show "no_delete s (check_upgrade e api now show_error b s)"
    by (auto simp: check_upgrade_def Let_def split: option.split intro!: adds_seq)
qed

text \<open>A run that deletes a claim has synced the stateful set of the same spec before.\<close>

lemma run_pvc_log: "cl_Log (fst (run_pvc f api s)) = cl_Log s @ map PvcEvent (fst (f (ca_Pvc api (cl_Log s)) (cl_Cluster s)))"
  "cl_Cluster (fst (run_pvc f api s)) = cl_Cluster s"
  by (simp_all add: run_pvc_def case_prod_beta)

lemma cleaner_orphans:
  assumes "DeletePVC p \<in> set (fst (PVCCleaner_Run api c replicas))"
  shows "orphaned c replicas p \<and> mc_DeletionTimestamp c = None"
proof -
  from assms have nd: "mc_DeletionTimestamp c = None" by (auto simp: PVCCleaner_Run_def split: if_splits)
  with assms obtain pvcs where pvcs: "listOwnedClusterPVCs api c = Inr pvcs"
    "DeletePVC p \<in> set (fst (run_each (clean_one api c replicas) pvcs))"
    by (auto simp: PVCCleaner_Run_def split: sum.splits)
  from run_each_effects [OF pvcs(2)] obtain x where x: "x \<in> set pvcs" "DeletePVC p \<in> set (fst (clean_one api c replicas x))"
    by blast
  then show ?thesis using pvcs(1) nd
    by (auto simp: clean_one_deletes orphaned_def listOwnedClusterPVCs_def split: sum.splits)
qed

lemma resizer_no_delete: "DeletePVC p \<notin> set (fst (PVCResizer_Run qcmp api c))"
proof -
  have one: "DeletePVC p \<notin> set (fst (resizePVCIfNeeded qcmp api x d))" for x d
    by (auto simp: resizePVCIfNeeded_def Let_def split: option.splits sum.splits prod.splits)
  have "DeletePVC p \<notin> set (fst (run_each (\<lambda>p. resizePVCIfNeeded qcmp api p d) xs))" for d xs
    using run_each_effects one by fastforce
  then show ?thesis
    by (auto simp: PVCResizer_Run_def Let_def split: option.splits sum.splits prod.splits)
       (metis fst_conv)+
qed

lemma no_delete_resizer: "no_delete s (run_pvc (PVCResizer_Run qcmp) api s)"
  using resizer_no_delete by (auto simp: adds_def run_pvc_log is_delete_def split: ctl_event.split pvc_effect.split)

lemma sync_objects_done:
  assumes "sync_objects api ks s = (s', Continue)" and "k \<in> set ks"
  shows "\<exists>c. SyncObject k c \<in> set (cl_Log s') \<and> same_object c (cl_Cluster s')"
  using assms
proof (induction api ks s rule: sync_objects.induct)
  case (2 api k' ks s)
  from "2.prems"(1) obtain s1 where s1: "sync_object api k' s = (s1, Continue)" "sync_objects api ks s1 = (s', Continue)"
    by (cases rule: seq_cases [of "sync_object api k' s" "sync_objects api ks"]) auto
  have rest: "prefix (cl_Log s1) (cl_Log s')" "same_object (cl_Cluster s1) (cl_Cluster s')"
    using sync_objects_step.adds_events [where api = api and ks = ks and s = s1]
      sync_objects_step.same [where api = api and ks = ks and s = s1] s1(2)
    by (auto simp: adds_def)
  show ?case
  proof (cases "k = k'")
    case True
    have "SyncObject k' (cl_Cluster s) \<in> set (cl_Log s')" "same_object (cl_Cluster s) (cl_Cluster s')"
      using sync_object_run [where api = api and k = k' and s = s] s1(1) rest by (auto simp: prefix_def intro: same_object_trans)
    with True show ?thesis by blast
  next
    case False
    with "2.IH" s1 "2.prems"(2) show ?thesis by auto
  qed
qed simp

lemma orphaned_same: "same_object c c' \<Longrightarrow> orphaned c' r p = orphaned c r p"
  by (simp add: same_object_def orphaned_def isClusterManagedPVC_def DataPVCNamePrefix_def GetNameForResource_def)

definition deleted_after_sync :: "ctl_log \<Rightarrow> pvc \<Rightarrow> bool" where
  "deleted_after_sync l p \<longleftrightarrow>
     (\<exists>before after c replicas. l = before @ after \<and> (\<forall>ev \<in> set before. \<not> is_delete ev) \<and>
        SyncObject StatefulSetSync c \<in> set before \<and> PvcEvent (DeletePVC p) \<in> set after \<and>
        cs_Replicas (mc_Spec c) = Some replicas \<and> orphaned c replicas p \<and> mc_DeletionTimestamp c = None)"

lemma deleted_after_sync_append: "deleted_after_sync l p \<Longrightarrow> deleted_after_sync (l @ evs) p"
  unfolding deleted_after_sync_def by (metis append_assoc UnCI set_append)

lemma clean_pvcs_delete:
  assumes "PvcEvent (DeletePVC p) \<in> set (cl_Log (fst (clean_pvcs api s)))" and "\<forall>ev \<in> set (cl_Log s). \<not> is_delete ev"
    and "SyncObject StatefulSetSync c \<in> set (cl_Log s)" and "same_object c (cl_Cluster s)"
  shows "deleted_after_sync (cl_Log (fst (clean_pvcs api s))) p"
proof -
  have np: "PvcEvent (DeletePVC p) \<notin> set (cl_Log s)" using assms(2) by auto
  then obtain replicas where r: "cs_Replicas (mc_Spec (cl_Cluster s)) = Some replicas"
    using assms(1) by (auto simp: clean_pvcs_def split: option.splits)
  let ?effs = "fst (PVCCleaner_Run (ca_Pvc api (cl_Log s)) (cl_Cluster s) replicas)"
  have log: "cl_Log (fst (clean_pvcs api s)) = cl_Log s @ map PvcEvent ?effs" by (simp add: clean_pvcs_def r run_pvc_log)
  with assms(1) np have "DeletePVC p \<in> set ?effs" by auto
  from cleaner_orphans [OF this] have "orphaned c replicas p" "mc_DeletionTimestamp c = None"
    "cs_Replicas (mc_Spec c) = Some replicas"
    using assms(4) r orphaned_same [OF assms(4)] by (auto simp: same_object_def)
  then show ?thesis unfolding deleted_after_sync_def log
    using assms(2,3) \<open>DeletePVC p \<in> set ?effs\<close> by (intro exI [of _ "cl_Log s"] exI conjI) auto
qed

lemma no_delete_record_applied: "no_delete s (record_applied e api s)"
  by (auto simp: record_applied_def get_sts_def list_pods_def split: sum.split option.split)

text \<open>A step that deletes no claim is passed by a run that deletes one.\<close>

lemma seq_delete:
  assumes "x = seq r k" and "ev \<in> set (cl_Log (fst x))" and "is_delete ev" and "no_delete t r"
    and "\<forall>ev \<in> set (cl_Log t). \<not> is_delete ev"
  obtains s' where "r = (s', Continue)" "x = k s'" "\<forall>ev \<in> set (cl_Log s'). \<not> is_delete ev" "prefix (cl_Log t) (cl_Log s')"
proof (cases rule: seq_cases [of r k])
  case stop
  with assms show thesis by (auto simp: adds_def)
next
  case (go s')
  from assms(4) go(1) obtain evs where "cl_Log s' = cl_Log t @ evs" "\<forall>ev \<in> set evs. \<not> is_delete ev" by (auto simp: adds_def)
  with assms(1,5) go show thesis by (intro that [of s']) auto
qed

lemma sync_all_delete:
  assumes "PvcEvent (DeletePVC p) \<in> set (cl_Log (fst (sync_all e qcmp api s)))" and "\<forall>ev \<in> set (cl_Log s). \<not> is_delete ev"
  shows "deleted_after_sync (cl_Log (fst (sync_all e qcmp api s))) p"
proof -
  define ks where "ks = [ConfigMapSync, OperatedSecretSync] @ cluster_syncers (cl_Cluster s)"
  let ?k5 = "\<lambda>s. seq (record_applied e api s) (\<lambda>s. (s, Return None))"
  let ?k4 = "\<lambda>s. seq (clean_pvcs api s) ?k5"
  let ?k3 = "\<lambda>s. seq (run_pvc (PVCResizer_Run qcmp) api s) ?k4"
  let ?k2 = "\<lambda>s. seq (sync_pods api (getPodSyncers (cl_Cluster s)) s) ?k3"
  let ?log = "set (cl_Log (fst (sync_all e qcmp api s)))"
  have d: "is_delete (PvcEvent (DeletePVC p))" by simp
  obtain sts where sts: "ca_GetSts api (cl_Log s) = Inr sts"
    using assms by (cases "ca_GetSts api (cl_Log s)") (auto simp: sync_all_def get_sts_def)
  then have run: "sync_all e qcmp api s = seq (sync_objects api ks s) ?k2" by (simp add: sync_all_def get_sts_def ks_def)
  obtain s1 where s1: "sync_objects api ks s = (s1, Continue)" "sync_all e qcmp api s = ?k2 s1"
    "\<forall>ev \<in> set (cl_Log s1). \<not> is_delete ev"
    by (rule seq_delete [OF run assms(1) d no_delete_sync_objects assms(2)])
  have "StatefulSetSync \<in> set ks" by (simp add: ks_def cluster_syncers_def)
  then obtain c where c: "SyncObject StatefulSetSync c \<in> set (cl_Log s1)" "same_object c (cl_Cluster s1)"
    using sync_objects_done [OF s1(1)] by blast
  obtain s2 where s2: "sync_pods api (getPodSyncers (cl_Cluster s1)) s1 = (s2, Continue)" "sync_all e qcmp api s = ?k3 s2"
    "\<forall>ev \<in> set (cl_Log s2). \<not> is_delete ev" "prefix (cl_Log s1) (cl_Log s2)"
    by (rule seq_delete [OF s1(2) assms(1) d no_delete_sync_pods s1(3)])
  have same2: "same_object (cl_Cluster s1) (cl_Cluster s2)" using sync_pods_step.same [of s1] s2(1) by (metis fst_conv)
  obtain s3 where s3: "run_pvc (PVCResizer_Run qcmp) api s2 = (s3, Continue)" "sync_all e qcmp api s = ?k4 s3"
    "\<forall>ev \<in> set (cl_Log s3). \<not> is_delete ev" "prefix (cl_Log s2) (cl_Log s3)"
    by (rule seq_delete [OF s2(2) assms(1) d no_delete_resizer s2(3)])
  have "cl_Cluster s3 = cl_Cluster s2" using run_pvc_log(2) s3(1) by (metis fst_conv)
  then have sync3: "SyncObject StatefulSetSync c \<in> set (cl_Log s3)" "same_object c (cl_Cluster s3)"
    using c same2 s2(4) s3(4) by (auto simp: prefix_def intro: same_object_trans)
  let ?cl = "clean_pvcs api s3"
  show ?thesis
  proof (cases rule: seq_cases [of ?cl ?k5])
    case stop
    then show ?thesis using assms(1) clean_pvcs_delete [OF _ s3(3) sync3] unfolding s3(2) by simp
  next
    case (go s4)
    have "no_delete s4 (?k5 s4)" by (intro adds_seq no_delete_record_applied) simp
    then obtain evs where evs: "cl_Log (fst (?k5 s4)) = cl_Log s4 @ evs" "\<forall>ev \<in> set evs. \<not> is_delete ev" by (auto simp: adds_def)
    then have "PvcEvent (DeletePVC p) \<in> set (cl_Log (fst ?cl))"
      using assms(1) go unfolding s3(2) by auto
    from clean_pvcs_delete [OF this s3(3) sync3] have "deleted_after_sync (cl_Log s4) p" using go(1) by simp
    then show ?thesis using evs(1) go(2) unfolding s3(2) by (simp add: deleted_after_sync_append)
  qed
qed

lemma reconcile_checked_delete:
  assumes "PvcEvent (DeletePVC p) \<in> set (cl_Log (fst (reconcile_checked e qcmp api now b s)))"
    and "\<forall>ev \<in> set (cl_Log s). \<not> is_delete ev"
  shows "deleted_after_sync (cl_Log (fst (reconcile_checked e qcmp api now b s))) p"
proof -
  let ?p = "persistClusterAnnotations api b (s\<lparr>cl_Cluster := clear_blocked now (cl_Cluster s)\<rparr>)"
  let ?k = "\<lambda>s. defer_status (mc_Status (cl_Cluster s)) (sync_all e qcmp api s)"
  have d: "is_delete (PvcEvent (DeletePVC p))" by simp
  have "no_delete s ?p" by (subst adds_cluster [symmetric], rule no_delete_persist)
  from seq_delete [OF reconcile_checked_def assms(1) d this assms(2)]
  obtain s1 where s1: "reconcile_checked e qcmp api now b s = ?k s1" "\<forall>ev \<in> set (cl_Log s1). \<not> is_delete ev"
    by blast
  obtain evs where evs: "cl_Log (fst (?k s1)) = cl_Log (fst (sync_all e qcmp api s1)) @ evs" "\<forall>ev \<in> set evs. \<not> is_delete ev"
  proof (cases "mc_Status (cl_Cluster (fst (sync_all e qcmp api s1))) = mc_Status (cl_Cluster s1)")
    case True
    then show thesis by (intro that [of "[]"]) (simp_all add: defer_status_def case_prod_beta)
  next
    case False
    then show thesis
      by (intro that [of "[UpdateStatus (cl_Cluster (fst (sync_all e qcmp api s1)))]"])
        (simp_all add: defer_status_def case_prod_beta)
  qed
  then have "PvcEvent (DeletePVC p) \<in> set (cl_Log (fst (sync_all e qcmp api s1)))" using assms(1) s1 by auto
  from sync_all_delete [OF this s1(2)] show ?thesis using evs(1) s1(1) by (simp add: deleted_after_sync_append)
qed


text \<open>The defaults change the spec only, and return.\<close>

definition defaulted :: "env \<Rightarrow> options \<Rightarrow> mysql_cluster \<Rightarrow> mysql_cluster \<Rightarrow> bool" where
  "defaulted e opt c c' \<longleftrightarrow> (\<exists>m. c' = default_target_dir (put_conf m (default_pod e opt (SetDefaults_MysqlCluster c))))"

lemma set_defaults_run:
  obtains c' where "defaulted e opt (cl_Cluster s) c'"
    "set_defaults e q opt s = (s\<lparr>cl_Cluster := c'\<rparr>, case Validate e c' of None \<Rightarrow> Continue | Some err \<Rightarrow> Fail (Invalid err))"
proof -
  let ?d = "SetDefaults_MysqlCluster (cl_Cluster s)"
  from SetDefaults_settles [OF scheme_done_conf [OF scheme_done_default]]
  obtain d where d: "only_conf (default_pod e opt ?d) d" "SetDefaults e q opt ?d = Some (default_target_dir d)" by metis
  have "defaulted e opt (cl_Cluster s) (default_target_dir d)" using d(1) unfolding defaulted_def only_conf_def by metis
  with d(2) show thesis
    by (intro that [of "default_target_dir d"]) (auto simp: set_defaults_def split: option.split)
qed

lemma defaulted_fields:
  assumes "defaulted e opt c c'"
  shows "mc_Status c' = mc_Status c" "mc_Annotations c' = mc_Annotations c" "mc_Name c' = mc_Name c"
    "mc_Namespace c' = mc_Namespace c" "mc_DeletionTimestamp c' = mc_DeletionTimestamp c"
    "cs_Replicas (mc_Spec c') = Some (case cs_Replicas (mc_Spec c) of None \<Rightarrow> 1 | Some r \<Rightarrow> r)"
    "cs_MysqlVersion (mc_Spec c') = (if cs_MysqlVersion (mc_Spec c) = [] then MySQLDefaultVersion else cs_MysqlVersion (mc_Spec c))"
    "cs_Image (mc_Spec c') = cs_Image (mc_Spec c)" "cs_SidecarImage (mc_Spec c') = cs_SidecarImage (mc_Spec c)"
    "cs_SecretName (mc_Spec c') = cs_SecretName (mc_Spec c)"
    "vs_PersistentVolumeClaim (cs_VolumeSpec (mc_Spec c')) =
       map_option setVolumeSpecDefaults (vs_PersistentVolumeClaim (cs_VolumeSpec (mc_Spec c)))"
  using assms unfolding defaulted_def
  by (auto simp: default_target_dir_def put_conf_def default_pod_def SetDefaults_MysqlCluster_def Let_def)

text \<open>The first half of a run when there is nothing to do: neither upgrade nor a spec to save nor a failover to end.\<close>

definition settled :: "mysql_cluster \<Rightarrow> bool" where
  "settled c \<longleftrightarrow> \<not> ShouldUpdate c \<and> mc_Spec (UpdateSpec c) = mc_Spec c \<and> \<not> failoverInProgress c"

lemma UpdateSpec_same: "mc_Spec (UpdateSpec c) = mc_Spec c \<Longrightarrow> UpdateSpec c = c"
  by (cases c) (auto simp: UpdateSpec_def split: if_splits)

lemma cluster_Reconcile_settled:
  assumes "ca_Get api = Inr (Some c)" and "settled c"
  obtains c' where "defaulted e opt c c'"
    "cluster_Reconcile e q qcmp opt api now show_error =
      (case Validate e c' of Some err \<Rightarrow> ([], Fail (Invalid err))
       | None \<Rightarrow> case reconcile_defaulted e qcmp api now show_error \<lparr>cl_Cluster = c', cl_Log = []\<rparr> of (s, out) \<Rightarrow> (cl_Log s, out))"
proof -
  let ?s = "\<lparr>cl_Cluster = c, cl_Log = []\<rparr>"
  obtain c' where c': "defaulted e opt (cl_Cluster ?s) c'"
    "set_defaults e q opt ?s = (?s\<lparr>cl_Cluster := c'\<rparr>, case Validate e c' of None \<Rightarrow> Continue | Some err \<Rightarrow> Fail (Invalid err))"
    by (rule set_defaults_run)
  have "save_spec api ?s = (?s, Continue)" "end_failover api now ?s = (?s, Continue)"
    using assms(2) UpdateSpec_same [of c] by (simp_all add: save_spec_def end_failover_def settled_def Let_def)
  then have "cluster_Reconcile e q qcmp opt api now show_error =
      (case Validate e c' of Some err \<Rightarrow> ([], Fail (Invalid err))
       | None \<Rightarrow> case reconcile_defaulted e qcmp api now show_error \<lparr>cl_Cluster = c', cl_Log = []\<rparr> of (s, out) \<Rightarrow> (cl_Log s, out))"
    using assms c'(2) by (auto simp: cluster_Reconcile_def settled_def Let_def split: option.split)
  with c'(1) show thesis by (intro that) simp_all
qed

text \<open>A recorded version that is not older than the desired one on the same line: no change is pending.\<close>

definition up_to_date :: "env \<Rightarrow> mysql_cluster \<Rightarrow> bool" where
  "up_to_date e c \<longleftrightarrow> \<not> IsZero (e_blang e) (AppliedDataPlaneVersion e c) \<and>
     ProfilesMatch e (AppliedDataPlaneVersion e c) (DesiredVersion e c) \<and>
     \<not> LT (e_blang e) (AppliedDataPlaneVersion e c) (DesiredVersion e c)"

lemma up_to_date_passes:
  assumes "up_to_date e c"
  shows "EnsureChecked e c = None" "NeedsAppliedBackfill e c = False" "SyncAppliedVersion e sec query c sts pods = None"
  using assms by (simp_all add: up_to_date_def EnsureChecked_def VersionChangePending_def NeedsAppliedBackfill_def SyncAppliedVersion_def Let_def)

lemma up_to_date_cong:
  assumes "cs_MysqlVersion (mc_Spec c') = cs_MysqlVersion (mc_Spec c)"
    and "st_AppliedMysqlVersion (mc_Status c') = st_AppliedMysqlVersion (mc_Status c)"
  shows "up_to_date e c' = up_to_date e c"
  using assms by (simp add: up_to_date_def DesiredVersion_def AppliedDataPlaneVersion_def)

lemma reconcile_defaulted_up_to_date:
  assumes "up_to_date e (cl_Cluster s)" and "ca_ListPods api (cl_Log s) = Inr pods"
  shows "reconcile_defaulted e qcmp api now show_error s =
    defer_status (mc_Status (clear_blocked now (cl_Cluster s)))
      (sync_all e qcmp api (s\<lparr>cl_Cluster := clear_blocked now (cl_Cluster s)\<rparr>))"
proof -
  have "mc_Annotations (clear_blocked now (cl_Cluster s)) = mc_Annotations (cl_Cluster s)"
    by (simp add: clear_blocked_def UpdateStatusCondition_def)
  then show ?thesis
    using assms(2) up_to_date_passes [OF assms(1)]
    by (simp add: reconcile_defaulted_def list_pods_def backfill_def check_upgrade_def reconcile_checked_def
        persistClusterAnnotations_def Let_def)
qed

text \<open>The syncers of the pods do not touch the cluster: the hosts are entries of its status.\<close>

lemma sync_pod_cluster:
  assumes "host \<in> ns_Name ` set (nodes_of (cl_Cluster s))"
  shows "cl_Cluster (fst (sync_pod api host s)) = cl_Cluster s"
proof -
  have "fst (podSyncFn (cl_Cluster s) host ex) = cl_Cluster s" for ex
    using GetNodeCondition_present [OF assms]
    by (cases ex) (simp_all add: podSyncFn_def case_prod_beta Let_def split: option.split)
  then show ?thesis
    by (auto simp: sync_pod_def Let_def split: sum.split prod.split) (metis fst_conv)+
qed

lemma sync_pods_cluster:
  assumes "set hs \<subseteq> ns_Name ` set (nodes_of (cl_Cluster s))"
  shows "cl_Cluster (fst (sync_pods api hs s)) = cl_Cluster s"
  using assms
proof (induction api hs s rule: sync_pods.induct)
  case (2 api host hs s)
  obtain s' r where sp: "sync_pod api host s = (s', r)" by (cases "sync_pod api host s")
  then have s': "cl_Cluster s' = cl_Cluster s" using sync_pod_cluster [of host s api] "2.prems" by simp
  with sp "2.IH" "2.prems" show ?case by (cases r) auto
qed simp

lemma getPodSyncers_hosts: "set (getPodSyncers c) \<subseteq> ns_Name ` set (nodes_of c)"
  by (auto simp: getPodSyncers_def)

text \<open>No status is saved as long as no step changes it.\<close>

definition saves_status :: "ctl_event \<Rightarrow> bool" where
  "saves_status ev = (case ev of UpdateStatus c \<Rightarrow> True | _ \<Rightarrow> False)"

abbreviation no_save :: "ctl \<Rightarrow> ctl_run \<Rightarrow> bool" where
  "no_save \<equiv> adds (\<lambda>ev. \<not> saves_status ev)"

text \<open>A step of \<open>sync_all\<close> that saves no status and leaves the cluster alone.\<close>

definition quiet :: "ctl \<Rightarrow> ctl_run \<Rightarrow> bool" where
  "quiet s r \<longleftrightarrow> no_save s r \<and> cl_Cluster (fst r) = cl_Cluster s"

lemma quiet_refl [simp]: "quiet s (s, out)"
  by (simp add: quiet_def)

lemma quiet_seq: "quiet s r \<Longrightarrow> (\<And>s'. cl_Cluster s' = cl_Cluster s \<Longrightarrow> quiet s' (k s')) \<Longrightarrow> quiet s (seq r k)"
  by (cases rule: seq_cases [of r k]) (auto simp: quiet_def intro: adds_trans)

lemma quiet_sync_objects:
  assumes "\<And>l. ca_StsReady api l \<in> {None, Some (st_ReadyNodes (mc_Status (cl_Cluster s)))}"
  shows "quiet s (sync_objects api ks s)"
  using assms
proof (induction api ks s rule: sync_objects.induct)
  case (2 api k ks s)
  have c: "cl_Cluster (fst (sync_object api k s)) = cl_Cluster s"
    using "2.prems" [of "cl_Log s"] by (cases k; auto simp: sync_object_def Let_def split: option.split)
  have "quiet s (sync_object api k s)"
    using c sync_object_run(1) [of api k s] by (simp add: quiet_def adds_def saves_status_def)
  then show ?case
    unfolding sync_objects.simps by (rule quiet_seq) (use "2.IH" "2.prems" in simp)
qed simp

lemma quiet_run_pvc: "quiet s (run_pvc f api s)"
  by (auto simp: quiet_def run_pvc_log adds_def saves_status_def)

lemma quiet_sync_pods:
  assumes "set hs \<subseteq> ns_Name ` set (nodes_of (cl_Cluster s))"
  shows "quiet s (sync_pods api hs s)"
proof -
  have "no_save s (sync_pods api hs s)" for hs
    using sync_pods_step.adds_events by (rule adds_mono) (auto simp: is_sync_pod_def saves_status_def split: ctl_event.splits)
  then show ?thesis using sync_pods_cluster [OF assms] by (simp add: quiet_def)
qed

lemma quiet_sync_all:
  assumes "\<And>l. ca_StsReady api l \<in> {None, Some (st_ReadyNodes (mc_Status (cl_Cluster s)))}"
    and "up_to_date e (cl_Cluster s)"
  shows "quiet s (sync_all e qcmp api s)"
proof -
  have applied: "quiet t (record_applied e api t)" if "cl_Cluster t = cl_Cluster s" for t
    using up_to_date_passes(3) [OF assms(2)] that
    by (auto simp: record_applied_def get_sts_def list_pods_def split: sum.split option.split)
  have clean: "quiet t (clean_pvcs api t)" for t
    by (auto simp: clean_pvcs_def quiet_run_pvc split: option.split)
  show ?thesis
  proof (cases "ca_GetSts api (cl_Log s)")
    case (Inr sts)
    show ?thesis unfolding sync_all_def get_sts_def Inr sum.case
      by (intro quiet_seq quiet_sync_objects assms(1) quiet_run_pvc clean applied quiet_refl quiet_sync_pods)
        (use getPodSyncers_hosts in simp_all)
  qed (simp add: sync_all_def get_sts_def)
qed

section \<open>A concrete cluster\<close>

text \<open>A running cluster with nothing to do, whose upgrade was blocked once.\<close>

definition ref_live :: mysql_cluster where
  "ref_live = (ref_at (ver 8 4 8) (ver 8 4 8))\<lparr>
     mc_Annotations := [AnnotationVersion \<mapsto> itoa 300],
     mc_Spec := ref_spec\<lparr>cs_MysqlVersion := dotted (ver 8 4 8), cs_Image := ''percona'', cs_SidecarImage := ''sidecar''\<rparr>,
     mc_Status := (mc_Status (ref_at (ver 8 4 8) (ver 8 4 8)))\<lparr>st_Conditions :=
       [mk_cluster_condition 1 ClusterConditionUpgradeBlocked ConditionTrue ([], [])]\<rparr>\<rparr>"

definition ref_orphan :: pvc where
  "ref_orphan = ref_pvc (DataPVCName ref_cluster (int 5)) ''1Gi''"

definition ref_live_api :: cluster_api where
  "ref_live_api = ref_cluster_api\<lparr>ca_Get := Inr (Some ref_live), ca_StsReady := (\<lambda>l. None),
     ca_Pvc := (\<lambda>l. ref_pvc_api [ref_orphan])\<rparr>"

lemma ref_live_sel:
  "mc_Name ref_live = ''db''" "mc_Namespace ref_live = ''ns''" "mc_DeletionTimestamp ref_live = None"
  "st_Nodes (mc_Status ref_live) = []" "cs_Replicas (mc_Spec ref_live) = Some 3"
  "cs_MysqlVersion (mc_Spec ref_live) = dotted (ver 8 4 8)"
  "cs_Image (mc_Spec ref_live) = ''percona''" "cs_SidecarImage (mc_Spec ref_live) = ''sidecar''"
  "cs_SecretName (mc_Spec ref_live) = ''sec''"
  "st_AppliedMysqlVersion (mc_Status ref_live) = dotted (ver 8 4 8)"
  by (simp_all add: ref_live_def ref_at_def ref_defs)

lemma ref_live_up_to_date: "up_to_date ref_env ref_live"
proof -
  let ?r = "ref_at (ver 8 4 8) (ver 8 4 8)"
  have "up_to_date ref_env ?r" by (simp add: up_to_date_def ProfilesMatch_def Zero_def)
  then show ?thesis
    using up_to_date_cong [of ref_live ?r ref_env] by (simp add: ref_live_sel) (simp add: ref_at_def)
qed

lemma ref_live_settled: "settled ref_live" "upgradeBlocked ref_live"
proof -
  have "mc_Annotations ref_live AnnotationVersion = Some (itoa 300)" by (simp add: ref_live_def)
  then have "\<not> ShouldUpdate ref_live" by (rule not_ShouldUpdate_marked)
  then show "settled ref_live"
    by (simp add: settled_def UpdateSpec_def failoverInProgress_def GetClusterCondition_find)
      (simp add: ref_live_def ref_at_def ref_defs mk_cluster_condition_def)
  show "upgradeBlocked ref_live"
    by (simp add: upgradeBlocked_def GetClusterCondition_find) (simp add: ref_live_def mk_cluster_condition_def)
qed

definition ref_nil_replicas :: mysql_cluster where
  "ref_nil_replicas = ref_cluster\<lparr>mc_Annotations := [AnnotationVersion \<mapsto> itoa 300],
     mc_Spec := ref_spec\<lparr>cs_Replicas := None\<rparr>,
     mc_Status := (mc_Status ref_cluster)\<lparr>st_Conditions :=
       [mk_cluster_condition 1 ClusterConditionFailoverInProgress ConditionTrue ([], [])]\<rparr>\<rparr>"

lemma ref_live_api_sel:
  "ca_Get ref_live_api = Inr (Some ref_live)" "ca_ListPods ref_live_api l = Inr []" "ca_StsReady ref_live_api l = None"
  "ca_Pvc ref_live_api l = ref_pvc_api [ref_orphan]" "ca_Sync ref_live_api l k c = None"
  "\<exists>sts. ca_GetSts ref_live_api l = Inr sts"
  by (simp_all add: ref_live_api_def ref_cluster_api_def)

section \<open>Properties\<close>


lemma sync_objects_ok:
  "(\<And>l k c. ca_Sync api l k c = None) \<Longrightarrow> snd (sync_objects api ks s) = Continue"
proof (induction api ks s rule: sync_objects.induct)
  case (2 api k ks s)
  obtain s' where "sync_object api k s = (s', Continue)" using "2.prems" by (simp add: sync_object_def Let_def)
  with "2.IH" "2.prems" show ?case by simp
qed simp

lemma log_grows: "adds P s r \<Longrightarrow> ev \<in> set (cl_Log s) \<Longrightarrow> ev \<in> set (cl_Log (fst r))"
  by (auto simp: adds_def)

lemma ref_orphan_deleted:
  assumes "mc_Name c = ''db''" and "mc_Namespace c = ''ns''" and "mc_DeletionTimestamp c = None"
  shows "DeletePVC ref_orphan \<in> set (fst (PVCCleaner_Run (ref_pvc_api [ref_orphan]) c 3))"
    and "snd (PVCResizer_Run (\<lambda>a b. 0) (ref_pvc_api [ref_orphan]) c) = None"
proof -
  have pre: "has_prefix (pvc_Name ref_orphan) (DataPVCNamePrefix c)"
    using assms(1) by (simp add: ref_orphan_def ref_pvc_def has_prefix_def DataPVCName_def DataPVCNamePrefix_def GetNameForResource_def ref_cluster_def)
  have ord: "getOrdinal (pvc_Name ref_orphan) = Some 5"
    using getOrdinal_DataPVCName [of 5 ref_cluster] by (simp add: ref_orphan_def ref_pvc_def)
  have "listOwnedClusterPVCs (ref_pvc_api [ref_orphan]) c = Inr [ref_orphan]"
    using assms by (simp add: listOwnedClusterPVCs_def ref_pvc_api_def isClusterManagedPVC_def ref_orphan_def ref_pvc_def)
  then show "DeletePVC ref_orphan \<in> set (fst (PVCCleaner_Run (ref_pvc_api [ref_orphan]) c 3))"
    "snd (PVCResizer_Run (\<lambda>a b. 0) (ref_pvc_api [ref_orphan]) c) = None"
    using pre ord assms(3)
    by (auto simp: PVCCleaner_Run_def PVCResizer_Run_def clean_one_def deletePVC_def ref_pvc_api_def resizePVCIfNeeded_def Let_def
        split: option.split)
qed

lemma sync_all_live:
  assumes "mc_Name c = ''db''" "mc_Namespace c = ''ns''" "mc_DeletionTimestamp c = None" "st_Nodes (mc_Status c) = []"
    and "cs_Replicas (mc_Spec c) = Some 3"
  shows "PvcEvent (DeletePVC ref_orphan) \<in> set (cl_Log (fst (sync_all e (\<lambda>a b. 0) ref_live_api \<lparr>cl_Cluster = c, cl_Log = []\<rparr>)))"
proof -
  let ?s = "\<lparr>cl_Cluster = c, cl_Log = []\<rparr>"
  define ks where "ks = [ConfigMapSync, OperatedSecretSync] @ cluster_syncers c"
  let ?k5 = "\<lambda>s. seq (record_applied e ref_live_api s) (\<lambda>s. (s, Return None))"
  obtain s1 where s1: "sync_objects ref_live_api ks ?s = (s1, Continue)"
    using sync_objects_ok [of ref_live_api ks ?s] by (cases "sync_objects ref_live_api ks ?s") (simp add: ref_live_api_sel)
  have "quiet ?s (sync_objects ref_live_api ks ?s)" by (rule quiet_sync_objects) (simp add: ref_live_api_sel)
  then have c1: "cl_Cluster s1 = c" using s1 by (simp add: quiet_def)
  let ?r = "run_pvc (PVCResizer_Run (\<lambda>a b. 0)) ref_live_api s1"
  obtain s2 where s2: "?r = (s2, Continue)" "cl_Cluster s2 = c"
    using ref_orphan_deleted(2) [OF assms(1-3)] run_pvc_log(2) [of "PVCResizer_Run (\<lambda>a b. 0)" ref_live_api s1] c1
    by (cases ?r) (auto simp: run_pvc_def ref_live_api_sel case_prod_beta)
  have "PvcEvent (DeletePVC ref_orphan) \<in> set (cl_Log (fst (clean_pvcs ref_live_api s2)))"
    using ref_orphan_deleted(1) [OF assms(1-3)] assms(5) s2(2)
    by (auto simp: clean_pvcs_def run_pvc_log ref_live_api_sel)
  moreover have "no_delete t (?k5 t)" for t by (intro adds_seq no_delete_record_applied) simp
  ultimately have "PvcEvent (DeletePVC ref_orphan) \<in> set (cl_Log (fst (seq (clean_pvcs ref_live_api s2) ?k5)))"
    by (cases rule: seq_cases [of "clean_pvcs ref_live_api s2" ?k5]) (auto dest: log_grows)
  moreover obtain sts where "ca_GetSts ref_live_api (cl_Log ?s) = Inr sts" using ref_live_api_sel(6) by blast
  moreover have "getPodSyncers c = []" using assms(4) by (simp add: getPodSyncers_def)
  ultimately show ?thesis
    using s1 s2(1) c1 by (simp add: sync_all_def get_sts_def ks_def)
qed

lemma ref_live_validates:
  assumes "defaulted ref_env ref_options ref_live c'"
  shows "Validate ref_env c' = None"
  using defaulted_fields [OF assms] ServerImage_spec [of ref_env "mc_Spec c'"]
  by (simp add: Validate_def GetMysqlImage_def GetSidecarImage_def SidecarImageFor_def ref_live_sel DefaultValidate_def
      iface_of_pointer_def Let_def)


text \<open>
  The condition that reports a blocked upgrade is not cleared once the version of the
  spec is corrected: in a run on a cluster whose stored condition is true although no upgrade is
  pending any more, the condition is cleared in memory, but before the copy of the status is taken
  that decides whether to save it; as long as the number of ready nodes stays the same, no run saves
  the status, whatever the API server answers otherwise.
\<close>

theorem upgrade_blocked_stays:
  assumes "ca_Get api = Inr (Some c)" and "settled c" and "upgradeBlocked c" and "up_to_date e c"
    and "cs_MysqlVersion (mc_Spec c) \<noteq> []" and "ca_ListPods api [] = Inr pods"
    and "\<And>l. ca_StsReady api l \<in> {None, Some (st_ReadyNodes (mc_Status c))}"
  shows "\<forall>ev \<in> set (fst (cluster_Reconcile e q qcmp opt api now show_error)). \<not> saves_status ev"
proof -
  obtain c' where c': "defaulted e opt c c'"
    "cluster_Reconcile e q qcmp opt api now show_error =
      (case Validate e c' of Some err \<Rightarrow> ([], Fail (Invalid err))
       | None \<Rightarrow> case reconcile_defaulted e qcmp api now show_error \<lparr>cl_Cluster = c', cl_Log = []\<rparr> of (s, out) \<Rightarrow> (cl_Log s, out))"
    using assms(1,2) by (rule cluster_Reconcile_settled)
  let ?s = "\<lparr>cl_Cluster = c', cl_Log = []\<rparr>"
  let ?c = "clear_blocked now c'"
  let ?t = "?s\<lparr>cl_Cluster := ?c\<rparr>"
  have fields: "st_ReadyNodes (mc_Status ?c) = st_ReadyNodes (mc_Status c)"
    "st_AppliedMysqlVersion (mc_Status ?c) = st_AppliedMysqlVersion (mc_Status c)"
    "cs_MysqlVersion (mc_Spec ?c) = cs_MysqlVersion (mc_Spec c)"
    using defaulted_fields [OF c'(1)] assms(5) by (simp_all add: clear_blocked_def UpdateStatusCondition_def)
  have utd: "up_to_date e c'" "up_to_date e ?c"
    using assms(4,5) fields defaulted_fields(1,7) [OF c'(1)] up_to_date_cong [of c' c e] up_to_date_cong [of ?c c e]
    by simp_all
  have "quiet ?t (sync_all e qcmp api ?t)"
    by (rule quiet_sync_all) (use assms(7) fields utd in simp_all)
  moreover have "reconcile_defaulted e qcmp api now show_error ?s = defer_status (mc_Status ?c) (sync_all e qcmp api ?t)"
    using reconcile_defaulted_up_to_date [of e ?s api pods qcmp now show_error] utd(1) assms(6) by simp
  ultimately have "\<forall>ev \<in> set (cl_Log (fst (reconcile_defaulted e qcmp api now show_error ?s))). \<not> saves_status ev"
    by (auto simp: defer_status_def quiet_def adds_def case_prod_beta)
  then show ?thesis unfolding c'(2) by (auto simp: case_prod_beta split: option.split)
qed

text \<open>
  A cluster without \<open>spec.replicas\<close>, which the documentation calls optional, crashes the
  controller while a failover is in progress: the field is read before the defaults are set.
\<close>

theorem failover_nil_replicas:
  assumes "ca_Get api = Inr (Some c)" and "\<not> ShouldUpdate c" and "mc_Spec (UpdateSpec c) = mc_Spec c"
    and "failoverInProgress c" and "cs_Replicas (mc_Spec c) = None"
  shows "cluster_Reconcile e q qcmp opt api now show_error = ([], Fail NilDereference)"
  using assms UpdateSpec_same [of c]
  by (simp add: cluster_Reconcile_def save_spec_def end_failover_def Let_def)

theorem failover_nil_replicas_witness:
  "cluster_Reconcile ref_env ref_quantities (\<lambda>a b. 0) ref_options
     (ref_cluster_api\<lparr>ca_Get := Inr (Some ref_nil_replicas)\<rparr>) 7 (\<lambda>err. []) = ([], Fail NilDereference)"
proof (rule failover_nil_replicas [where c = ref_nil_replicas])
  show "\<not> ShouldUpdate ref_nil_replicas" by (rule not_ShouldUpdate_marked) (simp add: ref_nil_replicas_def)
  show "failoverInProgress ref_nil_replicas"
    by (simp add: failoverInProgress_def GetClusterCondition_find ref_nil_replicas_def mk_cluster_condition_def)
qed (simp_all add: UpdateSpec_def ref_nil_replicas_def ref_spec_def)

theorem upgrade_blocked_stays_witness:
  "list_all (\<lambda>ev. \<not> saves_status ev)
     (fst (cluster_Reconcile ref_env ref_quantities (\<lambda>a b. 0) ref_options ref_live_api 7 (\<lambda>err. [])))"
  unfolding list_all_iff
  by (rule upgrade_blocked_stays [OF ref_live_api_sel(1) ref_live_settled ref_live_up_to_date])
    (simp_all add: ref_live_sel ref_live_api_sel)

end
