(* ===== verification/ClusterProps.thy ===== *)
theory ClusterProps
  imports ClusterCtl
begin

text \<open>
  Properties of the cluster controller that combine its parts: the labels of the pods along a run, and a
  run that meets a blocked upgrade.
\<close>

section \<open>The labels of the pods\<close>

type_synonym label_store = "string \<rightharpoonup> str_map"

text \<open>The labels after a sequence of effects, every save of which has succeeded.\<close>

definition apply_event :: "label_store \<Rightarrow> ctl_event \<Rightarrow> label_store" where
  "apply_event st ev = (case ev of SyncPod n l \<Rightarrow> st(n \<mapsto> l) | _ \<Rightarrow> st)"

definition is_master_label :: "str_map \<Rightarrow> bool" where
  "is_master_label l \<longleftrightarrow> l ''role'' = Some labelMaster"

definition master_pods :: "label_store \<Rightarrow> string set" where
  "master_pods st = {n. \<exists>l. st n = Some l \<and> is_master_label l}"

text \<open>A relabelling of a replica.\<close>

definition demotes :: "ctl_event \<Rightarrow> bool" where
  "demotes ev = (case ev of SyncPod n l \<Rightarrow> \<not> is_master_label l | _ \<Rightarrow> False)"

lemma master_pods_demote:
  assumes "\<forall>ev \<in> set evs. demotes ev"
  shows "master_pods (foldl apply_event st evs) = master_pods st - {n. \<exists>l. SyncPod n l \<in> set evs}"
  using assms
proof (induction evs arbitrary: st)
  case (Cons ev evs)
  from Cons.prems obtain n l where ev: "ev = SyncPod n l" "\<not> is_master_label l" by (cases ev) (auto simp: demotes_def)
  have "master_pods (apply_event st ev) = master_pods st - {n}"
    using ev by (auto simp: master_pods_def apply_event_def)
  then show ?case using Cons.IH [of "apply_event st ev"] Cons.prems ev by auto
qed simp

lemma master_pods_promote: "master_pods (apply_event st (SyncPod n l)) \<subseteq> insert n (master_pods st)"
  by (auto simp: master_pods_def apply_event_def)

lemma podSyncFn_role:
  assumes "podSyncFn c host ex = (c', Inr l)"
  shows "is_master_label l \<longleftrightarrow> OrcReconcile.cond_true c host NodeConditionMaster"
proof -
  obtain labels where ex: "ex = Some labels" using assms by (cases ex) (simp_all add: podSyncFn_def)
  then show ?thesis using assms
    by (auto simp: podSyncFn_def OrcReconcile.cond_true_def is_master_label_def labelMaster_def labelReplica_def
        GetNodeCondition_eq [symmetric] case_prod_beta Let_def split: option.splits if_splits)
qed

text \<open>What the syncer of one pod does: it skips a pod that does not exist, stops, or saves its labels.\<close>

lemma sync_pod_cases:
  assumes "sync_pod api host s = (s', r)"
  obtains (missing) "ca_GetPod api (cl_Log s) (getPodNameForHost host) = Inr None" "cl_Log s' = cl_Log s" "r = Some PodNotFound"
  | (stopped) err where "cl_Log s' = cl_Log s" "r = Some err" "\<not> IsPodNotFound err"
  | (saved) l where "cl_Log s' = cl_Log s @ [SyncPod (getPodNameForHost host) l]"
      "is_master_label l \<longleftrightarrow> OrcReconcile.cond_true (cl_Cluster s) host NodeConditionMaster"
      "r = None \<or> (\<exists>err. r = Some (SyncFailure err))"
proof (cases "ca_GetPod api (cl_Log s) (getPodNameForHost host)")
  case (Inl err)
  with assms show thesis by (intro stopped [of "SyncFailure err"]) (auto simp: sync_pod_def)
next
  case (Inr ex)
  obtain c res where p: "podSyncFn (cl_Cluster s) host ex = (c, res)" by (cases "podSyncFn (cl_Cluster s) host ex")
  show thesis
  proof (cases res)
    case (Inl err)
    show thesis
    proof (cases ex)
      case None
      with Inr assms show thesis by (intro missing) (auto simp: sync_pod_def podSyncFn_def)
    next
      case (Some labels)
      with p Inl have "err = MasterNotSet" by (auto simp: podSyncFn_def case_prod_beta Let_def split: option.splits)
      with Inr p Inl assms show thesis by (intro stopped [of err]) (auto simp: sync_pod_def)
    qed
  next
    case res: (Inr l)
    have "cl_Log s' = cl_Log s @ [SyncPod (getPodNameForHost host) l]" "r = None \<or> (\<exists>err. r = Some (SyncFailure err))"
      using assms Inr p res
      by (cases "ca_SavePod api (cl_Log s) (getPodNameForHost host) l"; auto simp: sync_pod_def)+
    with podSyncFn_role [OF p [unfolded res]] show thesis by (intro saved [of l])
  qed
qed

lemma sync_pods_append: "sync_pods api (xs @ ys) s = seq (sync_pods api xs s) (sync_pods api ys)"
  by (induction api xs s rule: sync_pods.induct) (auto split: prod.split option.split)

lemma sync_pods_replicas:
  assumes "\<forall>h \<in> set hs. h \<in> ns_Name ` set (nodes_of (cl_Cluster s)) \<and>
      \<not> OrcReconcile.cond_true (cl_Cluster s) h NodeConditionMaster"
    and "\<And>l n. ca_GetPod api l n = Inr None \<Longrightarrow> st n = None"
    and "sync_pods api hs s = (s', out)"
  shows "\<exists>evs. cl_Log s' = cl_Log s @ evs \<and> (\<forall>ev \<in> set evs. demotes ev) \<and>
    (out = Continue \<longrightarrow> (\<forall>h \<in> set hs. st (getPodNameForHost h) = None \<or> (\<exists>l. SyncPod (getPodNameForHost h) l \<in> set evs)))"
  using assms
proof (induction api hs s rule: sync_pods.induct)
  case (2 api host hs s)
  obtain s1 r where sp: "sync_pod api host s = (s1, r)" by (cases "sync_pod api host s")
  have c1: "cl_Cluster s1 = cl_Cluster s" using sync_pod_cluster [of host s api] "2.prems"(1) sp by simp
  have rest: "\<exists>evs. cl_Log s' = cl_Log s1 @ evs \<and> (\<forall>ev \<in> set evs. demotes ev) \<and>
      (out = Continue \<longrightarrow> (\<forall>h \<in> set hs. st (getPodNameForHost h) = None \<or> (\<exists>l. SyncPod (getPodNameForHost h) l \<in> set evs)))"
    if "r = None \<or> r = Some PodNotFound"
    using that "2.IH" [OF sp [symmetric]] "2.prems" sp c1 by (auto simp del: sync_pods.simps(1))
  from sp show ?case
  proof (cases rule: sync_pod_cases)
    case missing
    with rest "2.prems"(2) show ?thesis by force
  next
    case (stopped err)
    then show ?thesis using "2.prems"(3) sp by auto
  next
    case (saved l)
    have dem: "demotes (SyncPod (getPodNameForHost host) l)" using saved(2) "2.prems"(1) by (simp add: demotes_def)
    show ?thesis
    proof (cases r)
      case None
      with rest obtain evs where "cl_Log s' = cl_Log s1 @ evs" "\<forall>ev \<in> set evs. demotes ev"
        "out = Continue \<longrightarrow> (\<forall>h \<in> set hs. st (getPodNameForHost h) = None \<or> (\<exists>l. SyncPod (getPodNameForHost h) l \<in> set evs))"
        by blast
      with saved(1) dem show ?thesis by (intro exI [of _ "SyncPod (getPodNameForHost host) l # evs"]) auto
    next
      case (Some err)
      then have "s' = s1" "out \<noteq> Continue" using saved(3) "2.prems"(3) sp by auto
      with saved(1) dem show ?thesis by (intro exI [of _ "[SyncPod (getPodNameForHost host) l]"]) auto
    qed
  qed
qed simp

lemma getCondAsBool_iff:
  assumes "distinct (map ns_Name (nodes_of c))" and "ns \<in> set (nodes_of c)"
  shows "getCondAsBool ns ty \<longleftrightarrow> OrcReconcile.cond_true c (ns_Name ns) ty"
proof -
  have "node_named c (ns_Name ns) = Some ns"
    unfolding node_named_def using assms by (auto simp: find_Some_iff distinct_conv_nth in_set_conv_nth)
  then show ?thesis
    by (auto simp: getCondAsBool_def OrcReconcile.cond_true_def node_cond_def GetNodeConditionIndex_def find_index_eq_find
        split: option.splits)
qed

lemma sync_pods_single:
  assumes "sync_pods api [h] s = (s', out)"
  shows "cl_Log s' = cl_Log s \<or> (\<exists>l. cl_Log s' = cl_Log s @ [SyncPod (getPodNameForHost h) l])"
proof -
  obtain s1 r where sp: "sync_pod api h s = (s1, r)" by (cases "sync_pod api h s")
  then have "s' = s1" using assms by (auto split: option.splits if_splits)
  with sp show ?thesis by (cases rule: sync_pod_cases) auto
qed

section \<open>A held rollout\<close>

text \<open>
  What an object syncer reads: a predicate on the cluster that does not depend on the number of ready
  nodes holds for every object synced and for the cluster that is left.
\<close>

definition synced_with :: "sync_kind list \<Rightarrow> (mysql_cluster \<Rightarrow> bool) \<Rightarrow> ctl_event \<Rightarrow> bool" where
  "synced_with ks K ev = (case ev of SyncObject k c \<Rightarrow> k \<in> set ks \<and> K c | _ \<Rightarrow> False)"

lemma sync_objects_keep:
  assumes "\<And>c n. K c \<Longrightarrow> K (c\<lparr>mc_Status := (mc_Status c)\<lparr>st_ReadyNodes := n\<rparr>\<rparr>)" and "K (cl_Cluster s)"
  shows "adds (synced_with ks K) s (sync_objects api ks s)" "K (cl_Cluster (fst (sync_objects api ks s)))"
proof -
  have one: "K (cl_Cluster (fst (sync_object api k s)))" if "K (cl_Cluster s)" for api k s
    using that assms(1) by (auto simp: sync_object_def Let_def split: sync_kind.split option.split)
  show "K (cl_Cluster (fst (sync_objects api ks s)))"
    using assms(2)
  proof (induction api ks s rule: sync_objects.induct)
    case (2 api k ks s)
    note k = one [OF "2.prems", of api k]
    show ?case
      by (cases rule: seq_cases [of "sync_object api k s" "sync_objects api ks"]) (use k "2.IH" in auto)
  qed simp
  show "adds (synced_with ks K) s (sync_objects api ks s)"
    using assms(2)
  proof (induction api ks s rule: sync_objects.induct)
    case (2 api k ks s)
    have "adds (synced_with (k # ks) K) s (sync_object api k s)"
      using sync_object_run(1) [of api k s] "2.prems" by (simp add: adds_def synced_with_def)
    moreover have "adds (synced_with (k # ks) K) s' (sync_objects api ks s')" if "sync_object api k s = (s', Continue)" for s'
    proof (rule adds_mono)
      show "adds (synced_with ks K) s' (sync_objects api ks s')"
        using one [OF "2.prems", of api k] that by (intro "2.IH") simp_all
    qed (auto simp: synced_with_def split: ctl_event.splits)
    ultimately show ?case by (simp add: adds_seq)
  qed simp
qed

lemma sync_objects_no_return: "snd (sync_objects api ks s) \<noteq> Return m"
proof (induction api ks s rule: sync_objects.induct)
  case (2 api k ks s)
  have k: "snd (sync_object api k s) \<noteq> Return m" by (simp add: sync_object_def Let_def split: option.split)
  show ?case
    by (cases rule: seq_cases [of "sync_object api k s" "sync_objects api ks"]) (use k "2.IH" in auto)
qed simp

lemma hold_keep:
  assumes "\<And>c n. K c \<Longrightarrow> K (c\<lparr>mc_Status := (mc_Status c)\<lparr>st_ReadyNodes := n\<rparr>\<rparr>)" and "K (cl_Cluster s)"
    and "mc_Annotations (cl_Cluster s) = ann"
  shows "adds (synced_with [ConfigMapSync, OperatedSecretSync, StatefulSetSync] K) s (hold api ann n s)"
    and "snd (hold api ann n s) = Return (Some n) \<or> (\<exists>err. snd (hold api ann n s) = Fail err)"
proof -
  define ks where "ks = [ConfigMapSync, OperatedSecretSync, StatefulSetSync]"
  let ?fin = "\<lambda>s. seq (persistClusterAnnotations api ann s) (\<lambda>s. (s, Return (Some n)))"
  have run: "hold api ann n s = (case ca_GetSts api (cl_Log s) of Inl err \<Rightarrow> (s, Fail (ApiFailure err))
      | Inr sts \<Rightarrow> seq (sync_objects api ks s) ?fin)"
    by (simp add: hold_def syncRolloutHold_def get_sts_def ks_def split: sum.split)
  have quiet: "?fin s' = (s', Return (Some n))" if "sync_objects api ks s = (s', Continue)" for s'
    using sync_objects_step.same [of s api ks] that assms(3) by (simp add: same_object_def persistClusterAnnotations_def)
  have keep: "adds (synced_with ks K) s (sync_objects api ks s)" using assms(1,2) by (rule sync_objects_keep(1))
  have "adds (synced_with ks K) s (seq (sync_objects api ks s) ?fin)"
    using keep by (rule adds_seq) (simp add: quiet del: seq_simps)
  then show "adds (synced_with [ConfigMapSync, OperatedSecretSync, StatefulSetSync] K) s (hold api ann n s)"
    unfolding run ks_def [symmetric] by (simp split: sum.split)
  have "snd (seq (sync_objects api ks s) ?fin) = Return (Some n) \<or> (\<exists>err. snd (seq (sync_objects api ks s) ?fin) = Fail err)"
  proof (cases rule: seq_cases [of "sync_objects api ks s" ?fin])
    case stop
    then show ?thesis using sync_objects_no_return [of api ks s] by (cases "snd (sync_objects api ks s)") auto
  next
    case (go s')
    with quiet show ?thesis by simp
  qed
  then show "snd (hold api ann n s) = Return (Some n) \<or> (\<exists>err. snd (hold api ann n s) = Fail err)"
    unfolding run by (cases "ca_GetSts api (cl_Log s)") simp_all
qed

text \<open>The effects of a run that holds a rollout at a version.\<close>

definition held_event :: "env \<Rightarrow> version \<Rightarrow> ctl_event \<Rightarrow> bool" where
  "held_event e v ev =
     (case ev of
        RecordEvent reason msg \<Rightarrow> True
      | UpdateStatus c \<Rightarrow> upgradeBlocked c
      | SyncObject k c \<Rightarrow> k \<in> {ConfigMapSync, OperatedSecretSync, StatefulSetSync} \<and> upgradeBlocked c \<and>
          (\<forall>sts pods. RolloutMySQLVersion e c sts pods = v)
      | _ \<Rightarrow> False)"

definition blocked_result :: "env \<Rightarrow> version \<Rightarrow> ctl_run \<Rightarrow> bool" where
  "blocked_result e v r \<longleftrightarrow> (\<forall>ev \<in> set (cl_Log (fst r)). held_event e v ev) \<and>
     (snd r = Return (Some 30) \<or> (\<exists>err. snd r = Fail err))"

lemma blocked_rollout:
  assumes "env_ok e" and "EnsureChecked e c = Some err" and "IsUpgradeBlocked err"
    and "cs_MysqlVersion (mc_Spec d) = cs_MysqlVersion (mc_Spec c)"
    and "st_AppliedMysqlVersion (mc_Status d) = st_AppliedMysqlVersion (mc_Status c)"
  shows "AppliedDataPlaneVersion e c \<noteq> Zero" "RolloutMySQLVersion e d sts pods = AppliedDataPlaneVersion e c"
proof -
  let ?a = "AppliedDataPlaneVersion e c"
  have same: "AppliedDataPlaneVersion e d = ?a" "DesiredVersion e d = DesiredVersion e c"
    using assms(4,5) by (simp_all add: AppliedDataPlaneVersion_def DesiredVersion_def)
  from assms(1-3) have nz: "?a \<noteq> Zero" "ValidateUpgradePath e ?a (DesiredVersion e c) \<noteq> None"
    by (auto simp: EnsureChecked_def SourceVersionForUpgrade_def Let_def split: if_splits option.splits)
  then show "?a \<noteq> Zero" "RolloutMySQLVersion e d sts pods = ?a" using assms(1) same by (auto simp: RolloutMySQLVersion_applied)
qed

lemma blocked_cong:
  assumes "env_ok e" and "EnsureChecked e c = Some err" and "IsUpgradeBlocked err"
    and "cs_MysqlVersion (mc_Spec d) = cs_MysqlVersion (mc_Spec c)"
    and "st_AppliedMysqlVersion (mc_Status d) = st_AppliedMysqlVersion (mc_Status c)"
  shows "EnsureChecked e d = Some err"
proof -
  have same: "AppliedDataPlaneVersion e d = AppliedDataPlaneVersion e c" "DesiredVersion e d = DesiredVersion e c"
    using assms(4,5) by (simp_all add: AppliedDataPlaneVersion_def DesiredVersion_def)
  have nz: "AppliedDataPlaneVersion e c \<noteq> Zero" using assms by (rule blocked_rollout)
  with assms(1,2) same show ?thesis
    by (auto simp: EnsureChecked_def VersionChangePending_applied SourceVersionForUpgrade_def Let_def split: if_splits)
qed

lemma upgradeBlocked_set:
  "upgradeBlocked (UpdateStatusCondition now c ClusterConditionUpgradeBlocked ConditionTrue reason msg)"
  by (simp add: upgradeBlocked_def GetClusterCondition_update)

lemma reconcile_blocked:
  assumes "env_ok e" and "EnsureChecked e (cl_Cluster s) = Some err" and "IsUpgradeBlocked err" and "cl_Log s = []"
    and "\<And>l d d'. ca_UpdateStatus api l d = Inr d' \<Longrightarrow> d' = d"
  shows "blocked_result e (AppliedDataPlaneVersion e (cl_Cluster s)) (reconcile_defaulted e qcmp api now show_error s)"
proof (cases "ca_ListPods api []")
  case (Inr pods)
  let ?c = "cl_Cluster s"
  let ?v = "AppliedDataPlaneVersion e ?c"
  let ?d = "UpdateStatusCondition now ?c ClusterConditionUpgradeBlocked ConditionTrue ''MySQLVersionUpgradeBlocked'' (show_error err)"
  let ?s1 = "(emit (RecordEvent ''MySQLVersionUpgradeBlocked'' (show_error err)) s)\<lparr>cl_Cluster := ?d\<rparr>"
  let ?s2 = "(emit (UpdateStatus ?d) ?s1)\<lparr>cl_Cluster := ?d\<rparr>"
  define K where "K d \<longleftrightarrow> upgradeBlocked d \<and> cs_MysqlVersion (mc_Spec d) = cs_MysqlVersion (mc_Spec ?c) \<and>
    st_AppliedMysqlVersion (mc_Status d) = st_AppliedMysqlVersion (mc_Status ?c)" for d
  have stop: "blocked_result e ?v (seq r k)" if "blocked_result e ?v r" for r k
    using that by (cases rule: seq_cases [of r k]) (auto simp: blocked_result_def)
  have held: "held_event e ?v (UpdateStatus ?d)" by (simp add: held_event_def upgradeBlocked_set)
  have Kd: "K ?d" by (simp add: K_def upgradeBlocked_set)
  have Kn: "K (d\<lparr>mc_Status := (mc_Status d)\<lparr>st_ReadyNodes := n\<rparr>\<rparr>)" if "K d" for d n
    using that by (simp add: K_def upgradeBlocked_def GetClusterCondition_find)
  have "synced_with [ConfigMapSync, OperatedSecretSync, StatefulSetSync] K ev \<Longrightarrow> held_event e ?v ev" for ev
    using blocked_rollout(2) [OF assms(1-3)] by (auto simp: synced_with_def held_event_def K_def split: ctl_event.splits)
  moreover have "adds (synced_with [ConfigMapSync, OperatedSecretSync, StatefulSetSync] K) ?s2 (hold api (mc_Annotations ?c) 30 ?s2)"
    by (rule hold_keep(1) [of K, OF Kn]) (simp_all add: Kd)
  moreover have "snd (hold api (mc_Annotations ?c) 30 ?s2) = Return (Some 30) \<or> (\<exists>err. snd (hold api (mc_Annotations ?c) 30 ?s2) = Fail err)"
    by (rule hold_keep(2) [of K, OF Kn]) (simp_all add: Kd)
  ultimately have hold: "blocked_result e ?v (hold api (mc_Annotations ?c) 30 ?s2)"
    using held assms(4) by (auto simp: blocked_result_def adds_def held_event_def)
  have nhold: "\<not> IsHoldRollout err" using assms(3) by (cases err) simp_all
  have "blocked_result e ?v (check_upgrade e api now show_error (mc_Annotations ?c) s)"
  proof (cases "ca_UpdateStatus api (cl_Log ?s1) ?d")
    case (Inl x)
    then show ?thesis using held assms(2,4) nhold
      by (simp add: check_upgrade_def r_UpdateStatus_def blocked_result_def held_event_def Let_def)
  next
    case (Inr d')
    then have "d' = ?d" by (rule assms(5))
    with Inr hold assms(2,3) nhold show ?thesis by (simp add: check_upgrade_def r_UpdateStatus_def Let_def)
  qed
  moreover have "\<not> NeedsAppliedBackfill e ?c"
    using blocked_rollout(1) [OF assms(1-3), of ?c] assms(1) by (simp add: NeedsAppliedBackfill_def)
  ultimately show ?thesis
    using stop Inr assms(4) by (simp add: reconcile_defaulted_def list_pods_def backfill_def Let_def)
qed (use assms(4) in \<open>simp add: reconcile_defaulted_def list_pods_def blocked_result_def Let_def\<close>)

section \<open>Properties\<close>

lemma filter_at_most_one:
  assumes "distinct xs" and "\<And>a b. a \<in> set xs \<Longrightarrow> b \<in> set xs \<Longrightarrow> P a \<Longrightarrow> P b \<Longrightarrow> a = b"
  shows "filter P xs = [] \<or> (\<exists>x. filter P xs = [x])"
proof (rule ccontr)
  assume "\<not> ?thesis"
  then obtain a b ys where ab: "filter P xs = a # b # ys" by (cases "filter P xs" rule: remdups_adj.cases) auto
  then have "a \<in> set (filter P xs)" "b \<in> set (filter P xs)" by simp_all
  then have "a = b" using assms(2) by auto
  moreover have "distinct (filter P xs)" using assms(1) by simp
  ultimately show False using ab by simp
qed

text \<open>
  The effects of the label syncers when at most one node is the master: relabellings of replicas, and after all of
  them, each of which has reached its pod if there is one, the label of the master.
\<close>

lemma label_phases:
  assumes names: "distinct (map ns_Name (nodes_of c))"
    and one: "\<And>a b. a \<in> set (nodes_of c) \<Longrightarrow> b \<in> set (nodes_of c) \<Longrightarrow>
      getCondAsBool a NodeConditionMaster \<Longrightarrow> getCondAsBool b NodeConditionMaster \<Longrightarrow> a = b"
    and exists: "\<And>l n. ca_GetPod api l n = Inr None \<Longrightarrow> st n = None"
    and run: "sync_pods api (getPodSyncers c) s = (s', out)" "cl_Cluster s = c" "cl_Log s' = cl_Log s @ evs"
  obtains evs1 where "\<forall>ev \<in> set evs1. demotes ev" and "evs = evs1"
  | evs1 master l where "\<forall>ev \<in> set evs1. demotes ev" and "evs = evs1 @ [SyncPod (getPodNameForHost (ns_Name master)) l]"
      and "\<forall>ns \<in> set (nodes_of c). ns = master \<or> st (getPodNameForHost (ns_Name ns)) = None \<or>
        (\<exists>l. SyncPod (getPodNameForHost (ns_Name ns)) l \<in> set evs1)"
proof -
  let ?M = "\<lambda>ns. getCondAsBool ns NodeConditionMaster"
  define R where "R = map ns_Name (filter (\<lambda>ns. \<not> ?M ns) (nodes_of c))"
  define M where "M = map ns_Name (filter ?M (nodes_of c))"
  obtain s1 out1 where s1: "sync_pods api R s = (s1, out1)" by (cases "sync_pods api R s")
  have R: "\<forall>h \<in> set R. h \<in> ns_Name ` set (nodes_of (cl_Cluster s)) \<and> \<not> OrcReconcile.cond_true (cl_Cluster s) h NodeConditionMaster"
    using getCondAsBool_iff [OF names] run(2) by (auto simp: R_def)
  have "\<exists>evs1. cl_Log s1 = cl_Log s @ evs1 \<and> (\<forall>ev \<in> set evs1. demotes ev) \<and>
    (out1 = Continue \<longrightarrow> (\<forall>h \<in> set R. st (getPodNameForHost h) = None \<or> (\<exists>l. SyncPod (getPodNameForHost h) l \<in> set evs1)))"
    by (rule sync_pods_replicas [OF R _ s1]) (rule exists)
  then obtain evs1 where evs1: "cl_Log s1 = cl_Log s @ evs1" "\<forall>ev \<in> set evs1. demotes ev"
    "out1 = Continue \<Longrightarrow> \<forall>h \<in> set R. st (getPodNameForHost h) = None \<or> (\<exists>l. SyncPod (getPodNameForHost h) l \<in> set evs1)"
    by blast
  have all: "sync_pods api (getPodSyncers c) s = seq (s1, out1) (sync_pods api M)"
    using s1 by (simp add: getPodSyncers_def R_def [symmetric] M_def [symmetric] sync_pods_append)
  have "filter ?M (nodes_of c) = [] \<or> (\<exists>x. filter ?M (nodes_of c) = [x])"
    using names one by (intro filter_at_most_one) (auto simp: distinct_map)
  then consider (stop) "out1 \<noteq> Continue" | (none) "out1 = Continue" "M = []"
    | (some) x where "out1 = Continue" "filter ?M (nodes_of c) = [x]"
    by (auto simp: M_def)
  then show ?thesis
  proof cases
    case stop
    with all run(1) have "s' = s1" by (cases out1) auto
    with evs1 run(3) show ?thesis by (intro that(1)) auto
  next
    case none
    with all run evs1 show ?thesis by (intro that(1)) auto
  next
    case (some x)
    then have "sync_pods api [ns_Name x] s1 = (s', out)" using all run(1) by (simp add: M_def)
    with evs1(1) run(3) consider "evs = evs1" | l where "evs = evs1 @ [SyncPod (getPodNameForHost (ns_Name x)) l]"
      using sync_pods_single by fastforce
    then show ?thesis
    proof cases
      case 2
      have "ns = x \<or> ns_Name ns \<in> set R" if "ns \<in> set (nodes_of c)" for ns
        using that arg_cong [OF some(2), of set] by (auto simp: R_def)
      with evs1(3) [OF some(1)] show ?thesis by (intro that(2) [OF evs1(2) 2]) blast
    qed (use evs1(2) in \<open>rule that(1)\<close>)
  qed
qed


text \<open>A failover from the first pod to the second, seen by the label syncers.\<close>

definition ref_role :: "string \<Rightarrow> condition_status \<Rightarrow> node_status" where
  "ref_role host st = \<lparr>ns_Name = host, ns_Conditions =
     [\<lparr>nc_Type = NodeConditionMaster, nc_Status = st, nc_LastTransitionTime = 1\<rparr>]\<rparr>"

definition ref_failed_over :: mysql_cluster where
  "ref_failed_over = ref_cluster\<lparr>mc_Status := (mc_Status ref_cluster)\<lparr>st_Nodes :=
     [ref_role ''db-1'' ConditionTrue, ref_role ''db-0'' ConditionFalse]\<rparr>\<rparr>"

definition ref_labels :: label_store where
  "ref_labels = [''db-0'' \<mapsto> [''role'' \<mapsto> ''master''], ''db-1'' \<mapsto> [''role'' \<mapsto> ''replica'']]"

definition ref_label_api :: cluster_api where
  "ref_label_api = ref_cluster_api\<lparr>ca_GetPod := \<lambda>l n. Inr (ref_labels n)\<rparr>"

lemma ref_failed_over_syncers: "getPodSyncers ref_failed_over = [''db-0'', ''db-1'']"
  by (simp add: getPodSyncers_def getCondAsBool_def ref_failed_over_def ref_role_def GetNodeConditionIndex_def)

lemma ref_failed_over_sel:
  "nodes_of ref_failed_over = [ref_role ''db-1'' ConditionTrue, ref_role ''db-0'' ConditionFalse]"
  by (simp add: ref_failed_over_def)

lemma ref_failed_over_conditions:
  "GetNodeCondition ref_failed_over ''db-0'' ty =
     (ref_failed_over, if ty = NodeConditionMaster then Some (hd (ns_Conditions (ref_role ''db-0'' ConditionFalse))) else None)"
  "GetNodeCondition ref_failed_over ''db-1'' ty =
     (ref_failed_over, if ty = NodeConditionMaster then Some (hd (ns_Conditions (ref_role ''db-1'' ConditionTrue))) else None)"
  by (simp_all add: GetNodeCondition_def GetNodeConditionIndex_def GetNodeStatusIndex.simps [of ref_failed_over]
      ref_failed_over_sel ref_role_def)

lemma ref_relabel:
  "\<exists>s' a b. sync_pods ref_label_api (getPodSyncers ref_failed_over) \<lparr>cl_Cluster = ref_failed_over, cl_Log = []\<rparr> = (s', Continue) \<and>
     cl_Log s' = [SyncPod ''db-0'' a, SyncPod ''db-1'' b] \<and> is_master_label b"
  by (simp add: ref_failed_over_syncers sync_pod_def getPodNameForHost_def podSyncFn_def ref_failed_over_conditions
      ref_label_api_def ref_cluster_api_def ref_labels_def ref_role_def emit_def is_master_label_def labelMaster_def)



text \<open>A cluster whose spec skips a line of MySQL.\<close>

definition ref_skipping :: mysql_cluster where
  "ref_skipping = (ref_at (ver 5 7 35) (ver 8 4 8))\<lparr>mc_Annotations := [AnnotationVersion \<mapsto> itoa 300]\<rparr>"

lemma ref_skipping_ok:
  "settled ref_skipping" "cs_MysqlVersion (mc_Spec ref_skipping) \<noteq> []"
  "\<exists>why. EnsureChecked ref_env ref_skipping = Some (UpgradeBlockedError why)"
proof -
  let ?c = "ref_at (ver 5 7 35) (ver 8 4 8)"
  have "mc_Annotations ref_skipping AnnotationVersion = Some (itoa 300)" by (simp add: ref_skipping_def)
  then have "\<not> ShouldUpdate ref_skipping" by (rule not_ShouldUpdate_marked)
  then show "settled ref_skipping"
    by (simp add: settled_def UpdateSpec_def failoverInProgress_def GetClusterCondition_find)
      (simp add: ref_skipping_def ref_at_def ref_defs)
  show "cs_MysqlVersion (mc_Spec ref_skipping) \<noteq> []" by (simp add: ref_skipping_def ref_at_def dotted_def)
  obtain why where "EnsureChecked ref_env ?c = Some (UpgradeBlockedError why)" by (rule ref_path_blocked)
  then have "EnsureChecked ref_env ref_skipping = Some (UpgradeBlockedError why)"
    by (rule blocked_cong [rotated]) (simp_all add: ref_skipping_def)
  then show "\<exists>why. EnsureChecked ref_env ref_skipping = Some (UpgradeBlockedError why)" by blast
qed


end
