(* ===== verification/SqlClient.thy ===== *)
theory SqlClient
  imports Cluster
begin

text \<open>
  Package \<^verbatim>\<open>pkg/internal/mysql\<close>: the queries the operator sends to the master of a cluster to create
  and to drop users and databases, and the connection they are sent over. The driver, the server and
  the API server are parameters (\<open>'o sql_api\<close>, shared by the user and the database controller, whose
  resource is \<open>'o\<close>); an answer may depend on the effects before it. A panic of the code is the value
  \<open>Panic\<close>. The iteration over the resource limits, a Go map, has no fixed order: the model takes the
  limits as a list in the order of the iteration.
\<close>

section \<open>Queries\<close>

datatype sql_arg = StrArg string | IntArg int

record query =
  q_escapedQuery :: string
  q_args :: "sql_arg list"

definition NewQuery :: "string \<Rightarrow> sql_arg list \<Rightarrow> query option" where
  "NewQuery q args =
     (if q = [] then None
      else Some \<lparr>q_escapedQuery = (if \<not> has_suffix q '';'' then q @ '';'' else q), q_args = args\<rparr>)"

fun concat_queries :: "query list \<Rightarrow> string \<Rightarrow> sql_arg list \<Rightarrow> string \<times> sql_arg list" where
  "concat_queries [] q args = (q, args)"
| "concat_queries (pq # qs) q args =
     concat_queries qs ((if q \<noteq> [] \<and> \<not> has_suffix q NL then q @ NL else q) @ q_escapedQuery pq) (args @ q_args pq)"

definition ConcatenateQueries :: "query list \<Rightarrow> query option" where
  "ConcatenateQueries queries = (case concat_queries queries [] [] of (q, args) \<Rightarrow> NewQuery q args)"

definition BuildAtomicQuery :: "query list \<Rightarrow> query option" where
  "BuildAtomicQuery queries =
     (case (NewQuery ''BEGIN'' [], NewQuery ''COMMIT'' []) of
        (Some b, Some c) \<Rightarrow> ConcatenateQueries ([b] @ queries @ [c])
      | _ \<Rightarrow> None)"

section \<open>Escaping\<close>

definition escape_char :: "char \<Rightarrow> char option" where
  "escape_char ch =
     (if ch = CHR 0x00 then Some (CHR ''0'')
      else if ch = CHR 0x0A then Some (CHR ''n'')
      else if ch = CHR 0x0D then Some (CHR ''r'')
      else if ch = CHR 0x5C then Some (CHR 0x5C)
      else if ch = CHR 0x27 then Some (CHR 0x27)
      else if ch = CHR 0x22 then Some (CHR 0x22)
      else if ch = CHR 0x1A then Some (CHR ''Z'')
      else None)"

fun Escape :: "string \<Rightarrow> string" where
  "Escape [] = []"
| "Escape (ch # sql) =
     (case escape_char ch of
        Some escape \<Rightarrow> CHR 0x5C # escape # Escape sql
      | None \<Rightarrow> ch # Escape sql)"

definition BACKTICK :: char where
  "BACKTICK = CHR 0x60"

definition escapeID :: "string \<Rightarrow> string" where
  "escapeID name = (if name = ''*'' then name else [BACKTICK] @ filter (\<lambda>ch. ch \<noteq> BACKTICK) name @ [BACKTICK])"

section \<open>The queries of users and databases\<close>

record mysql_permission =
  mp_Schema :: string
  mp_Tables :: "string list"
  mp_Permissions :: "string list"

fun user_ids :: "nat \<Rightarrow> string \<Rightarrow> string option \<Rightarrow> string list \<Rightarrow> string \<times> sql_arg list" where
  "user_ids i user pwd [] = ([], [])"
| "user_ids i user pwd (host # hosts') =
     (case user_ids (i + 1) user pwd hosts' of
        (ids, args) \<Rightarrow>
          ((if i > 0 then '','' else []) @
           (case pwd of Some p \<Rightarrow> '' ?@? IDENTIFIED BY ?'' | None \<Rightarrow> '' ?@?'') @ ids,
           [StrArg user, StrArg host] @ (case pwd of Some p \<Rightarrow> [StrArg p] | None \<Rightarrow> []) @ args))"

definition getUsersIdentification :: "string \<Rightarrow> string option \<Rightarrow> string list \<Rightarrow> string \<times> sql_arg list" where
  "getUsersIdentification user pwd allowedHosts = user_ids 0 user pwd allowedHosts"

definition getCreateUserQuery :: "string \<Rightarrow> string \<Rightarrow> string list \<Rightarrow> query option" where
  "getCreateUserQuery user pwd allowedHosts =
     (case getUsersIdentification user (Some pwd) allowedHosts of
        (idsTmpl, idsArgs) \<Rightarrow> NewQuery (''CREATE USER IF NOT EXISTS'' @ idsTmpl) idsArgs)"

text \<open>\<open>as_int64\<close> is \<^verbatim>\<open>Quantity.AsInt64\<close>, whose second result the code ignores.\<close>

fun limit_clauses :: "(quantity \<Rightarrow> int) \<Rightarrow> (string \<times> quantity) list \<Rightarrow> string \<times> sql_arg list" where
  "limit_clauses as_int64 [] = ([], [])"
| "limit_clauses as_int64 ((key, valQ) # opts) =
     (case limit_clauses as_int64 opts of
        (q, args) \<Rightarrow> ('' '' @ Escape key @ '' ?'' @ q, IntArg (as_int64 valQ) # args))"

definition getAlterUserQuery ::
    "(quantity \<Rightarrow> int) \<Rightarrow> string \<Rightarrow> string \<Rightarrow> string list \<Rightarrow> (string \<times> quantity) list \<Rightarrow> query option" where
  "getAlterUserQuery as_int64 user pwd allowedHosts resourceOptions =
     (case (getUsersIdentification user (Some pwd) allowedHosts, limit_clauses as_int64 resourceOptions) of
        ((ids, idsArgs), (q, args)) \<Rightarrow>
          NewQuery (''ALTER USER'' @ ids @ (if resourceOptions \<noteq> [] then '' WITH'' @ q else []))
            (idsArgs @ (if resourceOptions \<noteq> [] then args else [])))"

definition grant_query :: "string \<Rightarrow> string list \<Rightarrow> mysql_permission \<Rightarrow> string \<Rightarrow> query option" where
  "grant_query user allowedHosts perm table =
     (case getUsersIdentification user None allowedHosts of
        (idsTmpl, idsArgs) \<Rightarrow>
          NewQuery (''GRANT '' @ join '', '' (map Escape (mp_Permissions perm)) @ '' ON '' @
            escapeID (mp_Schema perm) @ ''.'' @ escapeID table @ '' TO'' @ idsTmpl) idsArgs)"

fun all_queries :: "query option list \<Rightarrow> query list option" where
  "all_queries [] = Some []"
| "all_queries (q # qs) = (case (q, all_queries qs) of (Some q', Some qs') \<Rightarrow> Some (q' # qs') | _ \<Rightarrow> None)"

definition permissionsToQuery :: "mysql_permission list \<Rightarrow> string \<Rightarrow> string list \<Rightarrow> query option" where
  "permissionsToQuery permissions user allowedHosts =
     Option.bind (all_queries
       (concat (map (\<lambda>perm. map (grant_query user allowedHosts perm) (mp_Tables perm)) permissions)))
       ConcatenateQueries"

section \<open>Connections\<close>

text \<open>
  An error of the API server or of the driver: whether it is a not-found error, and the kind of the
  object when it is a \<^verbatim>\<open>*StatusError\<close>.
\<close>

record conn_error =
  ce_NotFound :: bool
  ce_StatusKind :: "string option"
  ce_Message :: string

datatype 'o db_event =
    ExecSql query
  | UpdateObject 'o
  | UpdateObjectStatus 'o

record object_key =
  ok_Name :: string
  ok_Namespace :: string

record 'o sql_api =
  sa_Get :: "(string, 'o option) result"
  sa_Update :: "'o db_event list \<Rightarrow> 'o \<Rightarrow> (string, 'o) result"
  sa_UpdateStatus :: "'o db_event list \<Rightarrow> 'o \<Rightarrow> (string, 'o) result"
  sa_GetCluster :: "object_key \<Rightarrow> (conn_error, mysql_cluster) result"
  sa_GetSecret :: "object_key \<Rightarrow> (conn_error, str_map) result"
  sa_Open :: "string \<Rightarrow> conn_error option"
  sa_Exec :: "'o db_event list \<Rightarrow> query \<Rightarrow> string option"

record sql_config =
  sc_User :: string
  sc_Password :: string
  sc_Host :: string
  sc_Port :: int

definition NewConfigFromClusterKey :: "'o sql_api \<Rightarrow> object_key \<Rightarrow> (conn_error, sql_config) result" where
  "NewConfigFromClusterKey api clusterKey =
     (case sa_GetCluster api clusterKey of
        Inl err \<Rightarrow> Inl err
      | Inr cluster \<Rightarrow>
          (case sa_GetSecret api \<lparr>ok_Name = cs_SecretName (mc_Spec cluster), ok_Namespace = mc_Namespace cluster\<rparr> of
             Inl err \<Rightarrow> Inl err
           | Inr secret \<Rightarrow>
               Inr \<lparr>sc_User = ''root'',
                    sc_Password = (case secret ''ROOT_PASSWORD'' of Some p \<Rightarrow> p | None \<Rightarrow> []),
                    sc_Host = mc_Name cluster @ ''-mysql-master.'' @ mc_Namespace cluster,
                    sc_Port = 3306\<rparr>))"

definition GetMysqlDSN :: "sql_config \<Rightarrow> string" where
  "GetMysqlDSN c =
     sc_User c @ '':'' @ sc_Password c @ ''@tcp('' @ sc_Host c @ '':'' @ itoa (sc_Port c) @
     '')/?timeout=5s&multiStatements=true&interpolateParams=true''"

text \<open>The factory on the result of \<^verbatim>\<open>NewConfigFromClusterKey\<close>: an error, or a connection.\<close>

definition NewSQLRunner :: "'o sql_api \<Rightarrow> (conn_error, sql_config) result \<Rightarrow> conn_error option" where
  "NewSQLRunner api cfg =
     (case cfg of
        Inl err \<Rightarrow> Some err
      | Inr c \<Rightarrow> sa_Open api (GetMysqlDSN c))"

datatype go_result = Ok | Error string | Panic

type_synonym 'o db_log = "'o db_event list"

definition exec_query :: "'o sql_api \<Rightarrow> query option \<Rightarrow> string \<Rightarrow> 'o db_log \<Rightarrow> 'o db_log \<times> go_result" where
  "exec_query api q msg l =
     (case q of
        None \<Rightarrow> (l, Panic)
      | Some query \<Rightarrow>
          (l @ [ExecSql query],
           case sa_Exec api l query of Some err \<Rightarrow> Error (msg @ err) | None \<Rightarrow> Ok))"

definition CreateUserIfNotExists ::
    "(quantity \<Rightarrow> int) \<Rightarrow> 'o sql_api \<Rightarrow> string \<Rightarrow> string \<Rightarrow> string list \<Rightarrow> mysql_permission list \<Rightarrow>
     (string \<times> quantity) list \<Rightarrow> 'o db_log \<Rightarrow> 'o db_log \<times> go_result" where
  "CreateUserIfNotExists as_int64 api user pass allowedHosts permissions resourceOptions l =
     (if allowedHosts = [] then (l, Error ''no allowedHosts specified'')
      else exec_query api
        (Option.bind (all_queries
           ([getCreateUserQuery user pass allowedHosts,
             getAlterUserQuery as_int64 user pass allowedHosts resourceOptions] @
            (if permissions \<noteq> [] then [permissionsToQuery permissions user allowedHosts] else [])))
           BuildAtomicQuery)
        ''failed to configure user (user/pass/access), err: '' l)"

definition DropUser :: "'o sql_api \<Rightarrow> string \<Rightarrow> string \<Rightarrow> 'o db_log \<Rightarrow> 'o db_log \<times> go_result" where
  "DropUser api user host l =
     exec_query api (NewQuery ''DROP USER IF EXISTS ?@?;'' [StrArg user, StrArg host]) ''failed to delete user, err: '' l"

definition CreateDatabaseIfNotExists ::
    "'o sql_api \<Rightarrow> string \<Rightarrow> string \<Rightarrow> string \<Rightarrow> 'o db_log \<Rightarrow> 'o db_log \<times> go_result" where
  "CreateDatabaseIfNotExists api database charset collate l =
     exec_query api
       (NewQuery
         (''CREATE DATABASE IF NOT EXISTS '' @ [BACKTICK] @ Escape database @ [BACKTICK] @
          (if charset \<noteq> [] then '' CHARACTER SET ?'' else []) @ (if collate \<noteq> [] then '' COLLATE ?'' else []))
         ((if charset \<noteq> [] then [StrArg charset] else []) @ (if collate \<noteq> [] then [StrArg collate] else [])))
       ''failed to create database, err: '' l"

definition DropDatabase :: "'o sql_api \<Rightarrow> string \<Rightarrow> 'o db_log \<Rightarrow> 'o db_log \<times> go_result" where
  "DropDatabase api database l =
     exec_query api (NewQuery (''DROP DATABASE IF EXISTS '' @ escapeID database) []) ''failed to remove database, err: '' l"

section \<open>Texts of queries\<close>

lemma has_suffix_last [simp]: "has_suffix s [ch] \<longleftrightarrow> s \<noteq> [] \<and> last s = ch"
  by (cases s rule: rev_cases) (auto simp: has_suffix_def)

lemma join_last: "xs \<noteq> [] \<Longrightarrow> last xs \<noteq> [] \<Longrightarrow> join sep xs \<noteq> [] \<and> last (join sep xs) = last (last xs)"
  by (induction sep xs rule: join.induct) auto

text \<open>A query as \<^verbatim>\<open>NewQuery\<close> makes it: it ends with a semicolon.\<close>

definition complete :: "query \<Rightarrow> bool" where
  "complete q \<longleftrightarrow> has_suffix (q_escapedQuery q) '';''"

lemma NewQuery_complete: "NewQuery q args = Some query \<Longrightarrow> complete query"
  by (auto simp: NewQuery_def complete_def split: if_splits)

lemma complete_nonempty: "complete q \<Longrightarrow> q_escapedQuery q \<noteq> []"
  by (auto simp: complete_def)

lemma NewQuery_Some: "q \<noteq> [] \<Longrightarrow> \<exists>query. NewQuery q args = Some query \<and> q_args query = args"
  by (simp add: NewQuery_def)

lemma complete_no_newline: "complete q \<Longrightarrow> \<not> has_suffix (r @ q_escapedQuery q) NL"
  by (auto simp: complete_def NL_def)

lemma concat_queries_args: "snd (concat_queries qs q args) = args @ concat (map q_args qs)"
  by (induction qs q args rule: concat_queries.induct) simp_all

lemma concat_queries_text:
  assumes "\<forall>x \<in> set qs. complete x" and "q \<noteq> [] \<Longrightarrow> \<not> has_suffix q NL"
  shows "fst (concat_queries qs q args) = (if q \<noteq> [] \<and> qs \<noteq> [] then q @ NL else q) @ join NL (map q_escapedQuery qs)"
  using assms
proof (induction qs q args rule: concat_queries.induct)
  case (2 pq qs q args)
  have "complete pq" using "2.prems" by simp
  then show ?case using "2.IH" "2.prems" complete_nonempty [of pq] complete_no_newline [of pq]
    by (cases qs) (auto simp: NL_def)
qed simp

text \<open>Complete queries are joined by line ends, and so are their arguments.\<close>

lemma ConcatenateQueries_eq:
  assumes "\<forall>x \<in> set qs. complete x" and "qs \<noteq> []"
  shows "ConcatenateQueries qs =
    Some \<lparr>q_escapedQuery = join NL (map q_escapedQuery qs), q_args = concat (map q_args qs)\<rparr>"
proof -
  have "has_suffix (join NL (map q_escapedQuery qs)) '';''" "join NL (map q_escapedQuery qs) \<noteq> []"
    using assms join_last [of "map q_escapedQuery qs" NL] by (auto simp: complete_def last_map)
  moreover obtain q a where qa: "concat_queries qs [] [] = (q, a)" by (cases "concat_queries qs [] []")
  moreover have "q = join NL (map q_escapedQuery qs)" "a = concat (map q_args qs)"
    using concat_queries_text [of qs "[]" "[]"] concat_queries_args [of qs "[]" "[]"] assms qa by simp_all
  ultimately show ?thesis by (simp add: ConcatenateQueries_def NewQuery_def)
qed

lemma ConcatenateQueries_Nil [simp]: "ConcatenateQueries [] = None"
  by (simp add: ConcatenateQueries_def NewQuery_def)

lemma all_queries_Some: "all_queries qs = Some qs' \<longleftrightarrow> qs = map Some qs'"
proof (induction qs arbitrary: qs')
  case (Cons q qs)
  then show ?case by (cases qs'; cases q; cases "all_queries qs") (auto; metis option.distinct(1))+
qed auto

lemma all_queries_map: "(\<And>x. x \<in> set xs \<Longrightarrow> f x = Some (g x)) \<Longrightarrow> all_queries (map f xs) = Some (map g xs)"
  by (induction xs) auto

section \<open>Placeholders\<close>

text \<open>Every placeholder of a query has an argument.\<close>

definition marks :: "string \<Rightarrow> nat" where
  "marks s = length (filter (\<lambda>ch. ch = CHR ''?'') s)"

definition balanced :: "query \<Rightarrow> bool" where
  "balanced q \<longleftrightarrow> marks (q_escapedQuery q) = length (q_args q)"

lemma marks_simps [simp]:
  "marks [] = 0" "marks (x @ y) = marks x + marks y" "marks (ch # x) = (if ch = CHR ''?'' then 1 else 0) + marks x"
  by (simp_all add: marks_def)

lemma marks_zero: "CHR ''?'' \<notin> set s \<Longrightarrow> marks s = 0"
  by (induction s) auto

lemma marks_Escape [simp]: "marks (Escape s) = marks s"
  by (induction s rule: Escape.induct) (auto simp: escape_char_def)

lemma marks_escapeID: "marks (escapeID s) = marks s"
proof -
  have "marks (filter (\<lambda>ch. ch \<noteq> BACKTICK) s) = marks s" by (induction s) (auto simp: BACKTICK_def)
  then show ?thesis by (simp add: escapeID_def BACKTICK_def)
qed

lemma marks_join: "marks (join sep xs) = sum_list (map marks xs) + (length xs - 1) * marks sep"
  by (induction sep xs rule: join.induct) auto

lemma NewQuery_balanced:
  "NewQuery q args = Some query \<Longrightarrow> marks q = length args \<Longrightarrow> balanced query"
  by (auto simp: NewQuery_def balanced_def split: if_splits)

lemma Concatenate_balanced:
  assumes "\<forall>x \<in> set qs. complete x \<and> balanced x" and "ConcatenateQueries qs = Some q"
  shows "complete q \<and> balanced q"
proof (cases "qs = []")
  case False
  have "sum_list (map marks (map q_escapedQuery qs)) = length (concat (map q_args qs))"
    using assms(1) by (induction qs) (auto simp: balanced_def)
  moreover have "complete q" using assms(2) NewQuery_complete by (auto simp: ConcatenateQueries_def split: prod.splits)
  ultimately show ?thesis
    using assms False ConcatenateQueries_eq [of qs] by (auto simp: balanced_def marks_join NL_def)
qed (use assms in simp)

lemma user_ids_marks: "marks (fst (user_ids i user pwd hs)) = length (snd (user_ids i user pwd hs))"
  by (induction i user pwd hs rule: user_ids.induct) (auto split: prod.splits option.splits)

lemma limit_clauses_marks:
  "\<forall>(k, v) \<in> set opts. CHR ''?'' \<notin> set k \<Longrightarrow> marks (fst (limit_clauses f opts)) = length (snd (limit_clauses f opts))"
  by (induction f opts rule: limit_clauses.induct) (auto simp: marks_zero split: prod.splits)

text \<open>The names in a permission have no question mark.\<close>

definition plain_permission :: "mysql_permission \<Rightarrow> bool" where
  "plain_permission p \<longleftrightarrow> (\<forall>n \<in> set (mp_Permissions p) \<union> set (mp_Tables p) \<union> {mp_Schema p}. CHR ''?'' \<notin> set n)"

lemma concat_map_member: "y \<in> set (concat (map (\<lambda>p. map (f p) (g p)) ps)) \<Longrightarrow> \<exists>p \<in> set ps. \<exists>t \<in> set (g p). f p t = y"
  by auto

lemma grant_query_balanced:
  assumes "plain_permission perm" and "table \<in> set (mp_Tables perm)" and "grant_query user hs perm table = Some q"
  shows "complete q \<and> balanced q"
proof -
  obtain ids args where ids: "user_ids 0 user None hs = (ids, args)" by (cases "user_ids 0 user None hs")
  have "sum_list (map marks (map Escape (mp_Permissions perm))) = 0"
    using assms(1) by (auto simp: plain_permission_def marks_zero)
  then have "marks (join '', '' (map Escape (mp_Permissions perm))) = 0" by (simp add: marks_join)
  moreover have "marks (escapeID (mp_Schema perm)) = 0" "marks (escapeID table) = 0"
    using assms(1,2) by (auto simp: plain_permission_def marks_escapeID marks_zero)
  ultimately show ?thesis
    using assms(3) ids user_ids_marks [of 0 user None hs] NewQuery_balanced NewQuery_complete
    by (fastforce simp: grant_query_def getUsersIdentification_def)
qed

lemma permissions_balanced:
  assumes "\<forall>p \<in> set perms. plain_permission p" and "permissionsToQuery perms user hs = Some q"
  shows "complete q \<and> balanced q"
proof -
  obtain qs where qs: "all_queries (concat (map (\<lambda>perm. map (grant_query user hs perm) (mp_Tables perm)) perms)) = Some qs"
    "ConcatenateQueries qs = Some q"
    using assms(2) by (auto simp: permissionsToQuery_def bind_eq_Some_conv)
  have "complete x \<and> balanced x" if "x \<in> set qs" for x
  proof -
    have "Some x \<in> set (concat (map (\<lambda>perm. map (grant_query user hs perm) (mp_Tables perm)) perms))"
      using that qs(1) by (simp add: all_queries_Some)
    from concat_map_member [OF this] obtain perm table where
      "perm \<in> set perms" "table \<in> set (mp_Tables perm)" "grant_query user hs perm table = Some x"
      by blast
    then show ?thesis using assms(1) by (intro grant_query_balanced) auto
  qed
  then show ?thesis using qs(2) Concatenate_balanced by blast
qed

lemma user_queries_balanced:
  assumes "getCreateUserQuery user pwd hs = Some q \<or> getAlterUserQuery f user pwd hs opts = Some q"
    and "\<forall>(k, v) \<in> set opts. CHR ''?'' \<notin> set k"
  shows "complete q \<and> balanced q"
proof -
  obtain ids args where ids: "user_ids 0 user (Some pwd) hs = (ids, args)" by (cases "user_ids 0 user (Some pwd) hs")
  obtain q' args' where lim: "limit_clauses f opts = (q', args')" by (cases "limit_clauses f opts")
  have "marks ids = length args" using user_ids_marks [of 0 user "Some pwd" hs] ids by simp
  moreover have "marks q' = length args'" using limit_clauses_marks [OF assms(2), of f] lim by simp
  ultimately show ?thesis
    using assms(1) ids lim NewQuery_balanced NewQuery_complete
    by (fastforce simp: getCreateUserQuery_def getAlterUserQuery_def getUsersIdentification_def split: if_splits)
qed

section \<open>Identifiers\<close>

text \<open>
  How the server reads an identifier after its opening backtick: up to the next backtick that is not
  doubled. The result is the identifier and the rest of the text.
\<close>

fun lex_ident :: "string \<Rightarrow> (string \<times> string) option" where
  "lex_ident [] = None"
| "lex_ident [ch] = (if ch = BACKTICK then Some ([], []) else None)"
| "lex_ident (ch # d # cs) =
     (if ch = BACKTICK
      then (if d = BACKTICK then map_option (\<lambda>(i, r). (BACKTICK # i, r)) (lex_ident cs) else Some ([], d # cs))
      else map_option (\<lambda>(i, r). (ch # i, r)) (lex_ident (d # cs)))"

text \<open>The identifier that follows a keyword phrase in a statement.\<close>

definition ident_after :: "string \<Rightarrow> string \<Rightarrow> (string \<times> string) option" where
  "ident_after phrase text =
     (if has_prefix text (phrase @ [BACKTICK]) then lex_ident (drop (length phrase + 1) text) else None)"

lemma lex_ident_plain:
  assumes "BACKTICK \<notin> set name" and "rest \<noteq> []" and "hd rest \<noteq> BACKTICK"
  shows "lex_ident (name @ BACKTICK # rest) = Some (name, rest)"
  using assms
proof (induction name)
  case Nil
  then show ?case by (cases rest) auto
next
  case (Cons ch name)
  then show ?case by (cases name) auto
qed

lemma ident_after_plain:
  assumes "BACKTICK \<notin> set name" and "rest \<noteq> []" and "hd rest \<noteq> BACKTICK"
  shows "ident_after phrase (phrase @ [BACKTICK] @ name @ BACKTICK # rest) = Some (name, rest)"
  using lex_ident_plain [OF assms] by (simp add: ident_after_def has_prefix_def)

lemma Escape_append: "Escape (x @ y) = Escape x @ Escape y"
  by (induction x rule: Escape.induct) (auto split: option.split)

lemma escape_char_backtick [simp]: "escape_char BACKTICK = None"
  by (simp add: escape_char_def BACKTICK_def)

lemma Escape_no_backtick: "BACKTICK \<notin> set s \<Longrightarrow> BACKTICK \<notin> set (Escape s)"
  by (induction s rule: Escape.induct) (auto simp: escape_char_def BACKTICK_def split: option.split if_splits)

lemma Escape_length: "length s \<le> length (Escape s)"
  by (induction s rule: Escape.induct) (auto split: option.split)

lemma Escape_id_iff: "Escape s = s \<longleftrightarrow> (\<forall>ch \<in> set s. escape_char ch = None)"
proof (induction s)
  case (Cons ch s)
  have "Escape (ch # s) \<noteq> ch # s" if "escape_char ch = Some x" for x
    using that Escape_length [of s] by (auto dest!: arg_cong [where f = length])
  with Cons show ?case by (cases "escape_char ch") auto
qed simp

section \<open>The transaction of a user\<close>

definition grants :: "string \<Rightarrow> string list \<Rightarrow> mysql_permission list \<Rightarrow> query list" where
  "grants user hs perms = concat (map (\<lambda>perm. map (\<lambda>table. the (grant_query user hs perm table)) (mp_Tables perm)) perms)"

definition user_statements ::
    "(quantity \<Rightarrow> int) \<Rightarrow> string \<Rightarrow> string \<Rightarrow> string list \<Rightarrow> mysql_permission list \<Rightarrow> (string \<times> quantity) list \<Rightarrow> query list" where
  "user_statements as_int64 user pass hs perms opts =
     [the (getCreateUserQuery user pass hs), the (getAlterUserQuery as_int64 user pass hs opts)] @
     grants user hs perms"

lemma statements_exist:
  "\<exists>q. getCreateUserQuery user pwd hs = Some q \<and> complete q" "\<exists>q. getAlterUserQuery f user pwd hs opts = Some q \<and> complete q"
  "\<exists>q. grant_query user hs perm table = Some q \<and> complete q"
  by (auto simp: getCreateUserQuery_def getAlterUserQuery_def grant_query_def NewQuery_def complete_def split: prod.split)

lemma all_queries_grants:
  "all_queries (concat (map (\<lambda>perm. map (grant_query user hs perm) (mp_Tables perm)) perms)) = Some (grants user hs perms)"
proof -
  have "map (grant_query user hs perm) ts = map Some (map (\<lambda>table. the (grant_query user hs perm table)) ts)" for perm ts
  proof (induction ts)
    case (Cons table ts)
    with statements_exist(3) [of user hs perm table] show ?case by auto
  qed simp
  then have "concat (map (\<lambda>perm. map (grant_query user hs perm) (mp_Tables perm)) perms) = map Some (grants user hs perms)"
    unfolding grants_def map_concat by (intro arg_cong [where f = concat]) simp
  then show ?thesis unfolding all_queries_Some .
qed

lemma grants_complete: "\<forall>x \<in> set (grants user hs perms). complete x"
proof
  fix x
  assume "x \<in> set (grants user hs perms)"
  then obtain perm table where "x = the (grant_query user hs perm table)" by (auto simp: grants_def)
  then show "complete x" using statements_exist(3) [of user hs perm table] by auto
qed

lemma permissionsToQuery_eq:
  "permissionsToQuery perms user hs =
     (if grants user hs perms = [] then None
      else Some \<lparr>q_escapedQuery = join NL (map q_escapedQuery (grants user hs perms)),
                 q_args = concat (map q_args (grants user hs perms))\<rparr>)"
  using ConcatenateQueries_eq [OF grants_complete, of user hs perms]
  by (auto simp: permissionsToQuery_def all_queries_grants)

lemma join_append: "xs \<noteq> [] \<Longrightarrow> ys \<noteq> [] \<Longrightarrow> join sep (xs @ ys) = join sep xs @ sep @ join sep ys"
proof (induction sep xs rule: join.induct)
  case (2 sep x)
  then show ?case by (cases ys) auto
qed auto

section \<open>Properties\<close>

text \<open>
  Every placeholder of the query that creates a user has its argument, as long as no
  name of a permission and no resource limit contains a question mark.
\<close>

theorem create_user_placeholders:
  assumes "\<forall>p \<in> set perms. plain_permission p" and "\<forall>(k, v) \<in> set opts. CHR ''?'' \<notin> set k"
    and "CreateUserIfNotExists f api user pass hs perms opts l = (l @ [ExecSql q], r)"
  shows "marks (q_escapedQuery q) = length (q_args q)"
proof -
  have "hs \<noteq> []" using assms(3) by (auto simp: CreateUserIfNotExists_def)
  then obtain qs where qs: "all_queries ([getCreateUserQuery user pass hs, getAlterUserQuery f user pass hs opts] @
      (if perms \<noteq> [] then [permissionsToQuery perms user hs] else [])) = Some qs" "BuildAtomicQuery qs = Some q"
    using assms(3) by (auto simp: CreateUserIfNotExists_def exec_query_def bind_eq_Some_conv split: option.splits)
  have "complete x \<and> balanced x" if "x \<in> set qs" for x
  proof -
    have "Some x \<in> {getCreateUserQuery user pass hs, getAlterUserQuery f user pass hs opts, permissionsToQuery perms user hs}"
      using that qs(1) unfolding all_queries_Some by (auto dest!: arg_cong [where f = set] split: if_splits)
    then consider "getCreateUserQuery user pass hs = Some x \<or> getAlterUserQuery f user pass hs opts = Some x"
      | "permissionsToQuery perms user hs = Some x"
      by auto
    then show ?thesis
      by cases (use user_queries_balanced [OF _ assms(2)] permissions_balanced [OF assms(1)] in blast)+
  qed
  then have "\<forall>x \<in> set ([\<lparr>q_escapedQuery = ''BEGIN;'', q_args = []\<rparr>] @ qs @ [\<lparr>q_escapedQuery = ''COMMIT;'', q_args = []\<rparr>]). complete x \<and> balanced x"
    by (auto simp: complete_def balanced_def)
  moreover have "ConcatenateQueries ([\<lparr>q_escapedQuery = ''BEGIN;'', q_args = []\<rparr>] @ qs @ [\<lparr>q_escapedQuery = ''COMMIT;'', q_args = []\<rparr>]) = Some q"
    using qs(2) by (simp add: BuildAtomicQuery_def NewQuery_def)
  ultimately have "complete q \<and> balanced q" by (rule Concatenate_balanced)
  then show ?thesis by (simp add: balanced_def)
qed

text \<open>
  A user with at least one host is created by one query in one transaction: it creates
  the accounts, sets their password and limits, and grants the permissions table by table, in this
  order. The code panics instead exactly when there are permissions but none of them names a table.
\<close>

theorem create_user_transaction:
  assumes "hs \<noteq> []"
  shows "CreateUserIfNotExists f api user pass hs perms opts l =
    (if perms \<noteq> [] \<and> (\<forall>p \<in> set perms. mp_Tables p = []) then (l, Panic)
     else exec_query api
       (Some \<lparr>q_escapedQuery = join NL ([''BEGIN;''] @ map q_escapedQuery (user_statements f user pass hs perms opts) @ [''COMMIT;'']),
              q_args = concat (map q_args (user_statements f user pass hs perms opts))\<rparr>)
       ''failed to configure user (user/pass/access), err: '' l)"
proof -
  define gs where "gs = grants user hs perms"
  obtain c a where c: "getCreateUserQuery user pass hs = Some c" "complete c"
    and a: "getAlterUserQuery f user pass hs opts = Some a" "complete a"
    using statements_exist by blast
  have gsc: "\<forall>x \<in> set gs. complete x" unfolding gs_def by (rule grants_complete)
  have gs: "gs = [] \<longleftrightarrow> (\<forall>p \<in> set perms. mp_Tables p = [])" by (auto simp: gs_def grants_def)
  let ?g = "\<lparr>q_escapedQuery = join NL (map q_escapedQuery gs), q_args = concat (map q_args gs)\<rparr>"
  have perms: "permissionsToQuery perms user hs = (if gs = [] then None else Some ?g)"
    unfolding permissionsToQuery_eq gs_def ..
  have g: "complete ?g" if "gs \<noteq> []"
    using that gsc join_last [of "map q_escapedQuery gs" NL] by (auto simp: complete_def last_map)
  have b: "NewQuery ''BEGIN'' [] = Some \<lparr>q_escapedQuery = ''BEGIN;'', q_args = []\<rparr>"
    "NewQuery ''COMMIT'' [] = Some \<lparr>q_escapedQuery = ''COMMIT;'', q_args = []\<rparr>"
    by (simp_all add: NewQuery_def)
  have atomic: "BuildAtomicQuery qs =
      Some \<lparr>q_escapedQuery = join NL ([''BEGIN;''] @ map q_escapedQuery qs @ [''COMMIT;'']), q_args = concat (map q_args qs)\<rparr>"
    if "\<forall>x \<in> set qs. complete x" for qs
    using that by (simp add: BuildAtomicQuery_def b) (subst ConcatenateQueries_eq; auto simp: complete_def)
  have st: "user_statements f user pass hs perms opts = [c, a] @ gs" by (simp add: user_statements_def c a gs_def)
  have inner: "join NL ([''BEGIN;''] @ [q_escapedQuery c, q_escapedQuery a] @ [join NL (map q_escapedQuery gs)] @ [''COMMIT;'']) =
      join NL ([''BEGIN;''] @ map q_escapedQuery ([c, a] @ gs) @ [''COMMIT;''])" if "gs \<noteq> []"
    using that join_append [of "map q_escapedQuery gs" "[''COMMIT;'']" NL] by (cases gs) simp_all
  show ?thesis
  proof (cases "perms = [] \<or> gs \<noteq> []")
    case True
    have "CreateUserIfNotExists f api user pass hs perms opts l =
        exec_query api (BuildAtomicQuery ([c, a] @ (if perms = [] then [] else [?g]))) ''failed to configure user (user/pass/access), err: '' l"
      using True assms by (auto simp: CreateUserIfNotExists_def c a perms)
    moreover have "BuildAtomicQuery ([c, a] @ (if perms = [] then [] else [?g])) =
        Some \<lparr>q_escapedQuery = join NL ([''BEGIN;''] @ map q_escapedQuery ([c, a] @ gs) @ [''COMMIT;'']), q_args = concat (map q_args ([c, a] @ gs))\<rparr>"
    proof (cases "perms = []")
      case True
      then have "gs = []" using gs by simp
      with True show ?thesis using c(2) a(2) atomic [of "[c, a]"] by simp
    next
      case False
      with \<open>perms = [] \<or> gs \<noteq> []\<close> have "gs \<noteq> []" by simp
      with False show ?thesis using c(2) a(2) g inner atomic [of "[c, a, ?g]"] by simp
    qed
    ultimately show ?thesis using True gs st by auto
  next
    case False
    then show ?thesis using assms gs by (auto simp: CreateUserIfNotExists_def c a perms exec_query_def)
  qed
qed

text \<open>A server that runs every statement.\<close>

definition ref_sql_api :: "'o \<Rightarrow> 'o sql_api" where
  "ref_sql_api x =
     \<lparr>sa_Get = Inr (Some x), sa_Update = (\<lambda>l y. Inr y), sa_UpdateStatus = (\<lambda>l y. Inr y),
      sa_GetCluster = (\<lambda>k. Inr ref_cluster), sa_GetSecret = (\<lambda>k. Inr [''ROOT_PASSWORD'' \<mapsto> ''pw'', ''password'' \<mapsto> ''secret'']),
      sa_Open = (\<lambda>dsn. None), sa_Exec = (\<lambda>l q. None)\<rparr>"

definition ref_permission :: mysql_permission where
  "ref_permission = \<lparr>mp_Schema = ''shop'', mp_Tables = [''*''], mp_Permissions = [''SELECT'', ''INSERT'']\<rparr>"

theorem create_user_transaction_witness:
  "CreateUserIfNotExists (\<lambda>q. 10) (ref_sql_api ()) ''app'' ''pw'' [''a'', ''b''] [ref_permission] [] [] =
     ([ExecSql \<lparr>q_escapedQuery = join NL [''BEGIN;'',
         ''CREATE USER IF NOT EXISTS ?@? IDENTIFIED BY ?, ?@? IDENTIFIED BY ?;'',
         ''ALTER USER ?@? IDENTIFIED BY ?, ?@? IDENTIFIED BY ?;'',
         ''GRANT SELECT, INSERT ON `shop`.* TO ?@?, ?@?;'', ''COMMIT;''],
       q_args = map StrArg [''app'', ''a'', ''pw'', ''app'', ''b'', ''pw'', ''app'', ''a'', ''pw'', ''app'', ''b'', ''pw'',
         ''app'', ''a'', ''app'', ''b'']\<rparr>], Ok)"
proof -
  have "user_statements (\<lambda>q. 10) ''app'' ''pw'' [''a'', ''b''] [ref_permission] [] =
    [\<lparr>q_escapedQuery = ''CREATE USER IF NOT EXISTS ?@? IDENTIFIED BY ?, ?@? IDENTIFIED BY ?;'',
      q_args = map StrArg [''app'', ''a'', ''pw'', ''app'', ''b'', ''pw'']\<rparr>,
     \<lparr>q_escapedQuery = ''ALTER USER ?@? IDENTIFIED BY ?, ?@? IDENTIFIED BY ?;'',
      q_args = map StrArg [''app'', ''a'', ''pw'', ''app'', ''b'', ''pw'']\<rparr>,
     \<lparr>q_escapedQuery = ''GRANT SELECT, INSERT ON `shop`.* TO ?@?, ?@?;'', q_args = map StrArg [''app'', ''a'', ''app'', ''b'']\<rparr>]"
    by (simp add: user_statements_def grants_def getCreateUserQuery_def getAlterUserQuery_def grant_query_def NewQuery_def
        getUsersIdentification_def ref_permission_def escapeID_def BACKTICK_def escape_char_def)
  with create_user_transaction [of "[''a'', ''b'']" "\<lambda>q. 10" "ref_sql_api ()" "''app''" "''pw''" "[ref_permission]" "[]" "[]"]
  show ?thesis by (simp add: exec_query_def ref_sql_api_def ref_permission_def)
qed

text \<open>
  The name of a database is escaped for a string when the database is created and for an
  identifier when it is dropped. For a name without a backtick (and other than the asterisk), the
  server reads the escaped name in the first case and the name itself in the second, and these agree
  only when no character of the name is escaped: a database whose name has a quote, a backslash or a
  line end is created under another name, and is not the one that is dropped.
\<close>

theorem database_name_mismatch:
  assumes "BACKTICK \<notin> set database" and "database \<noteq> ''*''"
    and "CreateDatabaseIfNotExists api database [] [] l = (l @ [ExecSql create], r)"
    and "DropDatabase api database l = (l @ [ExecSql drop'], r')"
  shows "ident_after ''CREATE DATABASE IF NOT EXISTS '' (q_escapedQuery create) = Some (Escape database, '';'') \<and>
    ident_after ''DROP DATABASE IF EXISTS '' (q_escapedQuery drop') = Some (database, '';'') \<and>
    (Escape database = database \<longleftrightarrow> (\<forall>ch \<in> set database. escape_char ch = None))"
proof -
  have id: "escapeID database = [BACKTICK] @ database @ [BACKTICK]"
    using assms(1,2) by (auto simp: escapeID_def filter_id_conv)
  have t: "q_escapedQuery create = ''CREATE DATABASE IF NOT EXISTS '' @ [BACKTICK] @ Escape database @ BACKTICK # '';''"
    "q_escapedQuery drop' = ''DROP DATABASE IF EXISTS '' @ [BACKTICK] @ database @ BACKTICK # '';''"
    using assms(3,4) id by (auto simp: CreateDatabaseIfNotExists_def DropDatabase_def exec_query_def NewQuery_def BACKTICK_def)
  have semi: "'';'' \<noteq> []" "hd '';'' \<noteq> BACKTICK" by (simp_all add: BACKTICK_def)
  show ?thesis
    unfolding t ident_after_plain [OF assms(1) semi] ident_after_plain [OF Escape_no_backtick [OF assms(1)] semi]
    by (simp add: Escape_id_iff)
qed

theorem database_name_mismatch_witness:
  "\<exists>create drop'. CreateDatabaseIfNotExists (ref_sql_api ()) [CHR ''a'', CHR 0x27] [] [] [] = ([ExecSql create], Ok) \<and>
     DropDatabase (ref_sql_api ()) [CHR ''a'', CHR 0x27] [] = ([ExecSql drop'], Ok) \<and>
     ident_after ''CREATE DATABASE IF NOT EXISTS '' (q_escapedQuery create) = Some ([CHR ''a'', CHR 0x5C, CHR 0x27], '';'') \<and>
     ident_after ''DROP DATABASE IF EXISTS '' (q_escapedQuery drop') = Some ([CHR ''a'', CHR 0x27], '';'')"
proof -
  let ?n = "[CHR ''a'', CHR 0x27]"
  obtain c d where c: "CreateDatabaseIfNotExists (ref_sql_api ()) ?n [] [] [] = ([ExecSql c], Ok)"
    and d: "DropDatabase (ref_sql_api ()) ?n [] = ([ExecSql d], Ok)"
    by (simp add: CreateDatabaseIfNotExists_def DropDatabase_def exec_query_def NewQuery_def ref_sql_api_def escapeID_def)
  with database_name_mismatch [of ?n "ref_sql_api ()" "[]" c Ok d Ok] show ?thesis
    by (auto simp: BACKTICK_def escape_char_def)
qed

text \<open>
  A backtick in the name of a database ends the identifier of the statement that creates
  it: the server reads the part of the name after the backtick as the rest of the statement (the
  connection allows several statements), so whoever may create a \<^verbatim>\<open>MysqlDatabase\<close> runs statements as root.
\<close>

theorem database_name_injection:
  assumes "BACKTICK \<notin> set x" and "y \<noteq> []" and "hd y \<noteq> BACKTICK"
    and "CreateDatabaseIfNotExists api (x @ BACKTICK # y) charset collate l = (l @ [ExecSql q], r)"
  shows "\<exists>rest. ident_after ''CREATE DATABASE IF NOT EXISTS '' (q_escapedQuery q) = Some (Escape x, Escape y @ rest)"
proof -
  obtain rest where t: "q_escapedQuery q = ''CREATE DATABASE IF NOT EXISTS '' @ [BACKTICK] @ Escape x @ BACKTICK # Escape y @ rest"
    using assms(4) by (auto simp: CreateDatabaseIfNotExists_def exec_query_def NewQuery_def Escape_append split: if_splits)
  have "Escape y \<noteq> []" "hd (Escape y) \<noteq> BACKTICK"
    using assms(2,3) by (cases y; auto simp: BACKTICK_def split: option.splits)+
  then have "Escape y @ rest \<noteq> []" "hd (Escape y @ rest) \<noteq> BACKTICK" by simp_all
  from ident_after_plain [OF Escape_no_backtick [OF assms(1)] this] show ?thesis unfolding t by blast
qed

theorem database_name_injection_witness:
  "\<exists>q rest. CreateDatabaseIfNotExists (ref_sql_api ()) ''a`; DROP USER root; -- '' [] [] [] = ([ExecSql q], Ok) \<and>
     ident_after ''CREATE DATABASE IF NOT EXISTS '' (q_escapedQuery q) = Some (''a'', ''; DROP USER root; -- '' @ rest)"
proof -
  obtain q where q: "CreateDatabaseIfNotExists (ref_sql_api ()) ''a`; DROP USER root; -- '' [] [] [] = ([ExecSql q], Ok)"
    by (simp add: CreateDatabaseIfNotExists_def exec_query_def NewQuery_def ref_sql_api_def)
  with database_name_injection [of "''a''" "''; DROP USER root; -- ''" "ref_sql_api ()" "[]" "[]" "[]" q Ok]
  show ?thesis by (auto simp: BACKTICK_def escape_char_def)
qed

theorem create_user_placeholders_witness:
  "\<exists>q. CreateUserIfNotExists (\<lambda>q. 10) (ref_sql_api ()) ''app'' ''pw'' [''a''] [ref_permission] [(''MAX_USER_CONNECTIONS'', ''10'')] [] =
     ([ExecSql q], Ok) \<and> marks (q_escapedQuery q) = length (q_args q)"
proof -
  obtain q where q: "CreateUserIfNotExists (\<lambda>q. 10) (ref_sql_api ()) ''app'' ''pw'' [''a''] [ref_permission] [(''MAX_USER_CONNECTIONS'', ''10'')] [] =
     ([ExecSql q], Ok)"
    by (simp add: CreateUserIfNotExists_def exec_query_def getCreateUserQuery_def getAlterUserQuery_def NewQuery_def
        getUsersIdentification_def permissionsToQuery_eq grants_def ref_permission_def BuildAtomicQuery_def ConcatenateQueries_def ref_sql_api_def)
  moreover have "plain_permission ref_permission" by (auto simp: plain_permission_def ref_permission_def)
  ultimately show ?thesis
    using create_user_placeholders [of "[ref_permission]" "[(''MAX_USER_CONNECTIONS'', ''10'')]" "\<lambda>q. 10" "ref_sql_api ()" "''app''" "''pw''" "[''a'']" "[]" q Ok]
    by simp
qed

end
