(* ===== verification/SqlCtl.thy ===== *)
theory SqlCtl
  imports SqlClient
begin

text \<open>
  What the controllers of users and databases share: the run of a controller that sends statements to
  a cluster and writes its resource, the conditions of the two resources (the two wrappers have the
  same code), the deletion policy, and the finalizer functions of the library \<^verbatim>\<open>controller-util\<close>, a
  parameter. The resource in memory is \<open>ds_Obj\<close>; a write replaces it by the object the API server
  returns.
\<close>

section \<open>Runs\<close>

record 'o dstate =
  ds_Obj :: 'o
  ds_Log :: "'o db_log"

type_synonym 'o drun = "'o dstate \<times> go_result"

definition bind_go :: "'o drun \<Rightarrow> ('o dstate \<Rightarrow> 'o drun) \<Rightarrow> 'o drun" where
  "bind_go r k = (case r of (s, Ok) \<Rightarrow> k s | _ \<Rightarrow> r)"

definition on_log :: "('o db_log \<Rightarrow> 'o db_log \<times> go_result) \<Rightarrow> 'o dstate \<Rightarrow> 'o drun" where
  "on_log f s = (case f (ds_Log s) of (l, r) \<Rightarrow> (s\<lparr>ds_Log := l\<rparr>, r))"

definition do_Update :: "'o sql_api \<Rightarrow> 'o dstate \<Rightarrow> 'o drun" where
  "do_Update api s =
     (let s' = s\<lparr>ds_Log := ds_Log s @ [UpdateObject (ds_Obj s)]\<rparr> in
      case sa_Update api (ds_Log s) (ds_Obj s) of
        Inl err \<Rightarrow> (s', Error err)
      | Inr x \<Rightarrow> (s'\<lparr>ds_Obj := x\<rparr>, Ok))"

definition do_UpdateStatus :: "'o sql_api \<Rightarrow> 'o dstate \<Rightarrow> 'o drun" where
  "do_UpdateStatus api s =
     (let s' = s\<lparr>ds_Log := ds_Log s @ [UpdateObjectStatus (ds_Obj s)]\<rparr> in
      case sa_UpdateStatus api (ds_Log s) (ds_Obj s) of
        Inl err \<Rightarrow> (s', Error err)
      | Inr x \<Rightarrow> (s'\<lparr>ds_Obj := x\<rparr>, Ok))"

text \<open>What a reconciliation returns: the time to requeue after, an error or a panic.\<close>

datatype rec_outcome = Done "int option" | Failed string | Panicked

definition outcome_of :: "int option \<Rightarrow> go_result \<Rightarrow> rec_outcome" where
  "outcome_of requeue r = (case r of Ok \<Rightarrow> Done requeue | Error err \<Rightarrow> Failed err | Panic \<Rightarrow> Panicked)"

section \<open>Conditions, deletion policy and finalizers\<close>

record resource_condition =
  rc_Type :: string
  rc_Status :: condition_status
  rc_LastUpdateTime :: time
  rc_LastTransitionTime :: time
  rc_Reason :: string
  rc_Message :: string

definition update_resource_conditions ::
    "time \<Rightarrow> string \<Rightarrow> condition_status \<Rightarrow> string \<Rightarrow> string \<Rightarrow> resource_condition list \<Rightarrow> resource_condition list" where
  "update_resource_conditions t condType status reason message conds =
     (case find_index (\<lambda>cond. rc_Type cond = condType) conds of
        None \<Rightarrow>
          conds @ [\<lparr>rc_Type = condType, rc_Status = status, rc_LastUpdateTime = t, rc_LastTransitionTime = t,
                    rc_Reason = reason, rc_Message = message\<rparr>]
      | Some i \<Rightarrow>
          let existing = conds ! i in
          conds[i := existing\<lparr>
            rc_LastTransitionTime := (if status \<noteq> rc_Status existing then t else rc_LastTransitionTime existing),
            rc_LastUpdateTime := (if message \<noteq> rc_Message existing \<or> reason \<noteq> rc_Reason existing then t else rc_LastUpdateTime existing),
            rc_Status := status, rc_Message := message, rc_Reason := reason\<rparr>])"

definition AnnotationResourceDeletionPolicy :: string where
  "AnnotationResourceDeletionPolicy = ''mysql-operator.presslabs.org/resourceDeletionPolicy''"

definition DeletionPolicyRetain :: "str_map \<Rightarrow> bool" where
  "DeletionPolicyRetain annotations = (annotations AnnotationResourceDeletionPolicy = Some ''retain'')"

record finalizer_lib =
  fl_Has :: "string list \<Rightarrow> string \<Rightarrow> bool"
  fl_Add :: "string list \<Rightarrow> string \<Rightarrow> string list"
  fl_Remove :: "string list \<Rightarrow> string \<Rightarrow> string list"

text \<open>What the library documents of these functions.\<close>

definition finalizer_lib_ok :: "finalizer_lib \<Rightarrow> bool" where
  "finalizer_lib_ok fl \<longleftrightarrow> (\<forall>fs f. fl_Has fl fs f = (f \<in> set fs)) \<and> (\<forall>fs f. set (fl_Add fl fs f) = insert f (set fs)) \<and>
     (\<forall>fs f. set (fl_Remove fl fs f) = set fs - {f})"

definition ref_finalizers :: finalizer_lib where
  "ref_finalizers = \<lparr>fl_Has = (\<lambda>fs f. f \<in> set fs), fl_Add = (\<lambda>fs f. fs @ [f]), fl_Remove = (\<lambda>fs f. filter (\<lambda>x. x \<noteq> f) fs)\<rparr>"

lemma ref_finalizers_ok: "finalizer_lib_ok ref_finalizers"
  by (auto simp: finalizer_lib_ok_def ref_finalizers_def)

lemma condition_after:
  "find (\<lambda>cond. rc_Type cond = ty) (update_resource_conditions t ty st reason msg conds) = Some cond \<Longrightarrow>
     rc_Status cond = st \<and> rc_Reason cond = reason \<and> rc_Message cond = msg"
  "\<exists>cond. find (\<lambda>cond. rc_Type cond = ty) (update_resource_conditions t ty st reason msg conds) = Some cond"
proof -
  let ?u = "update_resource_conditions t ty st reason msg conds"
  have "\<exists>cond. find (\<lambda>cond. rc_Type cond = ty) ?u = Some cond \<and> rc_Status cond = st \<and> rc_Reason cond = reason \<and> rc_Message cond = msg"
  proof (induction conds)
    case (Cons c cs)
    then show ?case
      by (cases "rc_Type c = ty"; cases "find_index (\<lambda>cond. rc_Type cond = ty) cs")
        (auto simp: update_resource_conditions_def Let_def)
  qed (simp add: update_resource_conditions_def)
  then show "find (\<lambda>cond. rc_Type cond = ty) ?u = Some cond \<Longrightarrow> rc_Status cond = st \<and> rc_Reason cond = reason \<and> rc_Message cond = msg"
    "\<exists>cond. find (\<lambda>cond. rc_Type cond = ty) ?u = Some cond"
    by auto
qed

text \<open>The error that tells that the cluster of a resource does not exist any more.\<close>

definition cluster_gone :: "conn_error \<Rightarrow> bool" where
  "cluster_gone err \<longleftrightarrow> ce_NotFound err \<and> (\<exists>kind. ce_StatusKind err = Some kind \<and> IsMysqlClusterKind kind)"

section \<open>Steps that only send statements\<close>

lemma bind_go_simps [simp]:
  "bind_go (s, Ok) k = k s" "bind_go (s, Error err) k = (s, Error err)" "bind_go (s, Panic) k = (s, Panic)"
  by (simp_all add: bind_go_def)

lemma bind_go_cases:
  obtains (stop) "bind_go r k = r" "snd r \<noteq> Ok" | (go) s where "r = (s, Ok)" "bind_go r k = k s"
  by (cases r; cases "snd r") (auto simp: bind_go_def)

text \<open>
  A step that sends statements to the server and leaves the resource alone; the locale states what a
  caller relies on, and what follows when a write of the resource comes after the step.
\<close>

locale sql_step =
  fixes f :: "'o dstate \<Rightarrow> 'o drun"
  assumes keeps_object: "ds_Obj (fst (f s)) = ds_Obj s"
    and only_sql: "\<exists>qs. ds_Log (fst (f s)) = ds_Log s @ map ExecSql qs"
begin

lemma compose:
  assumes "sql_step g"
  shows "sql_step (\<lambda>s. bind_go (f s) g)"
proof
  fix s
  show "ds_Obj (fst (bind_go (f s) g)) = ds_Obj s"
    by (cases rule: bind_go_cases [of "f s" g]) (use keeps_object [of s] sql_step.keeps_object [OF assms] in auto)
  show "\<exists>qs. ds_Log (fst (bind_go (f s) g)) = ds_Log s @ map ExecSql qs"
  proof (cases rule: bind_go_cases [of "f s" g])
    case (go s')
    obtain qs where "ds_Log s' = ds_Log s @ map ExecSql qs" using only_sql [of s] go by auto
    moreover obtain qs' where "ds_Log (fst (g s')) = ds_Log s' @ map ExecSql qs'" using sql_step.only_sql [OF assms] by blast
    ultimately show ?thesis using go(2) by (intro exI [of _ "qs @ qs'"]) simp
  qed (use only_sql in auto)
qed

text \<open>A write that follows the step happens only when the step succeeded, and is the last effect.\<close>

lemma write_after:
  assumes "UpdateObject x \<in> set (ds_Log (fst (bind_go (f s) (\<lambda>s. do_Update api (s\<lparr>ds_Obj := upd (ds_Obj s)\<rparr>)))))"
    and "\<forall>ev \<in> set (ds_Log s). \<nexists>y. ev = UpdateObject y"
  shows "snd (f s) = Ok \<and> x = upd (ds_Obj s) \<and>
    ds_Log (fst (bind_go (f s) (\<lambda>s. do_Update api (s\<lparr>ds_Obj := upd (ds_Obj s)\<rparr>)))) = ds_Log (fst (f s)) @ [UpdateObject x]"
proof -
  obtain qs where qs: "ds_Log (fst (f s)) = ds_Log s @ map ExecSql qs" using only_sql by blast
  let ?k = "\<lambda>s. do_Update api (s\<lparr>ds_Obj := upd (ds_Obj s)\<rparr>)"
  show ?thesis
  proof (cases rule: bind_go_cases [of "f s" ?k])
    case stop
    with assms qs show ?thesis by auto
  next
    case (go s')
    have "ds_Log (fst (?k s')) = ds_Log s' @ [UpdateObject (upd (ds_Obj s'))]"
      by (simp add: do_Update_def Let_def split: sum.split)
    with go assms qs keeps_object [of s] show ?thesis by auto
  qed
qed

end

lemma exec_query_log: "\<exists>qs. fst (exec_query api q msg l) = l @ map ExecSql qs"
proof (cases q)
  case (Some query)
  then show ?thesis by (intro exI [of _ "[query]"]) (simp add: exec_query_def)
qed (simp add: exec_query_def)

lemma on_log_step:
  assumes "\<And>l. \<exists>qs. fst (f l) = l @ map ExecSql qs"
  shows "sql_step (on_log f)"
  by standard (use assms in \<open>auto simp: on_log_def case_prod_beta\<close>)

interpretation create_user_step: sql_step "on_log (CreateUserIfNotExists as_int64 api user pass hs perms opts)"
  for as_int64 api user pass hs perms opts
  by (rule on_log_step) (simp add: CreateUserIfNotExists_def exec_query_log)

interpretation drop_user_step: sql_step "on_log (DropUser api user host)" for api user host
  by (rule on_log_step) (simp add: DropUser_def exec_query_log)

interpretation create_database_step: sql_step "on_log (CreateDatabaseIfNotExists api database charset collate)"
  for api database charset collate
  by (rule on_log_step) (simp add: CreateDatabaseIfNotExists_def exec_query_log)

interpretation drop_database_step: sql_step "on_log (DropDatabase api database)" for api database
  by (rule on_log_step) (simp add: DropDatabase_def exec_query_log)

end
