(* ===== verification/UserCtl.thy ===== *)
theory UserCtl
  imports SqlCtl
begin

text \<open>
  The controller of \<^verbatim>\<open>MysqlUser\<close> resources (\<^verbatim>\<open>pkg/controller/mysqluser\<close>) with its wrapper
  (\<^verbatim>\<open>pkg/internal/mysqluser\<close>). A run reads the resource, creates or drops the accounts of the user on the
  master of its cluster, and writes the finalizer and the status.
\<close>

section \<open>The resource\<close>

record mysql_user_spec =
  us_ClusterName :: string
  us_ClusterNamespace :: string
  us_User :: string
  us_PasswordName :: string
  us_PasswordKey :: string
  us_AllowedHosts :: "string list"
  us_Permissions :: "mysql_permission list"
  us_ResourceLimits :: "(string \<times> quantity) list"

record mysql_user_status =
  ust_Conditions :: "resource_condition list"
  ust_AllowedHosts :: "string list"

record mysql_user =
  mu_Name :: string
  mu_Namespace :: string
  mu_Annotations :: str_map
  mu_Finalizers :: "string list"
  mu_DeletionTimestamp :: "time option"
  mu_Spec :: mysql_user_spec
  mu_Status :: mysql_user_status

definition MySQLUserReady :: string where
  "MySQLUserReady = ''Ready''"

definition ProvisionFailedReason :: string where
  "ProvisionFailedReason = ''ProvisionFailed''"

definition ProvisionSucceededReason :: string where
  "ProvisionSucceededReason = ''ProvisionSucceeded''"

definition FinalizerUser :: string where
  "FinalizerUser = ''mysql-operator.presslabs.org/user''"

definition user_UpdateStatusCondition ::
    "time \<Rightarrow> string \<Rightarrow> condition_status \<Rightarrow> string \<Rightarrow> string \<Rightarrow> mysql_user \<Rightarrow> mysql_user" where
  "user_UpdateStatusCondition t condType status reason message u =
     u\<lparr>mu_Status := (mu_Status u)\<lparr>ust_Conditions :=
       update_resource_conditions t condType status reason message (ust_Conditions (mu_Status u))\<rparr>\<rparr>"

definition user_GetClusterKey :: "mysql_user \<Rightarrow> object_key" where
  "user_GetClusterKey u =
     \<lparr>ok_Name = us_ClusterName (mu_Spec u),
      ok_Namespace = (if us_ClusterNamespace (mu_Spec u) = [] then mu_Namespace u else us_ClusterNamespace (mu_Spec u))\<rparr>"

section \<open>The accounts\<close>

fun stringIn :: "string \<Rightarrow> string list \<Rightarrow> nat \<times> bool" where
  "stringIn str [] = (0, False)"
| "stringIn str (s # strs) =
     (if s = str then (0, True)
      else (case stringIn str strs of (i, ok) \<Rightarrow> if ok then (i + 1, True) else (0, False)))"

fun stringDiffIn :: "string list \<Rightarrow> string list \<Rightarrow> string list" where
  "stringDiffIn [] desired = []"
| "stringDiffIn (aStr # actual) desired =
     (if \<not> snd (stringIn aStr desired) then aStr # stringDiffIn actual desired else stringDiffIn actual desired)"

fun drop_users :: "mysql_user sql_api \<Rightarrow> string \<Rightarrow> string list \<Rightarrow> mysql_user dstate \<Rightarrow> mysql_user drun" where
  "drop_users api user [] s = (s, Ok)"
| "drop_users api user (host # hs) s = bind_go (on_log (DropUser api user host) s) (drop_users api user hs)"

definition reconcileUserInDB :: "(quantity \<Rightarrow> int) \<Rightarrow> mysql_user sql_api \<Rightarrow> mysql_user dstate \<Rightarrow> mysql_user drun" where
  "reconcileUserInDB as_int64 api s =
     (let user = ds_Obj s; spec = mu_Spec user in
      case NewSQLRunner api (NewConfigFromClusterKey api (user_GetClusterKey user)) of
        Some err \<Rightarrow> (s, Error (ce_Message err))
      | None \<Rightarrow>
          (case sa_GetSecret api \<lparr>ok_Name = us_PasswordName spec, ok_Namespace = mu_Namespace user\<rparr> of
             Inl err \<Rightarrow> (s, Error (ce_Message err))
           | Inr secret \<Rightarrow>
               let password = (case secret (us_PasswordKey spec) of Some p \<Rightarrow> p | None \<Rightarrow> []) in
               if password = [] then (s, Error (''the MySQL user'' @ [CHR 0x27] @ ''s password must not be empty''))
               else bind_go
                 (on_log (CreateUserIfNotExists as_int64 api (us_User spec) password (us_AllowedHosts spec)
                    (us_Permissions spec) (us_ResourceLimits spec)) s)
                 (drop_users api (us_User spec) (stringDiffIn (ust_AllowedHosts (mu_Status user)) (us_AllowedHosts spec)))))"

definition dropUserFromDB :: "mysql_user sql_api \<Rightarrow> mysql_user dstate \<Rightarrow> mysql_user drun" where
  "dropUserFromDB api s =
     (let user = ds_Obj s in
      case NewSQLRunner api (NewConfigFromClusterKey api (user_GetClusterKey user)) of
        Some err \<Rightarrow>
          if ce_NotFound err \<and> (case ce_StatusKind err of Some kind \<Rightarrow> IsMysqlClusterKind kind | None \<Rightarrow> False)
          then (s, Ok) else (s, Error (ce_Message err))
      | None \<Rightarrow> drop_users api (us_User (mu_Spec user)) (ust_AllowedHosts (mu_Status user)) s)"

section \<open>Reconciliation\<close>

definition removeUser :: "finalizer_lib \<Rightarrow> mysql_user sql_api \<Rightarrow> mysql_user dstate \<Rightarrow> mysql_user drun" where
  "removeUser fl api s =
     (let user = ds_Obj s in
      if fl_Has fl (mu_Finalizers user) FinalizerUser
      then bind_go (if \<not> DeletionPolicyRetain (mu_Annotations user) then dropUserFromDB api s else (s, Ok))
             (\<lambda>s. do_Update api (s\<lparr>ds_Obj := (ds_Obj s)\<lparr>mu_Finalizers := fl_Remove fl (mu_Finalizers (ds_Obj s)) FinalizerUser\<rparr>\<rparr>))
      else (s, Ok))"

text \<open>The deferred \<^verbatim>\<open>setFailedStatus\<close>, which runs on every return and does nothing without an error.\<close>

definition setFailedStatus :: "time \<Rightarrow> mysql_user drun \<Rightarrow> mysql_user drun" where
  "setFailedStatus now r =
     (case r of
        (s, Error err) \<Rightarrow>
          (s\<lparr>ds_Obj := user_UpdateStatusCondition now MySQLUserReady ConditionFalse ProvisionFailedReason
             (''The user provisioning has failed: '' @ err) (ds_Obj s)\<rparr>, Error err)
      | _ \<Rightarrow> r)"

definition reconcileUserInCluster ::
    "finalizer_lib \<Rightarrow> (quantity \<Rightarrow> int) \<Rightarrow> mysql_user sql_api \<Rightarrow> time \<Rightarrow> mysql_user dstate \<Rightarrow> mysql_user drun" where
  "reconcileUserInCluster fl as_int64 api now s =
     setFailedStatus now
       (bind_go (reconcileUserInDB as_int64 api s) (\<lambda>s.
        bind_go (if \<not> fl_Has fl (mu_Finalizers (ds_Obj s)) FinalizerUser
                 then do_Update api (s\<lparr>ds_Obj := (ds_Obj s)\<lparr>mu_Finalizers := fl_Add fl (mu_Finalizers (ds_Obj s)) FinalizerUser\<rparr>\<rparr>)
                 else (s, Ok)) (\<lambda>s.
        let user = ds_Obj s;
            user1 = (if ust_AllowedHosts (mu_Status user) \<noteq> us_AllowedHosts (mu_Spec user)
                     then user\<lparr>mu_Status := (mu_Status user)\<lparr>ust_AllowedHosts := us_AllowedHosts (mu_Spec user)\<rparr>\<rparr> else user)
        in (s\<lparr>ds_Obj := user_UpdateStatusCondition now MySQLUserReady ConditionTrue ProvisionSucceededReason
                ''The user provisioning has succeeded.'' user1\<rparr>, Ok))))"

definition updateStatusAndErr :: "mysql_user sql_api \<Rightarrow> mysql_user_status \<Rightarrow> go_result \<Rightarrow> mysql_user dstate \<Rightarrow> mysql_user drun" where
  "updateStatusAndErr api oldStatus prevErr s =
     (if oldStatus \<noteq> mu_Status (ds_Obj s)
      then (case do_UpdateStatus api s of
              (s', Error err) \<Rightarrow>
                (case prevErr of
                   Error prev \<Rightarrow> (s', Error (''failed to update status: '' @ err @ '', previous error was: '' @ prev))
                 | _ \<Rightarrow> (s', Error err))
            | (s', _) \<Rightarrow> (s', prevErr))
      else (s, prevErr))"

definition user_Reconcile ::
    "finalizer_lib \<Rightarrow> (quantity \<Rightarrow> int) \<Rightarrow> options \<Rightarrow> mysql_user sql_api \<Rightarrow> time \<Rightarrow> mysql_user db_log \<times> rec_outcome" where
  "user_Reconcile fl as_int64 opt api now =
     (case sa_Get api of
        Inl err \<Rightarrow> ([], Failed err)
      | Inr None \<Rightarrow> ([], Done None)
      | Inr (Some user) \<Rightarrow>
          let s = \<lparr>ds_Obj = user, ds_Log = []\<rparr>; oldStatus = mu_Status user in
          if \<not> opt_AllowCrossNamespaceUsers opt \<and> mu_Namespace user \<noteq> ok_Namespace (user_GetClusterKey user)
          then ([], Failed ''cross namespace user creation is disabled'')
          else if mu_DeletionTimestamp user \<noteq> None
          then (case removeUser fl api s of (s', r) \<Rightarrow> (ds_Log s', outcome_of None r))
          else (case sa_GetCluster api (user_GetClusterKey user) of
                  Inl err \<Rightarrow> ([], Failed (ce_Message err))
                | Inr cluster \<Rightarrow>
                    if \<not> IsClusterReady cluster
                    then (case updateStatusAndErr api oldStatus (Error ''cluster is not ready'')
                            (s\<lparr>ds_Obj := user_UpdateStatusCondition now MySQLUserReady ConditionFalse ProvisionFailedReason
                               ''cluster is not ready'' user\<rparr>) of (s', r) \<Rightarrow> (ds_Log s', Done (Some 30)))
                    else (case reconcileUserInCluster fl as_int64 api now s of
                            (s1, Panic) \<Rightarrow> (ds_Log s1, Panicked)
                          | (s1, ruErr) \<Rightarrow>
                              (case updateStatusAndErr api oldStatus ruErr s1 of
                                 (s2, r) \<Rightarrow> (ds_Log s2, outcome_of (Some 120) r)))))"

section \<open>Lemmas\<close>

lemma stringIn_iff: "snd (stringIn str strs) \<longleftrightarrow> str \<in> set strs"
  by (induction strs) (auto split: prod.split)

lemma stringDiffIn_filter: "stringDiffIn actual desired = filter (\<lambda>h. h \<notin> set desired) actual"
  by (induction actual) (simp_all add: stringIn_iff)

interpretation drop_users_step: sql_step "drop_users api user hs" for api user hs
proof (induction hs)
  case Nil
  show ?case by standard (auto intro: exI [of _ "[]"])
next
  case (Cons h hs)
  from drop_user_step.compose [OF this, of api user h] show ?case by (simp add: sql_step_def)
qed

interpretation dropUserFromDB_step: sql_step "dropUserFromDB api" for api
  by standard (auto simp: dropUserFromDB_def Let_def drop_users_step.keeps_object drop_users_step.only_sql
      split: option.split intro: exI [of _ "[]"])

interpretation reconcileUserInDB_step: sql_step "reconcileUserInDB as_int64 api" for as_int64 api
proof -
  have "sql_step (\<lambda>s. bind_go (on_log (CreateUserIfNotExists as_int64 api user pass hs perms opts) s) (drop_users api user ds))"
    for user pass hs perms opts ds
    by (rule create_user_step.compose) (rule drop_users_step.sql_step_axioms)
  then show "sql_step (reconcileUserInDB as_int64 api)"
    by (auto simp: sql_step_def reconcileUserInDB_def Let_def split: option.split sum.split intro: exI [of _ "[]"])
qed

text \<open>The statement that drops an account.\<close>

definition drop_query :: "string \<Rightarrow> string \<Rightarrow> query" where
  "drop_query user host = \<lparr>q_escapedQuery = ''DROP USER IF EXISTS ?@?;'', q_args = [StrArg user, StrArg host]\<rparr>"

definition drops :: "string \<Rightarrow> string list \<Rightarrow> mysql_user db_log" where
  "drops user hs = map (\<lambda>h. ExecSql (drop_query user h)) hs"

lemma DropUser_eq:
  "DropUser api user host l = (l @ [ExecSql (drop_query user host)],
     case sa_Exec api l (drop_query user host) of Some err \<Rightarrow> Error (''failed to delete user, err: '' @ err) | None \<Rightarrow> Ok)"
  by (simp add: DropUser_def exec_query_def NewQuery_def drop_query_def)

lemma drop_users_done:
  assumes "drop_users api user hs s = (s', Ok)"
  shows "s' = s\<lparr>ds_Log := ds_Log s @ drops user hs\<rparr>"
    and "i < length hs \<Longrightarrow> sa_Exec api (ds_Log s @ drops user (take i hs)) (drop_query user (hs ! i)) = None"
proof -
  have "s' = s\<lparr>ds_Log := ds_Log s @ drops user hs\<rparr> \<and>
    (\<forall>i < length hs. sa_Exec api (ds_Log s @ drops user (take i hs)) (drop_query user (hs ! i)) = None)"
    using assms
  proof (induction hs arbitrary: s)
    case Nil
    then show ?case by (simp add: drops_def)
  next
    case (Cons h hs)
    let ?s = "s\<lparr>ds_Log := ds_Log s @ [ExecSql (drop_query user h)]\<rparr>"
    have ok: "sa_Exec api (ds_Log s) (drop_query user h) = None" and rest: "drop_users api user hs ?s = (s', Ok)"
      using Cons.prems by (auto simp: on_log_def DropUser_eq split: option.splits)
    from Cons.IH [OF rest] ok show ?case by (auto simp: drops_def less_Suc_eq_0_disj)
  qed
  then show "s' = s\<lparr>ds_Log := ds_Log s @ drops user hs\<rparr>"
    "i < length hs \<Longrightarrow> sa_Exec api (ds_Log s @ drops user (take i hs)) (drop_query user (hs ! i)) = None"
    by blast+
qed

text \<open>The hosts whose accounts a removal drops: none when they are kept or the cluster is gone.\<close>

definition removal_hosts :: "mysql_user sql_api \<Rightarrow> mysql_user \<Rightarrow> string list option" where
  "removal_hosts api u =
     (if DeletionPolicyRetain (mu_Annotations u) then Some []
      else (case NewSQLRunner api (NewConfigFromClusterKey api (user_GetClusterKey u)) of
              Some err \<Rightarrow> if cluster_gone err then Some [] else None
            | None \<Rightarrow> Some (ust_AllowedHosts (mu_Status u))))"

lemma removal_cleanup:
  assumes "(if \<not> DeletionPolicyRetain (mu_Annotations (ds_Obj s)) then dropUserFromDB api s else (s, Ok)) = (s', Ok)"
  shows "\<exists>hs. removal_hosts api (ds_Obj s) = Some hs \<and> drop_users api (us_User (mu_Spec (ds_Obj s))) hs s = (s', Ok)"
  using assms
  by (auto simp: removal_hosts_def dropUserFromDB_def cluster_gone_def Let_def split: if_splits option.splits)

text \<open>A successful provisioning of the accounts.\<close>

lemma CreateUser_done:
  assumes "CreateUserIfNotExists f api user pass hs perms opts l = (l', Ok)"
  shows "hs \<noteq> [] \<and> (\<exists>q. l' = l @ [ExecSql q])"
  using assms by (auto simp: CreateUserIfNotExists_def exec_query_def split: if_splits option.splits)

lemma reconcileUserInDB_done:
  assumes "reconcileUserInDB f api s = (s', Ok)"
  defines "spec \<equiv> mu_Spec (ds_Obj s)"
  shows "\<exists>q pass. pass \<noteq> [] \<and>
    CreateUserIfNotExists f api (us_User spec) pass (us_AllowedHosts spec) (us_Permissions spec) (us_ResourceLimits spec) (ds_Log s) =
      (ds_Log s @ [ExecSql q], Ok) \<and>
    s' = s\<lparr>ds_Log := ds_Log s @ ExecSql q # drops (us_User spec)
      (filter (\<lambda>h. h \<notin> set (us_AllowedHosts spec)) (ust_AllowedHosts (mu_Status (ds_Obj s))))\<rparr>"
proof -
  obtain pass where pass: "pass \<noteq> []" and run: "bind_go (on_log (CreateUserIfNotExists f api (us_User spec) pass (us_AllowedHosts spec)
      (us_Permissions spec) (us_ResourceLimits spec)) s)
      (drop_users api (us_User spec) (stringDiffIn (ust_AllowedHosts (mu_Status (ds_Obj s))) (us_AllowedHosts spec))) = (s', Ok)"
    using assms(1) by (auto simp: reconcileUserInDB_def spec_def Let_def split: option.splits sum.splits if_splits)
  let ?c = "CreateUserIfNotExists f api (us_User spec) pass (us_AllowedHosts spec) (us_Permissions spec) (us_ResourceLimits spec) (ds_Log s)"
  obtain l r where c: "?c = (l, r)" by (cases ?c)
  with run have r: "r = Ok" by (cases r) (auto simp: on_log_def)
  with c CreateUser_done obtain q where q: "l = ds_Log s @ [ExecSql q]" by blast
  from run c r have "drop_users api (us_User spec)
      (stringDiffIn (ust_AllowedHosts (mu_Status (ds_Obj s))) (us_AllowedHosts spec)) (s\<lparr>ds_Log := l\<rparr>) = (s', Ok)"
    by (simp add: on_log_def)
  from drop_users_done(1) [OF this] pass c r q show ?thesis by (auto simp: stringDiffIn_filter)
qed

definition user_ready :: "mysql_user \<Rightarrow> bool" where
  "user_ready u \<longleftrightarrow> (\<exists>cond. find (\<lambda>cond. rc_Type cond = MySQLUserReady) (ust_Conditions (mu_Status u)) = Some cond \<and>
     rc_Status cond = ConditionTrue)"

definition provisioned :: "mysql_user \<Rightarrow> bool" where
  "provisioned u \<longleftrightarrow> ust_AllowedHosts (mu_Status u) = us_AllowedHosts (mu_Spec u) \<and> user_ready u"

text \<open>The writes after the statements: the finalizer, then the status.\<close>

definition provision_write :: "mysql_user_spec \<Rightarrow> mysql_user db_event \<Rightarrow> bool" where
  "provision_write spec ev =
     (case ev of
        ExecSql q \<Rightarrow> False
      | UpdateObject u \<Rightarrow> FinalizerUser \<in> set (mu_Finalizers u)
      | UpdateObjectStatus u \<Rightarrow> mu_Spec u = spec \<and> provisioned u)"

lemma add_finalizer_done:
  assumes "finalizer_lib_ok fl"
    and "(if \<not> fl_Has fl (mu_Finalizers (ds_Obj s)) FinalizerUser
          then do_Update api (s\<lparr>ds_Obj := (ds_Obj s)\<lparr>mu_Finalizers := fl_Add fl (mu_Finalizers (ds_Obj s)) FinalizerUser\<rparr>\<rparr>)
          else (s, Ok)) = (s', Ok)"
    and "\<forall>l x y. sa_Update api l x = Inr y \<longrightarrow> mu_Spec y = mu_Spec x \<and> mu_Status y = mu_Status x"
  shows "mu_Spec (ds_Obj s') = mu_Spec (ds_Obj s) \<and> mu_Status (ds_Obj s') = mu_Status (ds_Obj s) \<and>
    (\<exists>ws. ds_Log s' = ds_Log s @ ws \<and> (\<forall>ev \<in> set ws. provision_write spec ev) \<and>
      (FinalizerUser \<in> set (mu_Finalizers (ds_Obj s)) \<or> (\<exists>u. UpdateObject u \<in> set ws)))"
proof (cases "fl_Has fl (mu_Finalizers (ds_Obj s)) FinalizerUser")
  case True
  with assms(1,2) show ?thesis by (auto simp: finalizer_lib_ok_def)
next
  case False
  let ?u = "(ds_Obj s)\<lparr>mu_Finalizers := fl_Add fl (mu_Finalizers (ds_Obj s)) FinalizerUser\<rparr>"
  from False assms(2) obtain y where y: "sa_Update api (ds_Log s) ?u = Inr y"
    "s' = s\<lparr>ds_Log := ds_Log s @ [UpdateObject ?u], ds_Obj := y\<rparr>"
    by (cases "sa_Update api (ds_Log s) ?u") (auto simp: do_Update_def Let_def)
  have "FinalizerUser \<in> set (mu_Finalizers ?u)" using assms(1) by (simp add: finalizer_lib_ok_def)
  then show ?thesis using y assms(3)
    by (intro conjI exI [of _ "[UpdateObject ?u]"]) (auto simp: provision_write_def)
qed

lemma provisioned_update:
  "provisioned (user_UpdateStatusCondition now MySQLUserReady ConditionTrue reason msg
     (if ust_AllowedHosts (mu_Status u) \<noteq> us_AllowedHosts (mu_Spec u)
      then u\<lparr>mu_Status := (mu_Status u)\<lparr>ust_AllowedHosts := us_AllowedHosts (mu_Spec u)\<rparr>\<rparr> else u))"
proof -
  have "\<exists>cond. find (\<lambda>cond. rc_Type cond = ty) (update_resource_conditions t ty st reason msg cs) = Some cond \<and> rc_Status cond = st" for ty t st cs
    using condition_after(1) [of ty t st reason msg cs] condition_after(2) [of ty t st reason msg cs] by auto
  then show ?thesis by (simp add: provisioned_def user_ready_def user_UpdateStatusCondition_def)
qed

lemma failed_provision:
  assumes "reconcileUserInCluster fl as_int64 api now s = (s', Error err)"
    and "\<forall>l x y. sa_Update api l x = Inr y \<longrightarrow> mu_Status y = mu_Status x"
  shows "ust_AllowedHosts (mu_Status (ds_Obj s')) = ust_AllowedHosts (mu_Status (ds_Obj s))"
    and "UpdateObjectStatus x \<in> set (ds_Log s') \<Longrightarrow> UpdateObjectStatus x \<in> set (ds_Log s)"
proof -
  let ?db = "reconcileUserInDB as_int64 api s"
  let ?fin = "\<lambda>s. if \<not> fl_Has fl (mu_Finalizers (ds_Obj s)) FinalizerUser
     then do_Update api (s\<lparr>ds_Obj := (ds_Obj s)\<lparr>mu_Finalizers := fl_Add fl (mu_Finalizers (ds_Obj s)) FinalizerUser\<rparr>\<rparr>) else (s, Ok)"
  obtain t where t: "bind_go ?db ?fin = (t, Error err)" "ds_Log s' = ds_Log t"
    "ust_AllowedHosts (mu_Status (ds_Obj s')) = ust_AllowedHosts (mu_Status (ds_Obj t))"
    using assms(1) by (auto simp: reconcileUserInCluster_def setFailedStatus_def bind_go_def user_UpdateStatusCondition_def Let_def
        split: prod.splits go_result.splits)
  obtain qs where qs: "ds_Log (fst ?db) = ds_Log s @ map ExecSql qs" using reconcileUserInDB_step.only_sql by blast
  have "mu_Status (ds_Obj t) = mu_Status (ds_Obj s) \<and> (UpdateObjectStatus x \<in> set (ds_Log t) \<longrightarrow> UpdateObjectStatus x \<in> set (ds_Log s))"
  proof (cases rule: bind_go_cases [of ?db ?fin])
    case stop
    with t(1) qs reconcileUserInDB_step.keeps_object [of as_int64 api s] show ?thesis by auto
  next
    case (go s1)
    with t(1) have "?fin s1 = (t, Error err)" by simp
    then show ?thesis using go(1) qs reconcileUserInDB_step.keeps_object [of as_int64 api s] assms(2)
      by (auto simp: do_Update_def Let_def split: if_splits sum.splits)
  qed
  with t(2,3) show "ust_AllowedHosts (mu_Status (ds_Obj s')) = ust_AllowedHosts (mu_Status (ds_Obj s))"
    "UpdateObjectStatus x \<in> set (ds_Log s') \<Longrightarrow> UpdateObjectStatus x \<in> set (ds_Log s)"
    by auto
qed

section \<open>Properties\<close>

text \<open>
  Property C35. The finalizer of a deleted user is removed, keeping the others, only when the accounts
  are to be kept, the cluster is gone, or every account of the hosts in the status has been dropped
  without an error; nothing else is written and no other statement is sent.
\<close>

theorem user_finalizer_after_drop:
  assumes "finalizer_lib_ok fl" and "sa_Get api = Inr (Some u)" and "mu_DeletionTimestamp u \<noteq> None"
    and "UpdateObject u' \<in> set (fst (user_Reconcile fl as_int64 opt api now))"
  shows "\<exists>hs. removal_hosts api u = Some hs \<and>
    fst (user_Reconcile fl as_int64 opt api now) = drops (us_User (mu_Spec u)) hs @ [UpdateObject u'] \<and>
    (\<forall>i < length hs. sa_Exec api (drops (us_User (mu_Spec u)) (take i hs)) (drop_query (us_User (mu_Spec u)) (hs ! i)) = None) \<and>
    FinalizerUser \<in> set (mu_Finalizers u) \<and> set (mu_Finalizers u') = set (mu_Finalizers u) - {FinalizerUser}"
proof -
  let ?s = "\<lparr>ds_Obj = u, ds_Log = []\<rparr>"
  let ?f = "\<lambda>s. if \<not> DeletionPolicyRetain (mu_Annotations (ds_Obj s)) then dropUserFromDB api s else (s, Ok)"
  let ?upd = "\<lambda>u. u\<lparr>mu_Finalizers := fl_Remove fl (mu_Finalizers u) FinalizerUser\<rparr>"
  let ?run = "bind_go (?f ?s) (\<lambda>s. do_Update api (s\<lparr>ds_Obj := ?upd (ds_Obj s)\<rparr>))"
  have run: "fst (user_Reconcile fl as_int64 opt api now) = ds_Log (fst ?run)" and has: "FinalizerUser \<in> set (mu_Finalizers u)"
    using assms by (auto simp: user_Reconcile_def removeUser_def Let_def case_prod_beta finalizer_lib_ok_def split: if_splits)
  have step: "sql_step ?f"
    by standard (auto simp: dropUserFromDB_step.keeps_object dropUserFromDB_step.only_sql intro: exI [of _ "[]"])
  have w: "snd (?f ?s) = Ok \<and> u' = ?upd (ds_Obj ?s) \<and> ds_Log (fst ?run) = ds_Log (fst (?f ?s)) @ [UpdateObject u']"
    using assms(4) unfolding run by (intro sql_step.write_after [OF step, of u' ?s api ?upd]) simp_all
  then obtain s' where s': "?f ?s = (s', Ok)" by (cases "?f ?s") auto
  obtain hs where hs: "removal_hosts api u = Some hs" "drop_users api (us_User (mu_Spec u)) hs ?s = (s', Ok)"
    using removal_cleanup [OF s'] by auto
  show ?thesis
    using hs(1) w has assms(1) drop_users_done [OF hs(2)] s' unfolding run
    by (intro exI [of _ hs]) (auto simp: finalizer_lib_ok_def)
qed

text \<open>
  A run that ends with the requeue of a provisioned user has created or altered the
  accounts of the hosts of the spec in one statement, then dropped exactly the accounts of the hosts
  that are in the status and not in the spec; afterwards it only writes: the finalizer when it was
  missing, and a status with the hosts of the spec and a true Ready condition, unless the stored
  status already said so. The API server returns the spec and the status of an update as they were sent.
\<close>

theorem user_provisioned:
  assumes "finalizer_lib_ok fl" and "sa_Get api = Inr (Some u)" and "mu_DeletionTimestamp u = None"
    and "\<And>l x y. sa_Update api l x = Inr y \<Longrightarrow> mu_Spec y = mu_Spec x \<and> mu_Status y = mu_Status x"
    and "user_Reconcile fl as_int64 opt api now = (evs, Done (Some 120))"
  defines "spec \<equiv> mu_Spec u"
  shows "\<exists>q pass ws. evs = ExecSql q # drops (us_User spec)
        (filter (\<lambda>h. h \<notin> set (us_AllowedHosts spec)) (ust_AllowedHosts (mu_Status u))) @ ws \<and> pass \<noteq> [] \<and>
    CreateUserIfNotExists as_int64 api (us_User spec) pass (us_AllowedHosts spec) (us_Permissions spec) (us_ResourceLimits spec) [] =
      ([ExecSql q], Ok) \<and>
    (\<forall>ev \<in> set ws. provision_write spec ev) \<and>
    (FinalizerUser \<in> set (mu_Finalizers u) \<or> (\<exists>u'. UpdateObject u' \<in> set ws)) \<and>
    (provisioned u \<or> (\<exists>u'. UpdateObjectStatus u' \<in> set ws))"
proof -
  let ?s = "\<lparr>ds_Obj = u, ds_Log = []\<rparr>"
  obtain s1 s2 where s1: "reconcileUserInCluster fl as_int64 api now ?s = (s1, Ok)"
    and s2: "updateStatusAndErr api (mu_Status u) Ok s1 = (s2, Ok)" "evs = ds_Log s2"
    using assms(2,3,5)
    by (auto simp: user_Reconcile_def updateStatusAndErr_def outcome_of_def Let_def split: sum.splits if_splits go_result.splits prod.splits)
  obtain t1 t2 where t1: "reconcileUserInDB as_int64 api ?s = (t1, Ok)"
    and t2: "(if \<not> fl_Has fl (mu_Finalizers (ds_Obj t1)) FinalizerUser
        then do_Update api (t1\<lparr>ds_Obj := (ds_Obj t1)\<lparr>mu_Finalizers := fl_Add fl (mu_Finalizers (ds_Obj t1)) FinalizerUser\<rparr>\<rparr>)
        else (t1, Ok)) = (t2, Ok)"
    and s1': "ds_Log s1 = ds_Log t2" "mu_Spec (ds_Obj s1) = mu_Spec (ds_Obj t2)" "provisioned (ds_Obj s1)"
    using s1 provisioned_update
    by (auto simp: reconcileUserInCluster_def setFailedStatus_def bind_go_def Let_def user_UpdateStatusCondition_def
        split: prod.splits go_result.splits)
  obtain q pass where q: "pass \<noteq> []" "CreateUserIfNotExists as_int64 api (us_User spec) pass (us_AllowedHosts spec) (us_Permissions spec) (us_ResourceLimits spec) [] =
      ([ExecSql q], Ok)" "t1 = ?s\<lparr>ds_Log := ExecSql q # drops (us_User spec)
      (filter (\<lambda>h. h \<notin> set (us_AllowedHosts spec)) (ust_AllowedHosts (mu_Status u)))\<rparr>"
    using reconcileUserInDB_done [OF t1] by (auto simp: spec_def)
  obtain ws where ws: "ds_Log t2 = ds_Log t1 @ ws" "\<forall>ev \<in> set ws. provision_write spec ev"
    "FinalizerUser \<in> set (mu_Finalizers u) \<or> (\<exists>u. UpdateObject u \<in> set ws)" "mu_Spec (ds_Obj t2) = spec"
    using add_finalizer_done [where spec = spec, OF assms(1) t2] assms(4) q(3) by (auto simp: spec_def)
  show ?thesis
  proof (cases "mu_Status u = mu_Status (ds_Obj s1)")
    case True
    then have "evs = ds_Log s1" "provisioned u" using s2 s1'(2,3) ws(4)
      by (auto simp: updateStatusAndErr_def provisioned_def user_ready_def spec_def)
    with q ws s1'(1) show ?thesis by (intro exI [of _ q] exI [of _ pass] exI [of _ ws]) simp
  next
    case False
    then have "evs = ds_Log s1 @ [UpdateObjectStatus (ds_Obj s1)]" using s2
      by (auto simp: updateStatusAndErr_def do_UpdateStatus_def Let_def split: sum.splits)
    moreover have "provision_write spec (UpdateObjectStatus (ds_Obj s1))" using s1'(2,3) ws(4) by (simp add: provision_write_def)
    ultimately show ?thesis using q ws s1'(1)
      by (intro exI [of _ q] exI [of _ pass] exI [of _ "ws @ [UpdateObjectStatus (ds_Obj s1)]"]) auto
  qed
qed

text \<open>
  When the provisioning fails, every status that is saved lists the hosts of the old
  status, even when the statement that created the accounts of the new hosts was run before the
  failure: the removal of the user, which drops the accounts of the hosts in the status, then leaves
  the new accounts in the cluster. The API server returns the status of an update as it was sent.
\<close>

theorem failed_provision_forgets_hosts:
  assumes "sa_Get api = Inr (Some u)" and "mu_DeletionTimestamp u = None"
    and "\<forall>l x y. sa_Update api l x = Inr y \<longrightarrow> mu_Status y = mu_Status x"
    and "snd (reconcileUserInCluster fl as_int64 api now \<lparr>ds_Obj = u, ds_Log = []\<rparr>) = Error err"
    and "UpdateObjectStatus u' \<in> set (fst (user_Reconcile fl as_int64 opt api now))"
  shows "ust_AllowedHosts (mu_Status u') = ust_AllowedHosts (mu_Status u)"
proof -
  let ?s = "\<lparr>ds_Obj = u, ds_Log = []\<rparr>"
  obtain s1 where s1: "reconcileUserInCluster fl as_int64 api now ?s = (s1, Error err)"
    using assms(4) by (cases "reconcileUserInCluster fl as_int64 api now ?s") simp
  have no_status: "UpdateObjectStatus x \<notin> set (ds_Log s1)" and hosts: "ust_AllowedHosts (mu_Status (ds_Obj s1)) = ust_AllowedHosts (mu_Status u)" for x
    using failed_provision [OF s1] assms(3) by auto
  have cond: "ust_AllowedHosts (mu_Status (user_UpdateStatusCondition t ty st r m u)) = ust_AllowedHosts (mu_Status u)" for t ty st r m
    by (simp add: user_UpdateStatusCondition_def)
  have saved: "x = ds_Obj s" if "UpdateObjectStatus x \<in> set (ds_Log (fst (updateStatusAndErr api old prev s)))" "UpdateObjectStatus x \<notin> set (ds_Log s)"
    for x old prev s
    using that by (auto simp: updateStatusAndErr_def do_UpdateStatus_def Let_def split: if_splits sum.splits go_result.splits)
  have fresh: "x = y" if "UpdateObjectStatus x \<in> set (ds_Log (fst (updateStatusAndErr api old prev \<lparr>ds_Obj = y, ds_Log = []\<rparr>)))" for x y old prev
    using saved [OF that] by simp
  have after: "x = ds_Obj s1" if "UpdateObjectStatus x \<in> set (ds_Log (fst (updateStatusAndErr api old prev s1)))" for x old prev
    using that no_status by (rule saved)
  show ?thesis
    using assms(1,2,5) s1 hosts cond
    by (auto simp: user_Reconcile_def Let_def case_prod_beta split: if_splits sum.splits dest!: fresh after)
qed

section \<open>A concrete user\<close>

text \<open>A user whose host changed from the first to the second, and a ready cluster.\<close>

definition ref_user :: mysql_user where
  "ref_user =
     \<lparr>mu_Name = ''app'', mu_Namespace = ''ns'', mu_Annotations = Map.empty, mu_Finalizers = [FinalizerUser],
      mu_DeletionTimestamp = None,
      mu_Spec = \<lparr>us_ClusterName = ''db'', us_ClusterNamespace = [], us_User = ''app'', us_PasswordName = ''pw'',
        us_PasswordKey = ''password'', us_AllowedHosts = [''b''], us_Permissions = [], us_ResourceLimits = []\<rparr>,
      mu_Status = \<lparr>ust_Conditions = [], ust_AllowedHosts = [''a'']\<rparr>\<rparr>"

definition ref_ready_cluster :: mysql_cluster where
  "ref_ready_cluster = ref_cluster\<lparr>mc_Status := (mc_Status ref_cluster)\<lparr>st_Conditions :=
     [mk_cluster_condition 1 ClusterConditionReady ConditionTrue ([], [])]\<rparr>\<rparr>"

definition ref_user_api :: "mysql_user \<Rightarrow> (query \<Rightarrow> bool) \<Rightarrow> mysql_user sql_api" where
  "ref_user_api u fails = (ref_sql_api u)\<lparr>sa_GetCluster := \<lambda>k. Inr ref_ready_cluster,
     sa_Exec := \<lambda>l q. if fails q then Some ''refused'' else None\<rparr>"

definition ref_create :: query where
  "ref_create = \<lparr>q_escapedQuery = join NL [''BEGIN;'', ''CREATE USER IF NOT EXISTS ?@? IDENTIFIED BY ?;'',
      ''ALTER USER ?@? IDENTIFIED BY ?;'', ''COMMIT;''],
     q_args = map StrArg [''app'', ''b'', ''secret'', ''app'', ''b'', ''secret'']\<rparr>"

lemma ref_create_query:
  "CreateUserIfNotExists f (ref_user_api u fails) ''app'' ''secret'' [''b''] [] [] l =
     (l @ [ExecSql ref_create], if fails ref_create then Error (''failed to configure user (user/pass/access), err: '' @ ''refused'') else Ok)"
  by (simp add: CreateUserIfNotExists_def exec_query_def getCreateUserQuery_def getAlterUserQuery_def NewQuery_def
      getUsersIdentification_def BuildAtomicQuery_def ConcatenateQueries_def ref_user_api_def ref_create_def NL_def)

lemma ref_not_drop: "ref_create \<noteq> drop_query x y"
  by (simp add: ref_create_def drop_query_def)

lemma ref_user_sel:
  "us_User (mu_Spec ref_user) = ''app''" "us_AllowedHosts (mu_Spec ref_user) = [''b'']" "us_Permissions (mu_Spec ref_user) = []"
  "us_ResourceLimits (mu_Spec ref_user) = []" "us_PasswordKey (mu_Spec ref_user) = ''password''" "us_ClusterNamespace (mu_Spec ref_user) = []"
  "ust_AllowedHosts (mu_Status ref_user) = [''a'']" "mu_Finalizers ref_user = [FinalizerUser]" "mu_DeletionTimestamp ref_user = None"
  "DeletionPolicyRetain (mu_Annotations ref_user) = False"
  by (simp_all add: ref_user_def DeletionPolicyRetain_def)

lemma ref_user_api_sel:
  "sa_Get (ref_user_api u fails) = Inr (Some u)" "sa_Update (ref_user_api u fails) l x = Inr x" "sa_UpdateStatus (ref_user_api u fails) l x = Inr x"
  "sa_GetCluster (ref_user_api u fails) k = Inr ref_ready_cluster" "IsClusterReady ref_ready_cluster"
  "sa_GetSecret (ref_user_api u fails) k = Inr [''ROOT_PASSWORD'' \<mapsto> ''pw'', ''password'' \<mapsto> ''secret'']"
  "sa_Exec (ref_user_api u fails) l q = (if fails q then Some ''refused'' else None)"
  "NewSQLRunner (ref_user_api u fails) (NewConfigFromClusterKey (ref_user_api u fails) key) = None"
  by (simp_all add: ref_user_api_def ref_sql_api_def NewSQLRunner_def NewConfigFromClusterKey_def ref_ready_cluster_def
      IsClusterReady_def mk_cluster_condition_def)

lemma ref_user_run:
  assumes "\<not> fails ref_create" and "finalizer_lib_ok fl"
  shows "\<exists>u'. reconcileUserInCluster fl f (ref_user_api ref_user fails) 7 \<lparr>ds_Obj = ref_user, ds_Log = []\<rparr> =
    (\<lparr>ds_Obj = u', ds_Log = [ExecSql ref_create, ExecSql (drop_query ''app'' ''a'')]\<rparr>,
     if fails (drop_query ''app'' ''a'') then Error (''failed to delete user, err: '' @ ''refused'') else Ok) \<and> mu_Status u' \<noteq> mu_Status ref_user"
proof -
  let ?s = "\<lparr>ds_Obj = ref_user, ds_Log = []\<rparr>"
  have db: "reconcileUserInDB f (ref_user_api ref_user fails) ?s =
    (?s\<lparr>ds_Log := [ExecSql ref_create, ExecSql (drop_query ''app'' ''a'')]\<rparr>,
     if fails (drop_query ''app'' ''a'') then Error (''failed to delete user, err: '' @ ''refused'') else Ok)"
    using assms(1) ref_create_query [of f ref_user fails "[]"]
    by (simp add: reconcileUserInDB_def ref_user_sel ref_user_api_sel on_log_def DropUser_eq)
  show ?thesis using assms(2)
    by (simp add: reconcileUserInCluster_def db setFailedStatus_def finalizer_lib_ok_def ref_user_sel user_UpdateStatusCondition_def Let_def)
      (simp add: ref_user_def update_resource_conditions_def)
qed

lemma ref_user_reconcile:
  assumes "\<not> fails ref_create" and "finalizer_lib_ok fl"
  shows "\<exists>u'. user_Reconcile fl f opt (ref_user_api ref_user fails) 7 =
    ([ExecSql ref_create, ExecSql (drop_query ''app'' ''a''), UpdateObjectStatus u'],
     if fails (drop_query ''app'' ''a'') then Failed (''failed to delete user, err: '' @ ''refused'') else Done (Some 120))"
  using ref_user_run [of fails fl f] assms
  by (auto simp: user_Reconcile_def ref_user_api_sel ref_user_sel user_GetClusterKey_def updateStatusAndErr_def do_UpdateStatus_def
      outcome_of_def Let_def)

theorem user_provisioned_witness:
  "\<exists>evs q pass ws. user_Reconcile ref_finalizers (\<lambda>q. 0) ref_options (ref_user_api ref_user (\<lambda>q. False)) 7 = (evs, Done (Some 120)) \<and>
     evs = ExecSql q # drops ''app'' [''a''] @ ws \<and>
     CreateUserIfNotExists (\<lambda>q. 0) (ref_user_api ref_user (\<lambda>q. False)) ''app'' pass [''b''] [] [] [] = ([ExecSql q], Ok)"
proof -
  let ?api = "ref_user_api ref_user (\<lambda>q. False)"
  obtain evs where evs: "user_Reconcile ref_finalizers (\<lambda>q. 0) ref_options ?api 7 = (evs, Done (Some 120))"
    using ref_user_reconcile [of "\<lambda>q. False" ref_finalizers "\<lambda>q. 0" ref_options] ref_finalizers_ok by auto
  from user_provisioned [OF ref_finalizers_ok ref_user_api_sel(1) ref_user_sel(9) _ evs] evs show ?thesis
    by (simp add: ref_user_sel ref_user_api_sel(2)) blast
qed

theorem failed_provision_forgets_hosts_witness:
  "\<exists>u'. fst (user_Reconcile ref_finalizers (\<lambda>q. 0) ref_options (ref_user_api ref_user (\<lambda>q. q = drop_query ''app'' ''a'')) 7) =
      [ExecSql ref_create, ExecSql (drop_query ''app'' ''a''), UpdateObjectStatus u'] \<and>
     ust_AllowedHosts (mu_Status u') = [''a''] \<and> us_AllowedHosts (mu_Spec ref_user) = [''b'']"
proof -
  let ?api = "ref_user_api ref_user (\<lambda>q. q = drop_query ''app'' ''a'')"
  obtain u' where run: "fst (user_Reconcile ref_finalizers (\<lambda>q. 0) ref_options ?api 7) =
      [ExecSql ref_create, ExecSql (drop_query ''app'' ''a''), UpdateObjectStatus u']"
    using ref_user_reconcile [of "\<lambda>q. q = drop_query ''app'' ''a''" ref_finalizers "\<lambda>q. 0" ref_options] ref_finalizers_ok ref_not_drop by auto
  have fails: "snd (reconcileUserInCluster ref_finalizers (\<lambda>q. 0) ?api 7 \<lparr>ds_Obj = ref_user, ds_Log = []\<rparr>) =
      Error (''failed to delete user, err: '' @ ''refused'')"
    using ref_user_run [of "\<lambda>q. q = drop_query ''app'' ''a''" ref_finalizers "\<lambda>q. 0"] ref_finalizers_ok ref_not_drop by auto
  have "ust_AllowedHosts (mu_Status u') = ust_AllowedHosts (mu_Status ref_user)"
    by (rule failed_provision_forgets_hosts [OF ref_user_api_sel(1) ref_user_sel(9) _ fails, where opt = ref_options])
      (simp_all add: run ref_user_api_sel)
  with run show ?thesis by (simp add: ref_user_sel)
qed

theorem user_finalizer_after_drop_witness:
  "\<exists>u'. fst (user_Reconcile ref_finalizers (\<lambda>q. 0) ref_options
       (ref_user_api (ref_user\<lparr>mu_DeletionTimestamp := Some 5\<rparr>) (\<lambda>q. False)) 7) = drops ''app'' [''a''] @ [UpdateObject u'] \<and>
     FinalizerUser \<notin> set (mu_Finalizers u')"
proof -
  let ?u = "ref_user\<lparr>mu_DeletionTimestamp := Some 5\<rparr>"
  let ?api = "ref_user_api ?u (\<lambda>q. False)"
  let ?s = "\<lparr>ds_Obj = ?u, ds_Log = []\<rparr>"
  have hosts: "removal_hosts ?api ?u = Some [''a'']" by (simp add: removal_hosts_def ref_user_sel ref_user_api_sel)
  have "\<exists>u'. UpdateObject u' \<in> set (fst (user_Reconcile ref_finalizers (\<lambda>q. 0) ref_options ?api 7))"
    by (simp add: user_Reconcile_def ref_user_api_sel ref_user_sel user_GetClusterKey_def removeUser_def ref_finalizers_def
        dropUserFromDB_def on_log_def DropUser_eq do_Update_def Let_def)
  then obtain u' where u': "UpdateObject u' \<in> set (fst (user_Reconcile ref_finalizers (\<lambda>q. 0) ref_options ?api 7))" by blast
  have "mu_DeletionTimestamp ?u \<noteq> None" by simp
  from user_finalizer_after_drop [OF ref_finalizers_ok ref_user_api_sel(1) this u'] hosts show ?thesis
    by (auto simp: ref_user_sel)
qed

end
