(* ===== verification/DatabaseCtl.thy ===== *)
theory DatabaseCtl
  imports SqlCtl
begin

text \<open>
  The controller of \<^verbatim>\<open>MysqlDatabase\<close> resources (\<^verbatim>\<open>pkg/controller/mysqldatabase\<close>) with its wrapper
  (\<^verbatim>\<open>pkg/internal/mysqldatabase\<close>).
\<close>

section \<open>The resource\<close>

record mysql_database_spec =
  dbs_ClusterName :: string
  dbs_ClusterNamespace :: string
  dbs_Database :: string
  dbs_CharacterSet :: string
  dbs_Collation :: string

record mysql_database =
  md_Name :: string
  md_Namespace :: string
  md_Annotations :: str_map
  md_Finalizers :: "string list"
  md_DeletionTimestamp :: "time option"
  md_Spec :: mysql_database_spec
  md_Conditions :: "resource_condition list"

definition MysqlDatabaseReady :: string where
  "MysqlDatabaseReady = ''Ready''"

definition ProvisionSucceeded :: string where
  "ProvisionSucceeded = ''ProvisionSucceeded''"

definition ProvisionFailed :: string where
  "ProvisionFailed = ''ProvisionFailed''"

definition FinalizerDatabase :: string where
  "FinalizerDatabase = ''mysql-operator.presslabs.org/database''"

definition database_UpdateCondition ::
    "time \<Rightarrow> string \<Rightarrow> condition_status \<Rightarrow> string \<Rightarrow> string \<Rightarrow> mysql_database \<Rightarrow> mysql_database" where
  "database_UpdateCondition t condType status reason message db =
     db\<lparr>md_Conditions := update_resource_conditions t condType status reason message (md_Conditions db)\<rparr>"

definition database_GetClusterKey :: "mysql_database \<Rightarrow> object_key" where
  "database_GetClusterKey db =
     \<lparr>ok_Name = dbs_ClusterName (md_Spec db),
      ok_Namespace = (if dbs_ClusterNamespace (md_Spec db) = [] then md_Namespace db else dbs_ClusterNamespace (md_Spec db))\<rparr>"

section \<open>Reconciliation\<close>

definition deleteDatabase :: "mysql_database sql_api \<Rightarrow> mysql_database dstate \<Rightarrow> mysql_database drun" where
  "deleteDatabase api s =
     (let db = ds_Obj s in
      if DeletionPolicyRetain (md_Annotations db) then (s, Ok)
      else (case NewSQLRunner api (NewConfigFromClusterKey api (database_GetClusterKey db)) of
              Some err \<Rightarrow>
                if ce_NotFound err
                then (if (case ce_StatusKind err of Some kind \<Rightarrow> IsMysqlClusterKind kind | None \<Rightarrow> False)
                      then (s, Ok) else (s, Error (ce_Message err)))
                else (s, Error (ce_Message err))
            | None \<Rightarrow> on_log (DropDatabase api (dbs_Database (md_Spec db))) s))"

definition createDatabase :: "mysql_database sql_api \<Rightarrow> mysql_database dstate \<Rightarrow> mysql_database drun" where
  "createDatabase api s =
     (let db = ds_Obj s; spec = md_Spec db in
      case NewSQLRunner api (NewConfigFromClusterKey api (database_GetClusterKey db)) of
        Some err \<Rightarrow> (s, Error (ce_Message err))
      | None \<Rightarrow> on_log (CreateDatabaseIfNotExists api (dbs_Database spec) (dbs_CharacterSet spec) (dbs_Collation spec)) s)"

definition updateReadyCondition ::
    "mysql_database sql_api \<Rightarrow> time \<Rightarrow> resource_condition list \<Rightarrow> go_result \<Rightarrow> mysql_database dstate \<Rightarrow> mysql_database drun" where
  "updateReadyCondition api now oldDBStatus err s =
     (let s1 = s\<lparr>ds_Obj :=
            (case err of
               Error e \<Rightarrow> database_UpdateCondition now MysqlDatabaseReady ConditionFalse ProvisionFailed e (ds_Obj s)
             | _ \<Rightarrow> database_UpdateCondition now MysqlDatabaseReady ConditionTrue ProvisionSucceeded
                      ''Database successfully created.'' (ds_Obj s))\<rparr>
      in if oldDBStatus \<noteq> md_Conditions (ds_Obj s1)
         then bind_go (do_UpdateStatus api s1) (\<lambda>s. (s, err))
         else (s1, err))"

definition database_Reconcile ::
    "finalizer_lib \<Rightarrow> options \<Rightarrow> mysql_database sql_api \<Rightarrow> time \<Rightarrow> mysql_database db_log \<times> rec_outcome" where
  "database_Reconcile fl opt api now =
     (case sa_Get api of
        Inl err \<Rightarrow> ([], Failed err)
      | Inr None \<Rightarrow> ([], Done None)
      | Inr (Some db) \<Rightarrow>
          let s = \<lparr>ds_Obj = db, ds_Log = []\<rparr>; oldDBStatus = md_Conditions db;
              report = (\<lambda>err s. case updateReadyCondition api now oldDBStatus err s of (s', r) \<Rightarrow> (ds_Log s', outcome_of None r))
          in
          if \<not> opt_AllowCrossNamespaceDatabases opt \<and> md_Namespace db \<noteq> ok_Namespace (database_GetClusterKey db)
          then report (Error ''cross namespace database creation is disabled'') s
          else if md_DeletionTimestamp db \<noteq> None
          then (case bind_go (deleteDatabase api s)
                      (\<lambda>s. do_Update api (s\<lparr>ds_Obj := (ds_Obj s)\<lparr>md_Finalizers := fl_Remove fl (md_Finalizers (ds_Obj s)) FinalizerDatabase\<rparr>\<rparr>)) of
                  (s', r) \<Rightarrow> (ds_Log s', outcome_of None r))
          else (case sa_GetCluster api (database_GetClusterKey db) of
                  Inl err \<Rightarrow> report (Error (ce_Message err)) s
                | Inr cluster \<Rightarrow>
                    if \<not> IsClusterReady cluster
                    then (fst (report (Error ''cluster is not ready'') s), Done (Some 30))
                    else (case createDatabase api s of
                            (s1, Ok) \<Rightarrow>
                              (case (if \<not> fl_Has fl (md_Finalizers (ds_Obj s1)) FinalizerDatabase
                                     then do_Update api (s1\<lparr>ds_Obj := (ds_Obj s1)\<lparr>md_Finalizers := fl_Add fl (md_Finalizers (ds_Obj s1)) FinalizerDatabase\<rparr>\<rparr>)
                                     else (s1, Ok)) of
                                 (s2, Ok) \<Rightarrow> report Ok s2
                               | (s2, r) \<Rightarrow> (ds_Log s2, outcome_of None r))
                          | (s1, Panic) \<Rightarrow> (ds_Log s1, Panicked)
                          | (s1, err) \<Rightarrow> report err s1)))"

section \<open>Lemmas\<close>

interpretation deleteDatabase_step: sql_step "deleteDatabase api" for api
  by standard (auto simp: deleteDatabase_def Let_def drop_database_step.keeps_object drop_database_step.only_sql
      split: option.split intro: exI [of _ "[]"])

interpretation createDatabase_step: sql_step "createDatabase api" for api
  by standard (auto simp: createDatabase_def Let_def create_database_step.keeps_object create_database_step.only_sql
      split: option.split intro: exI [of _ "[]"])

definition drop_database_query :: "string \<Rightarrow> query" where
  "drop_database_query name = \<lparr>q_escapedQuery = ''DROP DATABASE IF EXISTS '' @ escapeID name @ '';'', q_args = []\<rparr>"

lemma escapeID_end: "last (escapeID name) \<noteq> CHR '';''" "escapeID name \<noteq> []"
  by (simp_all add: escapeID_def BACKTICK_def)

lemma DropDatabase_eq:
  "DropDatabase api name l = (l @ [ExecSql (drop_database_query name)],
     case sa_Exec api l (drop_database_query name) of Some err \<Rightarrow> Error (''failed to remove database, err: '' @ err) | None \<Rightarrow> Ok)"
  using escapeID_end [of name]
  by (simp add: DropDatabase_def exec_query_def NewQuery_def drop_database_query_def)

lemma deleteDatabase_done:
  assumes "deleteDatabase api \<lparr>ds_Obj = db, ds_Log = []\<rparr> = (s', Ok)"
  shows "(if DeletionPolicyRetain (md_Annotations db) then ds_Log s' = []
    else (case NewSQLRunner api (NewConfigFromClusterKey api (database_GetClusterKey db)) of
            Some err \<Rightarrow> cluster_gone err \<and> ds_Log s' = []
          | None \<Rightarrow> ds_Log s' = [ExecSql (drop_database_query (dbs_Database (md_Spec db)))] \<and>
              sa_Exec api [] (drop_database_query (dbs_Database (md_Spec db))) = None))"
  using assms
  by (auto simp: deleteDatabase_def cluster_gone_def on_log_def DropDatabase_eq Let_def split: if_splits option.splits)

definition database_ready :: "mysql_database \<Rightarrow> bool" where
  "database_ready db \<longleftrightarrow> (\<exists>cond. find (\<lambda>cond. rc_Type cond = MysqlDatabaseReady) (md_Conditions db) = Some cond \<and>
     rc_Status cond = ConditionTrue)"

lemma report_failed:
  assumes "UpdateObjectStatus x \<in> set (ds_Log (fst (updateReadyCondition api now old (Error e) s)))"
  shows "UpdateObjectStatus x \<in> set (ds_Log s) \<or> \<not> database_ready x"
proof -
  let ?db = "database_UpdateCondition now MysqlDatabaseReady ConditionFalse ProvisionFailed e (ds_Obj s)"
  have "\<not> database_ready ?db"
    using condition_after(1) [of MysqlDatabaseReady now ConditionFalse ProvisionFailed e "md_Conditions (ds_Obj s)"]
    by (auto simp: database_ready_def database_UpdateCondition_def)
  with assms show ?thesis
    by (auto simp: updateReadyCondition_def do_UpdateStatus_def bind_go_def Let_def split: if_splits sum.splits)
qed

lemma report_ok:
  obtains db where "md_Finalizers db = md_Finalizers (ds_Obj s)"
    "fst (case updateReadyCondition api now old Ok s of (s', r) \<Rightarrow> (ds_Log s', outcome_of None r)) = ds_Log s \<or>
     fst (case updateReadyCondition api now old Ok s of (s', r) \<Rightarrow> (ds_Log s', outcome_of None r)) = ds_Log s @ [UpdateObjectStatus db]"
proof
  let ?db = "database_UpdateCondition now MysqlDatabaseReady ConditionTrue ProvisionSucceeded ''Database successfully created.'' (ds_Obj s)"
  show "md_Finalizers ?db = md_Finalizers (ds_Obj s)" by (simp add: database_UpdateCondition_def)
  show "fst (case updateReadyCondition api now old Ok s of (s', r) \<Rightarrow> (ds_Log s', outcome_of None r)) = ds_Log s \<or>
     fst (case updateReadyCondition api now old Ok s of (s', r) \<Rightarrow> (ds_Log s', outcome_of None r)) = ds_Log s @ [UpdateObjectStatus ?db]"
    by (auto simp: updateReadyCondition_def do_UpdateStatus_def bind_go_def Let_def split: sum.splits)
qed

lemma createDatabase_done:
  assumes "createDatabase api \<lparr>ds_Obj = db, ds_Log = []\<rparr> = (s', Ok)"
  shows "\<exists>q. s' = \<lparr>ds_Obj = db, ds_Log = [ExecSql q]\<rparr> \<and>
    CreateDatabaseIfNotExists api (dbs_Database (md_Spec db)) (dbs_CharacterSet (md_Spec db)) (dbs_Collation (md_Spec db)) [] = ([ExecSql q], Ok)"
proof -
  let ?c = "CreateDatabaseIfNotExists api (dbs_Database (md_Spec db)) (dbs_CharacterSet (md_Spec db)) (dbs_Collation (md_Spec db)) []"
  have "\<exists>q. fst ?c = [ExecSql q]" by (simp add: CreateDatabaseIfNotExists_def exec_query_def NewQuery_def)
  then obtain q where "fst ?c = [ExecSql q]" by blast
  moreover have "s' = \<lparr>ds_Obj = db, ds_Log = fst ?c\<rparr> \<and> snd ?c = Ok"
    using assms by (simp add: createDatabase_def on_log_def case_prod_beta Let_def split: option.splits)
  ultimately show ?thesis by (metis prod.collapse)
qed

lemma add_done:
  assumes "finalizer_lib_ok fl" and "\<forall>l x y. sa_Update api l x = Inr y \<longrightarrow> y = x"
    and "(if \<not> fl_Has fl (md_Finalizers (ds_Obj s)) FinalizerDatabase
      then do_Update api (s\<lparr>ds_Obj := (ds_Obj s)\<lparr>md_Finalizers := fl_Add fl (md_Finalizers (ds_Obj s)) FinalizerDatabase\<rparr>\<rparr>)
      else (s, Ok)) = (s', r)"
  shows "\<exists>ws. ds_Log s' = ds_Log s @ ws \<and> (ws = [] \<or> (\<exists>x. ws = [UpdateObject x])) \<and>
    (r = Ok \<longrightarrow> FinalizerDatabase \<in> set (md_Finalizers (ds_Obj s')))"
proof (cases "fl_Has fl (md_Finalizers (ds_Obj s)) FinalizerDatabase")
  case True
  with assms show ?thesis by (auto simp: finalizer_lib_ok_def)
next
  case False
  let ?u = "(ds_Obj s)\<lparr>md_Finalizers := fl_Add fl (md_Finalizers (ds_Obj s)) FinalizerDatabase\<rparr>"
  have "FinalizerDatabase \<in> set (md_Finalizers ?u)" using assms(1) by (simp add: finalizer_lib_ok_def)
  moreover have "x = ?u" if "sa_Update api (ds_Log s) ?u = Inr x" for x using that assms(2) by blast
  ultimately show ?thesis using False assms(3)
    by (intro exI [of _ "[UpdateObject ?u]"]) (auto simp: do_Update_def Let_def split: sum.splits)
qed

section \<open>Properties\<close>

text \<open>
  The finalizer of a deleted database is removed, keeping the others, only when the
  database is to be kept, the cluster is gone, or the database was dropped without an error.
\<close>

theorem database_finalizer_after_drop:
  assumes "finalizer_lib_ok fl" and "sa_Get api = Inr (Some db)" and "md_DeletionTimestamp db \<noteq> None"
    and "UpdateObject db' \<in> set (fst (database_Reconcile fl opt api now))"
  shows "set (md_Finalizers db') = set (md_Finalizers db) - {FinalizerDatabase} \<and>
    (\<exists>evs. fst (database_Reconcile fl opt api now) = evs @ [UpdateObject db'] \<and>
      (if DeletionPolicyRetain (md_Annotations db) then evs = []
       else (case NewSQLRunner api (NewConfigFromClusterKey api (database_GetClusterKey db)) of
               Some err \<Rightarrow> cluster_gone err \<and> evs = []
             | None \<Rightarrow> evs = [ExecSql (drop_database_query (dbs_Database (md_Spec db)))] \<and>
                 sa_Exec api [] (drop_database_query (dbs_Database (md_Spec db))) = None)))"
proof -
  let ?s = "\<lparr>ds_Obj = db, ds_Log = []\<rparr>"
  let ?upd = "\<lambda>d. d\<lparr>md_Finalizers := fl_Remove fl (md_Finalizers d) FinalizerDatabase\<rparr>"
  let ?run = "bind_go (deleteDatabase api ?s) (\<lambda>s. do_Update api (s\<lparr>ds_Obj := ?upd (ds_Obj s)\<rparr>))"
  have "UpdateObject db' \<notin> set (fst (case updateReadyCondition api now (md_Conditions db) err ?s of (s', r) \<Rightarrow> (ds_Log s', outcome_of None r)))" for err
    by (auto simp: updateReadyCondition_def do_UpdateStatus_def Let_def split: sum.split go_result.split)
  with assms have run: "fst (database_Reconcile fl opt api now) = ds_Log (fst ?run)"
    by (auto simp: database_Reconcile_def Let_def case_prod_beta split: if_splits)
  have w: "snd (deleteDatabase api ?s) = Ok \<and> db' = ?upd (ds_Obj ?s) \<and> ds_Log (fst ?run) = ds_Log (fst (deleteDatabase api ?s)) @ [UpdateObject db']"
    using assms(4) unfolding run by (intro deleteDatabase_step.write_after) simp_all
  then obtain s' where s': "deleteDatabase api ?s = (s', Ok)" by (cases "deleteDatabase api ?s") auto
  show ?thesis
    using w s' deleteDatabase_done [OF s'] assms(1) unfolding run
    by (intro conjI exI [of _ "ds_Log s'"]) (simp_all add: finalizer_lib_ok_def)
qed

text \<open>
  A status that reports a database as ready is written only after the statement that
  creates the database ran without an error, in a run on a resource that is not deleted, whose cluster
  is ready, and that has the finalizer by then. The API server returns the metadata and the status of
  an update as they were sent.
\<close>

theorem database_ready_after_create:
  assumes "finalizer_lib_ok fl" and "sa_Get api = Inr (Some db)"
    and "\<forall>l x y. sa_Update api l x = Inr y \<longrightarrow> y = x"
    and "UpdateObjectStatus db' \<in> set (fst (database_Reconcile fl opt api now))" and "database_ready db'"
  shows "\<exists>q ws cluster. fst (database_Reconcile fl opt api now) = ExecSql q # ws \<and> (\<forall>ev \<in> set ws. \<nexists>q. ev = ExecSql q) \<and>
    CreateDatabaseIfNotExists api (dbs_Database (md_Spec db)) (dbs_CharacterSet (md_Spec db)) (dbs_Collation (md_Spec db)) [] = ([ExecSql q], Ok) \<and>
    sa_GetCluster api (database_GetClusterKey db) = Inr cluster \<and> IsClusterReady cluster \<and>
    md_DeletionTimestamp db = None \<and> FinalizerDatabase \<in> set (md_Finalizers db')"
proof -
  let ?s = "\<lparr>ds_Obj = db, ds_Log = []\<rparr>"
  let ?report = "\<lambda>err s. case updateReadyCondition api now (md_Conditions db) err s of (s', r) \<Rightarrow> (ds_Log s', outcome_of None r)"
  have failed: "UpdateObjectStatus db' \<notin> set (fst (?report (Error e) s))" if "UpdateObjectStatus db' \<notin> set (ds_Log s)" for e s
    using that assms(5) report_failed [of db' api now "md_Conditions db" e s] by (auto simp: case_prod_beta)
  have create: "UpdateObjectStatus db' \<notin> set (ds_Log (fst (createDatabase api ?s)))"
    using createDatabase_step.only_sql [of api ?s] by auto
  have upd: "UpdateObjectStatus db' \<notin> set (ds_Log (fst (bind_go (deleteDatabase api ?s) (\<lambda>s. do_Update api (s\<lparr>ds_Obj := f (ds_Obj s)\<rparr>)))))" for f
    using deleteDatabase_step.only_sql [of api ?s]
    by (cases rule: bind_go_cases [of "deleteDatabase api ?s" "\<lambda>s. do_Update api (s\<lparr>ds_Obj := f (ds_Obj s)\<rparr>)"])
      (auto simp: do_Update_def Let_def split: sum.splits)
  have notdel: "md_DeletionTimestamp db = None"
    using assms(2,4) failed upd [of "\<lambda>d. d\<lparr>md_Finalizers := fl_Remove fl (md_Finalizers d) FinalizerDatabase\<rparr>"]
    by (auto simp: database_Reconcile_def Let_def case_prod_beta split: if_splits)
  obtain cluster where cluster: "sa_GetCluster api (database_GetClusterKey db) = Inr cluster" "IsClusterReady cluster"
    and ns: "opt_AllowCrossNamespaceDatabases opt \<or> md_Namespace db = ok_Namespace (database_GetClusterKey db)"
    using assms(2,4) failed notdel
    by (auto simp: database_Reconcile_def Let_def case_prod_beta split: if_splits sum.splits)
  define add where "add s = (if \<not> fl_Has fl (md_Finalizers (ds_Obj s)) FinalizerDatabase
      then do_Update api (s\<lparr>ds_Obj := (ds_Obj s)\<lparr>md_Finalizers := fl_Add fl (md_Finalizers (ds_Obj s)) FinalizerDatabase\<rparr>\<rparr>)
      else (s, Ok))" for s
  obtain s1 r1 where s1: "createDatabase api ?s = (s1, r1)" by (cases "createDatabase api ?s")
  obtain s2 r2 where s2: "add s1 = (s2, r2)" by (cases "add s1")
  have run: "database_Reconcile fl opt api now =
      (case r1 of Ok \<Rightarrow> (case r2 of Ok \<Rightarrow> ?report Ok s2 | _ \<Rightarrow> (ds_Log s2, outcome_of None r2))
       | Panic \<Rightarrow> (ds_Log s1, Panicked) | Error e \<Rightarrow> ?report (Error e) s1)"
    using assms(2) notdel cluster ns s1 s2
    by (auto simp: database_Reconcile_def add_def Let_def split: go_result.split)
  have no: "UpdateObjectStatus db' \<notin> set (ds_Log s1)" using create s1 by simp
  have r1: "r1 = Ok" using assms(4) no failed [OF no] run by (cases r1) simp_all
  then obtain q where q: "s1 = \<lparr>ds_Obj = db, ds_Log = [ExecSql q]\<rparr>"
    "CreateDatabaseIfNotExists api (dbs_Database (md_Spec db)) (dbs_CharacterSet (md_Spec db)) (dbs_Collation (md_Spec db)) [] = ([ExecSql q], Ok)"
    using createDatabase_done s1 by blast
  obtain ws where ws: "ds_Log s2 = ExecSql q # ws" "ws = [] \<or> (\<exists>x. ws = [UpdateObject x])"
    "r2 = Ok \<longrightarrow> FinalizerDatabase \<in> set (md_Finalizers (ds_Obj s2))"
    using add_done [OF assms(1,3), of s1] s2 q(1) by (auto simp: add_def)
  have r2: "r2 = Ok" using assms(4) run r1 ws(1,2) by (cases r2) auto
  obtain db'' where db'': "md_Finalizers db'' = md_Finalizers (ds_Obj s2)"
    "fst (?report Ok s2) = ds_Log s2 \<or> fst (?report Ok s2) = ds_Log s2 @ [UpdateObjectStatus db'']"
    by (rule report_ok)
  then have "db' = db''" "fst (database_Reconcile fl opt api now) = ExecSql q # ws @ [UpdateObjectStatus db']"
    using assms(4) run r1 r2 ws(1,2) by auto
  with q ws r2 cluster notdel db'' show ?thesis
    by (intro exI [of _ q] exI [of _ "ws @ [UpdateObjectStatus db']"] exI [of _ cluster]) auto
qed

section \<open>A concrete database\<close>

definition ref_database :: mysql_database where
  "ref_database =
     \<lparr>md_Name = ''shop'', md_Namespace = ''ns'', md_Annotations = Map.empty, md_Finalizers = [], md_DeletionTimestamp = None,
      md_Spec = \<lparr>dbs_ClusterName = ''db'', dbs_ClusterNamespace = [], dbs_Database = ''shop'', dbs_CharacterSet = [], dbs_Collation = []\<rparr>,
      md_Conditions = []\<rparr>"

definition ref_database_api :: "mysql_database \<Rightarrow> mysql_database sql_api" where
  "ref_database_api db = (ref_sql_api db)\<lparr>sa_GetCluster := \<lambda>k. Inr
     (ref_cluster\<lparr>mc_Status := (mc_Status ref_cluster)\<lparr>st_Conditions :=
       [mk_cluster_condition 1 ClusterConditionReady ConditionTrue ([], [])]\<rparr>\<rparr>)\<rparr>"

lemma ref_database_api_sel:
  "sa_Get (ref_database_api db) = Inr (Some db)" "sa_Update (ref_database_api db) l x = Inr x"
  "sa_UpdateStatus (ref_database_api db) l x = Inr x" "sa_Exec (ref_database_api db) l q = None"
  "\<exists>c. sa_GetCluster (ref_database_api db) k = Inr c \<and> IsClusterReady c"
  "NewSQLRunner (ref_database_api db) (NewConfigFromClusterKey (ref_database_api db) key) = None"
  by (simp_all add: ref_database_api_def ref_sql_api_def NewSQLRunner_def NewConfigFromClusterKey_def IsClusterReady_def
      mk_cluster_condition_def)

lemma ref_database_sel:
  "md_Finalizers ref_database = []" "md_DeletionTimestamp ref_database = None" "md_Conditions ref_database = []"
  "dbs_ClusterNamespace (md_Spec ref_database) = []" "DeletionPolicyRetain (md_Annotations ref_database) = False"
  by (simp_all add: ref_database_def DeletionPolicyRetain_def)

theorem database_finalizer_after_drop_witness:
  "\<exists>db'. fst (database_Reconcile ref_finalizers ref_options
       (ref_database_api (ref_database\<lparr>md_DeletionTimestamp := Some 5, md_Finalizers := [FinalizerDatabase]\<rparr>)) 7) =
     [ExecSql (drop_database_query (dbs_Database (md_Spec ref_database))), UpdateObject db'] \<and> FinalizerDatabase \<notin> set (md_Finalizers db')"
proof -
  let ?db = "ref_database\<lparr>md_DeletionTimestamp := Some 5, md_Finalizers := [FinalizerDatabase]\<rparr>"
  have "\<exists>db'. UpdateObject db' \<in> set (fst (database_Reconcile ref_finalizers ref_options (ref_database_api ?db) 7))"
    by (simp add: database_Reconcile_def ref_database_api_sel ref_database_sel database_GetClusterKey_def deleteDatabase_def
        on_log_def DropDatabase_eq do_Update_def Let_def)
  then obtain db' where db': "UpdateObject db' \<in> set (fst (database_Reconcile ref_finalizers ref_options (ref_database_api ?db) 7))" by blast
  have "md_DeletionTimestamp ?db \<noteq> None" by simp
  from database_finalizer_after_drop [OF ref_finalizers_ok ref_database_api_sel(1) this db'] show ?thesis
    by (auto simp: ref_database_api_sel ref_database_sel)
qed

theorem database_ready_after_create_witness:
  "\<exists>q ws db'. fst (database_Reconcile ref_finalizers ref_options (ref_database_api ref_database) 7) = ExecSql q # ws \<and>
     UpdateObjectStatus db' \<in> set ws \<and> FinalizerDatabase \<in> set (md_Finalizers db')"
proof -
  let ?api = "ref_database_api ref_database" and ?s = "\<lparr>ds_Obj = ref_database, ds_Log = []\<rparr>"
  let ?u = "ref_database\<lparr>md_Finalizers := [FinalizerDatabase]\<rparr>"
  let ?db = "database_UpdateCondition 7 MysqlDatabaseReady ConditionTrue ProvisionSucceeded ''Database successfully created.'' ?u"
  obtain c where c: "sa_GetCluster ?api (database_GetClusterKey ref_database) = Inr c" "IsClusterReady c" using ref_database_api_sel(5) by blast
  have "\<exists>q. createDatabase ?api ?s = (\<lparr>ds_Obj = ref_database, ds_Log = [ExecSql q]\<rparr>, Ok)"
    by (simp add: createDatabase_def ref_database_api_sel on_log_def CreateDatabaseIfNotExists_def exec_query_def NewQuery_def Let_def)
  then obtain q where q: "createDatabase ?api ?s = (\<lparr>ds_Obj = ref_database, ds_Log = [ExecSql q]\<rparr>, Ok)" by blast
  have "UpdateObjectStatus ?db \<in> set (fst (database_Reconcile ref_finalizers ref_options ?api 7))"
    by (simp add: database_Reconcile_def ref_database_api_sel ref_database_sel c q ref_finalizers_def do_Update_def updateReadyCondition_def
        do_UpdateStatus_def Let_def)
      (simp add: database_GetClusterKey_def ref_database_sel database_UpdateCondition_def update_resource_conditions_def)
  moreover have "database_ready ?db"
    by (simp add: database_ready_def database_UpdateCondition_def ref_database_sel update_resource_conditions_def)
  ultimately show ?thesis
    using database_ready_after_create [OF ref_finalizers_ok ref_database_api_sel(1)] by (fastforce simp: ref_database_api_sel)
qed

end
