(* ===== verification/Backup.thy ===== *)
theory Backup
  imports OrcReconcile
begin

text \<open>
  Backups: the wrapper of the \<^verbatim>\<open>MysqlBackup\<close> resource (\<^verbatim>\<open>pkg/internal/mysqlbackup\<close>), the syncers of the
  backup job and of the job that removes a backup from the remote storage
  (\<^verbatim>\<open>pkg/controller/mysqlbackup/internal/syncer\<close>), and the controller (\<^verbatim>\<open>pkg/controller/mysqlbackup\<close>).
  The API server, \<^verbatim>\<open>mergo.Merge\<close> and \<^verbatim>\<open>SetControllerReference\<close> are the parameter \<open>backup_api\<close>. A syncer
  reads its job (\<open>None\<close> when it does not exist), changes it and hands it to the library, which is the
  effect \<open>SyncJob\<close>; it may also change the backup in memory.
\<close>

section \<open>The resource\<close>

record backup_condition =
  bc_Type :: string
  bc_Status :: condition_status
  bc_LastTransitionTime :: time
  bc_Reason :: string
  bc_Message :: string

record mysql_backup_spec =
  bs_ClusterName :: string
  bs_BackupURL :: string
  bs_BackupSecretName :: string
  bs_RemoteDeletePolicy :: string

record mysql_backup =
  mb_Name :: string
  mb_Namespace :: string
  mb_Labels :: str_map
  mb_Finalizers :: "string list"
  mb_CreationTimestamp :: time
  mb_DeletionTimestamp :: "time option"
  mb_Spec :: mysql_backup_spec
  mb_Completed :: bool
  mb_Conditions :: "backup_condition list"

definition BackupComplete :: string where
  "BackupComplete = ''Complete''"

definition BackupFailed :: string where
  "BackupFailed = ''Failed''"

definition PolicyRetain :: string where
  "PolicyRetain = ''retain''"

definition BackupSuffix :: string where
  "BackupSuffix = ''xbackup.gz''"

definition SetDefaults_MysqlBackup :: "mysql_backup \<Rightarrow> mysql_backup" where
  "SetDefaults_MysqlBackup b =
     (if bs_RemoteDeletePolicy (mb_Spec b) = []
      then b\<lparr>mb_Spec := (mb_Spec b)\<lparr>bs_RemoteDeletePolicy := PolicyRetain\<rparr>\<rparr> else b)"

section \<open>The wrapper\<close>

definition composeBackupURL :: "mysql_backup \<Rightarrow> string \<Rightarrow> string" where
  "composeBackupURL b base =
     (if has_suffix base ''/'' then take (length base - 1) base else base) @ ''/'' @ mb_Name b @ ''.'' @ BackupSuffix"

definition GetBackupURL :: "mysql_backup \<Rightarrow> mysql_cluster \<Rightarrow> string" where
  "GetBackupURL b c =
     (if has_suffix (bs_BackupURL (mb_Spec b)) BackupSuffix then bs_BackupURL (mb_Spec b)
      else if bs_BackupURL (mb_Spec b) \<noteq> [] then composeBackupURL b (bs_BackupURL (mb_Spec b))
      else if cs_BackupURL (mc_Spec c) = [] then []
      else composeBackupURL b (cs_BackupURL (mc_Spec c)))"

text \<open>\<^verbatim>\<open>fnv.New32a\<close>: FNV-1a on 32 bits.\<close>

definition fnv_hash :: "string \<Rightarrow> 32 word" where
  "fnv_hash s = foldl (\<lambda>h ch. xor h (word_of_nat (of_char ch)) * 16777619) 2166136261 s"

definition job_name :: "nat \<Rightarrow> string \<Rightarrow> string \<Rightarrow> string" where
  "job_name limit ending name =
     (if length name \<ge> limit then take 44 name @ ''-'' @ utoa (unat (fnv_hash name)) else name) @ ending"

definition GetNameForJob :: "mysql_backup \<Rightarrow> string" where
  "GetNameForJob b = job_name 56 ''-backup'' (mb_Name b)"

definition GetNameForDeletionJob :: "mysql_backup \<Rightarrow> string" where
  "GetNameForDeletionJob b = job_name 55 ''-cleanup'' (mb_Name b)"

definition backup_SetDefaults :: "mysql_cluster \<Rightarrow> mysql_backup \<Rightarrow> mysql_backup" where
  "backup_SetDefaults c b =
     (let b1 = b\<lparr>mb_Spec := (mb_Spec b)\<lparr>bs_BackupURL := GetBackupURL b c\<rparr>\<rparr> in
      if bs_BackupSecretName (mb_Spec b1) = []
      then b1\<lparr>mb_Spec := (mb_Spec b1)\<lparr>bs_BackupSecretName := cs_BackupSecretName (mc_Spec c)\<rparr>\<rparr> else b1)"

definition mk_backup_condition :: "time \<Rightarrow> string \<Rightarrow> condition_status \<Rightarrow> string \<times> string \<Rightarrow> backup_condition" where
  "mk_backup_condition t ty s p =
     \<lparr>bc_Type = ty, bc_Status = s, bc_LastTransitionTime = t, bc_Reason = fst p, bc_Message = snd p\<rparr>"

definition backup_condExists :: "string \<Rightarrow> backup_condition list \<Rightarrow> nat option" where
  "backup_condExists ty conds = find_index (\<lambda>cond. bc_Type cond = ty) conds"

definition update_backup_conditions ::
    "time \<Rightarrow> string \<Rightarrow> condition_status \<Rightarrow> string \<times> string \<Rightarrow> backup_condition list \<Rightarrow> backup_condition list" where
  "update_backup_conditions t condType status p conds =
     (if conds = [] then [mk_backup_condition t condType status p]
      else (case backup_condExists condType conds of
              Some i \<Rightarrow>
                let cond = conds ! i in
                conds[i := mk_backup_condition (if bc_Status cond \<noteq> status then t else bc_LastTransitionTime cond) condType status p]
            | None \<Rightarrow> conds @ [mk_backup_condition t condType status p]))"

definition backup_UpdateStatusCondition ::
    "time \<Rightarrow> string \<Rightarrow> condition_status \<Rightarrow> string \<Rightarrow> string \<Rightarrow> mysql_backup \<Rightarrow> mysql_backup" where
  "backup_UpdateStatusCondition t condType status reason msg b =
     b\<lparr>mb_Conditions := update_backup_conditions t condType status (reason, msg) (mb_Conditions b)\<rparr>"

definition GetBackupCondition :: "mysql_backup \<Rightarrow> string \<Rightarrow> backup_condition option" where
  "GetBackupCondition b condType =
     (case backup_condExists condType (mb_Conditions b) of Some i \<Rightarrow> Some (mb_Conditions b ! i) | None \<Rightarrow> None)"

section \<open>Jobs\<close>

datatype job_env =
    EnvSecret string string string bool \<comment> \<open>name, secret, key, optional\<close>
  | EnvValue string string

record job_container =
  jc_Name :: string
  jc_Image :: string
  jc_ImagePullPolicy :: string
  jc_Args :: "string list"
  jc_Env :: "job_env list"
  jc_EnvFrom :: "string list"

record job_pod =
  jp_RestartPolicy :: string
  jp_Containers :: "job_container list"
  jp_ImagePullSecrets :: "string list"
  jp_ServiceAccountName :: string
  jp_Affinity :: "affinity option"
  jp_NodeSelector :: str_map
  jp_PriorityClassName :: string
  jp_Tolerations :: "k8s_raw list"

record job_condition =
  jcd_Type :: string
  jcd_Status :: condition_status
  jcd_Reason :: string
  jcd_Message :: string

record k_job =
  jb_Created :: bool
  jb_Labels :: str_map
  jb_Pod :: job_pod
  jb_Owned :: bool
  jb_Conditions :: "job_condition list"

definition empty_container :: job_container where
  "empty_container = \<lparr>jc_Name = [], jc_Image = [], jc_ImagePullPolicy = [], jc_Args = [], jc_Env = [], jc_EnvFrom = []\<rparr>"

definition empty_pod :: job_pod where
  "empty_pod = \<lparr>jp_RestartPolicy = [], jp_Containers = [], jp_ImagePullSecrets = [], jp_ServiceAccountName = [], jp_Affinity = None,
     jp_NodeSelector = Map.empty, jp_PriorityClassName = [], jp_Tolerations = []\<rparr>"

definition new_job :: k_job where
  "new_job = \<lparr>jb_Created = False, jb_Labels = Map.empty, jb_Pod = empty_pod, jb_Owned = False, jb_Conditions = []\<rparr>"

definition jobCondition :: "string \<Rightarrow> k_job \<Rightarrow> job_condition option" where
  "jobCondition condType job = find (\<lambda>c. jcd_Type c = condType) (jb_Conditions job)"

definition getJobStatus :: "k_job \<Rightarrow> bool \<times> bool" where
  "getJobStatus job =
     ((case jobCondition ''Complete'' job of Some c \<Rightarrow> jcd_Status c = ConditionTrue | None \<Rightarrow> False),
      (case jobCondition ''Failed'' job of Some c \<Rightarrow> jcd_Status c = ConditionTrue | None \<Rightarrow> False))"

text \<open>What the function of a syncer returns: \<^verbatim>\<open>syncer.ErrIgnore\<close>, another error, a panic, or the changed job.\<close>

datatype sync_result = SyncIgnore | SyncErr string | SyncPanic | SyncDone k_job

section \<open>The backup job\<close>

fun backup_candidate_loop :: "mysql_cluster \<Rightarrow> node_status list \<Rightarrow> mysql_cluster \<times> string option" where
  "backup_candidate_loop c [] = (c, None)"
| "backup_candidate_loop c (node # nodes) =
     (let (c1, master) = GetNodeCondition c (ns_Name node) NodeConditionMaster;
          (c2, replicating) = GetNodeCondition c1 (ns_Name node) NodeConditionReplicating;
          (c3, lagged) = GetNodeCondition c2 (ns_Name node) NodeConditionLagged
      in case (master, replicating, lagged) of
           (Some m, Some r, Some l) \<Rightarrow>
             if nc_Status m \<noteq> ConditionTrue \<and> nc_Status r = ConditionTrue \<and> nc_Status l \<noteq> ConditionTrue
             then (c3, Some (ns_Name node)) else backup_candidate_loop c3 nodes
         | _ \<Rightarrow> backup_candidate_loop c3 nodes)"

definition getBackupCandidate :: "mysql_cluster \<Rightarrow> string" where
  "getBackupCandidate c =
     (case backup_candidate_loop c (st_Nodes (mc_Status c)) of
        (c', Some host) \<Rightarrow> host
      | (c', None) \<Rightarrow> GetMasterHost c')"

definition backup_env :: "mysql_cluster \<Rightarrow> job_env list" where
  "backup_env c =
     (let secret = GetNameForResource c Secret; spec = mc_Spec c in
      [EnvSecret ''BACKUP_USER'' secret ''BACKUP_USER'' True, EnvSecret ''BACKUP_PASSWORD'' secret ''BACKUP_PASSWORD'' True] @
      (if cs_BackupCompressCommand spec \<noteq> [] \<and> cs_BackupDecompressCommand spec \<noteq> []
       then [EnvValue ''BACKUP_COMPRESS_COMMAND'' (join '' '' (cs_BackupCompressCommand spec))] else []) @
      (if cs_RcloneExtraArgs spec \<noteq> [] then [EnvValue ''RCLONE_EXTRA_ARGS'' (join '' '' (cs_RcloneExtraArgs spec))] else []))"

definition backup_ensurePodSpec :: "env \<Rightarrow> options \<Rightarrow> mysql_backup \<Rightarrow> mysql_cluster \<Rightarrow> job_pod \<Rightarrow> job_pod" where
  "backup_ensurePodSpec e opt b c p =
     (let containers = (if jp_Containers p = [] then [empty_container] else jp_Containers p);
          ps = cs_PodSpec (mc_Spec c);
          c0 = (hd containers)\<lparr>jc_Name := ''backup'', jc_Image := GetSidecarImage e c, jc_ImagePullPolicy := opt_ImagePullPolicy opt,
            jc_Args := [''take-backup-to'', getBackupCandidate c, GetBackupURL b c], jc_Env := backup_env c\<rparr>;
          c0' = (if bs_BackupSecretName (mb_Spec b) \<noteq> [] then c0\<lparr>jc_EnvFrom := [bs_BackupSecretName (mb_Spec b)]\<rparr> else c0);
          p1 = p\<lparr>jp_RestartPolicy := ''Never'', jp_ImagePullSecrets := [opt_ImagePullSecretName opt], jp_Containers := c0' # tl containers\<rparr>
      in p1\<lparr>jp_ImagePullSecrets := ps_ImagePullSecrets ps, jp_ServiceAccountName := ps_ServiceAccountName ps,
            jp_Affinity := (case ps_BackupAffinity ps of None \<Rightarrow> ps_Affinity ps | Some a \<Rightarrow> Some a),
            jp_NodeSelector := (case ps_BackupNodeSelector ps of None \<Rightarrow> ps_NodeSelector ps | Some s \<Rightarrow> s),
            jp_PriorityClassName := (if ps_BackupPriorityClassName ps = [] then ps_PriorityClassName ps else ps_BackupPriorityClassName ps),
            jp_Tolerations := (case ps_BackupTolerations ps of None \<Rightarrow> ps_Tolerations ps | Some t \<Rightarrow> t)\<rparr>)"

definition updateStatus :: "time \<Rightarrow> k_job \<Rightarrow> mysql_backup \<Rightarrow> mysql_backup" where
  "updateStatus now job b =
     (let b1 = (case jobCondition ''Complete'' job of
                  None \<Rightarrow> b
                | Some cond \<Rightarrow>
                    let b' = backup_UpdateStatusCondition now BackupComplete (jcd_Status cond) (jcd_Reason cond) (jcd_Message cond) b
                    in if jcd_Status cond = ConditionTrue then b'\<lparr>mb_Completed := True\<rparr> else b')
      in case jobCondition ''Failed'' job of
           None \<Rightarrow> b1
         | Some cond \<Rightarrow>
             let b' = backup_UpdateStatusCondition now BackupFailed (jcd_Status cond) (jcd_Reason cond) (jcd_Message cond) b1
             in if jcd_Status cond = ConditionTrue then b'\<lparr>mb_Completed := True\<rparr> else b')"

definition jobSyncFn :: "env \<Rightarrow> options \<Rightarrow> time \<Rightarrow> mysql_cluster \<Rightarrow> k_job \<Rightarrow> mysql_backup \<Rightarrow> mysql_backup \<times> sync_result" where
  "jobSyncFn e opt now c job b =
     (if mb_Completed b then (b, SyncIgnore)
      else if GetBackupURL b c = [] then (b, SyncErr (''can'' @ [CHR 0x27] @ ''t get backupURL''))
      else if jb_Created job then (updateStatus now job b, SyncDone job)
      else (b, SyncDone (job\<lparr>jb_Labels := [''cluster'' \<mapsto> bs_ClusterName (mb_Spec b)],
                             jb_Pod := backup_ensurePodSpec e opt b c (jb_Pod job)\<rparr>)))"

section \<open>The deletion job\<close>

definition RemoteStorageFinalizer :: string where
  "RemoteStorageFinalizer = ''backups.mysql.presslabs.org/remote-storage-cleanup''"

definition RemoteDeletionFailedEvent :: string where
  "RemoteDeletionFailedEvent = ''RemoteDeletionFailed''"

definition MustParse :: "blang \<Rightarrow> string \<Rightarrow> version option" where
  "MustParse bl s = Parse bl s"

text \<open>\<^verbatim>\<open>strings.Replace(name, "://", ":", 1)\<close>.\<close>

fun bucketForRclone :: "string \<Rightarrow> string" where
  "bucketForRclone [] = []"
| "bucketForRclone (ch # name) =
     (if has_prefix (ch # name) ''://'' then '':'' @ drop 2 name else ch # bucketForRclone name)"

definition cleanup_image :: "env \<Rightarrow> options \<Rightarrow> mysql_cluster option \<Rightarrow> string option" where
  "cleanup_image e opt cluster =
     (case cluster of
        Some c \<Rightarrow> Some (GetSidecarImage e c)
      | None \<Rightarrow>
          (case e_runtime e of
             Some rt \<Rightarrow>
               map_option (\<lambda>v. ResolverSidecarImage (rt_Resolver rt) (SidecarProfileKey (MustResolve (rt_Registry rt) v)))
                 (MustParse (e_blang e) ''8.0.30'')
           | None \<Rightarrow> Some (opt_SidecarMysql8Image opt)))"

definition RcloneConfigFile :: string where
  "RcloneConfigFile = ''/tmp/rclone.conf''"

definition cleanup_ensureContainers ::
    "env \<Rightarrow> options \<Rightarrow> mysql_backup \<Rightarrow> mysql_cluster option \<Rightarrow> job_container list option" where
  "cleanup_ensureContainers e opt b cluster =
     (let rcloneCommand = [''rclone'', ''--config='' @ RcloneConfigFile] @
            (case cluster of Some c \<Rightarrow> cs_RcloneExtraArgs (mc_Spec c) | None \<Rightarrow> []) @
            [''delete'', bucketForRclone (bs_BackupURL (mb_Spec b))]
      in map_option (\<lambda>image.
           [\<lparr>jc_Name = ''delete'', jc_Image = image, jc_ImagePullPolicy = opt_ImagePullPolicy opt, jc_Args = rcloneCommand, jc_Env = [],
             jc_EnvFrom = (if bs_BackupSecretName (mb_Spec b) \<noteq> [] then [bs_BackupSecretName (mb_Spec b)] else [])\<rparr>])
         (cleanup_image e opt cluster))"

definition cleanup_ensurePodSpec :: "env \<Rightarrow> options \<Rightarrow> mysql_backup \<Rightarrow> mysql_cluster option \<Rightarrow> job_pod option" where
  "cleanup_ensurePodSpec e opt b cluster =
     map_option (\<lambda>containers. empty_pod\<lparr>jp_RestartPolicy := ''Never'', jp_Containers := containers,
         jp_ImagePullSecrets := [opt_ImagePullSecretName opt],
         jp_ServiceAccountName := (case cluster of Some c \<Rightarrow> ps_ServiceAccountName (cs_PodSpec (mc_Spec c)) | None \<Rightarrow> [])\<rparr>)
       (cleanup_ensureContainers e opt b cluster)"

section \<open>The controller\<close>

datatype backup_event =
    SyncJob string k_job
  | ClusterEvent string string
  | UpdateBackup mysql_backup
  | UpdateBackupStatus mysql_backup

record backup_api =
  ba_Get :: "(string, mysql_backup option) result"
  ba_GetCluster :: "string \<Rightarrow> string \<Rightarrow> (string, mysql_cluster) result"
  ba_GetJob :: "backup_event list \<Rightarrow> string \<Rightarrow> (string, k_job option) result"
  ba_SaveJob :: "backup_event list \<Rightarrow> string \<Rightarrow> k_job \<Rightarrow> string option"
  ba_Update :: "backup_event list \<Rightarrow> mysql_backup \<Rightarrow> (string, mysql_backup) result"
  ba_UpdateStatus :: "backup_event list \<Rightarrow> mysql_backup \<Rightarrow> (string, mysql_backup) result"
  ba_Merge :: "job_pod \<Rightarrow> job_pod \<Rightarrow> (string, job_pod) result"
  ba_SetOwner :: "mysql_backup \<Rightarrow> string option"

definition backup_removeFinalizer :: "mysql_backup \<Rightarrow> mysql_backup option" where
  "backup_removeFinalizer b = map_option (\<lambda>fs. b\<lparr>mb_Finalizers := fs\<rparr>) (removeFinalizer (mb_Finalizers b) RemoteStorageFinalizer)"

definition backup_addFinalizer :: "mysql_backup \<Rightarrow> mysql_backup" where
  "backup_addFinalizer b = b\<lparr>mb_Finalizers := addFinalizer (mb_Finalizers b) RemoteStorageFinalizer\<rparr>"

definition create_cleanup ::
    "env \<Rightarrow> options \<Rightarrow> backup_api \<Rightarrow> mysql_backup \<Rightarrow> mysql_cluster option \<Rightarrow> k_job \<Rightarrow> sync_result" where
  "create_cleanup e opt api b cluster job =
     (case cleanup_ensurePodSpec e opt b cluster of
        None \<Rightarrow> SyncPanic
      | Some spec \<Rightarrow>
          (case ba_Merge api (jb_Pod job) spec of
             Inl err \<Rightarrow> SyncErr err
           | Inr pod \<Rightarrow>
               (case ba_SetOwner api b of
                  Some err \<Rightarrow> SyncErr err
                | None \<Rightarrow> SyncDone (job\<lparr>jb_Labels := [''backup'' \<mapsto> mb_Name b, ''cleanup-job'' \<mapsto> ''true''], jb_Pod := pod, jb_Owned := True\<rparr>))))"

text \<open>The backup, the result and the events on the cluster.\<close>

definition deletionSyncFn ::
    "env \<Rightarrow> options \<Rightarrow> backup_api \<Rightarrow> mysql_cluster option \<Rightarrow> k_job \<Rightarrow> mysql_backup \<Rightarrow>
     mysql_backup \<times> sync_result \<times> backup_event list" where
  "deletionSyncFn e opt api cluster job b =
     (if bs_RemoteDeletePolicy (mb_Spec b) = PolicyRetain then (b, SyncIgnore, [])
      else let b1 = backup_addFinalizer b in
        if mb_DeletionTimestamp b1 = None then (b1, SyncIgnore, [])
        else if (case GetBackupCondition b1 BackupFailed of Some cond \<Rightarrow> bc_Status cond = ConditionTrue | None \<Rightarrow> False)
        then (case backup_removeFinalizer b1 of Some b2 \<Rightarrow> (b2, SyncIgnore, []) | None \<Rightarrow> (b1, SyncPanic, []))
        else if bs_BackupURL (mb_Spec b1) = [] then (b1, SyncErr ''empty .spec.backupURL'', [])
        else (case (if \<not> jb_Created job then create_cleanup e opt api b1 cluster job else SyncDone job) of
                SyncDone job' \<Rightarrow>
                  let (completed, failed) = getJobStatus job';
                      evs = (if failed \<and> cluster \<noteq> None then [ClusterEvent RemoteDeletionFailedEvent ''job failed''] else [])
                  in if completed
                     then (case backup_removeFinalizer b1 of Some b2 \<Rightarrow> (b2, SyncDone job', evs) | None \<Rightarrow> (b1, SyncPanic, []))
                     else (b1, SyncDone job', evs)
              | r \<Rightarrow> (b1, r, [])))"

record backup_state =
  bst_Backup :: mysql_backup
  bst_Log :: "backup_event list"

datatype backup_outcome = BDone | BFailed string | BPanicked

type_synonym backup_run = "backup_state \<times> backup_outcome"

definition bseq :: "backup_run \<Rightarrow> (backup_state \<Rightarrow> backup_run) \<Rightarrow> backup_run" where
  "bseq r k = (case r of (s, BDone) \<Rightarrow> k s | _ \<Rightarrow> r)"

text \<open>\<^verbatim>\<open>syncer.Sync\<close> of a job: an ignored run is no error.\<close>

definition sync_job ::
    "backup_api \<Rightarrow> string \<Rightarrow> (k_job \<Rightarrow> mysql_backup \<Rightarrow> mysql_backup \<times> sync_result \<times> backup_event list) \<Rightarrow> backup_state \<Rightarrow> backup_run" where
  "sync_job api name fn s =
     (case ba_GetJob api (bst_Log s) name of
        Inl err \<Rightarrow> (s, BFailed err)
      | Inr existing \<Rightarrow>
          (case fn (case existing of Some j \<Rightarrow> j | None \<Rightarrow> new_job) (bst_Backup s) of
             (b, r, evs) \<Rightarrow>
               let s1 = s\<lparr>bst_Backup := b, bst_Log := bst_Log s @ evs\<rparr> in
               (case r of
                  SyncIgnore \<Rightarrow> (s1, BDone)
                | SyncErr err \<Rightarrow> (s1, BFailed err)
                | SyncPanic \<Rightarrow> (s1, BPanicked)
                | SyncDone job \<Rightarrow>
                    (s1\<lparr>bst_Log := bst_Log s1 @ [SyncJob name job]\<rparr>,
                     case ba_SaveJob api (bst_Log s1) name job of Some err \<Rightarrow> BFailed err | None \<Rightarrow> BDone))))"

definition delete_job_syncer :: "env \<Rightarrow> options \<Rightarrow> backup_api \<Rightarrow> mysql_cluster option \<Rightarrow> backup_state \<Rightarrow> backup_run" where
  "delete_job_syncer e opt api cluster s =
     sync_job api (GetNameForDeletionJob (bst_Backup s)) (deletionSyncFn e opt api cluster) s"

definition backup_job_syncer :: "env \<Rightarrow> options \<Rightarrow> backup_api \<Rightarrow> time \<Rightarrow> mysql_cluster \<Rightarrow> backup_state \<Rightarrow> backup_run" where
  "backup_job_syncer e opt api now c s =
     sync_job api (GetNameForJob (bst_Backup s)) (\<lambda>job b. case jobSyncFn e opt now c job b of (b', r) \<Rightarrow> (b', r, [])) s"

definition backup_write ::
    "(backup_event list \<Rightarrow> mysql_backup \<Rightarrow> (string, mysql_backup) result) \<Rightarrow> (mysql_backup \<Rightarrow> backup_event) \<Rightarrow> backup_state \<Rightarrow> backup_run" where
  "backup_write f ev s =
     (let s1 = s\<lparr>bst_Log := bst_Log s @ [ev (bst_Backup s)]\<rparr> in
      case f (bst_Log s) (bst_Backup s) of
        Inl err \<Rightarrow> (s1, BFailed err)
      | Inr b \<Rightarrow> (s1\<lparr>bst_Backup := b\<rparr>, BDone))"

definition updateBackup :: "backup_api \<Rightarrow> mysql_backup \<Rightarrow> backup_state \<Rightarrow> backup_run" where
  "updateBackup api saved s =
     bseq (if saved \<noteq> bst_Backup s then backup_write (ba_Update api) UpdateBackup s else (s, BDone)) (\<lambda>s.
       if (mb_Completed saved, mb_Conditions saved) \<noteq> (mb_Completed (bst_Backup s), mb_Conditions (bst_Backup s))
       then backup_write (ba_UpdateStatus api) UpdateBackupStatus s else (s, BDone))"

definition backup_Reconcile :: "env \<Rightarrow> options \<Rightarrow> backup_api \<Rightarrow> time \<Rightarrow> backup_event list \<times> backup_outcome" where
  "backup_Reconcile e opt api now =
     (case ba_Get api of
        Inl err \<Rightarrow> ([], BFailed err)
      | Inr None \<Rightarrow> ([], BDone)
      | Inr (Some b) \<Rightarrow>
          let saved = SetDefaults_MysqlBackup b; s = \<lparr>bst_Backup = saved, bst_Log = []\<rparr> in
          if bs_ClusterName (mb_Spec saved) = [] then ([], BFailed ''cluster name is not specified'')
          else (case (case ba_GetCluster api (bs_ClusterName (mb_Spec saved)) (mb_Namespace saved) of
                        Inl err \<Rightarrow>
                          bseq (delete_job_syncer e opt api None s) (\<lambda>s.
                          bseq (updateBackup api saved s) (\<lambda>s. (s, BFailed err)))
                      | Inr cluster \<Rightarrow>
                          bseq (delete_job_syncer e opt api (Some cluster) (s\<lparr>bst_Backup := backup_SetDefaults cluster saved\<rparr>)) (\<lambda>s.
                          bseq (backup_job_syncer e opt api now cluster s) (updateBackup api saved))) of
                  (s', out) \<Rightarrow> (bst_Log s', out)))"

section \<open>Lemmas\<close>

interpretation backup_conds: condition_store bc_Type bc_Status bc_LastTransitionTime mk_backup_condition update_backup_conditions
proof
  fix ty :: string and cs :: "backup_condition list" and i t s and p :: "string \<times> string"
  assume hit: "find_index (\<lambda>c. bc_Type c = ty) cs = Some i"
  then have "cs \<noteq> []" by auto
  with hit show "update_backup_conditions t ty s p cs =
      cs[i := mk_backup_condition (if bc_Status (cs ! i) = s then bc_LastTransitionTime (cs ! i) else t) ty s p]"
    by (auto simp: update_backup_conditions_def backup_condExists_def Let_def)
qed (auto simp: mk_backup_condition_def update_backup_conditions_def backup_condExists_def)

lemma GetBackupCondition_find: "GetBackupCondition b ty = find (\<lambda>cond. bc_Type cond = ty) (mb_Conditions b)"
  by (auto simp: GetBackupCondition_def backup_condExists_def find_index_eq_find split: option.splits)

lemma utoa_length: "n < 10 ^ k \<Longrightarrow> 0 < k \<Longrightarrow> length (utoa n) \<le> k"
proof (induction n arbitrary: k rule: utoa.induct)
  case (1 n)
  show ?case
  proof (cases "n < 10")
    case True
    then show ?thesis using "1.prems" by (subst utoa.simps) simp
  next
    case False
    then obtain k' where k: "k = Suc k'" "0 < k'" using "1.prems" by (cases k; cases "k - 1") auto
    then have "n div 10 < 10 ^ k'" using "1.prems" by (simp add: less_mult_imp_div_less)
    from "1.IH" [OF False this k(2)] False k(1) show ?thesis by (subst utoa.simps) simp
  qed
qed

lemma job_name_length:
  assumes "limit \<le> 56"
  shows "length (job_name limit ending name) \<le> max (limit - 1) 55 + length ending"
proof -
  have "unat (fnv_hash name) < 2 ^ 32" by (rule order_less_le_trans [OF unsigned_less]) simp
  then have "unat (fnv_hash name) < 10 ^ 10" by simp
  then have "length (utoa (unat (fnv_hash name))) \<le> 10" by (rule utoa_length) simp
  then show ?thesis by (auto simp: job_name_def)
qed

lemma composeBackupURL_suffix [simp]: "has_suffix (composeBackupURL b base) BackupSuffix"
  by (simp add: composeBackupURL_def has_suffix_def suffix_def)

lemma GetBackupURL_stable:
  assumes "bs_BackupURL (mb_Spec b') = GetBackupURL b c"
  shows "GetBackupURL b' c = GetBackupURL b c"
proof (cases "GetBackupURL b c = []")
  case True
  then have "cs_BackupURL (mc_Spec c) = []" "\<not> has_suffix [] BackupSuffix"
    by (auto simp: GetBackupURL_def composeBackupURL_def has_suffix_def BackupSuffix_def split: if_splits)
  with True assms show ?thesis by (simp add: GetBackupURL_def)
next
  case False
  then have "has_suffix (GetBackupURL b c) BackupSuffix" by (auto simp: GetBackupURL_def)
  with assms show ?thesis by (simp add: GetBackupURL_def [of b'])
qed

lemma bseq_simps [simp]:
  "bseq (s, BDone) k = k s" "bseq (s, BFailed err) k = (s, BFailed err)" "bseq (s, BPanicked) k = (s, BPanicked)"
  by (simp_all add: bseq_def)

lemma bseq_cases:
  obtains (stop) "bseq r k = r" "snd r \<noteq> BDone" | (go) s where "r = (s, BDone)" "bseq r k = k s"
  by (cases r; cases "snd r") (auto simp: bseq_def)

text \<open>A backup is written in the last step of a run only.\<close>

definition writes_backup :: "backup_event \<Rightarrow> bool" where
  "writes_backup ev = (case ev of UpdateBackup b \<Rightarrow> True | _ \<Rightarrow> False)"

lemma deletionSyncFn_events: "\<forall>ev \<in> set (snd (snd (deletionSyncFn e opt api cluster job b))). \<not> writes_backup ev"
  by (auto simp: deletionSyncFn_def writes_backup_def Let_def case_prod_beta split: option.splits sync_result.splits if_splits)

lemma sync_job_events:
  assumes "\<And>job b. \<forall>ev \<in> set (snd (snd (fn job b))). \<not> writes_backup ev" and "\<forall>ev \<in> set (bst_Log s). \<not> writes_backup ev"
  shows "\<forall>ev \<in> set (bst_Log (fst (sync_job api name fn s))). \<not> writes_backup ev"
proof (cases "ba_GetJob api (bst_Log s) name")
  case (Inr existing)
  let ?r = "fn (case existing of Some j \<Rightarrow> j | None \<Rightarrow> new_job) (bst_Backup s)"
  have "\<forall>ev \<in> set (snd (snd ?r)). \<not> writes_backup ev" by (rule assms(1))
  then show ?thesis using Inr assms(2)
    by (auto simp: sync_job_def Let_def writes_backup_def split: prod.splits sync_result.splits)
qed (simp add: sync_job_def assms(2))

lemma updateBackup_writes:
  assumes "\<forall>ev \<in> set (bst_Log s). \<not> writes_backup ev" and "UpdateBackup b' \<in> set (bst_Log (fst (updateBackup api saved s)))"
  shows "b' = bst_Backup s"
  using assms
  by (auto simp: updateBackup_def backup_write_def bseq_def writes_backup_def Let_def split: if_splits sum.splits)

lemma backup_failed_condition:
  "GetBackupCondition (backup_addFinalizer b) ty = GetBackupCondition b ty"
  by (simp add: GetBackupCondition_find backup_addFinalizer_def)

text \<open>When the finalizer is gone after the deletion syncer.\<close>

definition backup_is_failed :: "mysql_backup \<Rightarrow> bool" where
  "backup_is_failed b \<longleftrightarrow> (\<exists>cond. GetBackupCondition b BackupFailed = Some cond \<and> bc_Status cond = ConditionTrue)"

lemma deletionSyncFn_finalizer:
  assumes "bs_RemoteDeletePolicy (mb_Spec b) \<noteq> PolicyRetain"
    and "deletionSyncFn e opt api cluster job b = (b', r, evs)"
    and "RemoteStorageFinalizer \<notin> set (mb_Finalizers b')"
  shows "mb_DeletionTimestamp b \<noteq> None \<and> (backup_is_failed b \<or> fst (getJobStatus job))"
proof -
  let ?b = "backup_addFinalizer b"
  have has: "RemoteStorageFinalizer \<in> set (mb_Finalizers ?b)" by (simp add: backup_addFinalizer_def addFinalizer_def)
  have same: "getJobStatus job' = getJobStatus job" if "create_cleanup e opt api ?b cluster job = SyncDone job'" for job'
    using that by (auto simp: create_cleanup_def getJobStatus_def jobCondition_def split: option.splits sum.splits)
  have del: "mb_DeletionTimestamp ?b = mb_DeletionTimestamp b" by (simp add: backup_addFinalizer_def)
  show ?thesis
  proof (cases "backup_is_failed b \<or> mb_DeletionTimestamp b = None")
    case True
    then show ?thesis using assms has del
      by (auto simp: deletionSyncFn_def backup_is_failed_def backup_failed_condition Let_def split: if_splits option.splits)
  next
    case False
    then have "\<not> (case GetBackupCondition ?b BackupFailed of Some cond \<Rightarrow> bc_Status cond = ConditionTrue | None \<Rightarrow> False)"
      by (auto simp: backup_is_failed_def backup_failed_condition split: option.splits)
    with False assms has del same show ?thesis
      by (auto simp: deletionSyncFn_def Let_def case_prod_beta split: if_splits option.splits sync_result.splits)
  qed
qed

lemma jobSyncFn_finalizers: "mb_Finalizers (fst (jobSyncFn e opt now c job b)) = mb_Finalizers b"
  by (auto simp: jobSyncFn_def updateStatus_def backup_UpdateStatusCondition_def Let_def split: option.splits)

lemma backup_job_syncer_finalizers:
  "mb_Finalizers (bst_Backup (fst (backup_job_syncer e opt api now c s))) = mb_Finalizers (bst_Backup s)"
proof (cases "ba_GetJob api (bst_Log s) (GetNameForJob (bst_Backup s))")
  case (Inr existing)
  let ?job = "case existing of Some j \<Rightarrow> j | None \<Rightarrow> new_job"
  obtain b' r where fn: "jobSyncFn e opt now c ?job (bst_Backup s) = (b', r)" by (cases "jobSyncFn e opt now c ?job (bst_Backup s)")
  then have "mb_Finalizers b' = mb_Finalizers (bst_Backup s)" using jobSyncFn_finalizers by (metis fst_conv)
  then show ?thesis using Inr fn by (simp add: backup_job_syncer_def sync_job_def Let_def split: sync_result.split)
qed (simp add: backup_job_syncer_def sync_job_def)

lemma delete_job_syncer_finalizer:
  assumes "delete_job_syncer e opt api cluster s = (s', BDone)"
    and "bs_RemoteDeletePolicy (mb_Spec (bst_Backup s)) \<noteq> PolicyRetain"
    and "RemoteStorageFinalizer \<notin> set (mb_Finalizers (bst_Backup s'))"
  shows "mb_DeletionTimestamp (bst_Backup s) \<noteq> None \<and> (backup_is_failed (bst_Backup s) \<or>
    (\<exists>job. ba_GetJob api (bst_Log s) (GetNameForDeletionJob (bst_Backup s)) = Inr (Some job) \<and> fst (getJobStatus job)))"
proof -
  obtain existing where ex: "ba_GetJob api (bst_Log s) (GetNameForDeletionJob (bst_Backup s)) = Inr existing"
    using assms(1) by (auto simp: delete_job_syncer_def sync_job_def split: sum.splits)
  let ?job = "case existing of Some j \<Rightarrow> j | None \<Rightarrow> new_job"
  obtain b r evs where fn: "deletionSyncFn e opt api cluster ?job (bst_Backup s) = (b, r, evs)"
    by (cases "deletionSyncFn e opt api cluster ?job (bst_Backup s)")
  then have "bst_Backup s' = b" using assms(1) ex by (auto simp: delete_job_syncer_def sync_job_def Let_def split: sync_result.splits)
  with assms(3) deletionSyncFn_finalizer [OF assms(2) fn] ex show ?thesis
    by (cases existing) (auto simp: new_job_def getJobStatus_def jobCondition_def)
qed

lemma job_names_differ: "GetNameForJob b \<noteq> GetNameForDeletionJob b'"
proof
  assume "GetNameForJob b = GetNameForDeletionJob b'"
  then obtain x y where "x @ ''-backup'' = y @ ''-cleanup''"
    by (auto simp: GetNameForJob_def GetNameForDeletionJob_def job_name_def)
  then have "rev (x @ ''-backup'') = rev (y @ ''-cleanup'')" by simp
  then show False by simp
qed

lemma jobSyncFn_completed: "mb_Completed b \<Longrightarrow> jobSyncFn e opt now c job b = (b, SyncIgnore)"
  by (simp add: jobSyncFn_def)

text \<open>A node that backups prefer: a replica that replicates and does not lag.\<close>

definition healthy_replica :: "mysql_cluster \<Rightarrow> node_status \<Rightarrow> bool" where
  "healthy_replica c n \<longleftrightarrow>
     (\<exists>m r l. node_cond c (ns_Name n) NodeConditionMaster = Some m \<and> node_cond c (ns_Name n) NodeConditionReplicating = Some r \<and>
       node_cond c (ns_Name n) NodeConditionLagged = Some l \<and> nc_Status m \<noteq> ConditionTrue \<and> nc_Status r = ConditionTrue \<and>
       nc_Status l \<noteq> ConditionTrue)"

lemma GetNodeCondition_pair:
  "name \<in> ns_Name ` set (nodes_of c) \<Longrightarrow> GetNodeCondition c name ty = (c, node_cond c name ty)"
  using GetNodeCondition_eq [of c name ty] GetNodeCondition_present [of name c ty] by (metis prod.collapse)

lemma candidate_loop_eq:
  assumes "set nodes \<subseteq> set (nodes_of c)"
  shows "backup_candidate_loop c nodes = (c, map_option ns_Name (find (healthy_replica c) nodes))"
  using assms
proof (induction nodes)
  case (Cons n nodes)
  then have "ns_Name n \<in> ns_Name ` set (nodes_of c)" by auto
  note cond = GetNodeCondition_pair [OF this]
  from Cons have IH: "backup_candidate_loop c nodes = (c, map_option ns_Name (find (healthy_replica c) nodes))" by simp
  have hr: "healthy_replica c n \<longleftrightarrow>
    (case (node_cond c (ns_Name n) NodeConditionMaster, node_cond c (ns_Name n) NodeConditionReplicating, node_cond c (ns_Name n) NodeConditionLagged) of
       (Some m, Some r, Some l) \<Rightarrow> nc_Status m \<noteq> ConditionTrue \<and> nc_Status r = ConditionTrue \<and> nc_Status l \<noteq> ConditionTrue
     | _ \<Rightarrow> False)"
    by (auto simp: healthy_replica_def split: option.split)
  show ?case
    by (simp add: cond IH hr split: option.split)
qed simp

text \<open>The secret of the operator options is written first and then replaced by the secrets of the cluster.\<close>

lemma backup_pull_secret_replaced:
  "jp_ImagePullSecrets (backup_ensurePodSpec e opt b c p) = ps_ImagePullSecrets (cs_PodSpec (mc_Spec c))"
  by (simp add: backup_ensurePodSpec_def Let_def)

section \<open>Properties\<close>

text \<open>
  The names of the two jobs of a backup have at most 63 bytes, the limit of Kubernetes
  for a name that is also a label, whatever the name of the backup is, and they never coincide.
\<close>

theorem backup_job_names_fit:
  "length (GetNameForJob b) \<le> 63 \<and> length (GetNameForDeletionJob b) \<le> 63 \<and> GetNameForJob b \<noteq> GetNameForDeletionJob b"
  using job_name_length [of 56 "''-backup''" "mb_Name b"] job_name_length [of 55 "''-cleanup''" "mb_Name b"] job_names_differ
  by (simp add: GetNameForJob_def GetNameForDeletionJob_def)

text \<open>
  The defaults of a backup settle: the URL they write is complete (or empty, when neither
  the backup nor the cluster has one), and a second run with the same cluster changes nothing.
\<close>

theorem backup_defaults_settle:
  "backup_SetDefaults c (backup_SetDefaults c b) = backup_SetDefaults c b \<and>
   (bs_BackupURL (mb_Spec (backup_SetDefaults c b)) = [] \<longleftrightarrow> bs_BackupURL (mb_Spec b) = [] \<and> cs_BackupURL (mc_Spec c) = []) \<and>
   (bs_BackupURL (mb_Spec (backup_SetDefaults c b)) = [] \<or> has_suffix (bs_BackupURL (mb_Spec (backup_SetDefaults c b))) BackupSuffix)"
proof -
  let ?b = "backup_SetDefaults c b"
  have url: "bs_BackupURL (mb_Spec ?b) = GetBackupURL b c" by (simp add: backup_SetDefaults_def Let_def)
  have sec: "bs_BackupSecretName (mb_Spec ?b) = [] \<Longrightarrow> cs_BackupSecretName (mc_Spec c) = []" by (auto simp: backup_SetDefaults_def Let_def split: if_splits)
  have "backup_SetDefaults c ?b = ?b"
    using GetBackupURL_stable [OF url] url sec by (simp add: backup_SetDefaults_def [of c ?b] Let_def)
  moreover have "GetBackupURL b c = [] \<longleftrightarrow> bs_BackupURL (mb_Spec b) = [] \<and> cs_BackupURL (mc_Spec c) = []"
    by (auto simp: GetBackupURL_def composeBackupURL_def has_suffix_def BackupSuffix_def)
  moreover have "GetBackupURL b c = [] \<or> has_suffix (GetBackupURL b c) BackupSuffix" by (auto simp: GetBackupURL_def)
  ultimately show ?thesis unfolding url by blast
qed

text \<open>
  Property C36. The finalizer that protects the remote data of a backup with the policy \<open>delete\<close> is missing
  in a saved backup only when the backup is being deleted and either the backup failed or the job
  that removes the data from the remote storage is complete.
\<close>

theorem remote_finalizer_kept:
  assumes "ba_Get api = Inr (Some b)" and "bs_RemoteDeletePolicy (mb_Spec b) \<notin> {[], PolicyRetain}"
    and "UpdateBackup b' \<in> set (fst (backup_Reconcile e opt api now))" and "RemoteStorageFinalizer \<notin> set (mb_Finalizers b')"
  shows "mb_DeletionTimestamp b \<noteq> None \<and> (backup_is_failed b \<or>
    (\<exists>job. ba_GetJob api [] (GetNameForDeletionJob b) = Inr (Some job) \<and> fst (getJobStatus job)))"
proof -
  let ?d = "delete_job_syncer e opt api"
  have sd: "SetDefaults_MysqlBackup b = b" using assms(2) by (simp add: SetDefaults_MysqlBackup_def)
  have ev1: "\<forall>ev \<in> set (bst_Log (fst (?d cl s))). \<not> writes_backup ev" if "bst_Log s = []" for cl s
    unfolding delete_job_syncer_def using that by (intro sync_job_events deletionSyncFn_events) simp
  have ev2: "\<forall>ev \<in> set (bst_Log (fst (backup_job_syncer e opt api now c s))). \<not> writes_backup ev"
    if "\<forall>ev \<in> set (bst_Log s). \<not> writes_backup ev" for c s
    unfolding backup_job_syncer_def using that by (intro sync_job_events) (auto split: prod.split)
  show ?thesis
  proof (cases "ba_GetCluster api (bs_ClusterName (mb_Spec b)) (mb_Namespace b)")
    case (Inl err)
    let ?s = "\<lparr>bst_Backup = b, bst_Log = []\<rparr>"
    let ?run = "bseq (?d None ?s) (\<lambda>s. bseq (updateBackup api b s) (\<lambda>s. (s, BFailed err)))"
    have mem: "UpdateBackup b' \<in> set (bst_Log (fst ?run))"
      using assms(1,3) Inl sd by (auto simp: backup_Reconcile_def Let_def case_prod_beta split: if_splits)
    then obtain s1 where s1: "?d None ?s = (s1, BDone)" "UpdateBackup b' \<in> set (bst_Log (fst (updateBackup api b s1)))"
      using ev1 [of ?s None]
      by (cases rule: bseq_cases [of "?d None ?s" "\<lambda>s. bseq (updateBackup api b s) (\<lambda>s. (s, BFailed err))"])
        (auto simp: writes_backup_def bseq_def split: prod.splits backup_outcome.splits)
    have "b' = bst_Backup s1" using ev1 [of ?s None] s1 by (intro updateBackup_writes) auto
    then show ?thesis using delete_job_syncer_finalizer [OF s1(1)] assms(2,4) by auto
  next
    case (Inr c)
    let ?b = "backup_SetDefaults c b"
    let ?s = "\<lparr>bst_Backup = ?b, bst_Log = []\<rparr>"
    let ?k = "\<lambda>s. bseq (backup_job_syncer e opt api now c s) (updateBackup api b)"
    have mem: "UpdateBackup b' \<in> set (bst_Log (fst (bseq (?d (Some c) ?s) ?k)))"
      using assms(1,3) Inr sd by (auto simp: backup_Reconcile_def Let_def case_prod_beta split: if_splits)
    then obtain s1 where s1: "?d (Some c) ?s = (s1, BDone)" "UpdateBackup b' \<in> set (bst_Log (fst (?k s1)))"
      using ev1 [of ?s "Some c"] by (cases rule: bseq_cases [of "?d (Some c) ?s" ?k]) (auto simp: writes_backup_def)
    have l1: "\<forall>ev \<in> set (bst_Log s1). \<not> writes_backup ev" using ev1 [of ?s "Some c"] s1(1) by simp
    obtain s2 where s2: "backup_job_syncer e opt api now c s1 = (s2, BDone)" "UpdateBackup b' \<in> set (bst_Log (fst (updateBackup api b s2)))"
      using s1(2) ev2 [OF l1, of c]
      by (cases rule: bseq_cases [of "backup_job_syncer e opt api now c s1" "updateBackup api b"]) (auto simp: writes_backup_def)
    have "b' = bst_Backup s2" using ev2 [OF l1, of c] s2 by (intro updateBackup_writes) auto
    then have "RemoteStorageFinalizer \<notin> set (mb_Finalizers (bst_Backup s1))"
      using backup_job_syncer_finalizers [of e opt api now c s1] s2(1) assms(4) by simp
    moreover have "bs_RemoteDeletePolicy (mb_Spec ?b) = bs_RemoteDeletePolicy (mb_Spec b)" "mb_DeletionTimestamp ?b = mb_DeletionTimestamp b"
      "backup_is_failed ?b = backup_is_failed b" "GetNameForDeletionJob ?b = GetNameForDeletionJob b"
      by (simp_all add: backup_SetDefaults_def backup_is_failed_def GetBackupCondition_find GetNameForDeletionJob_def Let_def)
    ultimately show ?thesis using delete_job_syncer_finalizer [OF s1(1)] assms(2) by auto
  qed
qed

definition ref_backup :: mysql_backup where
  "ref_backup =
     \<lparr>mb_Name = ''b'', mb_Namespace = ''ns'', mb_Labels = Map.empty, mb_Finalizers = [RemoteStorageFinalizer], mb_CreationTimestamp = 1,
      mb_DeletionTimestamp = Some 5,
      mb_Spec = \<lparr>bs_ClusterName = ''db'', bs_BackupURL = ''s3://x/b.xbackup.gz'', bs_BackupSecretName = [], bs_RemoteDeletePolicy = ''delete''\<rparr>,
      mb_Completed = True, mb_Conditions = [mk_backup_condition 1 BackupFailed ConditionTrue ([], [])]\<rparr>"

definition ref_backup_api :: backup_api where
  "ref_backup_api =
     \<lparr>ba_Get = Inr (Some ref_backup), ba_GetCluster = (\<lambda>n ns. Inl ''not found''), ba_GetJob = (\<lambda>l n. Inr None),
      ba_SaveJob = (\<lambda>l n j. None), ba_Update = (\<lambda>l b. Inr b), ba_UpdateStatus = (\<lambda>l b. Inr b), ba_Merge = (\<lambda>a b. Inr b),
      ba_SetOwner = (\<lambda>b. None)\<rparr>"

theorem remote_finalizer_kept_witness:
  "\<exists>b'. UpdateBackup b' \<in> set (fst (backup_Reconcile ref_env ref_options ref_backup_api 7)) \<and> mb_Finalizers b' = [] \<and>
     mb_DeletionTimestamp ref_backup \<noteq> None \<and> (backup_is_failed ref_backup \<or>
      (\<exists>job. ba_GetJob ref_backup_api [] (GetNameForDeletionJob ref_backup) = Inr (Some job) \<and> fst (getJobStatus job)))"
proof -
  have run: "UpdateBackup (ref_backup\<lparr>mb_Finalizers := []\<rparr>) \<in> set (fst (backup_Reconcile ref_env ref_options ref_backup_api 7))"
    by (simp add: backup_Reconcile_def ref_backup_api_def ref_backup_def SetDefaults_MysqlBackup_def PolicyRetain_def delete_job_syncer_def
        sync_job_def deletionSyncFn_def backup_addFinalizer_def addFinalizer_def GetBackupCondition_find mk_backup_condition_def
        backup_removeFinalizer_def removeFinalizer_def updateBackup_def backup_write_def Let_def)
  have get: "ba_Get ref_backup_api = Inr (Some ref_backup)" by (simp add: ref_backup_api_def)
  have pol: "bs_RemoteDeletePolicy (mb_Spec ref_backup) \<notin> {[], PolicyRetain}" by (simp add: ref_backup_def PolicyRetain_def)
  from remote_finalizer_kept [OF get pol run] run show ?thesis by (intro exI [of _ "ref_backup\<lparr>mb_Finalizers := []\<rparr>"]) simp
qed

text \<open>
  A backup is taken from the first node of the status that is a replica, replicates and
  does not lag, and from the master when there is none.
\<close>

theorem backup_candidate_spec:
  "getBackupCandidate c =
     (case find (healthy_replica c) (nodes_of c) of Some n \<Rightarrow> ns_Name n | None \<Rightarrow> GetMasterHost c)"
  by (simp add: getBackupCandidate_def candidate_loop_eq split: option.split)

text \<open>
  A backup that is complete, successful or not, is not taken again: no run hands the backup
  job to the library, whatever the API server answers.
\<close>

theorem completed_backup_not_rerun:
  assumes "ba_Get api = Inr (Some b)" and "mb_Completed b"
  shows "SyncJob (GetNameForJob b) job \<notin> set (fst (backup_Reconcile e opt api now))"
proof -
  let ?bad = "SyncJob (GetNameForJob b) job"
  have keep: "mb_Completed (fst (deletionSyncFn e opt api cl j x)) = mb_Completed x \<and> mb_Name (fst (deletionSyncFn e opt api cl j x)) = mb_Name x \<and>
     ?bad \<notin> set (snd (snd (deletionSyncFn e opt api cl j x)))" for cl j x
    by (auto simp: deletionSyncFn_def backup_addFinalizer_def backup_removeFinalizer_def Let_def case_prod_beta
        split: option.splits sync_result.splits)
  have del: "?bad \<notin> set (bst_Log (fst (delete_job_syncer e opt api cl s))) \<and> mb_Completed (bst_Backup (fst (delete_job_syncer e opt api cl s))) \<and>
     mb_Name (bst_Backup (fst (delete_job_syncer e opt api cl s))) = mb_Name b"
    if "bst_Log s = []" "mb_Completed (bst_Backup s)" "mb_Name (bst_Backup s) = mb_Name b" for cl s
    using that keep [of cl] job_names_differ [of b "bst_Backup s"]
    by (auto simp: delete_job_syncer_def sync_job_def Let_def split: sum.split prod.split sync_result.split) (metis fst_conv snd_conv)+
  have jobs: "?bad \<notin> set (bst_Log (fst (backup_job_syncer e opt api now c s)))"
    if "?bad \<notin> set (bst_Log s)" "mb_Completed (bst_Backup s)" for c s
    using that by (auto simp: backup_job_syncer_def sync_job_def jobSyncFn_completed Let_def split: sum.split)
  have upd: "?bad \<notin> set (bst_Log (fst (updateBackup api saved s)))" if "?bad \<notin> set (bst_Log s)" for saved s
    using that by (auto simp: updateBackup_def backup_write_def bseq_def Let_def split: sum.split)
  have seq: "?bad \<notin> set (bst_Log (fst (bseq r k)))" if "?bad \<notin> set (bst_Log (fst r))" "\<And>s. r = (s, BDone) \<Longrightarrow> ?bad \<notin> set (bst_Log (fst (k s)))" for r k
    by (cases rule: bseq_cases [of r k]) (use that in auto)
  let ?b = "SetDefaults_MysqlBackup b"
  have b: "mb_Completed ?b" "mb_Name ?b = mb_Name b" using assms(2) by (simp_all add: SetDefaults_MysqlBackup_def)
  have b': "mb_Completed (backup_SetDefaults c ?b)" "mb_Name (backup_SetDefaults c ?b) = mb_Name b" for c
    using b by (simp_all add: backup_SetDefaults_def Let_def)
  have "?bad \<notin> set (bst_Log (fst (bseq (delete_job_syncer e opt api None \<lparr>bst_Backup = ?b, bst_Log = []\<rparr>)
      (\<lambda>s. bseq (updateBackup api ?b s) (\<lambda>s. (s, BFailed err))))))" for err
  proof (intro seq)
    fix s1 s2
    assume "delete_job_syncer e opt api None \<lparr>bst_Backup = ?b, bst_Log = []\<rparr> = (s1, BDone)"
    then have "?bad \<notin> set (bst_Log s1)" using del [of "\<lparr>bst_Backup = ?b, bst_Log = []\<rparr>" None] b by simp
    then show 1: "?bad \<notin> set (bst_Log (fst (updateBackup api ?b s1)))" by (rule upd)
    assume "updateBackup api ?b s1 = (s2, BDone)"
    with 1 show "?bad \<notin> set (bst_Log (fst (s2, BFailed err)))" by simp
  qed (use del [of "\<lparr>bst_Backup = ?b, bst_Log = []\<rparr>" None] b in simp)
  moreover have "?bad \<notin> set (bst_Log (fst (bseq (delete_job_syncer e opt api (Some c) \<lparr>bst_Backup = backup_SetDefaults c ?b, bst_Log = []\<rparr>)
      (\<lambda>s. bseq (backup_job_syncer e opt api now c s) (updateBackup api ?b)))))" for c
  proof (intro seq)
    fix s1 s2
    assume s1: "delete_job_syncer e opt api (Some c) \<lparr>bst_Backup = backup_SetDefaults c ?b, bst_Log = []\<rparr> = (s1, BDone)"
    have "?bad \<notin> set (bst_Log s1)" "mb_Completed (bst_Backup s1)"
      using del [of "\<lparr>bst_Backup = backup_SetDefaults c ?b, bst_Log = []\<rparr>" "Some c"] b' s1 by simp_all
    then show 1: "?bad \<notin> set (bst_Log (fst (backup_job_syncer e opt api now c s1)))" by (rule jobs)
    assume "backup_job_syncer e opt api now c s1 = (s2, BDone)"
    with 1 show "?bad \<notin> set (bst_Log (fst (updateBackup api ?b s2)))" by (intro upd) simp
  qed (use del [of "\<lparr>bst_Backup = backup_SetDefaults c ?b, bst_Log = []\<rparr>" "Some c"] b' in simp)
  ultimately show ?thesis
    using assms(1) by (simp add: backup_Reconcile_def Let_def case_prod_beta split: sum.split)
qed

theorem completed_backup_not_rerun_witness:
  "SyncJob (GetNameForJob ref_backup) new_job \<notin> set (fst (backup_Reconcile ref_env ref_options ref_backup_api 7))"
  by (rule completed_backup_not_rerun) (simp_all add: ref_backup_api_def ref_backup_def)

end
