(* ===== verification/BackupCron.thy ===== *)
theory BackupCron
  imports Backup "HOL-Library.Multiset"
begin

text \<open>
  Recurrent backups: the controller that keeps one cron entry per cluster
  (\<^verbatim>\<open>pkg/controller/mysqlbackupcron/mysqlbackupcron_controller.go\<close>) and the job an entry runs
  (\<^verbatim>\<open>job_backup.go\<close>). The cron library is the parameter \<open>cron_lib\<close> with its state \<open>'c\<close> and its schedules
  \<open>'s\<close>; \<open>cron_lib_ok\<close> is what it documents. The result of \<^verbatim>\<open>sort.Sort\<close>, which is not stable, is the
  argument \<open>srt\<close>. The lock around the registration makes a run of the controller one step.
\<close>

section \<open>The cron library\<close>

record cron_job =
  cj_ClusterName :: string
  cj_Namespace :: string
  cj_BackupScheduleJobsHistoryLimit :: "int option"
  cj_BackupRemoteDeletePolicy :: string

record 's cron_entry =
  cre_ID :: nat
  cre_Schedule :: 's
  cre_Job :: "cron_job option" \<comment> \<open>\<open>None\<close>: a job of another type\<close>

record ('c, 's) cron_lib =
  cr_Parse :: "string \<Rightarrow> (string, 's) result"
  cr_Entries :: "'c \<Rightarrow> 's cron_entry list"
  cr_Remove :: "nat \<Rightarrow> 'c \<Rightarrow> 'c"
  cr_Schedule :: "'s \<Rightarrow> cron_job \<Rightarrow> 'c \<Rightarrow> 'c"

definition cron_lib_ok :: "('c, 's) cron_lib \<Rightarrow> bool" where
  "cron_lib_ok lib \<longleftrightarrow>
     (\<forall>c. inj_on cre_ID (set (cr_Entries lib c))) \<and>
     (\<forall>c i. set (cr_Entries lib (cr_Remove lib i c)) = {x \<in> set (cr_Entries lib c). cre_ID x \<noteq> i}) \<and>
     (\<forall>c s j. \<exists>i. i \<notin> cre_ID ` set (cr_Entries lib c) \<and>
        set (cr_Entries lib (cr_Schedule lib s j c)) = insert \<lparr>cre_ID = i, cre_Schedule = s, cre_Job = Some j\<rparr> (set (cr_Entries lib c)))"

section \<open>The controller\<close>

definition entry_of :: "string \<Rightarrow> string \<Rightarrow> 's cron_entry \<Rightarrow> bool" where
  "entry_of name ns entry =
     (case cre_Job entry of Some j \<Rightarrow> cj_ClusterName j = name \<and> cj_Namespace j = ns | None \<Rightarrow> False)"

fun unregister_loop :: "('c, 's) cron_lib \<Rightarrow> string \<Rightarrow> string \<Rightarrow> 's cron_entry list \<Rightarrow> 'c \<Rightarrow> 'c" where
  "unregister_loop lib name ns [] c = c"
| "unregister_loop lib name ns (entry # es) c =
     unregister_loop lib name ns es (if entry_of name ns entry then cr_Remove lib (cre_ID entry) c else c)"

definition unregisterCluster :: "('c, 's) cron_lib \<Rightarrow> string \<Rightarrow> string \<Rightarrow> 'c \<Rightarrow> 'c" where
  "unregisterCluster lib name ns c = unregister_loop lib name ns (cr_Entries lib c) c"

text \<open>The loop over the entries: the state and whether the function returned.\<close>

fun schedule_loop :: "('c, 's) cron_lib \<Rightarrow> mysql_cluster \<Rightarrow> 's \<Rightarrow> 's cron_entry list \<Rightarrow> 'c \<Rightarrow> 'c \<times> bool" where
  "schedule_loop lib cluster schedule [] c = (c, False)"
| "schedule_loop lib cluster schedule (entry # es) c =
     (case cre_Job entry of
        Some j \<Rightarrow>
          if cj_ClusterName j = mc_Name cluster \<and> cj_Namespace j = mc_Namespace cluster
          then (if cre_Schedule entry \<noteq> schedule then (cr_Remove lib (cre_ID entry) c, False)
                else if cs_BackupScheduleJobsHistoryLimit (mc_Spec cluster) \<noteq> cj_BackupScheduleJobsHistoryLimit j
                then (cr_Remove lib (cre_ID entry) c, False)
                else if cs_BackupRemoteDeletePolicy (mc_Spec cluster) \<noteq> cj_BackupRemoteDeletePolicy j
                then (cr_Remove lib (cre_ID entry) c, False)
                else (c, True))
          else schedule_loop lib cluster schedule es c
      | None \<Rightarrow> schedule_loop lib cluster schedule es c)"

definition cluster_job :: "mysql_cluster \<Rightarrow> cron_job" where
  "cluster_job cluster =
     \<lparr>cj_ClusterName = mc_Name cluster, cj_Namespace = mc_Namespace cluster,
      cj_BackupScheduleJobsHistoryLimit = cs_BackupScheduleJobsHistoryLimit (mc_Spec cluster),
      cj_BackupRemoteDeletePolicy = cs_BackupRemoteDeletePolicy (mc_Spec cluster)\<rparr>"

definition updateClusterSchedule :: "('c, 's) cron_lib \<Rightarrow> mysql_cluster \<Rightarrow> 's \<Rightarrow> 'c \<Rightarrow> 'c" where
  "updateClusterSchedule lib cluster schedule c =
     (case schedule_loop lib cluster schedule (cr_Entries lib c) c of
        (c', returned) \<Rightarrow> if returned then c' else cr_Schedule lib schedule (cluster_job cluster) c')"

definition cron_Reconcile ::
    "('c, 's) cron_lib \<Rightarrow> string \<Rightarrow> string \<Rightarrow> (string, mysql_cluster option) result \<Rightarrow> 'c \<Rightarrow> 'c \<times> string option" where
  "cron_Reconcile lib name ns answer c =
     (case answer of
        Inl err \<Rightarrow> (c, Some err)
      | Inr None \<Rightarrow> (unregisterCluster lib name ns c, None)
      | Inr (Some cluster) \<Rightarrow>
          if cs_BackupSchedule (mc_Spec cluster) = [] then (unregisterCluster lib name ns c, None)
          else (case cr_Parse lib (cs_BackupSchedule (mc_Spec cluster)) of
                  Inl err \<Rightarrow> (c, Some (''failed to parse schedule: '' @ err))
                | Inr schedule \<Rightarrow> (updateClusterSchedule lib cluster schedule c, None)))"

section \<open>The job\<close>

datatype cron_event = CreateBackup mysql_backup | DeleteBackup mysql_backup

record cron_api =
  cna_ListRunning :: "cron_event list \<Rightarrow> (string, mysql_backup list) result"
  cna_List :: "cron_event list \<Rightarrow> (string, mysql_backup list) result"
  cna_Create :: "mysql_backup \<Rightarrow> string option"

definition recurrentBackupLabels :: "cron_job \<Rightarrow> str_map" where
  "recurrentBackupLabels j = [''recurrent'' \<mapsto> ''true'', ''cluster'' \<mapsto> cj_ClusterName j]"

definition scheduledBackupsRunningCount :: "cron_api \<Rightarrow> cron_event list \<Rightarrow> nat" where
  "scheduledBackupsRunningCount api l =
     (case cna_ListRunning api l of Inl err \<Rightarrow> 0 | Inr items \<Rightarrow> length items)"

text \<open>\<open>stamp\<close> is the formatted time of the run.\<close>

definition new_backup :: "string \<Rightarrow> cron_job \<Rightarrow> mysql_backup" where
  "new_backup stamp j =
     \<lparr>mb_Name = cj_ClusterName j @ ''-auto-'' @ stamp, mb_Namespace = cj_Namespace j, mb_Labels = recurrentBackupLabels j,
      mb_Finalizers = [], mb_CreationTimestamp = 0, mb_DeletionTimestamp = None,
      mb_Spec = \<lparr>bs_ClusterName = cj_ClusterName j, bs_BackupURL = [], bs_BackupSecretName = [],
        bs_RemoteDeletePolicy = cj_BackupRemoteDeletePolicy j\<rparr>,
      mb_Completed = False, mb_Conditions = []\<rparr>"

definition less_by_timestamp :: "mysql_backup \<Rightarrow> mysql_backup \<Rightarrow> bool" where
  "less_by_timestamp a b \<longleftrightarrow> mb_CreationTimestamp b < mb_CreationTimestamp a"

fun gc_loop :: "int \<Rightarrow> nat \<Rightarrow> mysql_backup list \<Rightarrow> cron_event list" where
  "gc_loop limit i [] = []"
| "gc_loop limit i (backup # bs) = (if int i \<ge> limit then [DeleteBackup backup] else []) @ gc_loop limit (i + 1) bs"

definition backupGC :: "(mysql_backup list \<Rightarrow> mysql_backup list) \<Rightarrow> cron_api \<Rightarrow> int \<Rightarrow> cron_event list \<Rightarrow> cron_event list" where
  "backupGC srt api limit l =
     (case cna_List api l of Inl err \<Rightarrow> [] | Inr items \<Rightarrow> gc_loop limit 0 (srt items))"

definition job_Run :: "(mysql_backup list \<Rightarrow> mysql_backup list) \<Rightarrow> cron_api \<Rightarrow> string \<Rightarrow> cron_job \<Rightarrow> cron_event list" where
  "job_Run srt api stamp j =
     (let l = (if scheduledBackupsRunningCount api [] > 0 then [] else [CreateBackup (new_backup stamp j)])
      in l @ (case cj_BackupScheduleJobsHistoryLimit j of Some limit \<Rightarrow> backupGC srt api limit l | None \<Rightarrow> []))"

section \<open>The schedule as a map\<close>

definition entry_key :: "'s cron_entry \<Rightarrow> (string \<times> string) option" where
  "entry_key entry = map_option (\<lambda>j. (cj_ClusterName j, cj_Namespace j)) (cre_Job entry)"

definition payload :: "'s cron_entry \<Rightarrow> 's \<times> int option \<times> string" where
  "payload entry =
     (cre_Schedule entry, cj_BackupScheduleJobsHistoryLimit (the (cre_Job entry)), cj_BackupRemoteDeletePolicy (the (cre_Job entry)))"

definition one_per_cluster :: "('c, 's) cron_lib \<Rightarrow> 'c \<Rightarrow> bool" where
  "one_per_cluster lib c \<longleftrightarrow>
     (\<forall>x \<in> set (cr_Entries lib c). \<forall>y \<in> set (cr_Entries lib c). entry_key x \<noteq> None \<and> entry_key x = entry_key y \<longrightarrow> x = y)"

text \<open>The abstract state: the schedule, the limit and the policy of every cluster with recurrent backups.\<close>

definition schedules :: "('c, 's) cron_lib \<Rightarrow> 'c \<Rightarrow> string \<times> string \<rightharpoonup> 's \<times> int option \<times> string" where
  "schedules lib c k = map_option payload (find (\<lambda>x. entry_key x = Some k) (cr_Entries lib c))"

definition spec_schedules ::
    "('c, 's) cron_lib \<Rightarrow> string \<times> string \<Rightarrow> (string, mysql_cluster option) result \<Rightarrow>
     (string \<times> string \<rightharpoonup> 's \<times> int option \<times> string) \<Rightarrow> (string \<times> string \<rightharpoonup> 's \<times> int option \<times> string)" where
  "spec_schedules lib k answer m =
     (case answer of
        Inl err \<Rightarrow> m
      | Inr None \<Rightarrow> m(k := None)
      | Inr (Some cluster) \<Rightarrow>
          if cs_BackupSchedule (mc_Spec cluster) = [] then m(k := None)
          else (case cr_Parse lib (cs_BackupSchedule (mc_Spec cluster)) of
                  Inl err \<Rightarrow> m
                | Inr s \<Rightarrow> m(k \<mapsto> (s, cs_BackupScheduleJobsHistoryLimit (mc_Spec cluster), cs_BackupRemoteDeletePolicy (mc_Spec cluster)))))"

lemma one_per_clusterD:
  "one_per_cluster lib c \<Longrightarrow> x \<in> set (cr_Entries lib c) \<Longrightarrow> y \<in> set (cr_Entries lib c) \<Longrightarrow> entry_key x = Some k \<Longrightarrow>
   entry_key y = Some k \<Longrightarrow> x = y"
  by (simp add: one_per_cluster_def)

lemma schedules_eq:
  assumes "one_per_cluster lib c"
  shows "schedules lib c k = Some p \<longleftrightarrow> (\<exists>x \<in> set (cr_Entries lib c). entry_key x = Some k \<and> payload x = p)"
proof (cases "find (\<lambda>x. entry_key x = Some k) (cr_Entries lib c)")
  case None
  then have "\<forall>x \<in> set (cr_Entries lib c). entry_key x \<noteq> Some k" by (simp add: find_None_iff)
  with None show ?thesis by (auto simp: schedules_def)
next
  case (Some x)
  then have x: "x \<in> set (cr_Entries lib c)" "entry_key x = Some k" by (auto simp: find_Some_iff)
  have "y = x" if "y \<in> set (cr_Entries lib c)" "entry_key y = Some k" for y
    by (rule one_per_clusterD [OF assms that(1) x(1) that(2) x(2)])
  with x have "(\<exists>y \<in> set (cr_Entries lib c). entry_key y = Some k \<and> payload y = p) \<longleftrightarrow> payload x = p" by blast
  then show ?thesis by (simp add: schedules_def Some)
qed

lemma schedules_same_sets:
  assumes "one_per_cluster lib c" and "one_per_cluster lib c'"
    and "\<And>k p. (\<exists>x \<in> set (cr_Entries lib c'). entry_key x = Some k \<and> payload x = p) \<longleftrightarrow> m k = Some p"
  shows "schedules lib c' = m"
proof
  fix k
  have "schedules lib c' k = Some p \<longleftrightarrow> m k = Some p" for p using schedules_eq [OF assms(2)] assms(3) by blast
  then show "schedules lib c' k = m k" by (metis not_Some_eq)
qed

lemma entry_of_key: "entry_of name ns x \<longleftrightarrow> entry_key x = Some (name, ns)"
  by (auto simp: entry_of_def entry_key_def split: option.split)

lemma unregister_loop_entries:
  assumes "cron_lib_ok lib"
  shows "set (cr_Entries lib (unregister_loop lib name ns es c)) =
    {x \<in> set (cr_Entries lib c). cre_ID x \<notin> cre_ID ` {e \<in> set es. entry_of name ns e}}"
  using assms by (induction lib name ns es c rule: unregister_loop.induct) (auto simp: cron_lib_ok_def)

lemma unregisterCluster_entries:
  assumes "cron_lib_ok lib"
  shows "set (cr_Entries lib (unregisterCluster lib name ns c)) = {x \<in> set (cr_Entries lib c). entry_key x \<noteq> Some (name, ns)}"
proof -
  have inj: "inj_on cre_ID (set (cr_Entries lib c))" using assms by (simp add: cron_lib_ok_def)
  have "cre_ID x \<notin> cre_ID ` {e \<in> set (cr_Entries lib c). entry_of name ns e} \<longleftrightarrow> \<not> entry_of name ns x"
    if "x \<in> set (cr_Entries lib c)" for x
    using that inj by (auto dest: inj_onD)
  then show ?thesis unfolding unregisterCluster_def unregister_loop_entries [OF assms] by (auto simp: entry_of_key)
qed

lemma schedule_loop_eq:
  "schedule_loop lib cluster s es c =
     (case find (\<lambda>x. entry_key x = Some (mc_Name cluster, mc_Namespace cluster)) es of
        None \<Rightarrow> (c, False)
      | Some x \<Rightarrow>
          if payload x = (s, cs_BackupScheduleJobsHistoryLimit (mc_Spec cluster), cs_BackupRemoteDeletePolicy (mc_Spec cluster))
          then (c, True) else (cr_Remove lib (cre_ID x) c, False))"
  by (induction es) (auto simp: entry_key_def payload_def split: option.split)

text \<open>The entries after an update: those of the other clusters, and one for this cluster.\<close>

lemma updateClusterSchedule_entries:
  fixes cluster :: mysql_cluster and s :: 's
  assumes "cron_lib_ok lib" and "one_per_cluster lib c"
  defines "k \<equiv> (mc_Name cluster, mc_Namespace cluster)"
    and "p \<equiv> (s, cs_BackupScheduleJobsHistoryLimit (mc_Spec cluster), cs_BackupRemoteDeletePolicy (mc_Spec cluster))"
  shows "\<exists>x. entry_key x = Some k \<and> payload x = p \<and>
    set (cr_Entries lib (updateClusterSchedule lib cluster s c)) = insert x {y \<in> set (cr_Entries lib c). entry_key y \<noteq> Some k}"
proof -
  have inj: "inj_on cre_ID (set (cr_Entries lib c))" using assms(1) by (simp add: cron_lib_ok_def)
  have added: "\<exists>x. entry_key x = Some k \<and> payload x = p \<and>
      set (cr_Entries lib (cr_Schedule lib s (cluster_job cluster) c')) = insert x (set (cr_Entries lib c'))" for c'
  proof -
    obtain i where "set (cr_Entries lib (cr_Schedule lib s (cluster_job cluster) c')) =
        insert \<lparr>cre_ID = i, cre_Schedule = s, cre_Job = Some (cluster_job cluster)\<rparr> (set (cr_Entries lib c'))"
      using assms(1) unfolding cron_lib_ok_def by meson
    then show ?thesis
      by (intro exI [of _ "\<lparr>cre_ID = i, cre_Schedule = s, cre_Job = Some (cluster_job cluster)\<rparr>"])
        (simp add: entry_key_def payload_def cluster_job_def k_def p_def)
  qed
  show ?thesis
  proof (cases "find (\<lambda>x. entry_key x = Some k) (cr_Entries lib c)")
    case None
    then have "{y \<in> set (cr_Entries lib c). entry_key y \<noteq> Some k} = set (cr_Entries lib c)" by (auto simp: find_None_iff)
    with None added [of c] show ?thesis by (simp add: updateClusterSchedule_def schedule_loop_eq k_def)
  next
    case (Some x)
    then have x: "x \<in> set (cr_Entries lib c)" "entry_key x = Some k" by (auto simp: find_Some_iff)
    have others: "{y \<in> set (cr_Entries lib c). entry_key y \<noteq> Some k} = set (cr_Entries lib c) - {x}"
      using x assms(2) by (auto simp: one_per_cluster_def)
    show ?thesis
    proof (cases "payload x = p")
      case True
      with Some x others show ?thesis
        by (intro exI [of _ x]) (auto simp: updateClusterSchedule_def schedule_loop_eq k_def p_def)
    next
      case False
      have "set (cr_Entries lib (cr_Remove lib (cre_ID x) c)) = set (cr_Entries lib c) - {x}"
        using assms(1) x inj by (auto simp: cron_lib_ok_def dest: inj_onD)
      with False Some others added [of "cr_Remove lib (cre_ID x) c"] show ?thesis
        by (simp add: updateClusterSchedule_def schedule_loop_eq k_def p_def)
    qed
  qed
qed

lemma gc_loop_eq: "0 \<le> limit \<Longrightarrow> gc_loop limit i bs = map DeleteBackup (drop (nat limit - i) bs)"
proof (induction limit i bs rule: gc_loop.induct)
  case (2 limit i backup bs)
  show ?case
  proof (cases "limit \<le> int i")
    case True
    then have "nat limit - i = 0" "nat limit - (i + 1) = 0" by simp_all
    with True 2 show ?thesis by simp
  next
    case False
    then have "nat limit - i = Suc (nat limit - (i + 1))" by simp
    with False 2 show ?thesis by simp
  qed
qed simp

text \<open>What \<^verbatim>\<open>sort.Sort\<close> promises for the order of the backups: newest first.\<close>

definition sort_ok :: "(mysql_backup list \<Rightarrow> mysql_backup list) \<Rightarrow> bool" where
  "sort_ok srt \<longleftrightarrow> (\<forall>xs. mset (srt xs) = mset xs \<and> sorted_wrt (\<lambda>a b. \<not> less_by_timestamp b a) (srt xs))"

text \<open>A cron whose entries are numbered by their position.\<close>

definition ref_cron :: "(('s \<times> cron_job option) option list, 's) cron_lib" where
  "ref_cron =
     \<lparr>cr_Parse = (\<lambda>s. Inl ''no schedule''),
      cr_Entries = (\<lambda>c. concat (map (\<lambda>(i, x). case x of Some (s, j) \<Rightarrow> [\<lparr>cre_ID = i, cre_Schedule = s, cre_Job = j\<rparr>] | None \<Rightarrow> []) (enumerate 0 c))),
      cr_Remove = (\<lambda>i c. c[i := None]), cr_Schedule = (\<lambda>s j c. c @ [Some (s, Some j)])\<rparr>"

lemma ref_cron_entries:
  "set (cr_Entries ref_cron c) = {\<lparr>cre_ID = i, cre_Schedule = s, cre_Job = j\<rparr> | i s j. i < length c \<and> c ! i = Some (s, j)}"
  by (fastforce simp: ref_cron_def in_set_enumerate_eq image_iff split: option.splits)

lemma ref_cron_ok: "cron_lib_ok ref_cron"
  unfolding cron_lib_ok_def
proof (intro conjI allI)
  fix c :: "('a \<times> cron_job option) option list" and i s j
  show "inj_on cre_ID (set (cr_Entries ref_cron c))" by (auto simp: inj_on_def ref_cron_entries)
  have "cr_Remove ref_cron i c = c[i := None]" by (simp add: ref_cron_def)
  then show "set (cr_Entries ref_cron (cr_Remove ref_cron i c)) = {x \<in> set (cr_Entries ref_cron c). cre_ID x \<noteq> i}"
    by (auto simp: ref_cron_entries) (metis nth_list_update nth_list_update_neq option.distinct(1))+
  have "cr_Schedule ref_cron s j c = c @ [Some (s, Some j)]" by (simp add: ref_cron_def)
  then show "\<exists>i. i \<notin> cre_ID ` set (cr_Entries ref_cron c) \<and>
      set (cr_Entries ref_cron (cr_Schedule ref_cron s j c)) = insert \<lparr>cre_ID = i, cre_Schedule = s, cre_Job = Some j\<rparr> (set (cr_Entries ref_cron c))"
    by (intro exI [of _ "length c"]) (auto simp: ref_cron_entries nth_append less_Suc_eq split: if_splits)
qed

section \<open>Properties\<close>

text \<open>
  Property C37. The cron entries implement a map from clusters to their schedule, limit and policy: with at
  most one entry per cluster before, a run of the controller leaves at most one, and changes the map
  at the key of the cluster as the answer of the API server says (removed when the cluster is gone or
  its schedule empty, set when the schedule is valid, unchanged on an error).
\<close>

theorem cron_refines_schedules:
  assumes "cron_lib_ok lib" and "one_per_cluster lib c"
    and "\<And>cluster. answer = Inr (Some cluster) \<Longrightarrow> mc_Name cluster = name \<and> mc_Namespace cluster = ns"
  shows "one_per_cluster lib (fst (cron_Reconcile lib name ns answer c)) \<and>
    schedules lib (fst (cron_Reconcile lib name ns answer c)) = spec_schedules lib (name, ns) answer (schedules lib c)"
proof -
  let ?E = "set (cr_Entries lib c)"
  have un: "one_per_cluster lib (unregisterCluster lib name ns c) \<and>
    schedules lib (unregisterCluster lib name ns c) = (schedules lib c)((name, ns) := None)"
  proof
    show one: "one_per_cluster lib (unregisterCluster lib name ns c)"
      using assms(2) by (auto simp: one_per_cluster_def unregisterCluster_entries [OF assms(1)])
    show "schedules lib (unregisterCluster lib name ns c) = (schedules lib c)((name, ns) := None)"
      by (rule schedules_same_sets [OF assms(2) one])
        (auto simp: unregisterCluster_entries [OF assms(1)] schedules_eq [OF assms(2)])
  qed
  have up: "one_per_cluster lib (updateClusterSchedule lib cluster s c) \<and>
    schedules lib (updateClusterSchedule lib cluster s c) =
      (schedules lib c)((name, ns) \<mapsto> (s, cs_BackupScheduleJobsHistoryLimit (mc_Spec cluster), cs_BackupRemoteDeletePolicy (mc_Spec cluster)))"
    if ans: "answer = Inr (Some cluster)" for cluster s
  proof -
    obtain x where x: "entry_key x = Some (name, ns)"
      "payload x = (s, cs_BackupScheduleJobsHistoryLimit (mc_Spec cluster), cs_BackupRemoteDeletePolicy (mc_Spec cluster))"
      "set (cr_Entries lib (updateClusterSchedule lib cluster s c)) = insert x {y \<in> ?E. entry_key y \<noteq> Some (name, ns)}"
      using updateClusterSchedule_entries [OF assms(1,2), of cluster s] assms(3) [OF ans] by auto
    have one: "one_per_cluster lib (updateClusterSchedule lib cluster s c)"
      using assms(2) x(1) by (auto simp: one_per_cluster_def x(3))
    moreover have "schedules lib (updateClusterSchedule lib cluster s c) =
      (schedules lib c)((name, ns) \<mapsto> (s, cs_BackupScheduleJobsHistoryLimit (mc_Spec cluster), cs_BackupRemoteDeletePolicy (mc_Spec cluster)))"
      by (rule schedules_same_sets [OF assms(2) one]) (auto simp: x schedules_eq [OF assms(2)])
    ultimately show ?thesis ..
  qed
  show ?thesis
    using un up assms(2) by (auto simp: cron_Reconcile_def spec_schedules_def split: sum.split option.split)
qed

theorem cron_refines_schedules_witness:
  "\<exists>c :: (nat \<times> cron_job option) option list. schedules ref_cron c (''db'', ''ns'') \<noteq> None \<and>
     schedules ref_cron (fst (cron_Reconcile ref_cron ''db'' ''ns'' (Inr (Some ref_cluster)) c)) (''db'', ''ns'') = None"
proof -
  let ?c = "[Some (1 :: nat, Some (cluster_job ref_cluster))]"
  have one: "one_per_cluster ref_cron ?c" by (auto simp: one_per_cluster_def ref_cron_entries)
  have old: "schedules ref_cron ?c (''db'', ''ns'') \<noteq> None"
    by (simp add: schedules_def ref_cron_def entry_key_def cluster_job_def ref_cluster_def)
  have name: "mc_Name cluster = ''db'' \<and> mc_Namespace cluster = ''ns''" if "Inr (Some ref_cluster) = Inr (Some cluster)" for cluster
    using that by (auto simp: ref_cluster_def)
  from cron_refines_schedules [OF ref_cron_ok one name, of "Inr (Some ref_cluster)"] old show ?thesis
    by (intro exI [of _ ?c]) (simp add: spec_schedules_def ref_cluster_def ref_spec_def)
qed

text \<open>
  A run of the recurrent job creates a backup exactly when none is reported as running, and
  with a limit it then deletes all listed backups but the newest ones: as many as the limit are kept,
  and no deleted backup is newer than a kept one.
\<close>

theorem recurrent_backups_kept:
  assumes "sort_ok srt" and "cj_BackupScheduleJobsHistoryLimit j = Some limit" and "0 \<le> limit"
    and "start = (if scheduledBackupsRunningCount api [] > 0 then [] else [CreateBackup (new_backup stamp j)])"
    and "cna_List api start = Inr items"
  shows "\<exists>kept deleted. job_Run srt api stamp j = start @ map DeleteBackup deleted \<and> mset items = mset kept + mset deleted \<and>
    length kept = min (nat limit) (length items) \<and>
    (\<forall>d \<in> set deleted. \<forall>k \<in> set kept. mb_CreationTimestamp d \<le> mb_CreationTimestamp k)"
proof -
  let ?xs = "srt items" and ?n = "nat limit"
  have srt: "mset ?xs = mset items" "sorted_wrt (\<lambda>a b. \<not> less_by_timestamp b a) ?xs" using assms(1) by (auto simp: sort_ok_def)
  have len: "length ?xs = length items" using srt(1) by (rule mset_eq_length)
  have "sorted_wrt (\<lambda>a b. \<not> less_by_timestamp b a) (take ?n ?xs @ drop ?n ?xs)" using srt(2) by simp
  then have "\<forall>d \<in> set (drop ?n ?xs). \<forall>k \<in> set (take ?n ?xs). mb_CreationTimestamp d \<le> mb_CreationTimestamp k"
    unfolding sorted_wrt_append less_by_timestamp_def by fastforce
  moreover have "mset items = mset (take ?n ?xs) + mset (drop ?n ?xs)"
    using srt(1) by (metis append_take_drop_id mset_append)
  moreover have "job_Run srt api stamp j = start @ map DeleteBackup (drop ?n ?xs)"
    using assms(2-5) gc_loop_eq [OF assms(3), of 0 ?xs] by (simp add: job_Run_def backupGC_def Let_def)
  moreover have "length (take ?n ?xs) = min ?n (length items)" using len by simp
  ultimately show ?thesis by blast
qed

theorem recurrent_backups_kept_witness:
  "\<exists>(kept :: mysql_backup list) deleted. job_Run (rev \<circ> sort_key mb_CreationTimestamp)
      \<lparr>cna_ListRunning = (\<lambda>l. Inr []), cna_List = (\<lambda>l. Inr [ref_backup, ref_backup\<lparr>mb_CreationTimestamp := 2\<rparr>]), cna_Create = (\<lambda>b. None)\<rparr> ''t''
      ((cluster_job ref_cluster)\<lparr>cj_BackupScheduleJobsHistoryLimit := Some 1\<rparr>) =
    CreateBackup (new_backup ''t'' ((cluster_job ref_cluster)\<lparr>cj_BackupScheduleJobsHistoryLimit := Some 1\<rparr>)) # map DeleteBackup deleted \<and>
    length kept = 1 \<and> length deleted = 1"
proof -
  let ?api = "\<lparr>cna_ListRunning = (\<lambda>l. Inr []), cna_List = (\<lambda>l. Inr [ref_backup, ref_backup\<lparr>mb_CreationTimestamp := 2\<rparr>]), cna_Create = (\<lambda>b. None)\<rparr>"
  let ?j = "(cluster_job ref_cluster)\<lparr>cj_BackupScheduleJobsHistoryLimit := Some 1\<rparr>"
  let ?items = "[ref_backup, ref_backup\<lparr>mb_CreationTimestamp := 2\<rparr>]"
  have ok: "sort_ok (rev \<circ> sort_key mb_CreationTimestamp)"
    unfolding sort_ok_def
  proof (intro allI conjI)
    fix xs :: "mysql_backup list"
    have "sorted (map mb_CreationTimestamp (sort_key mb_CreationTimestamp xs))" by simp
    then show "sorted_wrt (\<lambda>a b. \<not> less_by_timestamp b a) ((rev \<circ> sort_key mb_CreationTimestamp) xs)"
      unfolding less_by_timestamp_def by (simp add: sorted_map sorted_wrt_rev not_less)
  qed simp
  have "\<exists>kept deleted. job_Run (rev \<circ> sort_key mb_CreationTimestamp) ?api ''t'' ?j = [CreateBackup (new_backup ''t'' ?j)] @ map DeleteBackup deleted \<and>
      mset ?items = mset kept + mset deleted \<and> length kept = min (nat 1) (length ?items) \<and>
      (\<forall>d \<in> set deleted. \<forall>k \<in> set kept. mb_CreationTimestamp d \<le> mb_CreationTimestamp k)"
    by (rule recurrent_backups_kept [OF ok]) (simp_all add: scheduledBackupsRunningCount_def)
  then obtain kept deleted where kd: "job_Run (rev \<circ> sort_key mb_CreationTimestamp) ?api ''t'' ?j = CreateBackup (new_backup ''t'' ?j) # map DeleteBackup deleted"
    "mset ?items = mset kept + mset deleted" "length kept = 1"
    by auto
  from kd(2) have "length kept + length deleted = 2" by (metis mset_append size_mset length_append length_Cons list.size(3) One_nat_def Suc_1)
  with kd(3) have "length deleted = 1" by linarith
  with kd(1,3) show ?thesis by blast
qed

end
