(* ===== verification/StatefulSet.thy ===== *)
theory StatefulSet
  imports VersionUpgrade NodeCtl
begin

text \<open>
  The stateful set of a cluster: \<^verbatim>\<open>statefullset.go\<close>, \<^verbatim>\<open>container_security_context.go\<close>,
  \<^verbatim>\<open>podspec_defaults.go\<close> and \<^verbatim>\<open>statefulset_object_syncer.go\<close> under
  \<^verbatim>\<open>pkg/controller/mysqlcluster/internal/syncer\<close>, with the constants of \<^verbatim>\<open>settings.go\<close>.

  The object is the record \<open>sts_object\<close>; \<open>sts_view\<close> is the part of it that the version code reads. Three pieces of
  library code are parameters, collected in \<open>sts_lib\<close>: \<^verbatim>\<open>IntOrString.IntValue\<close>, the defaults that the scheme
  applies to a pod and \<^verbatim>\<open>SetControllerReference\<close>. The template of the pods shares a non-empty map of annotations
  with the spec of the cluster in memory, so that the keys the syncer adds show up there as well: the syncer returns
  the changed cluster. (It shares the security contexts and ports of the user's containers too; there it stores
  what a second run would compute.)
\<close>

section \<open>Constants\<close>

definition DQ :: string where "DQ = [CHR 0x22]"

definition SQ :: string where "SQ = [CHR 0x27]"

definition confVolumeName :: string where [const_defs]: "confVolumeName = ''conf''"

definition confMapVolumeName :: string where [const_defs]: "confMapVolumeName = ''config-map''"

definition dataVolumeName :: string where [const_defs]: "dataVolumeName = ''data''"

definition tmpfsVolumeName :: string where [const_defs]: "tmpfsVolumeName = ''tmp''"

definition containerDatadirChownName :: string where [const_defs]: "containerDatadirChownName = DatadirChownInitContainerName"

definition containerCloneAndInitName :: string where [const_defs]: "containerCloneAndInitName = ''init''"

definition containerMySQLInitName :: string where [const_defs]: "containerMySQLInitName = ''mysql-init-only''"

definition containerSidecarName :: string where [const_defs]: "containerSidecarName = ''sidecar''"

definition containerMysqlName :: string where [const_defs]: "containerMysqlName = ''mysql''"

definition containerExporterName :: string where [const_defs]: "containerExporterName = ''metrics-exporter''"

definition containerHeartBeatName :: string where [const_defs]: "containerHeartBeatName = ''pt-heartbeat''"

definition containerKillerName :: string where [const_defs]: "containerKillerName = ''pt-kill''"

definition MysqlPortName :: string where "MysqlPortName = ''mysql''"

definition MysqlPort :: int where "MysqlPort = 3306"

definition SidecarServerPortName :: string where "SidecarServerPortName = ''sidecar-http''"

definition SidecarServerPort :: int where "SidecarServerPort = 8080"

definition SidecarServerProbePath :: string where "SidecarServerProbePath = ''/health''"

definition ExporterPortName :: string where "ExporterPortName = ''prometheus''"

definition ExporterPort :: int where "ExporterPort = 9125"

definition ExporterPath :: string where "ExporterPath = ''/metrics''"

definition MetricsExporterMySQLUser :: string where "MetricsExporterMySQLUser = ''sys_exporter''"

definition ConfVolumeMountPath :: string where [const_defs]: "ConfVolumeMountPath = ''/etc/mysql''"

definition DataVolumeMountPath :: string where [const_defs]: "DataVolumeMountPath = ''/var/lib/mysql''"

definition TmpfsVolumeMountPath :: string where [const_defs]: "TmpfsVolumeMountPath = ''/tmp''"

definition ConfMapVolumeMountPath :: string where [const_defs]: "ConfMapVolumeMountPath = ''/mnt/conf''"

definition confClientPath :: string where "confClientPath = ''/etc/mysql/client.conf''"

definition ConfHeartBeatPath :: string where "ConfHeartBeatPath = ''/etc/mysql/heartbeat.conf''"

definition ConfPtKillPath :: string where "ConfPtKillPath = ''/etc/mysql/pt-kill.conf''"

definition shPreStopFile :: string where "shPreStopFile = ''pre-shutdown-ha.sh''"

section \<open>Objects\<close>

record pod_security_context =
  psc_FSGroup :: "int option"
  psc_RunAsUser :: "int option"

record pod_template =
  pt_InitContainers :: "container list"
  pt_Containers :: "container list"
  pt_Volumes :: "volume list"
  pt_Affinity :: "affinity option"
  pt_ImagePullSecrets :: "string list"
  pt_NodeSelector :: str_map
  pt_PriorityClassName :: string
  pt_Tolerations :: "k8s_raw list"
  pt_ServiceAccountName :: string
  pt_SecurityContext :: "pod_security_context option"

record owner_reference =
  or_APIVersion :: string
  or_Kind :: string
  or_Name :: string
  or_UID :: string
  or_Controller :: bool

record claim_template =
  vct_Name :: string
  vct_OwnerReferences :: "owner_reference list"
  vct_Spec :: pvc_spec

record sts_object =
  so_Created :: bool
  so_ReadyReplicas :: int
  so_Replicas :: "int option"
  so_Selector :: str_map
  so_ServiceName :: string
  so_TemplateLabels :: str_map
  so_TemplateAnnotations :: str_map
  so_Pod :: pod_template
  so_VolumeClaimTemplates :: "claim_template list"

definition sts_view :: "sts_object \<Rightarrow> stateful_set" where
  "sts_view o' =
     \<lparr>sts_Containers = pt_Containers (so_Pod o'), sts_InitContainers = pt_InitContainers (so_Pod o'),
      sts_ReadyReplicas = so_ReadyReplicas o', sts_Replicas = so_Replicas o'\<rparr>"

record sts_lib =
  sl_IntValue :: "int_or_string \<Rightarrow> int"
  sl_Default :: "pod_template \<Rightarrow> pod_template"
  sl_SetController :: "sts_object \<Rightarrow> string option"

text \<open>What the syncer keeps: the cluster, the revisions, the options and the version of this run.\<close>

record sfs_syncer =
  sy_cluster :: mysql_cluster
  sy_configMapRevision :: string
  sy_secretRevision :: string
  sy_opt :: options
  sy_rolloutVersion :: version

abbreviation sy_spec :: "sfs_syncer \<Rightarrow> mysql_cluster_spec" where
  "sy_spec s \<equiv> mc_Spec (sy_cluster s)"

abbreviation sy_pod :: "sfs_syncer \<Rightarrow> pod_spec" where
  "sy_pod s \<equiv> cs_PodSpec (mc_Spec (sy_cluster s))"

section \<open>Parts of a container\<close>

definition isCloneAndInit :: "string \<Rightarrow> bool" where
  "isCloneAndInit name \<longleftrightarrow> name = containerCloneAndInitName"

definition isSidecar :: "string \<Rightarrow> bool" where
  "isSidecar name \<longleftrightarrow> name = containerSidecarName"

definition serverImageForVersion :: "env \<Rightarrow> sfs_syncer \<Rightarrow> version \<Rightarrow> string" where
  "serverImageForVersion e s v =
     (case ServerImage e (sy_opt s) v (Some (sy_spec s)) of
        Inl err \<Rightarrow> GetMysqlImage e (sy_cluster s)
      | Inr img \<Rightarrow> img)"

definition sidecarImageForVersion :: "env \<Rightarrow> sfs_syncer \<Rightarrow> version \<Rightarrow> string" where
  "sidecarImageForVersion e s v = SidecarImageFor e v (cs_SidecarImage (sy_spec s))"

definition env_value :: "string \<Rightarrow> string \<Rightarrow> env_var" where
  "env_value name v = \<lparr>ev_Name = name, ev_Value = v, ev_ValueFrom = None\<rparr>"

definition env_field :: "string \<Rightarrow> string \<Rightarrow> env_var" where
  "env_field name path = \<lparr>ev_Name = name, ev_Value = [], ev_ValueFrom = Some (FieldRef ''v1'' path)\<rparr>"

definition envVarFromSecret :: "string \<Rightarrow> string \<Rightarrow> string \<Rightarrow> bool \<Rightarrow> env_var" where
  "envVarFromSecret sctName name key opt =
     \<lparr>ev_Name = name, ev_Value = [], ev_ValueFrom = Some (SecretKeyRef sctName key opt)\<rparr>"

definition pod_env :: "env \<Rightarrow> sfs_syncer \<Rightarrow> env_var list" where
  "pod_env e s =
     [env_field ''MY_NAMESPACE'' ''metadata.namespace'',
      env_field ''MY_POD_NAME'' ''metadata.name'',
      env_field ''MY_POD_IP'' ''status.podIP'',
      env_value ''MY_SERVICE_NAME'' (GetNameForResource (sy_cluster s) HeadlessSVC),
      env_value ''MY_CLUSTER_NAME'' (mc_Name (sy_cluster s)),
      env_value ''MY_FQDN'' ''$(MY_POD_NAME).$(MY_SERVICE_NAME).$(MY_NAMESPACE)'',
      env_value ''MY_MYSQL_VERSION'' (version_String (e_blang e) (sy_rolloutVersion s))]"

definition option_env :: "sfs_syncer \<Rightarrow> string \<Rightarrow> env_var list" where
  "option_env s name =
     (let spec = sy_spec s in
      (if cs_InitBucketURL spec \<noteq> [] \<and> isCloneAndInit name then [env_value ''INIT_BUCKET_URI'' (cs_InitBucketURL spec)] else []) @
      (case cs_ServerIDOffset spec of Some i \<Rightarrow> [env_value ''MY_SERVER_ID_OFFSET'' (itoa i)] | None \<Rightarrow> []) @
      (if cs_BackupCompressCommand spec \<noteq> [] \<and> cs_BackupDecompressCommand spec \<noteq> [] \<and> isCloneAndInit name
       then [env_value ''BACKUP_DECOMPRESS_COMMAND'' (join '' '' (cs_BackupDecompressCommand spec))] else []) @
      (if cs_RcloneExtraArgs spec \<noteq> [] \<and> (isCloneAndInit name \<or> isSidecar name)
       then [env_value ''RCLONE_EXTRA_ARGS'' (join '' '' (cs_RcloneExtraArgs spec))] else []) @
      (if cs_XbstreamExtraArgs spec \<noteq> [] \<and> (isCloneAndInit name \<or> isSidecar name)
       then [env_value ''XBSTREAM_EXTRA_ARGS'' (join '' '' (cs_XbstreamExtraArgs spec))] else []) @
      (if cs_XtrabackupExtraArgs spec \<noteq> [] \<and> isSidecar name
       then [env_value ''XTRABACKUP_EXTRA_ARGS'' (join '' '' (cs_XtrabackupExtraArgs spec))] else []) @
      (if cs_XtrabackupPrepareExtraArgs spec \<noteq> [] \<and> isCloneAndInit name
       then [env_value ''XTRABACKUP_PREPARE_EXTRA_ARGS'' (join '' '' (cs_XtrabackupPrepareExtraArgs spec))] else []) @
      (if cs_XtrabackupTargetDir spec \<noteq> [] \<and> isSidecar name
       then [env_value ''XTRABACKUP_TARGET_DIR'' (cs_XtrabackupTargetDir spec)] else []) @
      (if cs_InitFileExtraSQL spec \<noteq> [] \<and> isCloneAndInit name
       then [env_value ''INITFILE_EXTRA_SQL'' (join '';'' (cs_InitFileExtraSQL spec))] else []))"

definition container_env :: "sfs_syncer \<Rightarrow> string \<Rightarrow> env_var list" where
  "container_env s name =
     (let sctOpName = GetNameForResource (sy_cluster s) Secret in
      if name = containerExporterName
      then [envVarFromSecret sctOpName ''MYSQLD_EXPORTER_PASSWORD'' ''METRICS_EXPORTER_PASSWORD'' False]
      else if name = containerMySQLInitName then [env_value ''MYSQL_INIT_ONLY'' ''1'']
      else if name = containerCloneAndInitName
      then [envVarFromSecret sctOpName ''BACKUP_USER'' ''BACKUP_USER'' True,
            envVarFromSecret sctOpName ''BACKUP_PASSWORD'' ''BACKUP_PASSWORD'' True]
      else if name = containerMysqlName
      then [env_value ''ORCH_CLUSTER_ALIAS'' (GetClusterAlias (sy_cluster s)),
            env_value ''ORCH_HTTP_API'' (opt_OrchestratorURI (sy_opt s))]
      else [])"

definition credential_env :: "env \<Rightarrow> sfs_syncer \<Rightarrow> string \<Rightarrow> env_var list" where
  "credential_env e s name =
     (let sctName = cs_SecretName (sy_spec s) in
      if name = containerMySQLInitName \<or>
         \<not> WantsPerconaInitContainerFor e (sy_cluster s) (sy_rolloutVersion s) \<and> name = containerMysqlName
      then [envVarFromSecret sctName ''MYSQL_ROOT_PASSWORD'' ''ROOT_PASSWORD'' False,
            envVarFromSecret sctName ''MYSQL_USER'' ''USER'' True,
            envVarFromSecret sctName ''MYSQL_PASSWORD'' ''PASSWORD'' True,
            envVarFromSecret sctName ''MYSQL_DATABASE'' ''DATABASE'' True]
      else [])"

definition getEnvFor :: "env \<Rightarrow> sfs_syncer \<Rightarrow> string \<Rightarrow> env_var list" where
  "getEnvFor e s name = pod_env e s @ option_env s name @ container_env s name @ credential_env e s name"

definition getEnvSourcesFor :: "sfs_syncer \<Rightarrow> string \<Rightarrow> string list" where
  "getEnvSourcesFor s name =
     (if isCloneAndInit name \<and> cs_InitBucketSecretName (sy_spec s) \<noteq> [] then [cs_InitBucketSecretName (sy_spec s)] else []) @
     (if isCloneAndInit name \<or> isSidecar name then [GetNameForResource (sy_cluster s) Secret] else [])"

definition mount :: "string \<Rightarrow> string \<Rightarrow> bool \<Rightarrow> volume_mount" where
  "mount name path ro = \<lparr>vm_Name = name, vm_MountPath = path, vm_ReadOnly = ro\<rparr>"

definition getVolumeMountsFor :: "sfs_syncer \<Rightarrow> string \<Rightarrow> volume_mount list option" where
  "getVolumeMountsFor s name =
     (let tmpfs = (\<lambda>ro. if cs_TmpfsSize (sy_spec s) \<noteq> None then [mount tmpfsVolumeName DataVolumeMountPath ro] else []) in
      if name = containerDatadirChownName then Some [mount dataVolumeName DataVolumeMountPath False]
      else if name = containerCloneAndInitName
      then Some [mount confVolumeName ConfVolumeMountPath False, mount confMapVolumeName ConfMapVolumeMountPath False,
                 mount dataVolumeName DataVolumeMountPath False]
      else if name = containerMysqlName \<or> name = containerSidecarName \<or> name = containerMySQLInitName
      then Some ([mount confVolumeName ConfVolumeMountPath False, mount dataVolumeName DataVolumeMountPath False] @
                 tmpfs False @ ps_VolumeMounts (sy_pod s))
      else if name = containerHeartBeatName \<or> name = containerKillerName
      then Some ([mount confVolumeName ConfVolumeMountPath False, mount dataVolumeName DataVolumeMountPath True] @ tmpfs True)
      else None)"

definition ensureResources :: "sfs_syncer \<Rightarrow> string \<Rightarrow> resource_requirements" where
  "ensureResources s name =
     (if name = containerExporterName then ps_MetricsExporterResources (sy_pod s)
      else if name \<in> set [containerDatadirChownName, containerMySQLInitName, containerCloneAndInitName, containerMysqlName]
      then ps_Resources (sy_pod s)
      else if name = containerHeartBeatName then ps_PtHeartbeatResources (sy_pod s)
      else if name = containerSidecarName then ps_MySQLOperatorSidecarResources (sy_pod s)
      else \<lparr>rr_Requests = [''cpu'' \<mapsto> ''10m'', ''memory'' \<mapsto> ''32Mi''], rr_Limits = [''cpu'' \<mapsto> ''100m'']\<rparr>)"

definition ensureContainer :: "env \<Rightarrow> sfs_syncer \<Rightarrow> string \<Rightarrow> string \<Rightarrow> string list \<Rightarrow> container" where
  "ensureContainer e s name img args =
     (bare_container name)\<lparr>ct_Image := img, ct_ImagePullPolicy := ps_ImagePullPolicy (sy_pod s), ct_Args := Some args,
       ct_EnvFrom := Some (getEnvSourcesFor s name), ct_Env := Some (getEnvFor e s name),
       ct_VolumeMounts := getVolumeMountsFor s name\<rparr>"

definition ensureProbe :: "int \<Rightarrow> int \<Rightarrow> int \<Rightarrow> handler \<Rightarrow> probe" where
  "ensureProbe delay timeout period handler =
     \<lparr>pr_InitialDelaySeconds = delay, pr_TimeoutSeconds = timeout, pr_PeriodSeconds = period,
      pr_SuccessThreshold = 1, pr_FailureThreshold = 3, pr_Handler = handler\<rparr>"

definition default_protocol :: "container_port \<Rightarrow> container_port" where
  "default_protocol p = (if cp_Protocol p = [] then p\<lparr>cp_Protocol := ''TCP''\<rparr> else p)"

definition ensurePorts :: "container_port list \<Rightarrow> container_port list" where
  "ensurePorts ports = map default_protocol ports"

definition port :: "string \<Rightarrow> int \<Rightarrow> container_port" where
  "port name n = \<lparr>cp_Name = name, cp_ContainerPort = n, cp_Protocol = []\<rparr>"

definition getCliOptionsFromQueryLimits :: "query_limits \<Rightarrow> string list" where
  "getCliOptionsFromQueryLimits ql =
     [''--print'', ''--wait-after-kill=1'', ''--busy-time'', itoa (ql_MaxQueryTime ql)] @
     (if ql_KillMode ql = ''connection'' then [''--kill''] else [''--kill-query'']) @
     (case ql_MaxIdleTime ql of Some t \<Rightarrow> [''--idle-time'', itoa t] | None \<Rightarrow> []) @
     (if ql_Kill ql \<noteq> [] then [''--victims'', ql_Kill ql] else []) @
     (if ql_IgnoreDb ql \<noteq> [] then [''--ignore-db'', join ''|'' (ql_IgnoreDb ql)] else []) @
     (if ql_IgnoreCommand ql \<noteq> [] then [''--ignore-command'', join ''|'' (ql_IgnoreCommand ql)] else []) @
     (if ql_IgnoreUser ql \<noteq> [] then [''--ignore-user'', join ''|'' (ql_IgnoreUser ql)] else [])"

section \<open>Containers\<close>

definition mysql_test_cmd :: string where
  "mysql_test_cmd =
     ''mysql --defaults-file='' @ confClientPath @ '' -NB -e '' @ SQ @ ''SELECT COUNT(*) FROM '' @ OperatorDbName @ ''.'' @ OperatorStatusTableName @
     '' WHERE name='' @ DQ @ OperatorConfiguredKey @ DQ @ '' AND value='' @ DQ @ OperatorConfiguredDoneValue @ DQ @ SQ"

definition mysql_container :: "env \<Rightarrow> sfs_syncer \<Rightarrow> container" where
  "mysql_container e s =
     (ensureContainer e s containerMysqlName (serverImageForVersion e s (sy_rolloutVersion s)) [])
     \<lparr>ct_Ports := Some (ensurePorts [port MysqlPortName MysqlPort]),
      ct_Resources := ensureResources s containerMysqlName,
      ct_LivenessProbe := Some (ensureProbe 60 5 5 (ExecAction [''mysqladmin'', ''--defaults-file='' @ confClientPath, ''ping''])),
      ct_Lifecycle :=
        (case ps_MysqlLifecycle (sy_pod s) of
           Some l \<Rightarrow> Some (UserLifecycle l)
         | None \<Rightarrow> if opt_FailoverBeforeShutdownEnabled (sy_opt s)
                   then Some (PreStopHook (ExecAction [''bash'', ConfVolumeMountPath @ ''/'' @ shPreStopFile])) else None),
      ct_ReadinessProbe :=
        Some (ensureProbe 5 5 2 (ExecAction [''/bin/sh'', ''-c'', ''test $('' @ mysql_test_cmd @ '') -eq 1'']))\<rparr>"

definition sidecar_container :: "env \<Rightarrow> sfs_syncer \<Rightarrow> container" where
  "sidecar_container e s =
     (ensureContainer e s containerSidecarName (sidecarImageForVersion e s (sy_rolloutVersion s)) [''config-and-serve''])
     \<lparr>ct_Ports := Some (ensurePorts [port SidecarServerPortName SidecarServerPort]),
      ct_Resources := ensureResources s containerSidecarName,
      ct_ReadinessProbe := Some (ensureProbe 30 5 5 (HTTPGetAction SidecarServerProbePath (IntVal SidecarServerPort) ''HTTP''))\<rparr>"

definition exporter_container :: "env \<Rightarrow> sts_lib \<Rightarrow> sfs_syncer \<Rightarrow> container" where
  "exporter_container e lib s =
     (ensureContainer e s containerExporterName (opt_MetricsExporterImage (sy_opt s))
        ([''--config.my-cnf=/dev/null'',
          ''--web.listen-address=0.0.0.0:'' @ itoa ExporterPort,
          ''--web.telemetry-path='' @ ExporterPath,
          ''--mysqld.address=127.0.0.1:'' @ itoa (ExporterDataSourcePort (sl_IntValue lib) (sy_cluster s)),
          ''--mysqld.username='' @ MetricsExporterMySQLUser,
          ''--collect.heartbeat'',
          ''--collect.heartbeat.database='' @ OperatorDbName] @ cs_MetricsExporterExtraArgs (sy_spec s)))
     \<lparr>ct_Ports := Some (ensurePorts [port ExporterPortName ExporterPort]),
      ct_Resources := ensureResources s containerExporterName,
      ct_LivenessProbe := Some (ensureProbe 30 30 30 (HTTPGetAction ExporterPath (IntVal ExporterPort) ''HTTP''))\<rparr>"

definition heartbeat_container :: "env \<Rightarrow> sfs_syncer \<Rightarrow> container" where
  "heartbeat_container e s =
     (ensureContainer e s containerHeartBeatName (sidecarImageForVersion e s (sy_rolloutVersion s))
        [''pt-heartbeat'', ''--update'', ''--replace'', ''--check-read-only'', ''--create-table'',
         ''--database'', OperatorDbName, ''--table'', ''heartbeat'', ''--utc'', ''--defaults-file'', ConfHeartBeatPath,
         ''--socket'', DataVolumeMountPath @ ''/mysql.sock'', ''--fail-successive-errors=20''])
     \<lparr>ct_Resources := ensureResources s containerHeartBeatName\<rparr>"

definition killer_container :: "env \<Rightarrow> sfs_syncer \<Rightarrow> query_limits \<Rightarrow> container" where
  "killer_container e s ql =
     (ensureContainer e s containerKillerName (sidecarImageForVersion e s (sy_rolloutVersion s))
        ([''pt-kill'', ''--defaults-file'', ConfPtKillPath, ''--socket'', DataVolumeMountPath @ ''/mysql.sock''] @
         getCliOptionsFromQueryLimits ql))
     \<lparr>ct_Resources := ensureResources s containerKillerName\<rparr>"

definition ensureContainersSpec :: "env \<Rightarrow> sts_lib \<Rightarrow> sfs_syncer \<Rightarrow> container list" where
  "ensureContainersSpec e lib s =
     [mysql_container e s, sidecar_container e s, exporter_container e lib s, heartbeat_container e s] @
     (case cs_QueryLimits (sy_spec s) of Some ql \<Rightarrow> [killer_container e s ql] | None \<Rightarrow> []) @
     ps_Containers (sy_pod s)"

definition ensureDatadirChownInitContainer :: "env \<Rightarrow> sfs_syncer \<Rightarrow> container" where
  "ensureDatadirChownInitContainer e s =
     (let chownVersion = DesiredVersion e (sy_cluster s);
          h = ProfilePodSecurityHints (ProfileFor e chownVersion) (IsPerconaImage e (sy_cluster s))
      in case (psh_MysqlRunAsUser h, psh_MysqlRunAsGroup h) of
           (Some u, Some g) \<Rightarrow>
             (bare_container containerDatadirChownName)
             \<lparr>ct_Image := serverImageForVersion e s chownVersion, ct_ImagePullPolicy := ps_ImagePullPolicy (sy_pod s),
              ct_Command := [''/bin/sh'', ''-ec''],
              ct_Args := Some [''if [ ! -f '' @ DataVolumeMountPath @ ''/ibdata1 ] && [ ! -d '' @ DataVolumeMountPath @
                ''/mysql ]; then exit 0; fi'' @ NL @ ''chown -R '' @ itoa u @ '':'' @ itoa g @ '' '' @ DataVolumeMountPath],
              ct_SecurityContext := Some \<lparr>sc_RunAsUser = Some 0, sc_RunAsGroup = None, sc_AllowPrivilegeEscalation = None\<rparr>,
              ct_VolumeMounts := Some [mount dataVolumeName DataVolumeMountPath False]\<rparr>
         | _ \<Rightarrow> bare_container containerDatadirChownName)"

definition ensureInitContainersSpec :: "env \<Rightarrow> sfs_syncer \<Rightarrow> container list" where
  "ensureInitContainersSpec e s =
     (if NeedsDatadirChownInit e (sy_cluster s)
      then let chown = ensureDatadirChownInitContainer e s in
        (if ct_Command chown \<noteq> [] then [chown\<lparr>ct_Resources := ensureResources s containerDatadirChownName\<rparr>] else [])
      else []) @
     ps_InitContainers (sy_pod s) @
     [(ensureContainer e s containerCloneAndInitName (sidecarImageForVersion e s (sy_rolloutVersion s)) [''clone-and-init''])
      \<lparr>ct_Resources := ensureResources s containerCloneAndInitName\<rparr>] @
     (if IsPerconaImage e (sy_cluster s) \<and>
         WantsPerconaInitContainer (e_blang e) (ProfileFor e (sy_rolloutVersion s)) (sy_rolloutVersion s)
      then [(ensureContainer e s containerMySQLInitName (serverImageForVersion e s (sy_rolloutVersion s)) [])
            \<lparr>ct_Resources := ensureResources s containerMySQLInitName\<rparr>]
      else [])"

section \<open>Volumes and claims\<close>

definition ensureVolume :: "string \<Rightarrow> volume_source \<Rightarrow> volume" where
  "ensureVolume name source = \<lparr>vol_Name = name, vol_Source = source\<rparr>"

definition data_volume :: "volume_spec \<Rightarrow> volume_source" where
  "data_volume vs =
     (if vs_PersistentVolumeClaim vs \<noteq> None then ClaimVolume dataVolumeName
      else case vs_HostPath vs of
        Some hp \<Rightarrow> UserVolume hp
      | None \<Rightarrow> (case vs_EmptyDir vs of Some ed \<Rightarrow> UserVolume ed | None \<Rightarrow> NoVolumeSource))"

definition ensureVolumes :: "sfs_syncer \<Rightarrow> volume list" where
  "ensureVolumes s =
     [ensureVolume confVolumeName (EmptyDirVolume [] None),
      ensureVolume confMapVolumeName (ConfigMapVolume (GetNameForResource (sy_cluster s) ConfigMap) 420),
      ensureVolume dataVolumeName (data_volume (cs_VolumeSpec (sy_spec s)))] @
     (case cs_TmpfsSize (sy_spec s) of
        Some limit \<Rightarrow> [ensureVolume tmpfsVolumeName (EmptyDirVolume ''Memory'' (Some limit))] | None \<Rightarrow> []) @
     ps_Volumes (sy_pod s)"

text \<open>The claim of the spec is set when this function is called.\<close>

definition ensureVolumeClaimTemplates :: "sfs_syncer \<Rightarrow> pvc_spec \<Rightarrow> claim_template list \<Rightarrow> claim_template list" where
  "ensureVolumeClaimTemplates s claim in' =
     (let initPvc = (in' = []);
          in1 = (if in' = []
                 then [\<lparr>vct_Name = [], vct_OwnerReferences = [],
                        vct_Spec = \<lparr>pvs_AccessModes = [], pvs_Resources = \<lparr>rr_Requests = Map.empty, rr_Limits = Map.empty\<rparr>,
                          pvs_StorageClassName = None, pvs_VolumeMode = None\<rparr>\<rparr>]
                 else in');
          data = (hd in1)\<lparr>vct_Name := dataVolumeName\<rparr>;
          data1 = (if initPvc \<and> \<not> vs_KeepAfterDelete (cs_VolumeSpec (sy_spec s))
                   then data\<lparr>vct_OwnerReferences := [\<lparr>or_APIVersion = APIGroup @ ''/v1alpha1'', or_Kind = ''MysqlCluster'',
                          or_Name = mc_Name (sy_cluster s), or_UID = mc_UID (sy_cluster s), or_Controller = True\<rparr>]\<rparr>
                   else data);
          existingVolumeMode = pvs_VolumeMode (vct_Spec data1);
          existingStorageClass = pvs_StorageClassName (vct_Spec data1);
          spec1 = (if pvs_VolumeMode claim = None
                   then claim\<lparr>pvs_VolumeMode := (case existingVolumeMode of Some m \<Rightarrow> Some m | None \<Rightarrow> Some ''Filesystem'')\<rparr>
                   else claim);
          spec2 = (if pvs_StorageClassName spec1 = None \<and> existingStorageClass \<noteq> None
                   then spec1\<lparr>pvs_StorageClassName := existingStorageClass\<rparr> else spec1)
      in data1\<lparr>vct_Spec := spec2\<rparr> # tl in1)"

definition shouldSetVolumeClaimTemplates :: "sts_object \<Rightarrow> bool" where
  "shouldSetVolumeClaimTemplates sts \<longleftrightarrow> \<not> so_Created sts \<or> so_VolumeClaimTemplates sts = []"

section \<open>Security contexts\<close>

definition ensurePodSecurityContext :: "env \<Rightarrow> sfs_syncer \<Rightarrow> pod_security_context" where
  "ensurePodSecurityContext e s =
     (let h = ProfilePodSecurityHints (ProfileFor e (sy_rolloutVersion s)) (IsPerconaImage e (sy_cluster s))
      in \<lparr>psc_FSGroup = Some (psh_FSGroup h), psc_RunAsUser = psh_RunAsUser h\<rparr>)"

definition context_of :: "container \<Rightarrow> security_context" where
  "context_of c =
     (case ct_SecurityContext c of
        Some sc \<Rightarrow> sc
      | None \<Rightarrow> \<lparr>sc_RunAsUser = None, sc_RunAsGroup = None, sc_AllowPrivilegeEscalation = None\<rparr>)"

definition applyMysqlProcessSecurityContext :: "env \<Rightarrow> sfs_syncer \<Rightarrow> container \<Rightarrow> container" where
  "applyMysqlProcessSecurityContext e s c =
     (if ct_Name c \<noteq> containerMysqlName \<and> ct_Name c \<noteq> containerMySQLInitName then c
      else let h = ProfilePodSecurityHints (ProfileFor e (sy_rolloutVersion s)) (IsPerconaImage e (sy_cluster s))
        in case (psh_MysqlRunAsUser h, psh_MysqlRunAsGroup h) of
             (Some u, Some g) \<Rightarrow>
               let sc = context_of c;
                   sc1 = (if sc_RunAsUser sc = None then sc\<lparr>sc_RunAsUser := Some u\<rparr> else sc);
                   sc2 = (if sc_RunAsGroup sc1 = None then sc1\<lparr>sc_RunAsGroup := Some g\<rparr> else sc1)
               in c\<lparr>ct_SecurityContext := Some sc2\<rparr>
           | _ \<Rightarrow> c)"

definition applyRestrictPrivilegeEscalation :: "sfs_syncer \<Rightarrow> container \<Rightarrow> container" where
  "applyRestrictPrivilegeEscalation s c =
     (if \<not> opt_ClusterRestrictPrivilegeEscalation (sy_opt s) then c
      else let sc = context_of c in
        c\<lparr>ct_SecurityContext := Some (if sc_AllowPrivilegeEscalation sc = None
                                      then sc\<lparr>sc_AllowPrivilegeEscalation := Some False\<rparr> else sc)\<rparr>)"

definition applyContainerSecurityContext :: "env \<Rightarrow> sfs_syncer \<Rightarrow> container \<Rightarrow> container" where
  "applyContainerSecurityContext e s c = applyRestrictPrivilegeEscalation s (applyMysqlProcessSecurityContext e s c)"

definition applyPodContainerSecurityContext :: "env \<Rightarrow> sfs_syncer \<Rightarrow> pod_template \<Rightarrow> pod_template" where
  "applyPodContainerSecurityContext e s p =
     p\<lparr>pt_InitContainers := map (applyContainerSecurityContext e s) (pt_InitContainers p),
       pt_Containers := map (applyContainerSecurityContext e s) (pt_Containers p)\<rparr>"

section \<open>Defaults of the pod\<close>

definition normalizeContainer :: "container \<Rightarrow> container" where
  "normalizeContainer c =
     c\<lparr>ct_Args := Some (slice (ct_Args c)), ct_Env := Some (slice (ct_Env c)), ct_EnvFrom := Some (slice (ct_EnvFrom c)),
       ct_VolumeMounts := Some (slice (ct_VolumeMounts c)), ct_Ports := Some (map default_protocol (slice (ct_Ports c))),
       ct_TerminationMessagePath := (if ct_TerminationMessagePath c = [] then ''/dev/termination-log'' else ct_TerminationMessagePath c),
       ct_TerminationMessagePolicy := (if ct_TerminationMessagePolicy c = [] then ''File'' else ct_TerminationMessagePolicy c)\<rparr>"

definition normalizePodSpec :: "pod_template \<Rightarrow> pod_template" where
  "normalizePodSpec p =
     p\<lparr>pt_InitContainers := map normalizeContainer (pt_InitContainers p), pt_Containers := map normalizeContainer (pt_Containers p)\<rparr>"

definition defaultPodSpec :: "sts_lib \<Rightarrow> pod_template \<Rightarrow> pod_template" where
  "defaultPodSpec lib p = normalizePodSpec (sl_Default lib p)"

section \<open>The syncer\<close>

definition getLabels :: "env \<Rightarrow> sfs_syncer \<Rightarrow> str_map \<Rightarrow> str_map" where
  "getLabels e s extra = GetLabels e (sy_cluster s) ++ extra"

definition ensurePodSpec :: "env \<Rightarrow> sts_lib \<Rightarrow> sfs_syncer \<Rightarrow> pod_template" where
  "ensurePodSpec e lib s =
     \<lparr>pt_InitContainers = ensureInitContainersSpec e s, pt_Containers = ensureContainersSpec e lib s,
      pt_Volumes = ensureVolumes s, pt_Affinity = ps_Affinity (sy_pod s), pt_ImagePullSecrets = ps_ImagePullSecrets (sy_pod s),
      pt_NodeSelector = ps_NodeSelector (sy_pod s), pt_PriorityClassName = ps_PriorityClassName (sy_pod s),
      pt_Tolerations = ps_Tolerations (sy_pod s), pt_ServiceAccountName = ps_ServiceAccountName (sy_pod s),
      pt_SecurityContext = None\<rparr>"

definition operator_annotations :: "sfs_syncer \<Rightarrow> str_map" where
  "operator_annotations s =
     [''config_rev'' \<mapsto> sy_configMapRevision s, ''secret_rev'' \<mapsto> sy_secretRevision s,
      ''prometheus.io/scrape'' \<mapsto> ''true'', ''prometheus.io/port'' \<mapsto> itoa ExporterPort]"

text \<open>The spec of the cluster in memory after the annotations were written through the shared map.\<close>

definition share_annotations :: "str_map \<Rightarrow> mysql_cluster \<Rightarrow> mysql_cluster" where
  "share_annotations added c =
     (let spec = mc_Spec c; pod = cs_PodSpec spec in
      if ps_Annotations pod = Map.empty then c
      else c\<lparr>mc_Spec := spec\<lparr>cs_PodSpec := pod\<lparr>ps_Annotations := ps_Annotations pod ++ added\<rparr>\<rparr>\<rparr>)"

definition template_pod :: "env \<Rightarrow> sts_lib \<Rightarrow> sfs_syncer \<Rightarrow> pod_template" where
  "template_pod e lib s =
     defaultPodSpec lib
       ((applyPodContainerSecurityContext e s (ensurePodSpec e lib s))\<lparr>pt_SecurityContext := Some (ensurePodSecurityContext e s)\<rparr>)"

definition StsSyncFn ::
    "env \<Rightarrow> sts_lib \<Rightarrow> options \<Rightarrow> string \<Rightarrow> string \<Rightarrow> (string, pod list) result \<Rightarrow> mysql_cluster \<Rightarrow> sts_object \<Rightarrow>
     mysql_cluster \<times> (string, sts_object) result" where
  "StsSyncFn e lib opt cmRev sctRev pods c out =
     (case pods of
        Inl err \<Rightarrow> (c, Inl err)
      | Inr podItems \<Rightarrow>
          let v = RolloutMySQLVersion e c (Some (sts_view out)) podItems;
              c1 = c\<lparr>mc_Status := (mc_Status c)\<lparr>st_ReadyNodes := so_ReadyReplicas out\<rparr>\<rparr>;
              s = \<lparr>sy_cluster = c1, sy_configMapRevision = cmRev, sy_secretRevision = sctRev, sy_opt = opt, sy_rolloutVersion = v\<rparr>;
              out1 = out\<lparr>so_Replicas := cs_Replicas (sy_spec s), so_Selector := GetSelectorLabels c1,
                so_ServiceName := GetNameForResource c1 HeadlessSVC,
                so_TemplateLabels := getLabels e s (ps_Labels (sy_pod s)),
                so_TemplateAnnotations := ps_Annotations (sy_pod s) ++ operator_annotations s,
                so_Pod := template_pod e lib s\<rparr>;
              out2 = (case vs_PersistentVolumeClaim (cs_VolumeSpec (sy_spec s)) of
                        Some claim \<Rightarrow>
                          if shouldSetVolumeClaimTemplates out1
                          then out1\<lparr>so_VolumeClaimTemplates := ensureVolumeClaimTemplates s claim (so_VolumeClaimTemplates out1)\<rparr>
                          else out1
                      | None \<Rightarrow> out1)
          in (share_annotations (operator_annotations s) c1, Inr out2))"

section \<open>Writing the object\<close>

text \<open>
  The function that \<^verbatim>\<open>controllerutil.CreateOrUpdate\<close> applies to the object it has read, and the result of
  \<^verbatim>\<open>Sync\<close>: \<open>persist\<close> is \<^verbatim>\<open>CreateOrUpdate\<close> in \<^verbatim>\<open>RetryOnConflict\<close>.
\<close>

datatype mutate_error = MutateFailed string | ErrOwnerDeleted | ErrIgnore

definition mutateFn ::
    "sts_lib \<Rightarrow> (sts_object \<Rightarrow> mysql_cluster \<times> (string, sts_object) result) \<Rightarrow> mysql_cluster \<Rightarrow> sts_object \<Rightarrow>
     (mutate_error, sts_object) result" where
  "mutateFn lib syncFn owner obj =
     (case syncFn obj of
        (c, Inl err) \<Rightarrow> Inl (MutateFailed err)
      | (c, Inr obj1) \<Rightarrow>
          if mc_DeletionTimestamp owner = None
          then (case sl_SetController lib obj1 of Some err \<Rightarrow> Inl (MutateFailed err) | None \<Rightarrow> Inr obj1)
          else if \<not> so_Created obj1 then Inl ErrOwnerDeleted else Inr obj1)"

definition statefulSetEventReason :: "string \<Rightarrow> bool \<Rightarrow> string" where
  "statefulSetEventReason objKindName failed = (if failed then objKindName @ ''SyncFailed'' else objKindName @ ''SyncSuccessfull'')"

text \<open>The event that is recorded (type and reason) and the error.\<close>

definition sts_Sync :: "mutate_error option \<Rightarrow> (string \<times> string) option \<times> mutate_error option" where
  "sts_Sync err =
     (case err of
        Some ErrOwnerDeleted \<Rightarrow> (None, None)
      | Some ErrIgnore \<Rightarrow> (None, None)
      | Some er \<Rightarrow> (Some (''Warning'', statefulSetEventReason ''StatefulSet'' True), Some er)
      | None \<Rightarrow> (Some (''Normal'', statefulSetEventReason ''StatefulSet'' False), None))"


section \<open>Lemmas\<close>

text \<open>
  What the defaults of the scheme are documented to do: they fill fields that are empty, so that a container keeps
  its name, image, environment, mounts and security context.
\<close>

definition keeps_container :: "container \<Rightarrow> container \<Rightarrow> bool" where
  "keeps_container a b \<longleftrightarrow> ct_Name b = ct_Name a \<and> ct_Image b = ct_Image a \<and> slice (ct_Env b) = slice (ct_Env a) \<and>
     slice (ct_VolumeMounts b) = slice (ct_VolumeMounts a) \<and> slice (ct_Args b) = slice (ct_Args a) \<and>
     ct_SecurityContext b = ct_SecurityContext a"

definition scheme_ok :: "sts_lib \<Rightarrow> bool" where
  "scheme_ok lib \<longleftrightarrow>
     (\<forall>p. list_all2 keeps_container (pt_Containers p) (pt_Containers (sl_Default lib p)) \<and>
          list_all2 keeps_container (pt_InitContainers p) (pt_InitContainers (sl_Default lib p)) \<and>
          pt_Volumes (sl_Default lib p) = pt_Volumes p)"

lemma keeps_refl [simp]: "keeps_container c c"
  by (simp add: keeps_container_def)

lemma keeps_normalize: "keeps_container a b \<Longrightarrow> keeps_container a (normalizeContainer b)"
  by (simp add: keeps_container_def normalizeContainer_def)

lemma keeps_normalize_all:
  "list_all2 keeps_container xs ys \<Longrightarrow> list_all2 keeps_container xs (map normalizeContainer ys)"
  by (induction rule: list_all2_induct) (simp_all add: keeps_normalize)

lemma keeps_defaultPodSpec:
  assumes "scheme_ok lib"
  shows "list_all2 keeps_container (pt_Containers p) (pt_Containers (defaultPodSpec lib p))"
    and "list_all2 keeps_container (pt_InitContainers p) (pt_InitContainers (defaultPodSpec lib p))"
    and "pt_Volumes (defaultPodSpec lib p) = pt_Volumes p"
  using assms
  by (simp_all add: scheme_ok_def defaultPodSpec_def normalizePodSpec_def keeps_normalize_all)

lemma keeps_find:
  "list_all2 keeps_container xs ys \<Longrightarrow>
   rel_option keeps_container (find (\<lambda>c. ct_Name c = n) xs) (find (\<lambda>c. ct_Name c = n) ys)"
  by (induction rule: list_all2_induct) (auto simp: keeps_container_def)

lemma secure_container [simp]:
  "ct_Name (applyContainerSecurityContext e s c) = ct_Name c" "ct_Image (applyContainerSecurityContext e s c) = ct_Image c"
  "ct_Env (applyContainerSecurityContext e s c) = ct_Env c" "ct_VolumeMounts (applyContainerSecurityContext e s c) = ct_VolumeMounts c"
  "ct_Args (applyContainerSecurityContext e s c) = ct_Args c"
  by (simp_all add: applyContainerSecurityContext_def applyRestrictPrivilegeEscalation_def
      applyMysqlProcessSecurityContext_def Let_def split: option.split)

lemma ensureContainer_sel [simp]:
  "ct_Name (ensureContainer e s name img args) = name" "ct_Image (ensureContainer e s name img args) = img"
  "ct_Env (ensureContainer e s name img args) = Some (getEnvFor e s name)"
  "ct_VolumeMounts (ensureContainer e s name img args) = getVolumeMountsFor s name"
  "ct_SecurityContext (ensureContainer e s name img args) = None"
  by (simp_all add: ensureContainer_def bare_container_def)

text \<open>The version in the environment of a container is read back from it.\<close>

lemma version_from_env:
  "blang_ok (e_blang e) \<Longrightarrow> semVerFromEnv (e_blang e) (getEnvFor e s name) = Some (sy_rolloutVersion s)"
  by (simp add: getEnvFor_def pod_env_def env_field_def env_value_def MySQLVersionEnv_def)

definition template_raw :: "env \<Rightarrow> sts_lib \<Rightarrow> sfs_syncer \<Rightarrow> pod_template" where
  "template_raw e lib s =
     (applyPodContainerSecurityContext e s (ensurePodSpec e lib s))\<lparr>pt_SecurityContext := Some (ensurePodSecurityContext e s)\<rparr>"

lemma template_raw_sel:
  "pt_Containers (template_raw e lib s) = map (applyContainerSecurityContext e s) (ensureContainersSpec e lib s)"
  "pt_InitContainers (template_raw e lib s) = map (applyContainerSecurityContext e s) (ensureInitContainersSpec e s)"
  "pt_Volumes (template_raw e lib s) = ensureVolumes s"
  by (simp_all add: template_raw_def applyPodContainerSecurityContext_def ensurePodSpec_def)

lemma template_keeps:
  assumes "scheme_ok lib"
  shows "list_all2 keeps_container (map (applyContainerSecurityContext e s) (ensureContainersSpec e lib s)) (pt_Containers (template_pod e lib s))"
    and "list_all2 keeps_container (map (applyContainerSecurityContext e s) (ensureInitContainersSpec e s)) (pt_InitContainers (template_pod e lib s))"
    and "pt_Volumes (template_pod e lib s) = ensureVolumes s"
  using keeps_defaultPodSpec [OF assms, of "template_raw e lib s"]
  unfolding template_raw_sel by (simp_all add: template_pod_def template_raw_def)

lemma template_version:
  assumes "blang_ok (e_blang e)" and "scheme_ok lib" and "pt_Containers (so_Pod out) = pt_Containers (template_pod e lib s)"
  shows "SemVerFromStatefulSet (e_blang e) (Some (sts_view out)) = sy_rolloutVersion s"
proof -
  have "find (\<lambda>c. ct_Name c = ''mysql'') (map (applyContainerSecurityContext e s) (ensureContainersSpec e lib s)) =
      Some (applyContainerSecurityContext e s (mysql_container e s))"
    by (simp add: ensureContainersSpec_def mysql_container_def containerMysqlName_def)
  with keeps_find [OF template_keeps(1) [OF assms(2)], of "''mysql''" e s]
  obtain c where c: "find (\<lambda>c. ct_Name c = ''mysql'') (pt_Containers (template_pod e lib s)) = Some c"
      "keeps_container (applyContainerSecurityContext e s (mysql_container e s)) c"
    by (auto simp: option_rel_Some1)
  from c(2) have "slice (ct_Env c) = getEnvFor e s containerMysqlName"
    by (simp add: keeps_container_def mysql_container_def)
  then show ?thesis
    using c(1) assms(3) version_from_env [OF assms(1)]
    by (simp add: SemVerFromStatefulSet_def sts_view_def semVerFromMysqlContainer_def)
qed


text \<open>A cluster that differs in the number of ready nodes and the annotations of its pods only.\<close>

definition reannotate :: "int \<Rightarrow> str_map \<Rightarrow> mysql_cluster \<Rightarrow> mysql_cluster" where
  "reannotate r ann c =
     c\<lparr>mc_Status := (mc_Status c)\<lparr>st_ReadyNodes := r\<rparr>,
       mc_Spec := (mc_Spec c)\<lparr>cs_PodSpec := (cs_PodSpec (mc_Spec c))\<lparr>ps_Annotations := ann\<rparr>\<rparr>\<rparr>"

lemma reannotate_sel [simp]:
  "mc_Name (reannotate r ann c) = mc_Name c" "mc_Namespace (reannotate r ann c) = mc_Namespace c"
  "mc_UID (reannotate r ann c) = mc_UID c" "mc_Annotations (reannotate r ann c) = mc_Annotations c"
  "mc_DeletionTimestamp (reannotate r ann c) = mc_DeletionTimestamp c"
  "st_ReadyNodes (mc_Status (reannotate r ann c)) = r"
  "cs_MysqlVersion (mc_Spec (reannotate r ann c)) = cs_MysqlVersion (mc_Spec c)"
  "ps_Annotations (cs_PodSpec (mc_Spec (reannotate r ann c))) = ann"
  "reannotate r ann (reannotate r' ann' c) = reannotate r ann c"
  by (simp_all add: reannotate_def)

lemma reannotate_versions [simp]:
  "DesiredVersion e (reannotate r ann c) = DesiredVersion e c"
  "AppliedDataPlaneVersion e (reannotate r ann c) = AppliedDataPlaneVersion e c"
  by (simp_all add: DesiredVersion_def AppliedDataPlaneVersion_def reannotate_def)

lemma reannotate_image:
  "ServerImage e opt v (Some (mc_Spec (reannotate r ann c))) = ServerImage e opt v (Some (mc_Spec c))"
  by (simp add: ServerImage_def ResolverServerImage_def reannotate_def split: option.split)

lemma reannotate_cluster [simp]:
  "GetMysqlImage e (reannotate r ann c) = GetMysqlImage e c"
  "IsPerconaImage e (reannotate r ann c) = IsPerconaImage e c"
  "WantsPerconaInitContainerFor e (reannotate r ann c) v = WantsPerconaInitContainerFor e c v"
  "GetNameForResource (reannotate r ann c) k = GetNameForResource c k"
  "GetClusterAlias (reannotate r ann c) = GetClusterAlias c"
  "GetSelectorLabels (reannotate r ann c) = GetSelectorLabels c"
  "GetLabels e (reannotate r ann c) = GetLabels e c"
  "ExporterDataSourcePort iv (reannotate r ann c) = ExporterDataSourcePort iv c"
  by (simp_all add: IsPerconaImage_def GetMysqlImage_def WantsPerconaInitContainerFor_def GetNameForResource_def
      GetClusterAlias_def GetSelectorLabels_def GetLabels_def Let_def reannotate_image cong: option.case_cong)
    (simp add: ExporterDataSourcePort_def reannotate_def)

lemma reannotate_chown [simp]: "NeedsDatadirChownInit e (reannotate r ann c) = NeedsDatadirChownInit e c"
  by (simp add: NeedsDatadirChownInit_def NeedsRolloutInit_def RolloutInitStepRequired_def stepRequired_def stepScheduled_def
      stepApplicable_def sourceVersionForStep_def newUpgradeContext_def SourceVersionForUpgrade_def StepByID_def
      builtinUpgradeSteps_def datadirChownStep_def HasPersistentDataVolume_def Let_def)
    (auto simp add: reannotate_def)

lemma share_annotations_eq:
  "share_annotations added (c\<lparr>mc_Status := (mc_Status c)\<lparr>st_ReadyNodes := r\<rparr>\<rparr>) =
   reannotate r (if ps_Annotations (cs_PodSpec (mc_Spec c)) = Map.empty then Map.empty
                 else ps_Annotations (cs_PodSpec (mc_Spec c)) ++ added) c"
  by (simp add: share_annotations_def reannotate_def Let_def)

lemma ready_nodes_eq:
  "c\<lparr>mc_Status := (mc_Status c)\<lparr>st_ReadyNodes := r\<rparr>\<rparr> = reannotate r (ps_Annotations (cs_PodSpec (mc_Spec c))) c"
  by (simp add: reannotate_def)

definition resync :: "int \<Rightarrow> str_map \<Rightarrow> sfs_syncer \<Rightarrow> sfs_syncer" where
  "resync r ann s = s\<lparr>sy_cluster := reannotate r ann (sy_cluster s)\<rparr>"

lemma resync_sel [simp]:
  "sy_cluster (resync r ann s) = reannotate r ann (sy_cluster s)" "sy_opt (resync r ann s) = sy_opt s"
  "sy_rolloutVersion (resync r ann s) = sy_rolloutVersion s" "sy_configMapRevision (resync r ann s) = sy_configMapRevision s"
  "sy_secretRevision (resync r ann s) = sy_secretRevision s"
  by (simp_all add: resync_def)

lemma resync_spec:
  "mc_Spec (reannotate r ann c) = (mc_Spec c)\<lparr>cs_PodSpec := (cs_PodSpec (mc_Spec c))\<lparr>ps_Annotations := ann\<rparr>\<rparr>"
  by (simp add: reannotate_def)

lemma reannotate_fields:
  "cs_InitBucketURL (mc_Spec (reannotate r ann c)) = cs_InitBucketURL (mc_Spec c)"
  "cs_ServerIDOffset (mc_Spec (reannotate r ann c)) = cs_ServerIDOffset (mc_Spec c)"
  "cs_BackupCompressCommand (mc_Spec (reannotate r ann c)) = cs_BackupCompressCommand (mc_Spec c)"
  "cs_BackupDecompressCommand (mc_Spec (reannotate r ann c)) = cs_BackupDecompressCommand (mc_Spec c)"
  "cs_RcloneExtraArgs (mc_Spec (reannotate r ann c)) = cs_RcloneExtraArgs (mc_Spec c)"
  "cs_XbstreamExtraArgs (mc_Spec (reannotate r ann c)) = cs_XbstreamExtraArgs (mc_Spec c)"
  "cs_XtrabackupExtraArgs (mc_Spec (reannotate r ann c)) = cs_XtrabackupExtraArgs (mc_Spec c)"
  "cs_XtrabackupPrepareExtraArgs (mc_Spec (reannotate r ann c)) = cs_XtrabackupPrepareExtraArgs (mc_Spec c)"
  "cs_XtrabackupTargetDir (mc_Spec (reannotate r ann c)) = cs_XtrabackupTargetDir (mc_Spec c)"
  "cs_InitFileExtraSQL (mc_Spec (reannotate r ann c)) = cs_InitFileExtraSQL (mc_Spec c)"
  "cs_InitBucketSecretName (mc_Spec (reannotate r ann c)) = cs_InitBucketSecretName (mc_Spec c)"
  "cs_SecretName (mc_Spec (reannotate r ann c)) = cs_SecretName (mc_Spec c)"
  "cs_TmpfsSize (mc_Spec (reannotate r ann c)) = cs_TmpfsSize (mc_Spec c)"
  "cs_SidecarImage (mc_Spec (reannotate r ann c)) = cs_SidecarImage (mc_Spec c)"
  "cs_QueryLimits (mc_Spec (reannotate r ann c)) = cs_QueryLimits (mc_Spec c)"
  "cs_VolumeSpec (mc_Spec (reannotate r ann c)) = cs_VolumeSpec (mc_Spec c)"
  "cs_MetricsExporterExtraArgs (mc_Spec (reannotate r ann c)) = cs_MetricsExporterExtraArgs (mc_Spec c)"
  "cs_Replicas (mc_Spec (reannotate r ann c)) = cs_Replicas (mc_Spec c)"
  by (simp_all add: reannotate_def)

lemma resync_env [simp]: "getEnvFor e (resync r ann s) name = getEnvFor e s name"
  by (simp only: getEnvFor_def pod_env_def option_env_def container_env_def credential_env_def Let_def resync_sel
      reannotate_sel reannotate_cluster reannotate_fields)

lemma resync_parts [simp]:
  "getEnvSourcesFor (resync r ann s) name = getEnvSourcesFor s name"
  "getVolumeMountsFor (resync r ann s) name = getVolumeMountsFor s name"
  "ensureResources (resync r ann s) name = ensureResources s name"
  "sidecarImageForVersion e (resync r ann s) v = sidecarImageForVersion e s v"
  by (simp_all add: getEnvSourcesFor_def getVolumeMountsFor_def ensureResources_def sidecarImageForVersion_def resync_spec)

lemma resync_server_image [simp]: "serverImageForVersion e (resync r ann s) v = serverImageForVersion e s v"
  by (simp add: serverImageForVersion_def reannotate_image cong: sum.case_cong)

lemma resync_container [simp]: "ensureContainer e (resync r ann s) name img args = ensureContainer e s name img args"
  by (simp add: ensureContainer_def resync_spec)

lemma resync_chown [simp]: "ensureDatadirChownInitContainer e (resync r ann s) = ensureDatadirChownInitContainer e s"
  by (simp add: ensureDatadirChownInitContainer_def Let_def resync_spec cong: option.case_cong)

lemma resync_containers:
  "mysql_container e (resync r ann s) = mysql_container e s"
  "sidecar_container e (resync r ann s) = sidecar_container e s"
  "exporter_container e lib (resync r ann s) = exporter_container e lib s"
  "heartbeat_container e (resync r ann s) = heartbeat_container e s"
  "killer_container e (resync r ann s) ql = killer_container e s ql"
  by (simp_all add: mysql_container_def sidecar_container_def exporter_container_def heartbeat_container_def
      killer_container_def resync_spec cong: option.case_cong)

lemma resync_pod:
  "ensureContainersSpec e lib (resync r ann s) = ensureContainersSpec e lib s"
  "ensureInitContainersSpec e (resync r ann s) = ensureInitContainersSpec e s"
  "ensureVolumes (resync r ann s) = ensureVolumes s"
  "ensurePodSecurityContext e (resync r ann s) = ensurePodSecurityContext e s"
  "applyContainerSecurityContext e (resync r ann s) = applyContainerSecurityContext e s"
  by (simp_all add: ensureContainersSpec_def resync_containers ensureInitContainersSpec_def ensureVolumes_def
      ensurePodSecurityContext_def resync_spec Let_def cong: option.case_cong)
    (simp add: applyContainerSecurityContext_def applyMysqlProcessSecurityContext_def applyRestrictPrivilegeEscalation_def fun_eq_iff)

lemma resync_template [simp]: "template_pod e lib (resync r ann s) = template_pod e lib s"
  by (simp add: template_pod_def applyPodContainerSecurityContext_def ensurePodSpec_def resync_pod resync_spec)

lemma rollout_stable:
  assumes "blang_ok (e_blang e)"
    and "SemVerFromStatefulSet (e_blang e) (Some s') = RolloutMySQLVersion e c (Some s) pods"
    and "DesiredVersion e c' = DesiredVersion e c" and "AppliedDataPlaneVersion e c' = AppliedDataPlaneVersion e c"
    and "AppliedDataPlaneVersion e c \<noteq> Zero \<or> \<not> ClusterHasMySQLData c \<or> ClusterHasMySQLData c'"
  shows "RolloutMySQLVersion e c' (Some s') pods' = RolloutMySQLVersion e c (Some s) pods"
proof (cases "AppliedDataPlaneVersion e c = Zero")
  case True
  have "RolloutMySQLVersion e d (Some t) ps =
      (if ClusterHasMySQLData d \<and> SemVerFromStatefulSet (e_blang e) (Some t) \<noteq> Zero
       then SemVerFromStatefulSet (e_blang e) (Some t) else DesiredVersion e d)"
    if "AppliedDataPlaneVersion e d = Zero" for d t ps
    using that assms(1)
    by (simp add: RolloutMySQLVersion_def VersionChangePending_def LaggingStatefulSetVersion_def SourceVersionForUpgrade_def Let_def)
  with True assms(2-5) show ?thesis by auto
next
  case False
  with assms(1,3,4) show ?thesis
    by (simp add: RolloutMySQLVersion_def VersionChangePending_def SourceVersionForUpgrade_def Let_def)
qed


text \<open>What a run that succeeds leaves.\<close>

definition sts_syncer :: "env \<Rightarrow> options \<Rightarrow> string \<Rightarrow> string \<Rightarrow> pod list \<Rightarrow> mysql_cluster \<Rightarrow> sts_object \<Rightarrow> sfs_syncer" where
  "sts_syncer e opt cmRev sctRev pods c out =
     \<lparr>sy_cluster = reannotate (so_ReadyReplicas out) (ps_Annotations (cs_PodSpec (mc_Spec c))) c,
      sy_configMapRevision = cmRev, sy_secretRevision = sctRev, sy_opt = opt,
      sy_rolloutVersion = RolloutMySQLVersion e c (Some (sts_view out)) pods\<rparr>"

definition shared_annotations :: "str_map \<Rightarrow> str_map \<Rightarrow> str_map" where
  "shared_annotations ann added = (if ann = Map.empty then Map.empty else ann ++ added)"

lemma map_add_absorb [simp]: "m ++ a ++ a = m ++ (a :: 'a \<rightharpoonup> 'b)"
  by (rule ext) (simp add: map_add_def split: option.split)

lemma shared_annotations_simps [simp]:
  "shared_annotations ann added ++ added = ann ++ added"
  "shared_annotations (shared_annotations ann added) added = shared_annotations ann added"
  by (auto simp: shared_annotations_def)

definition synced_claims :: "sfs_syncer \<Rightarrow> sts_object \<Rightarrow> claim_template list" where
  "synced_claims s out =
     (case vs_PersistentVolumeClaim (cs_VolumeSpec (sy_spec s)) of
        Some claim \<Rightarrow> if shouldSetVolumeClaimTemplates out
                      then ensureVolumeClaimTemplates s claim (so_VolumeClaimTemplates out) else so_VolumeClaimTemplates out
      | None \<Rightarrow> so_VolumeClaimTemplates out)"

lemma StsSyncFn_eq:
  "StsSyncFn e lib opt cmRev sctRev (Inr pods) c out =
     (let s = sts_syncer e opt cmRev sctRev pods c out in
      (reannotate (so_ReadyReplicas out) (shared_annotations (ps_Annotations (cs_PodSpec (mc_Spec c))) (operator_annotations s)) c,
       Inr (out\<lparr>so_Replicas := cs_Replicas (mc_Spec c), so_Selector := GetSelectorLabels c,
         so_ServiceName := GetNameForResource c HeadlessSVC, so_TemplateLabels := getLabels e s (ps_Labels (cs_PodSpec (mc_Spec c))),
         so_TemplateAnnotations := ps_Annotations (cs_PodSpec (mc_Spec c)) ++ operator_annotations s,
         so_Pod := template_pod e lib s, so_VolumeClaimTemplates := synced_claims s out\<rparr>)))"
proof -
  have "cs_VolumeSpec (mc_Spec (reannotate r a c)) = cs_VolumeSpec (mc_Spec c)" "ps_Labels (cs_PodSpec (mc_Spec (reannotate r a c))) = ps_Labels (cs_PodSpec (mc_Spec c))"
    for r a by (simp_all add: reannotate_def)
  then show ?thesis
    unfolding StsSyncFn_def Let_def ready_nodes_eq
    by (simp add: sts_syncer_def Let_def shared_annotations_def share_annotations_def resync_spec reannotate_fields
        synced_claims_def shouldSetVolumeClaimTemplates_def split: option.split)
      (simp add: reannotate_def)
qed

lemma StsSyncFn_Inl [simp]: "StsSyncFn e lib opt cmRev sctRev (Inl err) c out = (c, Inl err)"
  by (simp add: StsSyncFn_def)

lemma ensureVolumeClaimTemplates_nonempty [simp]: "ensureVolumeClaimTemplates s claim ts \<noteq> []"
  by (simp add: ensureVolumeClaimTemplates_def Let_def)

lemma synced_version:
  assumes "env_ok e" and "scheme_ok lib"
    and "StsSyncFn e lib opt cmRev sctRev (Inr pods) c out = (c', Inr out')"
  shows "SemVerFromStatefulSet (e_blang e) (Some (sts_view out')) = RolloutMySQLVersion e c (Some (sts_view out)) pods"
proof -
  from assms(3) have "so_Pod out' = template_pod e lib (sts_syncer e opt cmRev sctRev pods c out)"
    by (auto simp: StsSyncFn_eq Let_def)
  with assms(1,2) show ?thesis
    using template_version [of e lib out' "sts_syncer e opt cmRev sctRev pods c out"] by (simp add: sts_syncer_def)
qed

section \<open>Properties\<close>

text \<open>
  Property C11. A run of the syncer refines the upgrade machine of the theory VersionUpgrade: the version that is read
  back from the pods it writes is the version of the rollout, and the run is a sequence of steps of that machine, so
  that its invariant holds of the real object.
\<close>

theorem sts_sync_refines_upgrade:
  assumes "env_ok e" and "scheme_ok lib"
    and "StsSyncFn e lib opt cmRev sctRev (Inr pods) c out = (c', Inr out')"
  shows "SemVerFromStatefulSet (e_blang e) (Some (sts_view out')) = RolloutMySQLVersion e c (Some (sts_view out)) pods \<and>
    (upgrade_trans e)\<^sup>*\<^sup>* (c, sts_view out) (c', sts_view out')"
proof -
  from assms(3) obtain ann where c': "c' = reannotate (so_ReadyReplicas out) ann c"
    by (auto simp: StsSyncFn_eq Let_def)
  have v: "SemVerFromStatefulSet (e_blang e) (Some (sts_view out')) = RolloutMySQLVersion e c (Some (sts_view out)) pods"
    by (rule synced_version [OF assms])
  have "c' = (c\<lparr>mc_Status := (mc_Status c)\<lparr>st_ReadyNodes := so_ReadyReplicas out\<rparr>\<rparr>)\<lparr>mc_Spec := mc_Spec c'\<rparr>"
    by (simp add: c' reannotate_def)
  then have "(upgrade_trans e)\<^sup>*\<^sup>* (c, sts_view out') (c', sts_view out')"
    using upgrade_trans.ready_nodes [of e c "sts_view out'" "so_ReadyReplicas out"] upgrade_trans.edit_spec [of e _ "sts_view out'" "mc_Spec c'"]
    by (metis converse_rtranclp_into_rtranclp rtranclp.rtrancl_refl)
  with v upgrade_trans.sync_template [OF v] show ?thesis
    by (blast intro: converse_rtranclp_into_rtranclp)
qed

text \<open>
  The syncer settles: run again on the object it wrote, it changes nothing, neither the object nor the
  cluster in memory, so that the controller does not update in a loop. The exception is a cluster with data and no
  recorded version whose pods have all become unready.
\<close>

theorem sts_sync_settles:
  assumes "env_ok e" and "scheme_ok lib"
    and "StsSyncFn e lib opt cmRev sctRev (Inr pods) c out = (c', Inr out')"
    and "AppliedDataPlaneVersion e c \<noteq> Zero \<or> \<not> ClusterHasMySQLData c \<or> 0 < so_ReadyReplicas out"
  shows "StsSyncFn e lib opt cmRev sctRev (Inr pods') c' (out'\<lparr>so_Created := True\<rparr>) = (c', Inr (out'\<lparr>so_Created := True\<rparr>))"
proof -
  let ?s = "sts_syncer e opt cmRev sctRev pods c out" and ?out = "out'\<lparr>so_Created := True\<rparr>"
  let ?t = "sts_syncer e opt cmRev sctRev pods' c' ?out" and ?a = "ps_Annotations (cs_PodSpec (mc_Spec c))"
  let ?ann = "shared_annotations ?a (operator_annotations ?s)"
  from assms(3) have c': "c' = reannotate (so_ReadyReplicas out) ?ann c"
    and out': "out' = out\<lparr>so_Replicas := cs_Replicas (mc_Spec c), so_Selector := GetSelectorLabels c,
         so_ServiceName := GetNameForResource c HeadlessSVC, so_TemplateLabels := getLabels e ?s (ps_Labels (cs_PodSpec (mc_Spec c))),
         so_TemplateAnnotations := ?a ++ operator_annotations ?s,
         so_Pod := template_pod e lib ?s, so_VolumeClaimTemplates := synced_claims ?s out\<rparr>"
    by (auto simp: StsSyncFn_eq Let_def)
  have view: "sts_view ?out = sts_view out'" by (simp add: sts_view_def)
  have "SemVerFromStatefulSet (e_blang e) (Some (sts_view out')) = RolloutMySQLVersion e c (Some (sts_view out)) pods"
    using assms(1,2) template_version [of e lib out' ?s] by (simp add: out' sts_syncer_def)
  moreover have "ClusterHasMySQLData c'" if "ClusterHasMySQLData c" "0 < so_ReadyReplicas out"
    using that by (simp add: c' ClusterHasMySQLData_def HasPersistentDataVolume_def reannotate_fields split: if_splits)
  ultimately have v: "RolloutMySQLVersion e c' (Some (sts_view ?out)) pods' = RolloutMySQLVersion e c (Some (sts_view out)) pods"
    unfolding view by (intro rollout_stable) (use assms(1,4) in \<open>auto simp: c'\<close>)
  have t: "?t = resync (so_ReadyReplicas out) ?ann ?s"
    unfolding sts_syncer_def v by (simp add: resync_def sts_syncer_def c' out')
  have ops: "operator_annotations ?t = operator_annotations ?s" by (simp add: t operator_annotations_def)
  have labels: "getLabels e ?t x = getLabels e ?s x" for x by (simp add: t getLabels_def)
  have claims: "synced_claims ?t ?out = so_VolumeClaimTemplates out'"
    by (auto simp: synced_claims_def t out' shouldSetVolumeClaimTemplates_def sts_syncer_def c' reannotate_fields split: option.split)
  have template: "template_pod e lib ?t = template_pod e lib ?s" by (simp add: t)
  have sel: "ps_Labels (cs_PodSpec (mc_Spec c')) = ps_Labels (cs_PodSpec (mc_Spec c))" "cs_Replicas (mc_Spec c') = cs_Replicas (mc_Spec c)"
    "ps_Annotations (cs_PodSpec (mc_Spec c')) = ?ann" "GetSelectorLabels c' = GetSelectorLabels c"
    "GetNameForResource c' k = GetNameForResource c k" for k
    by (simp_all add: c' reannotate_fields) (simp add: reannotate_def)
  have obj: "so_Replicas out' = cs_Replicas (mc_Spec c)" "so_Selector out' = GetSelectorLabels c"
    "so_ServiceName out' = GetNameForResource c HeadlessSVC" "so_TemplateLabels out' = getLabels e ?s (ps_Labels (cs_PodSpec (mc_Spec c)))"
    "so_TemplateAnnotations out' = ?a ++ operator_annotations ?s" "so_Pod out' = template_pod e lib ?s" "so_ReadyReplicas out' = so_ReadyReplicas out"
    by (simp_all add: out')
  have "reannotate (so_ReadyReplicas out) ?ann c' = c'" by (simp add: c')
  then show ?thesis
    unfolding StsSyncFn_eq Let_def ops sel labels claims template
    by (intro prod_eqI) (simp_all add: obj sts_object.equality)
qed

end
