(* ===== verification/StsProps.thy ===== *)
theory StsProps
  imports StatefulSet
begin

text \<open>
  What the stateful set of a cluster satisfies: the security contexts, mounts and images of the pods that the
  syncer of the theory StatefulSet writes.
\<close>

section \<open>Parts of the template\<close>

lemma sync_template_pod:
  assumes "StsSyncFn e lib opt cmRev sctRev pods c out = (c', Inr out')"
  obtains podItems where "pods = Inr podItems"
    "so_Pod out' = template_pod e lib (sts_syncer e opt cmRev sctRev podItems c out)"
  using assms by (cases pods) (auto simp: StsSyncFn_eq Let_def)

lemma syncer_sel [simp]:
  "sy_opt (sts_syncer e opt cmRev sctRev pods c out) = opt"
  "sy_rolloutVersion (sts_syncer e opt cmRev sctRev pods c out) = RolloutMySQLVersion e c (Some (sts_view out)) pods"
  "sy_cluster (sts_syncer e opt cmRev sctRev pods c out) = reannotate (so_ReadyReplicas out) (ps_Annotations (cs_PodSpec (mc_Spec c))) c"
  by (simp_all add: sts_syncer_def)

definition server_container :: "sts_object \<Rightarrow> container option" where
  "server_container out = find (\<lambda>ct. ct_Name ct = containerMysqlName) (pt_Containers (so_Pod out))"

text \<open>The server container of a template, as the syncer builds it.\<close>

lemma template_mysql:
  assumes "scheme_ok lib"
  obtains m where "find (\<lambda>ct. ct_Name ct = containerMysqlName) (pt_Containers (template_pod e lib s)) = Some m"
    "keeps_container (applyContainerSecurityContext e s (mysql_container e s)) m"
proof -
  have "find (\<lambda>ct. ct_Name ct = containerMysqlName) (map (applyContainerSecurityContext e s) (ensureContainersSpec e lib s)) =
      Some (applyContainerSecurityContext e s (mysql_container e s))"
    by (simp add: ensureContainersSpec_def mysql_container_def)
  with keeps_find [OF template_keeps(1) [OF assms], of containerMysqlName e s] that show ?thesis
    by (auto simp: option_rel_Some1)
qed

lemma synced_server:
  assumes "scheme_ok lib" and "StsSyncFn e lib opt cmRev sctRev pods c out = (c', Inr out')"
  obtains ps m where "so_Pod out' = template_pod e lib (sts_syncer e opt cmRev sctRev ps c out)" "server_container out' = Some m"
    "keeps_container (applyContainerSecurityContext e (sts_syncer e opt cmRev sctRev ps c out)
       (mysql_container e (sts_syncer e opt cmRev sctRev ps c out))) m"
  using assms(2)
proof (rule sync_template_pod)
  fix ps assume out': "so_Pod out' = template_pod e lib (sts_syncer e opt cmRev sctRev ps c out)"
  show thesis using template_mysql [OF assms(1), of e "sts_syncer e opt cmRev sctRev ps c out"] that [OF out']
    by (metis server_container_def out')
qed

lemma mysql_container_sel [simp]:
  "ct_Name (mysql_container e s) = containerMysqlName" "ct_SecurityContext (mysql_container e s) = None"
  "ct_Image (mysql_container e s) = serverImageForVersion e s (sy_rolloutVersion s)"
  "ct_VolumeMounts (mysql_container e s) = getVolumeMountsFor s containerMysqlName"
  by (simp_all add: mysql_container_def)

lemma container_names_distinct [simp]:
  "containerMysqlName \<noteq> containerDatadirChownName" "containerMysqlName \<noteq> containerCloneAndInitName"
  "containerMySQLInitName \<noteq> containerDatadirChownName" "containerMySQLInitName \<noteq> containerCloneAndInitName"
  "containerDatadirChownName \<noteq> containerMysqlName" "containerDatadirChownName \<noteq> containerMySQLInitName"
  by (simp_all add: const_defs DatadirChownInitContainerName_def)

text \<open>What the pass over a container does to its security context.\<close>

definition may_escalate :: "container \<Rightarrow> bool" where
  "may_escalate ct \<longleftrightarrow> sc_AllowPrivilegeEscalation (context_of ct) \<noteq> Some False"

lemma escalation_pass:
  "opt_ClusterRestrictPrivilegeEscalation (sy_opt s) \<Longrightarrow> may_escalate (applyContainerSecurityContext e s ct) \<Longrightarrow>
   sc_AllowPrivilegeEscalation (context_of ct) = Some True"
  by (cases "sc_AllowPrivilegeEscalation (context_of ct)")
    (auto simp: may_escalate_def applyContainerSecurityContext_def applyRestrictPrivilegeEscalation_def
      applyMysqlProcessSecurityContext_def context_of_def Let_def split: if_splits option.splits)

lemma keeps_context: "keeps_container a b \<Longrightarrow> context_of b = context_of a"
  by (simp add: keeps_container_def context_of_def)

lemma bare_context [simp]: "ct_SecurityContext (bare_container n) = None" "ct_Command (bare_container n) = []"
  "ct_VolumeMounts (bare_container n) = None"
  by (simp_all add: bare_container_def)

lemma chown_escalation [simp]: "sc_AllowPrivilegeEscalation (context_of (ensureDatadirChownInitContainer e s)) = None"
  by (simp add: ensureDatadirChownInitContainer_def context_of_def Let_def split: option.split)

lemma no_context: "ct_SecurityContext ct = None \<Longrightarrow> sc_AllowPrivilegeEscalation (context_of ct) = None"
  by (simp add: context_of_def)

lemma context_resources [simp]: "context_of (ct\<lparr>ct_Resources := r\<rparr>) = context_of ct"
  by (simp add: context_of_def)

lemma operator_contexts:
  "ct_SecurityContext (sidecar_container e s) = None" "ct_SecurityContext (exporter_container e lib s) = None"
  "ct_SecurityContext (heartbeat_container e s) = None" "ct_SecurityContext (killer_container e s ql) = None"
  by (simp_all add: sidecar_container_def exporter_container_def heartbeat_container_def killer_container_def)

lemma no_operator_escalation:
  assumes "ct \<in> set (ensureInitContainersSpec e s @ ensureContainersSpec e lib s)"
  shows "ct \<in> set (ps_InitContainers (sy_pod s) @ ps_Containers (sy_pod s)) \<or> sc_AllowPrivilegeEscalation (context_of ct) = None"
  using assms unfolding ensureInitContainersSpec_def ensureContainersSpec_def Let_def
  by (auto simp: operator_contexts no_context split: if_splits option.splits)

lemma keeps_member:
  assumes "list_all2 keeps_container (map f xs) ys" and "y \<in> set ys"
  obtains x where "x \<in> set xs" "keeps_container (f x) y"
  using assms by (force simp: list_all2_conv_all_nth in_set_conv_nth)

text \<open>Every container of the template comes from one that the syncer built.\<close>

lemma template_origin:
  assumes "scheme_ok lib" and "ct \<in> set (pt_InitContainers (template_pod e lib s) @ pt_Containers (template_pod e lib s))"
  obtains raw where "raw \<in> set (ensureInitContainersSpec e s @ ensureContainersSpec e lib s)"
    "keeps_container (applyContainerSecurityContext e s raw) ct"
proof -
  have "list_all2 keeps_container
      (map (applyContainerSecurityContext e s) (ensureInitContainersSpec e s @ ensureContainersSpec e lib s))
      (pt_InitContainers (template_pod e lib s) @ pt_Containers (template_pod e lib s))"
    unfolding map_append by (intro list_all2_appendI template_keeps assms(1))
  then show ?thesis using assms(2) that by (rule keeps_member)
qed

section \<open>Properties of the template\<close>

text \<open>
  With the option that restricts privileges, no container of a pod may escalate, init containers and
  containers of the user included, unless the user asked for it in the security context of that container.
\<close>

theorem privilege_escalation_restricted:
  assumes "scheme_ok lib" and "opt_ClusterRestrictPrivilegeEscalation opt"
    and "StsSyncFn e lib opt cmRev sctRev pods c out = (c', Inr out')"
    and "ct \<in> set (pt_InitContainers (so_Pod out') @ pt_Containers (so_Pod out'))" and "may_escalate ct"
  shows "\<exists>user. user \<in> set (ps_InitContainers (cs_PodSpec (mc_Spec c)) @ ps_Containers (cs_PodSpec (mc_Spec c))) \<and>
    ct_Name user = ct_Name ct \<and> sc_AllowPrivilegeEscalation (context_of user) = Some True"
proof -
  from assms(3) obtain ps where out': "so_Pod out' = template_pod e lib (sts_syncer e opt cmRev sctRev ps c out)"
    by (rule sync_template_pod)
  let ?s = "sts_syncer e opt cmRev sctRev ps c out"
  from assms(1,4) obtain raw where raw: "raw \<in> set (ensureInitContainersSpec e ?s @ ensureContainersSpec e lib ?s)"
    "keeps_container (applyContainerSecurityContext e ?s raw) ct"
    unfolding out' by (rule template_origin)
  from raw(2) assms(5) have "may_escalate (applyContainerSecurityContext e ?s raw)"
    by (simp add: may_escalate_def keeps_context)
  then have "sc_AllowPrivilegeEscalation (context_of raw) = Some True"
    using assms(2) by (intro escalation_pass) simp_all
  with no_operator_escalation [OF raw(1)] raw(2) show ?thesis
    by (auto simp: reannotate_def keeps_container_def)
qed

text \<open>
  When the data directory changes hands (8.0 to 8.4 with a Percona image), the first init container of
  the template runs as root and gives the directory to exactly the user and group that the server container of the
  same template runs as, and the template is at the desired version.
\<close>

theorem chown_matches_server:
  assumes "env_ok e" and "scheme_ok lib" and "NeedsDatadirChownInit e c"
    and "StsSyncFn e lib opt cmRev sctRev pods c out = (c', Inr out')"
  shows "\<exists>chown inits m u g script. pt_InitContainers (so_Pod out') = chown # inits \<and>
    ct_Name chown = DatadirChownInitContainerName \<and> sc_RunAsUser (context_of chown) = Some 0 \<and>
    slice (ct_Args chown) = [script @ ''chown -R '' @ itoa u @ '':'' @ itoa g @ '' '' @ DataVolumeMountPath] \<and>
    server_container out' = Some m \<and> sc_RunAsUser (context_of m) = Some u \<and> sc_RunAsGroup (context_of m) = Some g \<and>
    SemVerFromStatefulSet (e_blang e) (Some (sts_view out')) = DesiredVersion e c"
proof -
  from assms(2,4) obtain ps m where out': "so_Pod out' = template_pod e lib (sts_syncer e opt cmRev sctRev ps c out)"
    and m: "server_container out' = Some m" "keeps_container (applyContainerSecurityContext e (sts_syncer e opt cmRev sctRev ps c out)
       (mysql_container e (sts_syncer e opt cmRev sctRev ps c out))) m"
    by (rule synced_server)
  let ?s = "sts_syncer e opt cmRev sctRev ps c out" and ?a = "AppliedDataPlaneVersion e c" and ?d = "DesiredVersion e c"
  from assms(1,3) have up: "Major ?a = 8" "Minor ?a < 4" "AtLeastMySQL84 ?d" "IsPerconaImage e c"
    by (simp_all add: datadir_chown_iff)
  then have p: "ProfileFor e ?d = profilePercona84" "ProfileFor e ?a = profilePercona80"
    using line_80_iff [of ?a] by (auto simp: ProfileFor_eq [OF assms(1)])
  have "?a \<noteq> Zero" using up(1) by (auto simp: Zero_def)
  moreover have "v_less ?a ?d"
  proof (rule ccontr)
    assume "\<not> v_less ?a ?d"
    with p have "v_less ?d ?a" using v_less_linear [of ?a ?d] by auto
    with up show False by (auto simp: AtLeastMySQL84_order v_less_def vkey_def word_less_nat_alt split: if_splits)
  qed
  ultimately have v: "RolloutMySQLVersion e c (Some (sts_view out)) ps = ?d"
    using assms(1) p by (simp add: RolloutMySQLVersion_applied ValidateUpgradePath_iff)
  have ver: "SemVerFromStatefulSet (e_blang e) (Some (sts_view out')) = ?d"
    using template_version [OF _ assms(2), of e out' ?s] assms(1) by (simp add: out' v)
  have hints: "ProfilePodSecurityHints (ProfileFor e ?d) (IsPerconaImage e c) = PodSecurityPerconaUID1001VolumeGroup"
    using p up by simp
  let ?chown = "(ensureDatadirChownInitContainer e ?s)\<lparr>ct_Resources := ensureResources ?s containerDatadirChownName\<rparr>"
  have chown: "ct_Command (ensureDatadirChownInitContainer e ?s) \<noteq> []" "ct_Name ?chown = containerDatadirChownName"
    "sc_RunAsUser (context_of (applyContainerSecurityContext e ?s ?chown)) = Some 0"
    "\<exists>script. ct_Args ?chown = Some [script @ ''chown -R '' @ itoa 1001 @ '':'' @ itoa 1001 @ '' '' @ DataVolumeMountPath]"
    by (simp_all add: ensureDatadirChownInitContainer_def hints PodSecurityPerconaUID1001VolumeGroup_def
        applyContainerSecurityContext_def applyMysqlProcessSecurityContext_def applyRestrictPrivilegeEscalation_def context_of_def)
  from chown(1) assms(3) obtain inits where "ensureInitContainersSpec e ?s = ?chown # inits"
    by (simp add: ensureInitContainersSpec_def)
  with template_keeps(2) [OF assms(2), of e ?s] obtain ct cts where ct: "pt_InitContainers (so_Pod out') = ct # cts"
    "keeps_container (applyContainerSecurityContext e ?s ?chown) ct"
    by (auto simp: out' list_all2_Cons1)
  have "sc_RunAsUser (context_of m) = Some 1001" "sc_RunAsGroup (context_of m) = Some 1001"
    using keeps_context [OF m(2)] hints
    by (simp_all add: applyContainerSecurityContext_def applyMysqlProcessSecurityContext_def applyRestrictPrivilegeEscalation_def
        context_of_def v PodSecurityPerconaUID1001VolumeGroup_def)
  with ct m ver chown keeps_context [OF ct(2)] show ?thesis
    by (auto simp: keeps_container_def containerDatadirChownName_def)
qed


definition names_volume :: "volume list \<Rightarrow> volume_mount \<Rightarrow> bool" where
  "names_volume vs m \<longleftrightarrow> vm_Name m \<in> vol_Name ` set vs"

definition mounts_ok :: "volume list \<Rightarrow> container \<Rightarrow> bool" where
  "mounts_ok vs ct \<longleftrightarrow> list_all (names_volume vs) (slice (ct_VolumeMounts ct))"

lemma operator_mounts:
  assumes "list_all (names_volume (ensureVolumes s)) (ps_VolumeMounts (sy_pod s))"
  shows "list_all (names_volume (ensureVolumes s)) (slice (getVolumeMountsFor s name))"
proof -
  have "names_volume (ensureVolumes s) (mount confVolumeName p ro)" "names_volume (ensureVolumes s) (mount confMapVolumeName p ro)"
    "names_volume (ensureVolumes s) (mount dataVolumeName p ro)"
    "cs_TmpfsSize (sy_spec s) \<noteq> None \<Longrightarrow> names_volume (ensureVolumes s) (mount tmpfsVolumeName p ro)" for p ro
    by (auto simp: names_volume_def mount_def ensureVolumes_def ensureVolume_def)
  with assms show ?thesis by (auto simp: getVolumeMountsFor_def Let_def)
qed

lemma operator_container_mounts [simp]:
  "ct_VolumeMounts (sidecar_container e s) = getVolumeMountsFor s containerSidecarName"
  "ct_VolumeMounts (exporter_container e lib s) = getVolumeMountsFor s containerExporterName"
  "ct_VolumeMounts (heartbeat_container e s) = getVolumeMountsFor s containerHeartBeatName"
  "ct_VolumeMounts (killer_container e s ql) = getVolumeMountsFor s containerKillerName"
  by (simp_all add: sidecar_container_def exporter_container_def heartbeat_container_def killer_container_def)

lemma chown_mounts:
  "ct_VolumeMounts (ensureDatadirChownInitContainer e s) = None \<or>
   ct_VolumeMounts (ensureDatadirChownInitContainer e s) = getVolumeMountsFor s containerDatadirChownName"
  by (simp add: ensureDatadirChownInitContainer_def getVolumeMountsFor_def Let_def split: option.split)

lemma raw_mounts:
  assumes "list_all (names_volume (ensureVolumes s)) (ps_VolumeMounts (sy_pod s))"
    and "list_all (mounts_ok (ensureVolumes s)) (ps_InitContainers (sy_pod s) @ ps_Containers (sy_pod s))"
    and "ct \<in> set (ensureInitContainersSpec e s @ ensureContainersSpec e lib s)"
  shows "mounts_ok (ensureVolumes s) ct"
proof -
  have "ct \<in> set (ps_InitContainers (sy_pod s) @ ps_Containers (sy_pod s)) \<or>
      ct_VolumeMounts ct = None \<or> (\<exists>name. ct_VolumeMounts ct = getVolumeMountsFor s name)"
    using assms(3) chown_mounts [of e s] unfolding ensureInitContainersSpec_def ensureContainersSpec_def Let_def
    by (auto split: if_splits option.splits)
  with assms(2) operator_mounts [OF assms(1)] show ?thesis
    by (auto simp: mounts_ok_def list_all_iff)
qed

text \<open>
  Property C22. Every volume that a container of the template mounts is a volume of the template, as long as the mounts
  the user adds (to the server containers or in containers of their own) are.
\<close>

theorem template_mounts_resolve:
  assumes "scheme_ok lib" and "StsSyncFn e lib opt cmRev sctRev pods c out = (c', Inr out')"
    and "list_all (names_volume (pt_Volumes (so_Pod out'))) (ps_VolumeMounts (cs_PodSpec (mc_Spec c)))"
    and "list_all (mounts_ok (pt_Volumes (so_Pod out'))) (ps_InitContainers (cs_PodSpec (mc_Spec c)) @ ps_Containers (cs_PodSpec (mc_Spec c)))"
  shows "list_all (mounts_ok (pt_Volumes (so_Pod out'))) (pt_InitContainers (so_Pod out') @ pt_Containers (so_Pod out'))"
proof -
  from assms(2) obtain ps where out': "so_Pod out' = template_pod e lib (sts_syncer e opt cmRev sctRev ps c out)"
    by (rule sync_template_pod)
  let ?s = "sts_syncer e opt cmRev sctRev ps c out"
  have vs: "pt_Volumes (so_Pod out') = ensureVolumes ?s" using template_keeps(3) [OF assms(1)] by (simp add: out')
  have pod: "sy_pod ?s = cs_PodSpec (mc_Spec c)" by (simp add: reannotate_def)
  show ?thesis
    unfolding list_all_iff
  proof
    fix ct assume "ct \<in> set (pt_InitContainers (so_Pod out') @ pt_Containers (so_Pod out'))"
    with assms(1) obtain raw where "raw \<in> set (ensureInitContainersSpec e ?s @ ensureContainersSpec e lib ?s)"
      "keeps_container (applyContainerSecurityContext e ?s raw) ct"
      unfolding out' by (rule template_origin)
    with raw_mounts [of ?s raw e lib] assms(3,4) vs pod show "mounts_ok (pt_Volumes (so_Pod out')) ct"
      by (simp add: mounts_ok_def keeps_container_def)
  qed
qed

text \<open>
  With a size for the temporary file system the server container mounts two volumes at the data
  directory, because the mount uses \<open>DataVolumeMountPath\<close> where \<open>TmpfsVolumeMountPath\<close> is meant: a pod with
  two mounts at one path is invalid.
\<close>

theorem tmpfs_mount_collides:
  assumes "scheme_ok lib" and "StsSyncFn e lib opt cmRev sctRev pods c out = (c', Inr out')"
    and "cs_TmpfsSize (mc_Spec c) = Some limit"
  shows "\<exists>m. server_container out' = Some m \<and> \<not> distinct (map vm_MountPath (slice (ct_VolumeMounts m))) \<and>
    mount tmpfsVolumeName DataVolumeMountPath False \<in> set (slice (ct_VolumeMounts m))"
proof -
  from assms(1,2) obtain ps m where m: "server_container out' = Some m"
    "keeps_container (applyContainerSecurityContext e (sts_syncer e opt cmRev sctRev ps c out)
       (mysql_container e (sts_syncer e opt cmRev sctRev ps c out))) m"
    by (rule synced_server)
  let ?s = "sts_syncer e opt cmRev sctRev ps c out"
  from m(2) have "slice (ct_VolumeMounts m) = slice (getVolumeMountsFor ?s containerMysqlName)" by (simp add: keeps_container_def)
  with m(1) assms(3) show ?thesis by (simp add: getVolumeMountsFor_def Let_def reannotate_fields mount_def)
qed

text \<open>
  The image of a cluster with \<open>spec.image\<close> is not held: while an upgrade is blocked the template
  declares the recorded version but runs the image of the spec.
\<close>

theorem custom_image_not_held:
  assumes "env_ok e" and "scheme_ok lib" and "StsSyncFn e lib opt cmRev sctRev pods c out = (c', Inr out')"
    and "EnsureChecked e c = Some (UpgradeBlockedError why)" and "cs_Image (mc_Spec c) \<noteq> []"
  shows "\<exists>m. server_container out' = Some m \<and> ct_Image m = cs_Image (mc_Spec c) \<and>
    SemVerFromStatefulSet (e_blang e) (Some (sts_view out')) = AppliedDataPlaneVersion e c"
proof -
  from assms(2,3) obtain ps m where out': "so_Pod out' = template_pod e lib (sts_syncer e opt cmRev sctRev ps c out)"
    and m: "server_container out' = Some m" "keeps_container (applyContainerSecurityContext e (sts_syncer e opt cmRev sctRev ps c out)
       (mysql_container e (sts_syncer e opt cmRev sctRev ps c out))) m"
    by (rule synced_server)
  let ?s = "sts_syncer e opt cmRev sctRev ps c out"
  from assms(1,4) have "RolloutMySQLVersion e c (Some (sts_view out)) ps = AppliedDataPlaneVersion e c"
    by (auto simp: EnsureChecked_def SourceVersionForUpgrade_def RolloutMySQLVersion_applied Let_def split: if_splits option.splits)
  with template_version [OF _ assms(2), of e out' ?s] assms(1)
  have v: "SemVerFromStatefulSet (e_blang e) (Some (sts_view out')) = AppliedDataPlaneVersion e c" by (simp add: out')
  from m have "ct_Image m = serverImageForVersion e ?s (sy_rolloutVersion ?s)" by (simp add: keeps_container_def)
  moreover have "cs_Image (mc_Spec (sy_cluster ?s)) = cs_Image (mc_Spec c)" by (simp add: reannotate_def)
  then have "serverImageForVersion e ?s v = cs_Image (mc_Spec c)" for v
    using assms(5) by (simp add: serverImageForVersion_def ServerImage_def ResolverServerImage_def split: option.split)
  ultimately show ?thesis using v m(1) by simp
qed


section \<open>Witnesses\<close>

definition ref_lib :: sts_lib where
  "ref_lib = \<lparr>sl_IntValue = (\<lambda>v. 0), sl_Default = (\<lambda>p. p), sl_SetController = (\<lambda>o'. None)\<rparr>"

definition new_sts :: sts_object where
  "new_sts =
     \<lparr>so_Created = False, so_ReadyReplicas = 0, so_Replicas = None, so_Selector = Map.empty, so_ServiceName = [],
      so_TemplateLabels = Map.empty, so_TemplateAnnotations = Map.empty,
      so_Pod = \<lparr>pt_InitContainers = [], pt_Containers = [], pt_Volumes = [], pt_Affinity = None, pt_ImagePullSecrets = [],
        pt_NodeSelector = Map.empty, pt_PriorityClassName = [], pt_Tolerations = [], pt_ServiceAccountName = [],
        pt_SecurityContext = None\<rparr>,
      so_VolumeClaimTemplates = []\<rparr>"

lemma ref_lib_ok [simp]: "scheme_ok ref_lib"
  by (simp add: scheme_ok_def ref_lib_def list_all2_refl)

definition ref_run :: "mysql_cluster \<Rightarrow> mysql_cluster \<times> (string, sts_object) result" where
  "ref_run c = StsSyncFn ref_env ref_lib (ref_options\<lparr>opt_ClusterRestrictPrivilegeEscalation := True\<rparr>) ''r1'' ''s1'' (Inr []) c new_sts"

lemma ref_run_obtain:
  obtains c' out' where "StsSyncFn ref_env ref_lib (ref_options\<lparr>opt_ClusterRestrictPrivilegeEscalation := True\<rparr>) ''r1'' ''s1'' (Inr []) c new_sts = (c', Inr out')"
    "ref_run c = (c', Inr out')"
  by (simp add: ref_run_def StsSyncFn_eq Let_def)

theorem sts_sync_refines_upgrade_witness:
  "\<exists>c' out'. ref_run (ref_at (ver 5 7 35) (ver 8 4 8)) = (c', Inr out') \<and>
     SemVerFromStatefulSet ref_blang (Some (sts_view out')) = ver 5 7 35"
proof (rule ref_run_obtain [of "ref_at (ver 5 7 35) (ver 8 4 8)"])
  fix c' out' assume run: "StsSyncFn ref_env ref_lib (ref_options\<lparr>opt_ClusterRestrictPrivilegeEscalation := True\<rparr>) ''r1'' ''s1'' (Inr [])
      (ref_at (ver 5 7 35) (ver 8 4 8)) new_sts = (c', Inr out')" and r: "ref_run (ref_at (ver 5 7 35) (ver 8 4 8)) = (c', Inr out')"
  have "RolloutMySQLVersion ref_env (ref_at (ver 5 7 35) (ver 8 4 8)) (Some (sts_view new_sts)) [] = ver 5 7 35"
    by (simp add: RolloutMySQLVersion_applied Zero_def ValidateUpgradePath_iff ProfileFor_eq AtLeastMySQL84_def AtLeastMySQL8_def
        v_less_def vkey_def)
  with sts_sync_refines_upgrade [OF _ _ run] r show ?thesis by simp
qed

theorem sts_sync_settles_witness:
  "\<exists>c' out'. ref_run ref_cluster = (c', Inr out') \<and>
     StsSyncFn ref_env ref_lib (ref_options\<lparr>opt_ClusterRestrictPrivilegeEscalation := True\<rparr>) ''r1'' ''s1'' (Inr [ref_pod ''db-mysql-0'']) c' (out'\<lparr>so_Created := True\<rparr>) =
       (c', Inr (out'\<lparr>so_Created := True\<rparr>))"
proof (rule ref_run_obtain [of ref_cluster])
  fix c' out' assume run: "StsSyncFn ref_env ref_lib (ref_options\<lparr>opt_ClusterRestrictPrivilegeEscalation := True\<rparr>) ''r1'' ''s1'' (Inr [])
      ref_cluster new_sts = (c', Inr out')" and r: "ref_run ref_cluster = (c', Inr out')"
  have "\<not> ClusterHasMySQLData ref_cluster" by (simp add: ClusterHasMySQLData_def ref_defs)
  with sts_sync_settles [OF _ _ run] r show ?thesis by simp
qed

definition debug_container :: container where
  "debug_container = (bare_container ''dbg'')\<lparr>ct_SecurityContext :=
     Some \<lparr>sc_RunAsUser = None, sc_RunAsGroup = None, sc_AllowPrivilegeEscalation = Some True\<rparr>\<rparr>"

definition ref_debug_cluster :: mysql_cluster where
  "ref_debug_cluster = ref_cluster\<lparr>mc_Spec := ref_spec\<lparr>cs_PodSpec := ref_pod_spec\<lparr>ps_Containers := [debug_container]\<rparr>\<rparr>\<rparr>"

theorem privilege_escalation_restricted_witness:
  "\<exists>user ct. user \<in> set (ps_InitContainers (cs_PodSpec (mc_Spec ref_debug_cluster)) @ ps_Containers (cs_PodSpec (mc_Spec ref_debug_cluster))) \<and>
     ct_Name user = ''dbg'' \<and> may_escalate ct \<and> sc_AllowPrivilegeEscalation (context_of user) = Some True"
proof (rule ref_run_obtain [of ref_debug_cluster])
  fix c' out' assume run: "StsSyncFn ref_env ref_lib (ref_options\<lparr>opt_ClusterRestrictPrivilegeEscalation := True\<rparr>) ''r1'' ''s1'' (Inr [])
      ref_debug_cluster new_sts = (c', Inr out')" and r: "ref_run ref_debug_cluster = (c', Inr out')"
  let ?s = "sts_syncer ref_env (ref_options\<lparr>opt_ClusterRestrictPrivilegeEscalation := True\<rparr>) ''r1'' ''s1'' [] ref_debug_cluster new_sts"
  let ?ct = "normalizeContainer (applyContainerSecurityContext ref_env ?s debug_container)"
  from run have "so_Pod out' = template_pod ref_env ref_lib ?s" by (auto simp: StsSyncFn_eq Let_def)
  moreover have "debug_container \<in> set (ensureContainersSpec ref_env ref_lib ?s)"
    by (simp add: ensureContainersSpec_def ref_debug_cluster_def reannotate_def)
  ultimately have mem: "?ct \<in> set (pt_InitContainers (so_Pod out') @ pt_Containers (so_Pod out'))"
    by (simp add: template_pod_def defaultPodSpec_def normalizePodSpec_def ref_lib_def applyPodContainerSecurityContext_def ensurePodSpec_def)
  have esc: "may_escalate ?ct" "ct_Name ?ct = ''dbg''"
    by (simp_all add: normalizeContainer_def debug_container_def applyContainerSecurityContext_def may_escalate_def context_of_def
        applyMysqlProcessSecurityContext_def applyRestrictPrivilegeEscalation_def const_defs)
  from privilege_escalation_restricted [OF _ _ run mem esc(1)] esc show ?thesis by auto
qed

theorem chown_matches_server_witness:
  "\<exists>c' out' chown inits. ref_run (ref_at_image (ver 8 0 20) (ver 8 4 8) (''percona'' @ '':8.4.8'')) = (c', Inr out') \<and>
     pt_InitContainers (so_Pod out') = chown # inits \<and> ct_Name chown = DatadirChownInitContainerName"
proof (rule ref_run_obtain [of "ref_at_image (ver 8 0 20) (ver 8 4 8) (''percona'' @ '':8.4.8'')"])
  fix c' out' assume run: "StsSyncFn ref_env ref_lib (ref_options\<lparr>opt_ClusterRestrictPrivilegeEscalation := True\<rparr>) ''r1'' ''s1'' (Inr [])
      (ref_at_image (ver 8 0 20) (ver 8 4 8) (''percona'' @ '':8.4.8'')) new_sts = (c', Inr out')"
    and r: "ref_run (ref_at_image (ver 8 0 20) (ver 8 4 8) (''percona'' @ '':8.4.8'')) = (c', Inr out')"
  have "NeedsDatadirChownInit ref_env (ref_at_image (ver 8 0 20) (ver 8 4 8) (''percona'' @ '':8.4.8''))"
    by (simp add: datadir_chown_iff AtLeastMySQL84_def del: append.simps)
  from chown_matches_server [OF _ _ this run] r show ?thesis by auto
qed

theorem template_mounts_resolve_witness:
  "\<exists>c' out'. ref_run ref_cluster = (c', Inr out') \<and>
     list_all (mounts_ok (pt_Volumes (so_Pod out'))) (pt_InitContainers (so_Pod out') @ pt_Containers (so_Pod out'))"
proof (rule ref_run_obtain [of ref_cluster])
  fix c' out' assume run: "StsSyncFn ref_env ref_lib (ref_options\<lparr>opt_ClusterRestrictPrivilegeEscalation := True\<rparr>) ''r1'' ''s1'' (Inr [])
      ref_cluster new_sts = (c', Inr out')" and r: "ref_run ref_cluster = (c', Inr out')"
  from template_mounts_resolve [OF _ run] r show ?thesis by (simp add: ref_defs)
qed

theorem tmpfs_mount_collides_witness:
  "\<exists>c' out' m. ref_run (ref_cluster\<lparr>mc_Spec := ref_spec\<lparr>cs_TmpfsSize := Some ''1Gi''\<rparr>\<rparr>) = (c', Inr out') \<and>
     server_container out' = Some m \<and> \<not> distinct (map vm_MountPath (slice (ct_VolumeMounts m)))"
proof (rule ref_run_obtain [of "ref_cluster\<lparr>mc_Spec := ref_spec\<lparr>cs_TmpfsSize := Some ''1Gi''\<rparr>\<rparr>"])
  fix c' out' assume run: "StsSyncFn ref_env ref_lib (ref_options\<lparr>opt_ClusterRestrictPrivilegeEscalation := True\<rparr>) ''r1'' ''s1'' (Inr [])
      (ref_cluster\<lparr>mc_Spec := ref_spec\<lparr>cs_TmpfsSize := Some ''1Gi''\<rparr>\<rparr>) new_sts = (c', Inr out')"
    and r: "ref_run (ref_cluster\<lparr>mc_Spec := ref_spec\<lparr>cs_TmpfsSize := Some ''1Gi''\<rparr>\<rparr>) = (c', Inr out')"
  from tmpfs_mount_collides [OF _ run, of "''1Gi''"] r show ?thesis by auto
qed

theorem custom_image_not_held_witness:
  "\<exists>c' out' m. ref_run (ref_at_image (ver 5 7 35) (ver 8 4 8) ''acme/mysql:8.4'') = (c', Inr out') \<and>
     server_container out' = Some m \<and> ct_Image m = ''acme/mysql:8.4'' \<and>
     SemVerFromStatefulSet ref_blang (Some (sts_view out')) = ver 5 7 35"
proof (rule ref_run_obtain [of "ref_at_image (ver 5 7 35) (ver 8 4 8) ''acme/mysql:8.4''"])
  let ?c = "ref_at_image (ver 5 7 35) (ver 8 4 8) ''acme/mysql:8.4''"
  fix c' out' assume run: "StsSyncFn ref_env ref_lib (ref_options\<lparr>opt_ClusterRestrictPrivilegeEscalation := True\<rparr>) ''r1'' ''s1'' (Inr [])
      ?c new_sts = (c', Inr out')" and r: "ref_run ?c = (c', Inr out')"
  obtain why where "ValidateUpgradePath ref_env (ver 5 7 35) (ver 8 4 8) = Some why" by (rule ref_path_blocked)
  then have "EnsureChecked ref_env ?c = Some (UpgradeBlockedError why)"
    by (simp add: EnsureChecked_def VersionChangePending_applied SourceVersionForUpgrade_def Zero_def v_less_def vkey_def)
  moreover have "cs_Image (mc_Spec ?c) = ''acme/mysql:8.4''" by (simp add: ref_at_image_def)
  ultimately show ?thesis using custom_image_not_held [OF _ _ run, of why] r by auto
qed

end
