(* ===== verification/ConfigMap.thy ===== *)
theory ConfigMap
  imports StsProps "HOL-Library.List_Lexorder" "HOL-Library.Char_ord" "HOL-Library.Sublist"
begin

text \<open>
  The config map of a cluster, \<^verbatim>\<open>pkg/controller/mysqlcluster/internal/syncer/config_map.go\<close>: the file
  \<^verbatim>\<open>my.cnf\<close> and the script that runs before a server stops.

  The package \<^verbatim>\<open>go-ini\<close> is the parameter \<open>ini_lib\<close> over its files \<open>'f\<close>; \<open>ini_ok\<close> is what it documents of the
  value of a key. \<^verbatim>\<open>intstr.Parse\<close> and \<^verbatim>\<open>IntOrString.String\<close> are the parameters \<open>intstr\<close>. The keys of a Go map
  are visited in the order of \<^verbatim>\<open>sort.Strings\<close>.
\<close>

section \<open>Libraries\<close>

record 'f ini_lib =
  in_Empty :: 'f
  in_NewSection :: "string \<Rightarrow> 'f \<Rightarrow> (string, 'f) result"
  in_NewKey :: "string \<Rightarrow> string \<Rightarrow> string \<Rightarrow> 'f \<Rightarrow> (string, 'f) result"
  in_NewBooleanKey :: "string \<Rightarrow> string \<Rightarrow> 'f \<Rightarrow> (string, 'f) result"
  in_WriteTo :: "'f \<Rightarrow> (string, string) result"

record intstr =
  is_Parse :: "string \<Rightarrow> int_or_string"
  is_String :: "int_or_string \<Rightarrow> string"

section \<open>Filling a section\<close>

definition convertMapToKVConfig :: "intstr \<Rightarrow> str_map \<Rightarrow> string \<rightharpoonup> int_or_string" where
  "convertMapToKVConfig is m = (\<lambda>k. map_option (is_Parse is) (m k))"

definition sorted_keys :: "(string \<rightharpoonup> 'a) \<Rightarrow> string list" where
  "sorted_keys m = sorted_list_of_set (dom m)"

text \<open>An error of a key is logged.\<close>

definition or_keep :: "'f \<Rightarrow> (string, 'f) result \<Rightarrow> 'f" where
  "or_keep f r = (case r of Inl err \<Rightarrow> f | Inr f' \<Rightarrow> f')"

fun add_keys :: "'f ini_lib \<Rightarrow> intstr \<Rightarrow> string \<Rightarrow> (string \<rightharpoonup> int_or_string) \<Rightarrow> string list \<Rightarrow> 'f \<Rightarrow> 'f" where
  "add_keys ini is sec extra [] f = f"
| "add_keys ini is sec extra (k # ks) f =
     add_keys ini is sec extra ks
       (case extra k of Some value \<Rightarrow> or_keep f (in_NewKey ini sec k (is_String is value) f) | None \<Rightarrow> f)"

fun addKVConfigsToSection :: "'f ini_lib \<Rightarrow> intstr \<Rightarrow> string \<Rightarrow> (string \<rightharpoonup> int_or_string) list \<Rightarrow> 'f \<Rightarrow> 'f" where
  "addKVConfigsToSection ini is sec [] f = f"
| "addKVConfigsToSection ini is sec (extra # extras) f =
     addKVConfigsToSection ini is sec extras (add_keys ini is sec extra (sorted_keys extra) f)"

fun add_booleans :: "'f ini_lib \<Rightarrow> string \<Rightarrow> string list \<Rightarrow> 'f \<Rightarrow> 'f" where
  "add_booleans ini sec [] f = f"
| "add_booleans ini sec (k # ks) f = add_booleans ini sec ks (or_keep f (in_NewBooleanKey ini sec k f))"

definition addBConfigsToSection :: "'f ini_lib \<Rightarrow> string \<Rightarrow> string list \<Rightarrow> 'f \<Rightarrow> 'f" where
  "addBConfigsToSection ini sec extra f = add_booleans ini sec (sort extra) f"

section \<open>The configuration\<close>

definition ConfDPath :: string where "ConfDPath = ''/etc/mysql/conf.d''"

definition default_socket :: string where "default_socket = DataVolumeMountPath @ ''/mysql.sock''"

definition user_conf :: "mysql_cluster \<Rightarrow> string \<rightharpoonup> int_or_string" where
  "user_conf c = (case cs_MysqlConf (mc_Spec c) of Some m \<Rightarrow> m | None \<Rightarrow> Map.empty)"

text \<open>The stateful set (\<open>None\<close> when it does not exist) and the pods, none when the list failed.\<close>

definition listClusterPods :: "(string, pod list) result \<Rightarrow> pod list" where
  "listClusterPods answer = (case answer of Inl err \<Rightarrow> [] | Inr items \<Rightarrow> items)"

definition mysqlConfVersion :: "env \<Rightarrow> (string, pod list) result \<Rightarrow> mysql_cluster \<Rightarrow> stateful_set option \<Rightarrow> version" where
  "mysqlConfVersion e pods c sts =
     (case sts of
        Some s \<Rightarrow> RolloutMySQLVersion e c sts (listClusterPods pods)
      | None \<Rightarrow> DesiredVersion e c)"

definition line_configs :: "'f ini_lib \<Rightarrow> intstr \<Rightarrow> mysql_profile \<Rightarrow> 'f \<Rightarrow> 'f" where
  "line_configs ini is prof f =
     (if UseMySQL5xConfigs prof then addKVConfigsToSection ini is ''mysqld'' [convertMapToKVConfig is Mysqld5xConfigs] f
      else if UseMySQL8xConfigs prof then
        let f1 = addKVConfigsToSection ini is ''mysqld'' [convertMapToKVConfig is Mysqld8xConfigs] f in
        if UseMySQL80AuthPlugin prof then addKVConfigsToSection ini is ''mysqld'' [convertMapToKVConfig is Mysqld80AuthPluginConfig] f1
        else f1
      else f)"

definition effective_socket :: "intstr \<Rightarrow> mysql_cluster \<Rightarrow> string" where
  "effective_socket is c = (case user_conf c ''socket'' of Some sv \<Rightarrow> is_String is sv | None \<Rightarrow> default_socket)"

definition operator_conf :: "env \<Rightarrow> version \<Rightarrow> mysql_cluster \<Rightarrow> str_map" where
  "operator_conf e v c =
     (if user_conf c ''socket'' = None then (OperatorKVForVersion e v)(''socket'' \<mapsto> default_socket) else OperatorKVForVersion e v)"

definition mysqld_section :: "'f ini_lib \<Rightarrow> intstr \<Rightarrow> env \<Rightarrow> version \<Rightarrow> mysql_cluster \<Rightarrow> 'f" where
  "mysqld_section ini is e v c =
     addKVConfigsToSection ini is ''mysqld'' [convertMapToKVConfig is (operator_conf e v c), user_conf c]
       (addBConfigsToSection ini ''mysqld'' (MysqldBooleanConfigs v)
         (line_configs ini is (ProfileFor e v) (or_keep (in_Empty ini) (in_NewSection ini ''mysqld'' (in_Empty ini)))))"

definition mysql_conf_file :: "'f ini_lib \<Rightarrow> intstr \<Rightarrow> env \<Rightarrow> version \<Rightarrow> mysql_cluster \<Rightarrow> (string, 'f) result" where
  "mysql_conf_file ini is e v c =
     (case in_NewSection ini ''client'' (mysqld_section ini is e v c) of
        Inl err \<Rightarrow> Inl err
      | Inr f1 \<Rightarrow>
          (case in_NewKey ini ''client'' ''socket'' (effective_socket is c) f1 of
             Inl err \<Rightarrow> Inl err
           | Inr f2 \<Rightarrow> in_NewBooleanKey ini ''mysqld'' (''!includedir '' @ ConfDPath) f2))"

definition buildMysqlConfData ::
    "'f ini_lib \<Rightarrow> intstr \<Rightarrow> env \<Rightarrow> (string, pod list) result \<Rightarrow> mysql_cluster \<Rightarrow> stateful_set option \<Rightarrow> (string, string) result" where
  "buildMysqlConfData ini is e pods c sts =
     (case mysql_conf_file ini is e (mysqlConfVersion e pods c sts) c of
        Inl err \<Rightarrow> Inl err
      | Inr f \<Rightarrow> in_WriteTo ini f)"

section \<open>The script before a stop\<close>

text \<open>\<^verbatim>\<open>strings.Replace\<close> with the counts 1 and -1, for a pattern that is not empty.\<close>

fun replace_first :: "string \<Rightarrow> string \<Rightarrow> string \<Rightarrow> string" where
  "replace_first old new [] = []"
| "replace_first old new (c # cs) =
     (if has_prefix (c # cs) old then new @ drop (length old) (c # cs) else c # replace_first old new cs)"

fun replace_from :: "string \<Rightarrow> string \<Rightarrow> nat \<Rightarrow> string \<Rightarrow> string" where
  "replace_from old new n [] = []"
| "replace_from old new n (c # cs) =
     (if n > 0 then replace_from old new (n - 1) cs
      else if has_prefix (c # cs) old then new @ replace_from old new (length old - 1) cs
      else c # replace_from old new 0 cs)"

definition replace_all :: "string \<Rightarrow> string \<Rightarrow> string \<Rightarrow> string" where
  "replace_all old new s = replace_from old new 0 s"

definition prestop_template :: string where
  "prestop_template = concat (map (\<lambda>line. line @ NL) [
      ''#!/bin/bash'',
      ''set -ex'',
      [],
      ''# Source/replica terminology from MySQL 8.4+ (major > 8, or 8.x with minor >= 4).'',
      ''prestop_mysql_use_source_replica_terms() {'',
      ''  local ver='' @ DQ @ ''$1'' @ DQ,
      ''  local mysql_major mysql_minor rest'',
      ''  mysql_major='' @ DQ @ ''${ver%%.*}'' @ DQ,
      ''  rest='' @ DQ @ ''${ver#*.}'' @ DQ,
      ''  mysql_minor='' @ DQ @ ''${rest%%.*}'' @ DQ,
      ''  if [ '' @ DQ @ ''${mysql_major}'' @ DQ @ '' -gt 8 ] || { [ '' @ DQ @ ''${mysql_major}'' @ DQ @ '' -eq 8 ] && [ '' @ DQ @ ''${mysql_minor}'' @ DQ @ '' -ge 4 ]; }; then'',
      ''    return 0'',
      ''  fi'',
      ''  return 1'',
      ''}'',
      [],
      ''if [ -z '' @ DQ @ ''${MY_MYSQL_VERSION}'' @ DQ @ '' ]; then'',
      ''  # Pods created before MY_MYSQL_VERSION was injected lack the env var; ask the local mysqld.'',
      ''  MY_MYSQL_VERSION=$(mysql --defaults-file=ConfClientPathHolder -NB -e '' @ SQ @ ''SELECT VERSION()'' @ SQ @ '')'',
      ''fi'',
      ''use_source_replica_terms=0'',
      ''if prestop_mysql_use_source_replica_terms '' @ DQ @ ''${MY_MYSQL_VERSION}'' @ DQ @ ''; then'',
      ''  use_source_replica_terms=1'',
      ''fi'',
      ''if [ '' @ DQ @ ''${use_source_replica_terms}'' @ DQ @ '' -eq 1 ]; then'',
      ''  replica_status_cmd='' @ SQ @ ''__SR_STATUS__'' @ SQ,
      ''  replica_hosts_cmd='' @ SQ @ ''__SR_HOSTS__'' @ SQ,
      ''  log_label='' @ SQ @ ''__SR_LABEL__'' @ SQ,
      ''else'',
      ''  replica_status_cmd='' @ SQ @ ''__MS_STATUS__'' @ SQ,
      ''  replica_hosts_cmd='' @ SQ @ ''__MS_HOSTS__'' @ SQ,
      ''  log_label='' @ SQ @ ''__MS_LABEL__'' @ SQ,
      ''fi'',
      [],
      ''current=$(date '' @ DQ @ ''+%Y-%m-%d %H:%M:%S'' @ DQ @ '')'',
      ''echo '' @ DQ @ ''[${current}]preStop is ongoing'' @ DQ,
      ''read_only_status=$(mysql --defaults-file=ConfClientPathHolder -NB -e '' @ SQ @ ''SELECT @@read_only'' @ SQ @ '')'',
      ''replica_status=$(mysql --defaults-file=ConfClientPathHolder -NB -e '' @ DQ @ ''${replica_status_cmd}'' @ DQ @ '')'',
      ''# orchestrator will isolate old master during failover'',
      ''has_replica_hosts=$(mysql --defaults-file=ConfClientPathHolder -NB -e '' @ DQ @ ''${replica_hosts_cmd}'' @ DQ @ '')'',
      ''replica_status_count=$(echo -n '' @ DQ @ ''$replica_status'' @ DQ @ '' | wc -l )'',
      ''has_replica_count=$(echo -n '' @ DQ @ ''$has_replica_hosts'' @ DQ @ '' | wc -l )'',
      ''echo '' @ DQ @ ''hostname=$(hostname) readonly=${read_only_status} ${log_label}=${replica_status_count}'' @ DQ,
      ''echo '' @ DQ @ ''has_replica_hosts=${has_replica_count}'' @ DQ,
      ''if [ ${read_only_status} -eq 0  ] && [ ${replica_status_count} -eq 0 ] && [ ${has_replica_count} -gt 0 ]'',
      ''then'',
      TAB @ TAB @ ''masterhostname=$( curl  -s '' @ DQ @ ''${ORCH_HTTP_API}/master/${ORCH_CLUSTER_ALIAS}'' @ DQ @ '' |  awk -F'' @ DQ @ '':'' @ DQ @ '' '' @ SQ @ ''{print $3}'' @ SQ @ '' | awk -F'' @ SQ @ DQ @ SQ @ '' '' @ SQ @ ''{print $2}'' @ SQ @ '' )'',
      ''        echo '' @ DQ @ ''master from orchestrator: ${masterhostname}'' @ DQ,
      ''        if [ '' @ DQ @ ''${MY_FQDN}'' @ DQ @ '' == '' @ DQ @ ''${masterhostname}'' @ DQ @ '' ]'',
      ''        then'',
      ''                curl  -s '' @ DQ @ ''${ORCH_HTTP_API}/graceful-master-takeover-auto/${ORCH_CLUSTER_ALIAS}'' @ DQ,
      TAB @ TAB @ TAB @ TAB @ ''echo '' @ DQ @ ''graceful-master-takeover-auto is ongoing, sleep 5 seconds in order to make sure service can work well.'' @ DQ,
      TAB @ TAB @ TAB @ TAB @ ''sleep 5'',
      ''        fi'',
      ''fi''])"

definition buildBashPreStop :: string where
  "buildBashPreStop =
     replace_all ''ConfClientPathHolder'' confClientPath
       (foldl (\<lambda>data r. replace_first (fst r) (snd r) data) prestop_template
         [(''__SR_STATUS__'', rd_ShowReplicaStatusCmd SourceReplicaReplication),
          (''__SR_HOSTS__'', rd_ShowReplicasCmd SourceReplicaReplication),
          (''__SR_LABEL__'', rd_LogLabelPreStop SourceReplicaReplication),
          (''__MS_STATUS__'', rd_ShowReplicaStatusCmd MasterSlaveReplication),
          (''__MS_HOSTS__'', rd_ShowReplicasCmd MasterSlaveReplication),
          (''__MS_LABEL__'', rd_LogLabelPreStop MasterSlaveReplication)])"

section \<open>The syncer\<close>

record config_map =
  cm_Labels :: str_map
  cm_Data :: str_map

definition configMapSyncFn ::
    "'f ini_lib \<Rightarrow> intstr \<Rightarrow> env \<Rightarrow> (string, pod list) result \<Rightarrow> mysql_cluster \<Rightarrow> stateful_set option \<Rightarrow> config_map \<Rightarrow>
     (string, config_map) result" where
  "configMapSyncFn ini is e pods c sts cm =
     (case buildMysqlConfData ini is e pods c sts of
        Inl err \<Rightarrow> Inl (''failed to create mysql configs: '' @ err)
      | Inr data \<Rightarrow>
          Inr (cm\<lparr>cm_Labels := (GetLabels e c)(''generated'' \<mapsto> ''true''),
                  cm_Data := (if ps_MysqlLifecycle (cs_PodSpec (mc_Spec c)) = None
                              then [''my.cnf'' \<mapsto> data, shPreStopFile \<mapsto> buildBashPreStop] else [''my.cnf'' \<mapsto> data])\<rparr>))"


section \<open>What the file says\<close>

text \<open>
  The documented behaviour of the package on the value \<open>look f (section, key)\<close> of a key: a new key has the value
  given, whether it was there before or not; the other keys keep theirs; an empty key is refused.
\<close>

definition ini_ok :: "'f ini_lib \<Rightarrow> ('f \<Rightarrow> string \<times> string \<rightharpoonup> string) \<Rightarrow> bool" where
  "ini_ok ini look \<longleftrightarrow>
     look (in_Empty ini) = Map.empty \<and>
     (\<forall>sec f f'. in_NewSection ini sec f = Inr f' \<longrightarrow> look f' = look f) \<and>
     (\<forall>sec f. sec \<noteq> [] \<longrightarrow> is_ok (in_NewSection ini sec f)) \<and>
     (\<forall>sec k v f f'. in_NewKey ini sec k v f = Inr f' \<longrightarrow> look f' = (look f)((sec, k) \<mapsto> v)) \<and>
     (\<forall>sec k v f. is_ok (in_NewKey ini sec k v f) \<longleftrightarrow> k \<noteq> []) \<and>
     (\<forall>sec k f f'. in_NewBooleanKey ini sec k f = Inr f' \<longrightarrow> look f' = (look f)((sec, k) \<mapsto> ''true'')) \<and>
     (\<forall>sec k f. is_ok (in_NewBooleanKey ini sec k f) \<longleftrightarrow> k \<noteq> [])"

lemma is_ok_iff: "is_ok r \<longleftrightarrow> (\<exists>x. r = Inr x)"
  by (cases r) auto

lemma look_key:
  assumes "ini_ok ini look"
  shows "look (or_keep f (in_NewKey ini sec k v f)) = (if k = [] then look f else (look f)((sec, k) \<mapsto> v))"
proof -
  have "is_ok (in_NewKey ini sec k v f) \<longleftrightarrow> k \<noteq> []" using assms by (simp add: ini_ok_def)
  then show ?thesis using assms by (cases "in_NewKey ini sec k v f") (auto simp: ini_ok_def or_keep_def)
qed

lemma look_boolean:
  assumes "ini_ok ini look"
  shows "look (or_keep f (in_NewBooleanKey ini sec k f)) = (if k = [] then look f else (look f)((sec, k) \<mapsto> ''true''))"
proof -
  have "is_ok (in_NewBooleanKey ini sec k f) \<longleftrightarrow> k \<noteq> []" using assms by (simp add: ini_ok_def)
  then show ?thesis using assms by (cases "in_NewBooleanKey ini sec k f") (auto simp: ini_ok_def or_keep_def)
qed

text \<open>A layer of settings over the values of a file.\<close>

definition layer :: "string \<Rightarrow> (string \<rightharpoonup> string) \<Rightarrow> (string \<times> string \<rightharpoonup> string) \<Rightarrow> (string \<times> string \<rightharpoonup> string)" where
  "layer sec m l = (\<lambda>(s, k). if s = sec \<and> k \<noteq> [] \<and> m k \<noteq> None then m k else l (s, k))"

definition shown :: "intstr \<Rightarrow> (string \<rightharpoonup> int_or_string) \<Rightarrow> string \<rightharpoonup> string" where
  "shown is m = (\<lambda>k. map_option (is_String is) (m k))"

lemma look_add_keys:
  assumes "ini_ok ini look"
  shows "look (add_keys ini is sec extra ks f) = layer sec (\<lambda>k. if k \<in> set ks then shown is extra k else None) (look f)"
  by (induction ks arbitrary: f)
    (auto simp: layer_def shown_def look_key [OF assms] fun_eq_iff split: option.split)

lemma look_add_configs:
  assumes "ini_ok ini look" and "finite (dom extra)"
  shows "look (addKVConfigsToSection ini is sec (extra # extras) f) =
    look (addKVConfigsToSection ini is sec extras (add_keys ini is sec extra (sorted_keys extra) f))"
    and "look (add_keys ini is sec extra (sorted_keys extra) f) = layer sec (shown is extra) (look f)"
  using assms(2) by (auto simp: look_add_keys [OF assms(1)] layer_def shown_def sorted_keys_def fun_eq_iff)

lemma look_booleans:
  assumes "ini_ok ini look"
  shows "look (addBConfigsToSection ini sec bs f) = layer sec (\<lambda>k. if k \<in> set bs then Some ''true'' else None) (look f)"
proof -
  have "look (add_booleans ini sec ks f) = layer sec (\<lambda>k. if k \<in> set ks then Some ''true'' else None) (look f)" for ks
    by (induction ks arbitrary: f) (auto simp: layer_def look_boolean [OF assms] fun_eq_iff)
  then show ?thesis by (simp add: addBConfigsToSection_def)
qed

lemma finite_builtin [simp]:
  "finite (dom (convertMapToKVConfig is m)) \<longleftrightarrow> finite (dom m)"
  "finite (dom Mysqld5xConfigs)" "finite (dom Mysqld8xConfigs)" "finite (dom Mysqld80AuthPluginConfig)"
  "finite (dom (OperatorKVForVersion e v))"
proof -
  have "finite (dom (OperatorKVCommon w b))" for w b
    by (simp add: OperatorKVCommon_def Let_def finite_dom_map_of)
  then have "finite (dom (MySQLOperatorKV p v))" for p by (cases p) simp_all
  then show "finite (dom (OperatorKVForVersion e v))" by (simp add: OperatorKVForVersion_def)
  have "dom (convertMapToKVConfig is m) = dom m" by (auto simp: convertMapToKVConfig_def)
  then show "finite (dom (convertMapToKVConfig is m)) \<longleftrightarrow> finite (dom m)" by simp
qed (simp_all add: Mysqld5xConfigs_def Mysqld8xConfigs_def Mysqld80AuthPluginConfig_def finite_dom_map_of)

text \<open>The settings of a line of versions: the specification of the first part of the section.\<close>

fun line_defaults :: "mysql_profile \<Rightarrow> str_map" where
  "line_defaults profilePercona57 = Mysqld5xConfigs"
| "line_defaults profilePercona80 = Mysqld8xConfigs ++ Mysqld80AuthPluginConfig"
| "line_defaults profilePercona84 = Mysqld8xConfigs"
| "line_defaults profileFallback = Mysqld5xConfigs"

lemma layer_layer:
  "layer sec (shown is (convertMapToKVConfig is m)) (layer sec (shown is (convertMapToKVConfig is n)) l) =
   layer sec (shown is (convertMapToKVConfig is (n ++ m))) l"
  by (auto simp: layer_def shown_def convertMapToKVConfig_def map_add_def fun_eq_iff split: option.split)

lemma look_line:
  assumes "ini_ok ini look"
  shows "look (line_configs ini is p f) = layer ''mysqld'' (shown is (convertMapToKVConfig is (line_defaults p))) (look f)"
  by (cases p) (simp_all add: line_configs_def look_add_configs [OF assms] Let_def layer_layer)

lemma look_section:
  assumes "ini_ok ini look" and "finite (dom (user_conf c))"
  shows "look (mysqld_section ini is e v c) =
    layer ''mysqld'' (shown is (user_conf c)) (layer ''mysqld'' (shown is (convertMapToKVConfig is (operator_conf e v c)))
      (layer ''mysqld'' (\<lambda>k. if k \<in> set (MysqldBooleanConfigs v) then Some ''true'' else None)
        (layer ''mysqld'' (shown is (convertMapToKVConfig is (line_defaults (ProfileFor e v)))) Map.empty)))"
proof -
  have empty: "look (or_keep (in_Empty ini) (in_NewSection ini ''mysqld'' (in_Empty ini))) = Map.empty"
    using assms(1) by (cases "in_NewSection ini ''mysqld'' (in_Empty ini)") (auto simp: ini_ok_def or_keep_def)
  have "finite (dom (operator_conf e v c))" by (simp add: operator_conf_def)
  then show ?thesis
    using assms(2)
    by (simp add: mysqld_section_def look_add_configs [OF assms(1)] look_booleans [OF assms(1)] look_line [OF assms(1)] empty)
qed

lemma look_file:
  assumes "ini_ok ini look" and "mysql_conf_file ini is e v c = Inr f"
  shows "look f = (look (mysqld_section ini is e v c))((''client'', ''socket'') \<mapsto> effective_socket is c, (''mysqld'', ''!includedir '' @ ConfDPath) \<mapsto> ''true'')"
  using assms by (auto simp: mysql_conf_file_def ini_ok_def split: sum.splits)

definition gone :: "version \<Rightarrow> string \<Rightarrow> bool" where
  "gone v k \<longleftrightarrow>
     AtLeastMySQL8 v \<and> k \<in> set [''query-cache-type'', ''query-cache-size'', ''expire-logs-days''] \<or>
     AtLeastMySQL84 v \<and> k \<in> set [''default-authentication-plugin'', ''master-info-repository'', ''relay-log-info-repository''] \<or>
     AtLeastMySQL8030 v \<and> k \<in> set [''skip-host-cache'', ''innodb-log-files-in-group'']"

lemma at_least_imp:
  "AtLeastMySQL84 v \<Longrightarrow> AtLeastMySQL8 v" "AtLeastMySQL8030 v \<Longrightarrow> AtLeastMySQL8 v" "AtLeastMySQL84 v \<Longrightarrow> AtLeastMySQL8030 v"
  by (auto simp: AtLeastMySQL84_def AtLeastMySQL8_def AtLeastMySQL8030_def word_less_nat_alt word_le_nat_alt split: if_splits)

lemma line_defaults_gone:
  assumes "env_ok e" and "gone v k"
  shows "line_defaults (ProfileFor e v) k = None"
proof -
  have "Mysqld8xConfigs k = None" "Mysqld80AuthPluginConfig k = None \<or> AtLeastMySQL84 v"
    using assms(2) by (auto simp: gone_def Mysqld8xConfigs_def Mysqld80AuthPluginConfig_def)
  moreover have "AtLeastMySQL8 v" using assms(2) at_least_imp by (auto simp: gone_def)
  ultimately show ?thesis by (auto simp: ProfileFor_eq [OF assms(1)] map_add_def)
qed

lemma common_keys:
  "OperatorKVCommon v b ''query-cache-type'' = None" "OperatorKVCommon v b ''query-cache-size'' = None"
  "OperatorKVCommon v b ''expire-logs-days'' = None" "OperatorKVCommon v b ''skip-host-cache'' = None"
  "OperatorKVCommon v b ''default-authentication-plugin'' = None"
  "OperatorKVCommon v True ''master-info-repository'' = None" "OperatorKVCommon v True ''relay-log-info-repository'' = None"
  "AtLeastMySQL8030 v \<Longrightarrow> OperatorKVCommon v b ''innodb-log-files-in-group'' = None"
  by (simp_all add: OperatorKVCommon_def Let_def)

lemma operator_conf_gone:
  assumes "env_ok e" and "gone v k"
  shows "operator_conf e v c k = None"
proof -
  have "OperatorKVForVersion e v = OperatorKVCommon v (AtLeastMySQL84 v)"
    by (simp add: OperatorKVForVersion_def ProfileFor_eq [OF assms(1)])
  moreover have "OperatorKVCommon v (AtLeastMySQL84 v) k = None" using assms(2) by (auto simp: gone_def common_keys)
  moreover have "k \<noteq> ''socket''" using assms(2) by (auto simp: gone_def)
  ultimately show ?thesis by (simp add: operator_conf_def)
qed

lemma conf_file_look:
  assumes "ini_ok ini look" and "finite (dom (user_conf c))" and "k \<noteq> []"
    and "k \<notin> set (MysqldBooleanConfigs v)" and "k \<noteq> ''!includedir '' @ ConfDPath"
  shows "\<exists>f. mysql_conf_file ini is e v c = Inr f \<and>
    look f (''mysqld'', k) =
      (case user_conf c k of
         Some value \<Rightarrow> Some (is_String is value)
       | None \<Rightarrow> map_option (\<lambda>value. is_String is (is_Parse is value)) ((line_defaults (ProfileFor e v) ++ operator_conf e v c) k)) \<and>
    look f (''client'', ''socket'') = Some (effective_socket is c)"
proof -
  have "is_ok (in_NewSection ini ''client'' (mysqld_section ini is e v c))" using assms(1) by (simp add: ini_ok_def)
  then obtain f1 where f1: "in_NewSection ini ''client'' (mysqld_section ini is e v c) = Inr f1" by (auto simp: is_ok_iff)
  have "is_ok (in_NewKey ini ''client'' ''socket'' (effective_socket is c) f1)" using assms(1) by (simp add: ini_ok_def)
  then obtain f2 where f2: "in_NewKey ini ''client'' ''socket'' (effective_socket is c) f1 = Inr f2" by (auto simp: is_ok_iff)
  have "is_ok (in_NewBooleanKey ini ''mysqld'' (''!includedir '' @ ConfDPath) f2)" using assms(1) by (simp add: ini_ok_def)
  then obtain f where f: "mysql_conf_file ini is e v c = Inr f" by (auto simp: is_ok_iff mysql_conf_file_def f1 f2)
  have l: "look f (''mysqld'', k) = (case user_conf c k of
         Some value \<Rightarrow> Some (is_String is value)
       | None \<Rightarrow> map_option (\<lambda>value. is_String is (is_Parse is value)) ((line_defaults (ProfileFor e v) ++ operator_conf e v c) k))"
    using assms(3-5)
    by (simp only: look_file [OF assms(1) f] look_section [OF assms(1,2)])
      (simp add: layer_def shown_def convertMapToKVConfig_def map_add_def option.map_comp comp_def del: append.simps split: option.split)
  have "look f (''client'', ''socket'') = Some (effective_socket is c)"
    by (simp only: look_file [OF assms(1) f]) simp
  with f l show ?thesis by blast
qed

section \<open>Properties\<close>


text \<open>
  The file fits the server that reads it: the settings that a line of versions does not know any more
  are in the file only if the user puts them there.
\<close>

theorem conf_knows_its_version:
  assumes "env_ok e" and "ini_ok ini look" and "finite (dom (user_conf c))" and "mysql_conf_file ini is e v c = Inr f"
    and "user_conf c k = None"
    and "gone v k"
  shows "look f (''mysqld'', k) = None"
proof -
  have k: "k \<noteq> []" "k \<noteq> ''!includedir '' @ ConfDPath" "k \<notin> set (MysqldBooleanConfigs v)"
    using assms(6) at_least_imp by (auto simp: gone_def MysqldBooleanConfigs_def)
  have d: "line_defaults (ProfileFor e v) k = None" by (rule line_defaults_gone [OF assms(1,6)])
  have o: "operator_conf e v c k = None" by (rule operator_conf_gone [OF assms(1,6)])
  with assms(5) k d o show ?thesis
    by (simp only: look_file [OF assms(2,4)] look_section [OF assms(2,3)])
      (simp add: layer_def shown_def convertMapToKVConfig_def)
qed

lemma template_member:
  assumes "scheme_ok lib" and "raw \<in> set (ensureContainersSpec e lib s)"
  obtains ct where "ct \<in> set (pt_Containers (template_pod e lib s))" "keeps_container (applyContainerSecurityContext e s raw) ct"
proof -
  let ?a = "map (applyContainerSecurityContext e s) (ensureContainersSpec e lib s)"
  from assms(2) obtain i where i: "i < length ?a" "?a ! i = applyContainerSecurityContext e s raw"
    by (auto simp: in_set_conv_nth)
  with template_keeps(1) [OF assms(1), of e s] show ?thesis
    by (intro that [of "pt_Containers (template_pod e lib s) ! i"]) (auto simp: list_all2_conv_all_nth)
qed

lemma synced_heartbeat:
  assumes "scheme_ok lib" and "StsSyncFn e lib opt cmRev sctRev pods c out = (c', Inr out')"
  obtains h where "h \<in> set (pt_Containers (so_Pod out'))" "ct_Name h = containerHeartBeatName"
    "sublist [''--socket'', default_socket] (slice (ct_Args h))"
proof -
  from assms(2) obtain ps where out': "so_Pod out' = template_pod e lib (sts_syncer e opt cmRev sctRev ps c out)"
    by (rule sync_template_pod)
  let ?s = "sts_syncer e opt cmRev sctRev ps c out"
  have "heartbeat_container e ?s \<in> set (ensureContainersSpec e lib ?s)" by (simp add: ensureContainersSpec_def)
  then obtain h where h: "h \<in> set (pt_Containers (template_pod e lib ?s))"
      "keeps_container (applyContainerSecurityContext e ?s (heartbeat_container e ?s)) h"
    by (rule template_member [OF assms(1)])
  have "ct_Name h = containerHeartBeatName"
    using h(2) by (simp add: keeps_container_def heartbeat_container_def ensureContainer_def bare_container_def)
  moreover have "sublist [''--socket'', default_socket] (slice (ct_Args h))"
    using h(2) by (simp add: keeps_container_def heartbeat_container_def ensureContainer_def default_socket_def sublist_Cons_right)
  ultimately show thesis using h(1) that out' by simp
qed

lemma conf_version_of_set [simp]:
  "mysqlConfVersion e answer c (Some s) = RolloutMySQLVersion e c (Some s) (listClusterPods answer)"
  "mysqlConfVersion e answer c None = DesiredVersion e c"
  by (simp_all add: mysqlConfVersion_def)

lemma rollout_pods: "RolloutMySQLVersion e c s pods = RolloutMySQLVersion e c s pods'"
  by (simp add: RolloutMySQLVersion_def)

text \<open>
  Property C12. The configuration is the one of the version that the template of the pods runs: when the stateful set
  exists, the file is the one built for the version that is read back from the template its syncer leaves.
\<close>

theorem conf_matches_template:
  assumes "env_ok e" and "scheme_ok lib" and "StsSyncFn e lib opt cmRev sctRev (Inr pods) c out = (c', Inr out')"
  shows "buildMysqlConfData ini is e answer c (Some (sts_view out)) =
    (case mysql_conf_file ini is e (SemVerFromStatefulSet (e_blang e) (Some (sts_view out'))) c of
       Inl err \<Rightarrow> Inl err
     | Inr f \<Rightarrow> in_WriteTo ini f)"
proof -
  from synced_version [OF assms] have "mysqlConfVersion e answer c (Some (sts_view out)) = SemVerFromStatefulSet (e_blang e) (Some (sts_view out'))"
    using rollout_pods [of e c _ pods "listClusterPods answer"] by simp
  then show ?thesis by (simp add: buildMysqlConfData_def)
qed

text \<open>
  Without a stateful set the configuration is not held: while an upgrade is blocked, the file is built
  for the version of the spec, and the template of the stateful set that is created runs the version applied before.
\<close>

theorem conf_ahead_without_set:
  assumes "env_ok e" and "scheme_ok lib" and "StsSyncFn e lib opt cmRev sctRev (Inr pods) c out = (c', Inr out')"
    and "EnsureChecked e c = Some (UpgradeBlockedError why)"
  shows "mysqlConfVersion e answer c None \<noteq> SemVerFromStatefulSet (e_blang e) (Some (sts_view out'))"
proof -
  have "RolloutMySQLVersion e c (Some (sts_view out)) pods = AppliedDataPlaneVersion e c \<and> AppliedDataPlaneVersion e c \<noteq> DesiredVersion e c"
    using assms(1,4)
    by (auto simp: EnsureChecked_def SourceVersionForUpgrade_def RolloutMySQLVersion_applied VersionChangePending_def Let_def split: if_splits option.splits)
  with synced_version [OF assms(1-3)] show ?thesis unfolding conf_version_of_set by metis
qed

text \<open>
  A user may move the socket of the server: the server and the client follow, but \<^verbatim>\<open>pt-heartbeat\<close> is
  started on the socket of the data directory.
\<close>

theorem heartbeat_misses_socket:
  assumes "ini_ok ini look" and "finite (dom (user_conf c))" and "user_conf c ''socket'' = Some sock"
    and "scheme_ok lib" and "StsSyncFn e lib opt cmRev sctRev pods c out = (c', Inr out')"
  shows "\<exists>f h. mysql_conf_file ini is e v c = Inr f \<and> look f (''mysqld'', ''socket'') = Some (is_String is sock) \<and>
    look f (''client'', ''socket'') = Some (is_String is sock) \<and>
    h \<in> set (pt_Containers (so_Pod out')) \<and> ct_Name h = containerHeartBeatName \<and>
    sublist [''--socket'', default_socket] (slice (ct_Args h))"
proof -
  have "\<exists>f. mysql_conf_file ini is e v c = Inr f \<and> look f (''mysqld'', ''socket'') = Some (is_String is sock) \<and>
      look f (''client'', ''socket'') = Some (is_String is sock)"
    using conf_file_look [OF assms(1,2), of "''socket''" v "is" e] assms(3)
    by (simp add: MysqldBooleanConfigs_def effective_socket_def)
  moreover obtain h where "h \<in> set (pt_Containers (so_Pod out'))" "ct_Name h = containerHeartBeatName"
      "sublist [''--socket'', default_socket] (slice (ct_Args h))"
    using assms(4,5) by (rule synced_heartbeat)
  ultimately show ?thesis by blast
qed

section \<open>Witnesses\<close>

definition ref_ini :: "(string \<times> string \<rightharpoonup> string) ini_lib" where
  "ref_ini =
     \<lparr>in_Empty = Map.empty,
      in_NewSection = (\<lambda>sec f. if sec = [] then Inl ''empty section name'' else Inr f),
      in_NewKey = (\<lambda>sec k v f. if k = [] then Inl ''empty key name'' else Inr (f((sec, k) \<mapsto> v))),
      in_NewBooleanKey = (\<lambda>sec k f. if k = [] then Inl ''empty key name'' else Inr (f((sec, k) \<mapsto> ''true''))),
      in_WriteTo = (\<lambda>f. Inr [])\<rparr>"

definition ref_intstr :: intstr where
  "ref_intstr = \<lparr>is_Parse = StrVal, is_String = (\<lambda>v. case v of StrVal s \<Rightarrow> s | IntVal i \<Rightarrow> itoa i)\<rparr>"

lemma ref_ini_ok [simp]: "ini_ok ref_ini id"
  by (simp add: ini_ok_def ref_ini_def)

definition ref_conf_cluster :: mysql_cluster where
  "ref_conf_cluster = ref_cluster\<lparr>mc_Spec := (mc_Spec ref_cluster)\<lparr>cs_MysqlConf := Some [''socket'' \<mapsto> StrVal ''/run/s'', ''max-connections'' \<mapsto> IntVal 10]\<rparr>\<rparr>"

lemma ref_user_conf [simp]: "user_conf ref_conf_cluster = [''socket'' \<mapsto> StrVal ''/run/s'', ''max-connections'' \<mapsto> IntVal 10]"
  by (simp add: user_conf_def ref_conf_cluster_def)


theorem conf_knows_its_version_witness:
  "\<exists>f. mysql_conf_file ref_ini ref_intstr ref_env (ver 8 4 8) ref_conf_cluster = Inr f \<and>
     f (''mysqld'', ''default-authentication-plugin'') = None"
proof -
  have g: "gone (ver 8 4 8) ''default-authentication-plugin''" by (simp add: gone_def AtLeastMySQL84_def)
  obtain f where "mysql_conf_file ref_ini ref_intstr ref_env (ver 8 4 8) ref_conf_cluster = Inr f"
    using conf_file_look [OF ref_ini_ok, of ref_conf_cluster "''max-connections''" "ver 8 4 8" ref_intstr ref_env]
    by (auto simp: MysqldBooleanConfigs_def)
  with conf_knows_its_version [OF ref_env_ok ref_ini_ok _ this _ g] show ?thesis by simp
qed

theorem conf_matches_template_witness:
  "\<exists>c' out'. ref_run (ref_at (ver 5 7 35) (ver 8 4 8)) = (c', Inr out') \<and>
     buildMysqlConfData ref_ini ref_intstr ref_env (Inr []) (ref_at (ver 5 7 35) (ver 8 4 8)) (Some (sts_view new_sts)) =
       (case mysql_conf_file ref_ini ref_intstr ref_env (SemVerFromStatefulSet ref_blang (Some (sts_view out'))) (ref_at (ver 5 7 35) (ver 8 4 8)) of
          Inl err \<Rightarrow> Inl err | Inr f \<Rightarrow> in_WriteTo ref_ini f)"
proof (rule ref_run_obtain [of "ref_at (ver 5 7 35) (ver 8 4 8)"])
  fix c' out' assume run: "StsSyncFn ref_env ref_lib (ref_options\<lparr>opt_ClusterRestrictPrivilegeEscalation := True\<rparr>) ''r1'' ''s1'' (Inr [])
      (ref_at (ver 5 7 35) (ver 8 4 8)) new_sts = (c', Inr out')" and r: "ref_run (ref_at (ver 5 7 35) (ver 8 4 8)) = (c', Inr out')"
  from conf_matches_template [OF _ _ run, of ref_ini ref_intstr "Inr []"] r show ?thesis by simp
qed

theorem conf_ahead_without_set_witness:
  "\<exists>c' out'. ref_run (ref_at (ver 5 7 35) (ver 8 4 8)) = (c', Inr out') \<and>
     mysqlConfVersion ref_env (Inr []) (ref_at (ver 5 7 35) (ver 8 4 8)) None \<noteq> SemVerFromStatefulSet ref_blang (Some (sts_view out'))"
proof (rule ref_run_obtain [of "ref_at (ver 5 7 35) (ver 8 4 8)"])
  fix c' out' assume run: "StsSyncFn ref_env ref_lib (ref_options\<lparr>opt_ClusterRestrictPrivilegeEscalation := True\<rparr>) ''r1'' ''s1'' (Inr [])
      (ref_at (ver 5 7 35) (ver 8 4 8)) new_sts = (c', Inr out')" and r: "ref_run (ref_at (ver 5 7 35) (ver 8 4 8)) = (c', Inr out')"
  obtain why where "EnsureChecked ref_env (ref_at (ver 5 7 35) (ver 8 4 8)) = Some (UpgradeBlockedError why)" by (rule ref_path_blocked)
  from conf_ahead_without_set [OF _ _ run this, of "Inr []"] r show ?thesis by simp
qed

theorem heartbeat_misses_socket_witness:
  "\<exists>f h c' out'. ref_run ref_conf_cluster = (c', Inr out') \<and>
     mysql_conf_file ref_ini ref_intstr ref_env (ver 8 4 8) ref_conf_cluster = Inr f \<and> f (''mysqld'', ''socket'') = Some ''/run/s'' \<and>
     h \<in> set (pt_Containers (so_Pod out')) \<and> sublist [''--socket'', default_socket] (slice (ct_Args h))"
proof (rule ref_run_obtain [of ref_conf_cluster])
  fix c' out' assume run: "StsSyncFn ref_env ref_lib (ref_options\<lparr>opt_ClusterRestrictPrivilegeEscalation := True\<rparr>) ''r1'' ''s1'' (Inr [])
      ref_conf_cluster new_sts = (c', Inr out')" and r: "ref_run ref_conf_cluster = (c', Inr out')"
  have "\<exists>f h. mysql_conf_file ref_ini ref_intstr ref_env (ver 8 4 8) ref_conf_cluster = Inr f \<and>
      id f (''mysqld'', ''socket'') = Some (is_String ref_intstr (StrVal ''/run/s'')) \<and>
      id f (''client'', ''socket'') = Some (is_String ref_intstr (StrVal ''/run/s'')) \<and>
      h \<in> set (pt_Containers (so_Pod out')) \<and> ct_Name h = containerHeartBeatName \<and> sublist [''--socket'', default_socket] (slice (ct_Args h))"
    by (rule heartbeat_misses_socket [OF ref_ini_ok _ _ ref_lib_ok run]) simp_all
  with r show ?thesis by (auto simp: ref_intstr_def)
qed

end
