(* ===== verification/Syncers.thy ===== *)
theory Syncers
  imports StsProps ClusterProps
begin

text \<open>
  The small syncers of \<^verbatim>\<open>pkg/controller/mysqlcluster/internal/syncer\<close>: the four services, the disruption budget,
  the user's secret and the secret of the operator. Each definition is the function that \<^verbatim>\<open>CreateOrUpdate\<close> applies
  to the object it has read. The random source of the passwords is the parameter \<open>rnd\<close>: the answer to the n-th call
  of \<^verbatim>\<open>rand.AlphaNumericString\<close>.
\<close>

section \<open>Services\<close>

definition LabelServiceType :: string where "LabelServiceType = ''mysql.presslabs.org/service-type''"
definition ServiceTypeMaster :: string where "ServiceTypeMaster = ''master''"
definition ServiceTypeReadyNodes :: string where "ServiceTypeReadyNodes = ''ready-nodes''"
definition ServiceTypeReadyReplicas :: string where "ServiceTypeReadyReplicas = ''ready-replicas''"
definition ServiceTypeNamespaceNodes :: string where "ServiceTypeNamespaceNodes = ''namespace-nodes''"
definition TargetPort :: int_or_string where "TargetPort = IntVal MysqlPort"
definition ExporterTargetPort :: int_or_string where "ExporterTargetPort = IntVal ExporterPort"

record service_port =
  sp_Name :: string
  sp_Port :: int
  sp_TargetPort :: int_or_string
  sp_Protocol :: string
  sp_NodePort :: int

definition zero_port :: service_port where
  "zero_port = \<lparr>sp_Name = [], sp_Port = 0, sp_TargetPort = IntVal 0, sp_Protocol = [], sp_NodePort = 0\<rparr>"

record service =
  sv_Labels :: str_map
  sv_Type :: string
  sv_ClusterIP :: string
  sv_Selector :: str_map
  sv_PublishNotReadyAddresses :: bool
  sv_Ports :: "service_port list"

definition resize_ports :: "nat \<Rightarrow> service_port list \<Rightarrow> service_port list" where
  "resize_ports n ps = (if length ps \<noteq> n then replicate n zero_port else ps)"

definition mysql_port :: "service_port \<Rightarrow> service_port" where
  "mysql_port p = p\<lparr>sp_Name := MysqlPortName, sp_Port := MysqlPort, sp_TargetPort := TargetPort, sp_Protocol := ''TCP''\<rparr>"

definition exporter_port :: "service_port \<Rightarrow> service_port" where
  "exporter_port p = p\<lparr>sp_Name := ExporterPortName, sp_Port := ExporterPort, sp_TargetPort := ExporterTargetPort, sp_Protocol := ''TCP''\<rparr>"

definition sidecar_port :: "service_port \<Rightarrow> service_port" where
  "sidecar_port p = p\<lparr>sp_Name := SidecarServerPortName, sp_Port := SidecarServerPort, sp_Protocol := ''TCP''\<rparr>"

definition two_ports :: "(service_port \<Rightarrow> service_port) \<Rightarrow> (service_port \<Rightarrow> service_port) \<Rightarrow> service_port list \<Rightarrow> service_port list" where
  "two_ports f g ps = (let qs = resize_ports 2 ps in qs[0 := f (qs ! 0), 1 := g (qs ! 1)])"

definition headlessSyncFn :: "service \<Rightarrow> service" where
  "headlessSyncFn s =
     s\<lparr>sv_Labels := [''app.kubernetes.io/name'' \<mapsto> ''mysql'', ''app.kubernetes.io/managed-by'' \<mapsto> ManagedBy,
         LabelServiceType \<mapsto> ServiceTypeNamespaceNodes],
       sv_ClusterIP := ''None'',
       sv_Selector := [''app.kubernetes.io/name'' \<mapsto> ''mysql'', ''app.kubernetes.io/managed-by'' \<mapsto> ManagedBy],
       sv_PublishNotReadyAddresses := True,
       sv_Ports := two_ports mysql_port exporter_port (sv_Ports s)\<rparr>"

definition masterSyncFn :: "env \<Rightarrow> mysql_cluster \<Rightarrow> service \<Rightarrow> service" where
  "masterSyncFn e c s =
     s\<lparr>sv_Labels := (GetLabels e c)(LabelServiceType \<mapsto> ServiceTypeMaster),
       sv_Selector := (GetSelectorLabels c)(''role'' \<mapsto> labelMaster),
       sv_Ports := two_ports mysql_port sidecar_port (sv_Ports s)\<rparr>"

definition healthySyncFn :: "env \<Rightarrow> mysql_cluster \<Rightarrow> service \<Rightarrow> service" where
  "healthySyncFn e c s =
     s\<lparr>sv_Labels := (GetLabels e c)(LabelServiceType \<mapsto> ServiceTypeReadyNodes),
       sv_Type := ''ClusterIP'',
       sv_Selector := (GetSelectorLabels c)(''healthy'' \<mapsto> ''yes''),
       sv_Ports := (let qs = resize_ports 1 (sv_Ports s) in qs[0 := mysql_port (qs ! 0)])\<rparr>"

definition healthyReplicasSyncFn :: "env \<Rightarrow> mysql_cluster \<Rightarrow> service \<Rightarrow> service" where
  "healthyReplicasSyncFn e c s =
     s\<lparr>sv_Labels := (GetLabels e c)(LabelServiceType \<mapsto> ServiceTypeReadyReplicas),
       sv_Selector := (GetSelectorLabels c)(''role'' \<mapsto> labelReplica, ''healthy'' \<mapsto> labelHealthy),
       sv_Ports := two_ports mysql_port sidecar_port (sv_Ports s)\<rparr>"

section \<open>The disruption budget\<close>

record pdb =
  pdb_MinAvailable :: "int_or_string option"
  pdb_Selector :: "str_map option"

definition pdbSyncFn :: "mysql_cluster \<Rightarrow> pdb \<Rightarrow> pdb" where
  "pdbSyncFn c p =
     (if pdb_MinAvailable p \<noteq> None then p
      else p\<lparr>pdb_MinAvailable := Some (StrVal (cs_MinAvailable (mc_Spec c))), pdb_Selector := Some (GetSelectorLabels c)\<rparr>)"

section \<open>Secrets\<close>

definition secretSyncFn :: "mysql_cluster \<Rightarrow> str_map \<Rightarrow> (string, str_map) result" where
  "secretSyncFn c data =
     (if data ''ROOT_PASSWORD'' = None then Inl (''ROOT_PASSWORD not set in secret: '' @ cs_SecretName (mc_Spec c)) else Inr data)"

definition rStrLen :: nat where "rStrLen = 18"
definition HeartBeatMySQLUser :: string where "HeartBeatMySQLUser = ''sys_heartbeat''"

type_synonym random_source = "nat \<Rightarrow> nat \<Rightarrow> (string, string) result"

text \<open>The data of the secret with the number of calls of the random source made so far.\<close>

definition addRandomPassword :: "random_source \<Rightarrow> string \<Rightarrow> str_map \<times> nat \<Rightarrow> (string, str_map \<times> nat) result" where
  "addRandomPassword rnd key s =
     (case s of (data, n) \<Rightarrow>
        if (case data key of Some v \<Rightarrow> v = [] | None \<Rightarrow> True)
        then (case rnd n rStrLen of
                Inl err \<Rightarrow> Inl err
              | Inr random \<Rightarrow> Inr (data(key \<mapsto> random), Suc n))
        else Inr (data, n))"

definition add_user :: "random_source \<Rightarrow> string \<Rightarrow> string \<Rightarrow> string \<Rightarrow> (string, str_map \<times> nat) result \<Rightarrow> (string, str_map \<times> nat) result" where
  "add_user rnd userKey user passwordKey s =
     (case s of
        Inl err \<Rightarrow> Inl err
      | Inr (data, n) \<Rightarrow> addRandomPassword rnd passwordKey (data(userKey \<mapsto> user), n))"

definition add_topology :: "options \<Rightarrow> (string, str_map \<times> nat) result \<Rightarrow> (string, str_map \<times> nat) result" where
  "add_topology opt s =
     (case s of
        Inl err \<Rightarrow> Inl err
      | Inr (data, n) \<Rightarrow>
          Inr (data(''ORC_TOPOLOGY_USER'' \<mapsto> opt_OrchestratorTopologyUser opt,
                    ''ORC_TOPOLOGY_PASSWORD'' \<mapsto> opt_OrchestratorTopologyPassword opt), n))"

definition operatedSecretSyncFn :: "random_source \<Rightarrow> options \<Rightarrow> str_map \<Rightarrow> (string, str_map \<times> nat) result" where
  "operatedSecretSyncFn rnd opt data =
     add_user rnd ''BACKUP_USER'' ''sys_backups'' ''BACKUP_PASSWORD''
       (add_user rnd ''HEARTBEAT_USER'' HeartBeatMySQLUser ''HEARTBEAT_PASSWORD''
         (add_topology opt
           (add_user rnd ''METRICS_EXPORTER_USER'' MetricsExporterMySQLUser ''METRICS_EXPORTER_PASSWORD''
             (add_user rnd ''REPLICATION_USER'' ''sys_replication'' ''REPLICATION_PASSWORD''
               (add_user rnd ''OPERATOR_USER'' ''sys_operator'' ''OPERATOR_PASSWORD'' (Inr (data, 0)))))))"

section \<open>Lemmas\<close>

lemma node_cond_GetNodeCondition [simp]:
  "node_cond (fst (GetNodeCondition c h ty)) n ty' = node_cond c n ty'"
proof -
  have "fst (GetNodeCondition c h ty) = fst (GetNodeStatusFor c h)"
    by (auto simp: GetNodeCondition_def GetNodeStatusFor_def case_prod_beta Let_def split: option.splits)
  then show ?thesis by (simp add: OrcReconcile.GetNodeStatusFor_node_cond)
qed

definition node_healthy :: "mysql_cluster \<Rightarrow> string \<Rightarrow> bool" where
  "node_healthy c host \<longleftrightarrow> OrcReconcile.cond_true c host NodeConditionMaster \<or>
     OrcReconcile.cond_true c host NodeConditionReplicating \<and> \<not> OrcReconcile.cond_true c host NodeConditionLagged"

lemma is_true_cond: "is_true (node_cond c h ty) = OrcReconcile.cond_true c h ty"
  by (auto simp: is_true_def OrcReconcile.cond_true_def split: option.split)

lemma podSyncFn_labels:
  assumes "podSyncFn c host (Some labels) = (c', Inr l)"
  shows "l = labels(''role'' \<mapsto> (if OrcReconcile.cond_true c host NodeConditionMaster then labelMaster else labelReplica),
    ''healthy'' \<mapsto> (if node_healthy c host then labelHealthy else labelNotHealthy))"
proof -
  obtain m where m: "node_cond c host NodeConditionMaster = Some m"
    using assms by (auto simp: podSyncFn_def case_prod_beta Let_def GetNodeCondition_eq split: option.splits)
  then have "(nc_Status m = ConditionTrue) = OrcReconcile.cond_true c host NodeConditionMaster"
    by (simp add: OrcReconcile.cond_true_def)
  with assms m show ?thesis
    by (auto simp: podSyncFn_def case_prod_beta Let_def GetNodeCondition_eq is_true_cond node_healthy_def)
qed

lemma map_le_update_right: "k \<notin> dom m \<Longrightarrow> m \<subseteq>\<^sub>m l(k \<mapsto> v) \<longleftrightarrow> m \<subseteq>\<^sub>m l"
  by (auto simp: map_le_def)

lemma map_le_update_left: "k \<notin> dom m \<Longrightarrow> m(k \<mapsto> v) \<subseteq>\<^sub>m l \<longleftrightarrow> m \<subseteq>\<^sub>m l \<and> l k = Some v"
  by (auto simp: map_le_def)

lemma selector_keys [simp]: "''role'' \<notin> dom (GetSelectorLabels c)" "''healthy'' \<notin> dom (GetSelectorLabels c)"
  by (simp_all add: GetSelectorLabels_def LabelCluster_def)

text \<open>A service, or a budget, selects a pod when the labels of the pod contain its selector.\<close>

definition selects :: "str_map \<Rightarrow> str_map \<Rightarrow> bool" where
  "selects selector labels \<longleftrightarrow> selector \<subseteq>\<^sub>m labels"

lemma length_resize [simp]: "length (resize_ports n ps) = n"
  by (simp add: resize_ports_def)

lemma resize_same [simp]: "length ps = n \<Longrightarrow> resize_ports n ps = ps"
  by (simp add: resize_ports_def)

lemma port_idem [simp]:
  "mysql_port (mysql_port p) = mysql_port p" "exporter_port (exporter_port p) = exporter_port p" "sidecar_port (sidecar_port p) = sidecar_port p"
  by (simp_all add: mysql_port_def exporter_port_def sidecar_port_def)

lemma two_ports_idem:
  assumes "\<And>p. f (f p) = f p" and "\<And>p. g (g p) = g p"
  shows "two_ports f g (two_ports f g ps) = two_ports f g ps"
proof -
  obtain p q where "resize_ports 2 ps = [p, q]"
    using length_resize [of 2 ps] by (metis One_nat_def Suc_1 length_0_conv length_Suc_conv)
  then show ?thesis using assms by (simp add: two_ports_def Let_def resize_ports_def)
qed

lemma GetLabels_selector: "GetSelectorLabels c \<subseteq>\<^sub>m GetLabels e c"
  by (auto simp: map_le_def GetSelectorLabels_def GetLabels_def LabelCluster_def Let_def split: option.splits)

text \<open>The random source gives alphanumeric strings of the length asked for.\<close>

definition alphanumeric :: "char \<Rightarrow> bool" where
  "alphanumeric ch \<longleftrightarrow> ch \<in> set ''abcdefghijklmnopqrstuvwxyzABCDEFGHIJKLMNOPQRSTUVWXYZ0123456789''"

definition rand_ok :: "random_source \<Rightarrow> bool" where
  "rand_ok rnd \<longleftrightarrow> (\<forall>i n r. rnd i n = Inr r \<longrightarrow> length r = n \<and> list_all alphanumeric r)"

definition password_keys :: "string list" where
  "password_keys = [''OPERATOR_PASSWORD'', ''REPLICATION_PASSWORD'', ''METRICS_EXPORTER_PASSWORD'', ''HEARTBEAT_PASSWORD'', ''BACKUP_PASSWORD'']"

definition filled :: "str_map \<Rightarrow> string \<Rightarrow> bool" where
  "filled data k \<longleftrightarrow> data k \<noteq> None \<and> data k \<noteq> Some []"

lemma add_user_spec:
  assumes "rand_ok rnd" and "add_user rnd uk u pk (Inr (data, n)) = Inr (data', n')" and "uk \<noteq> pk"
  shows "\<exists>pw. data' = data(uk \<mapsto> u, pk \<mapsto> pw) \<and> pw \<noteq> [] \<and>
    (if filled data pk then data pk = Some pw \<and> n' = n else length pw = rStrLen \<and> list_all alphanumeric pw)"
proof (cases "filled data pk")
  case True
  then obtain v where "data pk = Some v" "v \<noteq> []" by (auto simp: filled_def)
  with assms(2,3) have "data' = data(uk \<mapsto> u)" "n' = n" by (auto simp: add_user_def addRandomPassword_def)
  moreover have "data(uk \<mapsto> u) = data(uk \<mapsto> u, pk \<mapsto> v)" using assms(3) \<open>data pk = Some v\<close> by (auto simp: fun_eq_iff)
  ultimately show ?thesis using \<open>data pk = Some v\<close> \<open>v \<noteq> []\<close> True by auto
next
  case False
  then have "case (data(uk \<mapsto> u)) pk of Some v \<Rightarrow> v = [] | None \<Rightarrow> True"
    using assms(3) by (auto simp: filled_def split: option.split)
  with assms(2) obtain r where "rnd n rStrLen = Inr r" "data' = data(uk \<mapsto> u, pk \<mapsto> r)"
    by (auto simp: add_user_def addRandomPassword_def split: sum.splits)
  moreover from this(1) assms(1) have "length r = rStrLen" "list_all alphanumeric r" by (auto simp: rand_ok_def)
  moreover from this(1) have "r \<noteq> []" by (auto simp: rStrLen_def)
  ultimately show ?thesis using False by auto
qed

text \<open>What a step of the syncer leaves: the user, a password, and the other keys as they were.\<close>

lemma add_user_keys:
  assumes "rand_ok rnd" and "add_user rnd uk u pk (Inr (data, n)) = Inr (data', n')" and "uk \<noteq> pk"
  shows "data' uk = Some u" and "data' pk \<noteq> None" and "data' pk \<noteq> Some []" and "filled data pk \<Longrightarrow> data' pk = data pk"
    and "\<not> filled data pk \<Longrightarrow> list_all alphanumeric (the (data' pk))" and "k \<noteq> uk \<Longrightarrow> k \<noteq> pk \<Longrightarrow> data' k = data k"
  using add_user_spec [OF assms] assms(3) by (auto split: if_splits)

lemma add_user_Inl [simp]: "add_user rnd uk u pk (Inl err) = Inl err" "add_topology opt (Inl err) = Inl err"
  by (simp_all add: add_user_def add_topology_def)

lemma services_settle:
  "headlessSyncFn (headlessSyncFn sv) = headlessSyncFn sv" "masterSyncFn e c (masterSyncFn e c sv) = masterSyncFn e c sv"
  "healthySyncFn e c (healthySyncFn e c sv) = healthySyncFn e c sv"
  "healthyReplicasSyncFn e c (healthyReplicasSyncFn e c sv) = healthyReplicasSyncFn e c sv"
  by (simp_all add: headlessSyncFn_def masterSyncFn_def healthySyncFn_def healthyReplicasSyncFn_def two_ports_idem Let_def)

lemma pdb_settles: "pdbSyncFn d (pdbSyncFn c p) = pdbSyncFn c p"
  by (simp add: pdbSyncFn_def)

section \<open>Properties\<close>

lemma selectors_of_pod:
  assumes "GetSelectorLabels c \<subseteq>\<^sub>m labels" and "podSyncFn d host (Some labels) = (d', Inr l)" and "mc_Name d = mc_Name c"
  shows "selects (sv_Selector (masterSyncFn e c sv)) l \<longleftrightarrow> OrcReconcile.cond_true d host NodeConditionMaster"
    and "selects (sv_Selector (healthySyncFn e c sv)) l \<longleftrightarrow> node_healthy d host"
    and "selects (sv_Selector (healthyReplicasSyncFn e c sv)) l \<longleftrightarrow>
      node_healthy d host \<and> \<not> OrcReconcile.cond_true d host NodeConditionMaster"
    and "selects (sv_Selector (headlessSyncFn sv)) l"
proof -
  note l = podSyncFn_labels [OF assms(2)]
  have sel: "GetSelectorLabels c \<subseteq>\<^sub>m l" using assms(1) by (simp add: l map_le_update_right)
  have role: "l ''role'' = Some (if OrcReconcile.cond_true d host NodeConditionMaster then labelMaster else labelReplica)"
    and healthy: "l ''healthy'' = Some (if node_healthy d host then labelHealthy else labelNotHealthy)" by (simp_all add: l)
  have keys: "''healthy'' \<notin> dom ((GetSelectorLabels c)(''role'' \<mapsto> v))" for v by simp
  show "selects (sv_Selector (masterSyncFn e c sv)) l \<longleftrightarrow> OrcReconcile.cond_true d host NodeConditionMaster"
    using sel role by (simp add: selects_def masterSyncFn_def map_le_update_left labelMaster_def labelReplica_def)
  show "selects (sv_Selector (healthySyncFn e c sv)) l \<longleftrightarrow> node_healthy d host"
    using sel healthy by (simp add: selects_def healthySyncFn_def map_le_update_left labelHealthy_def labelNotHealthy_def)
  show "selects (sv_Selector (healthyReplicasSyncFn e c sv)) l \<longleftrightarrow>
      node_healthy d host \<and> \<not> OrcReconcile.cond_true d host NodeConditionMaster"
    using sel role healthy
    by (auto simp: selects_def healthyReplicasSyncFn_def map_le_update_left [OF keys] map_le_update_left labelMaster_def labelReplica_def
        labelHealthy_def labelNotHealthy_def)
  show "selects (sv_Selector (headlessSyncFn sv)) l"
    using sel by (auto simp: selects_def headlessSyncFn_def map_le_def GetSelectorLabels_def LabelCluster_def split: if_splits)
qed

lemma synced_labels:
  assumes "StsSyncFn e lib opt cmRev sctRev pods c out = (c', Inr out')"
  shows "so_Selector out' = GetSelectorLabels c"
    and "\<exists>s. so_TemplateLabels out' = getLabels e s (ps_Labels (cs_PodSpec (mc_Spec c))) \<and> mc_Name (sy_cluster s) = mc_Name c"
  using assms
  by (cases pods; fastforce simp: StsSyncFn_eq Let_def reannotate_def)+

text \<open>
  Property C18. The services route to the right pods: for a pod of the template, once its labels are synced from the
  status of its node, the master service selects it iff the node is the master, the service of the healthy nodes
  iff the node is healthy, and the service of the replicas iff it is healthy and not the master.
\<close>

theorem services_select:
  assumes "StsSyncFn e lib opt cmRev sctRev pods c out = (c', Inr out')"
    and "GetSelectorLabels c \<subseteq>\<^sub>m GetSelectorLabels c ++ ps_Labels (cs_PodSpec (mc_Spec c))"
    and "podSyncFn d host (Some (so_TemplateLabels out')) = (d', Inr l)" and "mc_Name d = mc_Name c"
  shows "(selects (sv_Selector (masterSyncFn e c sv)) l \<longleftrightarrow> OrcReconcile.cond_true d host NodeConditionMaster) \<and>
    (selects (sv_Selector (healthySyncFn e c sv)) l \<longleftrightarrow> node_healthy d host) \<and>
    (selects (sv_Selector (healthyReplicasSyncFn e c sv)) l \<longleftrightarrow>
       node_healthy d host \<and> \<not> OrcReconcile.cond_true d host NodeConditionMaster) \<and>
    selects (so_Selector out') l"
proof -
  obtain s :: sfs_syncer where t: "so_TemplateLabels out' = GetLabels e (sy_cluster s) ++ ps_Labels (cs_PodSpec (mc_Spec c))"
    and "mc_Name (sy_cluster s) = mc_Name c" and so: "so_Selector out' = GetSelectorLabels c"
    using synced_labels [OF assms(1)] unfolding getLabels_def by blast
  then have "GetSelectorLabels c \<subseteq>\<^sub>m GetLabels e (sy_cluster s)"
    using GetLabels_selector [of "sy_cluster s" e] by (simp add: GetSelectorLabels_def)
  with assms(2) have labels: "GetSelectorLabels c \<subseteq>\<^sub>m so_TemplateLabels out'"
    by (fastforce simp: t map_le_def map_add_def dom_def split: option.splits)
  moreover have "GetSelectorLabels c \<subseteq>\<^sub>m l"
    using labels by (simp add: podSyncFn_labels [OF assms(3)] map_le_update_right)
  ultimately show ?thesis using selectors_of_pod [OF _ assms(3,4)] so by (simp add: selects_def)
qed

text \<open>
  The secret of the operator: a sync keeps the passwords that are there, fills the others with
  alphanumeric strings, and leaves credentials that the node controller accepts and that the upgrade finds.
\<close>

theorem operated_secret_complete:
  assumes "rand_ok rnd" and "operatedSecretSyncFn rnd opt data = Inr (data', n)"
  shows "list_all (\<lambda>k. filled data' k \<and> (if filled data k then data' k = data k else list_all alphanumeric (the (data' k)))) password_keys \<and>
    getCredsSecret (api\<lparr>na_GetSecret := \<lambda>name ns. Inr data'\<rparr>) c =
      Inr \<lparr>cr_User = ''sys_operator'', cr_Password = the (data' ''OPERATOR_PASSWORD''), cr_ReplicationUser = ''sys_replication'',
           cr_ReplicationPassword = the (data' ''REPLICATION_PASSWORD'')\<rparr> \<and>
    operatorSQLCredentials (\<lambda>name ns. Inr data') c = Inr (''sys_operator'', the (data' ''OPERATOR_PASSWORD''))"
proof -
  let ?u1 = "add_user rnd ''OPERATOR_USER'' ''sys_operator'' ''OPERATOR_PASSWORD'' (Inr (data, 0))"
  obtain d1 n1 where 1: "?u1 = Inr (d1, n1)" using assms(2) by (cases ?u1) (auto simp: operatedSecretSyncFn_def)
  let ?u2 = "add_user rnd ''REPLICATION_USER'' ''sys_replication'' ''REPLICATION_PASSWORD'' (Inr (d1, n1))"
  obtain d2 n2 where 2: "?u2 = Inr (d2, n2)" using assms(2) 1 by (cases ?u2) (auto simp: operatedSecretSyncFn_def)
  let ?u3 = "add_user rnd ''METRICS_EXPORTER_USER'' MetricsExporterMySQLUser ''METRICS_EXPORTER_PASSWORD'' (Inr (d2, n2))"
  obtain d3 n3 where 3: "?u3 = Inr (d3, n3)" using assms(2) 1 2 by (cases ?u3) (auto simp: operatedSecretSyncFn_def)
  let ?d4 = "d3(''ORC_TOPOLOGY_USER'' \<mapsto> opt_OrchestratorTopologyUser opt, ''ORC_TOPOLOGY_PASSWORD'' \<mapsto> opt_OrchestratorTopologyPassword opt)"
  let ?u5 = "add_user rnd ''HEARTBEAT_USER'' HeartBeatMySQLUser ''HEARTBEAT_PASSWORD'' (Inr (?d4, n3))"
  obtain d5 n5 where 5: "?u5 = Inr (d5, n5)" using assms(2) 1 2 3 by (cases ?u5) (auto simp: operatedSecretSyncFn_def add_topology_def)
  have 6: "add_user rnd ''BACKUP_USER'' ''sys_backups'' ''BACKUP_PASSWORD'' (Inr (d5, n5)) = Inr (data', n)"
    using assms(2) 1 2 3 5 by (simp add: operatedSecretSyncFn_def add_topology_def)
  note k1 = add_user_keys [OF assms(1) 1] and k2 = add_user_keys [OF assms(1) 2] and k3 = add_user_keys [OF assms(1) 3]
    and k5 = add_user_keys [OF assms(1) 5] and k6 = add_user_keys [OF assms(1) 6]
  note keep = k6(6) k5(6) k3(6) k2(6) k1(6)
  have kept: "list_all (\<lambda>k. filled data' k \<and> (if filled data k then data' k = data k else list_all alphanumeric (the (data' k)))) password_keys"
    using k1(2-5) k2(2-5) k3(2-5) k5(2-5) k6(2-5)
    by (simp add: password_keys_def filled_def keep)
  have users: "data' ''OPERATOR_USER'' = Some ''sys_operator''" "data' ''REPLICATION_USER'' = Some ''sys_replication''"
    using k1(1) k2(1) by (simp_all add: keep)
  obtain p q where "data' ''OPERATOR_PASSWORD'' = Some p" "p \<noteq> []" "data' ''REPLICATION_PASSWORD'' = Some q" "q \<noteq> []"
    using kept by (auto simp: password_keys_def filled_def)
  with kept users show ?thesis
    by (simp add: getCredsSecret_def operatorSQLCredentials_def Let_def credentials_Validate_def anyIsEmpty_def)
qed

section \<open>Witnesses\<close>

definition ref_selected :: mysql_cluster where
  "ref_selected = fst (UpdateNodeConditionStatus 7 ref_cluster ''db-mysql-0'' NodeConditionMaster ConditionTrue)"

definition new_service :: service where
  "new_service =
     \<lparr>sv_Labels = Map.empty, sv_Type = [], sv_ClusterIP = [], sv_Selector = Map.empty, sv_PublishNotReadyAddresses = False, sv_Ports = []\<rparr>"

lemma ref_selected_master: "OrcReconcile.cond_true ref_selected ''db-mysql-0'' NodeConditionMaster"
  by (simp add: OrcReconcile.cond_true_def ref_selected_def node_cond_update split: option.split)

theorem services_select_witness:
  "\<exists>c' out' d' l. ref_run ref_cluster = (c', Inr out') \<and> podSyncFn ref_selected ''db-mysql-0'' (Some (so_TemplateLabels out')) = (d', Inr l) \<and>
     selects (sv_Selector (masterSyncFn ref_env ref_cluster new_service)) l"
proof (rule ref_run_obtain [of ref_cluster])
  fix c' out' assume run: "StsSyncFn ref_env ref_lib (ref_options\<lparr>opt_ClusterRestrictPrivilegeEscalation := True\<rparr>) ''r1'' ''s1'' (Inr [])
      ref_cluster new_sts = (c', Inr out')" and r: "ref_run ref_cluster = (c', Inr out')"
  have "\<exists>d' l. podSyncFn ref_selected ''db-mysql-0'' (Some (so_TemplateLabels out')) = (d', Inr l)"
    using ref_selected_master
    by (auto simp: podSyncFn_def OrcReconcile.cond_true_def case_prod_beta Let_def GetNodeCondition_eq)
  then obtain d' l where pod: "podSyncFn ref_selected ''db-mysql-0'' (Some (so_TemplateLabels out')) = (d', Inr l)" by blast
  have "mc_Name ref_selected = mc_Name ref_cluster" "ps_Labels (cs_PodSpec (mc_Spec ref_cluster)) = Map.empty"
    by (simp_all add: ref_selected_def ref_defs)
  then show ?thesis using services_select [OF run _ pod, of new_service] ref_selected_master r pod by auto
qed

theorem operated_secret_complete_witness:
  "\<exists>data n. operatedSecretSyncFn (\<lambda>i n. Inr (replicate n (CHR ''x''))) ref_options Map.empty = Inr (data, n) \<and>
     operatorSQLCredentials (\<lambda>name ns. Inr data) ref_cluster = Inr (''sys_operator'', the (data ''OPERATOR_PASSWORD''))"
proof -
  have "\<exists>data n. operatedSecretSyncFn (\<lambda>i n. Inr (replicate n (CHR ''x''))) ref_options Map.empty = Inr (data, n)"
    by (simp add: operatedSecretSyncFn_def add_user_def add_topology_def addRandomPassword_def)
  then obtain data n where "operatedSecretSyncFn (\<lambda>i n. Inr (replicate n (CHR ''x''))) ref_options Map.empty = Inr (data, n)" by blast
  moreover have "rand_ok (\<lambda>i n. Inr (replicate n (CHR ''x'')))" by (auto simp: rand_ok_def list_all_iff alphanumeric_def)
  ultimately show ?thesis using operated_secret_complete by blast
qed

end
