(* ===== verification/Sidecar.thy ===== *)
theory Sidecar
  imports ConfigMap Syncers Backup
begin

text \<open>
  The sidecar, \<^verbatim>\<open>pkg/sidecar\<close>: its configuration (\<^verbatim>\<open>configs.go\<close>), the clone of the data of a node (\<^verbatim>\<open>appclone.go\<close>),
  the server that streams backups (\<^verbatim>\<open>server.go\<close>), the command that stores a backup (\<^verbatim>\<open>apptakebackup.go\<close>) and the
  helpers of \<^verbatim>\<open>util.go\<close>.

  The environment variables are a function; the data directory maps the paths below it to their contents; the
  processes that are started and the HTTP requests are fields of the parameter \<open>sys\<close>. A panic of \<^verbatim>\<open>NewConfig\<close> is an
  \<open>Inl\<close>. Go's \<^verbatim>\<open>int\<close> has 64 bits: sums of ordinals and offsets wrap.
\<close>

section \<open>Strings\<close>

text \<open>\<^verbatim>\<open>strings.Fields\<close>.\<close>

definition string_fields :: "string \<Rightarrow> string list" where
  "string_fields s = filter (\<lambda>w. w \<noteq> []) (split_by is_space s)"

section \<open>Constants\<close>

definition MysqlServerIDOffset :: int where "MysqlServerIDOffset = 100"
definition dataDir :: string where "dataDir = DataVolumeMountPath"
definition serverBackupEndpoint :: string where "serverBackupEndpoint = ''/xbackup''"
definition xtrabackupCommand :: string where "xtrabackupCommand = ''xtrabackup''"
definition xbstreamCommand :: string where "xbstreamCommand = ''xbstream''"
definition backupStatusTrailer :: string where "backupStatusTrailer = ''X-Backup-Status''"
definition backupSuccessful :: string where "backupSuccessful = ''Success''"
definition backupFailed :: string where "backupFailed = ''Failed''"

section \<open>The configuration\<close>

record config =
  cf_Hostname :: string
  cf_ClusterName :: string
  cf_Namespace :: string
  cf_ServiceName :: string
  cf_InitBucketURL :: string
  cf_OperatorUser :: string
  cf_OperatorPassword :: string
  cf_BackupUser :: string
  cf_BackupPassword :: string
  cf_ReplicationUser :: string
  cf_ReplicationPassword :: string
  cf_MetricsUser :: string
  cf_MetricsPassword :: string
  cf_OrchestratorUser :: string
  cf_OrchestratorPassword :: string
  cf_HeartBeatUser :: string
  cf_HeartBeatPassword :: string
  cf_ExistsMySQLData :: bool
  cf_MyServerIDOffset :: int
  cf_BackupCompressCommand :: "string list"
  cf_BackupDecompressCommand :: "string list"
  cf_RcloneExtraArgs :: "string list"
  cf_XbstreamExtraArgs :: "string list"
  cf_XtrabackupExtraArgs :: "string list"
  cf_XtrabackupPrepareExtraArgs :: "string list"
  cf_XtrabackupTargetDir :: string
  cf_masterService :: string
  cf_healthyReplicaCloneService :: string
  cf_InitFileExtraSQL :: "string list"
  cf_MySQLVersion :: version

definition getOrdinalFromHostname :: "string \<Rightarrow> int" where
  "getOrdinalFromHostname hn =
     (case last_index_char (CHR ''-'') hn of
        None \<Rightarrow> 0
      | Some begin' \<Rightarrow> (case atoi (drop (Suc begin') hn) of Some i \<Rightarrow> i | None \<Rightarrow> - 1))"

definition FQDNForServer :: "config \<Rightarrow> int \<Rightarrow> string" where
  "FQDNForServer cfg sid =
     NameForResource StatefulSet (cf_ClusterName cfg) @ ''-'' @ itoa (to_int64 (sid - cf_MyServerIDOffset cfg)) @ ''.'' @
     cf_ServiceName cfg @ ''.'' @ cf_Namespace cfg"

definition ClusterFQDN :: "config \<Rightarrow> string" where
  "ClusterFQDN cfg = cf_ClusterName cfg @ ''.'' @ cf_Namespace cfg"

definition MasterFQDN :: "config \<Rightarrow> string" where
  "MasterFQDN cfg = (if cf_masterService cfg \<noteq> [] then cf_masterService cfg else NameForResource MasterService (cf_ClusterName cfg))"

definition ReplicasFQDN :: "config \<Rightarrow> string" where
  "ReplicasFQDN cfg =
     (if cf_healthyReplicaCloneService cfg \<noteq> [] then cf_healthyReplicaCloneService cfg
      else NameForResource HealthyReplicasService (cf_ClusterName cfg))"

definition ServerID :: "config \<Rightarrow> int" where
  "ServerID cfg = to_int64 (getOrdinalFromHostname (cf_Hostname cfg) + cf_MyServerIDOffset cfg)"

definition MysqlDSN :: "config \<Rightarrow> string" where
  "MysqlDSN cfg =
     cf_OperatorUser cfg @ '':'' @ cf_OperatorPassword cfg @ ''@tcp(127.0.0.1:'' @ itoa MysqlPort @
     '')/?timeout=5s&multiStatements=true&interpolateParams=true''"

definition IsFirstPodInSet :: "config \<Rightarrow> bool" where
  "IsFirstPodInSet cfg \<longleftrightarrow> getOrdinalFromHostname (cf_Hostname cfg) = 0"

definition ShouldCloneFromBucket :: "config \<Rightarrow> bool" where
  "ShouldCloneFromBucket cfg \<longleftrightarrow>
     \<not> cf_ExistsMySQLData cfg \<and> ServerID cfg = cf_MyServerIDOffset cfg \<and> length (cf_InitBucketURL cfg) \<noteq> 0"

definition BackupCompressCmd :: "config \<Rightarrow> string list" where
  "BackupCompressCmd cfg = (if length (cf_BackupCompressCommand cfg) > 0 then cf_BackupCompressCommand cfg else [''gzip'', ''--stdout''])"

definition BackupDecompressCmd :: "config \<Rightarrow> string list" where
  "BackupDecompressCmd cfg = (if length (cf_BackupDecompressCommand cfg) > 0 then cf_BackupDecompressCommand cfg else [''gzip'', ''--decompress''])"

definition RcloneArgs :: "config \<Rightarrow> string list" where
  "RcloneArgs cfg = [''--config='' @ RcloneConfigFile] @ cf_RcloneExtraArgs cfg"

definition XbstreamArgs :: "config \<Rightarrow> string list" where
  "XbstreamArgs cfg = [''--extract'', ''--directory='' @ dataDir] @ cf_XbstreamExtraArgs cfg"

definition XtrabackupArgs :: "config \<Rightarrow> string list" where
  "XtrabackupArgs cfg =
     [''--backup'', ''--slave-info'', ''--stream=xbstream'',
      ''--tables-exclude='' @ OperatorDbName @ BACKSLASH @ ''.'' @ OperatorStatusTableName, ''--host=127.0.0.1'',
      ''--user='' @ cf_ReplicationUser cfg, ''--password='' @ cf_ReplicationPassword cfg,
      ''--target-dir='' @ cf_XtrabackupTargetDir cfg] @ cf_XtrabackupExtraArgs cfg"

definition XtrabackupPrepareArgs :: "config \<Rightarrow> string list" where
  "XtrabackupPrepareArgs cfg = [''--prepare'', ''--target-dir='' @ dataDir] @ cf_XtrabackupPrepareExtraArgs cfg"

section \<open>The data directory\<close>

text \<open>The paths below the directory; the entry \<open>mysql\<close> is the one that tells a directory with data.\<close>

type_synonym data_dir = "string \<rightharpoonup> string"

definition checkIfDataExists :: "string option \<Rightarrow> data_dir \<Rightarrow> (string, bool) result" where
  "checkIfDataExists open_error dir =
     (case open_error of Some err \<Rightarrow> Inl err | None \<Rightarrow> Inr (dir ''mysql'' \<noteq> None))"

text \<open>\<open>random\<close> is the answer of \<^verbatim>\<open>rand.AlphaNumericString(10)\<close>.\<close>

definition heartbeat_credentials :: "(string \<Rightarrow> string) \<Rightarrow> (string, string) result \<Rightarrow> (string, string \<times> string) result" where
  "heartbeat_credentials getenv random =
     (let hbUser = (if trim_space (getenv ''HEARTBEAT_USER'') = [] then HeartBeatMySQLUser else trim_space (getenv ''HEARTBEAT_USER''));
          hbPass = trim_space (getenv ''HEARTBEAT_PASSWORD'') in
      if hbPass = [] then
        if getenv ''KUBERNETES_SERVICE_HOST'' \<noteq> [] then Inl ''HEARTBEAT_PASSWORD is unset in-cluster''
        else (case random of Inl err \<Rightarrow> Inl err | Inr r \<Rightarrow> Inr (hbUser, r))
      else Inr (hbUser, hbPass))"

definition server_id_offset :: "(string \<Rightarrow> string) \<Rightarrow> int" where
  "server_id_offset getenv =
     (let customOffset = getenv ''MY_SERVER_ID_OFFSET'' in
      if length customOffset \<noteq> 0
      then (case atoi customOffset of Some i \<Rightarrow> i | None \<Rightarrow> MysqlServerIDOffset)
      else MysqlServerIDOffset)"

definition NewConfig ::
    "blang \<Rightarrow> (string \<Rightarrow> string) \<Rightarrow> (string, string) result \<Rightarrow> string option \<Rightarrow> data_dir \<Rightarrow> (string, config) result" where
  "NewConfig bl getenv random open_error dir =
     (case heartbeat_credentials getenv random of
        Inl err \<Rightarrow> Inl err
      | Inr (hbUser, hbPass) \<Rightarrow>
          (case checkIfDataExists open_error dir of
             Inl err \<Rightarrow> Inl err
           | Inr eData \<Rightarrow>
               Inr \<lparr>cf_Hostname = getenv ''HOSTNAME'', cf_ClusterName = getenv ''MY_CLUSTER_NAME'',
                 cf_Namespace = getenv ''MY_NAMESPACE'', cf_ServiceName = getenv ''MY_SERVICE_NAME'',
                 cf_InitBucketURL = getenv ''INIT_BUCKET_URI'',
                 cf_OperatorUser = getenv ''OPERATOR_USER'', cf_OperatorPassword = getenv ''OPERATOR_PASSWORD'',
                 cf_BackupUser = getenv ''BACKUP_USER'', cf_BackupPassword = getenv ''BACKUP_PASSWORD'',
                 cf_ReplicationUser = getenv ''REPLICATION_USER'', cf_ReplicationPassword = getenv ''REPLICATION_PASSWORD'',
                 cf_MetricsUser = getenv ''METRICS_EXPORTER_USER'', cf_MetricsPassword = getenv ''METRICS_EXPORTER_PASSWORD'',
                 cf_OrchestratorUser = getenv ''ORC_TOPOLOGY_USER'', cf_OrchestratorPassword = getenv ''ORC_TOPOLOGY_PASSWORD'',
                 cf_HeartBeatUser = hbUser, cf_HeartBeatPassword = hbPass,
                 cf_ExistsMySQLData = eData, cf_MyServerIDOffset = server_id_offset getenv,
                 cf_BackupCompressCommand = string_fields (getenv ''BACKUP_COMPRESS_COMMAND''),
                 cf_BackupDecompressCommand = string_fields (getenv ''BACKUP_DECOMPRESS_COMMAND''),
                 cf_RcloneExtraArgs = string_fields (getenv ''RCLONE_EXTRA_ARGS''),
                 cf_XbstreamExtraArgs = string_fields (getenv ''XBSTREAM_EXTRA_ARGS''),
                 cf_XtrabackupExtraArgs = string_fields (getenv ''XTRABACKUP_EXTRA_ARGS''),
                 cf_XtrabackupPrepareExtraArgs = string_fields (getenv ''XTRABACKUP_PREPARE_EXTRA_ARGS''),
                 cf_XtrabackupTargetDir = getenv ''XTRABACKUP_TARGET_DIR'',
                 cf_masterService = [], cf_healthyReplicaCloneService = [],
                 cf_InitFileExtraSQL = split_char (CHR '';'') (getenv ''INITFILE_EXTRA_SQL''),
                 cf_MySQLVersion = (case Parse bl (getenv ''MY_MYSQL_VERSION'') of Some v \<Rightarrow> v | None \<Rightarrow> Zero)\<rparr>))"

section \<open>Processes and requests\<close>

text \<open>A process that is started: the errors of its start and of its end, and what it writes.\<close>

record process =
  px_Start :: "string option"
  px_Wait :: "string option"
  px_Output :: string

record response =
  rs_StatusCode :: int
  rs_Status :: string
  rs_Body :: string
  rs_Trailer :: "string \<rightharpoonup> string list"

record http_request =
  rq_URL :: string
  rq_BasicAuth :: "(string \<times> string) option"

text \<open>
  \<open>os_Get\<close> answers a request after the ones made before; \<open>os_Polls\<close> is the number of further polls until the
  deadline of five minutes; \<open>os_Exec\<close> runs a command on an input; \<open>os_Extract\<close> is what \<^verbatim>\<open>xbstream\<close>, with its
  arguments and input, makes of the data directory, whether it fails or not; \<open>os_Remove\<close> is the error of removing a path.
\<close>

record sys =
  os_Get :: "http_request list \<Rightarrow> http_request \<Rightarrow> (string, response) result"
  os_NewRequest :: "string \<Rightarrow> string option"
  os_Polls :: nat
  os_Exec :: "string list \<Rightarrow> string \<Rightarrow> process"
  os_Extract :: "string list \<Rightarrow> string \<Rightarrow> data_dir \<Rightarrow> data_dir"
  os_Prepare :: "string list \<Rightarrow> data_dir \<Rightarrow> data_dir \<times> string option"
  os_Remove :: "string \<Rightarrow> string option"
  os_ReadDirError :: "string option"
  os_RcloneConfigExists :: bool

text \<open>A run of the sidecar: the requests made and the data directory.\<close>

record node_run =
  nd_Requests :: "http_request list"
  nd_Dir :: data_dir

section \<open>The server of backups\<close>

definition prepareURL :: "string \<Rightarrow> string \<Rightarrow> string" where
  "prepareURL svc endpoint =
     (let host = (if contains svc '':'' then svc else svc @ '':'' @ itoa SidecarServerPort) in ''http://'' @ host @ endpoint)"

definition isAuthenticated :: "config \<Rightarrow> http_request \<Rightarrow> bool" where
  "isAuthenticated cfg r =
     (case rq_BasicAuth r of
        Some (user, pass) \<Rightarrow> user = cf_BackupUser cfg \<and> pass = cf_BackupPassword cfg
      | None \<Rightarrow> False)"

definition healthHandler :: "http_request \<Rightarrow> response" where
  "healthHandler r = \<lparr>rs_StatusCode = 200, rs_Status = ''200 OK'', rs_Body = ''OK'', rs_Trailer = Map.empty\<rparr>"

definition http_error :: "int \<Rightarrow> string \<Rightarrow> string \<Rightarrow> response" where
  "http_error code status msg = \<lparr>rs_StatusCode = code, rs_Status = status, rs_Body = msg @ NL, rs_Trailer = Map.empty\<rparr>"

text \<open>\<^verbatim>\<open>http.Error\<close> once \<open>body\<close> has been written: the status can be set only before the first byte.\<close>

definition late_error :: "string \<Rightarrow> string \<Rightarrow> (string \<rightharpoonup> string list) \<Rightarrow> response" where
  "late_error body msg trailer =
     (if body = [] then (http_error 500 ''500 Internal Server Error'' msg)\<lparr>rs_Trailer := trailer\<rparr>
      else \<lparr>rs_StatusCode = 200, rs_Status = ''200 OK'', rs_Body = body @ msg @ NL, rs_Trailer = trailer\<rparr>)"

text \<open>
  The answer to a request for a backup. \<open>flushes\<close> tells whether the server can stream, \<open>copied\<close> is the part of the
  output of \<^verbatim>\<open>xtrabackup\<close> that is sent and the error of the copy.
\<close>

definition backupHandler ::
    "config \<Rightarrow> bool \<Rightarrow> (string list \<Rightarrow> process) \<Rightarrow> (string \<Rightarrow> string \<times> string option) \<Rightarrow> http_request \<Rightarrow> response" where
  "backupHandler cfg flushes exec copied r =
     (if \<not> isAuthenticated cfg r then http_error 403 ''403 Forbidden'' ''Not authenticated!''
      else if \<not> flushes then http_error 500 ''500 Internal Server Error'' ''HTTP server does not support streaming!''
      else
        let xtrabackup = exec (xtrabackupCommand # XtrabackupArgs cfg) in
        case px_Start xtrabackup of
          Some err \<Rightarrow> http_error 500 ''500 Internal Server Error'' ''xtrabackup failed''
        | None \<Rightarrow>
            (case copied (px_Output xtrabackup) of
               (body, Some err) \<Rightarrow> late_error body ''buffer copy failed'' Map.empty
             | (body, None) \<Rightarrow>
                 (case px_Wait xtrabackup of
                    Some err \<Rightarrow> late_error body ''xtrabackup failed'' [backupStatusTrailer \<mapsto> [backupFailed]]
                  | None \<Rightarrow>
                      \<lparr>rs_StatusCode = 200, rs_Status = ''200 OK'', rs_Body = body,
                       rs_Trailer = [backupStatusTrailer \<mapsto> [backupSuccessful]]\<rparr>)))"

section \<open>Asking for a backup\<close>

definition stringInSlice :: "string \<Rightarrow> string list \<Rightarrow> bool" where
  "stringInSlice a xs = list_ex (\<lambda>b. b = a) xs"

definition checkBackupTrailers :: "response \<Rightarrow> string option" where
  "checkBackupTrailers resp =
     (let failed = Some ''backup failed to be taken: no 'Success' trailer found'' in
      case rs_Trailer resp backupStatusTrailer of
        None \<Rightarrow> failed
      | Some values \<Rightarrow> if \<not> stringInSlice backupSuccessful values then failed else None)"

definition request :: "sys \<Rightarrow> http_request \<Rightarrow> node_run \<Rightarrow> node_run \<times> (string, response) result" where
  "request os r s = (s\<lparr>nd_Requests := nd_Requests s @ [r]\<rparr>, os_Get os (nd_Requests s) r)"

definition isServiceAvailable :: "sys \<Rightarrow> string \<Rightarrow> node_run \<Rightarrow> node_run \<times> bool" where
  "isServiceAvailable os svc s =
     (let url = prepareURL svc SidecarServerProbePath in
      case os_NewRequest os url of
        Some err \<Rightarrow> (s, False)
      | None \<Rightarrow>
          (case request os \<lparr>rq_URL = url, rq_BasicAuth = None\<rparr> s of
             (s', Inl err) \<Rightarrow> (s', False)
           | (s', Inr resp) \<Rightarrow> (s', rs_StatusCode resp = 200)))"

text \<open>\<^verbatim>\<open>wait.PollImmediateUntil\<close>: one poll at once, then \<open>n\<close> more.\<close>

fun poll_available :: "sys \<Rightarrow> string \<Rightarrow> nat \<Rightarrow> node_run \<Rightarrow> node_run \<times> bool" where
  "poll_available os host 0 s = isServiceAvailable os host s"
| "poll_available os host (Suc n) s =
     (case isServiceAvailable os host s of
        (s', True) \<Rightarrow> (s', True)
      | (s', False) \<Rightarrow> poll_available os host n s')"

definition requestABackup :: "sys \<Rightarrow> config \<Rightarrow> string \<Rightarrow> string \<Rightarrow> node_run \<Rightarrow> node_run \<times> (string, response) result" where
  "requestABackup os cfg host endpoint s =
     (case poll_available os host (os_Polls os) s of
        (s1, False) \<Rightarrow> (s1, Inl ''timed out waiting for the condition'')
      | (s1, True) \<Rightarrow>
          (let url = prepareURL host endpoint in
           case os_NewRequest os url of
             Some err \<Rightarrow> (s1, Inl (''fail to create request: '' @ err))
           | None \<Rightarrow>
               (case request os \<lparr>rq_URL = url, rq_BasicAuth = Some (cf_BackupUser cfg, cf_BackupPassword cfg)\<rparr> s1 of
                  (s2, Inl err) \<Rightarrow> (s2, Inl (''fail to get backup: '' @ err @ '', code: unknown''))
                | (s2, Inr resp) \<Rightarrow>
                    if rs_StatusCode resp \<noteq> 200
                    then (s2, Inl (''fail to get backup: %!s(<nil>), code: '' @ rs_Status resp))
                    else (s2, Inr resp))))"

section \<open>The clone of a node\<close>

definition first_component :: "string \<Rightarrow> string" where
  "first_component path = takeWhile (\<lambda>ch. ch \<noteq> CHR ''/'') path"

text \<open>The entries that \<^verbatim>\<open>os.RemoveAll\<close> removes, those below an entry included; an error leaves them.\<close>

definition remove_entries :: "sys \<Rightarrow> (string \<Rightarrow> bool) \<Rightarrow> data_dir \<Rightarrow> data_dir" where
  "remove_entries os chosen dir =
     (\<lambda>path. if chosen (first_component path) \<and> os_Remove os (dataDir @ ''/'' @ first_component path) = None then None else dir path)"

definition deleteLostFound :: "sys \<Rightarrow> data_dir \<Rightarrow> data_dir \<times> string option" where
  "deleteLostFound os dir =
     (remove_entries os (\<lambda>f. f = ''lost+found'') dir, os_Remove os (dataDir @ ''/lost+found''))"

text \<open>When the directory cannot be read, the list of its entries is empty.\<close>

definition cleanDataDir :: "sys \<Rightarrow> data_dir \<Rightarrow> data_dir" where
  "cleanDataDir os dir = (if os_ReadDirError os \<noteq> None then dir else remove_entries os (\<lambda>f. True) dir)"

definition cloneFromSource :: "sys \<Rightarrow> config \<Rightarrow> string \<Rightarrow> node_run \<Rightarrow> node_run \<times> string option" where
  "cloneFromSource os cfg host s =
     (case requestABackup os cfg host serverBackupEndpoint s of
        (s1, Inl err) \<Rightarrow> (s1, Some (''fail to get backup: '' @ err))
      | (s1, Inr resp) \<Rightarrow>
          let xbstream = os_Exec os (xbstreamCommand # XbstreamArgs cfg) (rs_Body resp);
              extracted = s1\<lparr>nd_Dir := os_Extract os (XbstreamArgs cfg) (rs_Body resp) (nd_Dir s1)\<rparr>;
              cleaned = (\<lambda>t. t\<lparr>nd_Dir := cleanDataDir os (nd_Dir t)\<rparr>)
          in case px_Start xbstream of
               Some err \<Rightarrow> (cleaned s1, Some (''xbstream start error: '' @ err))
             | None \<Rightarrow>
                 (case px_Wait xbstream of
                    Some err \<Rightarrow> (cleaned extracted, Some (''xbstream wait error: '' @ err))
                  | None \<Rightarrow>
                      (case checkBackupTrailers resp of
                         Some err \<Rightarrow> (cleaned extracted, Some err)
                       | None \<Rightarrow> (extracted, None))))"

definition attemptClone :: "sys \<Rightarrow> config \<Rightarrow> string \<Rightarrow> node_run \<Rightarrow> node_run \<times> string option" where
  "attemptClone os cfg sourceService s =
     (case cloneFromSource os cfg sourceService s of
        (s', Some err) \<Rightarrow> (s', Some (''failed to clone from '' @ sourceService @ '', err: '' @ err))
      | (s', None) \<Rightarrow> (s', None))"

definition normalizeBucketURI :: "string \<Rightarrow> string" where
  "normalizeBucketURI bucket = replace_first ''://'' '':'' bucket"

text \<open>
  The pipe \<^verbatim>\<open>rclone | decompress | xbstream\<close>: once \<^verbatim>\<open>xbstream\<close> is started, it extracts what reaches it, whatever
  becomes of the other two.
\<close>

definition cloneFromBucket :: "sys \<Rightarrow> config \<Rightarrow> node_run \<Rightarrow> node_run \<times> string option" where
  "cloneFromBucket os cfg s =
     (let initBucket = replace_first ''://'' '':'' (cf_InitBucketURL cfg) in
      if \<not> os_RcloneConfigExists os then (s, Some (''stat '' @ RcloneConfigFile @ '': no such file or directory''))
      else
        let rclone = os_Exec os (''rclone'' # RcloneArgs cfg @ [''cat'', initBucket]) [];
            decompress = os_Exec os (BackupDecompressCmd cfg) (px_Output rclone);
            xbstream = os_Exec os (xbstreamCommand # XbstreamArgs cfg) (px_Output decompress);
            extracted = s\<lparr>nd_Dir := os_Extract os (XbstreamArgs cfg) (px_Output decompress) (nd_Dir s)\<rparr>
        in case (px_Start rclone, px_Start decompress, px_Start xbstream) of
             (Some err, _, _) \<Rightarrow> (s, Some (''rclone start error: '' @ err))
           | (None, Some err, _) \<Rightarrow> (s, Some (''decompress start error: '' @ err))
           | (None, None, Some err) \<Rightarrow> (s, Some (''xbstream start error: '' @ err))
           | (None, None, None) \<Rightarrow>
               (extracted,
                case (px_Wait rclone, px_Wait decompress, px_Wait xbstream) of
                  (Some err, _, _) \<Rightarrow> Some (''rclone wait error: '' @ err)
                | (None, Some err, _) \<Rightarrow> Some (''decompress wait error: '' @ err)
                | (None, None, Some err) \<Rightarrow> Some (''xbstream wait error: '' @ err)
                | (None, None, None) \<Rightarrow> None))"

definition xtrabackupPrepare :: "sys \<Rightarrow> config \<Rightarrow> node_run \<Rightarrow> node_run \<times> string option" where
  "xtrabackupPrepare os cfg s =
     (case os_Prepare os (XtrabackupPrepareArgs cfg) (nd_Dir s) of (dir, err) \<Rightarrow> (s\<lparr>nd_Dir := dir\<rparr>, err))"

text \<open>What follows a clone: its error with a message, or the preparation of the data.\<close>

definition prepare_after :: "sys \<Rightarrow> config \<Rightarrow> string \<Rightarrow> node_run \<times> string option \<Rightarrow> node_run \<times> string option" where
  "prepare_after os cfg msg r =
     (case r of
        (s, Some err) \<Rightarrow> (s, Some (msg @ err))
      | (s, None) \<Rightarrow> xtrabackupPrepare os cfg s)"

definition RunCloneCommand :: "sys \<Rightarrow> config \<Rightarrow> node_run \<Rightarrow> node_run \<times> string option" where
  "RunCloneCommand os cfg s =
     (if cf_ExistsMySQLData cfg then (s, None)
      else case deleteLostFound os (nd_Dir s) of
        (dir, Some err) \<Rightarrow> (s\<lparr>nd_Dir := dir\<rparr>, Some (''removing lost+found: '' @ err))
      | (dir, None) \<Rightarrow>
          (case isServiceAvailable os (ReplicasFQDN cfg) (s\<lparr>nd_Dir := dir\<rparr>) of
             (s1, True) \<Rightarrow>
               prepare_after os cfg ''cloning from healthy replicas failed due to unexpected error: '' (attemptClone os cfg (ReplicasFQDN cfg) s1)
           | (s1, False) \<Rightarrow>
               (case isServiceAvailable os (MasterFQDN cfg) s1 of
                  (s2, True) \<Rightarrow>
                    prepare_after os cfg ''cloning from master service failed due to unexpected error: '' (attemptClone os cfg (MasterFQDN cfg) s2)
                | (s2, False) \<Rightarrow>
                    if ShouldCloneFromBucket cfg
                    then prepare_after os cfg ''failed to clone from bucket, err: '' (cloneFromBucket os cfg s2)
                    else if IsFirstPodInSet cfg then (s2, None)
                    else (s2, Some ''nothing to clone from: no existing data found, no replicas and no master available, and no clone bucket url found''))))"

section \<open>Storing a backup\<close>

text \<open>
  The objects of the bucket. \<open>rm_Rcat\<close> and \<open>rm_Moveto\<close> are the effects and the errors of the two commands of
  \<^verbatim>\<open>rclone\<close>, given their arguments.
\<close>

type_synonym bucket = "string \<rightharpoonup> string"

record remote =
  rm_Rcat :: "string list \<Rightarrow> string \<Rightarrow> string \<Rightarrow> bucket \<Rightarrow> bucket \<times> string option"
  rm_Moveto :: "string list \<Rightarrow> string \<Rightarrow> string \<Rightarrow> bucket \<Rightarrow> bucket \<times> string option"

definition run_error :: "process \<Rightarrow> string option" where
  "run_error p = (case px_Start p of Some err \<Rightarrow> Some err | None \<Rightarrow> px_Wait p)"

fun first_error :: "string option list \<Rightarrow> string option" where
  "first_error [] = None"
| "first_error (Some err # es) = Some err"
| "first_error (None # es) = first_error es"

text \<open>\<open>compress_first\<close> is the order in which the two commands report.\<close>

definition pushBackupFromTo ::
    "sys \<Rightarrow> remote \<Rightarrow> config \<Rightarrow> bool \<Rightarrow> string \<Rightarrow> string \<Rightarrow> node_run \<Rightarrow> bucket \<Rightarrow> node_run \<times> bucket \<times> string option" where
  "pushBackupFromTo os rm cfg compress_first srcHost destBucket s store =
     (let tmpDestBucket = destBucket @ ''.tmp'' in
      case requestABackup os cfg srcHost serverBackupEndpoint s of
        (s1, Inl err) \<Rightarrow> (s1, store, Some (''getting backup: '' @ err))
      | (s1, Inr resp) \<Rightarrow>
          let compress = os_Exec os (BackupCompressCmd cfg) (rs_Body resp);
              (store1, rclone_error) = rm_Rcat rm (RcloneArgs cfg) tmpDestBucket (px_Output compress) store
          in case first_error (if compress_first then [run_error compress, rclone_error] else [rclone_error, run_error compress]) of
               Some err \<Rightarrow> (s1, store1, Some err)
             | None \<Rightarrow>
                 (case checkBackupTrailers resp of
                    Some err \<Rightarrow> (s1, store1, Some err)
                  | None \<Rightarrow>
                      (case rm_Moveto rm (RcloneArgs cfg) tmpDestBucket destBucket store1 of
                         (store2, err) \<Rightarrow> (s1, store2, map_option (\<lambda>er. ''final move failed: '' @ er) err))))"

definition RunTakeBackupCommand ::
    "sys \<Rightarrow> remote \<Rightarrow> config \<Rightarrow> bool \<Rightarrow> string \<Rightarrow> string \<Rightarrow> node_run \<Rightarrow> bucket \<Rightarrow> node_run \<times> bucket \<times> string option" where
  "RunTakeBackupCommand os rm cfg compress_first srcHost destBucket s store =
     pushBackupFromTo os rm cfg compress_first srcHost (normalizeBucketURI destBucket) s store"

section \<open>The position of a backup\<close>

definition MaxScanTokenSize :: nat where "MaxScanTokenSize = 64 * 1024"

text \<open>The words of the file from the third on; the scanner refuses a word that does not fit its buffer.\<close>

definition getGTIDFrom :: "string \<Rightarrow> (string, string) result" where
  "getGTIDFrom content =
     (let words = string_fields content; gtid = concat (drop 2 words) in
      if list_ex (\<lambda>w. length w \<ge> MaxScanTokenSize) words then Inl ''bufio.Scanner: token too long''
      else if gtid = [] then Inl ''EOF''
      else Inr gtid)"

definition readPurgedGTID :: "string option \<Rightarrow> data_dir \<Rightarrow> (string, string) result" where
  "readPurgedGTID open_error dir =
     (case open_error of
        Some err \<Rightarrow> Inl err
      | None \<Rightarrow>
          (case dir ''xtrabackup_binlog_info'' of
             None \<Rightarrow> Inr []
           | Some content \<Rightarrow> getGTIDFrom content))"

end
