(* ===== verification/SidecarProps.thy ===== *)
theory SidecarProps
  imports Sidecar
begin

text \<open>
  Properties of the sidecar: what a clone leaves in the data directory and whether a failed one is tried again, when a
  backup is asked for and stored, and how the position of a backup is read.
\<close>

section \<open>Lemmas\<close>

lemma requests_only_dir [simp]:
  "nd_Dir (fst (request os r s)) = nd_Dir s"
  "nd_Dir (fst (isServiceAvailable os svc s)) = nd_Dir s"
  by (auto simp: request_def isServiceAvailable_def Let_def split: option.split sum.split)

lemma poll_dir [simp]: "nd_Dir (fst (poll_available os host n s)) = nd_Dir s"
proof (induction n arbitrary: s)
  case (Suc n)
  obtain s1 b where p: "isServiceAvailable os host s = (s1, b)" by fastforce
  then have "nd_Dir s1 = nd_Dir s" by (metis fst_conv requests_only_dir(2))
  with p Suc show ?case by (cases b) simp_all
qed simp

lemma requestABackup_dir [simp]: "nd_Dir (fst (requestABackup os cfg host ep s)) = nd_Dir s"
proof -
  obtain s1 b where p: "poll_available os host (os_Polls os) s = (s1, b)" by fastforce
  then have "nd_Dir s1 = nd_Dir s" by (metis fst_conv poll_dir)
  with p show ?thesis
    by (auto simp: requestABackup_def Let_def request_def split: bool.split option.split sum.split)
qed

lemma cleaned_empty:
  assumes "\<forall>path. os_Remove os path = None" and "os_ReadDirError os = None"
  shows "cleanDataDir os dir = Map.empty"
  using assms by (simp add: cleanDataDir_def remove_entries_def fun_eq_iff)

lemma cloneFromSource_cases:
  assumes "cloneFromSource os cfg host s = (s', r)"
  obtains (refused) err where "r = Some err" "nd_Dir s' = nd_Dir s"
  | (failed) err dir where "r = Some err" "nd_Dir s' = cleanDataDir os dir"
  | (extracted) s1 resp where "r = None" "requestABackup os cfg host serverBackupEndpoint s = (s1, Inr resp)"
      "checkBackupTrailers resp = None" "nd_Dir s' = os_Extract os (XbstreamArgs cfg) (rs_Body resp) (nd_Dir s)"
proof -
  obtain s1 a where q: "requestABackup os cfg host serverBackupEndpoint s = (s1, a)" by fastforce
  have d: "nd_Dir s1 = nd_Dir s" using requestABackup_dir [of os cfg host serverBackupEndpoint s] q by simp
  show thesis
  proof (cases a)
    case (Inl err)
    with assms q d that(1) show thesis by (auto simp: cloneFromSource_def)
  next
    case (Inr resp)
    show thesis
    proof (cases "checkBackupTrailers resp")
      case None
      with Inr assms q d that(2,3) show thesis by (auto simp: cloneFromSource_def Let_def split: option.splits)
    next
      case (Some err)
      with Inr assms q have "\<exists>err' dir. r = Some err' \<and> nd_Dir s' = cleanDataDir os dir"
        by (simp add: cloneFromSource_def Let_def split: option.splits) (auto, metis)
      then show thesis using that(2) by blast
    qed
  qed
qed

text \<open>The runs of the clone on a directory without data, by its source.\<close>

lemma RunClone_cases:
  assumes "RunCloneCommand os cfg s = (s', r)" and "\<not> cf_ExistsMySQLData cfg"
  obtains (lost_found) err where "r = Some err" "nd_Dir s' = fst (deleteLostFound os (nd_Dir s))"
  | (source) s1 svc msg where "svc \<in> {ReplicasFQDN cfg, MasterFQDN cfg}" "nd_Dir s1 = fst (deleteLostFound os (nd_Dir s))"
      "prepare_after os cfg msg (attemptClone os cfg svc s1) = (s', r)"
  | (bucket) s1 where "ShouldCloneFromBucket cfg" "nd_Dir s1 = fst (deleteLostFound os (nd_Dir s))"
      "prepare_after os cfg ''failed to clone from bucket, err: '' (cloneFromBucket os cfg s1) = (s', r)"
  | (empty) "r = None" "IsFirstPodInSet cfg" "nd_Dir s' = fst (deleteLostFound os (nd_Dir s))"
  | (nothing) err where "r = Some err" "\<not> IsFirstPodInSet cfg" "nd_Dir s' = fst (deleteLostFound os (nd_Dir s))"
proof -
  obtain dir e where d: "deleteLostFound os (nd_Dir s) = (dir, e)" by fastforce
  then have e: "os_Remove os (dataDir @ ''/lost+found'') = e" by (simp add: deleteLostFound_def)
  obtain s1 b1 where p1: "isServiceAvailable os (ReplicasFQDN cfg) (s\<lparr>nd_Dir := dir\<rparr>) = (s1, b1)" by fastforce
  obtain s2 b2 where p2: "isServiceAvailable os (MasterFQDN cfg) s1 = (s2, b2)" by fastforce
  have dirs: "nd_Dir s1 = dir" "nd_Dir s2 = dir"
    using p1 p2 requests_only_dir(2) [of os "ReplicasFQDN cfg" "s\<lparr>nd_Dir := dir\<rparr>"] requests_only_dir(2) [of os "MasterFQDN cfg" s1]
    by simp_all
  show thesis
  proof (cases e)
    case (Some err)
    with assms d that(1) show thesis by (auto simp: RunCloneCommand_def)
  next
    case None
    then show thesis
      using assms d p1 p2 dirs that(2) [of "ReplicasFQDN cfg" s1] that(2) [of "MasterFQDN cfg" s2] that(3) [of s2] that(4,5)
      by (auto simp: RunCloneCommand_def split: if_splits bool.splits)
  qed
qed

lemma prepare_after_ok:
  assumes "prepare_after os cfg msg r = (s', None)"
  obtains s1 where "r = (s1, None)" "os_Prepare os (XtrabackupPrepareArgs cfg) (nd_Dir s1) = (nd_Dir s', None)"
  using assms by (auto simp: prepare_after_def xtrabackupPrepare_def split: prod.splits option.splits)

lemma attemptClone_ok: "attemptClone os cfg svc s = (s', None) \<longleftrightarrow> cloneFromSource os cfg svc s = (s', None)"
  by (auto simp: attemptClone_def split: prod.splits option.splits)

lemma cloneFromBucket_ok:
  assumes "cloneFromBucket os cfg s = (s', None)"
  obtains input where "nd_Dir s' = os_Extract os (XbstreamArgs cfg) input (nd_Dir s)"
    "run_error (os_Exec os (xbstreamCommand # XbstreamArgs cfg) input) = None"
  using assms by (auto simp: cloneFromBucket_def run_error_def Let_def split: if_splits option.splits)

section \<open>Properties\<close>


text \<open>
  A clone from another node that fails can be tried again: when the files of the directory can be
  removed, the configuration of the next run finds no data.
\<close>

theorem failed_source_clone_retried:
  assumes "attemptClone os cfg svc s = (s', Some err)" and "nd_Dir s ''mysql'' = None"
    and "os_Remove os (dataDir @ ''/mysql'') = None" and "os_ReadDirError os = None"
  shows "checkIfDataExists None (nd_Dir s') = Inr False"
proof -
  obtain err' where "cloneFromSource os cfg svc s = (s', Some err')"
    using assms(1) by (auto simp: attemptClone_def split: prod.splits option.splits)
  then show ?thesis
  proof (cases rule: cloneFromSource_cases)
    case (failed err dir)
    have "first_component ''mysql'' = ''mysql''" by (simp add: first_component_def)
    then show ?thesis using failed(2) assms(3,4) by (simp add: checkIfDataExists_def cleanDataDir_def remove_entries_def)
  qed (simp_all add: checkIfDataExists_def assms(2))
qed

lemma NewConfig_data:
  assumes "NewConfig bl getenv random None dir = Inr cfg"
  shows "cf_ExistsMySQLData cfg \<longleftrightarrow> dir ''mysql'' \<noteq> None"
  using assms by (auto simp: NewConfig_def checkIfDataExists_def split: sum.splits)

text \<open>
  Property C21. A restore from the bucket, and a preparation, that fail after the files have been extracted leave them:
  the container runs again, finds data, and goes on as if the clone had succeeded, without preparing it.
\<close>

theorem partial_restore_accepted:
  assumes "\<not> cf_ExistsMySQLData cfg" and "deleteLostFound os (nd_Dir s) = (dir, None)"
    and "isServiceAvailable os (ReplicasFQDN cfg) (s\<lparr>nd_Dir := dir\<rparr>) = (s1, False)"
    and "isServiceAvailable os (MasterFQDN cfg) s1 = (s2, False)" and "ShouldCloneFromBucket cfg"
    and "cloneFromBucket os cfg s2 = (s3, bucket_error)" and "nd_Dir s3 ''mysql'' \<noteq> None"
    and "bucket_error \<noteq> None \<or> snd (os_Prepare os (XtrabackupPrepareArgs cfg) (nd_Dir s3)) \<noteq> None"
    and "fst (os_Prepare os (XtrabackupPrepareArgs cfg) (nd_Dir s3)) ''mysql'' \<noteq> None"
    and "\<And>d. NewConfig bl getenv random None d = Inr (cfg' d)"
  shows "\<exists>s' err. RunCloneCommand os cfg s = (s', Some err) \<and> RunCloneCommand os' (cfg' (nd_Dir s')) s' = (s', None)"
proof -
  have "RunCloneCommand os cfg s = prepare_after os cfg ''failed to clone from bucket, err: '' (s3, bucket_error)"
    using assms(1-6) by (simp add: RunCloneCommand_def)
  then obtain s' err where run: "RunCloneCommand os cfg s = (s', Some err)" and "nd_Dir s' ''mysql'' \<noteq> None"
    using assms(7-9) by (cases bucket_error) (auto simp: prepare_after_def xtrabackupPrepare_def split: prod.splits)
  then have "cf_ExistsMySQLData (cfg' (nd_Dir s'))" using NewConfig_data [OF assms(10)] by simp
  then have "RunCloneCommand os' (cfg' (nd_Dir s')) s' = (s', None)" by (simp add: RunCloneCommand_def)
  with run show ?thesis by blast
qed

section \<open>Backups\<close>

text \<open>
  The two commands of \<^verbatim>\<open>rclone\<close> as documented: \<^verbatim>\<open>rcat\<close> writes its input to one object, \<^verbatim>\<open>moveto\<close> renames one object,
  and may stop before or after the target is written.
\<close>

definition rclone_ok :: "remote \<Rightarrow> bool" where
  "rclone_ok rm \<longleftrightarrow>
     (\<forall>args obj input store store' r. rm_Rcat rm args obj input store = (store', r) \<longrightarrow>
        (\<forall>k. k \<noteq> obj \<longrightarrow> store' k = store k) \<and> (r = None \<longrightarrow> store' obj = Some input)) \<and>
     (\<forall>args from to store store' r. rm_Moveto rm args from to store = (store', r) \<longrightarrow>
        (\<forall>k. k \<noteq> from \<longrightarrow> k \<noteq> to \<longrightarrow> store' k = store k) \<and> store' to \<in> {store to, store from} \<and>
        (r = None \<longrightarrow> store' to = store from))"

lemma handler_success:
  assumes "checkBackupTrailers (backupHandler srv fl exec copied r) = None"
  shows "isAuthenticated srv r \<and> run_error (exec (xtrabackupCommand # XtrabackupArgs srv)) = None \<and>
    copied (px_Output (exec (xtrabackupCommand # XtrabackupArgs srv))) = (rs_Body (backupHandler srv fl exec copied r), None)"
  using assms
  by (auto simp: backupHandler_def checkBackupTrailers_def http_error_def late_error_def run_error_def Let_def
      stringInSlice_def backupSuccessful_def backupFailed_def split: if_splits option.splits prod.splits)

lemma requestABackup_ok:
  assumes "requestABackup os cfg host ep s = (s', Inr resp)"
  shows "\<exists>log. os_Get os log \<lparr>rq_URL = prepareURL host ep, rq_BasicAuth = Some (cf_BackupUser cfg, cf_BackupPassword cfg)\<rparr> = Inr resp"
  using assms
  by (auto simp: requestABackup_def request_def Let_def split: prod.splits bool.splits option.splits sum.splits if_splits)

lemma take_backup_complete:
  assumes "rclone_ok rm"
    and "\<And>log r. rq_URL r = prepareURL srcHost serverBackupEndpoint \<Longrightarrow> os_Get os log r = Inr (backupHandler srv flushes exec (\<lambda>output. (output, copy_error)) r)"
    and "RunTakeBackupCommand os rm cfg compress_first srcHost destBucket s store = (s', store', err)"
    and "err = None \<or> store' (normalizeBucketURI destBucket) \<noteq> store (normalizeBucketURI destBucket)"
  shows "cf_BackupUser cfg = cf_BackupUser srv \<and> cf_BackupPassword cfg = cf_BackupPassword srv \<and>
    run_error (exec (xtrabackupCommand # XtrabackupArgs srv)) = None \<and>
    store' (normalizeBucketURI destBucket) =
      Some (px_Output (os_Exec os (BackupCompressCmd cfg) (px_Output (exec (xtrabackupCommand # XtrabackupArgs srv)))))"
proof -
  let ?dest = "normalizeBucketURI destBucket" and ?x = "exec (xtrabackupCommand # XtrabackupArgs srv)"
  have tmp: "?dest \<noteq> ?dest @ ''.tmp''" by simp
  obtain s1 resp where get: "requestABackup os cfg srcHost serverBackupEndpoint s = (s1, Inr resp)"
    using assms(3,4) by (auto simp: RunTakeBackupCommand_def pushBackupFromTo_def Let_def split: prod.splits sum.splits)
  let ?r = "\<lparr>rq_URL = prepareURL srcHost serverBackupEndpoint, rq_BasicAuth = Some (cf_BackupUser cfg, cf_BackupPassword cfg)\<rparr>"
  have resp: "resp = backupHandler srv flushes exec (\<lambda>output. (output, copy_error)) ?r"
    using requestABackup_ok [OF get] assms(2) [of ?r] by auto
  obtain store1 re where rcat: "rm_Rcat rm (RcloneArgs cfg) (?dest @ ''.tmp'') (px_Output (os_Exec os (BackupCompressCmd cfg) (rs_Body resp))) store = (store1, re)"
    by fastforce
  then have kept: "store1 ?dest = store ?dest" and r1: "re = None \<Longrightarrow> store1 (?dest @ ''.tmp'') = Some (px_Output (os_Exec os (BackupCompressCmd cfg) (rs_Body resp)))"
    using assms(1) tmp by (auto simp: rclone_ok_def)
  obtain store2 me where mv: "rm_Moveto rm (RcloneArgs cfg) (?dest @ ''.tmp'') ?dest store1 = (store2, me)" by fastforce
  then have moved: "store2 ?dest \<in> {store1 ?dest, store1 (?dest @ ''.tmp'')}" "me = None \<Longrightarrow> store2 ?dest = store1 (?dest @ ''.tmp'')"
    using assms(1) unfolding rclone_ok_def by blast+
  have fe: "first_error (if compress_first then [a, re] else [re, a]) = None \<Longrightarrow> re = None" for a
    by (cases a; cases re; cases compress_first) simp_all
  have fin: "re = None \<and> checkBackupTrailers resp = None \<and> store' = store2 \<and> (err = None \<longrightarrow> me = None)"
    using assms(3,4) get rcat mv kept fe [of "run_error (os_Exec os (BackupCompressCmd cfg) (rs_Body resp))"]
    unfolding RunTakeBackupCommand_def pushBackupFromTo_def Let_def
    by (simp split: option.splits if_splits) (cases me; force)+
  then have "store' ?dest = store1 (?dest @ ''.tmp'')" using moved kept assms(4) by auto
  moreover have "isAuthenticated srv ?r" "run_error ?x = None" "rs_Body resp = px_Output ?x"
    using handler_success [of srv flushes exec "\<lambda>output. (output, copy_error)" ?r] fin by (simp_all add: resp)
  ultimately show ?thesis using r1 fin by (simp add: isAuthenticated_def)
qed


definition probe_of :: "string \<Rightarrow> http_request" where
  "probe_of host = \<lparr>rq_URL = prepareURL host SidecarServerProbePath, rq_BasicAuth = None\<rparr>"

lemma isServiceAvailable_run:
  assumes "\<forall>url. os_NewRequest os url = None"
  shows "isServiceAvailable os host s =
    (s\<lparr>nd_Requests := nd_Requests s @ [probe_of host]\<rparr>,
     case os_Get os (nd_Requests s) (probe_of host) of Inl err \<Rightarrow> False | Inr resp \<Rightarrow> rs_StatusCode resp = 200)"
  using assms by (simp add: isServiceAvailable_def request_def probe_of_def Let_def split: sum.split)

lemma poll_reaches:
  assumes "\<forall>url. os_NewRequest os url = None" and "k \<le> n"
    and "os_Get os (nd_Requests s @ replicate k (probe_of host)) (probe_of host) = Inr resp" and "rs_StatusCode resp = 200"
  shows "\<exists>j \<le> k. poll_available os host n s = (s\<lparr>nd_Requests := nd_Requests s @ replicate (Suc j) (probe_of host)\<rparr>, True)"
  using assms(2,3)
proof (induction n arbitrary: s k)
  case 0
  then show ?case using assms(4) by (simp add: isServiceAvailable_run [OF assms(1)])
next
  case (Suc n)
  let ?s = "s\<lparr>nd_Requests := nd_Requests s @ [probe_of host]\<rparr>"
  show ?case
  proof (cases "case os_Get os (nd_Requests s) (probe_of host) of Inl err \<Rightarrow> False | Inr resp \<Rightarrow> rs_StatusCode resp = 200")
    case True
    then show ?thesis by (intro exI [of _ 0]) (simp add: isServiceAvailable_run [OF assms(1)])
  next
    case False
    with Suc.prems(2) assms(4) have "k \<noteq> 0" by (cases k) auto
    then obtain k' where k: "k = Suc k'" by (cases k) auto
    have "\<exists>j \<le> k'. poll_available os host n ?s = (?s\<lparr>nd_Requests := nd_Requests ?s @ replicate (Suc j) (probe_of host)\<rparr>, True)"
      by (rule Suc.IH) (use Suc.prems k in simp_all)
    then obtain j where "j \<le> k'" "poll_available os host n ?s = (?s\<lparr>nd_Requests := nd_Requests ?s @ replicate (Suc j) (probe_of host)\<rparr>, True)" by blast
    with False k show ?thesis by (intro exI [of _ "Suc j"]) (simp add: isServiceAvailable_run [OF assms(1)])
  qed
qed

text \<open>
  A backup is asked for once the source is up: if its probe succeeds at some poll before the deadline,
  the request is sent, with the credentials, right after the first successful probe, and no other is sent before.
\<close>

theorem backup_requested_when_up:
  assumes "\<forall>url. os_NewRequest os url = None" and "k \<le> os_Polls os"
    and "os_Get os (nd_Requests s @ replicate k (probe_of host)) (probe_of host) = Inr resp" and "rs_StatusCode resp = 200"
  shows "\<exists>j. j \<le> k \<and> nd_Requests (fst (requestABackup os cfg host endpoint s)) =
    nd_Requests s @ replicate (Suc j) (probe_of host) @
      [\<lparr>rq_URL = prepareURL host endpoint, rq_BasicAuth = Some (cf_BackupUser cfg, cf_BackupPassword cfg)\<rparr>]"
proof -
  obtain j where j: "j \<le> k"
      and p: "poll_available os host (os_Polls os) s = (s\<lparr>nd_Requests := nd_Requests s @ replicate (Suc j) (probe_of host)\<rparr>, True)"
    using poll_reaches [OF assms] by blast
  have "nd_Requests (fst (requestABackup os cfg host endpoint s)) =
    nd_Requests s @ replicate (Suc j) (probe_of host) @
      [\<lparr>rq_URL = prepareURL host endpoint, rq_BasicAuth = Some (cf_BackupUser cfg, cf_BackupPassword cfg)\<rparr>]"
    using assms(1) by (simp add: requestABackup_def p request_def Let_def del: replicate_Suc split: sum.split)
  with j show ?thesis by blast
qed

section \<open>The position of a backup\<close>

definition word_ok :: "string \<Rightarrow> bool" where
  "word_ok w \<longleftrightarrow> w \<noteq> [] \<and> list_all (\<lambda>c. \<not> is_space c) w \<and> length w < MaxScanTokenSize"

lemma string_fields_word: "word_ok w \<Longrightarrow> is_space x \<Longrightarrow> string_fields (w @ x # s) = w # string_fields s"
  by (simp add: string_fields_def word_ok_def list_all_iff split_by_append)

lemma string_fields_Nil [simp]: "string_fields [] = []"
  by (simp add: string_fields_def)

lemma string_fields_lines:
  "list_all word_ok ws \<Longrightarrow> string_fields (concat (map (\<lambda>w. w @ NL) ws)) = ws"
  by (induction ws) (simp_all add: NL_def string_fields_word is_space_def)

text \<open>
  The position that \<^verbatim>\<open>xtrabackup\<close> has written (a log file, an offset and a set of transactions over one
  or more lines, separated by tabs) is read back as the set of transactions in one piece.
\<close>

theorem gtid_read_back:
  assumes "word_ok file" and "word_ok pos" and "list_all word_ok parts" and "parts \<noteq> []"
  shows "readPurgedGTID None [''xtrabackup_binlog_info'' \<mapsto> file @ TAB @ pos @ TAB @ concat (map (\<lambda>p. p @ NL) parts)] =
    Inr (concat parts)"
proof -
  have "is_space (hd TAB)" by (simp add: TAB_def is_space_def)
  then have f: "string_fields (file @ TAB @ pos @ TAB @ concat (map (\<lambda>p. p @ NL) parts)) = file # pos # parts"
    using assms by (simp add: TAB_def string_fields_word string_fields_lines is_space_def)
  moreover have "concat parts \<noteq> []" using assms(3,4) by (cases parts) (auto simp: word_ok_def)
  moreover have "\<not> list_ex (\<lambda>w. MaxScanTokenSize \<le> length w) (file # pos # parts)"
    using assms(1-3) by (auto simp: word_ok_def list_all_iff list_ex_iff)
  ultimately show ?thesis by (simp add: readPurgedGTID_def getGTIDFrom_def Let_def)
qed

section \<open>Witnesses\<close>

definition ref_getenv :: "string \<Rightarrow> string \<Rightarrow> string" where
  "ref_getenv host k =
     (case map_of [(''HOSTNAME'', host), (''MY_CLUSTER_NAME'', ''db''), (''MY_NAMESPACE'', ''ns''), (''MY_SERVICE_NAME'', ''mysql''),
        (''INIT_BUCKET_URI'', ''s3://b/x''), (''BACKUP_USER'', ''sys_backups''), (''BACKUP_PASSWORD'', ''pw''),
        (''HEARTBEAT_PASSWORD'', ''hb''), (''MY_MYSQL_VERSION'', ''8.4.8'')] k of
        Some v \<Rightarrow> v | None \<Rightarrow> [])"

definition ref_config :: "string \<Rightarrow> data_dir \<Rightarrow> config" where
  "ref_config host dir = projr (NewConfig ref_blang (ref_getenv host) (Inr ''r'') None dir)"

lemma ref_trim [simp]: "trim_space ''hb'' = ''hb''" "trim_space [] = []"
  by (simp_all add: trim_space_def trim_left_def is_space_def)

lemma ref_config_new: "NewConfig ref_blang (ref_getenv host) (Inr ''r'') None dir = Inr (ref_config host dir)"
  by (simp add: ref_config_def NewConfig_def heartbeat_credentials_def checkIfDataExists_def ref_getenv_def Let_def)

lemma ref_config_sel [simp]:
  "cf_ExistsMySQLData (ref_config host dir) \<longleftrightarrow> dir ''mysql'' \<noteq> None" "cf_Hostname (ref_config host dir) = host"
  "cf_InitBucketURL (ref_config host dir) = ''s3://b/x''" "cf_MyServerIDOffset (ref_config host dir) = 100"
  "cf_BackupUser (ref_config host dir) = ''sys_backups''" "cf_BackupPassword (ref_config host dir) = ''pw''"
  by (simp_all add: ref_config_def NewConfig_def heartbeat_credentials_def checkIfDataExists_def ref_getenv_def Let_def
      server_id_offset_def MysqlServerIDOffset_def)

lemma ref_ordinals [simp]: "getOrdinalFromHostname ''db-mysql-0'' = 0" "getOrdinalFromHostname ''db-mysql-1'' = 1"
  by (simp_all add: getOrdinalFromHostname_def atoi_def is_digit_def digit_val_def max_int64_def min_int64_def)

definition ref_sys :: "(http_request \<Rightarrow> (string, response) result) \<Rightarrow> sys" where
  "ref_sys answer =
     \<lparr>os_Get = (\<lambda>log r. answer r), os_NewRequest = (\<lambda>url. None), os_Polls = 4,
      os_Exec = (\<lambda>cmd input. \<lparr>px_Start = None, px_Wait = None, px_Output = input\<rparr>),
      os_Extract = (\<lambda>args input dir. dir(''mysql'' \<mapsto> input)), os_Prepare = (\<lambda>args dir. (dir, None)),
      os_Remove = (\<lambda>path. None), os_ReadDirError = None, os_RcloneConfigExists = True\<rparr>"

lemma ref_sys_sel [simp]:
  "os_Get (ref_sys a) reqs r = a r" "os_NewRequest (ref_sys a) url = None"
  "os_Exec (ref_sys a) cmd input = \<lparr>px_Start = None, px_Wait = None, px_Output = input\<rparr>"
  "os_Extract (ref_sys a) args input dir = dir(''mysql'' \<mapsto> input)" "os_Prepare (ref_sys a) args dir = (dir, None)"
  "os_Remove (ref_sys a) path = None" "os_ReadDirError (ref_sys a) = None" "os_RcloneConfigExists (ref_sys a)"
  by (simp_all add: ref_sys_def)

definition ref_disk :: node_run where
  "ref_disk = \<lparr>nd_Requests = [], nd_Dir = Map.empty\<rparr>"

definition ref_up :: "http_request \<Rightarrow> (string, response) result" where
  "ref_up r = Inr \<lparr>rs_StatusCode = 200, rs_Status = ''200 OK'', rs_Body = ''data'', rs_Trailer = [backupStatusTrailer \<mapsto> [backupSuccessful]]\<rparr>"

definition ref_down :: "http_request \<Rightarrow> (string, response) result" where
  "ref_down r = Inl ''connection refused''"

lemma ref_removed [simp]: "remove_entries (ref_sys a) chosen Map.empty = Map.empty"
  by (simp add: remove_entries_def fun_eq_iff)

lemma poll_at_once: "isServiceAvailable os host s = (s', True) \<Longrightarrow> poll_available os host n s = (s', True)"
  by (cases n) simp_all

definition ref_answering :: "(http_request \<Rightarrow> (string, response) result) \<Rightarrow> bool" where
  "ref_answering answer \<longleftrightarrow> (\<forall>r. \<exists>resp. answer r = Inr resp \<and> rs_StatusCode resp = 200)"

lemma ref_probe_up:
  assumes "ref_answering a"
  shows "isServiceAvailable (ref_sys a) svc s = (s\<lparr>nd_Requests := nd_Requests s @ [probe_of svc]\<rparr>, True)"
proof -
  obtain resp where "a (probe_of svc) = Inr resp" "rs_StatusCode resp = 200" using assms unfolding ref_answering_def by blast
  then show ?thesis by (simp add: isServiceAvailable_run)
qed

lemma ref_backup_up:
  assumes "ref_answering a"
  obtains s' resp where "requestABackup (ref_sys a) cfg host ep s = (s', Inr resp)" "nd_Dir s' = nd_Dir s"
    "a \<lparr>rq_URL = prepareURL host ep, rq_BasicAuth = Some (cf_BackupUser cfg, cf_BackupPassword cfg)\<rparr> = Inr resp"
proof -
  obtain resp where a: "a \<lparr>rq_URL = prepareURL host ep, rq_BasicAuth = Some (cf_BackupUser cfg, cf_BackupPassword cfg)\<rparr> = Inr resp"
      "rs_StatusCode resp = 200"
    using assms unfolding ref_answering_def by blast
  let ?s = "s\<lparr>nd_Requests := nd_Requests s @ [probe_of host, \<lparr>rq_URL = prepareURL host ep, rq_BasicAuth = Some (cf_BackupUser cfg, cf_BackupPassword cfg)\<rparr>]\<rparr>"
  have "requestABackup (ref_sys a) cfg host ep s = (?s, Inr resp)"
    using a by (simp add: requestABackup_def poll_at_once [OF ref_probe_up [OF assms]] request_def Let_def)
  with a(1) that show thesis by simp
qed

lemma ref_answering_up [simp]: "ref_answering ref_up"
  by (simp add: ref_answering_def ref_up_def)

lemma ref_clone_up:
  obtains s' where "cloneFromSource (ref_sys ref_up) cfg host s = (s', None)"
proof (rule ref_backup_up [OF ref_answering_up])
  fix s1 resp assume "requestABackup (ref_sys ref_up) cfg host serverBackupEndpoint s = (s1, Inr resp)"
    and "ref_up \<lparr>rq_URL = prepareURL host serverBackupEndpoint, rq_BasicAuth = Some (cf_BackupUser cfg, cf_BackupPassword cfg)\<rparr> = Inr resp"
  then have "cloneFromSource (ref_sys ref_up) cfg host s = (s1\<lparr>nd_Dir := (nd_Dir s1)(''mysql'' \<mapsto> rs_Body resp)\<rparr>, None)"
    by (auto simp: cloneFromSource_def Let_def ref_up_def checkBackupTrailers_def stringInSlice_def)
  then show thesis by (rule that)
qed


definition ref_cut :: "http_request \<Rightarrow> (string, response) result" where
  "ref_cut r = Inr \<lparr>rs_StatusCode = 200, rs_Status = ''200 OK'', rs_Body = ''part'', rs_Trailer = [backupStatusTrailer \<mapsto> [backupFailed]]\<rparr>"

theorem failed_source_clone_retried_witness:
  "\<exists>s' err. attemptClone (ref_sys ref_cut) (ref_config ''db-mysql-1'' Map.empty) ''db-mysql-replicas'' ref_disk = (s', Some err) \<and>
     checkIfDataExists None (nd_Dir s') = Inr False"
proof (rule ref_backup_up [of ref_cut "ref_config ''db-mysql-1'' Map.empty" "''db-mysql-replicas''" serverBackupEndpoint ref_disk])
  show "ref_answering ref_cut" by (simp add: ref_answering_def ref_cut_def)
  fix s1 resp assume "requestABackup (ref_sys ref_cut) (ref_config ''db-mysql-1'' Map.empty) ''db-mysql-replicas'' serverBackupEndpoint ref_disk = (s1, Inr resp)"
    and "ref_cut \<lparr>rq_URL = prepareURL ''db-mysql-replicas'' serverBackupEndpoint,
      rq_BasicAuth = Some (cf_BackupUser (ref_config ''db-mysql-1'' Map.empty), cf_BackupPassword (ref_config ''db-mysql-1'' Map.empty))\<rparr> = Inr resp"
  then have "\<exists>s' err. attemptClone (ref_sys ref_cut) (ref_config ''db-mysql-1'' Map.empty) ''db-mysql-replicas'' ref_disk = (s', Some err)"
    by (auto simp: attemptClone_def cloneFromSource_def Let_def ref_cut_def checkBackupTrailers_def stringInSlice_def backupFailed_def backupSuccessful_def)
  then obtain s' err where run: "attemptClone (ref_sys ref_cut) (ref_config ''db-mysql-1'' Map.empty) ''db-mysql-replicas'' ref_disk = (s', Some err)"
    by blast
  with failed_source_clone_retried [OF run] show ?thesis by (simp add: ref_disk_def)
qed

definition ref_broken :: sys where
  "ref_broken = (ref_sys ref_down)\<lparr>os_Exec := (\<lambda>cmd input.
     \<lparr>px_Start = None, px_Wait = (if hd cmd = ''rclone'' then Some ''connection reset'' else None), px_Output = ''part''\<rparr>)\<rparr>"

lemma ref_broken_sel [simp]:
  "os_Get ref_broken reqs r = ref_down r" "os_NewRequest ref_broken url = None" "os_Remove ref_broken path = None"
  "os_Extract ref_broken args input dir = dir(''mysql'' \<mapsto> input)" "os_Prepare ref_broken args dir = (dir, None)" "os_RcloneConfigExists ref_broken"
  "os_Exec ref_broken cmd input = \<lparr>px_Start = None, px_Wait = (if hd cmd = ''rclone'' then Some ''connection reset'' else None), px_Output = ''part''\<rparr>"
  by (simp_all add: ref_broken_def)

theorem partial_restore_accepted_witness:
  "\<exists>s' err. RunCloneCommand ref_broken (ref_config ''db-mysql-0'' Map.empty) ref_disk = (s', Some err) \<and>
     RunCloneCommand (ref_sys ref_up) (ref_config ''db-mysql-0'' (nd_Dir s')) s' = (s', None)"
proof -
  let ?cfg = "ref_config ''db-mysql-0'' Map.empty"
  have down: "isServiceAvailable ref_broken svc s = (s\<lparr>nd_Requests := nd_Requests s @ [probe_of svc]\<rparr>, False)" for svc s
    by (simp add: isServiceAvailable_run ref_down_def)
  obtain s3 be where s3: "cloneFromBucket ref_broken ?cfg
      (ref_disk\<lparr>nd_Dir := Map.empty, nd_Requests := [probe_of (ReplicasFQDN ?cfg), probe_of (MasterFQDN ?cfg)]\<rparr>) = (s3, be)" by fastforce
  then have s3': "be \<noteq> None" "nd_Dir s3 ''mysql'' = Some ''part''"
    by (auto simp: cloneFromBucket_def Let_def)
  show ?thesis
    by (rule partial_restore_accepted [OF _ _ down _ _ s3 _ _ _ ref_config_new])
      (use s3' in \<open>simp_all add: down ref_disk_def deleteLostFound_def remove_entries_def ShouldCloneFromBucket_def ServerID_def to_int64_def\<close>)
qed

definition ref_xtrabackup :: "string list \<Rightarrow> process" where
  "ref_xtrabackup cmd = \<lparr>px_Start = None, px_Wait = None, px_Output = ''data''\<rparr>"

definition ref_backup_server :: "http_request \<Rightarrow> (string, response) result" where
  "ref_backup_server r =
     (if rq_URL r = prepareURL ''db-mysql-0'' serverBackupEndpoint
      then Inr (backupHandler (ref_config ''db-mysql-0'' Map.empty) True ref_xtrabackup (\<lambda>output. (output, None)) r)
      else Inr (healthHandler r))"

definition ref_remote :: remote where
  "ref_remote =
     \<lparr>rm_Rcat = (\<lambda>args obj input store. (store(obj \<mapsto> input), None)),
      rm_Moveto = (\<lambda>args from to store. (store(to := store from, from := if from = to then store from else None), None))\<rparr>"

lemma ref_remote_ok [simp]: "rclone_ok ref_remote"
  by (auto simp: rclone_ok_def ref_remote_def)


theorem backup_requested_when_up_witness:
  "\<exists>j. j \<le> 2 \<and> nd_Requests (fst (requestABackup (ref_sys ref_up) (ref_config ''job'' Map.empty) ''db-mysql-0'' ''/xbackup'' ref_disk)) =
     replicate (Suc j) (probe_of ''db-mysql-0'') @
       [\<lparr>rq_URL = prepareURL ''db-mysql-0'' ''/xbackup'', rq_BasicAuth = Some (''sys_backups'', ''pw'')\<rparr>]"
  using backup_requested_when_up [of "ref_sys ref_up" 2 ref_disk "''db-mysql-0''" _ "ref_config ''job'' Map.empty" "''/xbackup''"]
  by (auto simp: ref_sys_def ref_disk_def ref_up_def)

theorem gtid_read_back_witness:
  "readPurgedGTID None [''xtrabackup_binlog_info'' \<mapsto> ''bin.01'' @ TAB @ ''154'' @ TAB @ concat (map (\<lambda>p. p @ NL) [''a:1-5,'', ''b:1-3''])] =
    Inr ''a:1-5,b:1-3''"
proof -
  have "word_ok ''bin.01''" "word_ok ''154''" "list_all word_ok [''a:1-5,'', ''b:1-3'']"
    by (simp_all add: word_ok_def is_space_def MaxScanTokenSize_def)
  from gtid_read_back [OF this] show ?thesis by simp
qed

end
