(* ===== verification/SidecarConf.thy ===== *)
theory SidecarConf
  imports SidecarProps
begin

text \<open>
  The files that the sidecar writes before the server starts, \<^verbatim>\<open>pkg/sidecar/appconf.go\<close>, and the command of the
  init container, \<^verbatim>\<open>clone-and-init\<close> of \<^verbatim>\<open>cmd/mysql-operator-sidecar/main.go\<close>. The file system maps paths to contents; the
  errors of opening, creating and making directories are parameters.
\<close>

section \<open>Files\<close>

definition OperatorConfiguredPendingValue :: string where "OperatorConfiguredPendingValue = ''0''"
definition ConfClientLoopbackPath :: string where "ConfClientLoopbackPath = ''/etc/mysql/client-loopback.cnf''"
definition toolsHeartbeatTableName :: string where "toolsHeartbeatTableName = ''heartbeat''"

type_synonym files = "string \<rightharpoonup> string"

record file_io =
  io_Open :: "string \<Rightarrow> string option"
  io_Create :: "string \<Rightarrow> string option"
  io_Mkdir :: "string \<Rightarrow> string option"

type_synonym file_step = "files \<Rightarrow> files \<times> string option"

definition and_then :: "file_step \<Rightarrow> file_step \<Rightarrow> file_step" where
  "and_then a b fs = (case a fs of (fs', Some err) \<Rightarrow> (fs', Some err) | (fs', None) \<Rightarrow> b fs')"

fun all_steps :: "file_step list \<Rightarrow> file_step" where
  "all_steps [] fs = (fs, None)"
| "all_steps (a # as) fs = and_then a (all_steps as) fs"

definition failing :: "string \<Rightarrow> file_step \<Rightarrow> file_step" where
  "failing msg a fs = (case a fs of (fs', Some err) \<Rightarrow> (fs', Some (msg @ '': '' @ err)) | (fs', None) \<Rightarrow> (fs', None))"

definition write_file :: "file_io \<Rightarrow> string \<Rightarrow> string \<Rightarrow> file_step" where
  "write_file io path content fs =
     (case io_Create io path of Some err \<Rightarrow> (fs, Some err) | None \<Rightarrow> (fs(path \<mapsto> content), None))"

definition copyFile :: "file_io \<Rightarrow> string \<Rightarrow> string \<Rightarrow> file_step" where
  "copyFile io src dst fs =
     (case io_Open io src of
        Some err \<Rightarrow> (fs, Some err)
      | None \<Rightarrow>
          (case fs src of
             None \<Rightarrow> (fs, Some (''open '' @ src @ '': no such file or directory''))
           | Some content \<Rightarrow> write_file io dst content fs))"

definition mkdir :: "file_io \<Rightarrow> string \<Rightarrow> file_step" where
  "mkdir io path fs = (fs, io_Mkdir io path)"

section \<open>Option files\<close>

text \<open>\<^verbatim>\<open>ini.Empty().Section(name)\<close> with the keys, in their order.\<close>

fun new_keys :: "'f ini_lib \<Rightarrow> string \<Rightarrow> (string \<times> string) list \<Rightarrow> 'f \<Rightarrow> (string, 'f) result" where
  "new_keys ini sec [] f = Inr f"
| "new_keys ini sec ((k, v) # kvs) f =
     (case in_NewKey ini sec k v f of Inl err \<Rightarrow> Inl err | Inr f' \<Rightarrow> new_keys ini sec kvs f')"

definition section_of :: "'f ini_lib \<Rightarrow> string \<Rightarrow> (string \<times> string) list \<Rightarrow> (string, 'f) result" where
  "section_of ini sec kvs = new_keys ini sec kvs (or_keep (in_Empty ini) (in_NewSection ini sec (in_Empty ini)))"

definition getClientConfigs :: "'f ini_lib \<Rightarrow> string \<Rightarrow> string \<Rightarrow> (string, 'f) result" where
  "getClientConfigs ini user pass =
     section_of ini ''client''
       [(''host'', ''127.0.0.1''), (''port'', itoa MysqlPort), (''user'', user), (''password'', pass), (''get-server-public-key'', ''1'')]"

definition getSocketClientConfigs :: "'f ini_lib \<Rightarrow> string \<Rightarrow> string \<Rightarrow> (string, 'f) result" where
  "getSocketClientConfigs ini user pass =
     section_of ini ''client'' [(''socket'', DataVolumeMountPath @ ''/mysql.sock''), (''user'', user), (''password'', pass)]"

definition getIdentityConfigs :: "'f ini_lib \<Rightarrow> int \<Rightarrow> string \<Rightarrow> (string, 'f) result" where
  "getIdentityConfigs ini sid reportHost =
     section_of ini ''mysqld'' [(''server-id'', itoa sid), (''report-host'', reportHost)]"

definition getInitFileConfigs :: "'f ini_lib \<Rightarrow> string \<Rightarrow> (string, 'f) result" where
  "getInitFileConfigs ini filePath = section_of ini ''mysqld'' [(''init-file'', filePath)]"

definition loopback_configs :: "'f ini_lib \<Rightarrow> (string, 'f) result" where
  "loopback_configs ini =
     section_of ini ''client'' [(''host'', ''127.0.0.1''), (''port'', itoa MysqlPort), (''get-server-public-key'', ''1'')]"

text \<open>The configuration, or its error, saved to a path.\<close>

definition save_config :: "file_io \<Rightarrow> 'f ini_lib \<Rightarrow> string \<Rightarrow> (string, 'f) result \<Rightarrow> string \<Rightarrow> string \<Rightarrow> file_step" where
  "save_config io ini make_msg f save_msg path fs =
     (case f of
        Inl err \<Rightarrow> (fs, Some (make_msg @ '': '' @ err))
      | Inr cfg \<Rightarrow>
          (case in_WriteTo ini cfg of
             Inl err \<Rightarrow> (fs, Some (save_msg @ '': '' @ err))
           | Inr content \<Rightarrow> failing save_msg (write_file io path content) fs))"

definition writeLoopbackClientHints :: "file_io \<Rightarrow> 'f ini_lib \<Rightarrow> file_step" where
  "writeLoopbackClientHints io ini =
     save_config io ini ''failed to write loopback client hints'' (loopback_configs ini) ''failed to write loopback client hints'' ConfClientLoopbackPath"

section \<open>The init file\<close>

definition createUserQuery :: "string \<Rightarrow> string \<Rightarrow> string \<Rightarrow> (string list \<times> string) list \<Rightarrow> string list" where
  "createUserQuery name pass host rights =
     (let user = name @ ''@'' @ QUOTE @ host @ QUOTE in
      [''DROP USER IF EXISTS '' @ user, ''CREATE USER '' @ user @ '' IDENTIFIED BY '' @ QUOTE @ pass @ QUOTE] @
      map (\<lambda>(right, on). ''GRANT '' @ join '', '' right @ '' ON '' @ on @ '' TO '' @ user) rights)"

definition status_table :: string where
  "status_table = OperatorDbName @ ''.'' @ OperatorStatusTableName"

definition replace_status :: "string \<Rightarrow> string \<Rightarrow> string" where
  "replace_status key val = ''REPLACE INTO '' @ status_table @ '' VALUES ('' @ QUOTE @ key @ QUOTE @ '', '' @ QUOTE @ val @ QUOTE @ '')''"

definition create_status_table :: string where
  "create_status_table =
     ''CREATE TABLE IF NOT EXISTS '' @ status_table @ '' (  name varchar(64) PRIMARY KEY,  value varchar(8192) NOT NULL'' @ NL @ '')''"

text \<open>The statements before the users: the table of the status comes first, for what waits for it.\<close>

definition status_queries :: "data_dir \<Rightarrow> string list" where
  "status_queries dir =
     [''SET @@SESSION.SQL_LOG_BIN = 0'', ''CREATE DATABASE IF NOT EXISTS '' @ OperatorDbName] @
     (if dir (OperatorDbName @ ''/'' @ OperatorStatusTableName @ ''.ibd'') = None then [''DROP TABLE IF EXISTS '' @ status_table] else []) @
     [create_status_table, replace_status OperatorConfiguredKey OperatorConfiguredPendingValue, ''SET GLOBAL READ_ONLY = 1'']"

definition user_queries :: "grant_hints \<Rightarrow> config \<Rightarrow> string list" where
  "user_queries hints cfg =
     (let heartbeat = OperatorDbName @ ''.'' @ toolsHeartbeatTableName in
      createUserQuery (cf_OperatorUser cfg) (cf_OperatorPassword cfg) ''%''
        [([''SUPER'', ''SHOW DATABASES'', ''PROCESS'', ''RELOAD'', ''CREATE'', ''CREATE USER'', ''SELECT''], ''*.*''),
         ([''REPLICATION SLAVE''], ''*.*''), ([''ALL''], OperatorDbName @ ''.*'')] @
      createUserQuery (cf_OrchestratorUser cfg) (cf_OrchestratorPassword cfg) ''%''
        [([''SUPER'', ''PROCESS'', ''REPLICATION SLAVE'', ''REPLICATION CLIENT'', ''RELOAD''], ''*.*''),
         ([''SELECT''], gh_OrchestratorMetadataTable hints), ([''SELECT'', ''CREATE''], heartbeat)] @
      createUserQuery (cf_ReplicationUser cfg) (cf_ReplicationPassword cfg) ''%'' [(gh_ReplicationUserPrivileges hints, ''*.*'')] @
      createUserQuery (cf_MetricsUser cfg) (cf_MetricsPassword cfg) ''127.0.0.1''
        [([''SELECT'', ''PROCESS'', ''REPLICATION CLIENT''], ''*.*''), ([''SELECT'', ''CREATE''], heartbeat)] @
      [''ALTER USER '' @ cf_MetricsUser cfg @ ''@'' @ QUOTE @ ''127.0.0.1'' @ QUOTE @ '' WITH MAX_USER_CONNECTIONS 3''] @
      concat (map (\<lambda>host. createUserQuery (cf_HeartBeatUser cfg) (cf_HeartBeatPassword cfg) host
        [([''CREATE'', ''SELECT'', ''DELETE'', ''UPDATE'', ''INSERT''], heartbeat), ([''REPLICATION CLIENT''], ''*.*'')])
        [''127.0.0.1'', ''localhost'']))"

definition init_queries :: "env \<Rightarrow> data_dir \<Rightarrow> config \<Rightarrow> string \<Rightarrow> string list" where
  "init_queries e dir cfg gtidPurged =
     (let hints = GrantHints (ProfileFor e (cf_MySQLVersion cfg)) in
      status_queries dir @ user_queries hints cfg @
      (if length gtidPurged \<noteq> 0 then [replace_status ''backup_gtid_purged'' gtidPurged] else []) @
      (if ShouldCloneFromBucket cfg then [gh_ResetReplicationAll hints] else []) @
      filter (\<lambda>stmt. trim_space stmt \<noteq> []) (cf_InitFileExtraSQL cfg) @
      [replace_status OperatorInitFileCompleteKey OperatorInitFileCompleteValue])"

definition initFileQuery :: "env \<Rightarrow> data_dir \<Rightarrow> config \<Rightarrow> string \<Rightarrow> string" where
  "initFileQuery e dir cfg gtidPurged = join ('';'' @ NL) (init_queries e dir cfg gtidPurged) @ '';'' @ NL"

section \<open>The command\<close>

definition read_gtid :: "string option \<Rightarrow> data_dir \<Rightarrow> string" where
  "read_gtid open_error dir = (case readPurgedGTID open_error dir of Inl err \<Rightarrow> [] | Inr gtid \<Rightarrow> gtid)"

definition RunConfigCommand :: "env \<Rightarrow> file_io \<Rightarrow> 'f ini_lib \<Rightarrow> string option \<Rightarrow> data_dir \<Rightarrow> config \<Rightarrow> file_step" where
  "RunConfigCommand e io ini open_error dir cfg =
     all_steps
       [failing ''copy file my.cnf'' (copyFile io (ConfMapVolumeMountPath @ ''/my.cnf'') (ConfVolumeMountPath @ ''/my.cnf'')),
        failing (''copy file '' @ shPreStopFile)
          (copyFile io (ConfMapVolumeMountPath @ ''/'' @ shPreStopFile) (ConfVolumeMountPath @ ''/'' @ shPreStopFile)),
        failing (''error mkdir '' @ ConfVolumeMountPath @ ''/conf.d'') (mkdir io ConfDPath),
        save_config io ini ''failed to get dynamic configs'' (getIdentityConfigs ini (ServerID cfg) (FQDNForServer cfg (ServerID cfg)))
          ''failed to save configs'' (ConfDPath @ ''/10-identity.cnf''),
        failing ''failed to write init-file''
          (write_file io (ConfDPath @ ''/operator-init.sql'') (initFileQuery e dir cfg (read_gtid open_error dir))),
        save_config io ini ''failed to configure init file'' (getInitFileConfigs ini (ConfDPath @ ''/operator-init.sql''))
          ''failed to configure init file'' (ConfDPath @ ''/10-init-file.cnf''),
        save_config io ini ''failed to get client configs'' (getClientConfigs ini (cf_OperatorUser cfg) (cf_OperatorPassword cfg))
          ''failed to save configs'' confClientPath,
        save_config io ini ''failed to get heartbeat configs'' (getSocketClientConfigs ini (cf_HeartBeatUser cfg) (cf_HeartBeatPassword cfg))
          ''failed to save heartbeat configs'' ConfHeartBeatPath,
        save_config io ini ''failed to get pt-kill configs'' (getSocketClientConfigs ini (cf_OperatorUser cfg) (cf_OperatorPassword cfg))
          ''failed to save pt-kill configs'' ConfPtKillPath,
        writeLoopbackClientHints io ini]"

text \<open>The init container: \<open>Some 8\<close> and \<open>Some 1\<close> are its exit codes, \<open>None\<close> a success.\<close>

definition clone_and_init ::
    "env \<Rightarrow> sys \<Rightarrow> file_io \<Rightarrow> 'f ini_lib \<Rightarrow> string option \<Rightarrow> config \<Rightarrow> node_run \<Rightarrow> files \<Rightarrow> node_run \<times> files \<times> int option" where
  "clone_and_init e os io ini open_error cfg s fs =
     (case RunCloneCommand os cfg s of
        (s', Some err) \<Rightarrow> (s', fs, Some 8)
      | (s', None) \<Rightarrow>
          (case RunConfigCommand e io ini open_error (nd_Dir s') cfg fs of
             (fs', Some err) \<Rightarrow> (s', fs', Some 1)
           | (fs', None) \<Rightarrow> (s', fs', None)))"

section \<open>Order of the init file\<close>

lemma createUserQuery_head:
  "q \<in> set (createUserQuery name pass host rights) \<Longrightarrow> hd q \<in> {CHR ''D'', CHR ''C'', CHR ''G''}"
  by (auto simp: createUserQuery_def Let_def)

lemma replace_status_head [simp]: "hd (replace_status k v) = CHR ''R''"
  by (simp add: replace_status_def)

lemma user_queries_head: "q \<in> set (user_queries hints cfg) \<Longrightarrow> hd q \<in> {CHR ''D'', CHR ''C'', CHR ''G'', CHR ''A''}"
  by (auto simp: user_queries_def Let_def dest!: createUserQuery_head)

lemma status_queries_head: "q \<in> set (status_queries dir) \<Longrightarrow> q = replace_status OperatorConfiguredKey OperatorConfiguredPendingValue \<or> hd q \<noteq> CHR ''R''"
  by (auto simp: status_queries_def create_status_table_def split: if_splits)

definition init_marker :: string where
  "init_marker = replace_status OperatorInitFileCompleteKey OperatorInitFileCompleteValue"

lemma replace_status_key: "replace_status k v = replace_status k' v' \<Longrightarrow> CHR 0x27 \<notin> set k \<Longrightarrow> CHR 0x27 \<notin> set k' \<Longrightarrow> k = k'"
  by (auto simp: replace_status_def QUOTE_def append_eq_append_conv2 append_eq_Cons_conv Cons_eq_append_conv)

lemma marker_not_before:
  assumes "init_marker \<notin> set (cf_InitFileExtraSQL cfg)"
  shows "init_marker \<notin> set (butlast (init_queries e dir cfg gtid))"
proof -
  have "init_marker \<notin> set (status_queries dir)"
    using status_queries_head [of init_marker dir] replace_status_key [of OperatorInitFileCompleteKey _ OperatorConfiguredKey]
    by (auto simp: init_marker_def OperatorInitFileCompleteKey_def OperatorConfiguredKey_def)
  moreover have "init_marker \<notin> set (user_queries h cfg)" for h
    using user_queries_head [of init_marker h cfg] by (auto simp: init_marker_def)
  moreover have "init_marker \<noteq> replace_status ''backup_gtid_purged'' gtid"
    using replace_status_key [of OperatorInitFileCompleteKey _ "''backup_gtid_purged''"]
    by (auto simp: init_marker_def OperatorInitFileCompleteKey_def)
  moreover have "init_marker \<noteq> gh_ResetReplicationAll (GrantHints p)" for p
    by (cases p) (auto simp: init_marker_def replace_status_def masterSlaveGrantHintsMySQL57_def masterSlaveGrantHintsMySQL8_def
        sourceReplicaGrantHints_def Let_def)
  ultimately show ?thesis
    using assms by (auto simp: init_queries_def Let_def butlast_append)
qed

text \<open>
  Property C17. The marker that the node controller waits for is the last statement of the init file: a server that
  has run a part of the file that contains it has run the whole file.
\<close>

theorem marker_means_complete:
  assumes "init_marker \<notin> set (cf_InitFileExtraSQL cfg)"
  shows "init_marker \<in> set (take n (init_queries e dir cfg gtid)) \<longleftrightarrow> length (init_queries e dir cfg gtid) \<le> n"
proof -
  let ?qs = "init_queries e dir cfg gtid"
  have q: "?qs = butlast ?qs @ [init_marker]" by (simp add: init_queries_def init_marker_def Let_def butlast_append)
  show ?thesis
  proof (cases "length ?qs \<le> n")
    case True
    then have "take n ?qs = ?qs" by simp
    then show ?thesis using True q by (metis in_set_conv_decomp)
  next
    case False
    then have "take n ?qs = take n (butlast ?qs)" by (subst q) simp
    then show ?thesis using marker_not_before [OF assms, of e dir gtid] False by (metis in_set_takeD)
  qed
qed

text \<open>A server that has run a part of the file that creates a user is read-only and has the table of the status.\<close>

lemma read_only_before_users:
  assumes "q \<in> set (take n (init_queries e dir cfg gtid))" and "has_prefix q ''CREATE USER''"
  shows "{''SET GLOBAL READ_ONLY = 1'', create_status_table} \<subseteq> set (take n (init_queries e dir cfg gtid))"
proof -
  have s: "list_all (\<lambda>q. \<not> has_prefix q ''CREATE USER'') (status_queries dir)"
    by (simp add: status_queries_def has_prefix_def create_status_table_def replace_status_def)
  have q: "\<exists>rest. init_queries e dir cfg gtid = status_queries dir @ rest" by (simp add: init_queries_def Let_def)
  have n: "\<not> n \<le> length (status_queries dir)"
  proof
    assume "n \<le> length (status_queries dir)"
    then have "q \<in> set (status_queries dir)" using q assms(1) by (auto dest: in_set_takeD)
    with s assms(2) show False by (simp add: list_all_iff)
  qed
  from q obtain rest where "take n (init_queries e dir cfg gtid) = status_queries dir @ take (n - length (status_queries dir)) rest"
    using n by auto
  moreover have "{''SET GLOBAL READ_ONLY = 1'', create_status_table} \<subseteq> set (status_queries dir)" by (simp add: status_queries_def)
  ultimately show ?thesis by auto
qed

section \<open>Restarts\<close>

lemma NewConfig_rerun:
  assumes "NewConfig bl getenv random None dir = Inr cfg" and "trim_space (getenv ''HEARTBEAT_PASSWORD'') \<noteq> []"
  shows "NewConfig bl getenv random' None dir' = Inr (cfg\<lparr>cf_ExistsMySQLData := (dir' ''mysql'' \<noteq> None)\<rparr>)"
  using assms by (auto simp: NewConfig_def heartbeat_credentials_def checkIfDataExists_def Let_def)

text \<open>
  The reset of the replication is lost when the init container runs twice: if it stops after the data has
  come from the bucket and before the init file is written, the next run writes the same file without the statement
  that resets the replication from the source of the backup.
\<close>

theorem reset_lost_on_restart:
  assumes "NewConfig bl getenv random None (nd_Dir s) = Inr cfg" and "trim_space (getenv ''HEARTBEAT_PASSWORD'') \<noteq> []"
    and "ShouldCloneFromBucket cfg" and "RunCloneCommand os cfg s = (s', None)" and "nd_Dir s' ''mysql'' \<noteq> None"
  shows "\<exists>cfg' first rest. NewConfig bl getenv random' None (nd_Dir s') = Inr cfg' \<and> RunCloneCommand os' cfg' s' = (s', None) \<and>
    init_queries e (nd_Dir s') cfg gtid = first @ [gh_ResetReplicationAll (GrantHints (ProfileFor e (cf_MySQLVersion cfg)))] @ rest \<and>
    init_queries e (nd_Dir s') cfg' gtid = first @ rest"
proof -
  let ?cfg = "cfg\<lparr>cf_ExistsMySQLData := True\<rparr>"
  let ?first = "status_queries (nd_Dir s') @ user_queries (GrantHints (ProfileFor e (cf_MySQLVersion cfg))) cfg @
    (if length gtid \<noteq> 0 then [replace_status ''backup_gtid_purged'' gtid] else [])"
  let ?rest = "filter (\<lambda>stmt. trim_space stmt \<noteq> []) (cf_InitFileExtraSQL cfg) @ [init_marker]"
  have "NewConfig bl getenv random' None (nd_Dir s') = Inr ?cfg" using NewConfig_rerun [OF assms(1,2)] assms(5) by simp
  moreover have "RunCloneCommand os' ?cfg s' = (s', None)" by (simp add: RunCloneCommand_def)
  moreover have "init_queries e (nd_Dir s') cfg gtid = ?first @ [gh_ResetReplicationAll (GrantHints (ProfileFor e (cf_MySQLVersion cfg)))] @ ?rest"
    using assms(3) by (simp add: init_queries_def init_marker_def Let_def)
  moreover have "init_queries e (nd_Dir s') ?cfg gtid = ?first @ ?rest"
    by (simp add: init_queries_def init_marker_def Let_def ShouldCloneFromBucket_def user_queries_def)
  ultimately show ?thesis by blast
qed

section \<open>The files of the config map\<close>

text \<open>The config map is mounted: its keys are the files below the mount path.\<close>

definition mounts_map :: "files \<Rightarrow> config_map \<Rightarrow> bool" where
  "mounts_map fs cm \<longleftrightarrow> (\<forall>name. fs (ConfMapVolumeMountPath @ ''/'' @ name) = cm_Data cm name)"

definition io_works :: "file_io \<Rightarrow> bool" where
  "io_works io \<longleftrightarrow> (\<forall>path. io_Open io path = None \<and> io_Create io path = None \<and> io_Mkdir io path = None)"

lemma copy_works:
  "io_works io \<Longrightarrow> copyFile io src dst fs =
     (case fs src of Some content \<Rightarrow> (fs(dst \<mapsto> content), None) | None \<Rightarrow> (fs, Some (''open '' @ src @ '': no such file or directory'')))"
  by (simp add: copyFile_def write_file_def io_works_def split: option.split)

lemma conf_paths:
  "ConfMapVolumeMountPath @ ''/'' @ name \<noteq> ConfVolumeMountPath @ x" "ConfMapVolumeMountPath @ ''/my.cnf'' \<noteq> ConfVolumeMountPath @ x"
  by (simp_all add: ConfMapVolumeMountPath_def ConfVolumeMountPath_def)

text \<open>
  Property C20. A cluster with a lifecycle hook of its own for the server does not start: the syncer of the config map
  leaves the script out, and the init container fails because it copies it all the same.
\<close>

theorem lifecycle_breaks_init:
  assumes "configMapSyncFn ini is e pods c sts cm = Inr cm'" and "ps_MysqlLifecycle (cs_PodSpec (mc_Spec c)) \<noteq> None"
    and "mounts_map fs cm'" and "io_works io" and "RunCloneCommand os cfg s = (s', None)"
  shows "\<exists>fs'. clone_and_init e os io ini open_error cfg s fs = (s', fs', Some 1)"
proof -
  obtain data where data: "cm_Data cm' = [''my.cnf'' \<mapsto> data]"
    using assms(1,2) by (auto simp: configMapSyncFn_def split: sum.splits)
  have files: "fs (ConfMapVolumeMountPath @ ''/my.cnf'') = Some data" "fs (ConfMapVolumeMountPath @ ''/'' @ shPreStopFile) = None"
    using assms(3) data unfolding mounts_map_def
    by (auto simp: shPreStopFile_def dest: spec [of _ "''my.cnf''"] spec [of _ shPreStopFile])
  let ?fs = "fs(ConfVolumeMountPath @ ''/my.cnf'' \<mapsto> data)"
  have "?fs (ConfMapVolumeMountPath @ ''/'' @ shPreStopFile) = None" using files conf_paths(1) by simp
  then show ?thesis
    using files assms(5)
    by (simp add: clone_and_init_def RunConfigCommand_def and_then_def failing_def copy_works [OF assms(4)])
qed

lemma section_of_ok:
  assumes "ini_ok ini look" and "list_all (\<lambda>kv. fst kv \<noteq> []) kvs"
  shows "is_ok (section_of ini sec kvs)"
proof -
  have "is_ok (new_keys ini sec kvs f)" for f
    using assms(2)
  proof (induction kvs arbitrary: f)
    case (Cons kv kvs)
    obtain k v where kv: "kv = (k, v)" by fastforce
    then have "is_ok (in_NewKey ini sec k v f)" using assms(1) Cons.prems by (simp add: ini_ok_def)
    then show ?case using Cons kv by (auto simp: is_ok_iff)
  qed simp
  then show ?thesis by (simp add: section_of_def)
qed

lemma save_works:
  assumes "io_works io" and "\<forall>f. is_ok (in_WriteTo ini f)" and "is_ok cfg"
  shows "save_config io ini m cfg m' path fs = (fs(path \<mapsto> projr (in_WriteTo ini (projr cfg))), None)"
proof -
  obtain f where f: "cfg = Inr f" using assms(3) by (auto simp: is_ok_iff)
  obtain content where "in_WriteTo ini f = Inr content" using assms(2) by (auto simp: is_ok_iff)
  with f assms(1) show ?thesis by (simp add: save_config_def failing_def write_file_def io_works_def)
qed

text \<open>
  The init container of a cluster without such a hook writes its files: the option file of the config map
  is in place, and the init file is the one for the configuration and the data.
\<close>

theorem init_files_written:
  assumes "ini_ok ini look" and "\<forall>f. is_ok (in_WriteTo ini f)" and "io_works io"
    and "configMapSyncFn ini' is e' pods c sts cm = Inr cm'" and "ps_MysqlLifecycle (cs_PodSpec (mc_Spec c)) = None" and "mounts_map fs cm'"
    and "RunCloneCommand os cfg s = (s', None)"
  shows "\<exists>fs'. clone_and_init e os io ini open_error cfg s fs = (s', fs', None) \<and>
    fs' (ConfVolumeMountPath @ ''/my.cnf'') = cm_Data cm' ''my.cnf'' \<and>
    fs' (ConfDPath @ ''/operator-init.sql'') = Some (initFileQuery e (nd_Dir s') cfg (read_gtid open_error (nd_Dir s')))"
proof -
  obtain data where data: "cm_Data cm' = [''my.cnf'' \<mapsto> data, shPreStopFile \<mapsto> buildBashPreStop]"
    using assms(4,5) by (auto simp: configMapSyncFn_def split: sum.splits)
  then have files: "fs (ConfMapVolumeMountPath @ ''/my.cnf'') = Some data" "fs (ConfMapVolumeMountPath @ ''/'' @ shPreStopFile) = Some buildBashPreStop"
    using assms(6) unfolding mounts_map_def
    by (auto simp: shPreStopFile_def dest: spec [of _ "''my.cnf''"] spec [of _ shPreStopFile])
  have configs: "is_ok (getIdentityConfigs ini i h)" "is_ok (getInitFileConfigs ini p)" "is_ok (getClientConfigs ini u w)"
      "is_ok (getSocketClientConfigs ini u w)" "is_ok (loopback_configs ini)" for i h p u w
    unfolding getIdentityConfigs_def getInitFileConfigs_def getClientConfigs_def getSocketClientConfigs_def loopback_configs_def
    by (rule section_of_ok [OF assms(1)]; simp)+
  note paths = ConfMapVolumeMountPath_def ConfVolumeMountPath_def ConfDPath_def confClientPath_def ConfHeartBeatPath_def ConfPtKillPath_def
    ConfClientLoopbackPath_def shPreStopFile_def
  let ?run = "RunConfigCommand e io ini open_error (nd_Dir s') cfg fs"
  have "fst ?run (ConfVolumeMountPath @ ''/my.cnf'') = Some data \<and>
      fst ?run (ConfDPath @ ''/operator-init.sql'') = Some (initFileQuery e (nd_Dir s') cfg (read_gtid open_error (nd_Dir s'))) \<and> snd ?run = None"
    using files assms(3)
    by (simp add: RunConfigCommand_def and_then_def failing_def copy_works write_file_def mkdir_def io_works_def writeLoopbackClientHints_def
        save_works [OF assms(3,2)] configs paths del: fun_upd_apply) (simp add: paths)
  then obtain fs' where "?run = (fs', None)" "fs' (ConfVolumeMountPath @ ''/my.cnf'') = Some data"
      "fs' (ConfDPath @ ''/operator-init.sql'') = Some (initFileQuery e (nd_Dir s') cfg (read_gtid open_error (nd_Dir s')))"
    by (cases ?run) auto
  then show ?thesis using assms(7) data by (simp add: clone_and_init_def shPreStopFile_def)
qed

section \<open>The environment of the container\<close>

text \<open>
  The environment of a container: an entry of its list (the last one of a name) before what its sources and the runtime
  set (\<open>base\<close>). \<open>field\<close> and \<open>secret\<close> are the fields of the pod and the keys of the secrets; \<open>expand\<close> replaces the references
  \<^verbatim>\<open>$(NAME)\<close> in a value.
\<close>

definition container_getenv ::
    "(string \<Rightarrow> string) \<Rightarrow> (string \<Rightarrow> string \<Rightarrow> string) \<Rightarrow> (string \<Rightarrow> string) \<Rightarrow> (string \<Rightarrow> string) \<Rightarrow> env_var list \<Rightarrow> string \<Rightarrow> string" where
  "container_getenv field secret expand base vars k =
     (case find (\<lambda>v. ev_Name v = k) (rev vars) of
        None \<Rightarrow> base k
      | Some v \<Rightarrow>
          (case ev_ValueFrom v of
             None \<Rightarrow> expand (ev_Value v)
           | Some (FieldRef version path) \<Rightarrow> field path
           | Some (SecretKeyRef name key opt) \<Rightarrow> secret name key))"

definition expand_ok :: "(string \<Rightarrow> string) \<Rightarrow> bool" where
  "expand_ok expand \<longleftrightarrow> (\<forall>v. CHR ''$'' \<notin> set v \<longrightarrow> expand v = v)"

lemma split_join:
  assumes "xs \<noteq> []" and "list_all (\<lambda>x. c \<notin> set x) xs"
  shows "split_char c (join [c] xs) = xs"
  using assms
proof (induction "[c]" xs rule: join.induct)
  case (2 x)
  then show ?case using split_by_word [of x "\<lambda>x. x = c"] by (auto simp: split_char_def)
next
  case (3 x y xs)
  then have "\<forall>z \<in> set x. \<not> z = c" by auto
  from split_by_append [OF this] 3 show ?case by (simp add: split_char_def)
qed simp

lemma getOrdinal_pod: "int i \<le> max_int64 \<Longrightarrow> getOrdinalFromHostname (base @ ''-'' @ utoa i) = int i"
proof -
  assume i: "int i \<le> max_int64"
  have "CHR ''-'' \<notin> set (utoa i)" by simp
  then have "last_index_char (CHR ''-'') (base @ CHR ''-'' # utoa i) = Some (length base)"
    by (simp add: last_index_char_append)
  then show ?thesis using i by (simp add: getOrdinalFromHostname_def atoi_utoa)
qed

lemma offset_cancels:
  assumes "0 \<le> i" and "i \<le> max_int64"
  shows "to_int64 (to_int64 (i + off) - off) = i"
proof -
  have "to_int64 (to_int64 x - off) = to_int64 (x - off)" for x
    by (simp add: to_int64_def mod_simps algebra_simps)
  then show ?thesis using assms by (simp add: to_int64_id max_int64_def)
qed

lemma find_rev_append:
  "list_all (\<lambda>v. \<not> P v) ys \<Longrightarrow> find P (rev (xs @ ys)) = find P (rev xs)"
  by (induction ys rule: rev_induct) simp_all

lemma option_env_names:
  "list_all (\<lambda>v. ev_Name v \<in> set [''INIT_BUCKET_URI'', ''MY_SERVER_ID_OFFSET'', ''BACKUP_DECOMPRESS_COMMAND'', ''RCLONE_EXTRA_ARGS'',
       ''XBSTREAM_EXTRA_ARGS'', ''XTRABACKUP_EXTRA_ARGS'', ''XTRABACKUP_PREPARE_EXTRA_ARGS'', ''XTRABACKUP_TARGET_DIR'', ''INITFILE_EXTRA_SQL''])
     (option_env s name)" (is "list_all ?P _")
proof -
  have one: "?P x \<Longrightarrow> list_all ?P (if b then [x] else [])" for x b by simp
  have off: "list_all ?P (case i of Some j \<Rightarrow> [env_value ''MY_SERVER_ID_OFFSET'' (itoa j)] | None \<Rightarrow> [])" for i
    by (simp add: env_value_def split: option.split)
  show ?thesis unfolding option_env_def Let_def list_all_append
    by (intro conjI one off) (simp_all add: env_value_def)
qed

lemma init_env_names:
  "v \<in> set (container_env s containerCloneAndInitName @ credential_env e s containerCloneAndInitName) \<Longrightarrow>
     ev_Name v \<in> set [''BACKUP_USER'', ''BACKUP_PASSWORD'']"
  by (auto simp: container_env_def credential_env_def envVarFromSecret_def containerCloneAndInitName_def containerMySQLInitName_def
      containerMysqlName_def containerExporterName_def Let_def split: if_splits)

lemma init_env_of_pod:
  assumes "k \<in> set [''MY_NAMESPACE'', ''MY_SERVICE_NAME'', ''MY_CLUSTER_NAME'', ''MY_MYSQL_VERSION'', ''HOSTNAME'', ''HEARTBEAT_USER'', ''HEARTBEAT_PASSWORD'']"
  shows "find (\<lambda>v. ev_Name v = k) (rev (getEnvFor e s containerCloneAndInitName)) = find (\<lambda>v. ev_Name v = k) (rev (pod_env e s))"
proof -
  have "list_all (\<lambda>v. ev_Name v \<noteq> k) (option_env s containerCloneAndInitName @ container_env s containerCloneAndInitName @
      credential_env e s containerCloneAndInitName)"
    using assms option_env_names [of s containerCloneAndInitName] init_env_names [of _ s e]
    unfolding list_all_iff by fastforce
  then show ?thesis unfolding getEnvFor_def by (rule find_rev_append)
qed

lemma init_env_of_sql:
  assumes "cs_InitFileExtraSQL (sy_spec s) \<noteq> []"
  shows "find (\<lambda>v. ev_Name v = ''INITFILE_EXTRA_SQL'') (rev (getEnvFor e s containerCloneAndInitName)) =
    Some (env_value ''INITFILE_EXTRA_SQL'' (join '';'' (cs_InitFileExtraSQL (sy_spec s))))"
proof -
  have "list_all (\<lambda>v. ev_Name v \<noteq> ''INITFILE_EXTRA_SQL'') (container_env s containerCloneAndInitName @ credential_env e s containerCloneAndInitName)"
    using init_env_names [of _ s e] unfolding list_all_iff by fastforce
  from find_rev_append [OF this, of "pod_env e s @ option_env s containerCloneAndInitName"]
  have "find (\<lambda>v. ev_Name v = ''INITFILE_EXTRA_SQL'') (rev (getEnvFor e s containerCloneAndInitName)) =
      find (\<lambda>v. ev_Name v = ''INITFILE_EXTRA_SQL'') (rev (pod_env e s @ option_env s containerCloneAndInitName))"
    unfolding getEnvFor_def append_assoc .
  then show ?thesis using assms by (simp add: option_env_def Let_def isCloneAndInit_def env_value_def)
qed

lemma dotted_no_dollar: "CHR ''$'' \<notin> set (dotted v)"
  using utoa_chars [of "CHR ''$''"] by (auto simp: dotted_def is_digit_def)

lemma join_no_char: "c \<notin> set sep \<Longrightarrow> list_all (\<lambda>x. c \<notin> set x) xs \<Longrightarrow> c \<notin> set (join sep xs)"
  by (induction sep xs rule: join.induct) auto


section \<open>Witnesses\<close>

lemma ref_version: "dotted (ver 8 4 8) = ''8.4.8''"
  by (simp add: dotted_def utoa.simps [of 8] utoa.simps [of 4] digit_char_def char_of_def bit_numeral_rec bit_0)

lemma ref_config_more [simp]: "cf_InitFileExtraSQL (ref_config host dir) = [[]]" "cf_MySQLVersion (ref_config host dir) = ver 8 4 8"
  using ref_Parse_dotted [of "ver 8 4 8"] unfolding ref_version
  by (simp_all add: ref_config_def NewConfig_def heartbeat_credentials_def checkIfDataExists_def ref_getenv_def Let_def split_char_def Parse_def)

theorem marker_means_complete_witness:
  "init_marker \<notin> set (take 5 (init_queries ref_env Map.empty (ref_config ''db-mysql-0'' Map.empty) []))"
  using marker_means_complete [of "ref_config ''db-mysql-0'' Map.empty" 5 ref_env Map.empty "[]"]
  by (simp add: init_marker_def replace_status_def) (simp add: init_queries_def status_queries_def user_queries_def createUserQuery_def Let_def)

lemma ref_restored:
  obtains s' where "RunCloneCommand (ref_sys ref_down) (ref_config ''db-mysql-0'' Map.empty) ref_disk = (s', None)" "nd_Dir s' ''mysql'' \<noteq> None"
proof -
  have down: "isServiceAvailable (ref_sys ref_down) svc s = (s\<lparr>nd_Requests := nd_Requests s @ [probe_of svc]\<rparr>, False)" for svc s
    by (simp add: isServiceAvailable_run ref_down_def)
  have should: "ShouldCloneFromBucket (ref_config ''db-mysql-0'' Map.empty)"
    by (simp add: ShouldCloneFromBucket_def ServerID_def to_int64_def)
  have "\<exists>s'. RunCloneCommand (ref_sys ref_down) (ref_config ''db-mysql-0'' Map.empty) ref_disk = (s', None) \<and> nd_Dir s' ''mysql'' \<noteq> None"
    by (simp add: RunCloneCommand_def deleteLostFound_def down should cloneFromBucket_def Let_def prepare_after_def xtrabackupPrepare_def)
  then show thesis using that by blast
qed

theorem reset_lost_on_restart_witness:
  "\<exists>s' cfg' first rest. RunCloneCommand (ref_sys ref_down) (ref_config ''db-mysql-0'' Map.empty) ref_disk = (s', None) \<and>
     init_queries ref_env (nd_Dir s') (ref_config ''db-mysql-0'' Map.empty) [] = first @ [''RESET REPLICA ALL''] @ rest \<and>
     NewConfig ref_blang (ref_getenv ''db-mysql-0'') (Inr ''r'') None (nd_Dir s') = Inr cfg' \<and>
     init_queries ref_env (nd_Dir s') cfg' [] = first @ rest"
proof (rule ref_restored)
  fix s' assume run: "RunCloneCommand (ref_sys ref_down) (ref_config ''db-mysql-0'' Map.empty) ref_disk = (s', None)" and m: "nd_Dir s' ''mysql'' \<noteq> None"
  have should: "ShouldCloneFromBucket (ref_config ''db-mysql-0'' Map.empty)"
    by (simp add: ShouldCloneFromBucket_def ServerID_def to_int64_def)
  have new: "NewConfig ref_blang (ref_getenv ''db-mysql-0'') (Inr ''r'') None (nd_Dir ref_disk) = Inr (ref_config ''db-mysql-0'' Map.empty)"
    by (simp add: ref_config_new ref_disk_def)
  have hb: "trim_space (ref_getenv ''db-mysql-0'' ''HEARTBEAT_PASSWORD'') \<noteq> []" by (simp add: ref_getenv_def)
  have "gh_ResetReplicationAll (GrantHints (ProfileFor ref_env (ver 8 4 8))) = ''RESET REPLICA ALL''"
    by (simp add: ProfileFor_eq AtLeastMySQL84_def sourceReplicaGrantHints_def Let_def)
  then show ?thesis
    using reset_lost_on_restart [OF new hb should run m, of "Inr ''r''" "ref_sys ref_down" ref_env "[]"] run by auto
qed

definition ref_hooked :: mysql_cluster where
  "ref_hooked = ref_cluster\<lparr>mc_Spec := (mc_Spec ref_cluster)\<lparr>cs_PodSpec := (cs_PodSpec (mc_Spec ref_cluster))\<lparr>ps_MysqlLifecycle := Some []\<rparr>\<rparr>\<rparr>"

definition ref_mounted :: "config_map \<Rightarrow> files" where
  "ref_mounted cm = (\<lambda>path. if has_prefix path ''/mnt/conf/'' then cm_Data cm (drop 10 path) else None)"

lemma ref_mounts [simp]: "mounts_map (ref_mounted cm) cm"
  by (simp add: mounts_map_def ref_mounted_def has_prefix_def ConfMapVolumeMountPath_def)

definition ref_io :: file_io where
  "ref_io = \<lparr>io_Open = (\<lambda>path. None), io_Create = (\<lambda>path. None), io_Mkdir = (\<lambda>path. None)\<rparr>"

lemma ref_io_works [simp]: "io_works ref_io"
  by (simp add: io_works_def ref_io_def)

lemma ref_map_synced:
  assumes "user_conf c = Map.empty"
  obtains cm where "configMapSyncFn ref_ini ref_intstr ref_env (Inr []) c None \<lparr>cm_Labels = Map.empty, cm_Data = Map.empty\<rparr> = Inr cm"
proof -
  obtain f where "mysql_conf_file ref_ini ref_intstr ref_env (DesiredVersion ref_env c) c = Inr f"
    using conf_file_look [OF ref_ini_ok, of c "''max-connections''" "DesiredVersion ref_env c" ref_intstr ref_env] assms
    by (auto simp: MysqldBooleanConfigs_def)
  then show thesis using that by (simp add: configMapSyncFn_def buildMysqlConfData_def ref_ini_def)
qed

theorem lifecycle_breaks_init_witness:
  "\<exists>cm s' fs'. configMapSyncFn ref_ini ref_intstr ref_env (Inr []) ref_hooked None \<lparr>cm_Labels = Map.empty, cm_Data = Map.empty\<rparr> = Inr cm \<and>
     clone_and_init ref_env (ref_sys ref_down) ref_io ref_ini None (ref_config ''db-mysql-0'' Map.empty) ref_disk (ref_mounted cm) = (s', fs', Some 1)"
proof -
  have "user_conf ref_hooked = Map.empty" "ps_MysqlLifecycle (cs_PodSpec (mc_Spec ref_hooked)) \<noteq> None"
    by (simp_all add: user_conf_def ref_hooked_def ref_defs)
  moreover obtain cm where "configMapSyncFn ref_ini ref_intstr ref_env (Inr []) ref_hooked None \<lparr>cm_Labels = Map.empty, cm_Data = Map.empty\<rparr> = Inr cm"
    using ref_map_synced calculation(1) by blast
  moreover obtain s' where "RunCloneCommand (ref_sys ref_down) (ref_config ''db-mysql-0'' Map.empty) ref_disk = (s', None)" by (rule ref_restored)
  ultimately show ?thesis
    using lifecycle_breaks_init [of ref_ini ref_intstr ref_env "Inr []" ref_hooked None _ cm "ref_mounted cm" ref_io] by fastforce
qed

theorem init_files_written_witness:
  "\<exists>cm s' fs'. configMapSyncFn ref_ini ref_intstr ref_env (Inr []) ref_cluster None \<lparr>cm_Labels = Map.empty, cm_Data = Map.empty\<rparr> = Inr cm \<and>
     clone_and_init ref_env (ref_sys ref_down) ref_io ref_ini None (ref_config ''db-mysql-0'' Map.empty) ref_disk (ref_mounted cm) = (s', fs', None)"
proof -
  have "user_conf ref_cluster = Map.empty" "ps_MysqlLifecycle (cs_PodSpec (mc_Spec ref_cluster)) = None"
    by (simp_all add: user_conf_def ref_defs)
  moreover obtain cm where "configMapSyncFn ref_ini ref_intstr ref_env (Inr []) ref_cluster None \<lparr>cm_Labels = Map.empty, cm_Data = Map.empty\<rparr> = Inr cm"
    using ref_map_synced calculation(1) by blast
  moreover obtain s' where "RunCloneCommand (ref_sys ref_down) (ref_config ''db-mysql-0'' Map.empty) ref_disk = (s', None)" by (rule ref_restored)
  moreover have "\<forall>f. is_ok (in_WriteTo ref_ini f)" by (simp add: ref_ini_def)
  ultimately show ?thesis
    using init_files_written [OF ref_ini_ok, of ref_io ref_ini ref_intstr ref_env "Inr []" ref_cluster None _ cm "ref_mounted cm"] by fastforce
qed

definition ref_sql_cluster :: mysql_cluster where
  "ref_sql_cluster = ref_cluster\<lparr>mc_Spec := (mc_Spec ref_cluster)\<lparr>cs_InitFileExtraSQL := [''SELECT 1'', ''SELECT 2'']\<rparr>\<rparr>"

definition ref_sql_syncer :: sfs_syncer where
  "ref_sql_syncer = \<lparr>sy_cluster = ref_sql_cluster, sy_configMapRevision = ''r1'', sy_secretRevision = ''s1'', sy_opt = ref_options, sy_rolloutVersion = ver 8 4 8\<rparr>"

definition ref_container_env :: "string \<Rightarrow> string" where
  "ref_container_env =
     container_getenv (\<lambda>path. ''ns'') (\<lambda>name key. ''pw'') id
       (\<lambda>k. if k = ''HOSTNAME'' then ''db-mysql-1'' else if k = ''HEARTBEAT_PASSWORD'' then ''hb'' else [])
       (getEnvFor ref_env ref_sql_syncer containerCloneAndInitName)"


end
