(* ===== verification/SidecarMain.thy ===== *)
theory SidecarMain
  imports SidecarConf SidecarProps
begin

text \<open>
  The processes of the sidecar: the server that \<^verbatim>\<open>newServer\<close> sets up with its limit of one backup at a time
  (\<^verbatim>\<open>pkg/sidecar/server.go\<close>), \<^verbatim>\<open>RunSidecarCommand\<close> (\<^verbatim>\<open>pkg/sidecar/apphelper.go\<close>), and the commands of
  \<^verbatim>\<open>cmd/mysql-operator-sidecar/main.go\<close>, which are put together with the backup job that starts one of them.
\<close>

section \<open>The server\<close>

text \<open>A handler that answers at once, or one behind a semaphore of a capacity.\<close>

datatype route =
    HandlerFunc "http_request \<Rightarrow> response"
  | Limited "http_request \<Rightarrow> response" nat

definition maxClients :: "(http_request \<Rightarrow> response) \<Rightarrow> nat \<Rightarrow> route" where
  "maxClients h n = Limited h n"

text \<open>\<open>sr_Other\<close> is what the multiplexer of the library answers on a path without a handler.\<close>

record server =
  sr_Addr :: string
  sr_Mux :: "(string \<times> route) list"
  sr_Other :: "http_request \<Rightarrow> response"

definition newServer ::
    "(http_request \<Rightarrow> response) \<Rightarrow> config \<Rightarrow> bool \<Rightarrow> (string list \<Rightarrow> process) \<Rightarrow> (string \<Rightarrow> string \<times> string option) \<Rightarrow> server" where
  "newServer other cfg flushes exec copied =
     \<lparr>sr_Addr = '':'' @ itoa SidecarServerPort,
      sr_Mux = [(SidecarServerProbePath, HandlerFunc healthHandler),
                (serverBackupEndpoint, maxClients (backupHandler cfg flushes exec copied) 1)],
      sr_Other = other\<rparr>"

text \<open>
  A client, with the path it asked for: before \<^verbatim>\<open>sema <- struct{}{}\<close>, in the handler, before the deferred
  \<^verbatim>\<open><-sema\<close>, and answered. The state has the number of values in the channel of each path.
\<close>

datatype client =
    Blocked string http_request
  | Serving string http_request
  | Releasing string response
  | Answered response

record server_state =
  sv_Sema :: "string \<Rightarrow> nat"
  sv_Clients :: "client list"

definition idle_server :: server_state where
  "idle_server = \<lparr>sv_Sema = (\<lambda>p. 0), sv_Clients = []\<rparr>"

definition set_client :: "nat \<Rightarrow> client \<Rightarrow> server_state \<Rightarrow> server_state" where
  "set_client i cl s = s\<lparr>sv_Clients := (sv_Clients s)[i := cl]\<rparr>"

text \<open>The steps of the requests that are there.\<close>

inductive request_step :: "server \<Rightarrow> server_state \<Rightarrow> server_state \<Rightarrow> bool" for srv where
  enter: "i < length (sv_Clients s) \<Longrightarrow> sv_Clients s ! i = Blocked p r \<Longrightarrow>
    map_of (sr_Mux srv) p = Some (Limited h n) \<Longrightarrow> sv_Sema s p < n \<Longrightarrow>
    request_step srv s ((set_client i (Serving p r) s)\<lparr>sv_Sema := (sv_Sema s)(p := Suc (sv_Sema s p))\<rparr>)"
| serve: "i < length (sv_Clients s) \<Longrightarrow> sv_Clients s ! i = Serving p r \<Longrightarrow>
    map_of (sr_Mux srv) p = Some (Limited h n) \<Longrightarrow>
    request_step srv s (set_client i (Releasing p (h r)) s)"
| release: "i < length (sv_Clients s) \<Longrightarrow> sv_Clients s ! i = Releasing p resp \<Longrightarrow> 0 < sv_Sema s p \<Longrightarrow>
    request_step srv s ((set_client i (Answered resp) s)\<lparr>sv_Sema := (sv_Sema s)(p := sv_Sema s p - 1)\<rparr>)"

text \<open>A request arrives for a path.\<close>

definition arrival :: "server \<Rightarrow> string \<Rightarrow> http_request \<Rightarrow> client" where
  "arrival srv p r =
     (case map_of (sr_Mux srv) p of
        None \<Rightarrow> Answered (sr_Other srv r)
      | Some (HandlerFunc h) \<Rightarrow> Answered (h r)
      | Some (Limited h n) \<Rightarrow> Blocked p r)"

inductive server_reaches :: "server \<Rightarrow> server_state \<Rightarrow> bool" for srv where
  start: "server_reaches srv idle_server"
| arrive: "server_reaches srv s \<Longrightarrow> server_reaches srv (s\<lparr>sv_Clients := sv_Clients s @ [arrival srv p r]\<rparr>)"
| proceed: "server_reaches srv s \<Longrightarrow> request_step srv s s' \<Longrightarrow> server_reaches srv s'"

inductive_cases request_stepE: "request_step srv s s'"

section \<open>The limit holds and nobody waits for ever\<close>

fun inside :: "string \<Rightarrow> client \<Rightarrow> nat" where
  "inside p (Serving q r) = (if q = p then 1 else 0)"
| "inside p (Releasing q resp) = (if q = p then 1 else 0)"
| "inside p cl = 0"

fun waits_on :: "client \<Rightarrow> string option" where
  "waits_on (Blocked p r) = Some p"
| "waits_on (Serving p r) = Some p"
| "waits_on (Releasing p resp) = Some p"
| "waits_on (Answered resp) = None"

fun work :: "client \<Rightarrow> nat" where
  "work (Blocked p r) = 3"
| "work (Serving p r) = 2"
| "work (Releasing p resp) = 1"
| "work (Answered resp) = 0"

definition total :: "(client \<Rightarrow> nat) \<Rightarrow> server_state \<Rightarrow> nat" where
  "total f s = sum_list (map f (sv_Clients s))"

definition server_ok :: "server \<Rightarrow> server_state \<Rightarrow> bool" where
  "server_ok srv s \<longleftrightarrow>
     (\<forall>p. sv_Sema s p = total (inside p) s) \<and>
     (\<forall>p h n. map_of (sr_Mux srv) p = Some (Limited h n) \<longrightarrow> sv_Sema s p \<le> n) \<and>
     (\<forall>cl \<in> set (sv_Clients s). \<forall>p. waits_on cl = Some p \<longrightarrow> (\<exists>h n. map_of (sr_Mux srv) p = Some (Limited h n)))"

lemma set_client_sel [simp]:
  "sv_Sema (set_client i cl s) = sv_Sema s" "sv_Clients (set_client i cl s) = (sv_Clients s)[i := cl]"
  by (simp_all add: set_client_def)

lemma total_sema [simp]: "total f (s\<lparr>sv_Sema := x\<rparr>) = total f s"
  by (simp add: total_def)

lemma sum_list_ge: "i < length xs \<Longrightarrow> f (xs ! i) \<le> sum_list (map f xs)" for f :: "'a \<Rightarrow> nat"
  by (simp add: member_le_sum_list)

lemma total_set_client:
  "i < length (sv_Clients s) \<Longrightarrow> total f (set_client i cl s) + f (sv_Clients s ! i) = total f s + f cl"
  using sum_list_ge [of i "sv_Clients s" f] by (simp add: total_def map_update sum_list_update)

lemma total_sum: "total f (set_client i cl s) = total f s + f cl - f (sv_Clients s ! i)" if "i < length (sv_Clients s)"
  using total_set_client [OF that, of f cl] by simp

lemma server_okI:
  assumes "\<And>p. sv_Sema s p = total (inside p) s"
    and "\<And>p h n. map_of (sr_Mux srv) p = Some (Limited h n) \<Longrightarrow> sv_Sema s p \<le> n"
    and "\<And>cl p. cl \<in> set (sv_Clients s) \<Longrightarrow> waits_on cl = Some p \<Longrightarrow> \<exists>h n. map_of (sr_Mux srv) p = Some (Limited h n)"
  shows "server_ok srv s"
  using assms by (simp add: server_ok_def)

lemma server_okD:
  assumes "server_ok srv s"
  shows server_ok_sema: "sv_Sema s p = total (inside p) s"
    and server_ok_limit: "map_of (sr_Mux srv) p = Some (Limited h n) \<Longrightarrow> sv_Sema s p \<le> n"
    and server_ok_waits: "cl \<in> set (sv_Clients s) \<Longrightarrow> waits_on cl = Some p \<Longrightarrow> \<exists>h n. map_of (sr_Mux srv) p = Some (Limited h n)"
  using assms by (auto simp: server_ok_def)

lemma server_ok_update:
  assumes "server_ok srv s" and i: "i < length (sv_Clients s)"
    and "waits_on cl = None \<or> waits_on cl = waits_on (sv_Clients s ! i)"
    and sema: "\<And>q. f q + inside q (sv_Clients s ! i) = sv_Sema s q + inside q cl"
    and "\<And>p h n. map_of (sr_Mux srv) p = Some (Limited h n) \<Longrightarrow> f p \<le> n"
  shows "server_ok srv ((set_client i cl s)\<lparr>sv_Sema := f\<rparr>)"
proof (rule server_okI)
  fix q
  show "sv_Sema ((set_client i cl s)\<lparr>sv_Sema := f\<rparr>) q = total (inside q) ((set_client i cl s)\<lparr>sv_Sema := f\<rparr>)"
    using total_set_client [OF i, of "inside q" cl] sema [of q] server_ok_sema [OF assms(1), of q] by simp
next
  fix cl' p
  assume "cl' \<in> set (sv_Clients ((set_client i cl s)\<lparr>sv_Sema := f\<rparr>))" and w: "waits_on cl' = Some p"
  then consider "cl' = cl" | "cl' \<in> set (sv_Clients s)" using set_update_subset_insert [of "sv_Clients s" i cl] by auto
  then show "\<exists>h n. map_of (sr_Mux srv) p = Some (Limited h n)"
  proof cases
    case 1
    with assms(3) w have "waits_on (sv_Clients s ! i) = Some p" by auto
    from server_ok_waits [OF assms(1) nth_mem [OF i] this] show ?thesis .
  next
    case 2
    from server_ok_waits [OF assms(1) this w] show ?thesis .
  qed
qed (simp add: assms(5))

lemma server_ok_step:
  assumes "request_step srv s s'" and "server_ok srv s"
  shows "server_ok srv s'"
  using assms(1)
proof cases
  case (enter i p r h n)
  then show ?thesis
    by (auto intro!: server_ok_update [OF assms(2)] dest: server_ok_limit [OF assms(2)])
next
  case (serve i p r h n)
  have "server_ok srv ((set_client i (Releasing p (h r)) s)\<lparr>sv_Sema := sv_Sema s\<rparr>)"
    using serve by (auto intro!: server_ok_update [OF assms(2)] dest: server_ok_limit [OF assms(2)])
  then show ?thesis using serve(1) by (simp add: set_client_def)
next
  case (release i p resp)
  then show ?thesis
    by (auto intro!: server_ok_update [OF assms(2)] dest!: server_ok_limit [OF assms(2)])
qed

lemma arrival_idle: "inside p (arrival srv q r) = 0" "waits_on (arrival srv q r) = Some p \<Longrightarrow> \<exists>h n. map_of (sr_Mux srv) p = Some (Limited h n)"
  by (auto simp: arrival_def split: option.splits route.splits)

lemma server_ok_reaches: "server_reaches srv s \<Longrightarrow> server_ok srv s"
proof (induction rule: server_reaches.induct)
  case start
  then show ?case by (simp add: server_ok_def idle_server_def total_def)
next
  case (arrive s p r)
  then show ?case 
    using arrival_idle(1) [of _ srv p r] arrival_idle(2) [of srv p r]
    by (auto intro!: server_okI dest: server_ok_limit server_ok_waits simp: server_ok_sema [OF arrive.IH] total_def)
next
  case (proceed s s')
  then show ?case using server_ok_step by blast
qed

lemma step_work:
  assumes "request_step srv s s'"
  shows "total work s = Suc (total work s')"
  using assms
proof cases
  case (enter i p r h n)
  then show ?thesis using total_set_client [of i s work "Serving p r"] by simp
next
  case (serve i p r h n)
  then show ?thesis using total_set_client [of i s work "Releasing p (h r)"] by simp
next
  case (release i p resp)
  then show ?thesis using total_set_client [of i s work "Answered resp"] by simp
qed

lemma steps_work: "(request_step srv ^^ n) s s' \<Longrightarrow> total work s = n + total work s'"
  by (induction n arbitrary: s') (auto dest: step_work)

lemma step_possible:
  assumes "server_ok srv s" and "\<forall>p h n. map_of (sr_Mux srv) p = Some (Limited h n) \<longrightarrow> 0 < n" and "total work s \<noteq> 0"
  shows "\<exists>s'. request_step srv s s'"
proof (cases "\<exists>i p. i < length (sv_Clients s) \<and> inside p (sv_Clients s ! i) \<noteq> 0")
  case True
  then obtain i p where i: "i < length (sv_Clients s)" and "inside p (sv_Clients s ! i) \<noteq> 0" by blast
  then consider r where "sv_Clients s ! i = Serving p r" | resp where "sv_Clients s ! i = Releasing p resp"
    by (cases "sv_Clients s ! i") (auto split: if_splits)
  then show ?thesis
  proof cases
    case 1
    with server_ok_waits [OF assms(1) nth_mem [OF i]] obtain h n where "map_of (sr_Mux srv) p = Some (Limited h n)" by auto
    from request_step.serve [OF i 1 this] show ?thesis by blast
  next
    case 2
    have "0 < sv_Sema s p" using server_ok_sema [OF assms(1), of p] sum_list_ge [OF i, of "inside p"] 2 by (simp add: total_def)
    from request_step.release [OF i 2 this] show ?thesis by blast
  qed
next
  case False
  then have free: "sv_Sema s p = 0" for p using server_ok_sema [OF assms(1), of p] by (auto simp: total_def in_set_conv_nth)
  from assms(3) obtain i where i: "i < length (sv_Clients s)" "work (sv_Clients s ! i) \<noteq> 0"
    by (auto simp: total_def in_set_conv_nth)
  with False obtain p r where b: "sv_Clients s ! i = Blocked p r"
    by (cases "sv_Clients s ! i") (auto, metis inside.simps(1) zero_neq_one, metis inside.simps(2) zero_neq_one)
  with server_ok_waits [OF assms(1) nth_mem [OF i(1)]] obtain h n where m: "map_of (sr_Mux srv) p = Some (Limited h n)" by auto
  with assms(2) free [of p] have "sv_Sema s p < n" by simp
  from request_step.enter [OF i(1) b m this] show ?thesis by blast
qed

lemma newServer_limits:
  "map_of (sr_Mux (newServer other cfg flushes exec copied)) p = Some (Limited h n) \<Longrightarrow>
    p = serverBackupEndpoint \<and> n = 1"
  by (auto simp: newServer_def maxClients_def split: if_splits)

text \<open>
  Property C27. At every moment at most one request of a backup is in its handler, however many clients ask, and a probe is never
  kept waiting for it.
\<close>

theorem one_backup_at_a_time:
  assumes "server_reaches (newServer other cfg flushes exec copied) s"
  shows "length (filter (\<lambda>cl. \<exists>r. cl = Serving serverBackupEndpoint r) (sv_Clients s)) \<le> 1 \<and>
    (\<forall>cl \<in> set (sv_Clients s). waits_on cl \<noteq> Some SidecarServerProbePath)"
proof -
  let ?srv = "newServer other cfg flushes exec copied"
  have ok: "server_ok ?srv s" by (rule server_ok_reaches [OF assms])
  have "length (filter (\<lambda>cl. \<exists>r. cl = Serving serverBackupEndpoint r) cls) \<le> sum_list (map (inside serverBackupEndpoint) cls)" for cls
    by (induction cls) auto
  moreover have "sv_Sema s serverBackupEndpoint \<le> 1"
    using ok by (auto simp: server_ok_def newServer_def maxClients_def SidecarServerProbePath_def serverBackupEndpoint_def)
  ultimately show ?thesis
    using ok newServer_limits [of other cfg flushes exec copied SidecarServerProbePath]
    by (fastforce simp: server_ok_def total_def SidecarServerProbePath_def serverBackupEndpoint_def intro: order_trans)
qed

text \<open>
  Property C28. Every request is answered: whatever the order of their steps, the requests that are there
  come to an end after a number of steps that is known from the start, and they are never stuck before.
\<close>

theorem backups_answered:
  assumes "server_reaches (newServer other cfg flushes exec copied) s"
    and "(request_step (newServer other cfg flushes exec copied) ^^ n) s s'"
  shows "n \<le> total work s \<and>
    (if n = total work s then \<forall>cl \<in> set (sv_Clients s'). \<exists>resp. cl = Answered resp
     else \<exists>s2. request_step (newServer other cfg flushes exec copied) s' s2)"
proof -
  let ?srv = "newServer other cfg flushes exec copied"
  have "server_reaches ?srv s'"
    using assms by (induction n arbitrary: s') (auto intro: server_reaches.proceed)
  then have "server_ok ?srv s'" by (rule server_ok_reaches)
  from step_possible [OF this] newServer_limits have "total work s' \<noteq> 0 \<Longrightarrow> \<exists>s2. request_step ?srv s' s2" by fastforce
  moreover have "total work s' = 0 \<Longrightarrow> cl \<in> set (sv_Clients s') \<Longrightarrow> \<exists>resp. cl = Answered resp" for cl
    by (cases cl) (auto simp: total_def)
  ultimately show ?thesis using steps_work [OF assms(2)] by auto
qed

section \<open>The commands\<close>

text \<open>
  What the commands use beside their arguments: the profiles, the processes, files and remotes, the libraries, the error
  of the flags that are parsed first, the error with which \<^verbatim>\<open>ListenAndServe\<close> ends, and the exit code of \<^verbatim>\<open>cobra\<close> for
  the arguments that are none of the commands.
\<close>

record 'f sidecar_host =
  sh_Env :: env
  sh_Sys :: sys
  sh_Remote :: remote
  sh_CompressFirst :: bool
  sh_IO :: file_io
  sh_Ini :: "'f ini_lib"
  sh_Random :: "(string, string) result"
  sh_OpenError :: "string option"
  sh_FlagError :: "string option"
  sh_ListenAndServe :: "server \<Rightarrow> string"
  sh_Server :: "config \<Rightarrow> server"
  sh_Cobra :: "string list \<Rightarrow> int"

record sidecar_state =
  ss_Node :: node_run
  ss_Files :: files
  ss_Bucket :: bucket

datatype sidecar_exit = ExitCode int | SidecarPanic string

definition RunSidecarCommand :: "'f sidecar_host \<Rightarrow> config \<Rightarrow> string option" where
  "RunSidecarCommand h cfg = Some (sh_ListenAndServe h (sh_Server h cfg))"

text \<open>The configuration is read before the command is known. The arguments are those after the flags.\<close>

definition sidecar_main ::
    "'f sidecar_host \<Rightarrow> (string \<Rightarrow> string) \<Rightarrow> string list \<Rightarrow> sidecar_state \<Rightarrow> sidecar_state \<times> sidecar_exit" where
  "sidecar_main h getenv args s =
     (case sh_FlagError h of
        Some err \<Rightarrow> (s, ExitCode 1)
      | None \<Rightarrow>
          (case NewConfig (e_blang (sh_Env h)) getenv (sh_Random h) (sh_OpenError h) (nd_Dir (ss_Node s)) of
             Inl msg \<Rightarrow> (s, SidecarPanic msg)
           | Inr cfg \<Rightarrow>
               (case args of
                  [] \<Rightarrow> (s, ExitCode 1)
                | cmd # rest \<Rightarrow>
                    if cmd = ''clone-and-init'' then
                      (case clone_and_init (sh_Env h) (sh_Sys h) (sh_IO h) (sh_Ini h) (sh_OpenError h) cfg (ss_Node s) (ss_Files s) of
                         (node, files, code) \<Rightarrow>
                           (s\<lparr>ss_Node := node, ss_Files := files\<rparr>, ExitCode (case code of None \<Rightarrow> 0 | Some n \<Rightarrow> n)))
                    else if cmd = ''run'' then
                      (s, ExitCode (case RunSidecarCommand h cfg of None \<Rightarrow> 0 | Some err \<Rightarrow> 1))
                    else if cmd = ''take-backup-to'' then
                      (case rest of
                         [src, dest] \<Rightarrow>
                           (case RunTakeBackupCommand (sh_Sys h) (sh_Remote h) cfg (sh_CompressFirst h) src dest (ss_Node s) (ss_Bucket s) of
                              (node, store, err) \<Rightarrow>
                                (s\<lparr>ss_Node := node, ss_Bucket := store\<rparr>, ExitCode (case err of None \<Rightarrow> 0 | Some e \<Rightarrow> 1)))
                       | _ \<Rightarrow> (s, ExitCode 1))
                    else (s, ExitCode (sh_Cobra h args)))))"

section \<open>The job of a backup and its process\<close>

fun job_env_name :: "job_env \<Rightarrow> string" where
  "job_env_name (EnvSecret n s key opt) = n"
| "job_env_name (EnvValue n v) = n"

text \<open>
  The environment of a container of a job: its list (the last entry of a name; a missing optional key sets
  nothing), then its sources, then \<open>base\<close>. The parameters are those of \<open>container_getenv\<close>, a secret without a key is None.
\<close>

fun job_env_set :: "(string \<Rightarrow> string \<Rightarrow> string option) \<Rightarrow> (string \<Rightarrow> string) \<Rightarrow> job_env \<Rightarrow> string option" where
  "job_env_set secret expand (EnvSecret n s key opt) = secret s key"
| "job_env_set secret expand (EnvValue n v) = Some (expand v)"

definition job_getenv ::
    "(string \<Rightarrow> string \<Rightarrow> string option) \<Rightarrow> (string \<Rightarrow> string) \<Rightarrow> (string \<Rightarrow> string) \<Rightarrow> job_container \<Rightarrow> string \<Rightarrow> string" where
  "job_getenv secret expand base jc k =
     (case find (\<lambda>v. job_env_name v = k \<and> job_env_set secret expand v \<noteq> None) (rev (jc_Env jc)) of
        Some v \<Rightarrow> the (job_env_set secret expand v)
      | None \<Rightarrow>
          (case find (\<lambda>s. secret s k \<noteq> None) (rev (jc_EnvFrom jc)) of
             Some s \<Rightarrow> the (secret s k)
           | None \<Rightarrow> base k))"

lemma backup_container:
  assumes "jobSyncFn e opt now c job b = (b', SyncDone job')" and "\<not> jb_Created job" and "jp_Containers (jb_Pod job) = []"
  shows "jc_Args (hd (jp_Containers (jb_Pod job'))) = [''take-backup-to'', getBackupCandidate c, GetBackupURL b c]"
    and "jc_Env (hd (jp_Containers (jb_Pod job'))) = backup_env c"
    and "set (jc_EnvFrom (hd (jp_Containers (jb_Pod job')))) \<subseteq> {bs_BackupSecretName (mb_Spec b)}"
  using assms by (auto simp: jobSyncFn_def backup_ensurePodSpec_def empty_container_def Let_def split: if_splits)

lemma backup_env_names: "v \<in> set (backup_env c) \<Longrightarrow>
    job_env_name v \<in> {''BACKUP_USER'', ''BACKUP_PASSWORD'', ''BACKUP_COMPRESS_COMMAND'', ''RCLONE_EXTRA_ARGS''}"
  by (auto simp: backup_env_def Let_def split: if_splits)

lemma job_getenv_base:
  assumes "\<And>v. v \<in> set (jc_Env jc) \<Longrightarrow> job_env_name v \<noteq> k" and "\<And>s. s \<in> set (jc_EnvFrom jc) \<Longrightarrow> secret s k = None"
  shows "job_getenv secret expand base jc k = base k"
proof -
  have "find (\<lambda>v. job_env_name v = k \<and> job_env_set secret expand v \<noteq> None) (rev (jc_Env jc)) = None"
    "find (\<lambda>s. secret s k \<noteq> None) (rev (jc_EnvFrom jc)) = None"
    using assms by (auto simp: find_None_iff)
  then show ?thesis by (simp add: job_getenv_def)
qed

text \<open>
  Property C16. The container of a backup job panics before it does anything, when neither the secret of the backup nor the image
  sets \<^verbatim>\<open>HEARTBEAT_PASSWORD\<close>: the job leaves it out of the environment, and the configuration, which every command
  reads first, insists on it in a cluster.
\<close>

theorem backup_job_panics:
  assumes "jobSyncFn e opt now c job b = (b', SyncDone job')" and "\<not> jb_Created job" and "jp_Containers (jb_Pod job) = []"
    and "sh_FlagError h = None"
    and "base ''KUBERNETES_SERVICE_HOST'' \<noteq> []" and "trim_space (base ''HEARTBEAT_PASSWORD'') = []"
    and "secret (bs_BackupSecretName (mb_Spec b)) ''KUBERNETES_SERVICE_HOST'' = None"
    and "secret (bs_BackupSecretName (mb_Spec b)) ''HEARTBEAT_PASSWORD'' = None"
    and "jc = hd (jp_Containers (jb_Pod job'))"
  shows "sidecar_main h (job_getenv secret expand base jc) (jc_Args jc) s = (s, SidecarPanic ''HEARTBEAT_PASSWORD is unset in-cluster'')"
proof -
  note jc = backup_container [OF assms(1-3), folded assms(9)]
  have "job_getenv secret expand base jc k = base k"
    if "k \<in> {''KUBERNETES_SERVICE_HOST'', ''HEARTBEAT_PASSWORD''}" for k
    using that jc assms(7,8) backup_env_names by (intro job_getenv_base) fastforce+
  then show ?thesis
    using assms(4-6) by (simp add: sidecar_main_def NewConfig_def heartbeat_credentials_def Let_def)
qed


section \<open>Witnesses\<close>

definition ref_server :: server where
  "ref_server = newServer healthHandler (ref_config ''db-mysql-0'' Map.empty) True ref_xtrabackup (\<lambda>output. (output, None))"

definition ref_ask :: http_request where
  "ref_ask = \<lparr>rq_URL = prepareURL ''db-mysql-0'' serverBackupEndpoint, rq_BasicAuth = Some (''sys_backups'', ''pw'')\<rparr>"

text \<open>Two clients ask for a backup, and one of them is served.\<close>

definition ref_busy :: server_state where
  "ref_busy = \<lparr>sv_Sema = (\<lambda>p. 0)(serverBackupEndpoint := 1),
     sv_Clients = [Serving serverBackupEndpoint ref_ask, Blocked serverBackupEndpoint ref_ask]\<rparr>"

lemma ref_mux: "map_of (sr_Mux ref_server) serverBackupEndpoint =
    Some (Limited (backupHandler (ref_config ''db-mysql-0'' Map.empty) True ref_xtrabackup (\<lambda>output. (output, None))) 1)"
  by (simp add: ref_server_def newServer_def maxClients_def serverBackupEndpoint_def SidecarServerProbePath_def)

lemma ref_busy_reached: "server_reaches ref_server ref_busy"
proof -
  let ?two = "\<lparr>sv_Sema = (\<lambda>p. 0), sv_Clients = [Blocked serverBackupEndpoint ref_ask, Blocked serverBackupEndpoint ref_ask]\<rparr>"
  have arr: "arrival ref_server serverBackupEndpoint ref_ask = Blocked serverBackupEndpoint ref_ask" by (simp add: arrival_def ref_mux)
  have "server_reaches ref_server ?two"
    using server_reaches.arrive [OF server_reaches.arrive [OF server_reaches.start, of ref_server serverBackupEndpoint ref_ask],
        of serverBackupEndpoint ref_ask] by (simp add: arr idle_server_def)
  moreover have "request_step ref_server ?two ref_busy"
    using request_step.enter [of 0 ?two serverBackupEndpoint ref_ask ref_server, OF _ _ ref_mux] by (simp add: ref_busy_def set_client_def)
  ultimately show ?thesis by (rule server_reaches.proceed)
qed

theorem one_backup_at_a_time_witness:
  "length (filter (\<lambda>cl. \<exists>r. cl = Serving serverBackupEndpoint r) (sv_Clients ref_busy)) \<le> 1 \<and> length (sv_Clients ref_busy) = 2"
  using one_backup_at_a_time [OF ref_busy_reached [unfolded ref_server_def]] by (simp add: ref_busy_def)

theorem backups_answered_witness:
  "total work ref_busy = 5 \<and> (\<exists>s2. request_step ref_server ref_busy s2)"
  using backups_answered [OF ref_busy_reached [unfolded ref_server_def], of 0] by (simp add: ref_busy_def total_def ref_server_def)

definition ref_asked :: mysql_backup where
  "ref_asked = ref_backup\<lparr>mb_Completed := False, mb_Conditions := [], mb_DeletionTimestamp := None, mb_Finalizers := []\<rparr>"

definition ref_host_of :: "(http_request \<Rightarrow> (string, response) result) \<Rightarrow> (string \<times> string \<rightharpoonup> string) sidecar_host" where
  "ref_host_of answer =
     \<lparr>sh_Env = ref_env, sh_Sys = ref_sys answer, sh_Remote = ref_remote, sh_CompressFirst = True, sh_IO = ref_io, sh_Ini = ref_ini,
      sh_Random = Inr ''r'', sh_OpenError = None, sh_FlagError = None, sh_ListenAndServe = (\<lambda>srv. ''http: Server closed''),
      sh_Server = (\<lambda>cfg. newServer healthHandler cfg True ref_xtrabackup (\<lambda>output. (output, None))), sh_Cobra = (\<lambda>args. 1)\<rparr>"

definition ref_side :: sidecar_state where
  "ref_side = \<lparr>ss_Node = ref_disk, ss_Files = Map.empty, ss_Bucket = Map.empty\<rparr>"

definition ref_secrets :: "string \<Rightarrow> string \<Rightarrow> string option" where
  "ref_secrets name = [''BACKUP_USER'' \<mapsto> ''sys_backups'', ''BACKUP_PASSWORD'' \<mapsto> ''pw'']"

definition ref_base :: "string \<Rightarrow> string" where
  "ref_base k = (if k = ''KUBERNETES_SERVICE_HOST'' then ''10.0.0.1'' else [])"

definition ref_fixed_base :: "string \<Rightarrow> string" where
  "ref_fixed_base k = (if k = ''KUBERNETES_SERVICE_HOST'' then ''10.0.0.1'' else if k = ''HEARTBEAT_PASSWORD'' then ''hb'' else [])"

lemma ref_url: "GetBackupURL ref_asked ref_cluster = ''s3://x/b.xbackup.gz''"
  by (simp add: GetBackupURL_def ref_asked_def ref_backup_def has_suffix_def BackupSuffix_def suffix_def)

lemma ref_job_synced: obtains job where
  "jobSyncFn ref_env ref_options 7 ref_cluster new_job ref_asked = (ref_asked, SyncDone job)"
proof -
  have "\<not> mb_Completed ref_asked" "\<not> jb_Created new_job" by (simp_all add: ref_asked_def new_job_def)
  then show thesis using that by (simp add: jobSyncFn_def ref_url)
qed

lemma ref_new_job [simp]: "\<not> jb_Created new_job" "jp_Containers (jb_Pod new_job) = []"
  by (simp_all add: new_job_def empty_pod_def)

lemma ref_host_sel [simp]:
  "sh_Env (ref_host_of a) = ref_env" "sh_Sys (ref_host_of a) = ref_sys a" "sh_Remote (ref_host_of a) = ref_remote"
  "sh_Random (ref_host_of a) = Inr ''r''" "sh_OpenError (ref_host_of a) = None" "sh_FlagError (ref_host_of a) = None"
  "sh_CompressFirst (ref_host_of a)"
  by (simp_all add: ref_host_of_def)

theorem backup_job_panics_witness:
  "\<exists>job. jobSyncFn ref_env ref_options 7 ref_cluster new_job ref_asked = (ref_asked, SyncDone job) \<and>
     (let jc = hd (jp_Containers (jb_Pod job)) in
      sidecar_main (ref_host_of ref_up) (job_getenv ref_secrets id ref_base jc) (jc_Args jc) ref_side =
        (ref_side, SidecarPanic ''HEARTBEAT_PASSWORD is unset in-cluster''))"
proof -
  obtain job where job: "jobSyncFn ref_env ref_options 7 ref_cluster new_job ref_asked = (ref_asked, SyncDone job)" by (rule ref_job_synced)
  from backup_job_panics [OF job, of "ref_host_of ref_up" ref_base ref_secrets, OF _ _ _ _ _ _ _ refl] job show ?thesis
    by (simp add: ref_base_def ref_secrets_def Let_def)
qed

text \<open>The server of the node that the job chooses.\<close>

definition ref_node_server :: "http_request \<Rightarrow> (string, response) result" where
  "ref_node_server r =
     (if rq_URL r = prepareURL (getBackupCandidate ref_cluster) serverBackupEndpoint
      then Inr (backupHandler (ref_config ''db-mysql-0'' Map.empty) True ref_xtrabackup (\<lambda>output. (output, None)) r)
      else Inr (healthHandler r))"


end
