(* ===== verification/Json.thy ===== *)
theory Json
  imports Prelude
begin

text \<open>
  What the operator uses of \<^verbatim>\<open>encoding/json\<close>: the syntax of a JSON text, and the decoding of a value
  into a Go variable (numbers, strings, booleans, structs, pointers and slices). Strings are byte
  strings; an escape of the form \<^verbatim>\<open>\uXXXX\<close> becomes the UTF-8 bytes of its code point. The texts of
  the error values are no part of the theory: a decoder only says whether there is an error. Not
  modelled: the replacement of invalid UTF-8, the limit of 10000 nested values.
\<close>

section \<open>Values\<close>

datatype json =
    JNull
  | JBool bool
  | JNum string
  | JStr string
  | JArr "json list"
  | JObj "(string \<times> json) list"

section \<open>Syntax\<close>

definition is_ws :: "char \<Rightarrow> bool" where
  "is_ws c = (c \<in> set [CHR 0x20, CHR 0x09, CHR 0x0D, CHR 0x0A])"

definition skip_ws :: "string \<Rightarrow> string" where
  "skip_ws s = dropWhile is_ws s"

text \<open>The digits at the front, at least one.\<close>

definition take_digits :: "string \<Rightarrow> (string \<times> string) option" where
  "take_digits s =
     (if takeWhile is_digit s = [] then None else Some (takeWhile is_digit s, dropWhile is_digit s))"

definition scan_int :: "string \<Rightarrow> (string \<times> string) option" where
  "scan_int s =
     (case s of
        [] \<Rightarrow> None
      | c # cs \<Rightarrow> if c = CHR ''0'' then Some ([c], cs) else take_digits s)"

definition scan_frac :: "string \<Rightarrow> (string \<times> string) option" where
  "scan_frac s =
     (case s of
        [] \<Rightarrow> Some ([], s)
      | c # cs \<Rightarrow>
          if c = CHR ''.'' then map_option (\<lambda>(ds, r). (c # ds, r)) (take_digits cs) else Some ([], s))"

definition scan_exp :: "string \<Rightarrow> (string \<times> string) option" where
  "scan_exp s =
     (case s of
        [] \<Rightarrow> Some ([], s)
      | c # cs \<Rightarrow>
          if c = CHR ''e'' \<or> c = CHR ''E''
          then (case cs of
                  [] \<Rightarrow> None
                | d # ds \<Rightarrow>
                    if d = CHR ''+'' \<or> d = CHR ''-''
                    then map_option (\<lambda>(ds, r). (c # d # ds, r)) (take_digits ds)
                    else map_option (\<lambda>(ds, r). (c # ds, r)) (take_digits cs))
          else Some ([], s))"

definition scan_number :: "string \<Rightarrow> (string \<times> string) option" where
  "scan_number s =
     (let (sign, s1) = (case s of [] \<Rightarrow> ([], s) | c # cs \<Rightarrow> if c = CHR ''-'' then ([c], cs) else ([], s)) in
      case scan_int s1 of
        None \<Rightarrow> None
      | Some (i, s2) \<Rightarrow>
          (case scan_frac s2 of
             None \<Rightarrow> None
           | Some (f, s3) \<Rightarrow> map_option (\<lambda>(e, s4). (sign @ i @ f @ e, s4)) (scan_exp s3)))"

definition hex_val :: "char \<Rightarrow> nat option" where
  "hex_val c =
     (let n = of_char c :: nat in
      if 48 \<le> n \<and> n \<le> 57 then Some (n - 48)
      else if 97 \<le> n \<and> n \<le> 102 then Some (n - 87)
      else if 65 \<le> n \<and> n \<le> 70 then Some (n - 55)
      else None)"

text \<open>The four digits after \<^verbatim>\<open>\u\<close>.\<close>

fun scan_hex4 :: "string \<Rightarrow> (nat \<times> string) option" where
  "scan_hex4 (a # b # c # d # s) =
     (case (hex_val a, hex_val b, hex_val c, hex_val d) of
        (Some a, Some b, Some c, Some d) \<Rightarrow> Some (((a * 16 + b) * 16 + c) * 16 + d, s)
      | _ \<Rightarrow> None)"
| "scan_hex4 _ = None"

definition utf8 :: "nat \<Rightarrow> string" where
  "utf8 n =
     (if n < 0x80 then [char_of n]
      else if n < 0x800 then [char_of (0xC0 + n div 64), char_of (0x80 + n mod 64)]
      else if n < 0x10000
      then [char_of (0xE0 + n div 4096), char_of (0x80 + n div 64 mod 64), char_of (0x80 + n mod 64)]
      else [char_of (0xF0 + n div 262144), char_of (0x80 + n div 4096 mod 64),
            char_of (0x80 + n div 64 mod 64), char_of (0x80 + n mod 64)])"

definition is_surrogate :: "nat \<Rightarrow> bool" where
  "is_surrogate n = (0xD800 \<le> n \<and> n < 0xE000)"

definition surrogate_pair :: "nat \<Rightarrow> nat \<Rightarrow> nat option" where
  "surrogate_pair hi lo =
     (if 0xD800 \<le> hi \<and> hi < 0xDC00 \<and> 0xDC00 \<le> lo \<and> lo < 0xE000
      then Some (0x10000 + (hi - 0xD800) * 1024 + (lo - 0xDC00)) else None)"

text \<open>A low half after a high half makes one code point with it; a half on its own is U+FFFD.\<close>

definition unicode_escape :: "nat \<Rightarrow> string \<Rightarrow> string \<times> string" where
  "unicode_escape n s =
     (if is_surrogate n
      then (case s of
              b # u # r \<Rightarrow>
                (if b = CHR 0x5C \<and> u = CHR ''u''
                 then (case scan_hex4 r of
                         Some (lo, r') \<Rightarrow>
                           (case surrogate_pair n lo of
                              Some p \<Rightarrow> (utf8 p, r')
                            | None \<Rightarrow> (utf8 0xFFFD, s))
                       | None \<Rightarrow> (utf8 0xFFFD, s))
                 else (utf8 0xFFFD, s))
            | _ \<Rightarrow> (utf8 0xFFFD, s))
      else (utf8 n, s))"

definition simple_escape :: "char \<Rightarrow> char option" where
  "simple_escape c =
     map_of [(CHR 0x22, CHR 0x22), (CHR 0x5C, CHR 0x5C), (CHR 0x2F, CHR 0x2F), (CHR ''b'', CHR 0x08),
             (CHR ''f'', CHR 0x0C), (CHR ''n'', CHR 0x0A), (CHR ''r'', CHR 0x0D), (CHR ''t'', CHR 0x09)] c"

text \<open>The rest of a string after its opening quote. The fuel is the length of the text.\<close>

fun scan_string :: "nat \<Rightarrow> string \<Rightarrow> (string \<times> string) option" where
  "scan_string 0 s = None"
| "scan_string (Suc n) [] = None"
| "scan_string (Suc n) (c # cs) =
     (if c = CHR 0x22 then Some ([], cs)
      else if c = CHR 0x5C
      then (case cs of
              [] \<Rightarrow> None
            | e # es \<Rightarrow>
                if e = CHR ''u''
                then (case scan_hex4 es of
                        None \<Rightarrow> None
                      | Some (u, r) \<Rightarrow>
                          let (out, r') = unicode_escape u r
                          in map_option (\<lambda>(t, r''). (out @ t, r'')) (scan_string n r'))
                else (case simple_escape e of
                        None \<Rightarrow> None
                      | Some d \<Rightarrow> map_option (\<lambda>(t, r). (d # t, r)) (scan_string n es)))
      else if (of_char c :: nat) < 32 then None
      else map_option (\<lambda>(t, r). (c # t, r)) (scan_string n cs))"

definition strip_prefix :: "string \<Rightarrow> string \<Rightarrow> string option" where
  "strip_prefix p s = (if take (length p) s = p then Some (drop (length p) s) else None)"

text \<open>
  A value, the elements of an array, the members of an object. Two steps per character are enough:
  every element and every member takes one step more than the value in it, and consumes a character.
\<close>

fun parse_value :: "nat \<Rightarrow> string \<Rightarrow> (json \<times> string) option"
  and parse_elems :: "nat \<Rightarrow> string \<Rightarrow> (json list \<times> string) option"
  and parse_members :: "nat \<Rightarrow> string \<Rightarrow> ((string \<times> json) list \<times> string) option" where
  "parse_value 0 s = None"
| "parse_value (Suc n) s =
     (case skip_ws s of
        [] \<Rightarrow> None
      | c # cs \<Rightarrow>
          if c = CHR ''{''
          then (case strip_prefix ''}'' (skip_ws cs) of
                  Some r \<Rightarrow> Some (JObj [], r)
                | None \<Rightarrow> map_option (\<lambda>(ms, r). (JObj ms, r)) (parse_members n cs))
          else if c = CHR ''[''
          then (case strip_prefix '']'' (skip_ws cs) of
                  Some r \<Rightarrow> Some (JArr [], r)
                | None \<Rightarrow> map_option (\<lambda>(vs, r). (JArr vs, r)) (parse_elems n cs))
          else if c = CHR 0x22 then map_option (\<lambda>(t, r). (JStr t, r)) (scan_string (length cs) cs)
          else if c = CHR ''t'' then map_option (Pair (JBool True)) (strip_prefix ''rue'' cs)
          else if c = CHR ''f'' then map_option (Pair (JBool False)) (strip_prefix ''alse'' cs)
          else if c = CHR ''n'' then map_option (Pair JNull) (strip_prefix ''ull'' cs)
          else map_option (\<lambda>(t, r). (JNum t, r)) (scan_number (c # cs)))"
| "parse_elems 0 s = None"
| "parse_elems (Suc n) s =
     (case parse_value n s of
        None \<Rightarrow> None
      | Some (v, r) \<Rightarrow>
          (case skip_ws r of
             [] \<Rightarrow> None
           | c # cs \<Rightarrow>
               if c = CHR '','' then map_option (\<lambda>(vs, r). (v # vs, r)) (parse_elems n cs)
               else if c = CHR '']'' then Some ([v], cs)
               else None))"
| "parse_members 0 s = None"
| "parse_members (Suc n) s =
     (case strip_prefix [CHR 0x22] (skip_ws s) of
        None \<Rightarrow> None
      | Some k \<Rightarrow>
          (case scan_string (length k) k of
             None \<Rightarrow> None
           | Some (key, r) \<Rightarrow>
               (case strip_prefix '':'' (skip_ws r) of
                  None \<Rightarrow> None
                | Some r \<Rightarrow>
                    (case parse_value n r of
                       None \<Rightarrow> None
                     | Some (v, r) \<Rightarrow>
                         (case skip_ws r of
                            [] \<Rightarrow> None
                          | c # cs \<Rightarrow>
                              if c = CHR '','' then map_option (\<lambda>(ms, r). ((key, v) # ms, r)) (parse_members n cs)
                              else if c = CHR ''}'' then Some ([(key, v)], cs)
                              else None)))))"

definition parse_json :: "string \<Rightarrow> json option" where
  "parse_json s =
     (case parse_value (2 * length s + 1) s of
        Some (v, r) \<Rightarrow> if skip_ws r = [] then Some v else None
      | None \<Rightarrow> None)"

section \<open>Decoding\<close>

text \<open>
  A decoder takes the value and the present content of the variable, and returns the new content
  and whether there was an error. An error does not stop the decoding of the rest; the JSON \<^verbatim>\<open>null\<close>
  leaves the variable as it is (a slice or a pointer becomes nil).
\<close>

type_synonym 'a decoder = "json \<Rightarrow> 'a \<Rightarrow> 'a \<times> bool"

fun dec_string :: "string decoder" where
  "dec_string (JStr s) x = (s, False)"
| "dec_string JNull x = (x, False)"
| "dec_string _ x = (x, True)"

fun dec_bool :: "bool decoder" where
  "dec_bool (JBool b) x = (b, False)"
| "dec_bool JNull x = (x, False)"
| "dec_bool _ x = (x, True)"

text \<open>\<^verbatim>\<open>strconv.ParseInt\<close> and \<^verbatim>\<open>strconv.ParseUint\<close> on the literal of a JSON number, which has no plus sign.\<close>

fun dec_int :: "int decoder" where
  "dec_int (JNum t) x = (case atoi t of Some i \<Rightarrow> (i, False) | None \<Rightarrow> (x, True))"
| "dec_int JNull x = (x, False)"
| "dec_int _ x = (x, True)"

fun dec_uint :: "nat decoder" where
  "dec_uint (JNum t) x =
     (if t \<noteq> [] \<and> list_all is_digit t \<and> digits_val 0 t < 2 ^ 64 then (digits_val 0 t, False) else (x, True))"
| "dec_uint JNull x = (x, False)"
| "dec_uint _ x = (x, True)"

text \<open>A variable of type \<^verbatim>\<open>interface{}\<close> takes any value.\<close>

fun dec_any :: "json option decoder" where
  "dec_any JNull x = (None, False)"
| "dec_any v x = (Some v, False)"

text \<open>A field of a struct: its name, and the decoding into it.\<close>

type_synonym 'r field = "string \<times> 'r decoder"

definition field :: "string \<Rightarrow> 'a decoder \<Rightarrow> ('r \<Rightarrow> 'a) \<Rightarrow> (('a \<Rightarrow> 'a) \<Rightarrow> 'r \<Rightarrow> 'r) \<Rightarrow> 'r field" where
  "field name dec get upd = (name, \<lambda>v r. let (x, e) = dec v (get r) in (upd (\<lambda>_. x) r, e))"

text \<open>A field that the model leaves out; its errors count.\<close>

definition other :: "string \<Rightarrow> 'a decoder \<Rightarrow> 'a \<Rightarrow> 'r field" where
  "other name dec zero = (name, \<lambda>v r. (r, snd (dec v zero)))"

definition lower :: "char \<Rightarrow> char" where
  "lower c =
     (if 65 \<le> (of_char c :: nat) \<and> (of_char c :: nat) \<le> 90 then char_of ((of_char c :: nat) + 32) else c)"

definition fold_name :: "string \<Rightarrow> string" where
  "fold_name s = map lower s"

text \<open>The field of a key: the exact name, else the first with the same letters in another case.\<close>

definition field_of :: "'r field list \<Rightarrow> string \<Rightarrow> 'r decoder option" where
  "field_of fs key =
     (case map_of fs key of
        Some d \<Rightarrow> Some d
      | None \<Rightarrow> map_option snd (find (\<lambda>f. fold_name (fst f) = fold_name key) fs))"

fun dec_members :: "'r field list \<Rightarrow> (string \<times> json) list \<Rightarrow> 'r \<Rightarrow> 'r \<times> bool" where
  "dec_members fs [] r = (r, False)"
| "dec_members fs ((key, v) # ms) r =
     (let (r1, e1) = (case field_of fs key of Some d \<Rightarrow> d v r | None \<Rightarrow> (r, False));
          (r2, e2) = dec_members fs ms r1
      in (r2, e1 \<or> e2))"

fun dec_struct :: "'r field list \<Rightarrow> 'r decoder" where
  "dec_struct fs (JObj ms) r = dec_members fs ms r"
| "dec_struct fs JNull r = (r, False)"
| "dec_struct fs _ r = (r, True)"

fun dec_elems :: "'a decoder \<Rightarrow> 'a \<Rightarrow> json list \<Rightarrow> 'a list \<times> bool" where
  "dec_elems dec zero [] = ([], False)"
| "dec_elems dec zero (v # vs) =
     (let (x, e1) = dec v zero; (xs, e2) = dec_elems dec zero vs in (x # xs, e1 \<or> e2))"

text \<open>A slice that was empty before, as every slice the operator decodes.\<close>

fun dec_slice :: "'a decoder \<Rightarrow> 'a \<Rightarrow> 'a list decoder" where
  "dec_slice dec zero (JArr vs) xs = dec_elems dec zero vs"
| "dec_slice dec zero JNull xs = ([], False)"
| "dec_slice dec zero _ xs = (xs, True)"

fun dec_ptr :: "'a decoder \<Rightarrow> 'a \<Rightarrow> 'a option decoder" where
  "dec_ptr dec zero JNull x = (None, False)"
| "dec_ptr dec zero v x =
     (let (y, e) = dec v (case x of Some y \<Rightarrow> y | None \<Rightarrow> zero) in (Some y, e))"

text \<open>\<^verbatim>\<open>json.Unmarshal\<close>: the new content, and whether it returns an error. A text with a syntax error changes nothing.\<close>

definition unmarshal :: "'a decoder \<Rightarrow> string \<Rightarrow> 'a \<Rightarrow> 'a \<times> bool" where
  "unmarshal dec body x = (case parse_json body of None \<Rightarrow> (x, True) | Some v \<Rightarrow> dec v x)"

section \<open>Printing\<close>

text \<open>The text that an encoder writes for a value with plain strings, the case of host names and time stamps.\<close>

definition plain :: "char \<Rightarrow> bool" where
  "plain c = (32 \<le> (of_char c :: nat) \<and> (of_char c :: nat) < 127 \<and> c \<noteq> CHR 0x22 \<and> c \<noteq> CHR 0x5C)"

definition quoted :: "string \<Rightarrow> string" where
  "quoted s = CHR 0x22 # s @ [CHR 0x22]"

fun show_json :: "json \<Rightarrow> string" where
  "show_json JNull = ''null''"
| "show_json (JBool b) = (if b then ''true'' else ''false'')"
| "show_json (JNum t) = t"
| "show_json (JStr s) = quoted s"
| "show_json (JArr vs) = ''['' @ join '','' (map show_json vs) @ '']''"
| "show_json (JObj ms) = ''{'' @ join '','' (map (\<lambda>(k, v). quoted k @ '':'' @ show_json v) ms) @ ''}''"

definition int_literal :: "string \<Rightarrow> bool" where
  "int_literal t = (\<exists>i. t = itoa i)"

fun printable :: "json \<Rightarrow> bool" where
  "printable (JNum t) = int_literal t"
| "printable (JStr s) = list_all plain s"
| "printable (JArr vs) = list_all printable vs"
| "printable (JObj ms) = list_all (\<lambda>(k, v). list_all plain k \<and> printable v) ms"
| "printable _ = True"

section \<open>What is printed is read back\<close>

definition stops :: "string \<Rightarrow> bool" where
  "stops s = (s = [] \<or> hd s \<in> set '',]}'')"

lemma digit_char_0: "digit_char 0 = CHR ''0''"
  by code_simp

lemma digit_char_zero: "d < 10 \<Longrightarrow> digit_char d = CHR ''0'' \<longleftrightarrow> d = 0"
  by (metis digit_char_0 digit_val_digit_char zero_less_numeral)

lemma utoa_hd_zero: "hd (utoa n) = CHR ''0'' \<longleftrightarrow> n = 0"
proof (induction n rule: utoa.induct)
  case (1 n)
  show ?case
  proof (cases "n < 10")
    case True
    then show ?thesis by (simp add: utoa.simps [of n] digit_char_zero)
  next
    case False
    then have "hd (utoa n) = hd (utoa (n div 10))" by (subst utoa.simps) simp
    with 1 False show ?thesis by simp
  qed
qed

lemma takeWhile_digits:
  assumes "list_all is_digit ds" and "stops rest"
  shows "takeWhile is_digit (ds @ rest) = ds" "dropWhile is_digit (ds @ rest) = rest"
proof -
  have "rest = [] \<or> \<not> is_digit (hd rest)" using assms(2) by (auto simp: stops_def is_digit_def)
  then have "takeWhile is_digit rest = []" "dropWhile is_digit rest = rest" by (cases rest; simp)+
  with assms(1) show "takeWhile is_digit (ds @ rest) = ds" "dropWhile is_digit (ds @ rest) = rest"
    by (simp_all add: list_all_iff takeWhile_append2 dropWhile_append2)
qed

lemma scan_int_utoa: "stops rest \<Longrightarrow> scan_int (utoa n @ rest) = Some (utoa n, rest)"
proof (cases "n = 0")
  case True
  then show ?thesis by (simp add: scan_int_def utoa.simps [of 0] digit_char_0)
next
  case False
  moreover assume "stops rest"
  moreover obtain c cs where "utoa n = c # cs" by (cases "utoa n") simp_all
  ultimately show ?thesis
    using utoa_hd_zero [of n] takeWhile_digits [of "utoa n" rest] utoa_digits [of n]
    by (auto simp: scan_int_def take_digits_def)
qed

lemma scan_tail: "stops rest \<Longrightarrow> scan_frac rest = Some ([], rest)" "stops rest \<Longrightarrow> scan_exp rest = Some ([], rest)"
  by (cases rest; auto simp: stops_def scan_frac_def scan_exp_def)+

lemma scan_number_itoa: "stops rest \<Longrightarrow> scan_number (itoa i @ rest) = Some (itoa i, rest)"
proof -
  assume rest: "stops rest"
  obtain c cs where c: "utoa (nat i) = c # cs" and "c \<noteq> CHR ''-''"
    by (metis digit_not(1) list.sel(1) neq_Nil_conv utoa_hd_digit utoa_nonempty)
  with rest scan_int_utoa [OF rest, of "nat i"] scan_int_utoa [OF rest, of "nat (- i)"] show ?thesis
    by (simp add: scan_number_def itoa_def scan_tail)
qed

lemma scan_string_plain:
  "list_all plain s \<Longrightarrow> length s < n \<Longrightarrow> scan_string n (s @ CHR 0x22 # rest) = Some (s, rest)"
proof (induction s arbitrary: n)
  case Nil
  then show ?case by (cases n) simp_all
next
  case (Cons c s)
  then show ?case by (cases n) (auto simp: plain_def)
qed

lemma skip_ws_hd [simp]: "\<not> is_ws c \<Longrightarrow> skip_ws (c # s) = c # s"
  by (simp add: skip_ws_def)

lemma skip_ws_Nil [simp]: "skip_ws [] = []"
  by (simp add: skip_ws_def)

lemma ws_not [simp]:
  "\<not> is_ws (CHR ''['')" "\<not> is_ws (CHR '']'')" "\<not> is_ws (CHR ''{'')" "\<not> is_ws (CHR ''}'')"
  "\<not> is_ws (CHR '','')" "\<not> is_ws (CHR '':'')" "\<not> is_ws (CHR 0x22)" "\<not> is_ws (CHR ''t'')"
  "\<not> is_ws (CHR ''f'')" "\<not> is_ws (CHR ''n'')" "\<not> is_ws (CHR ''-'')"
  by (simp_all add: is_ws_def)

lemma digit_not_ws: "is_digit c \<Longrightarrow> \<not> is_ws c"
  by (auto simp: is_ws_def is_digit_def)

lemma itoa_hd: "itoa i \<noteq> [] \<and> (hd (itoa i) = CHR ''-'' \<or> is_digit (hd (itoa i)))"
  by (simp add: itoa_def)

text \<open>The first character of a printed value.\<close>

lemma show_json_hd:
  assumes "printable v"
  shows "show_json v \<noteq> [] \<and> \<not> is_ws (hd (show_json v)) \<and> hd (show_json v) \<notin> set '',]}:''"
  using assms
proof (cases v)
  case (JNum t)
  with assms obtain i where "t = itoa i" by (auto simp: int_literal_def)
  with JNum itoa_hd [of i] show ?thesis
    by (auto simp: digit_not_ws dest: digit_not_ws) (auto simp: is_digit_def)
qed (auto simp: quoted_def)

lemma parse_number:
  assumes "int_literal t" and "stops rest" and "0 < n"
  shows "parse_value n (t @ rest) = Some (JNum t, rest)"
proof -
  obtain m where n: "n = Suc m" using assms(3) by (cases n) simp_all
  obtain i where t: "t = itoa i" using assms(1) by (auto simp: int_literal_def)
  obtain c cs where c: "t = c # cs" and hd: "c = CHR ''-'' \<or> is_digit c"
    using itoa_hd [of i] unfolding t [symmetric] by (cases t) auto
  then have ws: "\<not> is_ws c" by (auto simp: digit_not_ws)
  have "c \<notin> set ''{[tfn'' \<and> c \<noteq> CHR 0x22" using hd by (auto simp: is_digit_def)
  with scan_number_itoa [OF assms(2), of i] show ?thesis
    unfolding t [symmetric] by (simp add: n c ws)
qed

lemma strip_prefix_char [simp]: "strip_prefix [c] (d # s) = (if d = c then Some s else None)"
  by (simp add: strip_prefix_def)

lemma strip_prefix_append [simp]: "strip_prefix p (p @ s) = Some s"
  by (simp add: strip_prefix_def)

lemma show_json_Cons:
  assumes "printable v"
  obtains c cs where "show_json v = c # cs" "\<not> is_ws c" "c \<notin> set '',]}:''"
  using show_json_hd [OF assms] by (cases "show_json v") auto

text \<open>The lists inside an array and an object.\<close>

lemma parse_elems_show:
  assumes each: "\<And>v rest n. v \<in> set vs \<Longrightarrow> stops rest \<Longrightarrow> 2 * length (show_json v) \<le> n \<Longrightarrow>
      parse_value n (show_json v @ rest) = Some (v, rest)"
    and "vs \<noteq> []" and "2 * length (join '','' (map show_json vs)) < n"
  shows "parse_elems n (join '','' (map show_json vs) @ '']'' @ rest) = Some (vs, rest)"
  using assms
proof (induction vs arbitrary: n)
  case Nil
  then show ?case by simp
next
  case (Cons v vs)
  then obtain m where n: "n = Suc m" by (cases n) auto
  show ?case
  proof (cases vs)
    case Nil
    with Cons.prems n show ?thesis by (simp add: stops_def)
  next
    case (Cons w ws)
    with Cons.prems n have "parse_value m (show_json v @ '','' @ join '','' (map show_json vs) @ '']'' @ rest) =
        Some (v, '','' @ join '','' (map show_json vs) @ '']'' @ rest)"
      by (simp add: stops_def)
    moreover have "parse_elems m (join '','' (map show_json vs) @ '']'' @ rest) = Some (vs, rest)"
      using Cons.prems n Cons by (intro Cons.IH) auto
    ultimately show ?thesis using n Cons by simp
  qed
qed

lemma parse_members_show:
  assumes each: "\<And>k v rest n. (k, v) \<in> set ms \<Longrightarrow> stops rest \<Longrightarrow> 2 * length (show_json v) \<le> n \<Longrightarrow>
      parse_value n (show_json v @ rest) = Some (v, rest)"
    and keys: "list_all (list_all plain \<circ> fst) ms"
    and "ms \<noteq> []" and "2 * length (join '','' (map (\<lambda>(k, v). quoted k @ '':'' @ show_json v) ms)) < n"
  shows "parse_members n (join '','' (map (\<lambda>(k, v). quoted k @ '':'' @ show_json v) ms) @ ''}'' @ rest) = Some (ms, rest)"
  using assms
proof (induction ms arbitrary: n)
  case Nil
  then show ?case by simp
next
  case (Cons m ms)
  obtain k v where kv: "m = (k, v)" by (cases m)
  obtain f where n: "n = Suc f" using Cons.prems by (cases n) auto
  have k: "list_all plain k" using Cons.prems(2) kv by simp
  have member: "strip_prefix [CHR 0x22] (skip_ws (quoted k @ t)) = Some (k @ CHR 0x22 # t)" for t
    by (simp add: quoted_def)
  show ?case
  proof (cases ms)
    case Nil
    moreover have "parse_value f (show_json v @ ''}'' @ rest) = Some (v, ''}'' @ rest)"
      using Cons.prems n kv Nil by (intro Cons.prems(1) [of k v]) (auto simp: stops_def)
    ultimately show ?thesis using n kv by (simp add: member scan_string_plain [OF k])
  next
    case (Cons w ws)
    let ?tail = "join '','' (map (\<lambda>(k, v). quoted k @ '':'' @ show_json v) ms) @ ''}'' @ rest"
    have "parse_value f (show_json v @ '','' @ ?tail) = Some (v, '','' @ ?tail)"
      using Cons.prems n kv Cons by (intro Cons.prems(1) [of k v]) (auto simp: stops_def)
    moreover have "parse_members f ?tail = Some (ms, rest)"
      using Cons.prems n Cons by (intro Cons.IH) auto
    ultimately show ?thesis using n Cons kv by (simp add: member scan_string_plain [OF k])
  qed
qed

lemma parse_show:
  "printable v \<Longrightarrow> stops rest \<Longrightarrow> 2 * length (show_json v) \<le> n \<Longrightarrow>
    parse_value n (show_json v @ rest) = Some (v, rest)"
proof (induction v arbitrary: rest n)
  case (JNum t)
  moreover have "0 < n" using JNum.prems by (cases n) (auto simp: int_literal_def itoa_def utoa_nonempty [symmetric] split: if_splits)
  ultimately show ?case by (simp add: parse_number)
next
  case (JStr s)
  then obtain m where "n = Suc m" by (cases n) (simp_all add: quoted_def)
  with JStr show ?case by (simp add: quoted_def scan_string_plain)
next
  case (JArr vs)
  then obtain m where n: "n = Suc m" by (cases n) simp_all
  show ?case
  proof (cases vs)
    case Nil
    with n show ?thesis by simp
  next
    case (Cons w ws)
    obtain c cs where "show_json w = c # cs" "\<not> is_ws c" "c \<notin> set '',]}:''"
      using JArr.prems(1) Cons by (auto elim: show_json_Cons)
    then obtain cs' where c: "join '','' (map show_json vs) = c # cs'" "\<not> is_ws c" "c \<noteq> CHR '']''"
      using Cons by (cases ws) auto
    have "parse_elems m (join '','' (map show_json vs) @ '']'' @ rest) = Some (vs, rest)"
      using JArr n Cons by (intro parse_elems_show) (auto simp: list_all_iff)
    with n c show ?thesis by simp
  qed
next
  case (JObj ms)
  then obtain m where n: "n = Suc m" by (cases n) simp_all
  show ?case
  proof (cases ms)
    case Nil
    with n show ?thesis by simp
  next
    case (Cons w ws)
    let ?t = "join '','' (map (\<lambda>(k, v). quoted k @ '':'' @ show_json v) ms)"
    obtain cs where c: "?t = CHR 0x22 # cs"
      using Cons by (cases ws; cases w) (auto simp: quoted_def)
    have "parse_members m (?t @ ''}'' @ rest) = Some (ms, rest)"
      using JObj n Cons by (intro parse_members_show) (fastforce simp: list_all_iff)+
    with n c show ?thesis by simp
  qed
next
  case JNull
  then show ?case by (cases n) (simp_all add: strip_prefix_def)
next
  case (JBool b)
  then show ?case by (cases n; cases b) (simp_all add: strip_prefix_def)
qed

lemma parse_json_show: "printable v \<Longrightarrow> parse_json (show_json v) = Some v"
  using parse_show [of v "[]" "2 * length (show_json v) + 1"] by (simp add: parse_json_def stops_def)

section \<open>Types that are read back\<close>

text \<open>A type with a printer and a decoder: a value of the type that is printed and decoded is the value.\<close>

locale json_codec =
  fixes enc :: "'a \<Rightarrow> json"
    and dec :: "'a decoder"
    and zero :: 'a
    and ok :: "'a \<Rightarrow> bool"
  assumes decode: "ok x \<Longrightarrow> dec (enc x) zero = (x, False)"
    and printed: "ok x \<Longrightarrow> printable (enc x)"
begin

lemma read_back: "ok x \<Longrightarrow> unmarshal dec (show_json (enc x)) zero = (x, False)"
  by (simp add: unmarshal_def parse_json_show printed decode)

lemma elems_decode: "list_all ok xs \<Longrightarrow> dec_elems dec zero (map enc xs) = (xs, False)"
  by (induction xs) (simp_all add: decode)

lemma slice_read_back:
  assumes "list_all ok xs"
  shows "unmarshal (dec_slice dec zero) (show_json (JArr (map enc xs))) [] = (xs, False)"
proof -
  have "printable (JArr (map enc xs))" using assms printed by (simp add: list_all_iff)
  from parse_json_show [OF this] assms show ?thesis
    by (simp add: unmarshal_def elems_decode del: show_json.simps)
qed

end

end
