(* ===== verification/OrcClient.thy ===== *)
theory OrcClient
  imports OrcReconcile Json
begin

text \<open>
  The HTTP client of package \<^verbatim>\<open>pkg/orchestrator\<close> (\<^verbatim>\<open>orchestrator.go\<close>, \<^verbatim>\<open>util.go\<close>, \<^verbatim>\<open>errors.go\<close>): how the calls of
  the interface become requests, how an answer becomes a value or an error. It provides the
  interface that the updater of the cluster is modelled over. The network and the service are
  parameters: the answer to a request, as a function of its URL.
\<close>

section \<open>The network\<close>

text \<open>A body is None when reading it fails.\<close>

record http_reply =
  hr_StatusCode :: int
  hr_Body :: "string option"

text \<open>
  The error of \<^verbatim>\<open>http.NewRequest\<close> for a URL, the outcome of the request (an error, or the answer),
  the text of the error of \<^verbatim>\<open>encoding/json\<close> for a body, and of the error of reading a body.
\<close>

record orc_http =
  oh_NewRequest :: "string \<Rightarrow> string option"
  oh_Do :: "string \<Rightarrow> (string, http_reply) result"
  oh_JSONError :: "string \<Rightarrow> string"
  oh_ReadError :: "string \<Rightarrow> string"

section \<open>Errors\<close>

datatype details = NoDetails | ErrorDetails string | JSONDetails json

record client_error =
  ce_HTTPStatus :: int
  ce_Path :: string
  ce_Message :: string
  ce_Details :: details

fun dec_details :: "details decoder" where
  "dec_details JNull x = (NoDetails, False)"
| "dec_details v x = (JSONDetails v, False)"

definition error_fields :: "client_error field list" where
  "error_fields =
     [field ''HTTPStatus'' dec_int ce_HTTPStatus ce_HTTPStatus_update,
      field ''Path'' dec_string ce_Path ce_Path_update,
      field ''Message'' dec_string ce_Message ce_Message_update,
      field ''Details'' dec_details ce_Details ce_Details_update]"

text \<open>The text of an error; the \<^verbatim>\<open>%v\<close> of the details is a parameter.\<close>

definition error_Error :: "(details \<Rightarrow> string) \<Rightarrow> client_error \<Rightarrow> string" where
  "error_Error verb e =
     ''[orc]: status: '' @ itoa (ce_HTTPStatus e) @ '' path: '' @ ce_Path e @ '' msg: '' @ ce_Message e @
     '', details: '' @ verb (ce_Details e)"

text \<open>The body is what is left of it.\<close>

definition NewError :: "orc_http \<Rightarrow> http_reply \<Rightarrow> string \<Rightarrow> details \<Rightarrow> client_error" where
  "NewError oh resp path details' =
     (let rsp = \<lparr>ce_HTTPStatus = hr_StatusCode resp, ce_Path = path, ce_Message = [], ce_Details = details'\<rparr> in
      case hr_Body resp of
        None \<Rightarrow> rsp\<lparr>ce_Message := ''<<Can't read body>>''\<rparr>
      | Some body \<Rightarrow>
          (case unmarshal (dec_struct error_fields) body rsp of
             (rsp, True) \<Rightarrow>
               rsp\<lparr>ce_Message := ''<<can't get more details, in error: error: '' @ oh_JSONError oh body @
                     '', body: '' @ body @ ''>>''\<rparr>
           | (rsp, False) \<Rightarrow> rsp))"

definition NewErrorMsg :: "string \<Rightarrow> string \<Rightarrow> client_error" where
  "NewErrorMsg msg path = \<lparr>ce_HTTPStatus = 0, ce_Path = path, ce_Message = msg, ce_Details = NoDetails\<rparr>"

section \<open>Requests\<close>

text \<open>The client: the base of the URLs. The timeout is part of the network.\<close>

record orchestrator =
  oc_connectURI :: string

definition NewFromURI :: "string \<Rightarrow> orchestrator" where
  "NewFromURI uri = \<lparr>oc_connectURI = uri\<rparr>"

text \<open>\<^verbatim>\<open>unmarshalJSON\<close>: the value, or the text of the error.\<close>

definition unmarshalJSON :: "orc_http \<Rightarrow> 'a decoder \<Rightarrow> string option \<Rightarrow> string \<Rightarrow> 'a \<Rightarrow> (string, 'a) result" where
  "unmarshalJSON oh dec body uri out =
     (case body of
        None \<Rightarrow> Inl (''io read error: '' @ oh_ReadError oh uri)
      | Some b \<Rightarrow>
          (case unmarshal dec b out of
             (x, True) \<Rightarrow> Inl (oh_JSONError oh b)
           | (x, False) \<Rightarrow> Inr x))"

text \<open>
  After \<^verbatim>\<open>unmarshalJSON\<close> nothing is left of the body, so the error made from it has no message of the
  service.
\<close>

definition makeGetRequest ::
    "orc_http \<Rightarrow> orchestrator \<Rightarrow> 'a decoder \<Rightarrow> string \<Rightarrow> 'a \<Rightarrow> (client_error, 'a) result" where
  "makeGetRequest oh o' dec path out =
     (let uri = oc_connectURI o' @ ''/'' @ path in
      case oh_NewRequest oh uri of
        Some err \<Rightarrow> Inl (NewErrorMsg (''can't create request: '' @ err) path)
      | None \<Rightarrow>
          (case oh_Do oh uri of
             Inl err \<Rightarrow> Inl (NewErrorMsg err path)
           | Inr resp \<Rightarrow>
               if 500 \<le> hr_StatusCode resp then Inl (NewError oh resp path NoDetails)
               else (case unmarshalJSON oh dec (hr_Body resp) uri out of
                       Inl err \<Rightarrow>
                         Inl (NewError oh (resp\<lparr>hr_Body := map_option (\<lambda>_. []) (hr_Body resp)\<rparr>) path
                                (ErrorDetails err))
                     | Inr x \<Rightarrow> Inr x)))"

text \<open>\<^verbatim>\<open>url.QueryEscape\<close>, and \<^verbatim>\<open>url.Values.Encode\<close> for a list of keys in their order.\<close>

definition unreserved :: "char \<Rightarrow> bool" where
  "unreserved c =
     (let n = of_char c :: nat in
      48 \<le> n \<and> n \<le> 57 \<or> 65 \<le> n \<and> n \<le> 90 \<or> 97 \<le> n \<and> n \<le> 122 \<or> c \<in> set ''-_.~'')"

definition hex_digit :: "nat \<Rightarrow> char" where
  "hex_digit d = (if d < 10 then char_of (48 + d) else char_of (55 + d))"

definition escape_char :: "char \<Rightarrow> string" where
  "escape_char c =
     (if unreserved c then [c]
      else if c = CHR '' '' then ''+''
      else [CHR ''%'', hex_digit (of_char c div 16), hex_digit (of_char c mod 16)])"

definition QueryEscape :: "string \<Rightarrow> string" where
  "QueryEscape s = concat (map escape_char s)"

definition Encode :: "(string \<times> string list) list \<Rightarrow> string" where
  "Encode query =
     join ''&'' (concat (map (\<lambda>(k, vs). map (\<lambda>v. QueryEscape k @ ''='' @ QueryEscape v) vs) query))"

record api_reply =
  ar_Code :: string
  ar_Message :: string

definition api_fields :: "api_reply field list" where
  "api_fields =
     [field ''Code'' dec_string ar_Code ar_Code_update,
      field ''Message'' dec_string ar_Message ar_Message_update]"

text \<open>An error of the client: a value of the package's error type, or one of \<^verbatim>\<open>fmt.Errorf\<close>.\<close>

datatype client_failure = ClientError client_error | PlainError string

definition makeGetAPIRequest ::
    "orc_http \<Rightarrow> orchestrator \<Rightarrow> string \<Rightarrow> (string \<times> string list) list \<Rightarrow> client_failure option" where
  "makeGetAPIRequest oh o' path query =
     (let args = Encode query;
          args = (if args \<noteq> [] then ''?'' @ args else args) in
      case makeGetRequest oh o' (dec_struct api_fields) (path @ args) \<lparr>ar_Code = [], ar_Message = []\<rparr> of
        Inl err \<Rightarrow> Some (ClientError err)
      | Inr apiObj \<Rightarrow>
          if ar_Code apiObj \<noteq> ''OK'' then Some (PlainError (''orc failed with: '' @ ar_Message apiObj)) else None)"

section \<open>The types of the answers\<close>

definition zero_key :: instance_key where
  "zero_key = \<lparr>ik_Hostname = [], ik_Port = 0\<rparr>"

definition key_fields :: "instance_key field list" where
  "key_fields =
     [field ''Hostname'' dec_string ik_Hostname ik_Hostname_update,
      field ''Port'' dec_int ik_Port ik_Port_update]"

definition dec_key :: "instance_key decoder" where
  "dec_key = dec_struct key_fields"

record binlog_coordinates =
  bc_LogFile :: string
  bc_LogPos :: int
  bc_Type :: int

definition zero_coordinates :: binlog_coordinates where
  "zero_coordinates = \<lparr>bc_LogFile = [], bc_LogPos = 0, bc_Type = 0\<rparr>"

definition coordinates_fields :: "binlog_coordinates field list" where
  "coordinates_fields =
     [field ''LogFile'' dec_string bc_LogFile bc_LogFile_update,
      field ''LogPos'' dec_int bc_LogPos bc_LogPos_update,
      field ''Type'' dec_int bc_Type bc_Type_update]"

definition dec_coordinates :: "binlog_coordinates decoder" where
  "dec_coordinates = dec_struct coordinates_fields"

text \<open>\<^verbatim>\<open>sql.NullInt64\<close> is a struct with the fields \<^verbatim>\<open>Int64\<close> and \<^verbatim>\<open>Valid\<close>.\<close>

definition null_fields :: "(int \<times> bool) field list" where
  "null_fields =
     [field ''Int64'' dec_int fst apfst,
      field ''Valid'' dec_bool snd apsnd]"

definition dec_null :: "null_int64 decoder" where
  "dec_null v x =
     (let ((i, valid), e) =
            dec_struct null_fields v (case x of None \<Rightarrow> (0, False) | Some i \<Rightarrow> (i, True))
      in (if valid then Some i else None, e))"

definition zero_instance :: orc_instance where
  "zero_instance =
     \<lparr>oi_Key = zero_key, oi_Uptime = 0, oi_ReadOnly = False, oi_MasterKey = zero_key,
      oi_IsDetachedMaster = False, oi_Slave_SQL_Running = False, oi_Slave_IO_Running = False,
      oi_SecondsBehindMaster = None, oi_SlaveLagSeconds = None, oi_IsCoMaster = False,
      oi_IsLastCheckValid = False, oi_IsUpToDate = False, oi_IsRecentlyChecked = False,
      oi_SecondsSinceLastSeen = None\<rparr>"

text \<open>The fields the operator reads, and those whose only effect is an error of the decoding.\<close>

definition instance_fields :: "orc_instance field list" where
  "instance_fields =
     [field ''Key'' dec_key oi_Key oi_Key_update,
      other ''InstanceAlias'' dec_string [],
      field ''Uptime'' dec_uint oi_Uptime oi_Uptime_update,
      other ''ServerID'' dec_uint 0,
      other ''ServerUUID'' dec_string [],
      other ''Version'' dec_string [],
      other ''VersionComment'' dec_string [],
      other ''FlavorName'' dec_string [],
      field ''ReadOnly'' dec_bool oi_ReadOnly oi_ReadOnly_update,
      other ''Binlog_format'' dec_string [],
      other ''BinlogRowImage'' dec_string [],
      other ''LogBinEnabled'' dec_bool False,
      other ''LogSlaveUpdatesEnabled'' dec_bool False,
      other ''SelfBinlogCoordinates'' dec_coordinates zero_coordinates,
      field ''MasterKey'' dec_key oi_MasterKey oi_MasterKey_update,
      field ''IsDetachedMaster'' dec_bool oi_IsDetachedMaster oi_IsDetachedMaster_update,
      field ''Slave_SQL_Running'' dec_bool oi_Slave_SQL_Running oi_Slave_SQL_Running_update,
      field ''Slave_IO_Running'' dec_bool oi_Slave_IO_Running oi_Slave_IO_Running_update,
      other ''HasReplicationFilters'' dec_bool False,
      other ''GTIDMode'' dec_string [],
      other ''SupportsOracleGTID'' dec_bool False,
      other ''UsingOracleGTID'' dec_bool False,
      other ''UsingMariaDBGTID'' dec_bool False,
      other ''UsingPseudoGTID'' dec_bool False,
      other ''ReadBinlogCoordinates'' dec_coordinates zero_coordinates,
      other ''ExecBinlogCoordinates'' dec_coordinates zero_coordinates,
      other ''IsDetached'' dec_bool False,
      other ''RelaylogCoordinates'' dec_coordinates zero_coordinates,
      other ''LastSQLError'' dec_string [],
      other ''LastIOError'' dec_string [],
      field ''SecondsBehindMaster'' dec_null oi_SecondsBehindMaster oi_SecondsBehindMaster_update,
      other ''SQLDelay'' dec_uint 0,
      other ''ExecutedGtidSet'' dec_string [],
      other ''GtidPurged'' dec_string [],
      field ''SlaveLagSeconds'' dec_null oi_SlaveLagSeconds oi_SlaveLagSeconds_update,
      other ''ClusterName'' dec_string [],
      other ''SuggestedClusterAlias'' dec_string [],
      other ''DataCenter'' dec_string [],
      other ''PhysicalEnvironment'' dec_string [],
      other ''ReplicationDepth'' dec_uint 0,
      field ''IsCoMaster'' dec_bool oi_IsCoMaster oi_IsCoMaster_update,
      other ''HasReplicationCredentials'' dec_bool False,
      other ''ReplicationCredentialsAvailable'' dec_bool False,
      other ''SemiSyncEnforced'' dec_bool False,
      other ''SemiSyncMasterEnabled'' dec_bool False,
      other ''SemiSyncReplicaEnabled'' dec_bool False,
      other ''LastSeenTimestamp'' dec_string [],
      field ''IsLastCheckValid'' dec_bool oi_IsLastCheckValid oi_IsLastCheckValid_update,
      field ''IsUpToDate'' dec_bool oi_IsUpToDate oi_IsUpToDate_update,
      field ''IsRecentlyChecked'' dec_bool oi_IsRecentlyChecked oi_IsRecentlyChecked_update,
      field ''SecondsSinceLastSeen'' dec_null oi_SecondsSinceLastSeen oi_SecondsSinceLastSeen_update,
      other ''CountMySQLSnapshots'' dec_int 0,
      other ''IsCandidate'' dec_bool False,
      other ''PromotionRule'' dec_string [],
      other ''IsDowntimed'' dec_bool False,
      other ''DowntimeReason'' dec_string [],
      other ''DowntimeOwner'' dec_string [],
      other ''DowntimeEndTimestamp'' dec_string [],
      other ''ElapsedDowntime'' dec_int 0,
      other ''UnresolvedHostname'' dec_string [],
      other ''AllowTLS'' dec_bool False,
      other ''LastDiscoveryLatency'' dec_int 0]"

definition dec_instance :: "orc_instance decoder" where
  "dec_instance = dec_struct instance_fields"

definition zero_recovery :: topology_recovery where
  "zero_recovery =
     \<lparr>tr_Id = 0, tr_UID = [], tr_IsSuccessful = False, tr_RecoveryStartTimestamp = [], tr_Acknowledged = False\<rparr>"

definition recovery_fields :: "topology_recovery field list" where
  "recovery_fields =
     [field ''Id'' dec_int tr_Id tr_Id_update,
      field ''UID'' dec_string tr_UID tr_UID_update,
      other ''SuccessorKey'' (dec_ptr dec_key zero_key) None,
      other ''SuccessorAlias'' dec_string [],
      other ''IsActive'' dec_bool False,
      field ''IsSuccessful'' dec_bool tr_IsSuccessful tr_IsSuccessful_update,
      other ''AllErrors'' (dec_slice dec_string []) [],
      field ''RecoveryStartTimestamp'' dec_string tr_RecoveryStartTimestamp tr_RecoveryStartTimestamp_update,
      other ''RecoveryEndTimestamp'' dec_string [],
      other ''ProcessingNodeHostname'' dec_string [],
      other ''ProcessingNodeToken'' dec_string [],
      field ''Acknowledged'' dec_bool tr_Acknowledged tr_Acknowledged_update,
      other ''AcknowledgedAt'' dec_string [],
      other ''AcknowledgedBy'' dec_string [],
      other ''AcknowledgedComment'' dec_string [],
      other ''LastDetectionId'' dec_int 0,
      other ''RelatedRecoveryId'' dec_int 0]"

record maintenance =
  mt_MaintenanceId :: nat
  mt_Key :: instance_key
  mt_BeginTimestamp :: string
  mt_SecondsElapsed :: nat
  mt_IsActive :: bool
  mt_Owner :: string
  mt_Reason :: string

definition zero_maintenance :: maintenance where
  "zero_maintenance =
     \<lparr>mt_MaintenanceId = 0, mt_Key = zero_key, mt_BeginTimestamp = [], mt_SecondsElapsed = 0,
      mt_IsActive = False, mt_Owner = [], mt_Reason = []\<rparr>"

definition maintenance_fields :: "maintenance field list" where
  "maintenance_fields =
     [field ''MaintenanceId'' dec_uint mt_MaintenanceId mt_MaintenanceId_update,
      field ''Key'' dec_key mt_Key mt_Key_update,
      field ''BeginTimestamp'' dec_string mt_BeginTimestamp mt_BeginTimestamp_update,
      field ''SecondsElapsed'' dec_uint mt_SecondsElapsed mt_SecondsElapsed_update,
      field ''IsActive'' dec_bool mt_IsActive mt_IsActive_update,
      field ''Owner'' dec_string mt_Owner mt_Owner_update,
      field ''Reason'' dec_string mt_Reason mt_Reason_update]"

section \<open>The calls\<close>

definition client_Discover :: "orc_http \<Rightarrow> orchestrator \<Rightarrow> string \<Rightarrow> int \<Rightarrow> client_failure option" where
  "client_Discover oh o' host port = makeGetAPIRequest oh o' (''discover/'' @ host @ ''/'' @ itoa port) []"

definition client_Forget :: "orc_http \<Rightarrow> orchestrator \<Rightarrow> string \<Rightarrow> int \<Rightarrow> client_failure option" where
  "client_Forget oh o' host port = makeGetAPIRequest oh o' (''forget/'' @ host @ ''/'' @ itoa port) []"

definition client_Master :: "orc_http \<Rightarrow> orchestrator \<Rightarrow> string \<Rightarrow> (client_error, orc_instance) result" where
  "client_Master oh o' clusterHint = makeGetRequest oh o' dec_instance (''master/'' @ clusterHint) zero_instance"

definition client_Cluster :: "orc_http \<Rightarrow> orchestrator \<Rightarrow> string \<Rightarrow> (client_error, orc_instance list) result" where
  "client_Cluster oh o' cluster =
     makeGetRequest oh o' (dec_slice dec_instance zero_instance) (''cluster/'' @ cluster) []"

definition client_AuditRecovery ::
    "orc_http \<Rightarrow> orchestrator \<Rightarrow> string \<Rightarrow> (client_error, topology_recovery list) result" where
  "client_AuditRecovery oh o' cluster =
     makeGetRequest oh o' (dec_slice (dec_struct recovery_fields) zero_recovery)
       (''audit-recovery/cluster/'' @ cluster) []"

definition client_AckRecovery :: "orc_http \<Rightarrow> orchestrator \<Rightarrow> int \<Rightarrow> string \<Rightarrow> client_failure option" where
  "client_AckRecovery oh o' i comment =
     makeGetAPIRequest oh o' (''ack-recovery/'' @ itoa i) [(''comment'', [comment])]"

definition client_SetHostWritable :: "orc_http \<Rightarrow> orchestrator \<Rightarrow> instance_key \<Rightarrow> client_failure option" where
  "client_SetHostWritable oh o' key =
     makeGetAPIRequest oh o' (''set-writeable/'' @ ik_Hostname key @ ''/'' @ itoa (ik_Port key)) []"

definition client_SetHostReadOnly :: "orc_http \<Rightarrow> orchestrator \<Rightarrow> instance_key \<Rightarrow> client_failure option" where
  "client_SetHostReadOnly oh o' key =
     makeGetAPIRequest oh o' (''set-read-only/'' @ ik_Hostname key @ ''/'' @ itoa (ik_Port key)) []"

definition client_BeginMaintenance ::
    "orc_http \<Rightarrow> orchestrator \<Rightarrow> instance_key \<Rightarrow> string \<Rightarrow> string \<Rightarrow> client_failure option" where
  "client_BeginMaintenance oh o' key owner reason =
     makeGetAPIRequest oh o'
       (''begin-maintenance/'' @ ik_Hostname key @ ''/'' @ itoa (ik_Port key) @ ''/'' @ owner @ ''/'' @ reason) []"

definition client_EndMaintenance :: "orc_http \<Rightarrow> orchestrator \<Rightarrow> instance_key \<Rightarrow> client_failure option" where
  "client_EndMaintenance oh o' key =
     makeGetAPIRequest oh o' (''end-maintenance/'' @ ik_Hostname key @ ''/'' @ itoa (ik_Port key)) []"

definition client_Maintenance :: "orc_http \<Rightarrow> orchestrator \<Rightarrow> (client_error, maintenance list) result" where
  "client_Maintenance oh o' =
     makeGetRequest oh o' (dec_slice (dec_struct maintenance_fields) zero_maintenance) ''maintenance'' []"

section \<open>The client as the service of the updater\<close>

text \<open>What the callers of the interface look at in an error.\<close>

definition as_orc_error :: "client_error \<Rightarrow> orc_error" where
  "as_orc_error e = OrcError (ce_Message e)"

fun as_failure :: "client_failure \<Rightarrow> orc_error" where
  "as_failure (ClientError e) = as_orc_error e"
| "as_failure (PlainError msg) = OtherError msg"

definition on_error :: "('a \<Rightarrow> 'b) \<Rightarrow> ('a, 'c) result \<Rightarrow> ('b, 'c) result" where
  "on_error f r = (case r of Inl e \<Rightarrow> Inl (f e) | Inr x \<Rightarrow> Inr x)"

definition http_service :: "orc_http \<Rightarrow> orchestrator \<Rightarrow> orc_service" where
  "http_service oh o' =
     \<lparr>os_Cluster = (\<lambda>alias. on_error as_orc_error (client_Cluster oh o' alias)),
      os_Master = (\<lambda>alias. on_error as_orc_error (client_Master oh o' alias)),
      os_AuditRecovery = (\<lambda>alias. on_error as_orc_error (client_AuditRecovery oh o' alias)),
      os_AckRecovery = (\<lambda>calls i comment. map_option as_failure (client_AckRecovery oh o' i comment))\<rparr>"

section \<open>Answers that are read back\<close>

definition key_json :: "instance_key \<Rightarrow> json" where
  "key_json k = JObj [(''Hostname'', JStr (ik_Hostname k)), (''Port'', JNum (itoa (ik_Port k)))]"

fun null_json :: "null_int64 \<Rightarrow> json" where
  "null_json None = JObj [(''Int64'', JNum ''0''), (''Valid'', JBool False)]"
| "null_json (Some i) = JObj [(''Int64'', JNum (itoa i)), (''Valid'', JBool True)]"

text \<open>An instance as the service prints it, with the fields the client does not know.\<close>

definition instance_members :: "orc_instance \<Rightarrow> (string \<times> json) list" where
  "instance_members i =
     [(''Key'', key_json (oi_Key i)), (''Uptime'', JNum (itoa (int (oi_Uptime i)))),
      (''ReadOnly'', JBool (oi_ReadOnly i)), (''MasterKey'', key_json (oi_MasterKey i)),
      (''IsDetachedMaster'', JBool (oi_IsDetachedMaster i)),
      (''Slave_SQL_Running'', JBool (oi_Slave_SQL_Running i)),
      (''Slave_IO_Running'', JBool (oi_Slave_IO_Running i)),
      (''SecondsBehindMaster'', null_json (oi_SecondsBehindMaster i)),
      (''SlaveLagSeconds'', null_json (oi_SlaveLagSeconds i)), (''IsCoMaster'', JBool (oi_IsCoMaster i)),
      (''IsLastCheckValid'', JBool (oi_IsLastCheckValid i)), (''IsUpToDate'', JBool (oi_IsUpToDate i)),
      (''IsRecentlyChecked'', JBool (oi_IsRecentlyChecked i)),
      (''SecondsSinceLastSeen'', null_json (oi_SecondsSinceLastSeen i))]"

definition instance_json :: "(orc_instance \<Rightarrow> (string \<times> json) list) \<Rightarrow> orc_instance \<Rightarrow> json" where
  "instance_json extra i = JObj (instance_members i @ extra i)"

text \<open>The values fit the types of the client, and the strings need no escapes.\<close>

definition int64_ok :: "int \<Rightarrow> bool" where
  "int64_ok i = (min_int64 \<le> i \<and> i \<le> max_int64)"

definition key_ok :: "instance_key \<Rightarrow> bool" where
  "key_ok k = (list_all plain (ik_Hostname k) \<and> int64_ok (ik_Port k))"

definition instance_ok :: "orc_instance \<Rightarrow> bool" where
  "instance_ok i =
     (key_ok (oi_Key i) \<and> key_ok (oi_MasterKey i) \<and> oi_Uptime i < 2 ^ 64 \<and>
      list_all (\<lambda>n. case n of None \<Rightarrow> True | Some i \<Rightarrow> int64_ok i)
        [oi_SecondsBehindMaster i, oi_SlaveLagSeconds i, oi_SecondsSinceLastSeen i])"

definition extra_ok :: "(string \<times> json) list \<Rightarrow> bool" where
  "extra_ok ms =
     list_all (\<lambda>(k, v). field_of instance_fields k = None \<and> list_all plain k \<and> printable v) ms"

lemma atoi_itoa:
  assumes "int64_ok i"
  shows "atoi (itoa i) = Some i"
proof (cases "i < 0")
  case True
  with assms show ?thesis
    by (simp add: itoa_def atoi_def int64_ok_def utoa_digits min_int64_def max_int64_def)
next
  case False
  with assms show ?thesis by (simp add: itoa_def atoi_utoa int64_ok_def)
qed

lemma dec_int_itoa: "int64_ok i \<Longrightarrow> dec_int (JNum (itoa i)) x = (i, False)"
  by (simp add: atoi_itoa)

lemma dec_uint_itoa: "n < 2 ^ 64 \<Longrightarrow> dec_uint (JNum (itoa (int n))) x = (n, False)"
  by (simp add: itoa_def utoa_digits)

lemma dec_key_json: "key_ok k \<Longrightarrow> dec_key (key_json k) x = (k, False)"
  by (cases k)
    (simp add: dec_key_def key_json_def key_fields_def field_of_def field_def key_ok_def dec_int_itoa
      del: dec_int.simps)

lemma dec_null_json:
  "(case n of None \<Rightarrow> True | Some i \<Rightarrow> int64_ok i) \<Longrightarrow> dec_null (null_json n) None = (n, False)"
  by (cases n)
    (simp_all add: dec_null_def null_fields_def field_of_def field_def dec_int_itoa atoi_def is_digit_def
      digit_val_def min_int64_def max_int64_def del: dec_int.simps, simp_all add: atoi_def is_digit_def
      digit_val_def min_int64_def max_int64_def)

lemma field_of_instance:
  "field_of instance_fields ''Key'' = Some (snd (field ''Key'' dec_key oi_Key oi_Key_update))"
  "field_of instance_fields ''Uptime'' = Some (snd (field ''Uptime'' dec_uint oi_Uptime oi_Uptime_update))"
  "field_of instance_fields ''ReadOnly'' = Some (snd (field ''ReadOnly'' dec_bool oi_ReadOnly oi_ReadOnly_update))"
  "field_of instance_fields ''MasterKey'' = Some (snd (field ''MasterKey'' dec_key oi_MasterKey oi_MasterKey_update))"
  "field_of instance_fields ''IsDetachedMaster'' =
     Some (snd (field ''IsDetachedMaster'' dec_bool oi_IsDetachedMaster oi_IsDetachedMaster_update))"
  "field_of instance_fields ''Slave_SQL_Running'' =
     Some (snd (field ''Slave_SQL_Running'' dec_bool oi_Slave_SQL_Running oi_Slave_SQL_Running_update))"
  "field_of instance_fields ''Slave_IO_Running'' =
     Some (snd (field ''Slave_IO_Running'' dec_bool oi_Slave_IO_Running oi_Slave_IO_Running_update))"
  "field_of instance_fields ''SecondsBehindMaster'' =
     Some (snd (field ''SecondsBehindMaster'' dec_null oi_SecondsBehindMaster oi_SecondsBehindMaster_update))"
  "field_of instance_fields ''SlaveLagSeconds'' =
     Some (snd (field ''SlaveLagSeconds'' dec_null oi_SlaveLagSeconds oi_SlaveLagSeconds_update))"
  "field_of instance_fields ''IsCoMaster'' = Some (snd (field ''IsCoMaster'' dec_bool oi_IsCoMaster oi_IsCoMaster_update))"
  "field_of instance_fields ''IsLastCheckValid'' =
     Some (snd (field ''IsLastCheckValid'' dec_bool oi_IsLastCheckValid oi_IsLastCheckValid_update))"
  "field_of instance_fields ''IsUpToDate'' = Some (snd (field ''IsUpToDate'' dec_bool oi_IsUpToDate oi_IsUpToDate_update))"
  "field_of instance_fields ''IsRecentlyChecked'' =
     Some (snd (field ''IsRecentlyChecked'' dec_bool oi_IsRecentlyChecked oi_IsRecentlyChecked_update))"
  "field_of instance_fields ''SecondsSinceLastSeen'' =
     Some (snd (field ''SecondsSinceLastSeen'' dec_null oi_SecondsSinceLastSeen oi_SecondsSinceLastSeen_update))"
  by (simp_all add: field_of_def instance_fields_def field_def other_def)

lemma dec_members_append:
  "dec_members fs (ms @ ms') r =
     (case dec_members fs ms r of
        (r1, e1) \<Rightarrow> (case dec_members fs ms' r1 of (r2, e2) \<Rightarrow> (r2, e1 \<or> e2)))"
  by (induction fs ms r rule: dec_members.induct) (auto split: prod.splits)

lemma dec_members_unknown:
  "list_all (\<lambda>(k, v). field_of fs k = None) ms \<Longrightarrow> dec_members fs ms r = (r, False)"
  by (induction fs ms r rule: dec_members.induct) auto

lemma snd_field: "snd (field name dec get upd) v r = (let (x, e) = dec v (get r) in (upd (\<lambda>_. x) r, e))"
  by (simp add: field_def)

lemma dec_instance_json:
  assumes "instance_ok i" and "extra_ok (extra i)"
  shows "dec_instance (instance_json extra i) zero_instance = (i, False)"
proof -
  have "dec_members instance_fields (instance_members i) zero_instance = (i, False)"
    using assms(1)
    by (simp add: instance_members_def field_of_instance snd_field dec_key_json dec_null_json dec_uint_itoa
        instance_ok_def zero_instance_def del: dec_uint.simps dec_bool.simps(3))
  moreover have "list_all (\<lambda>(k, v). field_of instance_fields k = None) (extra i)"
    using assms(2) by (auto simp: extra_ok_def list_all_iff)
  ultimately show ?thesis
    by (simp add: dec_instance_def instance_json_def dec_members_append dec_members_unknown)
qed

lemma printable_itoa [simp]: "printable (JNum (itoa i))"
  by (auto simp: int_literal_def)

lemma itoa_0: "itoa 0 = ''0''"
  by code_simp

lemma printable_null [simp]: "printable (null_json n)"
  using printable_itoa [of 0] by (cases n) (simp_all add: itoa_0 plain_def del: printable.simps(1))

lemma printable_key: "key_ok k \<Longrightarrow> printable (key_json k)"
  using printable_itoa [of "ik_Port k"] by (simp add: key_json_def key_ok_def plain_def)

lemma printable_instance:
  assumes "instance_ok i" and "extra_ok (extra i)"
  shows "printable (instance_json extra i)"
proof -
  have "list_all (\<lambda>(k, v). list_all plain k \<and> printable v) (instance_members i)"
    using assms(1) printable_itoa [of "int (oi_Uptime i)"]
    by (simp add: instance_members_def instance_ok_def printable_key plain_def)
  moreover have "list_all (\<lambda>(k, v). list_all plain k \<and> printable v) (extra i)"
    using assms(2) by (auto simp: extra_ok_def list_all_iff)
  ultimately show ?thesis by (simp add: instance_json_def)
qed

interpretation orc_inst: json_codec "instance_json extra" dec_instance zero_instance
    "\<lambda>i. instance_ok i \<and> extra_ok (extra i)" for extra
  by unfold_locales (simp_all add: dec_instance_json printable_instance)

lemma makeGetRequest_ok:
  assumes "oh_NewRequest oh (oc_connectURI o' @ ''/'' @ path) = None"
    and "oh_Do oh (oc_connectURI o' @ ''/'' @ path) = Inr \<lparr>hr_StatusCode = status, hr_Body = Some body\<rparr>"
    and "status < 500" and "unmarshal dec body zero = (x, False)"
  shows "makeGetRequest oh o' dec path zero = Inr x"
  using assms by (simp add: makeGetRequest_def unmarshalJSON_def)


section \<open>Errors of the service\<close>

lemma error_read_back:
  assumes "list_all plain code" and "list_all plain msg"
  shows "ce_Message (NewError oh \<lparr>hr_StatusCode = status,
      hr_Body = Some (show_json (JObj [(''Code'', JStr code), (''Message'', JStr msg), (''Details'', JNull)]))\<rparr> path d) = msg"
proof -
  let ?v = "JObj [(''Code'', JStr code), (''Message'', JStr msg), (''Details'', JNull)]"
  have "parse_json (show_json ?v) = Some ?v"
    using assms by (intro parse_json_show) (simp add: plain_def)
  then show ?thesis
    by (simp add: NewError_def unmarshal_def error_fields_def field_of_def field_def fold_name_def lower_def
        del: show_json.simps)
qed

text \<open>
  An error that the service reports is taken for a missing cluster exactly when its message
  says so; any other error stops the run, which then changes neither the cluster nor the service.
\<close>

theorem service_error_read:
  assumes "oh_NewRequest oh (oc_connectURI o' @ ''/cluster/'' @ GetClusterAlias (ou_Cluster ou)) = None"
    and "oh_Do oh (oc_connectURI o' @ ''/cluster/'' @ GetClusterAlias (ou_Cluster ou)) =
      Inr \<lparr>hr_StatusCode = status,
        hr_Body = Some (show_json (JObj [(''Code'', JStr code), (''Message'', JStr msg), (''Details'', JNull)]))\<rparr>"
    and "500 \<le> status" and "list_all plain code" and "list_all plain msg"
  shows "getFromOrchestrator (http_service oh o') (ou_Cluster ou) =
           (if IsNotFound (OrcError msg) then Inr ([], None) else Inl (OrcError msg)) \<and>
         (IsNotFound (OrcError msg) \<or> Sync (http_service oh o') now ou = Inl (OrcFailed (OrcError msg)))"
proof -
  obtain err where "client_Cluster oh o' (GetClusterAlias (ou_Cluster ou)) = Inl err" and "ce_Message err = msg"
    using assms error_read_back [OF assms(4,5), of oh status] by (simp add: client_Cluster_def makeGetRequest_def)
  then have "os_Cluster (http_service oh o') (GetClusterAlias (ou_Cluster ou)) = Inl (OrcError msg)"
    by (simp add: http_service_def on_error_def as_orc_error_def)
  then show ?thesis by (simp add: getFromOrchestrator_def Sync_def)
qed

section \<open>Concrete answers\<close>

definition ref_http :: "string \<Rightarrow> http_reply \<Rightarrow> orc_http" where
  "ref_http uri reply =
     \<lparr>oh_NewRequest = (\<lambda>_. None), oh_Do = (\<lambda>u. if u = uri then Inr reply else Inl ''no route''),
      oh_JSONError = (\<lambda>_. ''unexpected end of JSON input''), oh_ReadError = (\<lambda>_. ''unexpected EOF'')\<rparr>"


theorem service_error_read_witness:
  "getFromOrchestrator
     (http_service
        (ref_http (''http://orc/api/cluster/'' @ GetClusterAlias (ou_Cluster ref_updater))
           \<lparr>hr_StatusCode = 500,
            hr_Body = Some (show_json (JObj [(''Code'', JStr ''ERROR''),
              (''Message'', JStr ''Unable to determine cluster name''), (''Details'', JNull)]))\<rparr>)
        (NewFromURI ''http://orc/api'')) (ou_Cluster ref_updater) = Inr ([], None)"
proof -
  let ?reply = "\<lparr>hr_StatusCode = 500,
      hr_Body = Some (show_json (JObj [(''Code'', JStr ''ERROR''),
        (''Message'', JStr ''Unable to determine cluster name''), (''Details'', JNull)]))\<rparr>"
  let ?uri = "''http://orc/api/cluster/'' @ GetClusterAlias (ou_Cluster ref_updater)"
  have "contains ''Unable to determine cluster name'' ''Unable to determine cluster name''"
    by (simp add: contains_def)
  then show ?thesis
    using service_error_read [of "ref_http ?uri ?reply" "NewFromURI ''http://orc/api''" ref_updater 500 "''ERROR''"
        "''Unable to determine cluster name''" 0]
    by (simp add: ref_http_def NewFromURI_def plain_def del: show_json.simps)
qed

end
