(* ===== verification/OrcCtl.thy ===== *)
theory OrcCtl
  imports OrcClient Defaults "HOL-Library.AList" "HOL-Library.Multiset"
begin

text \<open>
  The orchestrator controller, \<^verbatim>\<open>pkg/controller/orchestrator/orchestrator_controller.go\<close>: the reconciliation of a
  cluster with what the service says of it, and the registry of clusters that is scheduled every five
  seconds. The theory also has the helper that the hooks of the service run,
  \<^verbatim>\<open>pkg/orc-helper/helper.go\<close> and \<^verbatim>\<open>cmd/orc-helper/main.go\<close>.
\<close>

section \<open>Reconciliation\<close>

text \<open>
  The API server: the read of the cluster, the read of \<^verbatim>\<open>CreateOrUpdate\<close> in the finalizer syncer, and the
  writes. None is an object that is not found; a write returns the object as it is stored.
\<close>

record orc_api =
  oa_Get :: "(string, mysql_cluster option) result"
  oa_GetAgain :: "(string, mysql_cluster option) result"
  oa_Create :: "mysql_cluster \<Rightarrow> (string, mysql_cluster) result"
  oa_Update :: "mysql_cluster \<Rightarrow> (string, mysql_cluster) result"
  oa_UpdateStatus :: "mysql_cluster \<Rightarrow> string option"

datatype orc_event =
    CreateCluster mysql_cluster
  | UpdateCluster mysql_cluster
  | OrcRequest orc_call
  | RecoveryEvent string
  | SaveStatus mysql_cluster

datatype orc_outcome = Reconciled | ReconcileFailed orc_error | ReconcilePanic

definition mk_updater :: "mysql_cluster \<Rightarrow> orc_updater" where
  "mk_updater c = \<lparr>ou_Cluster = c, ou_Calls = [], ou_Events = []\<rparr>"

text \<open>
  The run of the finalizer syncer: \<^verbatim>\<open>CreateOrUpdate\<close> reads the cluster into the object of the controller, applies
  the function of the syncer, and saves the object if that changed it.
\<close>

definition sync_finalizer ::
    "orc_api \<Rightarrow> orc_service \<Rightarrow> mysql_cluster \<Rightarrow> orc_event list \<times> (orc_outcome, mysql_cluster) result" where
  "sync_finalizer api svc c =
     (case oa_GetAgain api of
        Inl err \<Rightarrow> ([], Inl (ReconcileFailed (OtherError err)))
      | Inr None \<Rightarrow>
          (case finalizer_mutate svc c of
             None \<Rightarrow> ([], Inl ReconcilePanic)
           | Some c' \<Rightarrow>
               ([CreateCluster c'],
                case oa_Create api c' of Inl err \<Rightarrow> Inl (ReconcileFailed (OtherError err)) | Inr c \<Rightarrow> Inr c))
      | Inr (Some fresh) \<Rightarrow>
          (case finalizer_mutate svc fresh of
             None \<Rightarrow> ([], Inl ReconcilePanic)
           | Some c' \<Rightarrow>
               if c' = fresh then ([], Inr c')
               else ([UpdateCluster c'],
                     case oa_Update api c' of Inl err \<Rightarrow> Inl (ReconcileFailed (OtherError err)) | Inr c \<Rightarrow> Inr c)))"

definition orc_Reconcile :: "orc_api \<Rightarrow> orc_service \<Rightarrow> time \<Rightarrow> orc_event list \<times> orc_outcome" where
  "orc_Reconcile api svc now =
     (case oa_Get api of
        Inl err \<Rightarrow> ([], ReconcileFailed (OtherError err))
      | Inr None \<Rightarrow> ([], Reconciled)
      | Inr (Some cluster) \<Rightarrow>
          let oldStatus = mc_Status cluster in
          (case sync_finalizer api svc cluster of
             (evs, Inl out) \<Rightarrow> (evs, out)
           | (evs, Inr c) \<Rightarrow>
               (case Sync svc now (mk_updater (SetDefaults_MysqlCluster c)) of
                  Inl NilReplicas \<Rightarrow> (evs, ReconcilePanic)
                | Inl (OrcFailed err) \<Rightarrow> (evs, ReconcileFailed err)
                | Inr ou \<Rightarrow>
                    let evs = evs @ map OrcRequest (ou_Calls ou) @ map RecoveryEvent (ou_Events ou); c = ou_Cluster ou in
                    if oldStatus \<noteq> mc_Status c \<and> mc_DeletionTimestamp c = None
                    then (evs @ [SaveStatus c],
                          case oa_UpdateStatus api c of None \<Rightarrow> Reconciled | Some err \<Rightarrow> ReconcileFailed (OtherError err))
                    else (evs, Reconciled))))"

section \<open>The clusters to reconcile\<close>

text \<open>
  The map of the clusters that the watch keeps, the channel of events with its capacity, and the rest
  of the walk of \<^verbatim>\<open>Range\<close> over the map, which sends one event after the other and blocks when the
  channel is full. Reading an event from the channel puts its key into the work queue.
\<close>

type_synonym cluster_key = string

definition getKey :: "mysql_cluster \<Rightarrow> cluster_key" where
  "getKey c = mc_Namespace c @ ''/'' @ mc_Name c"

record cluster_registry =
  cr_Clusters :: "(cluster_key \<times> mysql_cluster) list"
  cr_Walk :: "mysql_cluster list"
  cr_Events :: "mysql_cluster list"
  cr_Queue :: "cluster_key list"

definition events_capacity :: nat where
  "events_capacity = 1024"

datatype registry_event =
    CreateFunc "mysql_cluster option"
  | DeleteFunc "mysql_cluster option"
  | Tick "mysql_cluster list"
  | Send
  | Receive

text \<open>
  One step, or None when it cannot happen. A period ends only when the walk of the one before is over; the walk visits
  every entry of the map once, in an order that is not specified (the list of \<open>Tick\<close>).
\<close>

fun registry_step :: "registry_event \<Rightarrow> cluster_registry \<Rightarrow> cluster_registry option" where
  "registry_step (CreateFunc None) s = Some s"
| "registry_step (CreateFunc (Some c)) s =
     Some (s\<lparr>cr_Clusters := AList.update (getKey c) c (cr_Clusters s)\<rparr>)"
| "registry_step (DeleteFunc None) s = Some s"
| "registry_step (DeleteFunc (Some c)) s =
     Some (s\<lparr>cr_Clusters := AList.delete (getKey c) (cr_Clusters s)\<rparr>)"
| "registry_step (Tick order) s =
     (if cr_Walk s = [] \<and> mset order = mset (map snd (cr_Clusters s)) then Some (s\<lparr>cr_Walk := order\<rparr>) else None)"
| "registry_step Send s =
     (case cr_Walk s of
        [] \<Rightarrow> None
      | c # cs \<Rightarrow>
          if length (cr_Events s) < events_capacity
          then Some (s\<lparr>cr_Walk := cs, cr_Events := cr_Events s @ [c]\<rparr>) else None)"
| "registry_step Receive s =
     (case cr_Events s of
        [] \<Rightarrow> None
      | c # cs \<Rightarrow> Some (s\<lparr>cr_Events := cs, cr_Queue := cr_Queue s @ [getKey c]\<rparr>))"

fun registry_run :: "registry_event list \<Rightarrow> cluster_registry \<Rightarrow> cluster_registry option" where
  "registry_run [] s = Some s"
| "registry_run (e # es) s = Option.bind (registry_step e s) (registry_run es)"

definition empty_registry :: cluster_registry where
  "empty_registry = \<lparr>cr_Clusters = [], cr_Walk = [], cr_Events = [], cr_Queue = []\<rparr>"

section \<open>The helper of the service\<close>

record namespaced_name =
  nn_Name :: string
  nn_Namespace :: string

definition orcNameToKey :: "string \<Rightarrow> (string, namespaced_name) result" where
  "orcNameToKey name =
     (case split_char (CHR ''.'') name of
        [n, ns] \<Rightarrow> Inr \<lparr>nn_Name = n, nn_Namespace = ns\<rparr>
      | _ \<Rightarrow> Inl (''can'' @ [CHR 0x27] @ ''t parse name: '' @ name))"

text \<open>
  The API server and the rest of what the helper calls: the read of a cluster, the write of its status, the reference to
  it, the random string, the creation of an event.
\<close>

record k8s_event =
  ev_Name :: string
  ev_Namespace :: string
  ev_FirstTimestamp :: time
  ev_Type :: string
  ev_Reason :: string
  ev_Message :: string
  ev_Component :: string
  ev_InvolvedObject :: string

record helper_api =
  ha_Get :: "namespaced_name \<Rightarrow> (string, mysql_cluster) result"
  ha_UpdateStatus :: "mysql_cluster \<Rightarrow> string option"
  ha_Reference :: "mysql_cluster \<Rightarrow> (string, string) result"
  ha_Random :: "(string, string) result"
  ha_Create :: "k8s_event \<Rightarrow> string option"

datatype helper_effect = HelperStatus mysql_cluster | HelperEvent k8s_event

definition UpdateClusterFailoverCond ::
    "helper_api \<Rightarrow> time \<Rightarrow> string \<Rightarrow> string \<Rightarrow> string \<Rightarrow> bool \<Rightarrow> helper_effect list \<times> string option" where
  "UpdateClusterFailoverCond api now clusterName reason msg status =
     (case orcNameToKey clusterName of
        Inl err \<Rightarrow> ([], Some err)
      | Inr key \<Rightarrow>
          (case ha_Get api key of
             Inl err \<Rightarrow> ([], Some err)
           | Inr cluster \<Rightarrow>
               let c = UpdateStatusCondition now cluster ClusterConditionFailoverInProgress
                         (if status then ConditionTrue else ConditionFalse) reason msg
               in ([HelperStatus c], ha_UpdateStatus api c)))"

text \<open>\<^verbatim>\<open>time.Now().Unix()\<close>: seconds, rounded down.\<close>

definition UpdateEventForCluster ::
    "helper_api \<Rightarrow> time \<Rightarrow> string \<Rightarrow> string \<Rightarrow> string \<Rightarrow> bool \<Rightarrow> helper_effect list \<times> string option" where
  "UpdateEventForCluster api now clusterName evReason evMsg warning =
     (case orcNameToKey clusterName of
        Inl err \<Rightarrow> ([], Some err)
      | Inr key \<Rightarrow>
          (case ha_Get api key of
             Inl err \<Rightarrow> ([], Some err)
           | Inr cluster \<Rightarrow>
               (case ha_Reference api cluster of
                  Inl err \<Rightarrow> ([], Some err)
                | Inr ref \<Rightarrow>
                    (case ha_Random api of
                       Inl err \<Rightarrow> ([], Some err)
                     | Inr randStr \<Rightarrow>
                         let ev = \<lparr>ev_Name = mc_Name cluster @ ''-'' @ randStr @ ''.'' @ itoa (now div second),
                                   ev_Namespace = mc_Namespace cluster, ev_FirstTimestamp = now,
                                   ev_Type = (if warning then ''Warning'' else ''Normal''), ev_Reason = evReason,
                                   ev_Message = evMsg, ev_Component = ''orchestrator'', ev_InvolvedObject = ref\<rparr>
                         in ([HelperEvent ev], ha_Create api ev)))))"

text \<open>The commands: their arguments (and the flag \<^verbatim>\<open>-w\<close>), the text of the fatal error.\<close>

definition fip_command :: "helper_api \<Rightarrow> time \<Rightarrow> string list \<Rightarrow> helper_effect list \<times> string option" where
  "fip_command api now args =
     (case args of
        [name, msg] \<Rightarrow>
          (case UpdateClusterFailoverCond api now name ''OrcFailoverInProgress'' msg True of
             (effs, err) \<Rightarrow> (effs, map_option (\<lambda>e. ''error in updating cluster: '' @ e) err))
      | _ \<Rightarrow> ([], Some ''see usage: <cluster.name> <message>''))"

definition event_command :: "helper_api \<Rightarrow> time \<Rightarrow> bool \<Rightarrow> string list \<Rightarrow> helper_effect list \<times> string option" where
  "event_command api now evWarningType args =
     (case args of
        [name, reason, msg] \<Rightarrow>
          (case UpdateEventForCluster api now name reason msg evWarningType of
             (effs, err) \<Rightarrow> (effs, map_option (\<lambda>e. ''error in updating cluster: '' @ e) err))
      | _ \<Rightarrow> ([], Some ''see usage: <cluster.name> <event-name> <message> [-warning]''))"

section \<open>Registered nodes are protected\<close>

lemma mode_calls_kinds: "x \<in> set (mode_calls c insts m) \<Longrightarrow> \<exists>k. x = SetHostWritable k \<or> x = SetHostReadOnly k"
  by (auto simp: mode_calls_def split: if_splits)

lemma discover_live:
  assumes "Sync svc now ou = Inr ou'" and "ou_Calls ou = []" and "Discover h p \<in> set (ou_Calls ou')"
  shows "mc_DeletionTimestamp (ou_Cluster ou) = None"
proof (rule ccontr)
  assume "mc_DeletionTimestamp (ou_Cluster ou) \<noteq> None"
  moreover obtain allInstances replicas master insts und rem n comment where
    u: "updateNodesInOrc (ou_Cluster ou) replicas allInstances = (insts, und, rem)"
    and calls: "ou_Calls ou' = ou_Calls ou @ map (\<lambda>k. Discover (ik_Hostname k) (ik_Port k)) und @
       mode_calls (ou_Cluster ou) insts master @
       (if ready_longer_than now (ou_Cluster ou') forgetGraceTime \<or> mc_DeletionTimestamp (ou_Cluster ou') \<noteq> None
        then map (\<lambda>k. Forget (ik_Hostname k) (ik_Port k)) rem else []) @
       map (\<lambda>r. AckRecovery (tr_Id r) comment)
         (take n (getRecoveriesToAck now (ou_Cluster ou') (found_recoveries svc (ou_Cluster ou))))"
    using assms(1) by (rule Sync_split) blast
  ultimately have "und = []" by (auto simp: updateNodesInOrc_def case_prod_beta Let_def split: if_splits)
  with calls assms(2,3) show False by (auto dest: mode_calls_kinds split: if_splits)
qed

text \<open>The finalizers that the object in the API server has after the finalizer syncer.\<close>

definition keeps_meta :: "orc_api \<Rightarrow> bool" where
  "keeps_meta api \<longleftrightarrow>
     (\<forall>c c'. oa_Update api c = Inr c' \<or> oa_Create api c = Inr c' \<longrightarrow>
        mc_Finalizers c' = mc_Finalizers c \<and> mc_DeletionTimestamp c' = mc_DeletionTimestamp c)"

lemma defaults_meta [simp]:
  "mc_DeletionTimestamp (SetDefaults_MysqlCluster c) = mc_DeletionTimestamp c"
  "mc_Status (SetDefaults_MysqlCluster c) = mc_Status c"
  "mc_Finalizers (SetDefaults_MysqlCluster c) = mc_Finalizers c"
  "cs_Replicas (mc_Spec (SetDefaults_MysqlCluster c)) \<noteq> None"
  by (simp_all add: SetDefaults_MysqlCluster_def Let_def)

lemma mk_updater_sel [simp]:
  "ou_Cluster (mk_updater c) = c" "ou_Calls (mk_updater c) = []" "ou_Events (mk_updater c) = []"
  by (simp_all add: mk_updater_def)

lemma addFinalizer_mem [simp]: "f \<in> set (addFinalizer fs f)"
  by (simp add: addFinalizer_def)

lemma Sync_replicas: "cs_Replicas (mc_Spec (ou_Cluster ou)) \<noteq> None \<Longrightarrow> Sync svc now ou \<noteq> Inl NilReplicas"
  by (auto simp: Sync_def Let_def split: sum.splits option.splits prod.splits)

lemma finalizer_mutate_live:
  assumes "distinct (mc_Finalizers c)" and "finalizer_mutate svc c = Some c'"
  shows "mc_DeletionTimestamp c' = mc_DeletionTimestamp c"
    and "mc_DeletionTimestamp c = None \<Longrightarrow> FinalizerOrchestrator \<in> set (mc_Finalizers c')"
proof -
  show "mc_DeletionTimestamp c' = mc_DeletionTimestamp c"
    using assms(2) by (auto simp: finalizer_mutate_def Let_def split: option.splits if_splits sum.splits)
  show "mc_DeletionTimestamp c = None \<Longrightarrow> FinalizerOrchestrator \<in> set (mc_Finalizers c')"
    using finalizer_spec [OF assms(1), of svc] assms(2) by auto
qed

lemma sync_finalizer_cases:
  assumes "sync_finalizer api svc c = (evs, Inr c')" and "keeps_meta api"
  obtains fresh stored where "oa_GetAgain api = Inr (Some fresh) \<or> oa_GetAgain api = Inr None \<and> fresh = c"
    "finalizer_mutate svc fresh = Some stored" "mc_Finalizers c' = mc_Finalizers stored"
    "mc_DeletionTimestamp c' = mc_DeletionTimestamp stored"
  using assms unfolding sync_finalizer_def keeps_meta_def
  by (auto split: sum.splits option.splits if_splits)

lemma orc_Reconcile_cases:
  assumes "orc_Reconcile api svc now = (evs, out)"
  obtains "evs = []" "out \<noteq> ReconcilePanic" | (finalizer) evs0 c where "oa_Get api = Inr (Some c)" "sync_finalizer api svc c = (evs0, Inl out)" "evs = evs0"
  | (failed) evs0 c c' where "oa_Get api = Inr (Some c)" "sync_finalizer api svc c = (evs0, Inr c')" "evs = evs0"
      "out = ReconcilePanic \<longrightarrow> Sync svc now (mk_updater (SetDefaults_MysqlCluster c')) = Inl NilReplicas"
  | (synced) evs0 c c' ou where "oa_Get api = Inr (Some c)" "sync_finalizer api svc c = (evs0, Inr c')"
      "Sync svc now (mk_updater (SetDefaults_MysqlCluster c')) = Inr ou" "out \<noteq> ReconcilePanic"
      "evs = evs0 @ map OrcRequest (ou_Calls ou) @ map RecoveryEvent (ou_Events ou) @
         (if mc_Status c \<noteq> mc_Status (ou_Cluster ou) \<and> mc_DeletionTimestamp (ou_Cluster ou) = None
          then [SaveStatus (ou_Cluster ou)] else [])"
proof (cases "oa_Get api")
  case (Inl err)
  with assms that(1) show ?thesis by (auto simp: orc_Reconcile_def)
next
  case (Inr oc)
  show ?thesis
  proof (cases oc)
    case None
    with Inr assms that(1) show ?thesis by (auto simp: orc_Reconcile_def)
  next
    case (Some c)
    obtain evs0 r where f: "sync_finalizer api svc c = (evs0, r)" by (cases "sync_finalizer api svc c")
    show ?thesis
    proof (cases r)
      case (Inl out')
      with f Inr Some assms that(2) show ?thesis by (simp add: orc_Reconcile_def)
    next
      case r: (Inr c')
      show ?thesis
      proof (cases "Sync svc now (mk_updater (SetDefaults_MysqlCluster c'))")
        case (Inl err)
        with f r Inr Some assms that(3) show ?thesis
          by (cases err) (auto simp: orc_Reconcile_def)
      next
        case ou: (Inr ou)
        show ?thesis
          by (rule that(4) [of c evs0 c' ou])
            (use f r Inr Some assms ou in \<open>auto simp: orc_Reconcile_def Let_def split: if_splits option.splits\<close>)
      qed
    qed
  qed
qed

lemma sync_finalizer_events:
  "sync_finalizer api svc c = (evs, r) \<Longrightarrow> x \<in> set evs \<Longrightarrow> \<exists>c. x = CreateCluster c \<or> x = UpdateCluster c"
  by (auto simp: sync_finalizer_def split: sum.splits option.splits if_splits)

text \<open>
  Property C9. A node is registered in Orchestrator only for a cluster that is not being deleted and whose stored
  object carries the finalizer, so that the cluster cannot go before its nodes are forgotten.
\<close>

theorem registered_nodes_protected:
  assumes "orc_Reconcile api svc now = (evs, out)" and "OrcRequest (Discover h p) \<in> set evs"
    and "keeps_meta api"
    and "\<And>c. oa_Get api = Inr (Some c) \<or> oa_GetAgain api = Inr (Some c) \<Longrightarrow> distinct (mc_Finalizers c)"
  shows "\<exists>c evs' stored. oa_Get api = Inr (Some c) \<and> sync_finalizer api svc c = (evs', Inr stored) \<and>
    FinalizerOrchestrator \<in> set (mc_Finalizers stored) \<and> mc_DeletionTimestamp stored = None"
  using assms(1)
proof (cases rule: orc_Reconcile_cases)
  case (synced evs0 c c' ou)
  have "Discover h p \<in> set (ou_Calls ou)"
    using synced(5) assms(2) sync_finalizer_events [OF synced(2)] by (auto split: if_splits)
  then have live: "mc_DeletionTimestamp c' = None"
    using discover_live [OF synced(3)] by simp
  obtain fresh stored where fresh: "oa_GetAgain api = Inr (Some fresh) \<or> oa_GetAgain api = Inr None \<and> fresh = c"
    and stored: "finalizer_mutate svc fresh = Some stored" "mc_Finalizers c' = mc_Finalizers stored"
      "mc_DeletionTimestamp c' = mc_DeletionTimestamp stored"
    using sync_finalizer_cases [OF synced(2) assms(3)] .
  have "distinct (mc_Finalizers fresh)" using fresh assms(4) synced(1) by auto
  from finalizer_mutate_live [OF this stored(1)] stored(2,3) live
  have "FinalizerOrchestrator \<in> set (mc_Finalizers c')" by simp
  with synced(1,2) live show ?thesis by blast
qed (use assms(2) in \<open>auto dest: sync_finalizer_events\<close>)

text \<open>
  The controller does not panic: with no duplicate among the finalizers the removal of the old name stays in
  bounds, and the defaults set the number of replicas before the updater reads it.
\<close>

theorem orc_reconcile_no_panic:
  assumes "\<And>c. oa_Get api = Inr (Some c) \<or> oa_GetAgain api = Inr (Some c) \<Longrightarrow> distinct (mc_Finalizers c)"
  shows "snd (orc_Reconcile api svc now) \<noteq> ReconcilePanic"
proof -
  obtain evs out where r: "orc_Reconcile api svc now = (evs, out)" by (cases "orc_Reconcile api svc now")
  have mutate: "finalizer_mutate svc c \<noteq> None"
    if "oa_Get api = Inr (Some c) \<or> oa_GetAgain api = Inr (Some c)" for c
    using finalizer_spec [OF assms [OF that], of svc] by auto
  have fin: "sync_finalizer api svc c \<noteq> (evs0, Inl ReconcilePanic)" if "oa_Get api = Inr (Some c)" for c evs0
    using that unfolding sync_finalizer_def
    by (auto simp: mutate split: sum.splits option.splits if_splits)
  from r have "out \<noteq> ReconcilePanic"
    by (cases rule: orc_Reconcile_cases) (use fin Sync_replicas in auto)
  with r show ?thesis by simp
qed

section \<open>A failover in progress\<close>

lemma helper_condition:
  assumes "UpdateClusterFailoverCond api now name reason msg True = (effs, err)" and "HelperStatus c \<in> set effs"
  shows "failoverInProgress c"
  using assms
  by (auto simp: UpdateClusterFailoverCond_def failoverInProgress_def GetClusterCondition_update Let_def
      split: sum.splits)

lemma failover_no_modes:
  assumes "Sync svc now ou = Inr ou'" and "ou_Calls ou = []" and "failoverInProgress (ou_Cluster ou)"
  shows "SetHostWritable k \<notin> set (ou_Calls ou') \<and> SetHostReadOnly k \<notin> set (ou_Calls ou')"
proof -
  obtain insts master n comment and und rem :: "instance_key list" where
    "ou_Calls ou' = ou_Calls ou @ map (\<lambda>k. Discover (ik_Hostname k) (ik_Port k)) und @
       mode_calls (ou_Cluster ou) insts master @
       (if ready_longer_than now (ou_Cluster ou') forgetGraceTime \<or> mc_DeletionTimestamp (ou_Cluster ou') \<noteq> None
        then map (\<lambda>k. Forget (ik_Hostname k) (ik_Port k)) rem else []) @
       map (\<lambda>r. AckRecovery (tr_Id r) comment)
         (take n (getRecoveriesToAck now (ou_Cluster ou') (found_recoveries svc (ou_Cluster ou))))"
    using assms(1) by (rule Sync_split) blast
  with assms(2,3) show ?thesis by (auto simp: mode_calls_def)
qed

text \<open>
  After the hook \<^verbatim>\<open>failover-in-progress\<close> of the service, the next run of the controller on the stored
  cluster does not change which nodes are writable.
\<close>

theorem failover_hook_stops_writes:
  assumes "fip_command api now args = (effs, err)" and "HelperStatus c \<in> set effs"
    and "mc_Status c' = mc_Status c" and "Sync svc now' (mk_updater (SetDefaults_MysqlCluster c')) = Inr ou"
  shows "SetHostWritable k \<notin> set (ou_Calls ou) \<and> SetHostReadOnly k \<notin> set (ou_Calls ou)"
proof -
  have "failoverInProgress c"
    using assms(1,2) by (auto simp: fip_command_def split: list.splits prod.splits dest: helper_condition)
  then have fip: "failoverInProgress (SetDefaults_MysqlCluster c')"
    using assms(3) by (simp add: failoverInProgress_def GetClusterCondition_find)
  with failover_no_modes [OF assms(4)] show ?thesis by simp
qed

section \<open>The names of clusters\<close>

text \<open>
  The helper finds the cluster from the name the operator registers it under exactly when neither its name
  nor its namespace has a dot.
\<close>

theorem helper_finds_cluster:
  "orcNameToKey (GetClusterAlias c) = Inr \<lparr>nn_Name = mc_Name c, nn_Namespace = mc_Namespace c\<rparr> \<longleftrightarrow>
     CHR ''.'' \<notin> set (mc_Name c) \<and> CHR ''.'' \<notin> set (mc_Namespace c)"
proof (cases "CHR ''.'' \<notin> set (mc_Name c) \<and> CHR ''.'' \<notin> set (mc_Namespace c)")
  case True
  then show ?thesis
    by (simp add: orcNameToKey_def GetClusterAlias_def split_char_append split_char_absent)
next
  case False
  then have "length (split_char (CHR ''.'') (GetClusterAlias c)) > 2"
    by (auto simp: length_split_char GetClusterAlias_def filter_empty_conv intro: Suc_lessI)
  with False show ?thesis
    by (auto simp: orcNameToKey_def split: list.splits)
qed

section \<open>Every registered cluster is scheduled\<close>

text \<open>The keys on their way: in the work queue, in the channel, in the walk.\<close>

definition pipeline :: "cluster_registry \<Rightarrow> cluster_key list" where
  "pipeline s = cr_Queue s @ map getKey (cr_Events s) @ map getKey (cr_Walk s)"

definition registry_ok :: "cluster_registry \<Rightarrow> bool" where
  "registry_ok s \<longleftrightarrow>
     distinct (map fst (cr_Clusters s)) \<and> (\<forall>(k, c) \<in> set (cr_Clusters s). k = getKey c) \<and>
     length (cr_Events s) \<le> events_capacity"

fun scheduled :: "registry_event \<Rightarrow> cluster_key list" where
  "scheduled (Tick order) = map getKey order"
| "scheduled _ = []"

lemma registry_step_pipeline: "registry_step e s = Some s' \<Longrightarrow> pipeline s' = pipeline s @ scheduled e"
  by (cases "(e, s)" rule: registry_step.cases) (auto simp: pipeline_def split: if_splits list.splits)

lemma registry_run_pipeline:
  "registry_run es s = Some s' \<Longrightarrow> pipeline s' = pipeline s @ concat (map scheduled es)"
  by (induction es arbitrary: s)
    (auto simp: bind_eq_Some_conv dest!: registry_step_pipeline)

lemma set_alist_update: "set (AList.update k v al) \<subseteq> insert (k, v) (set al)"
  by (induction al) auto

lemma registry_step_ok:
  assumes "registry_step e s = Some s'" and "registry_ok s"
  shows "registry_ok s'"
proof (cases "(e, s)" rule: registry_step.cases)
  case (2 c s0)
  then have e: "e = CreateFunc (Some c)" and s': "s' = s\<lparr>cr_Clusters := AList.update (getKey c) c (cr_Clusters s)\<rparr>"
    using assms(1) by auto
  show ?thesis
    using assms(2) set_alist_update [of "getKey c" c "cr_Clusters s"] unfolding s' registry_ok_def
    by (auto simp: AList.distinct_update)
next
  case (4 c s0)
  then have s': "s' = s\<lparr>cr_Clusters := AList.delete (getKey c) (cr_Clusters s)\<rparr>" using assms(1) by auto
  show ?thesis
    using assms(2) unfolding s' registry_ok_def by (auto simp: AList.delete_eq intro: distinct_map_filter)
qed (use assms in \<open>auto simp: registry_ok_def split: if_splits list.splits\<close>)

lemma registry_run_append: "registry_run (es @ fs) s = Option.bind (registry_run es s) (registry_run fs)"
proof (induction es arbitrary: s)
  case Nil
  then show ?case by simp
next
  case (Cons e es)
  then show ?case by (cases "registry_step e s") simp_all
qed

lemma registry_run_ok: "registry_run es s = Some s' \<Longrightarrow> registry_ok s \<Longrightarrow> registry_ok s'"
  by (induction es arbitrary: s) (auto simp: bind_eq_Some_conv intro: registry_step_ok)

lemma empty_registry_ok: "registry_ok empty_registry"
  by (simp add: empty_registry_def registry_ok_def)

lemma flush_events:
  "\<exists>es. set es \<subseteq> {Receive} \<and>
     registry_run es s = Some (s\<lparr>cr_Events := [], cr_Queue := cr_Queue s @ map getKey (cr_Events s)\<rparr>)"
proof (induction "cr_Events s" arbitrary: s)
  case Nil
  then show ?case by (intro exI [of _ "[]"]) simp
next
  case (Cons c cs)
  let ?s = "s\<lparr>cr_Events := cs, cr_Queue := cr_Queue s @ [getKey c]\<rparr>"
  obtain es where "set es \<subseteq> {Receive}"
    "registry_run es ?s = Some (?s\<lparr>cr_Events := [], cr_Queue := cr_Queue ?s @ map getKey (cr_Events ?s)\<rparr>)"
    using Cons.hyps(1) [of ?s] by auto
  with Cons.hyps(2) [symmetric] show ?case by (intro exI [of _ "Receive # es"]) simp
qed

lemma drain_walk:
  "cr_Events s = [] \<Longrightarrow> \<exists>es. set es \<subseteq> {Send, Receive} \<and>
     registry_run es s = Some (s\<lparr>cr_Walk := [], cr_Queue := cr_Queue s @ map getKey (cr_Walk s)\<rparr>)"
proof (induction "cr_Walk s" arbitrary: s)
  case Nil
  then show ?case by (intro exI [of _ "[]"]) simp
next
  case (Cons c cs)
  let ?s = "s\<lparr>cr_Walk := cs, cr_Events := [], cr_Queue := cr_Queue s @ [getKey c]\<rparr>"
  obtain es where "set es \<subseteq> {Send, Receive}"
    "registry_run es ?s = Some (?s\<lparr>cr_Walk := [], cr_Queue := cr_Queue ?s @ map getKey (cr_Walk ?s)\<rparr>)"
    using Cons.hyps(1) [of ?s] by auto
  moreover have "s\<lparr>cr_Events := []\<rparr> = s" using Cons.prems by simp
  ultimately show ?case using Cons.hyps(2) [symmetric] Cons.prems
    by (intro exI [of _ "Send # Receive # es"]) (simp add: events_capacity_def)
qed

lemma registry_keys: "registry_ok s \<Longrightarrow> map fst (cr_Clusters s) = map (getKey \<circ> snd) (cr_Clusters s)"
  by (auto simp: registry_ok_def)


text \<open>The clusters that were created and not deleted since.\<close>

fun live_step :: "registry_event \<Rightarrow> cluster_key set \<Rightarrow> cluster_key set" where
  "live_step (CreateFunc (Some c)) K = insert (getKey c) K"
| "live_step (DeleteFunc (Some c)) K = K - {getKey c}"
| "live_step _ K = K"

definition live_keys :: "registry_event list \<Rightarrow> cluster_key set" where
  "live_keys es = fold live_step es {}"

lemma keys_update: "fst ` set (AList.update k v al) = insert k (fst ` set al)"
  by (induction al) auto

lemma keys_delete: "fst ` set (AList.delete k al) = fst ` set al - {k}"
  by (induction al) auto

lemma registry_step_live:
  assumes "registry_step e s = Some s'"
  shows "fst ` set (cr_Clusters s') = live_step e (fst ` set (cr_Clusters s))"
proof (cases "(e, s)" rule: registry_step.cases)
  case (2 c s0)
  then have "cr_Clusters s' = AList.update (getKey c) c (cr_Clusters s)" and "e = CreateFunc (Some c)"
    using assms by auto
  then show ?thesis by (simp only: keys_update live_step.simps)
next
  case (4 c s0)
  then have "cr_Clusters s' = AList.delete (getKey c) (cr_Clusters s)" and "e = DeleteFunc (Some c)"
    using assms by auto
  then show ?thesis by (simp only: keys_delete live_step.simps)
qed (use assms in \<open>auto split: if_splits list.splits\<close>)

text \<open>
  In every run of the registry its map holds exactly the clusters that were created and not deleted since,
  one entry each, the channel stays within its capacity, and what is in the work queue is what the periods walked over.
\<close>

theorem registry_invariant:
  assumes "registry_run es empty_registry = Some s"
  shows "registry_ok s \<and> fst ` set (cr_Clusters s) = live_keys es \<and> length (cr_Events s) \<le> events_capacity \<and>
    prefix (cr_Queue s) (concat (map scheduled es))"
proof -
  have "fst ` set (cr_Clusters s) = live_keys es \<and> pipeline s = concat (map scheduled es)"
    using assms
  proof (induction es arbitrary: s rule: rev_induct)
    case Nil
    then show ?case by (auto simp: empty_registry_def live_keys_def pipeline_def)
  next
    case (snoc e es)
    then obtain t where t: "registry_run es empty_registry = Some t" "registry_step e t = Some s"
      by (auto simp: registry_run_append bind_eq_Some_conv)
    have "fst ` set (cr_Clusters s) = live_keys (es @ [e])"
      using registry_step_live [OF t(2)] snoc.IH [OF t(1)] by (simp add: live_keys_def)
    with registry_step_pipeline [OF t(2)] snoc.IH [OF t(1)] show ?case by simp
  qed
  moreover have "registry_ok s" using registry_run_ok [OF assms empty_registry_ok] .
  moreover have "prefix (cr_Queue s) (pipeline s)" by (simp add: pipeline_def)
  ultimately show ?thesis by (simp add: registry_ok_def)
qed

section \<open>A period ends\<close>

text \<open>The work that is left in a period: two moves for an entry of the walk, one for an event in the channel.\<close>

definition period_work :: "cluster_registry \<Rightarrow> nat" where
  "period_work s = 2 * length (cr_Walk s) + length (cr_Events s)"

lemma move_decreases:
  "e \<in> {Send, Receive} \<Longrightarrow> registry_step e s = Some s' \<Longrightarrow> Suc (period_work s') = period_work s"
  by (auto simp: period_work_def split: list.splits if_splits)

lemma move_possible:
  assumes "0 < period_work s" and "length (cr_Events s) \<le> events_capacity"
  shows "registry_step Send s \<noteq> None \<or> registry_step Receive s \<noteq> None"
  using assms by (cases "cr_Events s"; cases "cr_Walk s") (auto simp: period_work_def events_capacity_def)

lemma run_work:
  "set es \<subseteq> {Send, Receive} \<Longrightarrow> registry_run es s = Some s' \<Longrightarrow> length es + period_work s' = period_work s"
proof (induction es arbitrary: s)
  case Nil
  then show ?case by simp
next
  case (Cons e es)
  from Cons.prems(2) obtain t where t: "registry_step e s = Some t" "registry_run es t = Some s'"
    by (auto simp: bind_eq_Some_conv)
  have "e \<in> {Send, Receive}" using Cons.prems(1) by simp
  from move_decreases [OF this t(1)] Cons.IH [OF _ t(2)] Cons.prems(1) show ?case by simp
qed

text \<open>
  A period ends: in whatever order events are sent and received, never more than two moves for an entry of
  the walk and one for an event in the channel are made, and as long as one of them is left a move is possible, so the sender
  and the receiver never wait for each other.
\<close>

theorem period_ends:
  assumes "registry_ok s" and "set es \<subseteq> {Send, Receive}" and "registry_run es s = Some s'"
  shows "length es \<le> 2 * length (cr_Walk s) + length (cr_Events s) \<and>
    (length es = 2 * length (cr_Walk s) + length (cr_Events s) \<longleftrightarrow> cr_Walk s' = [] \<and> cr_Events s' = []) \<and>
    (cr_Walk s' = [] \<and> cr_Events s' = [] \<or> registry_step Send s' \<noteq> None \<or> registry_step Receive s' \<noteq> None)"
proof -
  have work: "length es + period_work s' = period_work s" by (rule run_work [OF assms(2,3)])
  have zero: "period_work s' = 0 \<longleftrightarrow> cr_Walk s' = [] \<and> cr_Events s' = []" by (simp add: period_work_def)
  have "length (cr_Events s') \<le> events_capacity"
    using registry_run_ok [OF assms(3,1)] by (simp add: registry_ok_def)
  with move_possible [of s'] zero have "cr_Walk s' = [] \<and> cr_Events s' = [] \<or> registry_step Send s' \<noteq> None \<or> registry_step Receive s' \<noteq> None"
    by auto
  moreover have "length es = period_work s \<longleftrightarrow> cr_Walk s' = [] \<and> cr_Events s' = []" using work zero by linarith
  ultimately show ?thesis using work unfolding period_work_def [of s] by linarith
qed

section \<open>Concrete runs\<close>

definition ref_registry :: cluster_registry where
  "ref_registry = \<lparr>cr_Clusters = [(getKey ref_cluster, ref_cluster)], cr_Walk = [], cr_Events = [ref_cluster], cr_Queue = []\<rparr>"

lemma ref_registry_ok: "registry_ok ref_registry"
  by (simp add: ref_registry_def registry_ok_def events_capacity_def)


theorem registry_invariant_witness:
  "live_keys [CreateFunc (Some ref_cluster), Tick [ref_cluster], Send] = {''ns/db''}"
proof -
  let ?es = "[CreateFunc (Some ref_cluster), Tick [ref_cluster], Send]"
  obtain s where "registry_run ?es empty_registry = Some s" and "cr_Clusters s = [(''ns/db'', ref_cluster)]"
    by (simp add: empty_registry_def events_capacity_def getKey_def ref_cluster_def)
  with registry_invariant [of ?es s] show ?thesis by simp
qed

theorem period_ends_witness:
  "\<exists>s'. registry_run [Receive] ref_registry = Some s' \<and> cr_Walk s' = [] \<and> cr_Events s' = []"
proof -
  obtain s' where s': "registry_run [Receive] ref_registry = Some s'" by (simp add: ref_registry_def)
  with period_ends [OF ref_registry_ok _ s'] show ?thesis by (simp add: ref_registry_def)
qed

definition ref_orc_api :: orc_api where
  "ref_orc_api =
     \<lparr>oa_Get = Inr (Some ref_cluster), oa_GetAgain = Inr (Some ref_cluster), oa_Create = Inr, oa_Update = Inr,
      oa_UpdateStatus = (\<lambda>_. None)\<rparr>"

theorem orc_reconcile_no_panic_witness: "snd (orc_Reconcile ref_orc_api ref_service 0) \<noteq> ReconcilePanic"
  by (rule orc_reconcile_no_panic) (auto simp: ref_orc_api_def ref_cluster_def)

definition ref_helper :: helper_api where
  "ref_helper =
     \<lparr>ha_Get = (\<lambda>_. Inr ref_cluster), ha_UpdateStatus = (\<lambda>_. None), ha_Reference = (\<lambda>_. Inr ''ref''),
      ha_Random = Inr ''abcde'', ha_Create = (\<lambda>_. None)\<rparr>"

theorem failover_hook_stops_writes_witness:
  "\<exists>c ou. HelperStatus c \<in> set (fst (fip_command ref_helper 0 [''db.ns'', ''m''])) \<and>
     Sync ref_service 0 (mk_updater (SetDefaults_MysqlCluster c)) = Inr ou \<and>
     SetHostWritable \<lparr>ik_Hostname = ''db-mysql-0.mysql.ns'', ik_Port = 3306\<rparr> \<notin> set (ou_Calls ou)"
proof -
  let ?c = "UpdateStatusCondition 0 ref_cluster ClusterConditionFailoverInProgress ConditionTrue ''OrcFailoverInProgress'' ''m''"
  have "split_char (CHR ''.'') ''db.ns'' = [''db'', ''ns'']" by code_simp
  then have e: "fip_command ref_helper 0 [''db.ns'', ''m''] = ([HelperStatus ?c], None)"
    by (simp add: fip_command_def UpdateClusterFailoverCond_def orcNameToKey_def ref_helper_def)
  have "getFromOrchestrator ref_service (SetDefaults_MysqlCluster ?c) = getFromOrchestrator ref_service (ou_Cluster ref_updater)"
    by (simp add: getFromOrchestrator_def ref_service_def)
  then obtain ou where s: "Sync ref_service 0 (mk_updater (SetDefaults_MysqlCluster ?c)) = Inr ou"
    using ref_answers defaults_meta(4) [of ?c]
    by (auto simp: Sync_def Let_def case_prod_beta simp del: defaults_meta(4))
  from failover_hook_stops_writes [OF e _ refl s] show ?thesis
    using e s by (intro exI [of _ ?c] exI [of _ ou]) simp
qed

text \<open>A cluster with one ready node that the service does not know yet.\<close>

definition ref_new :: mysql_cluster where
  "ref_new = ref_cluster\<lparr>mc_Finalizers := [FinalizerOrchestrator],
     mc_Status := (mc_Status ref_cluster)\<lparr>st_ReadyNodes := 1\<rparr>\<rparr>"

definition ref_new_api :: orc_api where
  "ref_new_api =
     \<lparr>oa_Get = Inr (Some ref_new), oa_GetAgain = Inr (Some ref_new), oa_Create = Inr, oa_Update = Inr,
      oa_UpdateStatus = (\<lambda>_. None)\<rparr>"

definition ref_no_nodes :: orc_service where
  "ref_no_nodes =
     \<lparr>os_Cluster = (\<lambda>_. Inr []), os_Master = (\<lambda>_. Inl (OrcError ''No masters found'')),
      os_AuditRecovery = (\<lambda>_. Inr []), os_AckRecovery = (\<lambda>_ _ _. None)\<rparr>"

lemma ref_new_run:
  obtains evs out h p where "orc_Reconcile ref_new_api ref_no_nodes 0 = (evs, out)"
    and "OrcRequest (Discover h p) \<in> set evs"
proof -
  let ?d = "SetDefaults_MysqlCluster ref_new"
  let ?key = "\<lparr>ik_Hostname = GetPodHostname ?d 0, ik_Port = mysqlPort\<rparr>"
  have fin: "sync_finalizer ref_new_api ref_no_nodes ref_new = ([], Inr ref_new)"
    by (simp add: sync_finalizer_def ref_new_api_def ref_new_def ref_cluster_def finalizer_mutate_def addFinalizer_def
        removeFinalizer_def upt_rec const_defs OldOrchestratorFinalizer_def)
  have q: "getFromOrchestrator ref_no_nodes ?d = Inr ([], None)"
    by (simp add: getFromOrchestrator_def ref_no_nodes_def contains_def DetermineMaster_def)
  have r: "cs_Replicas (mc_Spec ?d) = Some 3"
    by (simp add: SetDefaults_MysqlCluster_def ref_new_def ref_cluster_def ref_spec_def Let_def)
  have u: "updateNodesInOrc ?d 3 [] = ([], [?key], [])"
    by (simp add: updateNodesInOrc_def upt_rec GetInstance_def Let_def ref_new_def ref_cluster_def)
  obtain ou where s: "Sync ref_no_nodes 0 (mk_updater ?d) = Inr ou"
    by (rule Sync_total [of ref_no_nodes "mk_updater ?d"]) (use q r in simp_all)
  from s have "Discover (ik_Hostname ?key) (ik_Port ?key) \<in> set (ou_Calls ou)"
    by (rule Sync_split) (use q r u in auto)
  moreover obtain evs out where e: "orc_Reconcile ref_new_api ref_no_nodes 0 = (evs, out)"
    by (cases "orc_Reconcile ref_new_api ref_no_nodes 0")
  ultimately have "OrcRequest (Discover (ik_Hostname ?key) (ik_Port ?key)) \<in> set evs"
    using fin s by (auto simp: orc_Reconcile_def ref_new_api_def Let_def split: if_splits)
  with e that show thesis by blast
qed

theorem registered_nodes_protected_witness:
  "\<exists>c evs' stored. sync_finalizer ref_new_api ref_no_nodes c = (evs', Inr stored) \<and>
     FinalizerOrchestrator \<in> set (mc_Finalizers stored)"
proof -
  obtain evs out h p where r: "orc_Reconcile ref_new_api ref_no_nodes 0 = (evs, out)"
    and d: "OrcRequest (Discover h p) \<in> set evs" by (rule ref_new_run)
  have "keeps_meta ref_new_api" by (simp add: keeps_meta_def ref_new_api_def)
  from registered_nodes_protected [OF r d this] show ?thesis
    by (auto simp: ref_new_api_def ref_new_def)
qed

end
