(* ===== verification/OrcFake.thy ===== *)
theory OrcFake
  imports OrcCtl
begin

text \<open>
  The service in memory that the tests of the operator run against, \<^verbatim>\<open>pkg/orchestrator/fake/client.go\<close>, and what
  the updater makes of it: the controller in a closed loop with a service that does what it is asked
  to. The map of the clusters is a list of entries in the order of Go's iteration; the instances, which the map
  holds by pointer, are values, because nothing but the client writes to them during a run.
\<close>

section \<open>The service\<close>

record fake_orc =
  fo_Clusters :: "(string \<times> orc_instance list) list"
  fo_Recoveries :: "string \<rightharpoonup> topology_recovery list"
  fo_AckRec :: "int list"
  fo_Discovered :: "instance_key list"
  fo_reachable :: bool
  fo_nextID :: int

definition fake_New :: "int \<Rightarrow> fake_orc" where
  "fake_New nextID =
     \<lparr>fo_Clusters = [], fo_Recoveries = Map.empty, fo_AckRec = [], fo_Discovered = [], fo_reachable = True, fo_nextID = nextID\<rparr>"

definition fake_Reset :: "fake_orc \<Rightarrow> fake_orc" where
  "fake_Reset fo = fo\<lparr>fo_Clusters := [], fo_Recoveries := Map.empty, fo_AckRec := [], fo_Discovered := []\<rparr>"

definition MakeOrcUnreachable :: "fake_orc \<Rightarrow> fake_orc" where
  "MakeOrcUnreachable fo = fo\<lparr>fo_reachable := False\<rparr>"

definition AddInstance :: "string \<Rightarrow> orc_instance \<Rightarrow> fake_orc \<Rightarrow> fake_orc" where
  "AddInstance cluster inst fo =
     (let inst = inst\<lparr>oi_Key := (oi_Key inst)\<lparr>ik_Port := 3306\<rparr>, oi_MasterKey := (oi_MasterKey inst)\<lparr>ik_Port := 3306\<rparr>\<rparr> in
      case map_of (fo_Clusters fo) cluster of
        Some insts \<Rightarrow> fo\<lparr>fo_Clusters := AList.update cluster (insts @ [inst]) (fo_Clusters fo)\<rparr>
      | None \<Rightarrow> fo\<lparr>fo_Clusters := AList.update cluster [inst] (fo_Clusters fo)\<rparr>)"

text \<open>The last instance of the host is removed.\<close>

definition RemoveInstance :: "string \<Rightarrow> string \<Rightarrow> fake_orc \<Rightarrow> fake_orc" where
  "RemoveInstance cluster host fo =
     (case map_of (fo_Clusters fo) cluster of
        None \<Rightarrow> fo
      | Some instances \<Rightarrow>
          (case find (\<lambda>i. host_of (instances ! i) = host) (rev [0..<length instances]) of
             None \<Rightarrow> fo
           | Some index \<Rightarrow>
               let left = take index instances @ drop (Suc index) instances in
               fo\<lparr>fo_Clusters :=
                   (if left = [] then AList.delete cluster (fo_Clusters fo) else AList.update cluster left (fo_Clusters fo))\<rparr>))"

definition zero_recovery :: topology_recovery where
  "zero_recovery = \<lparr>tr_Id = 0, tr_UID = [], tr_IsSuccessful = False, tr_RecoveryStartTimestamp = [], tr_Acknowledged = False\<rparr>"

text \<open>
  The recovery that is appended to the others of the cluster is lost with them: the last assignment puts the new one in
  their place.
\<close>

definition AddRecoveries :: "string \<Rightarrow> bool \<Rightarrow> fake_orc \<Rightarrow> int \<times> fake_orc" where
  "AddRecoveries cluster ack fo =
     (let i = to_int64 (fo_nextID fo + 1);
          tr = zero_recovery\<lparr>tr_Id := i, tr_Acknowledged := ack, tr_RecoveryStartTimestamp := ''2018-05-16T13:15:05Z''\<rparr>;
          rs = (case fo_Recoveries fo cluster of
                  Some rs \<Rightarrow> (fo_Recoveries fo)(cluster \<mapsto> rs @ [tr]) | None \<Rightarrow> fo_Recoveries fo)
      in (i, fo\<lparr>fo_nextID := i, fo_Recoveries := rs(cluster \<mapsto> [tr])\<rparr>))"

definition CheckAck :: "int \<Rightarrow> fake_orc \<Rightarrow> bool" where
  "CheckAck i fo = list_ex (\<lambda>a. a = i) (fo_AckRec fo)"

definition CheckDiscovered :: "string \<Rightarrow> fake_orc \<Rightarrow> bool" where
  "CheckDiscovered key fo = list_ex (\<lambda>d. ik_Hostname d = key) (fo_Discovered fo)"

text \<open>
  The expression \<^verbatim>\<open>^([\w-]+)-mysql-\d*.mysql.([\w-]+)$\<close>, whose dots stand for any character but a line break: its
  repetitions take as much as they can. Without a match the index of the submatches panics (None).
\<close>

fun first_some :: "'a option list \<Rightarrow> 'a option" where
  "first_some [] = None"
| "first_some (None # xs) = first_some xs"
| "first_some (Some x # xs) = Some x"

definition match_domain :: "string \<Rightarrow> string option" where
  "match_domain s =
     (case s of
        [] \<Rightarrow> None
      | x # r \<Rightarrow>
          (case strip_prefix ''mysql'' r of
             Some (y # g) \<Rightarrow>
               if x \<noteq> CHR 0x0A \<and> y \<noteq> CHR 0x0A \<and> g \<noteq> [] \<and> list_all is_word_or_dash g then Some g else None
           | _ \<Rightarrow> None))"

definition match_ordinal :: "string \<Rightarrow> string option" where
  "match_ordinal s = first_some (map (\<lambda>n. match_domain (drop n s)) (rev [0..<Suc (length (takeWhile is_digit s))]))"

definition match_host :: "string \<Rightarrow> (string \<times> string) option" where
  "match_host host =
     first_some (map (\<lambda>n.
       if list_all is_word_or_dash (take n host)
       then (case strip_prefix ''-mysql-'' (drop n host) of
               None \<Rightarrow> None
             | Some r \<Rightarrow> map_option (Pair (take n host)) (match_ordinal r))
       else None) (rev [1..<Suc (length host)]))"

definition getHostClusterAlias :: "string \<Rightarrow> string option" where
  "getHostClusterAlias host = map_option (\<lambda>(name, ns). name @ ''.'' @ ns) (match_host host)"

definition not_connected :: orc_error where
  "not_connected = OrcError (''can'' @ [CHR 0x27] @ ''t connect to orc'')"

text \<open>A call returns its error and the service, or it panics.\<close>

definition fake_Discover :: "string \<Rightarrow> int \<Rightarrow> fake_orc \<Rightarrow> (orc_error option \<times> fake_orc) option" where
  "fake_Discover host port fo =
     (if \<not> fo_reachable fo then Some (Some not_connected, fo)
      else
        let fo = fo\<lparr>fo_Discovered := fo_Discovered fo @ [\<lparr>ik_Hostname = host, ik_Port = port\<rparr>]\<rparr>;
            readOnly = (\<not> contains host ''-0'')
        in case getHostClusterAlias host of
             None \<Rightarrow> None
           | Some cluster \<Rightarrow>
               Some (None, AddInstance cluster
                 (zero_instance\<lparr>oi_Key := zero_key\<lparr>ik_Hostname := host\<rparr>, oi_ReadOnly := readOnly, oi_SlaveLagSeconds := None,
                    oi_IsUpToDate := True, oi_IsRecentlyChecked := True, oi_IsLastCheckValid := True\<rparr>) fo))"

definition fake_Forget :: "string \<Rightarrow> int \<Rightarrow> fake_orc \<Rightarrow> (orc_error option \<times> fake_orc) option" where
  "fake_Forget host port fo =
     (if \<not> fo_reachable fo then Some (Some not_connected, fo)
      else case getHostClusterAlias host of
        None \<Rightarrow> None
      | Some cluster \<Rightarrow> Some (None, RemoveInstance cluster host fo))"

definition fake_Master :: "string \<Rightarrow> fake_orc \<Rightarrow> (orc_error, orc_instance) result" where
  "fake_Master clusterHint fo =
     (if \<not> fo_reachable fo then Inl not_connected
      else case map_of (fo_Clusters fo) clusterHint of
        None \<Rightarrow> Inl (OrcError ''Unable to determine cluster name'')
      | Some insts \<Rightarrow>
          (case find (\<lambda>i. \<not> oi_ReadOnly i) insts of Some inst \<Rightarrow> Inr inst | None \<Rightarrow> Inl (OrcError ''No masters found'')))"

definition fake_Cluster :: "string \<Rightarrow> fake_orc \<Rightarrow> (orc_error, orc_instance list) result" where
  "fake_Cluster cluster fo =
     (if \<not> fo_reachable fo then Inl not_connected
      else case map_of (fo_Clusters fo) cluster of
        None \<Rightarrow> Inl (OrcError ''Unable to determine cluster name'')
      | Some insts \<Rightarrow> Inr insts)"

definition fake_AuditRecovery :: "string \<Rightarrow> fake_orc \<Rightarrow> (orc_error, topology_recovery list) result" where
  "fake_AuditRecovery cluster fo =
     (if \<not> fo_reachable fo then Inl not_connected
      else case fo_Recoveries fo cluster of
        None \<Rightarrow> Inl (OrcError ''Unable to determine cluster name'')
      | Some recoveries \<Rightarrow> Inr recoveries)"

definition fake_AckRecovery :: "int \<Rightarrow> string \<Rightarrow> fake_orc \<Rightarrow> orc_error option \<times> fake_orc" where
  "fake_AckRecovery i comment fo =
     (if \<not> fo_reachable fo then (Some not_connected, fo) else (None, fo\<lparr>fo_AckRec := fo_AckRec fo @ [i]\<rparr>))"

text \<open>The first instance of the host, over all clusters.\<close>

fun mode_in :: "bool \<Rightarrow> string \<Rightarrow> orc_instance list \<Rightarrow> orc_instance list option" where
  "mode_in ro h [] = None"
| "mode_in ro h (i # is) = (if host_of i = h then Some (i\<lparr>oi_ReadOnly := ro\<rparr> # is) else map_option (Cons i) (mode_in ro h is))"

fun mode_of_clusters ::
    "bool \<Rightarrow> string \<Rightarrow> (string \<times> orc_instance list) list \<Rightarrow> (string \<times> orc_instance list) list option" where
  "mode_of_clusters ro h [] = None"
| "mode_of_clusters ro h ((a, is) # cs) =
     (case mode_in ro h is of
        Some is' \<Rightarrow> Some ((a, is') # cs)
      | None \<Rightarrow> map_option (Cons (a, is)) (mode_of_clusters ro h cs))"

definition fake_mode :: "bool \<Rightarrow> instance_key \<Rightarrow> fake_orc \<Rightarrow> orc_error option \<times> fake_orc" where
  "fake_mode ro key fo =
     (if \<not> fo_reachable fo then (Some not_connected, fo)
      else case mode_of_clusters ro (ik_Hostname key) (fo_Clusters fo) of
        None \<Rightarrow> (Some (OtherError ''the desired host and port was not found''), fo)
      | Some cs \<Rightarrow> (None, fo\<lparr>fo_Clusters := cs\<rparr>))"

definition fake_SetHostWritable :: "instance_key \<Rightarrow> fake_orc \<Rightarrow> orc_error option \<times> fake_orc" where
  "fake_SetHostWritable key fo = fake_mode False key fo"

definition fake_SetHostReadOnly :: "instance_key \<Rightarrow> fake_orc \<Rightarrow> orc_error option \<times> fake_orc" where
  "fake_SetHostReadOnly key fo = fake_mode True key fo"

definition fake_BeginMaintenance :: "instance_key \<Rightarrow> string \<Rightarrow> string \<Rightarrow> orc_error option" where
  "fake_BeginMaintenance key owner reason = None"

definition fake_EndMaintenance :: "instance_key \<Rightarrow> orc_error option" where
  "fake_EndMaintenance key = None"

definition fake_Maintenance :: "(orc_error, maintenance list) result" where
  "fake_Maintenance = Inr []"

section \<open>The closed loop\<close>

text \<open>The answers of the service in one run of the updater, and the effect of the calls the run makes.\<close>

definition fake_service :: "fake_orc \<Rightarrow> orc_service" where
  "fake_service fo =
     \<lparr>os_Cluster = (\<lambda>a. fake_Cluster a fo), os_Master = (\<lambda>a. fake_Master a fo),
      os_AuditRecovery = (\<lambda>a. fake_AuditRecovery a fo), os_AckRecovery = (\<lambda>calls i s. fst (fake_AckRecovery i s fo))\<rparr>"

fun fake_act :: "orc_call \<Rightarrow> fake_orc \<Rightarrow> fake_orc option" where
  "fake_act (Discover h p) fo = map_option snd (fake_Discover h p fo)"
| "fake_act (Forget h p) fo = map_option snd (fake_Forget h p fo)"
| "fake_act (AckRecovery i s) fo = Some (snd (fake_AckRecovery i s fo))"
| "fake_act (SetHostWritable k) fo = Some (snd (fake_SetHostWritable k fo))"
| "fake_act (SetHostReadOnly k) fo = Some (snd (fake_SetHostReadOnly k fo))"

fun act_all :: "('c \<Rightarrow> 'w \<Rightarrow> 'w option) \<Rightarrow> 'c list \<Rightarrow> 'w \<Rightarrow> 'w option" where
  "act_all act [] w = Some w"
| "act_all act (x # xs) w = Option.bind (act x w) (act_all act xs)"

definition orc_round :: "time \<Rightarrow> mysql_cluster \<times> fake_orc \<Rightarrow> (mysql_cluster \<times> fake_orc) option" where
  "orc_round now s =
     (case Sync (fake_service (snd s)) now (mk_updater (fst s)) of
        Inl err \<Rightarrow> None
      | Inr ou \<Rightarrow> map_option (Pair (ou_Cluster ou)) (act_all fake_act (ou_Calls ou) (snd s)))"

section \<open>A service that does what it is asked to\<close>

fun mode_after :: "orc_call list \<Rightarrow> orc_instance \<Rightarrow> orc_instance" where
  "mode_after [] i = i"
| "mode_after (SetHostWritable k # xs) i = mode_after xs (if host_of i = ik_Hostname k then i\<lparr>oi_ReadOnly := False\<rparr> else i)"
| "mode_after (SetHostReadOnly k # xs) i = mode_after xs (if host_of i = ik_Hostname k then i\<lparr>oi_ReadOnly := True\<rparr> else i)"
| "mode_after (x # xs) i = mode_after xs i"

fun keeps_nodes :: "orc_call \<Rightarrow> bool" where
  "keeps_nodes (Discover h p) = False"
| "keeps_nodes (Forget h p) = False"
| "keeps_nodes x = True"

locale obeying_service =
  fixes topology :: "'w \<Rightarrow> string \<Rightarrow> orc_instance list option"
    and act :: "orc_call \<Rightarrow> 'w \<Rightarrow> 'w option"
    and ok :: "'w \<Rightarrow> bool"
  assumes obeys: "ok w \<Longrightarrow> keeps_nodes x \<Longrightarrow>
    \<exists>w'. act x w = Some w' \<and> ok w' \<and> (\<forall>a. topology w' a = map_option (map (mode_after [x])) (topology w a))"
begin

lemma mode_after_Cons: "mode_after (x # xs) i = mode_after xs (mode_after [x] i)"
  by (cases x) simp_all

lemma all_obeyed:
  "ok w \<Longrightarrow> list_all keeps_nodes xs \<Longrightarrow>
    \<exists>w'. act_all act xs w = Some w' \<and> ok w' \<and> (\<forall>a. topology w' a = map_option (map (mode_after xs)) (topology w a))"
proof (induction xs arbitrary: w)
  case Nil
  then show ?case by (simp add: map_idI option.map_ident cong: option.map_cong map_cong)
next
  case (Cons x xs)
  from Cons.prems obeys obtain w1 where w1: "act x w = Some w1" "ok w1" "\<forall>a. topology w1 a = map_option (map (mode_after [x])) (topology w a)"
    by fastforce
  with Cons.IH [of w1] Cons.prems obtain w' where "act_all act xs w1 = Some w'" "ok w'"
      "\<forall>a. topology w' a = map_option (map (mode_after xs)) (topology w1 a)" by auto
  with w1 show ?case
    by (intro exI [of _ w']) (simp add: option.map_comp comp_def mode_after_Cons [of x xs])
qed

end

lemma mode_after_sel [simp]:
  "oi_Key (mode_after xs i) = oi_Key i" "oi_MasterKey (mode_after xs i) = oi_MasterKey i"
  "oi_IsCoMaster (mode_after xs i) = oi_IsCoMaster i" "oi_IsDetachedMaster (mode_after xs i) = oi_IsDetachedMaster i"
  "oi_IsUpToDate (mode_after xs i) = oi_IsUpToDate i" "oi_Uptime (mode_after xs i) = oi_Uptime i"
  by (induction xs i rule: mode_after.induct) simp_all

text \<open>The fake obeys.\<close>

definition fake_hosts :: "fake_orc \<Rightarrow> string list" where
  "fake_hosts fo = map host_of (concat (map snd (fo_Clusters fo)))"

definition fake_ok :: "fake_orc \<Rightarrow> bool" where
  "fake_ok fo \<longleftrightarrow> fo_reachable fo \<and> distinct (fake_hosts fo)"

definition set_mode :: "bool \<Rightarrow> string \<Rightarrow> orc_instance \<Rightarrow> orc_instance" where
  "set_mode ro h i = (if host_of i = h then i\<lparr>oi_ReadOnly := ro\<rparr> else i)"

lemma set_mode_host [simp]: "host_of (set_mode ro h i) = host_of i"
  by (simp add: set_mode_def)

lemma set_mode_absent: "h \<notin> host_of ` set is \<Longrightarrow> map (set_mode ro h) is = is"
  by (auto simp: set_mode_def intro!: map_idI)

lemma mode_in_map:
  "distinct (map host_of is) \<Longrightarrow>
    mode_in ro h is = (if h \<in> host_of ` set is then Some (map (set_mode ro h) is) else None)"
proof (induction "is")
  case Nil
  then show ?case by simp
next
  case (Cons i "is")
  then show ?case
    using set_mode_absent [of h "is" ro] by (cases "host_of i = h") (auto simp: set_mode_def)
qed

lemma modes_absent:
  assumes "h \<notin> host_of ` set (concat (map snd cs))"
  shows "map (\<lambda>(a, is). (a, map (set_mode ro h) is)) cs = cs"
proof (rule map_idI)
  fix y assume "y \<in> set cs"
  with assms have "h \<notin> host_of ` set (snd y)" by auto
  then show "(\<lambda>(a, is). (a, map (set_mode ro h) is)) y = y" by (cases y) (simp add: set_mode_absent)
qed

lemma modes_hosts:
  "map host_of (concat (map snd (map (\<lambda>(a, is). (a, map (set_mode ro h) is)) cs))) = map host_of (concat (map snd cs))"
  by (induction cs) auto

lemma mode_of_clusters_map:
  "distinct (map host_of (concat (map snd cs))) \<Longrightarrow>
    mode_of_clusters ro h cs =
      (if h \<in> host_of ` set (concat (map snd cs)) then Some (map (\<lambda>(a, is). (a, map (set_mode ro h) is)) cs) else None)"
proof (induction cs)
  case Nil
  then show ?case by simp
next
  case (Cons x cs)
  obtain a "is" where x: "x = (a, is)" by fastforce
  have others: "map (\<lambda>(a, is). (a, map (set_mode ro h) is)) cs = cs" if "h \<in> host_of ` set is"
    using Cons.prems that by (intro modes_absent) (auto simp: x)
  show ?case
    using Cons others by (auto simp: x mode_in_map set_mode_absent)
qed

lemma map_of_modes: "map_of (map (\<lambda>(a, is). (a, map f is)) cs) a = map_option (map f) (map_of cs a)"
  by (induction cs) auto

lemma fake_mode_clusters:
  assumes "fake_ok fo"
  shows "snd (fake_mode ro k fo) = fo\<lparr>fo_Clusters := map (\<lambda>(a, is). (a, map (set_mode ro (ik_Hostname k)) is)) (fo_Clusters fo)\<rparr>"
proof -
  have "distinct (map host_of (concat (map snd (fo_Clusters fo))))" "fo_reachable fo"
    using assms by (simp_all add: fake_ok_def fake_hosts_def)
  then show ?thesis by (simp add: fake_mode_def mode_of_clusters_map modes_absent [unfolded set_concat])
qed

lemma fake_mode_ok:
  assumes "fake_ok fo"
  shows "fake_ok (snd (fake_mode ro k fo))"
  using assms modes_hosts [of ro "ik_Hostname k" "fo_Clusters fo"]
  by (simp add: fake_mode_clusters [OF assms] fake_ok_def fake_hosts_def del: map_map)

lemma fake_obeys:
  assumes "fake_ok fo" and "keeps_nodes x"
  shows "\<exists>fo'. fake_act x fo = Some fo' \<and> fake_ok fo' \<and>
    (\<forall>a. map_of (fo_Clusters fo') a = map_option (map (mode_after [x])) (map_of (fo_Clusters fo) a))"
proof (cases x)
  case (AckRecovery i s)
  then show ?thesis
    using assms by (auto simp: fake_AckRecovery_def fake_ok_def fake_hosts_def map_idI option.map_ident cong: option.map_cong map_cong)
next
  case (SetHostWritable k)
  have "mode_after [x] = set_mode False (ik_Hostname k)" by (auto simp: SetHostWritable set_mode_def)
  then show ?thesis
    using assms(1) by (simp add: SetHostWritable fake_SetHostWritable_def fake_mode_ok) (simp add: fake_mode_clusters map_of_modes)
next
  case (SetHostReadOnly k)
  have "mode_after [x] = set_mode True (ik_Hostname k)" by (auto simp: SetHostReadOnly set_mode_def)
  then show ?thesis
    using assms(1) by (simp add: SetHostReadOnly fake_SetHostReadOnly_def fake_mode_ok) (simp add: fake_mode_clusters map_of_modes)
qed (use assms in simp_all)

interpretation fake: obeying_service "\<lambda>fo. map_of (fo_Clusters fo)" fake_act fake_ok
  by unfold_locales (rule fake_obeys)

section \<open>The modes a run asks for\<close>

lemma mode_after_acks [simp]: "mode_after (map (\<lambda>r. AckRecovery (f r) s) rs) i = i"
  by (induction rs) simp_all

lemma mode_after_append: "mode_after (xs @ ys) i = mode_after ys (mode_after xs i)"
  by (induction xs i rule: mode_after.induct) simp_all

lemma mode_after_map:
  "mode_after (map (\<lambda>i. if Q (host_of i) then SetHostWritable (oi_Key i) else SetHostReadOnly (oi_Key i)) xs) j =
     (if host_of j \<in> host_of ` set xs then j\<lparr>oi_ReadOnly := \<not> Q (host_of j)\<rparr> else j)"
  by (induction xs arbitrary: j) auto

lemma mode_after_mode_calls:
  assumes "j \<in> set insts" and "\<not> unsettled j" and "\<not> failoverInProgress c"
  shows "mode_after (mode_calls c insts master) j = j\<lparr>oi_ReadOnly := \<not> to_write c master j\<rparr>"
proof -
  define Q where "Q h \<longleftrightarrow> \<not> cs_ReadOnly (mc_Spec c) \<and> (\<exists>m. master = Some m \<and> h = host_of m)" for h
  have Q: "to_write c master i = Q (host_of i)" for i by (simp add: to_write_def Q_def)
  let ?xs = "filter (\<lambda>i. \<not> unsettled i \<and> oi_ReadOnly i = Q (host_of i)) insts"
  have "mode_calls c insts master = map (\<lambda>i. if Q (host_of i) then SetHostWritable (oi_Key i) else SetHostReadOnly (oi_Key i)) ?xs"
    using assms(3) by (simp add: mode_calls_def Q)
  moreover have "oi_ReadOnly j = (\<not> Q (host_of j))" if "host_of j \<notin> host_of ` set ?xs"
    using assms(1,2) that by auto
  ultimately show ?thesis by (auto simp: mode_after_map Q)
qed

section \<open>The topology does not depend on the modes\<close>

definition same_links :: "(orc_instance \<Rightarrow> orc_instance) \<Rightarrow> bool" where
  "same_links f \<longleftrightarrow> (\<forall>i. oi_Key (f i) = oi_Key i \<and> oi_MasterKey (f i) = oi_MasterKey i \<and> oi_IsCoMaster (f i) = oi_IsCoMaster i \<and>
     oi_IsDetachedMaster (f i) = oi_IsDetachedMaster i)"

lemma GetInstance_links: "same_links f \<Longrightarrow> GetInstance (map f is) h = map_option f (GetInstance is h)"
  by (induction "is") (auto simp: GetInstance_def same_links_def)

lemma getMasterForNode_links:
  assumes "same_links f"
  shows "getMasterForNode (map f is) (f node) (map f visited) = map_option f (getMasterForNode is node visited)"
proof (induction "is" node visited rule: getMasterForNode.induct)
  case (1 "is" node visited)
  have sel: "oi_Key (f i) = oi_Key i" "oi_MasterKey (f i) = oi_MasterKey i" "oi_IsCoMaster (f i) = oi_IsCoMaster i"
    "oi_IsDetachedMaster (f i) = oi_IsDetachedMaster i" for i
    using assms by (simp_all add: same_links_def)
  show ?case
    using 1 GetInstance_links [OF assms, of "is"]
    by (subst (1 2) getMasterForNode.simps) (auto simp: sel split: option.split)
qed

lemma masters_of_links: "same_links f \<Longrightarrow> masters_of (map f is) (map f ns) = map_option (map f) (masters_of is ns)"
proof (induction ns)
  case Nil
  then show ?case by simp
next
  case (Cons n ns)
  then show ?case
    using getMasterForNode_links [OF Cons.prems, of "is" n "[]"]
    by (simp add: option.map_comp comp_def split: option.split)
qed

lemma DetermineMaster_links:
  assumes "same_links f"
  shows "DetermineMaster (map f is) = map_option f (DetermineMaster is)"
proof -
  have "host_of (f i) = host_of i" for i using assms by (simp add: same_links_def)
  then show ?thesis
    by (auto simp: DetermineMaster_def masters_of_links [OF assms] list_ex_iff split: option.split list.split)
qed

lemma mode_after_links [simp]: "same_links (mode_after xs)"
  by (simp add: same_links_def)

section \<open>One writer\<close>

lemma sync_cluster_keeps:
  fixes now replicas insts master recs c
  defines "c' \<equiv> sync_cluster now replicas insts master recs c"
  shows "mc_Name c' = mc_Name c" and "mc_Namespace c' = mc_Namespace c" and "\<not> failoverInProgress c \<Longrightarrow> \<not> failoverInProgress c'"
proof -
  let ?n = "sync_nodes now replicas insts master c"
  let ?f = "updateClusterFailoverInProgressStatus now master ?n"
  let ?o = "updateClusterReadOnlyStatus now insts ?f"
  let ?r = "updateClusterReadyStatus now replicas ?o"
  have on: "only_nodes c ?n" by (rule only_nodes_sync_nodes)
  obtain sa ra ma where a: "c' = UpdateStatusCondition now ?r ClusterConditionFailoverAck sa ra ma"
    using updateFailoverAckStatus_eq [of now recs ?r] unfolding c'_def sync_cluster_def by blast
  obtain cr sr rr mr where r: "only_nodes ?o cr" "?r = UpdateStatusCondition now cr ClusterConditionReady sr rr mr"
    using updateClusterReadyStatus_eq [of ?o now replicas] by blast
  obtain so ro mo where o: "?o = UpdateStatusCondition now ?f ClusterConditionReadOnly so ro mo"
    using updateClusterReadOnlyStatus_eq [of now insts ?f] by blast
  have "mc_Name ?f = mc_Name ?n" "mc_Namespace ?f = mc_Namespace ?n" using updateFip_eq [of now master ?n] by auto
  then show "mc_Name c' = mc_Name c" "mc_Namespace c' = mc_Namespace c"
    by (simp_all add: a r(2) only_nodes_sel [OF r(1)] only_nodes_sel [OF on]) (simp_all add: o only_nodes_sel [OF on])
  have "failoverInProgress c' = failoverInProgress ?r" by (simp add: a failoverInProgress_def GetClusterCondition_update)
  also have "\<dots> = failoverInProgress ?o"
    using only_nodes_sel(8) [OF r(1)] by (simp add: r(2) failoverInProgress_def GetClusterCondition_update)
  also have "\<dots> = failoverInProgress ?f" by (simp add: o failoverInProgress_def GetClusterCondition_update)
  finally have same: "failoverInProgress c' = failoverInProgress ?f" .
  have "failoverInProgress ?f \<Longrightarrow> failoverInProgress ?n"
    using updateFip_eq [of now master ?n] by (auto simp: failoverInProgress_def GetClusterCondition_update)
  then show "\<not> failoverInProgress c \<Longrightarrow> \<not> failoverInProgress c'" using same only_nodes_sel(11) [OF on] by blast
qed

text \<open>
  A cluster whose pods are all registered and settled, below one root, with no failover and no deletion.
\<close>

definition steady :: "mysql_cluster \<Rightarrow> fake_orc \<Rightarrow> orc_instance list \<Rightarrow> int \<Rightarrow> string \<Rightarrow> bool" where
  "steady c fo insts r h \<longleftrightarrow>
     fake_ok fo \<and> map_of (fo_Clusters fo) (GetClusterAlias c) = Some insts \<and> host_of ` set insts = set (hosts c r) \<and>
     cs_Replicas (mc_Spec c) = Some r \<and> (\<forall>i \<in> set insts. \<not> unsettled i) \<and> map_option host_of (DetermineMaster insts) = Some h \<and>
     \<not> failoverInProgress c \<and> mc_DeletionTimestamp c = None"

text \<open>No other instance than the one of the host is writable.\<close>

definition quiet :: "string \<Rightarrow> orc_instance list \<Rightarrow> bool" where
  "quiet h insts \<longleftrightarrow> (\<forall>i \<in> set insts. \<not> oi_ReadOnly i \<longrightarrow> host_of i = h)"

definition as_wanted :: "mysql_cluster \<Rightarrow> string \<Rightarrow> orc_instance list \<Rightarrow> bool" where
  "as_wanted c h insts \<longleftrightarrow> (\<forall>i \<in> set insts. oi_ReadOnly i \<longleftrightarrow> cs_ReadOnly (mc_Spec c) \<or> host_of i \<noteq> h)"

lemma wanted_quiet: "as_wanted c h insts \<Longrightarrow> quiet h insts"
  by (auto simp: as_wanted_def quiet_def)

lemma discover_none:
  "\<forall>i \<in> set is. GetPodHostname c (int i) \<in> host_of ` set insts \<Longrightarrow> snd (discover_loop c insts is) = []"
proof (induction "is")
  case (Cons i "is")
  then obtain j where "GetInstance insts (GetPodHostname c (int i)) = Some j"
    using GetInstance_None [of insts "GetPodHostname c (int i)"] by fastforce
  with Cons show ?case by (simp add: Let_def case_prod_beta)
qed simp

lemma cluster_distinct:
  assumes "fake_ok fo" and "map_of (fo_Clusters fo) a = Some insts"
  shows "distinct (map host_of insts)"
proof -
  have "(a, insts) \<in> set (fo_Clusters fo)" using assms(2) by (rule map_of_SomeD)
  then have "map host_of insts \<in> set (map (map host_of) (map snd (fo_Clusters fo)))" by force
  moreover have "distinct (concat (map (map host_of) (map snd (fo_Clusters fo))))"
    using assms(1) by (simp add: fake_ok_def fake_hosts_def map_concat)
  ultimately show ?thesis by (meson distinct_concat_iff)
qed

lemma steady_answers:
  assumes "steady c fo insts r h"
  shows "\<exists>master. getFromOrchestrator (fake_service fo) c = Inr (insts, master) \<and>
    (\<forall>m. master = Some m \<longrightarrow> host_of m = h) \<and> (quiet h insts \<longrightarrow> master \<noteq> None)"
proof -
  obtain m where m: "DetermineMaster insts = Some m" "host_of m = h" using assms by (auto simp: steady_def)
  have fo: "fo_reachable fo" "map_of (fo_Clusters fo) (GetClusterAlias c) = Some insts" using assms by (simp_all add: steady_def fake_ok_def)
  have nf: "IsNotFound (OrcError ''No masters found'')" by (simp add: contains_def)
  show ?thesis
  proof (cases "find (\<lambda>i. \<not> oi_ReadOnly i) insts")
    case None
    then have "getFromOrchestrator (fake_service fo) c = Inr (insts, Some m)"
      using nf by (simp add: getFromOrchestrator_def fake_service_def fake_Cluster_def fake_Master_def fo m(1) del: IsNotFound.simps)
    then show ?thesis using m(2) by (intro exI [of _ "Some m"]) simp
  next
    case (Some w)
    then have w: "w \<in> set insts" "\<not> oi_ReadOnly w" by (auto simp: find_Some_iff)
    have "getFromOrchestrator (fake_service fo) c = Inr (insts, if host_of w \<noteq> host_of m then None else Some w)"
      using Some by (simp add: getFromOrchestrator_def fake_service_def fake_Cluster_def fake_Master_def fo m(1))
    then show ?thesis using w m(2) by (auto simp: quiet_def)
  qed
qed

lemma steady_round:
  assumes "steady c fo insts r h"
  shows "\<exists>c' fo' insts'. orc_round now (c, fo) = Some (c', fo') \<and> steady c' fo' insts' r h \<and>
    GetClusterAlias c' = GetClusterAlias c \<and> mc_Spec c' = mc_Spec c \<and> map oi_Key insts' = map oi_Key insts \<and>
    quiet h insts' \<and> (quiet h insts \<longrightarrow> as_wanted c h insts')"
proof -
  note st = assms [unfolded steady_def]
  obtain master where get: "getFromOrchestrator (fake_service fo) c = Inr (insts, master)"
    and master: "\<And>m. master = Some m \<Longrightarrow> host_of m = h" "quiet h insts \<Longrightarrow> master \<noteq> None"
    using steady_answers [OF assms] by blast
  have rep: "cs_Replicas (mc_Spec (ou_Cluster (mk_updater c))) = Some r" using st by (simp add: mk_updater_def)
  obtain ou where sync: "Sync (fake_service fo) now (mk_updater c) = Inr ou"
    using Sync_total [of "fake_service fo" "mk_updater c" "(insts, master)" r now] get rep by (auto simp: mk_updater_def)
  then obtain seen n comment recs and und rem :: "instance_key list" where
    u: "updateNodesInOrc c r insts = (seen, und, rem)" and cl: "ou_Cluster ou = sync_cluster now r seen master recs c"
    and calls: "ou_Calls ou = map (\<lambda>k. Discover (ik_Hostname k) (ik_Port k)) und @ mode_calls c seen master @
       (if ready_longer_than now (ou_Cluster ou) forgetGraceTime \<or> mc_DeletionTimestamp (ou_Cluster ou) \<noteq> None
        then map (\<lambda>k. Forget (ik_Hostname k) (ik_Port k)) rem else []) @
       map (\<lambda>r. AckRecovery (tr_Id r) comment) (take n (getRecoveriesToAck now (ou_Cluster ou) recs))"
    by (rule Sync_split) (use get rep in \<open>auto simp: mk_updater_def\<close>)
  have "snd (discover_loop c insts [0..<nat r]) = []" using st by (intro discover_none) (auto simp: hosts_def)
  then have und: "und = []" using u st by (simp add: updateNodesInOrc_def Let_def case_prod_beta)
  have rem: "rem = []" using updateNodesInOrc_insts(4) [OF u] st by (auto simp: filter_empty_conv)
  have seen: "j \<in> set seen" if "j \<in> set insts" for j
  proof -
    have "GetInstance insts (host_of j) = Some j"
      using GetInstance_self [OF cluster_distinct that] st by blast
    moreover have "host_of j \<in> set (hosts c r)" using st that by auto
    ultimately have "GetInstance seen (host_of j) = Some j" using GetInstance_insts [OF u] by simp
    then show ?thesis using GetInstance_Some by blast
  qed
  have nodes: "list_all keeps_nodes (ou_Calls ou)"
    unfolding calls und rem by (auto simp: list_all_iff mode_calls_def)
  obtain fo' where fo': "act_all fake_act (ou_Calls ou) fo = Some fo'" "fake_ok fo'"
    "\<forall>a. map_of (fo_Clusters fo') a = map_option (map (mode_after (ou_Calls ou))) (map_of (fo_Clusters fo) a)"
    using fake.all_obeyed [OF conjunct1 [OF st] nodes] by blast
  let ?new = "map (mode_after (ou_Calls ou)) insts" and ?c = "ou_Cluster ou"
  have modes: "mode_after (ou_Calls ou) j = j\<lparr>oi_ReadOnly := \<not> to_write c master j\<rparr>" if "j \<in> set insts" for j
    using mode_after_mode_calls [OF seen [OF that], of c master] st that
    unfolding calls und rem by (simp add: mode_after_append)
  have keeps: "mc_Name ?c = mc_Name c" "mc_Namespace ?c = mc_Namespace c" "\<not> failoverInProgress ?c" "mc_Spec ?c = mc_Spec c"
      "mc_DeletionTimestamp ?c = mc_DeletionTimestamp c"
    using sync_cluster_keeps [where now = now and replicas = r and insts = seen and master = master and recs = recs and c = c]
      sync_cluster_status(4,5) [where now = now and replicas = r and insts = seen and master = master and recs = recs and c = c] st by (simp_all add: cl)
  then have al: "GetClusterAlias ?c = GetClusterAlias c" and hs: "hosts ?c r = hosts c r"
    by (simp_all add: GetClusterAlias_def hosts_def GetPodHostname_def GetNameForResource_def)
  have "map_option host_of (DetermineMaster ?new) = map_option host_of (DetermineMaster insts)"
    by (simp add: DetermineMaster_links option.map_comp comp_def)
  moreover have "host_of ` set ?new = host_of ` set insts" by (simp add: image_image)
  ultimately have "steady ?c fo' ?new r h"
    using st fo'(2,3) keeps al hs by (auto simp: steady_def unsettled_def)
  moreover have "quiet h ?new" using master(1) by (auto simp: quiet_def modes to_write_def)
  moreover have "as_wanted c h ?new" if "quiet h insts"
    using master(1) master(2) [OF that] by (auto simp: as_wanted_def modes to_write_def)
  moreover have "orc_round now (c, fo) = Some (?c, fo')" using sync fo'(1) by (simp add: orc_round_def)
  moreover have "map oi_Key ?new = map oi_Key insts" by simp
  ultimately show ?thesis using al keeps(4) by blast
qed

fun orc_rounds :: "time list \<Rightarrow> mysql_cluster \<times> fake_orc \<Rightarrow> (mysql_cluster \<times> fake_orc) option" where
  "orc_rounds [] s = Some s"
| "orc_rounds (t # ts) s = Option.bind (orc_round t s) (orc_rounds ts)"

lemma quiet_rounds:
  assumes "steady c fo insts r h" and "quiet h insts" and "ts \<noteq> [] \<or> as_wanted c h insts"
  shows "\<exists>c' fo' insts'. orc_rounds ts (c, fo) = Some (c', fo') \<and> map_of (fo_Clusters fo') (GetClusterAlias c) = Some insts' \<and>
    map oi_Key insts' = map oi_Key insts \<and> as_wanted c h insts'"
  using assms
proof (induction ts arbitrary: c fo insts)
  case Nil
  then show ?case by (auto simp: steady_def)
next
  case (Cons t ts)
  obtain c1 fo1 insts1 where one: "orc_round t (c, fo) = Some (c1, fo1)" "steady c1 fo1 insts1 r h"
    "GetClusterAlias c1 = GetClusterAlias c" "mc_Spec c1 = mc_Spec c" "map oi_Key insts1 = map oi_Key insts" "as_wanted c h insts1"
    using steady_round [OF Cons.prems(1), of t] Cons.prems(2) by blast
  then have "as_wanted c1 h insts1" by (simp add: as_wanted_def)
  from Cons.IH [OF one(2) wanted_quiet [OF this]] this one show ?case by (simp add: as_wanted_def)
qed

text \<open>
  Property C4. The controller brings the service to one writer: for a cluster whose pods are registered and settled below one
  root, whatever their modes were, after two runs and after every later one the root is writable and no other instance
  is (and none of a read-only cluster).
\<close>

theorem one_writer_converges:
  assumes "fake_ok fo" and "map_of (fo_Clusters fo) (GetClusterAlias c) = Some insts" and "host_of ` set insts = set (hosts c r)"
    and "cs_Replicas (mc_Spec c) = Some r" and "\<forall>i \<in> set insts. \<not> unsettled i" and "DetermineMaster insts = Some m"
    and "\<not> failoverInProgress c" and "mc_DeletionTimestamp c = None" and "2 \<le> length ts"
  shows "\<exists>c' fo' insts'. orc_rounds ts (c, fo) = Some (c', fo') \<and> map_of (fo_Clusters fo') (GetClusterAlias c) = Some insts' \<and>
    map oi_Key insts' = map oi_Key insts \<and>
    (\<forall>i \<in> set insts'. oi_ReadOnly i \<longleftrightarrow> cs_ReadOnly (mc_Spec c) \<or> host_of i \<noteq> host_of m)"
proof -
  obtain t ts' where ts: "ts = t # ts'" "ts' \<noteq> []" using assms(9) by (cases ts; cases "tl ts") auto
  have "steady c fo insts r (host_of m)" using assms by (simp add: steady_def)
  from steady_round [OF this, of t] obtain c1 fo1 insts1 where one: "orc_round t (c, fo) = Some (c1, fo1)"
    "steady c1 fo1 insts1 r (host_of m)" "GetClusterAlias c1 = GetClusterAlias c" "mc_Spec c1 = mc_Spec c"
    "map oi_Key insts1 = map oi_Key insts" "quiet (host_of m) insts1" by blast
  from quiet_rounds [OF one(2,6), of ts'] ts(2) one show ?thesis by (auto simp: ts(1) as_wanted_def)
qed

section \<open>A discovered pod joins its cluster\<close>

lemma first_some_last:
  assumes "F k = Some x" and "\<And>n. k < n \<Longrightarrow> n < N \<Longrightarrow> F n = None" and "a \<le> k" and "k < N"
  shows "first_some (map F (rev [a..<N])) = Some x"
proof -
  have "[a..<N] = [a..<k] @ [k..<N]" using assms(3,4) upt_add_eq_append [of a k "N - k"] by simp
  then have split: "[a..<N] = [a..<k] @ k # [Suc k..<N]" using upt_conv_Cons [OF assms(4)] by simp
  have "first_some (xs @ Some x # ys) = Some x" if "\<forall>z \<in> set xs. z = None" for xs ys
    using that by (induction xs) auto
  moreover have "\<forall>z \<in> set (map F (rev [Suc k..<N])). z = None" using assms(2) by auto
  ultimately show ?thesis using assms(1) by (simp add: split)
qed

lemma match_domain_pod: "dns_name ns \<Longrightarrow> match_domain (''.mysql.'' @ ns) = Some ns"
  by (simp add: match_domain_def strip_prefix_def dns_name_def)

lemma match_ordinal_pod:
  assumes "dns_name ns"
  shows "match_ordinal (utoa i @ ''.mysql.'' @ ns) = Some ns"
proof -
  have "takeWhile is_digit (utoa i @ ''.mysql.'' @ ns) = utoa i"
    using utoa_chars [of _ i] by (simp add: takeWhile_append is_digit_def)
  then show ?thesis
    unfolding match_ordinal_def
    by (intro first_some_last [where k = "length (utoa i)"]) (simp_all add: match_domain_pod [simplified] assms)
qed

lemma no_second_separator:
  assumes "0 < j" and "list_all is_word_or_dash (take j (''-mysql-'' @ utoa i @ ''.mysql.'' @ ns))"
  shows "strip_prefix ''-mysql-'' (drop j (''-mysql-'' @ utoa i @ ''.mysql.'' @ ns)) = None"
proof -
  have digit: "CHR ''-'' \<notin> set (utoa i)" "CHR ''m'' \<notin> set (utoa i)" 
    using utoa_chars [of "CHR ''-''" i] utoa_chars [of "CHR ''m''" i] by (auto simp: is_digit_def)
  consider "j \<in> {1,2,3,4,5}" | "j = 6" | "7 \<le> j" "j \<le> 7 + length (utoa i)" | "7 + length (utoa i) < j" using assms(1) by fastforce
  then show ?thesis
  proof cases
    case 1
    then show ?thesis by (auto simp: strip_prefix_def)
  next
    case 2
    obtain d ds where "utoa i = d # ds" by (cases "utoa i") (use utoa_nonempty in auto)
    with digit 2 show ?thesis by (auto simp: strip_prefix_def numeral_eq_Suc)
  next
    case 3
    from le_Suc_ex [OF 3(1)] obtain k where j: "j = 7 + k" by blast
    with 3(2) have k: "k \<le> length (utoa i)" by linarith
    have "CHR ''-'' \<notin> set (drop k (utoa i))" using digit(1) in_set_dropD by fast
    then have "hd (drop k (utoa i) @ ''.mysql.'' @ ns) \<noteq> CHR ''-''"
      by (cases "drop k (utoa i)") (simp, simp only: append_Cons list.sel list.set insert_iff, blast)
    moreover have "drop j (''-mysql-'' @ utoa i @ ''.mysql.'' @ ns) = drop k (utoa i) @ ''.mysql.'' @ ns"
    proof -
      have "drop j (''-mysql-'' @ utoa i @ ''.mysql.'' @ ns) = drop k (drop 7 (''-mysql-'' @ utoa i @ ''.mysql.'' @ ns))"
        by (simp only: j drop_drop add.commute)
      with k show ?thesis by simp
    qed
    moreover have "strip_prefix ''-mysql-'' s = None" if "hd s \<noteq> CHR ''-''" for s
      using that by (cases s) (auto simp: strip_prefix_def)
    ultimately show ?thesis by simp
  next
    case 4
    let ?A = "''-mysql-'' @ utoa i @ ''.''" and ?B = "''mysql.'' @ ns"
    have "length ?A = 8 + length (utoa i)" by simp
    with 4 have "length ?A \<le> j" by linarith
    then have "take j (?A @ ?B) = ?A @ take (j - length ?A) ?B" by (metis take_append take_all)
    moreover have "CHR ''.'' \<in> set (?A @ xs)" for xs by simp
    moreover have "''-mysql-'' @ utoa i @ ''.mysql.'' @ ns = ?A @ ?B" by simp
    ultimately have "CHR ''.'' \<in> set (take j (''-mysql-'' @ utoa i @ ''.mysql.'' @ ns))" by metis
    with assms(2) show ?thesis by (auto simp: list_all_iff)
  qed
qed

lemma alias_of_pod:
  assumes "dns_name (mc_Name c)" and "dns_name (mc_Namespace c)"
  shows "getHostClusterAlias (GetPodHostname c (int i)) = Some (GetClusterAlias c)"
proof -
  let ?n = "mc_Name c" and ?ns = "mc_Namespace c"
  let ?rest = "''-mysql-'' @ utoa i @ ''.mysql.'' @ ?ns"
  have host: "GetPodHostname c (int i) = ?n @ ?rest"
    by (simp add: GetPodHostname_def GetNameForResource_def HeadlessSVCName_def itoa_def)
  let ?F = "\<lambda>n. if list_all is_word_or_dash (take n (?n @ ?rest))
       then (case strip_prefix ''-mysql-'' (drop n (?n @ ?rest)) of
               None \<Rightarrow> None
             | Some r \<Rightarrow> map_option (Pair (take n (?n @ ?rest))) (match_ordinal r))
       else None"
  have "first_some (map ?F (rev [1..<Suc (length (?n @ ?rest))])) = Some (?n, ?ns)"
  proof (rule first_some_last [where k = "length ?n"])
    show "?F (length ?n) = Some (?n, ?ns)"
      using assms match_ordinal_pod [OF assms(2), of i] by (simp add: strip_prefix_def dns_name_def)
    show "1 \<le> length ?n" using assms(1) by (simp add: dns_name_def Suc_le_eq)
    show "length ?n < Suc (length (?n @ ?rest))" by simp
    fix n assume "length ?n < n"
    then obtain j where j: "n = length ?n + j" "0 < j" by (metis less_imp_add_positive)
    show "?F n = None" using no_second_separator [OF j(2), of i ?ns] by (simp add: j(1))
  qed
  then show ?thesis unfolding getHostClusterAlias_def match_host_def host by (simp add: GetClusterAlias_def)
qed

text \<open>
  The instance of a pod that the updater registers is found under the name it asks for.
\<close>

lemma discovered_registered:
  assumes "dns_name (mc_Name c)" and "dns_name (mc_Namespace c)" and "fo_reachable fo"
  obtains fo' inst insts where "fake_act (Discover (GetPodHostname c (int i)) p) fo = Some fo'"
    and "fake_Cluster (GetClusterAlias c) fo' = Inr (insts @ [inst])" and "host_of inst = GetPodHostname c (int i)"
    and "insts = (case map_of (fo_Clusters fo) (GetClusterAlias c) of None \<Rightarrow> [] | Some is \<Rightarrow> is)"
proof -
  note al = alias_of_pod [OF assms(1,2), of i]
  show thesis
    by (rule that) (auto simp: fake_Discover_def assms(3) al AddInstance_def fake_Cluster_def update_conv Let_def split: option.split)
qed

section \<open>Witness\<close>

text \<open>A replica is writable and the root is not.\<close>

definition ref_modes :: "orc_instance list" where
  "ref_modes = [ref_inst ''db-mysql-0.mysql.ns'' [], (ref_inst ''db-mysql-1.mysql.ns'' ''db-mysql-0.mysql.ns'')\<lparr>oi_ReadOnly := False\<rparr>,
     ref_inst ''db-mysql-2.mysql.ns'' ''db-mysql-1.mysql.ns'']"

definition ref_fake :: fake_orc where
  "ref_fake = (fake_New 0)\<lparr>fo_Clusters := [(''db.ns'', ref_modes)]\<rparr>"

theorem one_writer_converges_witness:
  "\<exists>c' fo' insts'. orc_rounds [1, 6000000000] (ou_Cluster ref_updater, ref_fake) = Some (c', fo') \<and>
     map_of (fo_Clusters fo') ''db.ns'' = Some insts' \<and> map oi_Key insts' = map oi_Key ref_modes \<and>
     (\<forall>i \<in> set insts'. oi_ReadOnly i \<longleftrightarrow> host_of i \<noteq> ''db-mysql-0.mysql.ns'')"
proof -
  let ?c = "ou_Cluster ref_updater"
  have al: "GetClusterAlias ?c = ''db.ns''" "cs_ReadOnly (mc_Spec ?c) = False" "cs_Replicas (mc_Spec ?c) = Some 3" "mc_DeletionTimestamp ?c = None"
    by (simp_all add: GetClusterAlias_def ref_updater_def ref_defs)
  have ok: "fake_ok ref_fake" "map_of (fo_Clusters ref_fake) (GetClusterAlias ?c) = Some ref_modes"
    by (simp_all add: fake_ok_def fake_hosts_def ref_fake_def ref_modes_def ref_inst_def fake_New_def al)
  have h: "host_of ` set ref_modes = set (hosts ?c 3)" by (auto simp: ref_modes_def ref_inst_def hosts_def upt_rec)
  have settled: "\<forall>i \<in> set ref_modes. \<not> unsettled i" by (simp add: ref_modes_def ref_inst_def unsettled_def uptimeGraceTime_def)
  have root: "DetermineMaster ref_modes = Some (ref_inst ''db-mysql-0.mysql.ns'' [])"
    by (simp add: DetermineMaster_def ref_modes_def ref_inst_def getMasterForNode.simps GetInstance_def)
  have calm: "\<not> failoverInProgress ?c" by (simp add: failoverInProgress_def GetClusterCondition_find ref_updater_def mk_cluster_condition_def)
  from one_writer_converges [OF ok h al(3) settled root calm al(4), of "[1, 6000000000]"] show ?thesis
    by (simp add: al ref_inst_def)
qed

end
