(* ===== verification/Options.thy ===== *)
theory Options
  imports Versioning
begin

text \<open>
  The options of the operator, \<^verbatim>\<open>pkg/options\<close>: their defaults from the environment, the flags of the command line,
  the catalog file of server images, and how \<^verbatim>\<open>cmd/mysql-operator/main.go\<close> puts them together before it starts the
  controllers. The environment and the files are parameters, and so are the parsers of the flag library for
  the kinds of flags other than strings.
\<close>

section \<open>The environment\<close>

text \<open>\<^verbatim>\<open>os.Getenv\<close> returns the empty string for a variable that is not set.\<close>

type_synonym getenv = "string \<Rightarrow> string"

text \<open>An open file: its content, and the errors of reading past it and of closing it.\<close>

record open_file =
  of_Content :: string
  of_ReadError :: "string option"
  of_CloseError :: "string option"

record host =
  h_Getenv :: getenv
  h_Open :: "string \<Rightarrow> (string, open_file) result"

definition getFromEnvOrDefault :: "getenv \<Rightarrow> string \<Rightarrow> string \<Rightarrow> string" where
  "getFromEnvOrDefault getenv key def = (if getenv key = [] then def else getenv key)"

definition DefaultImageRegistry :: string where
  "DefaultImageRegistry = ''ghcr.io/codecapsules-io''"

definition OperatorImage :: "string \<Rightarrow> string \<Rightarrow> string" where
  "OperatorImage name tag = DefaultImageRegistry @ ''/'' @ name @ '':'' @ tag"

definition defaultSidecarMysql57Image :: "getenv \<Rightarrow> string" where
  "defaultSidecarMysql57Image getenv =
     getFromEnvOrDefault getenv ''MYSQL_OPERATOR_SIDECAR_MYSQL57_IMAGE''
       (OperatorImage ''mysql-operator-sidecar-5.7'' ''latest'')"

definition defaultSidecarMysql8Image :: "getenv \<Rightarrow> string" where
  "defaultSidecarMysql8Image getenv =
     getFromEnvOrDefault getenv ''MYSQL_OPERATOR_SIDECAR_MYSQL8_IMAGE''
       (OperatorImage ''mysql-operator-sidecar-8.0'' ''latest'')"

definition defaultSidecarMysql84Image :: "getenv \<Rightarrow> string" where
  "defaultSidecarMysql84Image getenv =
     getFromEnvOrDefault getenv ''MYSQL_OPERATOR_SIDECAR_MYSQL84_IMAGE''
       (OperatorImage ''mysql-operator-sidecar-8.4'' ''latest'')"

definition defaultExporterImage :: string where
  "defaultExporterImage = ''prom/mysqld-exporter:v0.16.0''"

definition defaultLeaderElectionID :: string where
  "defaultLeaderElectionID = ''mysql-operator-leader-election''"

definition defaultMetricsBindAddress :: string where
  "defaultMetricsBindAddress = '':8080''"

definition defaultHealthProbeBindAddress :: string where
  "defaultHealthProbeBindAddress = '':8081''"

text \<open>\<^verbatim>\<open>ioutil.ReadFile\<close> fails when the file cannot be opened or read.\<close>

definition read_file :: "host \<Rightarrow> string \<Rightarrow> string option" where
  "read_file h path =
     (case h_Open h path of
        Inl err \<Rightarrow> None
      | Inr f \<Rightarrow> if of_ReadError f = None then Some (of_Content f) else None)"

definition namespace :: "host \<Rightarrow> string" where
  "namespace h =
     (if h_Getenv h ''KUBE_NAMESPACE'' \<noteq> [] then h_Getenv h ''KUBE_NAMESPACE''
      else if h_Getenv h ''MY_POD_NAMESPACE'' \<noteq> [] then h_Getenv h ''MY_POD_NAMESPACE''
      else (case read_file h ''/var/run/secrets/kubernetes.io/serviceaccount/namespace'' of
              Some d \<Rightarrow> if 0 < length (trim_space d) then trim_space d else ''default''
            | None \<Rightarrow> ''default''))"

section \<open>The instance\<close>

text \<open>The value \<^verbatim>\<open>GetOptions\<close> makes at its first call; the fields it does not name have the zero value.\<close>

definition GetOptions :: "host \<Rightarrow> options" where
  "GetOptions h =
     \<lparr>opt_SidecarMysql57Image = defaultSidecarMysql57Image (h_Getenv h),
      opt_SidecarMysql8Image = defaultSidecarMysql8Image (h_Getenv h),
      opt_SidecarMysql84Image = defaultSidecarMysql84Image (h_Getenv h),
      opt_MetricsExporterImage = defaultExporterImage,
      opt_ImagePullSecretName = [], opt_ImagePullPolicy = ''IfNotPresent'',
      opt_OrchestratorURI = [], opt_OrchestratorTopologyPassword = [],
      opt_OrchestratorTopologyUser = [], opt_LeaderElectionNamespace = namespace h,
      opt_LeaderElectionID = [], opt_Namespace = [],
      opt_MySQLVersionImageOverride = Map.empty, opt_MySQLVersionCatalogFile = [],
      opt_mysqlVersionCatalog = Map.empty, opt_OrchestratorConcurrentReconciles = 0,
      opt_FailoverBeforeShutdownEnabled = True, opt_ClusterRestrictPrivilegeEscalation = False,
      opt_AllowCrossNamespaceUsers = False, opt_AllowCrossNamespaceDatabases = False,
      opt_MetricsBindAddress = defaultMetricsBindAddress, opt_HealthProbeBindAddress = defaultHealthProbeBindAddress\<rparr>"

section \<open>Flags\<close>

text \<open>The parsers of the flag library for booleans, 32-bit integers and maps; a result of None is an error.\<close>

record flag_lib =
  fl_Bool :: "string \<Rightarrow> bool option"
  fl_Int32 :: "string \<Rightarrow> int option"
  fl_StringToString :: "string \<Rightarrow> str_map option"

text \<open>A flag: what it does to the options when it is registered with its default, and when it is given a value.\<close>

record flag =
  flag_Name :: string
  flag_Default :: "options \<Rightarrow> options"
  flag_Set :: "string \<Rightarrow> options \<Rightarrow> options option"

definition StringVar :: "((string \<Rightarrow> string) \<Rightarrow> options \<Rightarrow> options) \<Rightarrow> string \<Rightarrow> string \<Rightarrow> flag" where
  "StringVar upd name def =
     \<lparr>flag_Name = name, flag_Default = upd (\<lambda>_. def), flag_Set = (\<lambda>v o'. Some (upd (\<lambda>_. v) o'))\<rparr>"

definition ParsedVar ::
    "(('a \<Rightarrow> 'a) \<Rightarrow> options \<Rightarrow> options) \<Rightarrow> (string \<Rightarrow> 'a option) \<Rightarrow> string \<Rightarrow> 'a \<Rightarrow> flag" where
  "ParsedVar upd parse name def =
     \<lparr>flag_Name = name, flag_Default = upd (\<lambda>_. def),
      flag_Set = (\<lambda>v o'. map_option (\<lambda>x. upd (\<lambda>_. x) o') (parse v))\<rparr>"

definition BoolVar :: "flag_lib \<Rightarrow> ((bool \<Rightarrow> bool) \<Rightarrow> options \<Rightarrow> options) \<Rightarrow> string \<Rightarrow> bool \<Rightarrow> flag" where
  "BoolVar lib upd name def = ParsedVar upd (fl_Bool lib) name def"

text \<open>The flags that \<^verbatim>\<open>AddFlags\<close> registers; \<^verbatim>\<open>pullpolicy.Set\<close> takes any string.\<close>

definition AddFlags :: "flag_lib \<Rightarrow> host \<Rightarrow> flag list" where
  "AddFlags lib h =
     [StringVar opt_SidecarMysql57Image_update ''sidecar-image'' (defaultSidecarMysql57Image (h_Getenv h)),
      StringVar opt_SidecarMysql8Image_update ''sidecar-mysql8-image'' (defaultSidecarMysql8Image (h_Getenv h)),
      StringVar opt_SidecarMysql84Image_update ''sidecar-mysql84-image'' (defaultSidecarMysql84Image (h_Getenv h)),
      StringVar opt_MetricsExporterImage_update ''metrics-exporter-image'' defaultExporterImage,
      StringVar opt_ImagePullSecretName_update ''image-pull-secret'' [],
      StringVar opt_ImagePullPolicy_update ''image-pull-policy'' ''IfNotPresent'',
      StringVar opt_OrchestratorURI_update ''orchestrator-uri'' [],
      StringVar opt_OrchestratorTopologyPassword_update ''orchestrator-topology-password'' [],
      StringVar opt_OrchestratorTopologyUser_update ''orchestrator-topology-user'' [],
      StringVar opt_LeaderElectionNamespace_update ''leader-election-namespace'' (namespace h),
      StringVar opt_LeaderElectionID_update ''leader-election-id'' defaultLeaderElectionID,
      StringVar opt_Namespace_update ''namespace'' [],
      ParsedVar opt_MySQLVersionImageOverride_update (fl_StringToString lib) ''mysql-versions-to-image'' Map.empty,
      StringVar opt_MySQLVersionCatalogFile_update ''mysql-version-catalog-file'' [],
      ParsedVar opt_OrchestratorConcurrentReconciles_update (fl_Int32 lib) ''orchestrator-concurrent-reconciles'' 10,
      BoolVar lib opt_FailoverBeforeShutdownEnabled_update ''failover-before-shutdown'' True,
      BoolVar lib opt_ClusterRestrictPrivilegeEscalation_update ''cluster-restrict-privilege-escalation'' False,
      BoolVar lib opt_AllowCrossNamespaceUsers_update ''allow-cross-namespace-user'' False,
      BoolVar lib opt_AllowCrossNamespaceDatabases_update ''allow-cross-namespace-database'' False,
      StringVar opt_MetricsBindAddress_update ''metrics-addr'' defaultMetricsBindAddress,
      StringVar opt_HealthProbeBindAddress_update ''healthz-addr'' defaultHealthProbeBindAddress]"

text \<open>\<^verbatim>\<open>pflag.Parse\<close> on the flags of the command line as pairs of name and value, in their order.\<close>

fun parse_flags :: "flag list \<Rightarrow> (string \<times> string) list \<Rightarrow> options \<Rightarrow> options option" where
  "parse_flags fs [] o' = Some o'"
| "parse_flags fs ((name, v) # args) o' =
     (case find (\<lambda>f. flag_Name f = name) fs of
        None \<Rightarrow> None
      | Some f \<Rightarrow> Option.bind (flag_Set f v o') (parse_flags fs args))"

section \<open>The catalog file\<close>

datatype catalog_error =
    OpenCatalog string
  | CatalogLine string
  | CatalogEmptyKeyOrValue string
  | ReadCatalog string
  | CloseCatalog string

text \<open>
  The tokens of \<^verbatim>\<open>bufio.Scanner\<close>: the lines without their line end and a carriage return before it. A line that does not fit into
  the buffer of 64 KiB stops the scan with an error.
\<close>

definition scanned_lines :: "string \<Rightarrow> string list" where
  "scanned_lines s = (let ls = split_char (CHR 0x0A) s in if last ls = [] then butlast ls else ls)"

definition drop_cr :: "string \<Rightarrow> string" where
  "drop_cr s = (if s \<noteq> [] \<and> last s = CHR 0x0D then butlast s else s)"

definition max_line :: nat where
  "max_line = 65535"

fun catalog_lines :: "string option \<Rightarrow> string list \<Rightarrow> str_map \<Rightarrow> (catalog_error, str_map) result" where
  "catalog_lines readError [] out = (case readError of None \<Rightarrow> Inr out | Some err \<Rightarrow> Inl (ReadCatalog err))"
| "catalog_lines readError (l # ls) out =
     (if max_line < length l then Inl (ReadCatalog ''bufio.Scanner: token too long'')
      else let line = trim_space (drop_cr l) in
        if line = [] \<or> has_prefix line ''#'' then catalog_lines readError ls out
        else (case index_char (CHR ''='') line of
                None \<Rightarrow> Inl (CatalogLine line)
              | Some idx \<Rightarrow>
                  if idx = 0 then Inl (CatalogLine line)
                  else let key = trim_space (take idx line); val = trim_space (drop (idx + 1) line) in
                    if key = [] \<or> val = [] then Inl (CatalogEmptyKeyOrValue line)
                    else catalog_lines readError ls (out(key \<mapsto> val))))"

definition LoadMySQLVersionCatalogFile :: "host \<Rightarrow> string \<Rightarrow> (catalog_error, str_map) result" where
  "LoadMySQLVersionCatalogFile h path =
     (case h_Open h path of
        Inl err \<Rightarrow> Inl (OpenCatalog err)
      | Inr f \<Rightarrow>
          (case catalog_lines (of_ReadError f) (scanned_lines (of_Content f)) Map.empty of
             Inl err \<Rightarrow> Inl err
           | Inr m \<Rightarrow> (case of_CloseError f of None \<Rightarrow> Inr m | Some cerr \<Rightarrow> Inl (CloseCatalog cerr))))"

definition options_Validate :: "host \<Rightarrow> options \<Rightarrow> (catalog_error, options) result" where
  "options_Validate h o' =
     (let o1 = (if opt_OrchestratorTopologyUser o' = []
                then o'\<lparr>opt_OrchestratorTopologyUser := getFromEnvOrDefault (h_Getenv h) ''ORC_TOPOLOGY_USER'' []\<rparr> else o');
          o2 = (if opt_OrchestratorTopologyPassword o1 = []
                then o1\<lparr>opt_OrchestratorTopologyPassword :=
                       getFromEnvOrDefault (h_Getenv h) ''ORC_TOPOLOGY_PASSWORD'' []\<rparr> else o1)
      in if opt_MySQLVersionCatalogFile o2 \<noteq> []
         then (case LoadMySQLVersionCatalogFile h (opt_MySQLVersionCatalogFile o2) of
                 Inl err \<Rightarrow> Inl err
               | Inr m \<Rightarrow> Inr (o2\<lparr>opt_mysqlVersionCatalog := m\<rparr>))
         else Inr o2)"

section \<open>The start of the operator\<close>

text \<open>
  The steps of \<^verbatim>\<open>main\<close> up to the start of the manager: the instance, the registration of the flags with their
  defaults, the parsing, \<^verbatim>\<open>Validate\<close>, \<^verbatim>\<open>InitDefault\<close>. The state that the controllers then see is the result.
\<close>

datatype start_error = FlagError | ValidateError catalog_error

definition start_operator :: "flag_lib \<Rightarrow> host \<Rightarrow> blang \<Rightarrow> (string \<times> string) list \<Rightarrow> (start_error, env) result" where
  "start_operator lib h bl args =
     (let fs = AddFlags lib h; o' = fold flag_Default fs (GetOptions h) in
      case parse_flags fs args o' of
        None \<Rightarrow> Inl FlagError
      | Some o' \<Rightarrow>
          (case options_Validate h o' of
             Inl err \<Rightarrow> Inl (ValidateError err)
           | Inr opt \<Rightarrow> Inr (InitDefault opt \<lparr>e_blang = bl, e_runtime = None, e_options = opt\<rparr>)))"

section \<open>What a catalog says\<close>

text \<open>An entry of a catalog file: trimmed, on one line, with no equals sign in the key.\<close>

definition trimmed :: "string \<Rightarrow> bool" where
  "trimmed s \<longleftrightarrow> s \<noteq> [] \<and> \<not> is_space (hd s) \<and> \<not> is_space (last s)"

definition entry_ok :: "string \<times> string \<Rightarrow> bool" where
  "entry_ok kv \<longleftrightarrow>
     (case kv of (k, v) \<Rightarrow>
        trimmed k \<and> trimmed v \<and> CHR ''='' \<notin> set k \<and> CHR 0x0A \<notin> set (k @ v) \<and> hd k \<noteq> CHR ''#'' \<and>
        length k + length v < max_line)"

definition entry_line :: "string \<times> string \<Rightarrow> string" where
  "entry_line kv = fst kv @ ''='' @ snd kv"

definition catalog_text :: "(string \<times> string) list \<Rightarrow> string" where
  "catalog_text kvs = concat (map (\<lambda>kv. entry_line kv @ [CHR 0x0A]) kvs)"

lemma trim_trimmed: "trimmed s \<Longrightarrow> trim_space s = s"
  by (simp add: trim_space_id trimmed_def)

lemma split_lines:
  "list_all (\<lambda>l. c \<notin> set l) ls \<Longrightarrow> split_char c (concat (map (\<lambda>l. l @ [c]) ls)) = ls @ [[]]"
  by (induction ls) (simp_all add: split_char_append)

lemma scanned_catalog:
  assumes "list_all entry_ok kvs"
  shows "scanned_lines (catalog_text kvs) = map entry_line kvs"
proof -
  have "list_all (\<lambda>l. CHR 0x0A \<notin> set l) (map entry_line kvs)"
    using assms by (auto simp: list_all_iff entry_ok_def entry_line_def)
  from split_lines [OF this] show ?thesis
    by (simp add: scanned_lines_def catalog_text_def comp_def)
qed

lemma catalog_entry:
  assumes "entry_ok (k, v)"
  shows "catalog_lines readError (entry_line (k, v) # ls) out = catalog_lines readError ls (out(k \<mapsto> v))"
proof -
  have kv: "trimmed k" "trimmed v" "CHR ''='' \<notin> set k" "hd k \<noteq> CHR ''#''" "length k + length v < max_line"
    using assms by (simp_all add: entry_ok_def)
  let ?l = "k @ ''='' @ v"
  have "last ?l \<noteq> CHR 0x0D" using kv(2) by (auto simp: trimmed_def is_space_def)
  then have cr: "drop_cr ?l = ?l" by (simp add: drop_cr_def)
  have "trimmed ?l" using kv(1,2) by (simp add: trimmed_def)
  then have trim: "trim_space ?l = ?l" by (rule trim_trimmed)
  have hash: "\<not> has_prefix ?l ''#''" using kv(1,4) by (cases k) (auto simp: has_prefix_def trimmed_def)
  have idx: "index_char (CHR ''='') ?l = Some (length k)" using index_char_append [OF kv(3), of v] by simp
  have ne: "k \<noteq> []" "v \<noteq> []" using kv(1,2) by (simp_all add: trimmed_def)
  show ?thesis
    using kv(5) ne idx trim cr hash trim_trimmed [OF kv(1)] trim_trimmed [OF kv(2)]
    by (simp add: entry_line_def Let_def)
qed

lemma catalog_entries:
  "list_all entry_ok kvs \<Longrightarrow> catalog_lines None (map entry_line kvs) out = Inr (out ++ map_of (rev kvs))"
  by (induction kvs arbitrary: out) (auto simp: catalog_entry map_add_def fun_eq_iff split: option.splits simp del: catalog_lines.simps(2))

text \<open>
  A catalog file is read back: with one entry per line the images are those of the entries, and a later entry of a
  version replaces an earlier one.
\<close>

theorem catalog_read_back:
  assumes "h_Open h path = Inr \<lparr>of_Content = catalog_text kvs, of_ReadError = None, of_CloseError = None\<rparr>"
    and "list_all entry_ok kvs"
  shows "LoadMySQLVersionCatalogFile h path = Inr (map_of (rev kvs))"
  using assms by (simp add: LoadMySQLVersionCatalogFile_def scanned_catalog catalog_entries)

section \<open>The images of a started operator\<close>

lemma started_env:
  assumes "start_operator lib h bl args = Inr e"
  obtains o' where "parse_flags (AddFlags lib h) args (fold flag_Default (AddFlags lib h) (GetOptions h)) = Some o'"
    "options_Validate h o' = Inr (e_options e)" "e_blang e = bl"
    "e_runtime e = Some \<lparr>rt_Registry = BuiltinProfiles, rt_Resolver = e_options e\<rparr>"
  using assms by (auto simp: start_operator_def Let_def InitDefault_def split: option.splits sum.splits)

lemma Validate_keeps:
  assumes "options_Validate h o' = Inr o2"
  shows "opt_MySQLVersionImageOverride o2 = opt_MySQLVersionImageOverride o'"
    and "opt_MySQLVersionCatalogFile o2 = opt_MySQLVersionCatalogFile o'"
    and "opt_MySQLVersionCatalogFile o' = [] \<Longrightarrow> opt_mysqlVersionCatalog o2 = opt_mysqlVersionCatalog o'"
    and "opt_MySQLVersionCatalogFile o' \<noteq> [] \<Longrightarrow>
      LoadMySQLVersionCatalogFile h (opt_MySQLVersionCatalogFile o') = Inr (opt_mysqlVersionCatalog o2)"
  using assms by (auto simp: options_Validate_def Let_def split: if_splits sum.splits)

text \<open>
  Property C29. An entry of the catalog file decides the server image of a cluster, also against the built-in table, unless
  the spec names an image or the command line overrides the version.
\<close>

theorem catalog_decides_image:
  assumes "start_operator lib h bl args = Inr e" and "blang_ok bl"
    and "opt_MySQLVersionCatalogFile (e_options e) = path" and "path \<noteq> []"
    and "h_Open h path = Inr \<lparr>of_Content = catalog_text kvs, of_ReadError = None, of_CloseError = None\<rparr>"
    and "list_all entry_ok kvs" and "map_of (rev kvs) (dotted v) = Some img"
  shows "ServerImage e (e_options e) v (Some spec) =
    Inr (if cs_Image spec \<noteq> [] then cs_Image spec
         else case opt_MySQLVersionImageOverride (e_options e) (dotted v) of Some i \<Rightarrow> i | None \<Rightarrow> img)"
proof -
  obtain o' where o': "options_Validate h o' = Inr (e_options e)" and bl: "e_blang e = bl"
    and rt: "e_runtime e = Some \<lparr>rt_Registry = BuiltinProfiles, rt_Resolver = e_options e\<rparr>"
    using started_env [OF assms(1)] .
  have "env_ok e" using assms(2) bl rt by (simp add: env_ok_def)
  moreover have "Inr (opt_mysqlVersionCatalog (e_options e)) = LoadMySQLVersionCatalogFile h path"
    using Validate_keeps [OF o'] assms(3,4) by auto
  then have "opt_mysqlVersionCatalog (e_options e) = map_of (rev kvs)"
    using assms(5,6) by (simp add: LoadMySQLVersionCatalogFile_def scanned_catalog catalog_entries)
  ultimately show ?thesis
    using assms(7) by (simp add: server_image_precedence Let_def split: option.split)
qed

section \<open>Where the options come from\<close>

text \<open>The last value that the command line gives to a flag.\<close>

definition last_arg :: "string \<Rightarrow> (string \<times> string) list \<Rightarrow> string option" where
  "last_arg name args = map_of (rev args) name"

definition topology_fields :: "options \<Rightarrow> string \<times> string" where
  "topology_fields o' = (opt_OrchestratorTopologyUser o', opt_OrchestratorTopologyPassword o')"

definition sets_topology :: "flag \<Rightarrow> bool" where
  "sets_topology f \<longleftrightarrow>
     (\<forall>v o' o2. flag_Set f v o' = Some o2 \<longrightarrow> topology_fields o2 =
        (if flag_Name f = ''orchestrator-topology-user'' then v else opt_OrchestratorTopologyUser o',
         if flag_Name f = ''orchestrator-topology-password'' then v else opt_OrchestratorTopologyPassword o'))"

lemma string_sets_topology:
  assumes "\<And>v o'. topology_fields (upd (\<lambda>_. v) o') =
    (if name = ''orchestrator-topology-user'' then v else opt_OrchestratorTopologyUser o',
     if name = ''orchestrator-topology-password'' then v else opt_OrchestratorTopologyPassword o')"
  shows "sets_topology (StringVar upd name def)"
  using assms by (auto simp: sets_topology_def StringVar_def)

lemma parsed_sets_topology:
  assumes "name \<noteq> ''orchestrator-topology-user''" and "name \<noteq> ''orchestrator-topology-password''"
    and "\<And>v o'. topology_fields (upd (\<lambda>_. v) o') = topology_fields o'"
  shows "sets_topology (ParsedVar upd parse name def)"
  using assms by (auto simp: sets_topology_def ParsedVar_def topology_fields_def)

lemma AddFlags_topology: "list_all sets_topology (AddFlags lib h)"
  unfolding AddFlags_def BoolVar_def list.pred_inject
  by (intro conjI string_sets_topology parsed_sets_topology TrueI) (simp_all add: topology_fields_def)

lemma parse_topology:
  assumes "parse_flags (AddFlags lib h) args o' = Some o2"
  shows "topology_fields o2 =
    (case last_arg ''orchestrator-topology-user'' args of Some v \<Rightarrow> v | None \<Rightarrow> opt_OrchestratorTopologyUser o',
     case last_arg ''orchestrator-topology-password'' args of Some v \<Rightarrow> v | None \<Rightarrow> opt_OrchestratorTopologyPassword o')"
  using assms
proof (induction args arbitrary: o')
  case Nil
  then show ?case by (simp add: last_arg_def topology_fields_def)
next
  case (Cons a args)
  obtain name v where a: "a = (name, v)" by (cases a)
  from Cons.prems obtain f o1 where f: "find (\<lambda>f. flag_Name f = name) (AddFlags lib h) = Some f"
    and o1: "flag_Set f v o' = Some o1" "parse_flags (AddFlags lib h) args o1 = Some o2"
    by (auto simp: a bind_eq_Some_conv split: option.splits)
  have "f \<in> set (AddFlags lib h)" and "flag_Name f = name"
    using f by (auto simp: find_Some_iff)
  then have "topology_fields o1 =
    (if name = ''orchestrator-topology-user'' then v else opt_OrchestratorTopologyUser o',
     if name = ''orchestrator-topology-password'' then v else opt_OrchestratorTopologyPassword o')"
    using AddFlags_topology [of lib h] o1(1) by (simp add: list_all_iff sets_topology_def)
  with Cons.IH [OF o1(2)] show ?case
    by (auto simp: last_arg_def a topology_fields_def map_add_def split: option.splits)
qed

lemma default_topology:
  "topology_fields (fold flag_Default (AddFlags lib h) (GetOptions h)) = ([], [])"
  by (simp add: AddFlags_def StringVar_def ParsedVar_def BoolVar_def topology_fields_def)

lemma Validate_topology:
  assumes "options_Validate h o' = Inr o2"
  shows "topology_fields o2 =
    (if opt_OrchestratorTopologyUser o' = [] then h_Getenv h ''ORC_TOPOLOGY_USER'' else opt_OrchestratorTopologyUser o',
     if opt_OrchestratorTopologyPassword o' = [] then h_Getenv h ''ORC_TOPOLOGY_PASSWORD''
     else opt_OrchestratorTopologyPassword o')"
  using assms
  by (auto simp: options_Validate_def topology_fields_def getFromEnvOrDefault_def Let_def split: if_splits sum.splits)

text \<open>
  The credentials of Orchestrator are those of the last flag on the command line; without the flag, or with
  an empty one, they are those of the environment.
\<close>

theorem topology_credentials:
  assumes "start_operator lib h bl args = Inr e"
  shows "topology_fields (e_options e) =
    (case last_arg ''orchestrator-topology-user'' args of
       Some (c # cs) \<Rightarrow> c # cs | _ \<Rightarrow> h_Getenv h ''ORC_TOPOLOGY_USER'',
     case last_arg ''orchestrator-topology-password'' args of
       Some (c # cs) \<Rightarrow> c # cs | _ \<Rightarrow> h_Getenv h ''ORC_TOPOLOGY_PASSWORD'')"
proof -
  obtain o' where p: "parse_flags (AddFlags lib h) args (fold flag_Default (AddFlags lib h) (GetOptions h)) = Some o'"
    and v: "options_Validate h o' = Inr (e_options e)"
    using started_env [OF assms] .
  from Validate_topology [OF v]
  parse_topology [OF p] default_topology [of lib h] show ?thesis
    by (auto simp: topology_fields_def split: option.splits list.splits)
qed

section \<open>A concrete start\<close>

definition ref_host :: host where
  "ref_host =
     \<lparr>h_Getenv = (\<lambda>key. if key = ''ORC_TOPOLOGY_USER'' then ''orc'' else []),
      h_Open = (\<lambda>path. if path = ''/c''
        then Inr \<lparr>of_Content = catalog_text [(''8.4.8'', ''mirror/ps:8.4.8'')], of_ReadError = None, of_CloseError = None\<rparr>
        else Inl ''no such file'')\<rparr>"

definition ref_flag_lib :: flag_lib where
  "ref_flag_lib = \<lparr>fl_Bool = (\<lambda>v. Some (v = ''true'')), fl_Int32 = atoi, fl_StringToString = (\<lambda>_. Some Map.empty)\<rparr>"

lemma ref_entry_ok: "list_all entry_ok [(''8.4.8'', ''mirror/ps:8.4.8'')]"
  by (simp add: entry_ok_def trimmed_def is_space_def max_line_def)

theorem catalog_read_back_witness:
  "LoadMySQLVersionCatalogFile ref_host ''/c'' = Inr [''8.4.8'' \<mapsto> ''mirror/ps:8.4.8'']"
  using catalog_read_back [OF _ ref_entry_ok, of ref_host "''/c''"] by (simp add: ref_host_def)

lemma Validate_catalog:
  "opt_MySQLVersionCatalogFile o' = path \<Longrightarrow> LoadMySQLVersionCatalogFile h path = Inr m \<Longrightarrow> path \<noteq> [] \<Longrightarrow>
    \<exists>o2. options_Validate h o' = Inr o2"
  by (simp add: options_Validate_def Let_def)

lemma ref_start:
  obtains e where "start_operator ref_flag_lib ref_host ref_blang [(''mysql-version-catalog-file'', ''/c'')] = Inr e"
    and "opt_MySQLVersionCatalogFile (e_options e) = ''/c''"
    and "opt_MySQLVersionImageOverride (e_options e) = Map.empty"
proof -
  let ?o = "fold flag_Default (AddFlags ref_flag_lib ref_host) (GetOptions ref_host)"
  let ?o' = "?o\<lparr>opt_MySQLVersionCatalogFile := ''/c''\<rparr>"
  have p: "parse_flags (AddFlags ref_flag_lib ref_host) [(''mysql-version-catalog-file'', ''/c'')] ?o = Some ?o'"
    by (simp add: AddFlags_def StringVar_def ParsedVar_def BoolVar_def)
  have c: "LoadMySQLVersionCatalogFile ref_host ''/c'' = Inr [''8.4.8'' \<mapsto> ''mirror/ps:8.4.8'']"
    using ref_entry_ok
    by (simp add: LoadMySQLVersionCatalogFile_def ref_host_def scanned_catalog catalog_entries
        del: catalog_lines.simps list.map list.pred_inject)
  obtain o2 where v: "options_Validate ref_host ?o' = Inr o2"
    using Validate_catalog [OF _ c, of ?o'] by auto
  let ?e = "InitDefault o2 \<lparr>e_blang = ref_blang, e_runtime = None, e_options = o2\<rparr>"
  have start: "start_operator ref_flag_lib ref_host ref_blang [(''mysql-version-catalog-file'', ''/c'')] = Inr ?e"
    by (simp only: start_operator_def Let_def p v option.case sum.case)
  have "opt_MySQLVersionImageOverride ?o = Map.empty"
    by (simp add: AddFlags_def StringVar_def ParsedVar_def BoolVar_def)
  then have "opt_MySQLVersionImageOverride o2 = Map.empty" and "opt_MySQLVersionCatalogFile o2 = ''/c''"
    using Validate_keeps(1,2) [OF v] by simp_all
  with that [OF start] show thesis by (simp add: InitDefault_def)
qed

theorem catalog_decides_image_witness:
  "\<exists>e. start_operator ref_flag_lib ref_host ref_blang [(''mysql-version-catalog-file'', ''/c'')] = Inr e \<and>
     ServerImage e (e_options e) (ver 8 4 8) (Some ref_spec) = Inr ''mirror/ps:8.4.8''"
proof -
  obtain e where e: "start_operator ref_flag_lib ref_host ref_blang [(''mysql-version-catalog-file'', ''/c'')] = Inr e"
    "opt_MySQLVersionCatalogFile (e_options e) = ''/c''" "opt_MySQLVersionImageOverride (e_options e) = Map.empty"
    by (rule ref_start)
  have "dotted (ver 8 4 8) = ''8.4.8''" by code_simp
  with catalog_decides_image [OF e(1) ref_blang_ok e(2) _ _ ref_entry_ok, of "ver 8 4 8" "''mirror/ps:8.4.8''" ref_spec] e
  show ?thesis by (intro exI [of _ e]) (simp add: ref_host_def ref_spec_def)
qed

theorem topology_credentials_witness:
  "\<exists>e. start_operator ref_flag_lib ref_host ref_blang [(''mysql-version-catalog-file'', ''/c'')] = Inr e \<and>
     opt_OrchestratorTopologyUser (e_options e) = ''orc''"
proof -
  obtain e where e: "start_operator ref_flag_lib ref_host ref_blang [(''mysql-version-catalog-file'', ''/c'')] = Inr e"
    by (rule ref_start)
  from topology_credentials [OF e] e show ?thesis
    by (intro exI [of _ e]) (simp add: topology_fields_def last_arg_def ref_host_def)
qed

end
