(* ===== verification/Controllers.thy ===== *)
theory Controllers
  imports Options ClusterCtl NodeCtl OrcCtl
begin

text \<open>
  How the controllers are set up and started: the functions \<^verbatim>\<open>Add\<close> of the packages below \<^verbatim>\<open>pkg/controller\<close>,
  \<^verbatim>\<open>AddToManager\<close>, and the rest of \<^verbatim>\<open>cmd/mysql-operator/main.go\<close>. The manager and the controller library are a
  parameter: the error of a step of the set-up, if it has one. What a watch puts into the work queue for an
  object is written out as that library documents it.
\<close>

section \<open>Watches\<close>

datatype k8s_kind =
    MysqlClusterKind | MysqlUserKind | MysqlDatabaseKind | MysqlBackupKind
  | StatefulSetKind | ServiceKind | ConfigMapKind | PodDisruptionBudgetKind | SecretKind | JobKind | PodKind

record owner_ref =
  or_Kind :: k8s_kind
  or_Name :: string
  or_Controller :: bool

record watched_object =
  wo_Kind :: k8s_kind
  wo_Namespace :: string
  wo_Name :: string
  wo_Owners :: "owner_ref list"

datatype watch_handler =
    EnqueueRequestForObject
  | EnqueueRequestForOwner bool k8s_kind
  | HandlerFuncs
  | EnqueuePods

text \<open>A watch of a kind, or of the channel of the orchestrator controller (None).\<close>

record watch =
  wa_Kind :: "k8s_kind option"
  wa_Handler :: watch_handler

type_synonym request = "string \<times> string"

text \<open>
  The requests of an event on an object. With \<^verbatim>\<open>IsController\<close> only the first owner that is marked as controller counts.
  The handlers of the orchestrator controller's watch only change its registry. The predicates of the watch
  of the pods are \<open>watch_pod\<close> in the theory of the node controller.
\<close>

definition controller_owner :: "watched_object \<Rightarrow> owner_ref list" where
  "controller_owner obj = (case find or_Controller (wo_Owners obj) of None \<Rightarrow> [] | Some r \<Rightarrow> [r])"

definition requests_for :: "watch \<Rightarrow> watched_object \<Rightarrow> request list" where
  "requests_for w obj =
     (if wa_Kind w \<noteq> Some (wo_Kind obj) then []
      else case wa_Handler w of
        EnqueueRequestForObject \<Rightarrow> [(wo_Namespace obj, wo_Name obj)]
      | EnqueuePods \<Rightarrow> [(wo_Namespace obj, wo_Name obj)]
      | EnqueueRequestForOwner isController kind \<Rightarrow>
          map (\<lambda>r. (wo_Namespace obj, or_Name r))
            (filter (\<lambda>r. or_Kind r = kind) (if isController then controller_owner obj else wo_Owners obj))
      | HandlerFuncs \<Rightarrow> [])"

section \<open>Set-up\<close>

datatype setup_step =
    NewClient string
  | NewController string int
  | Watch string watch
  | AddRunnable string
  | IndexField k8s_kind string

datatype setup_result = SetupOk | SetupError string | SetupPanic

text \<open>The steps that are taken, until one fails; the reconciler of the nodes panics when it gets no client.\<close>

fun set_up :: "(setup_step \<Rightarrow> string option) \<Rightarrow> setup_step list \<Rightarrow> setup_step list \<times> setup_result" where
  "set_up mgr [] = ([], SetupOk)"
| "set_up mgr (x # xs) =
     (case mgr x of
        Some err \<Rightarrow> ([x], case x of NewClient _ \<Rightarrow> SetupPanic | _ \<Rightarrow> SetupError err)
      | None \<Rightarrow> let (done', r) = set_up mgr xs in (x # done', r))"

definition watch_kind :: "string \<Rightarrow> k8s_kind \<Rightarrow> setup_step" where
  "watch_kind name kind = Watch name \<lparr>wa_Kind = Some kind, wa_Handler = EnqueueRequestForObject\<rparr>"

definition watch_owned :: "string \<Rightarrow> k8s_kind \<Rightarrow> k8s_kind \<Rightarrow> setup_step" where
  "watch_owned name owner kind =
     Watch name \<lparr>wa_Kind = Some kind, wa_Handler = EnqueueRequestForOwner True owner\<rparr>"

text \<open>One reconciliation at a time is the default of the library.\<close>

definition cluster_add :: "setup_step list" where
  "cluster_add =
     [NewController ''controller.mysqlcluster'' 1,
      watch_kind ''controller.mysqlcluster'' MysqlClusterKind,
      watch_owned ''controller.mysqlcluster'' MysqlClusterKind StatefulSetKind,
      watch_owned ''controller.mysqlcluster'' MysqlClusterKind ServiceKind,
      watch_owned ''controller.mysqlcluster'' MysqlClusterKind ConfigMapKind,
      watch_owned ''controller.mysqlcluster'' MysqlClusterKind PodDisruptionBudgetKind,
      watch_owned ''controller.mysqlcluster'' MysqlClusterKind SecretKind]"

definition user_add :: "setup_step list" where
  "user_add = [NewController ''mysql-user'' 1, watch_kind ''mysql-user'' MysqlUserKind]"

definition database_add :: "setup_step list" where
  "database_add = [NewController ''mysql-database'' 1, watch_kind ''mysql-database'' MysqlDatabaseKind]"

definition backup_add :: "setup_step list" where
  "backup_add =
     [NewController ''mysqlbackup-controller'' 1, watch_kind ''mysqlbackup-controller'' MysqlBackupKind,
      watch_owned ''mysqlbackup-controller'' MysqlBackupKind JobKind]"

definition cron_Add :: "setup_step list" where
  "cron_Add = [AddRunnable ''cron'']"

definition cron_add :: "setup_step list" where
  "cron_add =
     [NewController ''mysqlbackupcron-controller'' 1, watch_kind ''mysqlbackupcron-controller'' MysqlClusterKind,
      IndexField MysqlBackupKind ''status.completed'']"

text \<open>The values of the index \<^verbatim>\<open>status.completed\<close> for a backup.\<close>

definition addBackupFieldIndexers :: "bool \<Rightarrow> string list" where
  "addBackupFieldIndexers completed = [if completed then ''true'' else ''false'']"

definition node_newReconciler :: "setup_step list" where
  "node_newReconciler = [NewClient ''controller.mysqlNode'']"

definition node_add :: "setup_step list" where
  "node_add =
     [NewController ''controller.mysqlNode'' 1,
      Watch ''controller.mysqlNode'' \<lparr>wa_Kind = Some PodKind, wa_Handler = EnqueuePods\<rparr>]"

definition orc_add :: "options \<Rightarrow> setup_step list" where
  "orc_add opt =
     [NewController ''controller.orchestrator'' (opt_OrchestratorConcurrentReconciles opt),
      Watch ''controller.orchestrator'' \<lparr>wa_Kind = Some MysqlClusterKind, wa_Handler = HandlerFuncs\<rparr>,
      Watch ''controller.orchestrator'' \<lparr>wa_Kind = None, wa_Handler = EnqueueRequestForObject\<rparr>,
      AddRunnable ''controller.orchestrator'']"

text \<open>The functions \<^verbatim>\<open>Add\<close>, in the order in which the files of the package register them.\<close>

definition AddToManagerFuncs :: "options \<Rightarrow> setup_step list list" where
  "AddToManagerFuncs opt =
     [backup_add, cron_Add @ cron_add, cluster_add, database_add, user_add, node_newReconciler @ node_add, orc_add opt]"

fun add_to_manager :: "(setup_step \<Rightarrow> string option) \<Rightarrow> setup_step list list \<Rightarrow> setup_step list \<times> setup_result" where
  "add_to_manager mgr [] = ([], SetupOk)"
| "add_to_manager mgr (f # fs) =
     (case set_up mgr f of
        (done', SetupOk) \<Rightarrow> (case add_to_manager mgr fs of (done2, r) \<Rightarrow> (done' @ done2, r))
      | (done', r) \<Rightarrow> (done', r))"

definition AddToManager :: "(setup_step \<Rightarrow> string option) \<Rightarrow> options \<Rightarrow> setup_step list \<times> setup_result" where
  "AddToManager mgr opt = add_to_manager mgr (AddToManagerFuncs opt)"

section \<open>The main function\<close>

record manager_options =
  mo_LeaderElection :: bool
  mo_LeaderElectionNamespace :: string
  mo_LeaderElectionID :: string
  mo_Namespace :: string
  mo_MetricsBindAddress :: string
  mo_HealthProbeBindAddress :: string

datatype main_step =
    GetConfig
  | NewManager manager_options
  | AddHealthzCheck string
  | AddReadyzCheck string
  | AddToScheme
  | Setup setup_step
  | StartManager

text \<open>What the process does; \<open>Exit\<close> is \<^verbatim>\<open>os.Exit(1)\<close>, \<open>MainPanic\<close> the panic of a step of the set-up.\<close>

datatype main_result = Exit | MainPanic | Stopped

fun main_steps :: "(main_step \<Rightarrow> string option) \<Rightarrow> main_step list \<Rightarrow> main_step list \<times> bool" where
  "main_steps mgr [] = ([], True)"
| "main_steps mgr (x # xs) =
     (case mgr x of
        Some err \<Rightarrow> ([x], False)
      | None \<Rightarrow> let (done', ok) = main_steps mgr xs in (x # done', ok))"

definition mgr_options :: "options \<Rightarrow> manager_options" where
  "mgr_options opt =
     \<lparr>mo_LeaderElection = True, mo_LeaderElectionNamespace = opt_LeaderElectionNamespace opt,
      mo_LeaderElectionID = opt_LeaderElectionID opt, mo_Namespace = opt_Namespace opt,
      mo_MetricsBindAddress = opt_MetricsBindAddress opt, mo_HealthProbeBindAddress = opt_HealthProbeBindAddress opt\<rparr>"

definition operator_main ::
    "flag_lib \<Rightarrow> host \<Rightarrow> blang \<Rightarrow> (main_step \<Rightarrow> string option) \<Rightarrow> (string \<times> string) list \<Rightarrow> main_step list \<times> main_result" where
  "operator_main lib h bl mgr args =
     (case start_operator lib h bl args of
        Inl err \<Rightarrow> ([], Exit)
      | Inr e \<Rightarrow>
          let opt = e_options e in
          (case main_steps mgr [GetConfig, NewManager (mgr_options opt), AddHealthzCheck ''healthz'',
                                AddReadyzCheck ''readyz'', AddToScheme] of
             (done1, False) \<Rightarrow> (done1, Exit)
           | (done1, True) \<Rightarrow>
               (case AddToManager (mgr \<circ> Setup) opt of
                  (done2, SetupOk) \<Rightarrow>
                    (done1 @ map Setup done2 @ [StartManager],
                     if mgr StartManager = None then Stopped else Exit)
                | (done2, SetupError err) \<Rightarrow> (done1 @ map Setup done2, Exit)
                | (done2, SetupPanic) \<Rightarrow> (done1 @ map Setup done2, MainPanic))))"

section \<open>Nothing runs before everything is set up\<close>

lemma setup_ok: "set_up mgr xs = (d, r) \<Longrightarrow> (r = SetupOk \<longrightarrow> d = xs \<and> (\<forall>x \<in> set xs. mgr x = None))"
  by (induction xs arbitrary: d r) (auto split: option.splits setup_step.splits prod.splits)

lemma add_to_manager_ok:
  "add_to_manager mgr fs = (d, SetupOk) \<Longrightarrow> d = concat fs \<and> (\<forall>x \<in> set (concat fs). mgr x = None)"
proof (induction fs arbitrary: d)
  case Nil
  then show ?case by simp
next
  case (Cons f fs)
  from Cons.prems obtain d1 d2 where d: "set_up mgr f = (d1, SetupOk)" "add_to_manager mgr fs = (d2, SetupOk)" "d = d1 @ d2"
    by (auto split: prod.splits setup_result.splits)
  with setup_ok [OF d(1)] Cons.IH [OF d(2)] show ?case by auto
qed

lemma main_steps_all: "main_steps mgr xs = (d, ok) \<Longrightarrow> set d \<subseteq> set xs \<and> (ok \<longrightarrow> d = xs)"
  by (induction xs arbitrary: d ok) (auto split: option.splits prod.splits)

text \<open>
  The manager is started only after the options were valid and every controller with all its watches was set
  up without an error; starting it is the last step.
\<close>

theorem started_after_setup:
  assumes "operator_main lib h bl mgr args = (steps, r)" and "StartManager \<in> set steps"
  shows "\<exists>e before. start_operator lib h bl args = Inr e \<and> steps = before @ [StartManager] \<and>
    StartManager \<notin> set before \<and>
    suffix (map Setup (concat (AddToManagerFuncs (e_options e)))) before \<and>
    list_all (\<lambda>x. mgr (Setup x) = None) (concat (AddToManagerFuncs (e_options e)))"
proof (cases "start_operator lib h bl args")
  case (Inl err)
  with assms show ?thesis by (simp add: operator_main_def)
next
  case (Inr e)
  let ?first = "[GetConfig, NewManager (mgr_options (e_options e)), AddHealthzCheck ''healthz'',
    AddReadyzCheck ''readyz'', AddToScheme]"
  obtain d1 ok where d1: "main_steps mgr ?first = (d1, ok)" by (cases "main_steps mgr ?first")
  have no1: "StartManager \<notin> set d1" using main_steps_all [OF d1] by auto
  obtain d2 s where d2: "AddToManager (mgr \<circ> Setup) (e_options e) = (d2, s)"
    by (cases "AddToManager (mgr \<circ> Setup) (e_options e)")
  have no2: "StartManager \<notin> set (map Setup d2)" by auto
  have ok: "ok" and s: "s = SetupOk"
    using assms no1 no2 Inr d1 d2 by (auto simp: operator_main_def Let_def split: bool.splits setup_result.splits)
  have "steps = (d1 @ map Setup d2) @ [StartManager]"
    using assms(1) Inr d1 d2 ok s by (simp add: operator_main_def Let_def)
  moreover have "d2 = concat (AddToManagerFuncs (e_options e)) \<and>
      list_all (\<lambda>x. mgr (Setup x) = None) (concat (AddToManagerFuncs (e_options e)))"
    using add_to_manager_ok d2 s by (fastforce simp: AddToManager_def list_all_iff)
  ultimately show ?thesis
    using Inr no1 no2 by (intro exI [of _ e] exI [of _ "d1 @ map Setup d2"]) (auto simp: suffix_def)
qed

section \<open>Owned objects come back\<close>

text \<open>The kind of the object that a syncer of the cluster controller writes, where the cluster is its owner.\<close>

fun owned_kind :: "sync_kind \<Rightarrow> k8s_kind option" where
  "owned_kind ConfigMapSync = Some ConfigMapKind"
| "owned_kind OperatedSecretSync = Some SecretKind"
| "owned_kind SecretSync = None"
| "owned_kind HeadlessSVCSync = None"
| "owned_kind MasterSVCSync = Some ServiceKind"
| "owned_kind HealthySVCSync = Some ServiceKind"
| "owned_kind HealthyReplicasSVCSync = Some ServiceKind"
| "owned_kind StatefulSetSync = Some StatefulSetKind"
| "owned_kind PDBSync = Some PodDisruptionBudgetKind"

text \<open>
  Whatever happens to an object that the cluster controller owns, its cluster is reconciled again: the set-up has
  a watch that makes the request for the cluster.
\<close>

theorem owned_objects_watched:
  assumes "owned_kind k = Some (wo_Kind obj)"
    and "find or_Controller (wo_Owners obj) = Some \<lparr>or_Kind = MysqlClusterKind, or_Name = name, or_Controller = True\<rparr>"
  shows "\<exists>w. Watch ''controller.mysqlcluster'' w \<in> set (concat (AddToManagerFuncs opt)) \<and>
    requests_for w obj = [(wo_Namespace obj, name)]"
proof -
  let ?w = "\<lparr>wa_Kind = Some (wo_Kind obj), wa_Handler = EnqueueRequestForOwner True MysqlClusterKind\<rparr>"
  have "Watch ''controller.mysqlcluster'' ?w \<in> set cluster_add"
    using assms(1) by (cases k) (simp_all add: cluster_add_def watch_owned_def)
  then have "Watch ''controller.mysqlcluster'' ?w \<in> set (concat (AddToManagerFuncs opt))"
    by (simp add: AddToManagerFuncs_def)
  moreover have "requests_for ?w obj = [(wo_Namespace obj, name)]"
    using assms(2) by (simp add: requests_for_def controller_owner_def)
  ultimately show ?thesis by blast
qed

section \<open>Concrete runs\<close>

lemma set_up_none: "(\<And>x. mgr x = None) \<Longrightarrow> set_up mgr xs = (xs, SetupOk)"
  by (induction xs) simp_all

lemma add_to_manager_none: "(\<And>x. mgr x = None) \<Longrightarrow> add_to_manager mgr fs = (concat fs, SetupOk)"
  by (induction fs) (simp_all add: set_up_none)

lemma main_steps_none: "(\<And>x. mgr x = None) \<Longrightarrow> main_steps mgr xs = (xs, True)"
  by (induction xs) simp_all

theorem started_after_setup_witness:
  "\<exists>steps r. operator_main ref_flag_lib ref_host ref_blang (\<lambda>_. None) [(''mysql-version-catalog-file'', ''/c'')] = (steps, r) \<and>
     StartManager \<in> set steps \<and> last steps = StartManager"
proof -
  let ?args = "[(''mysql-version-catalog-file'', ''/c'')]"
  obtain e where e: "start_operator ref_flag_lib ref_host ref_blang ?args = Inr e" by (rule ref_start)
  obtain steps r where r: "operator_main ref_flag_lib ref_host ref_blang (\<lambda>_. None) ?args = (steps, r)"
    by (cases "operator_main ref_flag_lib ref_host ref_blang (\<lambda>_. None) ?args")
  have "StartManager \<in> set steps"
    using r e by (auto simp: operator_main_def Let_def main_steps_none AddToManager_def add_to_manager_none comp_def)
  with started_after_setup [OF r this] r show ?thesis by (intro exI [of _ steps] exI [of _ r]) auto
qed

definition ref_owned :: watched_object where
  "ref_owned =
     \<lparr>wo_Kind = StatefulSetKind, wo_Namespace = ''ns'', wo_Name = ''db-mysql'',
      wo_Owners = [\<lparr>or_Kind = MysqlClusterKind, or_Name = ''db'', or_Controller = True\<rparr>]\<rparr>"

theorem owned_objects_watched_witness:
  "\<exists>w. Watch ''controller.mysqlcluster'' w \<in> set (concat (AddToManagerFuncs ref_options)) \<and>
     requests_for w ref_owned = [(''ns'', ''db'')]"
  using owned_objects_watched [of StatefulSetSync ref_owned "''db''" ref_options] by (simp add: ref_owned_def)

end
