(* ===== verification/Spec2Isabelle.thy ===== *)
theory Spec2Isabelle
  imports VersionUpgrade OrcReconcile PvcCleaner NodeCtl Defaults ClusterProps UserCtl DatabaseCtl BackupCron
    StsProps ConfigMap Syncers SidecarMain OrcFake Controllers
begin

text \<open>
  A model of the MySQL operator, with proofs about it. The operator runs MySQL on Kubernetes. A user writes
  a \<^verbatim>\<open>MysqlCluster\<close>; the operator keeps a stateful set of MySQL servers with its services, configuration and
  secrets, brings replication up, elects no master itself but carries out what the Orchestrator service decides,
  moves a cluster to another version of the server, takes backups, and creates users and databases. All
  file names below are relative to \<^verbatim>\<open>src/\<close>.

  \<^bold>\<open>The processes and how they interact.\<close> Three programs share the sources.

  \<^item> The operator, \<^verbatim>\<open>cmd/mysql-operator\<close>: seven controllers around a work queue. They share no state in memory: each run reads its
    resource from the API server, changes the copy in memory, and writes. What one controller learns reaches another
    through the resource: the orchestrator controller writes the conditions of the nodes into the status of the
    cluster, the cluster controller turns them into labels of the pods, which the services select on; the node controller
    marks a pod as configured when its replication is up.
  \<^item> The sidecar, \<^verbatim>\<open>cmd/mysql-operator-sidecar\<close>, in every pod: as an init container it clones the data of another node or of a
    bucket and writes the configuration files; as a container beside the server it streams backups to other nodes; as the
    container of a backup job it stores a backup.
  \<^item> The helper, \<^verbatim>\<open>cmd/orc-helper\<close>, which the hooks of Orchestrator run: it sets and clears the condition that a failover is in progress.

  The order of an effect relative to the others is what most theorems are about. So a run of a controller returns the list of its effects
  in order, and the answers of the world are functions of the effects before them, or of the request alone where
  the code asks at most once.

  \<^bold>\<open>THEORIES.\<close>
  \<^bold>\<open>Ground.\<close>
  \<^item> Prelude: the functions of Go's \<^verbatim>\<open>strings\<close>, \<^verbatim>\<open>strconv\<close> and \<^verbatim>\<open>fmt\<close> that the operator uses, with their lemmas (splitting and
    joining, decimal numbers that are printed and read back, wrap-around of conversions), and the search of a list by index.
  \<^item> ApiTypes: spec and status of a cluster (\<^verbatim>\<open>pkg/apis/mysql/v1alpha1\<close>), pods, claims and stateful sets as far as they are
    read, the identifiers of \<^verbatim>\<open>pkg/apis/domain\<close>. The types of the other resources stand with their controllers.
  \<^item> Conditions: the contract of a list of status conditions as a locale, interpreted on the four update functions of the
    code: cluster and node conditions (Cluster), conditions of a pod (NodeCtl), of a backup (Backup).

  \<^bold>\<open>Versions.\<close>
  \<^item> Semver: \<^verbatim>\<open>pkg/util/semver\<close> and \<^verbatim>\<open>pkg/util/mysqlversion\<close>.
  \<^item> Versioning: \<^verbatim>\<open>pkg/mysqlversioning\<close> with the tables of \<^verbatim>\<open>pkg/util/constants\<close>. The four profiles are one datatype with a
    table of methods per profile; the search of the registry is the locale \<^verbatim>\<open>first_match_registry\<close>. The rule for upgrades is
    shown to be the rule on lines of versions that the comments state.
  \<^item> VersionUpgrade: \<^verbatim>\<open>pkg/controller/mysqlcluster/internal/versionupgrade\<close>. Its functions are also the steps of the machine
    \<^verbatim>\<open>upgrade_trans\<close> over the pair of cluster and stateful set, with edits of the user at any time; the invariant of the reachable
    states says that an upgrade goes line by line.

  \<^bold>\<open>A cluster.\<close>
  \<^item> Cluster: \<^verbatim>\<open>pkg/internal/mysqlcluster\<close> (names, labels, conditions, the three versions, validation); Defaults: \<^verbatim>\<open>defaults.go\<close> there and
    the defaults of the scheme; Upgrades: the conversion of clusters older than version 0.3.
  \<^item> ClusterCtl and ClusterProps: \<^verbatim>\<open>Reconcile\<close> of \<^verbatim>\<open>pkg/controller/mysqlcluster\<close> with every branch and the deferred save of the
    status, the syncer of the labels; properties over the whole run. The locale \<^verbatim>\<open>status_step\<close> carries the proofs that a phase of the run adds only
    certain effects and leaves all but the status alone.
  \<^item> StatefulSet and StsProps: the syncer of the stateful set, that is the whole template of the pods, its security, and how it
    is created or updated; the syncer is a refinement of the steps of the upgrade machine. ConfigMap: \<^verbatim>\<open>my.cnf\<close> and the
    script before a stop. Syncers: services, disruption budget, secrets. PvcCleaner: removal and expansion of claims.

  \<^bold>\<open>Replication.\<close>
  \<^item> Orchestrator: types, errors and calls of \<^verbatim>\<open>pkg/orchestrator\<close> with the parser of its time stamps. OrcReconcile: the updater and the
    finalizer of \<^verbatim>\<open>pkg/controller/orchestrator\<close>. Json and OrcClient: the HTTP client with the JSON it reads, as one more provider of the
    interface that the updater is modelled over. OrcCtl: the controller around the updater, the registry of clusters that is walked
    every five seconds (a state machine with the map, the walk and the channel), and the helper of the hooks.
  \<^item> OrcFake: the service in memory that the tests run against, \<^verbatim>\<open>pkg/orchestrator/fake\<close>. It obeys the calls it gets (the locale
    \<^verbatim>\<open>obeying_service\<close>), which closes the loop: controller and service are run in turns.
  \<^item> NodeCtl: \<^verbatim>\<open>pkg/controller/node\<close>, the initialization of a server over SQL.

  \<^bold>\<open>Users, databases, backups.\<close>
  \<^item> SqlClient: the statements of \<^verbatim>\<open>pkg/internal/mysql\<close>; SqlCtl: what the controllers of users and databases share, with the locale of
    a step that only sends statements; UserCtl and DatabaseCtl: \<^verbatim>\<open>pkg/controller/mysqluser\<close> and \<^verbatim>\<open>pkg/controller/mysqldatabase\<close>.
  \<^item> Backup: \<^verbatim>\<open>pkg/internal/mysqlbackup\<close> and \<^verbatim>\<open>pkg/controller/mysqlbackup\<close> with both of its jobs; BackupCron:
    \<^verbatim>\<open>pkg/controller/mysqlbackupcron\<close>, shown to implement a map from clusters to schedules.

  \<^bold>\<open>The sidecar.\<close>
  \<^item> Sidecar, SidecarProps: configuration, handlers, clone, and the store of a backup (\<^verbatim>\<open>pkg/sidecar\<close>). SidecarConf: the files of the init
    container, and that it reads the cluster back from the environment that the template gives it. SidecarMain: the server with its
    limit of one backup at a time as a step relation, \<^verbatim>\<open>RunSidecarCommand\<close> and \<^verbatim>\<open>main\<close>, and the composition of the backup job with
    the process it starts.

  \<^bold>\<open>Start.\<close>
  \<^item> Options: \<^verbatim>\<open>pkg/options\<close>, flags and the catalog of images. Controllers: the functions \<^verbatim>\<open>Add\<close>, the watches with the requests they
    enqueue, and the end of \<^verbatim>\<open>main\<close>.

  \<^bold>\<open>CONVENTIONS.\<close>
  A struct is a record with the names of its fields behind a prefix, a type with constants that the code
  compares is a datatype or the strings themselves. A nil pointer is \<open>None\<close>, a returned error an \<open>Inl\<close>, and a
  panic (a nil dereference, a write to a nil map, \<^verbatim>\<open>Must\<close>) a value of its own, so that its absence is a theorem.
  A Go map that is read by key is a map; where the order of its iteration matters the order is an argument. Methods that change their
  receiver return the changed one. Sharing is written out in the one place where the code depends on it: the
  template of the pods shares the map of annotations with the spec of the cluster.

  Integers. \<^verbatim>\<open>int\<close> of Go has 64 bits: sums of ordinals and offsets, and conversions to \<^verbatim>\<open>int32\<close> and \<^verbatim>\<open>int64\<close>, wrap; the
  numbers of a version are words of 64 bits. \<^verbatim>\<open>float64\<close> is a rational that is rounded to 53 bits, ties to even, after every
  operation; the range of the exponent is not exceeded by the code.

  Time. All reads of the clock in one run of the orchestrator updater, and in one change of conditions, give the same \<open>now\<close>.

  Loops and their bounds.
  \<^item> The loops of the code over slices are structural recursions.
  \<^item> \<^verbatim>\<open>GetNodeStatusIndex\<close> calls itself after it has added the entry it looks for; \<^verbatim>\<open>getMasterForNode\<close> follows the master of a
    node and carries the nodes it has seen, so it ends on cycles. Both have termination proofs.
  \<^item> A wait loop (\<^verbatim>\<open>Wait\<close>, \<^verbatim>\<open>WaitForOperatorStatusTable\<close>, the wait for a source of a clone) ends by the deadline of its
    context. It gets the number of polls that fit before the deadline, a parameter about which the theorems assume nothing
    but, where a wait must succeed, that the event comes within them; running out of polls is the error of the deadline.
  \<^item> The parser of JSON gets twice the length of the text plus one as fuel: every value and every element takes
    a character at least. That this is enough for every printed value is part of the proof that it is read back.
  \<^item> The channel of the registry holds 1024 events, as in the code; that a period ends is proved with a measure.
  \<^item> Progress of the server of backups is a bound on its steps and the possibility of a step until all requests are answered.

  \<^bold>\<open>PARAMETERS.\<close>
  Code that is not in the repository is a parameter. What the proofs use of it are hypotheses with a name, satisfied by
  a concrete function in the witness of each theorem.

  \<^item> The API server: a record of answers per controller. The answers are arbitrary, errors at every call included. Where a theorem needs that
    a write returns what was written it says so.
  \<^item> The MySQL servers: the answer to a statement may depend on all statements before it.
  \<^item> Orchestrator: its answers for the updater; the network and the service for the HTTP client.
  \<^item> \<^verbatim>\<open>blang/semver\<close> (\<open>blang_ok\<close>: parsing, printing and the order of release versions), \<^verbatim>\<open>resource.Quantity\<close> (\<open>quantity_ok\<close>), \<^verbatim>\<open>go-ini\<close>
    (\<open>ini_ok\<close>), the cron library (\<open>cron_lib_ok\<close>), \<^verbatim>\<open>sort.Sort\<close>, \<^verbatim>\<open>mergo\<close>, \<^verbatim>\<open>intstr\<close>, the finalizer library of \<^verbatim>\<open>controller-util\<close>, the random source of
    the passwords, \<^verbatim>\<open>SetControllerReference\<close>, the defaults of the scheme for a pod, the parsers of typed flags, the manager, and cobra.
  \<^item> The processes of the sidecar (\<^verbatim>\<open>xtrabackup\<close>, \<^verbatim>\<open>xbstream\<close>, \<^verbatim>\<open>rclone\<close>, \<^verbatim>\<open>gzip\<close>), its HTTP transport and its file system.

  \<^bold>\<open>WHAT IS SHOWN.\<close>
  Every property stands in the theory of its component below its number. They fall into these groups.

  \<^item> Upgrades: only accepted upgrades, one line of versions at a time, reach the servers; the recorded version follows the servers that run;
    the stateful set and \<^verbatim>\<open>my.cnf\<close> agree with the machine; a blocked upgrade holds the run.
  \<^item> One writer: a run makes at most one node writable, never during a failover; in the closed loop a cluster with settled pods reaches one
    writer in two runs and stays there; at most one pod has the label of the master after each single write; services
    select what they are named for; the master is the common root of the topology, on every topology.
  \<^item> Data is kept: what the cleaner, the upgrader and the finalizers may remove, and when.
  \<^item> Start of a node: order of the initialization, a clone is complete and prepared, the marker in the init file is its
    last statement, the environment of the template is read back.
  \<^item> Backups: an object changes only for a complete backup, from the job to the process; one backup at a time, all answered;
    the cron entries refine the schedules.
  \<^item> Scheduling: every registered cluster is put into the work queue once per period; periods end.
  \<^item> Formats: JSON of the topology, versions printed by servers, tags of images, the catalog.
  \<^item> Defects: a theorem that names a failure states what the code does, at the place where comments or the other side of an interface promise something else
    (a backup job without the variable its process insists on, an init container without the script it copies, a partial restore
    that is accepted).

  The lemmas below the properties describe each operation on every branch. Invariants are proved by induction over
  the steps (\<^verbatim>\<open>upgrade_trans\<close>, \<^verbatim>\<open>server_reaches\<close>, \<^verbatim>\<open>registry_run\<close>); effects of a run by the collections \<^verbatim>\<open>adds_intros\<close>, \<^verbatim>\<open>const_defs\<close>, \<^verbatim>\<open>go_defs\<close>.

  \<^bold>\<open>NOT MODELLED.\<close>
  \<^item> Generated code (\<^verbatim>\<open>zz_generated.deepcopy.go\<close>, the registration of the defaults) and the registration of schemes and groups.
    A deep copy of a value is the value.
  \<^item> The constructors that only store their arguments, the accessors of the syncer interface, logging and metrics.
  \<^item> The other test doubles, the factories of test objects and the end-to-end tests.
  \<^item> Locks: the registry of version profiles is written at the start only, and the lock of the cron controller makes a
    registration one step.
  \<^item> The timeouts of HTTP transports and of single SQL queries, other than as errors; the shutdown of the server of the sidecar,
    which waits for a channel that nobody closes.
  \<^item> Functions that the programs never call: \<^verbatim>\<open>QueryRow\<close> and \<^verbatim>\<open>QueryRows\<close> of the SQL runner, \<^verbatim>\<open>retryLookupHost\<close>.
  \<^item> In JSON, the replacement of invalid UTF-8 and the limit on nesting; in the service of the tests, writes of a test
    through a pointer to a stored instance.
\<close>

end
